(* ===== verification/Prelude.thy ===== *)
theory Prelude
  imports Complex_Main "HOL-Library.Sublist"
begin

text \<open>
  What every component shares: the error values of the Go code, the type of an operation that
  reads and writes a state and may return an error, the combinators that stand for Go's
  \<^verbatim>\<open>if err != nil { return ... }\<close>, the frame predicate \<open>keeps\<close> with its rule collection, and the
  few string functions of Go's standard library that the services call.
\<close>

named_theorems keeps_intros "an operation leaves a view of the state alone"
named_theorems io_defs "the combinators of operations, unfolded"

section \<open>Errors\<close>

text \<open>
  The sentinel errors of all packages: \<^verbatim>\<open>presence/domain.go\<close>, \<^verbatim>\<open>auth/domain.go\<close>,
  \<^verbatim>\<open>auth/mfa/mfa.go\<close>, \<^verbatim>\<open>playback/domain.go\<close>, \<^verbatim>\<open>library/domain.go\<close>,
  \<^verbatim>\<open>catalog/domain.go\<close>, \<^verbatim>\<open>auth/token/jwt.go\<close>, \<^verbatim>\<open>presence/ws/conn.go\<close> and, for the libraries the
  code compares against, \<^verbatim>\<open>redis.Nil\<close>, \<^verbatim>\<open>http.ErrServerClosed\<close> and \<^verbatim>\<open>migrate.ErrNoChange\<close>.
\<close>

datatype sentinel =
    PresenceErrInvalidInput | ErrSettingsNotFound | ErrConsentRequired | ErrConsentExpired
  | ErrCannotBlockSelf | ErrBlockNotFound | ErrInvalidRadius | ErrInvalidRevealLevel
  | ErrInvalidVisibility | ErrIngestSaturated | ErrMFARequired
  | AuthErrInvalidInput | ErrEmailTaken | ErrInvalidCredentials | ErrUserNotFound
  | ErrInvalidRefreshToken | ErrRefreshTokenExpired | ErrRefreshTokenRevoked
  | ErrRefreshTokenReused | ErrIdentityNotLinked
  | ErrSecretNotFound | MfaErrNotImplemented | OAuthErrNotImplemented | ErrUnsupportedProvider
  | ErrInvalidHash | ErrIncompatibleVersion | ErrBodyTooLarge | TrailingData
  | PlaybackErrInvalidInput | ErrSessionNotFound | ErrForbidden | PlaybackErrTrackNotFound
  | ErrEmptyQueue
  | LibraryErrInvalidInput | ErrPlaylistNotFound | ErrNotOwner | LibraryErrTrackNotFound
  | ErrTrackNotInPlaylist
  | CatalogErrInvalidInput | CatalogErrTrackNotFound | ErrAlbumNotFound | ErrArtistNotFound
  | ErrInvalidToken | ErrExpiredToken
  | ErrConnClosed | ErrOutboundBufferFull
  | RedisNil | ErrServerClosed | MigrateErrNoChange

text \<open>
  An error value: a sentinel, an error wrapped by \<^verbatim>\<open>fmt.Errorf("context: %w", err)\<close>, one extended
  by \<^verbatim>\<open>fmt.Errorf("%w: detail", err)\<close>, or an error of a driver or of the system.
\<close>

datatype err =
    Sentinel sentinel
  | Wrapped string err
  | Detailed err string
  | Foreign string

text \<open>\<^verbatim>\<open>errors.Is\<close> follows the chain of wrapped errors.\<close>

fun errors_Is :: "err \<Rightarrow> sentinel \<Rightarrow> bool" where
  "errors_Is (Sentinel s) t = (s = t)"
| "errors_Is (Wrapped _ e) t = errors_Is e t"
| "errors_Is (Detailed e _) t = errors_Is e t"
| "errors_Is (Foreign _) t = False"

text \<open>An error chain ends in at most one sentinel.\<close>

lemma errors_Is_unique: "errors_Is e s \<Longrightarrow> errors_Is e t \<Longrightarrow> s = t"
  by (induction e) auto

section \<open>Operations\<close>

text \<open>
  A Go function that returns \<^verbatim>\<open>(T, error)\<close> and works on the state \<open>'w\<close>. An error does not undo
  what the function did before: the state after it is part of the result.
\<close>

type_synonym ('w, 'a) io = "'w \<Rightarrow> (err + 'a) \<times> 'w"

type_synonym time = int \<comment> \<open>nanoseconds; \<^verbatim>\<open>time.Time\<close>\<close>
type_synonym duration = int \<comment> \<open>nanoseconds; \<^verbatim>\<open>time.Duration\<close>\<close>

definition ret :: "'a \<Rightarrow> ('w, 'a) io" where
  "ret x = (\<lambda>w. (Inr x, w))"

definition throw :: "err \<Rightarrow> ('w, 'a) io" where
  "throw e = (\<lambda>w. (Inl e, w))"

text \<open>\<^verbatim>\<open>x, err := m; if err != nil { return err }; k\<close>\<close>

definition bindE :: "('w, 'a) io \<Rightarrow> ('a \<Rightarrow> ('w, 'b) io) \<Rightarrow> ('w, 'b) io" where
  "bindE m k = (\<lambda>w. case m w of (Inl e, w') \<Rightarrow> (Inl e, w') | (Inr x, w') \<Rightarrow> k x w')"

text \<open>\<^verbatim>\<open>if err != nil { return fmt.Errorf("context: %w", err) }\<close>\<close>

definition wrapE :: "string \<Rightarrow> ('w, 'a) io \<Rightarrow> ('w, 'a) io" where
  "wrapE s m = (\<lambda>w. case m w of (Inl e, w') \<Rightarrow> (Inl (Wrapped s e), w') | (Inr x, w') \<Rightarrow> (Inr x, w'))"

text \<open>The error as a value, for code that inspects it: \<^verbatim>\<open>x, err := m\<close>.\<close>

definition attempt :: "('w, 'a) io \<Rightarrow> ('w, err + 'a) io" where
  "attempt m = (\<lambda>w. case m w of (r, w') \<Rightarrow> (Inr r, w'))"

text \<open>\<^verbatim>\<open>_ = m\<close>\<close>

definition ignore :: "('w, 'a) io \<Rightarrow> ('w, unit) io" where
  "ignore m = (\<lambda>w. case m w of (_, w') \<Rightarrow> (Inr (), w'))"

text \<open>A call that has no error result, such as \<^verbatim>\<open>clock.Now()\<close>.\<close>

definition call :: "('w \<Rightarrow> 'a \<times> 'w) \<Rightarrow> ('w, 'a) io" where
  "call f = (\<lambda>w. case f w of (x, w') \<Rightarrow> (Inr x, w'))"

text \<open>An operation on a part of the state.\<close>

definition zoom :: "('w \<Rightarrow> 'r) \<Rightarrow> ('r \<Rightarrow> 'w \<Rightarrow> 'w) \<Rightarrow> ('r \<Rightarrow> 'a \<times> 'r) \<Rightarrow> 'w \<Rightarrow> 'a \<times> 'w" where
  "zoom part upd m = (\<lambda>w. case m (part w) of (x, r') \<Rightarrow> (x, upd r' w))"

lemmas io_unfold [io_defs] = ret_def throw_def bindE_def wrapE_def attempt_def ignore_def call_def

lemma ret_apply [simp]: "ret x w = (Inr x, w)"
  and throw_apply [simp]: "throw e w = (Inl e, w)"
  by (simp_all add: ret_def throw_def)

lemma bindE_Inr: "m w = (Inr x, w1) \<Longrightarrow> bindE m k w = k x w1"
  and bindE_Inl: "m w = (Inl e, w1) \<Longrightarrow> bindE m k w = (Inl e, w1)"
  by (simp_all add: bindE_def)

lemma bindE_ret [simp]: "bindE (ret x) k = k x"
  and bindE_throw [simp]: "bindE (throw e) k = throw e"
  by (simp_all add: bindE_def ret_def throw_def)

text \<open>Inversion: how an operation can have returned a value, or an error.\<close>

lemma bindE_InrE [elim!]:
  assumes "bindE m k w = (Inr y, w')"
  obtains x w1 where "m w = (Inr x, w1)" and "k x w1 = (Inr y, w')"
  using assms by (auto simp: bindE_def split: prod.splits sum.splits)

lemma bindE_InlE:
  assumes "bindE m k w = (Inl e, w')"
  obtains "m w = (Inl e, w')"
  | x w1 where "m w = (Inr x, w1)" and "k x w1 = (Inl e, w')"
  using assms by (auto simp: bindE_def split: prod.splits sum.splits)

lemma bindE_E:
  assumes "bindE m k w = (r, w')"
  obtains (failed) e where "m w = (Inl e, w')" and "r = Inl e"
  | (answered) x w1 where "m w = (Inr x, w1)" and "k x w1 = (r, w')"
  using assms by (auto simp: bindE_def split: prod.splits sum.splits)

lemma bindE_assoc: "bindE (bindE m f) g = bindE m (\<lambda>x. bindE (f x) g)"
  by (rule ext) (simp add: bindE_def split: prod.split sum.split)

lemma wrapE_InrD [dest!]: "wrapE s m w = (Inr y, w') \<Longrightarrow> m w = (Inr y, w')"
  by (auto simp: wrapE_def split: prod.splits sum.splits)

lemma wrapE_InlE:
  assumes "wrapE s m w = (Inl e, w')"
  obtains e' where "m w = (Inl e', w')" and "e = Wrapped s e'"
  using assms by (auto simp: wrapE_def split: prod.splits sum.splits)

lemma attempt_InrD [dest!]: "attempt m w = (Inr r, w') \<Longrightarrow> m w = (r, w')"
  by (auto simp: attempt_def split: prod.splits)

lemma attempt_not_Inl [simp]: "attempt m w \<noteq> (Inl e, w')"
  by (auto simp: attempt_def split: prod.splits)

lemma ignore_InrD: "ignore m w = (Inr u, w') \<Longrightarrow> \<exists>r. m w = (r, w')"
  by (auto simp: ignore_def split: prod.splits)

lemma ignore_not_Inl [simp]: "ignore m w \<noteq> (Inl e, w')"
  by (auto simp: ignore_def split: prod.splits)

lemma call_InrD [dest!]: "call f w = (Inr x, w') \<Longrightarrow> f w = (x, w')"
  by (auto simp: call_def split: prod.splits)

lemma call_not_Inl [simp]: "call f w \<noteq> (Inl e, w')"
  by (auto simp: call_def split: prod.splits)

lemma zoom_eqD: "zoom part upd m w = (x, w') \<Longrightarrow> \<exists>r'. m (part w) = (x, r') \<and> w' = upd r' w"
  by (auto simp: zoom_def split: prod.splits)

section \<open>Frames\<close>

text \<open>\<open>keeps v m\<close>: whatever \<open>m\<close> returns, the view \<open>v\<close> of the state is what it was.\<close>

definition keeps :: "('w \<Rightarrow> 'v) \<Rightarrow> ('w \<Rightarrow> 'a \<times> 'w) \<Rightarrow> bool" where
  "keeps v m \<longleftrightarrow> (\<forall>w. v (snd (m w)) = v w)"

lemma keepsD: "keeps v m \<Longrightarrow> m w = (r, w') \<Longrightarrow> v w' = v w"
  unfolding keeps_def by (metis snd_conv)

lemma keepsI: "(\<And>w r w'. m w = (r, w') \<Longrightarrow> v w' = v w) \<Longrightarrow> keeps v m"
  unfolding keeps_def by (metis prod.collapse)

lemma keeps_ret [keeps_intros]: "keeps v (ret x)"
  and keeps_throw [keeps_intros]: "keeps v (throw e)"
  by (simp_all add: keeps_def)

lemma keeps_bindE [keeps_intros]:
  "keeps v m \<Longrightarrow> (\<And>x. keeps v (k x)) \<Longrightarrow> keeps v (bindE m k)"
  by (auto simp: keeps_def bindE_def split: prod.splits sum.splits) (metis snd_conv)+

lemma keeps_wrapE [keeps_intros]: "keeps v m \<Longrightarrow> keeps v (wrapE s m)"
  and keeps_attempt [keeps_intros]: "keeps v m \<Longrightarrow> keeps v (attempt m)"
  and keeps_ignore [keeps_intros]: "keeps v m \<Longrightarrow> keeps v (ignore m)"
  by (auto simp: keeps_def wrapE_def attempt_def ignore_def split: prod.splits sum.splits)
    (metis snd_conv)+

lemma keeps_call [keeps_intros]: "keeps v f \<Longrightarrow> keeps v (call f)"
  by (auto simp: keeps_def call_def split: prod.splits) (metis snd_conv)

lemma keeps_if [keeps_intros]:
  "(b \<Longrightarrow> keeps v m) \<Longrightarrow> (\<not> b \<Longrightarrow> keeps v n) \<Longrightarrow> keeps v (if b then m else n)"
  by simp

lemma keeps_case_sum [keeps_intros]:
  "(\<And>e. r = Inl e \<Longrightarrow> keeps v (f e)) \<Longrightarrow> (\<And>x. r = Inr x \<Longrightarrow> keeps v (g x)) \<Longrightarrow>
   keeps v (case r of Inl e \<Rightarrow> f e | Inr x \<Rightarrow> g x)"
  by (cases r) auto

lemma keeps_case_option [keeps_intros]:
  "(r = None \<Longrightarrow> keeps v f) \<Longrightarrow> (\<And>x. r = Some x \<Longrightarrow> keeps v (g x)) \<Longrightarrow>
   keeps v (case r of None \<Rightarrow> f | Some x \<Rightarrow> g x)"
  by (cases r) auto

lemma keeps_case_prod [keeps_intros]:
  "(\<And>x y. r = (x, y) \<Longrightarrow> keeps v (f x y)) \<Longrightarrow> keeps v (case r of (x, y) \<Rightarrow> f x y)"
  by (cases r) auto

lemma keeps_let [keeps_intros]: "keeps v (f x) \<Longrightarrow> keeps v (let y = x in f y)"
  by simp

lemma keeps_zoom_other:
  "(\<And>r w. v (upd r w) = v w) \<Longrightarrow> keeps v (zoom part upd m)"
  by (auto simp: keeps_def zoom_def split: prod.splits)

section \<open>Loops\<close>

text \<open>
  \<^verbatim>\<open>for _, x := range xs { ... continue ... out = append(out, y) }\<close>: the body answers \<open>None\<close> where
  the loop goes on without appending, and an error ends the loop.
\<close>

primrec collect :: "('a \<Rightarrow> ('w, 'b option) io) \<Rightarrow> 'a list \<Rightarrow> ('w, 'b list) io" where
  "collect f [] = ret []"
| "collect f (x # xs) =
     bindE (f x) (\<lambda>r. bindE (collect f xs) (\<lambda>ys.
       ret (case r of None \<Rightarrow> ys | Some y \<Rightarrow> y # ys)))"

definition appended :: "'b list \<Rightarrow> 'b option \<Rightarrow> 'b list" where
  "appended ys r = (case r of None \<Rightarrow> ys | Some y \<Rightarrow> ys @ [y])"

lemma appended_simps [simp]: "appended ys None = ys" "appended ys (Some y) = ys @ [y]"
  by (simp_all add: appended_def)

lemma keeps_collect [keeps_intros]: "(\<And>x. keeps v (f x)) \<Longrightarrow> keeps v (collect f xs)"
  by (induction xs) (auto intro!: keeps_intros)

text \<open>What holds of the state and the list built so far holds at the end of the loop.\<close>

lemma collect_invariant_acc:
  assumes "collect f xs w = (Inr ys, w')" and "I w acc"
    and "\<And>x w r w' ys. x \<in> set xs \<Longrightarrow> I w ys \<Longrightarrow> f x w = (Inr r, w') \<Longrightarrow> I w' (appended ys r)"
  shows "I w' (acc @ ys)"
  using assms
proof (induction xs arbitrary: w ys acc)
  case Nil
  then show ?case by simp
next
  case (Cons x xs)
  from Cons.prems(1) obtain r w1 zs where f: "f x w = (Inr r, w1)"
    and zs: "collect f xs w1 = (Inr zs, w')" and ys: "ys = (case r of None \<Rightarrow> zs | Some y \<Rightarrow> y # zs)"
    by auto
  have "I w1 (appended acc r)" by (rule Cons.prems(3) [OF _ Cons.prems(2) f]) simp
  then have "I w' (appended acc r @ zs)" by (rule Cons.IH [OF zs]) (rule Cons.prems(3), auto)
  then show ?case by (cases r) (simp_all add: ys)
qed

lemmas collect_invariant = collect_invariant_acc [where acc = "[]", simplified]

text \<open>Also when an error ends it.\<close>

lemma collect_state_invariant:
  assumes "collect f xs w = (r, w')" and "I w"
    and "\<And>x w r w'. x \<in> set xs \<Longrightarrow> I w \<Longrightarrow> f x w = (r, w') \<Longrightarrow> I w'"
  shows "I w'"
  using assms
proof (induction xs arbitrary: w r w')
  case Nil
  then show ?case by simp
next
  case (Cons x xs)
  obtain y w1 where f: "f x w = (y, w1)" by fastforce
  have I1: "I w1" by (rule Cons.prems(3) [OF _ Cons.prems(2) f]) simp
  show ?case
  proof (cases y)
    case (Inl e)
    with Cons.prems(1) f I1 show ?thesis by (simp add: bindE_Inl)
  next
    case (Inr z)
    obtain zs w2 where c: "collect f xs w1 = (zs, w2)" by fastforce
    have "I w2" by (rule Cons.IH [OF c I1]) (rule Cons.prems(3), auto)
    moreover have "w' = w2"
      using Cons.prems(1) f Inr c by (cases zs) (auto simp: bindE_def)
    ultimately show ?thesis by simp
  qed
qed

section \<open>Changes\<close>

text \<open>\<open>moves v R m\<close>: whatever \<open>m\<close> returns, the view \<open>v\<close> of the state has moved along \<open>R\<close>.\<close>

definition moves :: "('w \<Rightarrow> 'v) \<Rightarrow> ('v \<Rightarrow> 'v \<Rightarrow> bool) \<Rightarrow> ('w \<Rightarrow> 'a \<times> 'w) \<Rightarrow> bool" where
  "moves v R m \<longleftrightarrow> (\<forall>w. R (v w) (v (snd (m w))))"

named_theorems moves_intros "an operation moves a view of the state along a relation"

lemma movesD: "moves v R m \<Longrightarrow> m w = (r, w') \<Longrightarrow> R (v w) (v w')"
  unfolding moves_def by (metis snd_conv)

lemma movesI: "(\<And>w r w'. m w = (r, w') \<Longrightarrow> R (v w) (v w')) \<Longrightarrow> moves v R m"
  unfolding moves_def by (metis prod.collapse)

lemma moves_keeps: "reflp R \<Longrightarrow> keeps v m \<Longrightarrow> moves v R m"
  by (simp add: moves_def keeps_def reflp_def)

lemma moves_bindE [moves_intros]:
  assumes "transp R" and m: "moves v R m" and k: "\<And>x. moves v R (k x)"
  shows "moves v R (bindE m k)"
proof (rule movesI)
  fix w r w'
  assume run: "bindE m k w = (r, w')"
  obtain x w1 where mw: "m w = (x, w1)" by fastforce
  note first = movesD [OF m mw]
  show "R (v w) (v w')"
  proof (cases x)
    case (Inl e)
    with run mw first show ?thesis by (simp add: bindE_Inl)
  next
    case (Inr y)
    with run mw have "k y w1 = (r, w')" by (simp add: bindE_Inr)
    from first movesD [OF k this] show ?thesis by (rule transpD [OF assms(1)])
  qed
qed

lemma moves_wrapE [moves_intros]: "moves v R m \<Longrightarrow> moves v R (wrapE s m)"
  and moves_attempt [moves_intros]: "moves v R m \<Longrightarrow> moves v R (attempt m)"
  and moves_ignore [moves_intros]: "moves v R m \<Longrightarrow> moves v R (ignore m)"
  by (auto simp: moves_def wrapE_def attempt_def ignore_def split: prod.splits sum.splits)
    (metis snd_conv)+

lemma moves_if [moves_intros]:
  "(b \<Longrightarrow> moves v R m) \<Longrightarrow> (\<not> b \<Longrightarrow> moves v R n) \<Longrightarrow> moves v R (if b then m else n)"
  by simp

lemma moves_case_option [moves_intros]:
  "(r = None \<Longrightarrow> moves v R f) \<Longrightarrow> (\<And>x. r = Some x \<Longrightarrow> moves v R (g x)) \<Longrightarrow>
   moves v R (case r of None \<Rightarrow> f | Some x \<Rightarrow> g x)"
  by (cases r) auto

lemma moves_case_sum [moves_intros]:
  "(\<And>e. r = Inl e \<Longrightarrow> moves v R (f e)) \<Longrightarrow> (\<And>x. r = Inr x \<Longrightarrow> moves v R (g x)) \<Longrightarrow>
   moves v R (case r of Inl e \<Rightarrow> f e | Inr x \<Rightarrow> g x)"
  by (cases r) auto

lemma moves_collect [moves_intros]:
  "reflp R \<Longrightarrow> transp R \<Longrightarrow> (\<And>x. moves v R (f x)) \<Longrightarrow> moves v R (collect f xs)"
  by (induction xs) (auto intro!: moves_intros intro: moves_keeps keeps_intros)

section \<open>Operations on a part of the state\<close>

lemma zoom_part:
  assumes "\<And>r w. part (upd r w) = r" and "zoom part upd m w = (x, w')"
  shows "m (part w) = (x, part w')"
  using assms by (auto simp: zoom_def split: prod.splits)

lemma keeps_zoom_same:
  assumes "\<And>r w. part (upd r w) = r" and "keeps v m"
  shows "keeps (\<lambda>w. v (part w)) (zoom part upd m)"
  using assms by (auto simp: keeps_def zoom_def split: prod.splits) (metis snd_conv)

lemma moves_zoom_same:
  assumes "\<And>r w. part (upd r w) = r" and "moves v R m"
  shows "moves (\<lambda>w. v (part w)) R (zoom part upd m)"
  using assms by (auto simp: moves_def zoom_def split: prod.splits) (metis snd_conv)

end
