(* ===== verification/Geo.thy ===== *)
theory Geo
  imports Prelude "HOL-Library.Word"
begin

text \<open>
  \<^verbatim>\<open>backend/internal/presence/bucket.go\<close>: positions, the haversine distance, the spatial jitter
  and the four distance buckets. \<^verbatim>\<open>float64\<close> arithmetic is modelled over the reals, so rounding is
  not part of the model; \<^verbatim>\<open>math.Sin\<close>, \<^verbatim>\<open>math.Cos\<close>, \<^verbatim>\<open>math.Sqrt\<close> are the real functions.
\<close>

record GeoPosition =
  Lat :: real
  Lon :: real

definition earthRadiusM :: real where
  "earthRadiusM = 6371000"

text \<open>\<^verbatim>\<open>math.Atan2\<close> of Go's standard library.\<close>

definition Atan2 :: "real \<Rightarrow> real \<Rightarrow> real" where
  "Atan2 y x =
     (if x > 0 then arctan (y / x)
      else if x < 0 then (if y \<ge> 0 then arctan (y / x) + pi else arctan (y / x) - pi)
      else if y > 0 then pi / 2 else if y < 0 then - (pi / 2) else 0)"

definition DistanceMeters :: "GeoPosition \<Rightarrow> GeoPosition \<Rightarrow> real" where
  "DistanceMeters a b =
     (let lat1 = Lat a * pi / 180;
          lat2 = Lat b * pi / 180;
          dLat = (Lat b - Lat a) * pi / 180;
          dLon = (Lon b - Lon a) * pi / 180;
          sinDLat2 = sin (dLat / 2);
          sinDLon2 = sin (dLon / 2);
          h = sinDLat2 * sinDLat2 + cos lat1 * cos lat2 * sinDLon2 * sinDLon2;
          c = 2 * Atan2 (sqrt h) (sqrt (1 - h))
      in earthRadiusM * c)"

definition JitterRadiusM :: real where
  "JitterRadiusM = 75"

definition offsetMeters :: "GeoPosition \<Rightarrow> real \<Rightarrow> real \<Rightarrow> GeoPosition" where
  "offsetMeters pos dNorthM dEastM =
     (let dLat = dNorthM / earthRadiusM * (180 / pi);
          dLon = dEastM / (earthRadiusM * cos (Lat pos * pi / 180)) * (180 / pi)
      in \<lparr>Lat = Lat pos + dLat, Lon = Lon pos + dLon\<rparr>)"

text \<open>
  \<^verbatim>\<open>rand.Read\<close> fills eight bytes, read as one big-endian 64-bit word; the argument \<open>rnd\<close> is that
  read, which may fail. The conversion to \<^verbatim>\<open>float64\<close> of a 53-bit integer is exact.
\<close>

definition secureFloat64 :: "('w, 64 word) io \<Rightarrow> ('w, real) io" where
  "secureFloat64 rnd =
     bindE rnd (\<lambda>b. ret (real (unat (drop_bit (64 - 53) b)) / real ((2::nat) ^ 53)))"

definition RandJitterer_Jitter :: "('w, 64 word) io \<Rightarrow> GeoPosition \<Rightarrow> ('w, GeoPosition) io" where
  "RandJitterer_Jitter rnd pos =
     bindE (wrapE ''presence: jitter'' (secureFloat64 rnd)) (\<lambda>a.
     bindE (wrapE ''presence: jitter'' (secureFloat64 rnd)) (\<lambda>r.
       let angle = a * 2 * pi;
           radius = JitterRadiusM * sqrt r
       in ret (offsetMeters pos (radius * cos angle) (radius * sin angle))))"

record FixedJitterer =
  NorthM :: real
  EastM :: real

definition FixedJitterer_Jitter :: "FixedJitterer \<Rightarrow> GeoPosition \<Rightarrow> GeoPosition" where
  "FixedJitterer_Jitter f pos = offsetMeters pos (NorthM f) (EastM f)"

record SequenceJitterer =
  Offsets :: "FixedJitterer list"
  sj_n :: nat

text \<open>With no offsets at all the index would be \<open>-1\<close>, and the position is returned as it is.\<close>

definition SequenceJitterer_Jitter ::
    "GeoPosition \<Rightarrow> SequenceJitterer \<Rightarrow> GeoPosition \<times> SequenceJitterer" where
  "SequenceJitterer_Jitter pos s =
     (let i = (if int (sj_n s) \<ge> int (length (Offsets s)) then int (length (Offsets s)) - 1
               else int (sj_n s))
      in if i < 0 then (pos, s)
         else (FixedJitterer_Jitter (Offsets s ! nat i) pos, s\<lparr>sj_n := sj_n s + 1\<rparr>))"

datatype DistanceBucket = BucketNone | Bucket1 | Bucket2 | Bucket3 | Bucket4

definition BucketFor :: "real \<Rightarrow> DistanceBucket" where
  "BucketFor distanceM =
     (if distanceM < 150 then Bucket1
      else if distanceM < 1000 then Bucket2
      else if distanceM < 5000 then Bucket3
      else if distanceM < 15000 then Bucket4
      else BucketNone)"

section \<open>The haversine form is the great-circle distance\<close>

lemma haversine_eq:
  fixes p q d :: real
  shows "sin ((q - p) / 2) * sin ((q - p) / 2) + cos p * cos q * sin (d / 2) * sin (d / 2)
       = (1 - (sin p * sin q + cos p * cos q * cos d)) / 2"
proof -
  have half: "sin (x / 2) * sin (x / 2) = (1 - cos x) / 2" for x :: real
    using cos_double_sin [of "x / 2"] by (simp add: power2_eq_square)
  have "cos p * cos q * sin (d / 2) * sin (d / 2) = cos p * cos q * ((1 - cos d) / 2)"
    by (simp add: half [of d] mult.assoc)
  then show ?thesis
    by (simp add: half [of "q - p"] cos_diff field_simps)
qed

lemma unit_product_le_1:
  fixes p q d :: real
  shows "\<bar>sin p * sin q + cos p * cos q * cos d\<bar> \<le> 1"
proof -
  have "\<bar>cos p * cos q * cos d\<bar> \<le> \<bar>cos p * cos q\<bar>"
    by (simp add: abs_mult mult_left_le)
  then have up: "\<bar>sin p * sin q + cos p * cos q * cos d\<bar> \<le> \<bar>sin p * sin q\<bar> + \<bar>cos p * cos q\<bar>"
    by linarith
  have "2 * \<bar>sin p * sin q\<bar> \<le> sin p ^ 2 + sin q ^ 2"
    using zero_le_power2 [of "\<bar>sin p\<bar> - \<bar>sin q\<bar>"] by (simp add: power2_diff abs_mult)
  moreover have "2 * \<bar>cos p * cos q\<bar> \<le> cos p ^ 2 + cos q ^ 2"
    using zero_le_power2 [of "\<bar>cos p\<bar> - \<bar>cos q\<bar>"] by (simp add: power2_diff abs_mult)
  moreover have "sin p ^ 2 + cos p ^ 2 = 1" and "sin q ^ 2 + cos q ^ 2 = 1"
    by simp_all
  ultimately show ?thesis using up by linarith
qed

lemma Atan2_sqrt:
  assumes "0 \<le> h" and "h \<le> 1"
  shows "2 * Atan2 (sqrt h) (sqrt (1 - h)) = arccos (1 - 2 * h)"
proof -
  define t where "t = arcsin (sqrt h)"
  have s1: "sqrt h \<le> 1" "0 \<le> sqrt h" using assms by simp_all
  have t_bounds: "0 \<le> t" "t \<le> pi / 2"
    using s1 arcsin_le_arcsin [of 0 "sqrt h"] arcsin_ubound [OF order_trans [OF _ s1(2)] s1(1)]
    by (simp_all add: t_def)
  have sin_t: "sin t = sqrt h"
    unfolding t_def by (rule sin_arcsin) (use s1 in linarith)+
  have cos_t: "cos t = sqrt (1 - h)"
  proof -
    have "-1 \<le> sqrt h" using s1 by linarith
    from cos_arcsin [OF this s1(1)] show ?thesis using assms by (simp add: t_def)
  qed
  have "Atan2 (sqrt h) (sqrt (1 - h)) = t"
  proof (cases "h = 1")
    case True
    then show ?thesis using t_bounds by (simp add: Atan2_def t_def)
  next
    case False
    with assms have pos: "0 < sqrt (1 - h)" by simp
    have "t < pi / 2" using pos cos_t t_bounds cos_pi_half by (cases "t = pi / 2") auto
    then have "arctan (tan t) = t" using t_bounds by (intro arctan_tan) auto
    then show ?thesis using pos sin_t cos_t by (simp add: Atan2_def tan_def)
  qed
  moreover have "cos (2 * t) = 1 - 2 * h"
    using sin_t assms by (simp add: cos_double_sin)
  ultimately show ?thesis
    using t_bounds arccos_cos [of "2 * t"] by simp
qed

text \<open>The cosine of the central angle, as an inner product of unit vectors.\<close>

definition central_cos :: "GeoPosition \<Rightarrow> GeoPosition \<Rightarrow> real" where
  "central_cos a b =
     sin (Lat a * pi / 180) * sin (Lat b * pi / 180)
     + cos (Lat a * pi / 180) * cos (Lat b * pi / 180) * cos ((Lon b - Lon a) * pi / 180)"

lemma central_cos_abs: "\<bar>central_cos a b\<bar> \<le> 1"
  unfolding central_cos_def by (rule unit_product_le_1)

lemma central_cos_bounds: "-1 \<le> central_cos a b" "central_cos a b \<le> 1"
  using central_cos_abs [of a b] by linarith+

lemma DistanceMeters_central: "DistanceMeters a b = earthRadiusM * arccos (central_cos a b)"
proof -
  define h where "h = (1 - central_cos a b) / 2"
  have h01: "0 \<le> h" "h \<le> 1" using central_cos_bounds [of a b] by (simp_all add: h_def)
  have sub: "(Lat b - Lat a) * pi / 180 / 2 = (Lat b * pi / 180 - Lat a * pi / 180) / 2"
    by (simp add: field_simps)
  have "DistanceMeters a b = earthRadiusM * (2 * Atan2 (sqrt h) (sqrt (1 - h)))"
    unfolding DistanceMeters_def Let_def sub
      haversine_eq [of "Lat b * pi / 180" "Lat a * pi / 180" "(Lon b - Lon a) * pi / 180"]
    by (simp add: h_def central_cos_def)
  moreover have "1 - 2 * h = central_cos a b" by (simp add: h_def field_simps)
  ultimately show ?thesis by (simp only: Atan2_sqrt [OF h01])
qed

lemma central_cos_sym: "central_cos a b = central_cos b a"
proof -
  have "cos ((Lon b - Lon a) * pi / 180) = cos (- ((Lon b - Lon a) * pi / 180))"
    by (rule cos_minus [symmetric])
  also have "- ((Lon b - Lon a) * pi / 180) = (Lon a - Lon b) * pi / 180"
    by (simp add: field_simps)
  finally show ?thesis by (simp add: central_cos_def)
qed

lemma DistanceMeters_sym: "DistanceMeters a b = DistanceMeters b a"
  by (simp add: DistanceMeters_central central_cos_sym)

lemma DistanceMeters_nonneg: "0 \<le> DistanceMeters a b"
  using arccos_lbound [OF central_cos_bounds] by (simp add: DistanceMeters_central earthRadiusM_def)

lemma DistanceMeters_le: "DistanceMeters a b \<le> pi * earthRadiusM"
  using arccos_ubound [OF central_cos_bounds] by (simp add: DistanceMeters_central earthRadiusM_def)

text \<open>On one meridian the distance is the arc: what the jitter moves a position north, it moves it.\<close>

lemma DistanceMeters_meridian:
  assumes "Lon b = Lon a" and "\<bar>Lat b - Lat a\<bar> \<le> 180"
  shows "DistanceMeters a b = earthRadiusM * (\<bar>Lat b - Lat a\<bar> * pi / 180)"
proof -
  let ?d = "\<bar>Lat b - Lat a\<bar> * pi / 180"
  have "central_cos a b = cos (Lat b * pi / 180 - Lat a * pi / 180)"
    using assms(1) by (simp add: central_cos_def cos_diff)
  also have "\<dots> = cos ?d"
  proof (cases "Lat b \<ge> Lat a")
    case True
    then show ?thesis by (simp add: field_simps)
  next
    case False
    then have "?d = - (Lat b * pi / 180 - Lat a * pi / 180)" by (simp add: field_simps)
    then show ?thesis by (simp only: cos_minus)
  qed
  finally have c: "central_cos a b = cos ?d" .
  have "?d \<le> pi" using assms(2) mult_right_mono [of "\<bar>Lat b - Lat a\<bar>" 180 pi] by simp
  then have "arccos (cos ?d) = ?d" by (intro arccos_cos) simp_all
  then show ?thesis by (simp add: DistanceMeters_central c)
qed

lemma DistanceMeters_self [simp]: "DistanceMeters a a = 0"
  by (simp add: DistanceMeters_meridian)

lemma DistanceMeters_offset_north:
  assumes "\<bar>n\<bar> \<le> pi * earthRadiusM"
  shows "DistanceMeters pos (offsetMeters pos n 0) = \<bar>n\<bar>"
proof -
  have R: "0 < earthRadiusM" by (simp add: earthRadiusM_def)
  have lat: "\<bar>Lat (offsetMeters pos n 0) - Lat pos\<bar> = \<bar>n\<bar> / earthRadiusM * (180 / pi)"
    using R by (simp add: offsetMeters_def abs_mult)
  have "\<bar>n\<bar> / earthRadiusM \<le> pi" using assms R by (simp add: field_simps)
  then have "\<bar>n\<bar> / earthRadiusM * (180 / pi) \<le> pi * (180 / pi)"
    by (rule mult_right_mono) simp
  then have "\<bar>Lat (offsetMeters pos n 0) - Lat pos\<bar> \<le> 180" by (simp add: lat)
  then have "DistanceMeters pos (offsetMeters pos n 0)
      = earthRadiusM * (\<bar>Lat (offsetMeters pos n 0) - Lat pos\<bar> * pi / 180)"
    by (intro DistanceMeters_meridian) (simp_all add: offsetMeters_def)
  also have "\<dots> = \<bar>n\<bar>" using R by (simp add: lat)
  finally show ?thesis .
qed

section \<open>Jitter\<close>

lemma secureFloat64_range:
  assumes "secureFloat64 rnd w = (Inr x, w')"
  shows "0 \<le> x" and "x < 1"
proof -
  from assms obtain b :: "64 word" and w1
    where "ret (real (unat (drop_bit (64 - 53) b)) / real ((2::nat) ^ 53)) w1 = (Inr x, w')"
    unfolding secureFloat64_def by (rule bindE_InrE)
  then have x: "x = real (unat (drop_bit 11 b)) / real ((2::nat) ^ 53)" by simp
  have "unat (b :: 64 word) < 2 ^ 64" using unsigned_less [of b, where ?'a = nat] by simp
  then have "unat (drop_bit 11 b) < 2 ^ 53"
    by (simp add: drop_bit_eq_div unat_div less_mult_imp_div_less)
  then have "real (unat (drop_bit 11 b)) < real ((2::nat) ^ 53)" by (simp only: of_nat_less_iff)
  then show "x < 1" unfolding x by (subst divide_less_eq_1_pos) simp_all
  show "0 \<le> x" unfolding x by (intro divide_nonneg_nonneg of_nat_0_le_iff)
qed

text \<open>What the production jitter adds lies strictly inside the disk of \<^verbatim>\<open>JitterRadiusM\<close>.\<close>

lemma RandJitterer_disk:
  assumes "RandJitterer_Jitter rnd pos w = (Inr q, w')"
  obtains n e where "q = offsetMeters pos n e" and "n\<^sup>2 + e\<^sup>2 < JitterRadiusM\<^sup>2"
proof -
  obtain a r w1 where rw: "secureFloat64 rnd w1 = (Inr r, w')"
    and q: "q = offsetMeters pos (JitterRadiusM * sqrt r * cos (a * 2 * pi))
                               (JitterRadiusM * sqrt r * sin (a * 2 * pi))"
    using assms by (auto simp: RandJitterer_Jitter_def Let_def)
  note r = secureFloat64_range [OF rw]
  let ?n = "JitterRadiusM * sqrt r * cos (a * 2 * pi)"
  let ?e = "JitterRadiusM * sqrt r * sin (a * 2 * pi)"
  have "?n\<^sup>2 + ?e\<^sup>2 = JitterRadiusM\<^sup>2 * (sqrt r)\<^sup>2 * ((cos (a * 2 * pi))\<^sup>2 + (sin (a * 2 * pi))\<^sup>2)"
    by (simp only: power_mult_distrib distrib_left)
  also have "\<dots> = JitterRadiusM\<^sup>2 * r" using r by simp
  also have "\<dots> < JitterRadiusM\<^sup>2" using r by (simp add: JitterRadiusM_def)
  finally show thesis using q that by blast
qed

lemma SequenceJitterer_repeats_last:
  assumes "Offsets s \<noteq> []" and "length (Offsets s) \<le> sj_n s"
  shows "fst (SequenceJitterer_Jitter pos s) = FixedJitterer_Jitter (last (Offsets s)) pos"
  using assms by (simp add: SequenceJitterer_Jitter_def Let_def last_conv_nth nat_diff_distrib Suc_le_eq)

section \<open>Buckets\<close>

lemma BucketFor_None_iff [simp]: "BucketFor d = BucketNone \<longleftrightarrow> 15000 \<le> d"
  by (simp add: BucketFor_def)

lemma BucketFor_intervals:
  "BucketFor d = Bucket1 \<longleftrightarrow> d < 150"
  "BucketFor d = Bucket2 \<longleftrightarrow> 150 \<le> d \<and> d < 1000"
  "BucketFor d = Bucket3 \<longleftrightarrow> 1000 \<le> d \<and> d < 5000"
  "BucketFor d = Bucket4 \<longleftrightarrow> 5000 \<le> d \<and> d < 15000"
  by (auto simp: BucketFor_def)

end
