(* ===== verification/Go_Strings.thy ===== *)
theory Go_Strings
  imports Prelude
begin

text \<open>
  The functions of Go's \<^verbatim>\<open>strings\<close> and \<^verbatim>\<open>strconv\<close> packages that the code calls. A Go string is its
  bytes, a list of \<open>char\<close>. \<^verbatim>\<open>TrimSpace\<close> removes the UTF-8 encodings of every Unicode space;
  \<^verbatim>\<open>ToLower\<close> is modelled on ASCII letters and leaves every other byte alone.
\<close>

section \<open>Prefixes\<close>

definition HasPrefix :: "string \<Rightarrow> string \<Rightarrow> bool" where
  "HasPrefix s p \<longleftrightarrow> take (length p) s = p"

definition TrimPrefix :: "string \<Rightarrow> string \<Rightarrow> string" where
  "TrimPrefix s p = (if HasPrefix s p then drop (length p) s else s)"

lemma HasPrefix_append [simp]: "HasPrefix (p @ s) p"
  by (simp add: HasPrefix_def)

lemma TrimPrefix_append [simp]: "TrimPrefix (p @ s) p = s"
  by (simp add: TrimPrefix_def)

lemma HasPrefixE:
  assumes "HasPrefix s p"
  obtains t where "s = p @ t"
  using assms append_take_drop_id [of "length p" s] unfolding HasPrefix_def by metis

section \<open>TrimSpace and ToLower\<close>

text \<open>The UTF-8 encodings of the characters of \<^verbatim>\<open>unicode.IsSpace\<close>.\<close>

definition space_encodings :: "string list" where
  "space_encodings =
     map (\<lambda>n. [char_of n]) [9, 10, 11, 12, 13, 32 :: nat]
     @ map (map char_of)
         ([[0xC2, 0x85], [0xC2, 0xA0], [0xE1, 0x9A, 0x80],
           [0xE2, 0x80, 0xA8], [0xE2, 0x80, 0xA9], [0xE2, 0x80, 0xAF],
           [0xE2, 0x81, 0x9F], [0xE3, 0x80, 0x80]]
          @ map (\<lambda>n. [0xE2, 0x80, n]) [0x80 ..< 0x8B] :: nat list list)"

lemma space_encodings_nonempty: "p \<in> set space_encodings \<Longrightarrow> p \<noteq> []"
  by (auto simp: space_encodings_def)

definition leading_space :: "string list \<Rightarrow> string \<Rightarrow> nat option" where
  "leading_space ps s = map_option length (List.find (HasPrefix s) ps)"

function TrimFront :: "string list \<Rightarrow> string \<Rightarrow> string" where
  "TrimFront ps s =
     (case leading_space ps s of
        Some (Suc n) \<Rightarrow> if s = [] then s else TrimFront ps (drop (Suc n) s)
      | _ \<Rightarrow> s)"
  by pat_completeness auto
termination
  by (relation "measure (\<lambda>(ps, s). length s)") (auto simp: neq_Nil_conv)

declare TrimFront.simps [simp del]

definition TrimSpace :: "string \<Rightarrow> string" where
  "TrimSpace s =
     rev (TrimFront (map rev space_encodings) (rev (TrimFront space_encodings s)))"

definition ascii_lower :: "char \<Rightarrow> char" where
  "ascii_lower c = (let n = of_char c :: nat in if 65 \<le> n \<and> n \<le> 90 then char_of (n + 32) else c)"

definition ToLower :: "string \<Rightarrow> string" where
  "ToLower s = map ascii_lower s"

lemma ascii_lower_idem [simp]: "ascii_lower (ascii_lower c) = ascii_lower c"
proof -
  have "(of_char c :: nat) < 256" by simp
  then show ?thesis
    by (simp add: ascii_lower_def Let_def take_bit_eq_mod)
qed

lemma ToLower_idem [simp]: "ToLower (ToLower s) = ToLower s"
  by (simp add: ToLower_def)

lemma TrimFront_suffix: "suffix (TrimFront ps s) s"
proof (induction ps s rule: TrimFront.induct)
  case (1 ps s)
  show ?case
    using 1 by (subst TrimFront.simps)
      (auto split: option.split nat.split intro: suffix_order.trans suffix_drop)
qed

text \<open>What is left after trimming does not begin with a space.\<close>

lemma TrimFront_no_space:
  assumes "\<And>p. p \<in> set ps \<Longrightarrow> p \<noteq> []"
  shows "leading_space ps (TrimFront ps s) = None"
  using assms
proof (induction ps s rule: TrimFront.induct)
  case (1 ps s)
  show ?case
  proof (cases "leading_space ps s")
    case None
    then show ?thesis by (subst TrimFront.simps) simp
  next
    case (Some k)
    then obtain p where p: "p \<in> set ps" "HasPrefix s p" "k = length p"
      by (auto simp: leading_space_def find_Some_iff intro: nth_mem)
    with 1(2) obtain n where "k = Suc n" by (cases p) auto
    moreover have "s \<noteq> []" using p 1(2) [OF p(1)] by (auto simp: HasPrefix_def)
    ultimately show ?thesis using 1 Some by (subst TrimFront.simps) simp
  qed
qed

lemma TrimSpace_Nil [simp]: "TrimSpace [] = []"
  using TrimFront_suffix [of _ "[]"] by (simp add: TrimSpace_def)

lemma length_TrimSpace: "length (TrimSpace s) \<le> length s"
  using suffix_length_le [OF TrimFront_suffix] order_trans
  unfolding TrimSpace_def by (metis length_rev)

text \<open>A text that begins and ends with visible ASCII characters is left as it is.\<close>

definition visible_ascii :: "char \<Rightarrow> bool" where
  "visible_ascii c \<longleftrightarrow> (let n = of_char c :: nat in 32 < n \<and> n < 128)"

lemma space_edges: "p \<in> set space_encodings \<Longrightarrow> \<not> visible_ascii (hd p) \<and> \<not> visible_ascii (last p)"
  by (auto simp: space_encodings_def visible_ascii_def)

lemma TrimFront_visible:
  assumes "s \<noteq> []" "visible_ascii (hd s)" "\<forall>p \<in> set ps. p \<noteq> [] \<and> \<not> visible_ascii (hd p)"
  shows "TrimFront ps s = s"
proof -
  have "\<not> HasPrefix s p" if "p \<in> set ps" for p
    using assms that by (cases p; cases s) (auto simp: HasPrefix_def)
  then have "leading_space ps s = None" by (auto simp: leading_space_def find_None_iff)
  then show ?thesis by (simp add: TrimFront.simps)
qed

lemma TrimSpace_visible:
  assumes "s \<noteq> []" "visible_ascii (hd s)" "visible_ascii (last s)"
  shows "TrimSpace s = s"
  using assms TrimFront_visible [of s space_encodings] TrimFront_visible [of "rev s" "map rev space_encodings"]
    space_edges space_encodings_nonempty by (simp add: TrimSpace_def hd_rev)

text \<open>\<^verbatim>\<open>strings.EqualFold\<close>, on ASCII letters.\<close>

definition EqualFold :: "string \<Rightarrow> string \<Rightarrow> bool" where
  "EqualFold a b \<longleftrightarrow> ToLower a = ToLower b"

section \<open>Decimal numbers\<close>

fun digits :: "nat \<Rightarrow> string" where
  "digits n = (if n < 10 then [char_of (48 + n)] else digits (n div 10) @ [char_of (48 + n mod 10)])"

declare digits.simps [simp del]

text \<open>\<^verbatim>\<open>strconv.Itoa\<close>, \<^verbatim>\<open>strconv.FormatInt(_, 10)\<close>, \<^verbatim>\<open>%d\<close>\<close>

definition Itoa :: "int \<Rightarrow> string" where
  "Itoa n = (if n < 0 then CHR ''-'' # digits (nat (- n)) else digits (nat n))"

definition is_digit :: "char \<Rightarrow> bool" where
  "is_digit c \<longleftrightarrow> 48 \<le> (of_char c :: nat) \<and> (of_char c :: nat) \<le> 57"

definition digits_value :: "string \<Rightarrow> nat" where
  "digits_value s = foldl (\<lambda>a c. a * 10 + (of_char c - 48)) 0 s"

text \<open>
  \<^verbatim>\<open>strconv.Atoi\<close> and \<^verbatim>\<open>strconv.ParseInt(_, 10, 64)\<close>: an optional sign, at least one digit, and a
  result in the range of \<^verbatim>\<open>int64\<close>. Base 10 given explicitly takes no underscores.
\<close>

definition Atoi :: "string \<Rightarrow> int option" where
  "Atoi s =
     (let neg = (s \<noteq> [] \<and> hd s = CHR ''-'');
          ds = (if s \<noteq> [] \<and> (hd s = CHR ''-'' \<or> hd s = CHR ''+'') then tl s else s);
          v = int (digits_value ds);
          n = (if neg then - v else v)
      in if ds = [] \<or> \<not> list_all is_digit ds then None
         else if - (2 ^ 63) \<le> n \<and> n < 2 ^ 63 then Some n else None)"

lemma of_char_digit: "n < 10 \<Longrightarrow> (of_char (char_of (48 + n) :: char) :: nat) = 48 + n"
  by (simp add: take_bit_eq_mod)

lemma digits_nonempty [simp]: "digits n \<noteq> []"
  by (subst digits.simps) simp

lemma digits_is_digit: "list_all is_digit (digits n)"
proof (induction n rule: digits.induct)
  case (1 n)
  have d: "m < 10 \<Longrightarrow> is_digit (char_of (48 + m))" for m :: nat
    by (simp add: is_digit_def of_char_digit)
  show ?case
    using 1 d [of n] d [of "n mod 10"] by (subst digits.simps) auto
qed

lemma digits_value_digits [simp]: "digits_value (digits n) = n"
proof (induction n rule: digits.induct)
  case (1 n)
  show ?case
  proof (cases "n < 10")
    case True
    then show ?thesis by (subst digits.simps) (simp add: digits_value_def of_char_digit)
  next
    case False
    then have "foldl (\<lambda>a c. a * 10 + (of_char c - 48)) 0 (digits (n div 10)) = n div 10"
      using 1 by (simp add: digits_value_def)
    with False show ?thesis
      by (subst digits.simps) (simp add: digits_value_def of_char_digit)
  qed
qed

lemma digits_hd: "is_digit (hd (digits n))"
  using digits_is_digit [of n] by (cases "digits n") auto

lemma Atoi_Itoa:
  assumes "- (2 ^ 63) \<le> n" and "n < 2 ^ 63"
  shows "Atoi (Itoa n) = Some n"
proof (cases "n < 0")
  case True
  then show ?thesis using assms by (simp add: Atoi_def Itoa_def Let_def digits_is_digit)
next
  case False
  have "hd (digits (nat n)) \<noteq> CHR ''-''" "hd (digits (nat n)) \<noteq> CHR ''+''"
    using digits_hd [of "nat n"] by (auto simp: is_digit_def)
  then show ?thesis using False assms by (simp add: Atoi_def Itoa_def Let_def digits_is_digit)
qed

lemma digits_inj: "digits m = digits n \<longleftrightarrow> m = n"
  by (metis digits_value_digits)

lemma Itoa_inj: "Itoa m = Itoa n \<longleftrightarrow> m = n"
proof
  assume eq: "Itoa m = Itoa n"
  have minus: "hd (digits k) \<noteq> CHR ''-''" for k
    using digits_hd [of k] by (auto simp: is_digit_def)
  have "m < 0 \<longleftrightarrow> n < 0"
    using eq minus by (auto simp: Itoa_def split: if_splits) (metis list.sel(1))+
  then show "m = n" using eq by (auto simp: Itoa_def digits_inj split: if_splits)
qed simp

end
