(* ===== verification/Platform.thy ===== *)
theory Platform
  imports Go_Strings
begin

text \<open>
  The small interfaces of \<^verbatim>\<open>backend/internal/platform\<close> that every service is built on: the clock
  (\<^verbatim>\<open>clock/clock.go\<close>), the identifier generator (\<^verbatim>\<open>idgen/idgen.go\<close>) and the rate limiter
  (\<^verbatim>\<open>middleware/ratelimit.go\<close>, declared again in \<^verbatim>\<open>presence/ratelimit.go\<close>). A Go interface is a
  record of its operations on a state \<open>'w\<close>; what its implementations promise is a locale.
\<close>

section \<open>Durations\<close>

definition Second :: duration where "Second = 10 ^ 9"
definition Minute :: duration where "Minute = 60 * Second"
definition Hour :: duration where "Hour = 60 * Minute"

lemmas duration_defs = Second_def Minute_def Hour_def

section \<open>Clock\<close>

record 'w Clock =
  Now :: "'w \<Rightarrow> time \<times> 'w"

text \<open>
  The wall clock: the instant of the last reading and how far each later reading is ahead of the
  one before. \<^verbatim>\<open>time.Now\<close> is the environment's, so every theorem holds for any sequence of ticks.
\<close>

record wallclock =
  wall :: time
  ticks :: "nat list"

fun read_wall :: "wallclock \<Rightarrow> time \<times> wallclock" where
  "read_wall c =
     (case ticks c of
        [] \<Rightarrow> (wall c, c)
      | d # ds \<Rightarrow> (wall c + int d, \<lparr>wall = wall c + int d, ticks = ds\<rparr>))"

declare read_wall.simps [simp del]

definition Real_clock :: "wallclock Clock" where
  "Real_clock = \<lparr>Now = read_wall\<rparr>"

record Frozen =
  fr_t :: time

definition Frozen_clock :: "Frozen Clock" where
  "Frozen_clock = \<lparr>Now = (\<lambda>f. (fr_t f, f))\<rparr>"

definition Frozen_Advance :: "duration \<Rightarrow> Frozen \<Rightarrow> time \<times> Frozen" where
  "Frozen_Advance d f = (let t = fr_t f + d in (t, f\<lparr>fr_t := t\<rparr>))"

text \<open>
  The contract of a clock: \<open>reading w\<close> is a lower bound of what the next reading returns, and
  readings do not go back.
\<close>

locale monotone_clock =
  fixes clk :: "'w Clock"
    and reading :: "'w \<Rightarrow> time"
  assumes Now_reading: "Now clk w = (t, w') \<Longrightarrow> reading w' = t"
    and Now_forward: "Now clk w = (t, w') \<Longrightarrow> reading w \<le> t"
begin

lemma consecutive_readings:
  "Now clk w = (t, w1) \<Longrightarrow> reading w1 \<le> reading w2 \<Longrightarrow> Now clk w2 = (u, w3) \<Longrightarrow> t \<le> u"
  using Now_reading Now_forward by fastforce

end

interpretation real_clock: monotone_clock Real_clock wall
  by unfold_locales (auto simp: Real_clock_def read_wall.simps split: list.splits)

interpretation frozen_clock: monotone_clock Frozen_clock fr_t
  by unfold_locales (auto simp: Frozen_clock_def)

section \<open>Identifiers\<close>

record 'w Generator =
  NewID :: "'w \<Rightarrow> string \<times> 'w"

text \<open>
  The production generator over \<^verbatim>\<open>github.com/google/uuid\<close>: a random UUID where no time-ordered one can be
  made. That \<^verbatim>\<open>NewString\<close> panics when there is no randomness at all is not modelled.
\<close>

record 'i uuid_library =
  uuid_NewV7 :: "('i, string) io"
  uuid_NewString :: "'i \<Rightarrow> string \<times> 'i"

definition UUIDv7_NewID :: "'i uuid_library \<Rightarrow> 'i \<Rightarrow> string \<times> 'i" where
  "UUIDv7_NewID lib s =
     (case uuid_NewV7 lib s of (Inl _, s1) \<Rightarrow> uuid_NewString lib s1 | (Inr i, s1) \<Rightarrow> (i, s1))"

definition UUIDv7 :: "'i uuid_library \<Rightarrow> 'i Generator" where
  "UUIDv7 lib = \<lparr>NewID = UUIDv7_NewID lib\<rparr>"

record Sequential =
  sq_prefix :: string
  sq_n :: int

definition NewSequential :: "string \<Rightarrow> Sequential" where
  "NewSequential p = \<lparr>sq_prefix = p, sq_n = 0\<rparr>"

definition Sequential_NewID :: "Sequential \<Rightarrow> string \<times> Sequential" where
  "Sequential_NewID s =
     (let n = sq_n s + 1 in (sq_prefix s @ ''-'' @ Itoa n, s\<lparr>sq_n := n\<rparr>))"

definition Sequential_gen :: "Sequential Generator" where
  "Sequential_gen = \<lparr>NewID = Sequential_NewID\<rparr>"

text \<open>
  The contract of a generator: \<open>issued w\<close> are the identifiers handed out so far, a new one is not
  among them and joins them.
\<close>

locale fresh_ids =
  fixes gen :: "'w Generator"
    and issued :: "'w \<Rightarrow> string set"
  assumes NewID_fresh: "NewID gen w = (i, w') \<Longrightarrow> i \<notin> issued w"
    and NewID_issued: "NewID gen w = (i, w') \<Longrightarrow> issued w' = insert i (issued w)"
begin

fun NewIDs :: "nat \<Rightarrow> 'w \<Rightarrow> string list \<times> 'w" where
  "NewIDs 0 w = ([], w)"
| "NewIDs (Suc n) w =
     (case NewID gen w of (i, w1) \<Rightarrow> case NewIDs n w1 of (is, w2) \<Rightarrow> (i # is, w2))"

lemma NewIDs_issued: "NewIDs n w = (is, w') \<Longrightarrow> issued w' = set is \<union> issued w"
proof (induction n arbitrary: w "is")
  case (Suc n)
  then show ?case by (fastforce split: prod.splits dest: NewID_issued)
qed simp

lemma NewIDs_distinct: "NewIDs n w = (is, w') \<Longrightarrow> distinct is \<and> set is \<inter> issued w = {}"
proof (induction n arbitrary: w "is")
  case (Suc n)
  obtain i w1 js where i: "NewID gen w = (i, w1)" and js: "NewIDs n w1 = (js, w')"
    and eq: "is = i # js"
    using Suc.prems by (auto split: prod.splits)
  have "distinct js" "set js \<inter> issued w1 = {}" using Suc.IH [OF js] by auto
  then show ?case using NewID_fresh [OF i] NewID_issued [OF i] eq by auto
qed simp

end

definition sequential_issued :: "Sequential \<Rightarrow> string set" where
  "sequential_issued s = (\<lambda>k. sq_prefix s @ ''-'' @ Itoa k) ` {k. k \<le> sq_n s}"

interpretation sequential_ids: fresh_ids Sequential_gen sequential_issued
proof
  fix w i w'
  assume "NewID Sequential_gen w = (i, w')"
  then have i: "i = sq_prefix w @ ''-'' @ Itoa (sq_n w + 1)" and w': "w' = w\<lparr>sq_n := sq_n w + 1\<rparr>"
    by (auto simp: Sequential_gen_def Sequential_NewID_def Let_def)
  show "i \<notin> sequential_issued w" by (auto simp: i sequential_issued_def Itoa_inj)
  have "{k. k \<le> sq_n w + 1} = insert (sq_n w + 1) {k. k \<le> sq_n w}" by auto
  then show "sequential_issued w' = insert i (sequential_issued w)"
    by (simp add: i w' sequential_issued_def)
qed

section \<open>Rate limiters\<close>

record 'w RateLimiter =
  Allow :: "string \<Rightarrow> int \<Rightarrow> duration \<Rightarrow> ('w, bool \<times> duration) io"

end
