(* ===== verification/Presence_Domain.thy ===== *)
theory Presence_Domain
  imports Geo Platform
begin

text \<open>
  \<^verbatim>\<open>backend/internal/presence\<close>: the data model (\<^verbatim>\<open>domain.go\<close>), the anti-triangulation limits and
  their keys (\<^verbatim>\<open>ratelimit.go\<close>) and the interfaces the services are written against (\<^verbatim>\<open>repo.go\<close>,
  \<^verbatim>\<open>geo.go\<close>) as records of operations on a state \<open>'w\<close>. What the implementations promise is stated
  in the locales at the end; \<open>pview\<close> is the durable state they talk about.
\<close>

section \<open>Settings\<close>

definition VisibilityInvisible :: string where "VisibilityInvisible = ''invisible''"
definition VisibilityFriendsOnly :: string where "VisibilityFriendsOnly = ''friends_only''"
definition VisibilityEveryone :: string where "VisibilityEveryone = ''everyone''"

definition RevealLevelAnonymous :: int where "RevealLevelAnonymous = 0"
definition RevealLevelConnections :: int where "RevealLevelConnections = 1"
definition RevealLevelOpenDiscovery :: int where "RevealLevelOpenDiscovery = 2"

definition AllowedRadiiM :: "int list" where "AllowedRadiiM = [150, 1000, 5000, 15000]"
definition DefaultRadiusM :: int where "DefaultRadiusM = 1000"
definition ConsentValidityPeriod :: duration where "ConsentValidityPeriod = 6 * 30 * 24 * Hour"

lemmas visibility_defs = VisibilityInvisible_def VisibilityFriendsOnly_def VisibilityEveryone_def
lemmas reveal_defs = RevealLevelAnonymous_def RevealLevelConnections_def RevealLevelOpenDiscovery_def

fun Label :: "DistanceBucket \<Rightarrow> string" where
  "Label Bucket1 = ''Bem pertinho''"
| "Label Bucket2 = ''No seu bairro''"
| "Label Bucket3 = ''Na sua regi'' @ [char_of (0xC3 :: nat), char_of (0xA3 :: nat)] @ ''o''"
| "Label Bucket4 = ''Na sua cidade''"
| "Label BucketNone = ''''"

record PrivacySettings =
  UserID :: string
  PresenceVisibility :: string
  PresenceShareTrack :: bool
  ProximityConsentEnabled :: bool
  ProximityConsentTS :: "time option"
  ProximityConsentRenewDue :: "time option"
  VisibilityRadiusM :: int
  RevealLevel :: int
  Paused :: bool
  CreatedAt :: time
  UpdatedAt :: time

text \<open>Go's zero value of \<^verbatim>\<open>time.Time\<close>: the first instant of the year 1, before every real one.\<close>

definition zero_time :: time where
  "zero_time = - 62135596800 * Second"

definition DefaultPrivacySettings :: "string \<Rightarrow> PrivacySettings" where
  "DefaultPrivacySettings userID = \<lparr>
     UserID = userID,
     PresenceVisibility = VisibilityInvisible,
     PresenceShareTrack = False,
     ProximityConsentEnabled = False,
     ProximityConsentTS = None,
     ProximityConsentRenewDue = None,
     VisibilityRadiusM = DefaultRadiusM,
     RevealLevel = RevealLevelAnonymous,
     Paused = True,
     CreatedAt = zero_time,
     UpdatedAt = zero_time\<rparr>"

definition HasActiveConsent :: "PrivacySettings \<Rightarrow> time \<Rightarrow> bool" where
  "HasActiveConsent s now =
     (if \<not> ProximityConsentEnabled s then False
      else case ProximityConsentRenewDue s of None \<Rightarrow> False | Some due \<Rightarrow> now < due)"

definition IsValidRadius :: "int \<Rightarrow> bool" where
  "IsValidRadius m = list_ex (\<lambda>r. r = m) AllowedRadiiM"

definition IsValidRevealLevel :: "int \<Rightarrow> bool" where
  "IsValidRevealLevel l =
     (l = RevealLevelAnonymous \<or> l = RevealLevelConnections \<or> l = RevealLevelOpenDiscovery)"

definition IsValidVisibility :: "string \<Rightarrow> bool" where
  "IsValidVisibility v =
     (v = VisibilityInvisible \<or> v = VisibilityFriendsOnly \<or> v = VisibilityEveryone)"

record AuditLogEntry =
  ale_ID :: string
  RequesterID :: string
  TargetID :: string
  OccurredAt :: time
  ale_Bucket :: DistanceBucket
  Endpoint :: string

text \<open>What a stored row of settings always satisfies: the checks of the service and of the table.\<close>

definition valid_settings :: "PrivacySettings \<Rightarrow> bool" where
  "valid_settings s \<longleftrightarrow>
     IsValidVisibility (PresenceVisibility s) \<and> IsValidRadius (VisibilityRadiusM s)
     \<and> IsValidRevealLevel (RevealLevel s)"

lemma DefaultPrivacySettings_valid: "valid_settings (DefaultPrivacySettings u)"
  by (simp add: valid_settings_def DefaultPrivacySettings_def IsValidVisibility_def IsValidRadius_def
      IsValidRevealLevel_def AllowedRadiiM_def DefaultRadiusM_def)

lemma IsValidRadius_bounds: "IsValidRadius m \<Longrightarrow> 150 \<le> m \<and> m \<le> 15000"
  by (auto simp: IsValidRadius_def AllowedRadiiM_def)

lemma HasActiveConsent_iff:
  "HasActiveConsent s now \<longleftrightarrow>
     ProximityConsentEnabled s \<and> (\<exists>due. ProximityConsentRenewDue s = Some due \<and> now < due)"
  by (auto simp: HasActiveConsent_def split: option.split)

lemma HasActiveConsent_earlier: "HasActiveConsent s now \<Longrightarrow> t \<le> now \<Longrightarrow> HasActiveConsent s t"
  by (auto simp: HasActiveConsent_iff)

lemma DefaultPrivacySettings_no_consent [simp]: "\<not> HasActiveConsent (DefaultPrivacySettings u) now"
  by (simp add: HasActiveConsent_def DefaultPrivacySettings_def)

section \<open>Rate limits\<close>

definition PairQueryLimit :: int where "PairQueryLimit = 1"
definition PairQueryWindow :: duration where "PairQueryWindow = 30 * Second"
definition DailyQueryLimit :: int where "DailyQueryLimit = 200"
definition DailyQueryWindow :: duration where "DailyQueryWindow = 24 * Hour"
definition UpdateFrameLimit :: int where "UpdateFrameLimit = 12"
definition UpdateFrameWindow :: duration where "UpdateFrameWindow = Minute"

definition pairKey :: "string \<Rightarrow> string \<Rightarrow> string" where
  "pairKey requesterID targetID = ''presence:rl:pair:'' @ requesterID @ '':'' @ targetID"

definition dailyKey :: "string \<Rightarrow> string" where
  "dailyKey requesterID = ''presence:rl:daily:'' @ requesterID"

definition updateFrameKey :: "string \<Rightarrow> string" where
  "updateFrameKey userID = ''presence:rl:updates:'' @ userID"

text \<open>
  User ids are UUIDs and hold no colon, so different pairs have different budgets, and no pair's
  budget is a daily one or one of update frames.
\<close>

lemma split_at_first:
  "x \<notin> set a \<Longrightarrow> x \<notin> set c \<Longrightarrow> a @ x # b = c @ x # d \<longleftrightarrow> a = c \<and> b = d"
proof (induction a arbitrary: c)
  case Nil
  then show ?case by (cases c) auto
next
  case (Cons y a)
  then show ?case by (cases c) auto
qed

lemma pairKey_inj:
  assumes "CHR '':'' \<notin> set a" and "CHR '':'' \<notin> set c"
  shows "pairKey a b = pairKey c d \<longleftrightarrow> a = c \<and> b = d"
  using split_at_first [OF assms] by (simp add: pairKey_def)

lemma limiter_keys_apart:
  "pairKey a b \<noteq> dailyKey c" "pairKey a b \<noteq> updateFrameKey c" "dailyKey a \<noteq> updateFrameKey c"
  by (simp_all add: pairKey_def dailyKey_def updateFrameKey_def)

section \<open>Interfaces\<close>

record 'w PrivacySettingsRepository =
  psr_Get :: "string \<Rightarrow> ('w, PrivacySettings) io"
  psr_Upsert :: "PrivacySettings \<Rightarrow> ('w, unit) io"

record 'w BlockRepository =
  br_Block :: "string \<Rightarrow> string \<Rightarrow> ('w, unit) io"
  br_Unblock :: "string \<Rightarrow> string \<Rightarrow> ('w, unit) io"
  br_IsBlockedEitherWay :: "string \<Rightarrow> string \<Rightarrow> ('w, bool) io"

record 'w FollowChecker =
  IsMutualFollow :: "string \<Rightarrow> string \<Rightarrow> ('w, bool) io"

record 'w AuditLogRepository =
  alr_Append :: "AuditLogEntry \<Rightarrow> ('w, unit) io"

record 'w MFAChecker =
  mfa_HasVerifiedMFA :: "string \<Rightarrow> ('w, bool) io"

record Profile =
  pf_DisplayName :: string
  pf_AvatarURL :: string

record 'w ProfileResolver =
  Resolve :: "string list \<Rightarrow> ('w, string \<rightharpoonup> Profile) io"

record PresenceEntry =
  pe_UserID :: string
  pe_Position :: GeoPosition
  pe_TrackID :: string
  pe_ShareTrack :: bool
  pe_Visibility :: string
  pe_UpdatedAt :: time

record NearbyCandidate =
  nc_UserID :: string
  nc_Position :: GeoPosition

record 'w GeoIndex =
  geo_Upsert :: "PresenceEntry \<Rightarrow> duration \<Rightarrow> ('w, unit) io"
  geo_Touch :: "string \<Rightarrow> duration \<Rightarrow> ('w, GeoPosition option) io"
  geo_Remove :: "string \<Rightarrow> ('w, unit) io"
  geo_Search :: "GeoPosition \<Rightarrow> real \<Rightarrow> string \<Rightarrow> ('w, NearbyCandidate list) io"
  geo_Detail :: "string list \<Rightarrow> ('w, string \<rightharpoonup> PresenceEntry) io"

record 'w Jitterer =
  Jitter :: "GeoPosition \<Rightarrow> ('w, GeoPosition) io"

section \<open>The contracts\<close>

text \<open>
  The durable state of the presence feature. The bookkeeping columns \<^verbatim>\<open>created_at\<close> and
  \<^verbatim>\<open>updated_at\<close> are the database's own and are erased.
\<close>

definition erased :: "PrivacySettings \<Rightarrow> PrivacySettings" where
  "erased s = s\<lparr>CreatedAt := zero_time, UpdatedAt := zero_time\<rparr>"

record pview =
  pv_settings :: "string \<rightharpoonup> PrivacySettings"
  pv_blocks :: "(string \<times> string) set"
  pv_follows :: "(string \<times> string) set"
  pv_audit :: "AuditLogEntry list"

lemma erased_fields [simp]:
  "UserID (erased s) = UserID s" "PresenceVisibility (erased s) = PresenceVisibility s"
  "PresenceShareTrack (erased s) = PresenceShareTrack s"
  "ProximityConsentEnabled (erased s) = ProximityConsentEnabled s"
  "ProximityConsentTS (erased s) = ProximityConsentTS s"
  "ProximityConsentRenewDue (erased s) = ProximityConsentRenewDue s"
  "VisibilityRadiusM (erased s) = VisibilityRadiusM s"
  "RevealLevel (erased s) = RevealLevel s" "Paused (erased s) = Paused s"
  by (simp_all add: erased_def)

lemma erased_idem [simp]: "erased (erased s) = erased s"
  by (simp add: erased_def)

lemma HasActiveConsent_erased [simp]: "HasActiveConsent (erased s) now = HasActiveConsent s now"
  by (simp add: HasActiveConsent_def)

lemma valid_settings_erased [simp]: "valid_settings (erased s) = valid_settings s"
  by (simp add: valid_settings_def)

locale settings_repository =
  fixes repo :: "'w PrivacySettingsRepository"
    and dv :: "'w \<Rightarrow> pview"
  assumes Get_keeps: "keeps dv (psr_Get repo u)"
    and Get_row: "psr_Get repo u w = (Inr s, w')
      \<Longrightarrow> pv_settings (dv w) u = Some (erased s) \<and> UserID s = u"
    and Get_absent: "psr_Get repo u w = (Inl e, w') \<Longrightarrow> errors_Is e ErrSettingsNotFound
      \<Longrightarrow> pv_settings (dv w) u = None"
    and Upsert_done: "psr_Upsert repo s w = (Inr (), w')
      \<Longrightarrow> dv w' = (dv w)\<lparr>pv_settings := (pv_settings (dv w))(UserID s \<mapsto> erased s)\<rparr>"
    and Upsert_failed: "psr_Upsert repo s w = (Inl e, w')
      \<Longrightarrow> dv w' = dv w
        \<or> dv w' = (dv w)\<lparr>pv_settings := (pv_settings (dv w))(UserID s \<mapsto> erased s)\<rparr>"

locale block_repository =
  fixes blocks :: "'w BlockRepository"
    and dv :: "'w \<Rightarrow> pview"
  assumes IsBlocked_keeps: "keeps dv (br_IsBlockedEitherWay blocks a b)"
    and IsBlocked_iff: "br_IsBlockedEitherWay blocks a b w = (Inr x, w')
      \<Longrightarrow> x \<longleftrightarrow> (a, b) \<in> pv_blocks (dv w) \<or> (b, a) \<in> pv_blocks (dv w)"
    and Block_done: "br_Block blocks a b w = (Inr (), w')
      \<Longrightarrow> dv w' = (dv w)\<lparr>pv_blocks := insert (a, b) (pv_blocks (dv w))\<rparr>"
    and Unblock_done: "br_Unblock blocks a b w = (Inr (), w')
      \<Longrightarrow> dv w' = (dv w)\<lparr>pv_blocks := pv_blocks (dv w) - {(a, b)}\<rparr>"

locale follow_checker =
  fixes follows :: "'w FollowChecker"
    and dv :: "'w \<Rightarrow> pview"
  assumes IsMutual_keeps: "keeps dv (IsMutualFollow follows a b)"
    and IsMutual_iff: "IsMutualFollow follows a b w = (Inr x, w')
      \<Longrightarrow> x \<longleftrightarrow> (a, b) \<in> pv_follows (dv w) \<and> (b, a) \<in> pv_follows (dv w)"

locale audit_log =
  fixes audit :: "'w AuditLogRepository"
    and dv :: "'w \<Rightarrow> pview"
  assumes Append_done: "alr_Append audit e w = (Inr (), w')
      \<Longrightarrow> dv w' = (dv w)\<lparr>pv_audit := pv_audit (dv w) @ [e]\<rparr>"
    and Append_failed: "alr_Append audit e w = (Inl x, w')
      \<Longrightarrow> dv w' = dv w \<or> dv w' = (dv w)\<lparr>pv_audit := pv_audit (dv w) @ [e]\<rparr>"

text \<open>
  The index is not durable: its operations leave the durable state alone, and a search does not
  return the user it was told to exclude.
\<close>

locale geo_index =
  fixes geo :: "'w GeoIndex"
    and dv :: "'w \<Rightarrow> pview"
  assumes geo_keeps: "keeps dv (geo_Upsert geo e d)" "keeps dv (geo_Touch geo u d)"
      "keeps dv (geo_Remove geo u)" "keeps dv (geo_Search geo p r u)" "keeps dv (geo_Detail geo us)"
    and Search_excludes: "geo_Search geo p r u w = (Inr cs, w') \<Longrightarrow> c \<in> set cs \<Longrightarrow> nc_UserID c \<noteq> u"

text \<open>What is on record for a user: the row, or the default that stands for a missing one.\<close>

definition on_record :: "pview \<Rightarrow> string \<Rightarrow> PrivacySettings" where
  "on_record v u =
     (case pv_settings v u of None \<Rightarrow> erased (DefaultPrivacySettings u) | Some s \<Rightarrow> s)"

definition rows_valid :: "pview \<Rightarrow> bool" where
  "rows_valid v \<longleftrightarrow> (\<forall>s \<in> ran (pv_settings v). valid_settings s)"

lemma on_record_valid: "rows_valid v \<Longrightarrow> valid_settings (on_record v u)"
  by (auto simp: on_record_def rows_valid_def ran_def DefaultPrivacySettings_valid split: option.split)

lemma rows_valid_upsert:
  "rows_valid v \<Longrightarrow> valid_settings s \<Longrightarrow> rows_valid (v\<lparr>pv_settings := (pv_settings v)(u \<mapsto> s)\<rparr>)"
  by (auto simp: rows_valid_def ran_def)

lemma on_record_upsert [simp]:
  "on_record (v\<lparr>pv_settings := (pv_settings v)(u \<mapsto> s)\<rparr>) k = (if k = u then s else on_record v k)"
  by (simp add: on_record_def)

end
