(* ===== verification/Settings_Service.thy ===== *)
theory Settings_Service
  imports Presence_Domain
begin

text \<open>
  \<^verbatim>\<open>backend/internal/presence/settings_service.go\<close>: reading and changing the privacy settings,
  granting and revoking consent, pausing, blocking.
\<close>

record 'w SettingsService =
  ss_settings :: "'w PrivacySettingsRepository"
  ss_blocks :: "'w BlockRepository"
  ss_geo :: "'w GeoIndex option"
  ss_mfa :: "'w MFAChecker"
  ss_clock :: "'w Clock"

definition user_id_required :: err where
  "user_id_required = Detailed (Sentinel PresenceErrInvalidInput) ''user id is required''"

definition SettingsService_Get :: "'w SettingsService \<Rightarrow> string \<Rightarrow> ('w, PrivacySettings) io" where
  "SettingsService_Get svc userID =
     (if userID = '''' then throw user_id_required
      else bindE (attempt (psr_Get (ss_settings svc) userID)) (\<lambda>r. case r of
             Inl e \<Rightarrow> if errors_Is e ErrSettingsNotFound then ret (DefaultPrivacySettings userID)
                      else throw (Wrapped ''presence: get settings'' e)
           | Inr st \<Rightarrow> ret st))"

record UpdateSettingsInput =
  in_PresenceVisibility :: "string option"
  in_PresenceShareTrack :: "bool option"
  in_VisibilityRadiusM :: "int option"
  in_RevealLevel :: "int option"
  in_Paused :: "bool option"

definition removeFromIndex :: "'w SettingsService \<Rightarrow> string \<Rightarrow> ('w, unit) io" where
  "removeFromIndex svc userID =
     (case ss_geo svc of None \<Rightarrow> ret () | Some geo \<Rightarrow> ignore (geo_Remove geo userID))"

text \<open>The field checks of \<^verbatim>\<open>Update\<close>, in its order: the first one that fails is the answer.\<close>

definition apply_input :: "UpdateSettingsInput \<Rightarrow> PrivacySettings \<Rightarrow> ('w, PrivacySettings) io" where
  "apply_input inp current0 =
     bindE (case in_PresenceVisibility inp of
              None \<Rightarrow> ret current0
            | Some v \<Rightarrow> if \<not> IsValidVisibility v then throw (Sentinel ErrInvalidVisibility)
                        else ret (current0\<lparr>PresenceVisibility := v\<rparr>)) (\<lambda>current.
     bindE (case in_PresenceShareTrack inp of
              None \<Rightarrow> ret current
            | Some b \<Rightarrow> ret (current\<lparr>PresenceShareTrack := b\<rparr>)) (\<lambda>current.
     bindE (case in_VisibilityRadiusM inp of
              None \<Rightarrow> ret current
            | Some m \<Rightarrow> if \<not> IsValidRadius m then throw (Sentinel ErrInvalidRadius)
                        else ret (current\<lparr>VisibilityRadiusM := m\<rparr>)) (\<lambda>current.
     bindE (case in_RevealLevel inp of
              None \<Rightarrow> ret current
            | Some l \<Rightarrow> if \<not> IsValidRevealLevel l then throw (Sentinel ErrInvalidRevealLevel)
                        else ret (current\<lparr>RevealLevel := l\<rparr>)) (\<lambda>current.
     case in_Paused inp of
       None \<Rightarrow> ret current
     | Some b \<Rightarrow> ret (current\<lparr>Paused := b\<rparr>)))))"

definition SettingsService_Update ::
    "'w SettingsService \<Rightarrow> string \<Rightarrow> UpdateSettingsInput \<Rightarrow> ('w, PrivacySettings) io" where
  "SettingsService_Update svc userID inp =
     (if userID = '''' then throw user_id_required
      else bindE (SettingsService_Get svc userID) (\<lambda>current0.
           bindE (apply_input inp current0) (\<lambda>current1.
           bindE (call (Now (ss_clock svc))) (\<lambda>now.
           let current = current1\<lparr>UpdatedAt := now\<rparr> in
           bindE (wrapE ''presence: upsert settings'' (psr_Upsert (ss_settings svc) current)) (\<lambda>_.
           bindE (if Paused current \<or> PresenceVisibility current = VisibilityInvisible
                  then removeFromIndex svc userID else ret ()) (\<lambda>_.
           ret current))))))"

definition GrantConsent :: "'w SettingsService \<Rightarrow> string \<Rightarrow> ('w, PrivacySettings) io" where
  "GrantConsent svc userID =
     (if userID = '''' then throw user_id_required
      else bindE (wrapE ''presence: check mfa'' (mfa_HasVerifiedMFA (ss_mfa svc) userID)) (\<lambda>hasMFA.
           if \<not> hasMFA then throw (Sentinel ErrMFARequired)
           else bindE (SettingsService_Get svc userID) (\<lambda>current0.
                bindE (call (Now (ss_clock svc))) (\<lambda>now.
                let due = now + ConsentValidityPeriod;
                    current = current0\<lparr>ProximityConsentEnabled := True,
                                       ProximityConsentTS := Some now,
                                       ProximityConsentRenewDue := Some due,
                                       UpdatedAt := now\<rparr> in
                bindE (wrapE ''presence: upsert settings'' (psr_Upsert (ss_settings svc) current))
                  (\<lambda>_. ret current)))))"

definition RevokeConsent :: "'w SettingsService \<Rightarrow> string \<Rightarrow> ('w, PrivacySettings) io" where
  "RevokeConsent svc userID =
     (if userID = '''' then throw user_id_required
      else bindE (SettingsService_Get svc userID) (\<lambda>current0.
           bindE (call (Now (ss_clock svc))) (\<lambda>now.
           let current = current0\<lparr>ProximityConsentEnabled := False, Paused := True,
                                  UpdatedAt := now\<rparr> in
           bindE (wrapE ''presence: upsert settings'' (psr_Upsert (ss_settings svc) current)) (\<lambda>_.
           bindE (removeFromIndex svc userID) (\<lambda>_.
           ret current)))))"

definition SetPaused :: "'w SettingsService \<Rightarrow> string \<Rightarrow> bool \<Rightarrow> ('w, PrivacySettings) io" where
  "SetPaused svc userID paused =
     SettingsService_Update svc userID
       \<lparr>in_PresenceVisibility = None, in_PresenceShareTrack = None, in_VisibilityRadiusM = None,
        in_RevealLevel = None, in_Paused = Some paused\<rparr>"

definition user_ids_required :: err where
  "user_ids_required =
     Detailed (Sentinel PresenceErrInvalidInput) ''blocker and blocked user ids are required''"

definition SettingsService_Block :: "'w SettingsService \<Rightarrow> string \<Rightarrow> string \<Rightarrow> ('w, unit) io" where
  "SettingsService_Block svc blockerID blockedID =
     (if blockerID = '''' \<or> blockedID = '''' then throw user_ids_required
      else if blockerID = blockedID then throw (Sentinel ErrCannotBlockSelf)
      else wrapE ''presence: block'' (br_Block (ss_blocks svc) blockerID blockedID))"

definition SettingsService_Unblock :: "'w SettingsService \<Rightarrow> string \<Rightarrow> string \<Rightarrow> ('w, unit) io" where
  "SettingsService_Unblock svc blockerID blockedID =
     (if blockerID = '''' \<or> blockedID = '''' then throw user_ids_required
      else wrapE ''presence: unblock'' (br_Unblock (ss_blocks svc) blockerID blockedID))"

section \<open>What the operations do to the record\<close>

text \<open>The fields a request may change, and the ones only the consent operations may.\<close>

definition same_consent :: "PrivacySettings \<Rightarrow> PrivacySettings \<Rightarrow> bool" where
  "same_consent s t \<longleftrightarrow>
     UserID s = UserID t \<and> ProximityConsentEnabled s = ProximityConsentEnabled t
     \<and> ProximityConsentTS s = ProximityConsentTS t
     \<and> ProximityConsentRenewDue s = ProximityConsentRenewDue t"

definition field_or :: "'a option \<Rightarrow> 'a \<Rightarrow> 'a" where
  "field_or x d = (case x of None \<Rightarrow> d | Some v \<Rightarrow> v)"

definition input_valid :: "UpdateSettingsInput \<Rightarrow> bool" where
  "input_valid inp \<longleftrightarrow>
     (\<forall>v. in_PresenceVisibility inp = Some v \<longrightarrow> IsValidVisibility v)
     \<and> (\<forall>m. in_VisibilityRadiusM inp = Some m \<longrightarrow> IsValidRadius m)
     \<and> (\<forall>l. in_RevealLevel inp = Some l \<longrightarrow> IsValidRevealLevel l)"

definition merged :: "UpdateSettingsInput \<Rightarrow> PrivacySettings \<Rightarrow> PrivacySettings" where
  "merged inp s =
     s\<lparr>PresenceVisibility := field_or (in_PresenceVisibility inp) (PresenceVisibility s),
       PresenceShareTrack := field_or (in_PresenceShareTrack inp) (PresenceShareTrack s),
       VisibilityRadiusM := field_or (in_VisibilityRadiusM inp) (VisibilityRadiusM s),
       RevealLevel := field_or (in_RevealLevel inp) (RevealLevel s),
       Paused := field_or (in_Paused inp) (Paused s)\<rparr>"

lemma apply_input_valid:
  "input_valid inp \<Longrightarrow> apply_input inp s w = (Inr (merged inp s), w)"
  by (auto simp: apply_input_def input_valid_def merged_def field_or_def split: option.splits)

lemma apply_input_invalid:
  assumes "\<not> input_valid inp"
  obtains e where "apply_input inp s w = (Inl (Sentinel e), w)"
    and "e \<in> {ErrInvalidVisibility, ErrInvalidRadius, ErrInvalidRevealLevel}"
proof -
  have "\<exists>e. apply_input inp s w = (Inl (Sentinel e), w)
      \<and> e \<in> {ErrInvalidVisibility, ErrInvalidRadius, ErrInvalidRevealLevel}"
    using assms by (auto simp: apply_input_def input_valid_def split: option.splits)
  then show thesis using that by blast
qed

lemma merged_valid: "valid_settings s \<Longrightarrow> input_valid inp \<Longrightarrow> valid_settings (merged inp s)"
  by (auto simp: valid_settings_def input_valid_def merged_def field_or_def split: option.split)

lemma merged_erased: "erased (merged inp s) = merged inp (erased s)"
  by (simp add: merged_def erased_def)

lemma merged_same_consent: "same_consent (merged inp s) s"
  by (simp add: same_consent_def merged_def)

section \<open>The operations over any repository that keeps its contract\<close>

locale settings_service =
  settings_repository "ss_settings svc" dv + block_repository "ss_blocks svc" dv
  + monotone_clock "ss_clock svc" reading
  for svc :: "'w SettingsService" and dv :: "'w \<Rightarrow> pview" and reading :: "'w \<Rightarrow> time" +
  assumes Remove_keeps: "ss_geo svc = Some geo \<Longrightarrow> keeps dv (geo_Remove geo u)"
    and clock_keeps: "keeps dv (Now (ss_clock svc))"
    and mfa_keeps: "keeps dv (mfa_HasVerifiedMFA (ss_mfa svc) u)"
    and Get_reading: "keeps reading (psr_Get (ss_settings svc) u)"
    and mfa_reading: "keeps reading (mfa_HasVerifiedMFA (ss_mfa svc) u)"
begin

lemma SettingsService_Get_reading: "keeps reading (SettingsService_Get svc u)"
  unfolding SettingsService_Get_def by (intro keeps_intros Get_reading)

lemma keeps_Get: "keeps dv (SettingsService_Get svc u)"
  unfolding SettingsService_Get_def by (intro keeps_intros Get_keeps)

lemma keeps_removeFromIndex: "keeps dv (removeFromIndex svc u)"
  unfolding removeFromIndex_def by (intro keeps_intros Remove_keeps) simp

lemma Get_on_record:
  assumes "SettingsService_Get svc u w = (Inr s, w')"
  shows "dv w' = dv w \<and> erased s = on_record (dv w) u \<and> UserID s = u"
proof -
  from assms obtain r where get: "psr_Get (ss_settings svc) u w = (r, w')"
    and r: "(case r of Inl e \<Rightarrow> errors_Is e ErrSettingsNotFound \<and> s = DefaultPrivacySettings u
             | Inr st \<Rightarrow> s = st)"
    unfolding SettingsService_Get_def
    by (auto split: if_splits sum.splits)
  note keepsD [OF Get_keeps get]
  moreover have "erased s = on_record (dv w) u \<and> UserID s = u"
    using get r Get_row Get_absent
    by (cases r) (auto simp: on_record_def DefaultPrivacySettings_def split: option.splits)
  ultimately show ?thesis by simp
qed

lemma clock_dv: "Now (ss_clock svc) w = (x, w') \<Longrightarrow> dv w' = dv w"
  by (rule keepsD [OF clock_keeps])

lemma Update_done:
  assumes "SettingsService_Update svc u inp w = (Inr s, w')"
  shows "input_valid inp \<and> erased s = merged inp (on_record (dv w) u)
       \<and> dv w' = (dv w)\<lparr>pv_settings := (pv_settings (dv w))(u \<mapsto> erased s)\<rparr>"
proof -
  from assms obtain c0 w1 c1 w2 now w3 w4 z where
    get: "SettingsService_Get svc u w = (Inr c0, w1)"
    and app: "apply_input inp c0 w1 = (Inr c1, w2)"
    and clk: "Now (ss_clock svc) w2 = (now, w3)"
    and up: "psr_Upsert (ss_settings svc) (c1\<lparr>UpdatedAt := now\<rparr>) w3 = (Inr (), w4)"
    and rem: "(if Paused c1 \<or> PresenceVisibility c1 = VisibilityInvisible
               then removeFromIndex svc u else ret ()) w4 = (Inr z, w')"
    and s: "s = c1\<lparr>UpdatedAt := now\<rparr>"
    unfolding SettingsService_Update_def
    by (auto simp: Let_def split: if_splits)
  have valid: "input_valid inp"
    using app apply_input_invalid [of inp c0 w1] by (cases "input_valid inp") auto
  with app have c1: "c1 = merged inp c0" and w2: "w2 = w1"
    by (simp_all add: apply_input_valid)
  note g = Get_on_record [OF get]
  have e: "erased s = merged inp (on_record (dv w) u)"
  proof -
    have "erased s = merged inp (erased c0)" by (simp add: s c1 erased_def merged_def)
    then show ?thesis using g by simp
  qed
  have u: "UserID s = u" using g by (simp add: s c1 merged_def)
  have "dv w' = dv w4"
    using rem keepsD [OF keeps_removeFromIndex] by (auto split: if_splits)
  also have "\<dots> = (dv w)\<lparr>pv_settings := (pv_settings (dv w))(u \<mapsto> erased s)\<rparr>"
    using Upsert_done [OF up] clock_dv [OF clk] g w2 u by (simp flip: s)
  finally show ?thesis using valid e by simp
qed

lemma Update_refused:
  assumes "\<not> input_valid inp" and "SettingsService_Update svc u inp w = (r, w')"
  shows "(\<exists>e. r = Inl e) \<and> dv w' = dv w"
proof (cases "u = ''''")
  case True
  with assms(2) show ?thesis by (auto simp: SettingsService_Update_def)
next
  case False
  obtain g w1 where get: "SettingsService_Get svc u w = (g, w1)" by fastforce
  note k = keepsD [OF keeps_Get get]
  show ?thesis
  proof (cases g)
    case (Inl e)
    with False get assms(2) k show ?thesis by (auto simp: SettingsService_Update_def bindE_Inl)
  next
    case (Inr c0)
    obtain e where "apply_input inp c0 w1 = (Inl (Sentinel e), w1)"
      by (rule apply_input_invalid [OF assms(1)])
    with False get Inr assms(2) k show ?thesis
      by (auto simp: SettingsService_Update_def bindE_Inr bindE_Inl)
  qed
qed

text \<open>Whatever the outcome: the record is what it was, or the valid input merged into it.\<close>

lemma Update_any:
  assumes "SettingsService_Update svc u inp w = (r, w')"
  shows "dv w' = dv w \<or> input_valid inp
       \<and> dv w' = (dv w)\<lparr>pv_settings := (pv_settings (dv w))(u \<mapsto> merged inp (on_record (dv w) u))\<rparr>"
proof (cases r)
  case (Inr s)
  with assms Update_done [of u inp w s w'] show ?thesis by simp
next
  case (Inl e)
  show ?thesis
  proof (cases "u = '''' \<or> \<not> input_valid inp")
    case True
    with assms show ?thesis
      using Update_refused [OF _ assms] by (cases "u = ''''") (auto simp: SettingsService_Update_def)
  next
    case False
    obtain g w1 where get: "SettingsService_Get svc u w = (g, w1)" by fastforce
    note k = keepsD [OF keeps_Get get]
    show ?thesis
    proof (cases g)
      case (Inl e)
      with False get assms k show ?thesis by (auto simp: SettingsService_Update_def bindE_Inl)
    next
      case (Inr c0)
      obtain now w2 where clk: "Now (ss_clock svc) w1 = (now, w2)" by fastforce
      then have c: "call (Now (ss_clock svc)) w1 = (Inr now, w2)" by (simp add: call_def)
      let ?c = "(merged inp c0)\<lparr>UpdatedAt := now\<rparr>"
      obtain x w3 where up: "psr_Upsert (ss_settings svc) ?c w2 = (x, w3)" by fastforce
      note g = Get_on_record [OF get [unfolded Inr]]
      have id: "UserID ?c = u" using g by (simp add: merged_def)
      have "erased ?c = merged inp (erased c0)" by (simp add: erased_def merged_def)
      then have e: "erased ?c = merged inp (on_record (dv w) u)" using g k by simp
      have "dv w3 = dv w \<or> dv w3 = (dv w)\<lparr>pv_settings := (pv_settings (dv w))(u \<mapsto> erased ?c)\<rparr>"
        using Upsert_done [of ?c w2 w3] Upsert_failed [of ?c w2 _ w3] up clock_dv [OF clk] k id
        by (cases x) auto
      moreover have "dv w' = dv w3"
        using assms False get Inr c up keepsD [OF keeps_removeFromIndex]
        by (auto simp: SettingsService_Update_def bindE_Inr apply_input_valid Let_def bindE_def wrapE_def
            split: sum.splits prod.splits if_splits)
      ultimately show ?thesis using False e by auto
    qed
  qed
qed

lemma GrantConsent_done:
  assumes "GrantConsent svc u w = (Inr s, w')"
  shows "(\<exists>w1. mfa_HasVerifiedMFA (ss_mfa svc) u w = (Inr True, w1))
       \<and> (\<exists>now \<ge> reading w. erased s = (on_record (dv w) u)\<lparr>ProximityConsentEnabled := True,
                 ProximityConsentTS := Some now,
                 ProximityConsentRenewDue := Some (now + ConsentValidityPeriod)\<rparr>)
       \<and> dv w' = (dv w)\<lparr>pv_settings := (pv_settings (dv w))(u \<mapsto> erased s)\<rparr>"
proof -
  from assms obtain w1 c0 w2 now w3 where
    mfa: "mfa_HasVerifiedMFA (ss_mfa svc) u w = (Inr True, w1)"
    and get: "SettingsService_Get svc u w1 = (Inr c0, w2)"
    and clk: "Now (ss_clock svc) w2 = (now, w3)"
    and up: "psr_Upsert (ss_settings svc) s w3 = (Inr (), w')"
    and s: "s = c0\<lparr>ProximityConsentEnabled := True, ProximityConsentTS := Some now,
              ProximityConsentRenewDue := Some (now + ConsentValidityPeriod), UpdatedAt := now\<rparr>"
    unfolding GrantConsent_def
    by (auto simp: Let_def split: if_splits)
  note g = Get_on_record [OF get] keepsD [OF mfa_keeps mfa] keepsD [OF clock_keeps clk]
  have "erased s = (erased c0)\<lparr>ProximityConsentEnabled := True,
      ProximityConsentTS := Some now, ProximityConsentRenewDue := Some (now + ConsentValidityPeriod)\<rparr>"
    by (simp add: s erased_def)
  moreover have "reading w \<le> now"
    using Now_forward [OF clk] keepsD [OF SettingsService_Get_reading get] keepsD [OF mfa_reading mfa]
    by simp
  moreover have "UserID s = u" using g by (simp add: s)
  ultimately show ?thesis using mfa Upsert_done [OF up] g by auto
qed

lemma RevokeConsent_done:
  assumes "RevokeConsent svc u w = (Inr s, w')"
  shows "erased s = (on_record (dv w) u)\<lparr>ProximityConsentEnabled := False, Paused := True\<rparr>
       \<and> dv w' = (dv w)\<lparr>pv_settings := (pv_settings (dv w))(u \<mapsto> erased s)\<rparr>
       \<and> (\<forall>geo. ss_geo svc = Some geo \<longrightarrow> (\<exists>w1. w' = snd (geo_Remove geo u w1)))"
proof -
  from assms obtain c0 w1 now w2 w3 z where
    get: "SettingsService_Get svc u w = (Inr c0, w1)"
    and clk: "Now (ss_clock svc) w1 = (now, w2)"
    and up: "psr_Upsert (ss_settings svc) s w2 = (Inr (), w3)"
    and rem: "removeFromIndex svc u w3 = (Inr z, w')"
    and s: "s = c0\<lparr>ProximityConsentEnabled := False, Paused := True, UpdatedAt := now\<rparr>"
    unfolding RevokeConsent_def
    by (auto simp: Let_def split: if_splits)
  note g = Get_on_record [OF get] clock_dv [OF clk] keepsD [OF keeps_removeFromIndex rem]
  have "erased s = (erased c0)\<lparr>ProximityConsentEnabled := False, Paused := True\<rparr>"
    by (simp add: s erased_def)
  moreover have "UserID s = u" using g by (simp add: s)
  moreover have "\<exists>w1. w' = snd (geo_Remove geo u w1)" if "ss_geo svc = Some geo" for geo
    using rem that unfolding removeFromIndex_def ignore_def
    by (auto split: prod.splits) (metis snd_conv)
  ultimately show ?thesis using Upsert_done [OF up] g by auto
qed

end

end
