(* ===== verification/Nearby_Service.thy ===== *)
theory Nearby_Service
  imports Presence_Domain
begin

text \<open>
  \<^verbatim>\<open>backend/internal/presence/nearby_service.go\<close>: the query engine, where every privacy control of
  the feature is applied.
\<close>

record NearbyResult =
  nr_UserID :: string
  nr_DisplayName :: string
  nr_AvatarURL :: string
  nr_Bucket :: DistanceBucket
  nr_TrackID :: string

record 'w NearbyService =
  ns_settings :: "'w PrivacySettingsRepository"
  ns_blocks :: "'w BlockRepository"
  ns_follows :: "'w FollowChecker"
  ns_geo :: "'w GeoIndex"
  ns_audit :: "'w AuditLogRepository"
  ns_profiles :: "'w ProfileResolver"
  ns_pairLimiter :: "'w RateLimiter"
  ns_dailyLimiter :: "'w RateLimiter"
  ns_jitter :: "'w Jitterer"
  ns_clock :: "'w Clock"
  ns_ids :: "'w Generator"

definition searchPadding :: real where
  "searchPadding = 2 * JitterRadiusM"

definition settingsOrDefault :: "'w NearbyService \<Rightarrow> string \<Rightarrow> ('w, PrivacySettings) io" where
  "settingsOrDefault n userID =
     bindE (attempt (psr_Get (ns_settings n) userID)) (\<lambda>r. case r of
       Inl e \<Rightarrow> if errors_Is e ErrSettingsNotFound then ret (DefaultPrivacySettings userID)
                else throw (Wrapped ''presence: get settings'' e)
     | Inr st \<Rightarrow> ret st)"

definition checkConsent :: "PrivacySettings \<Rightarrow> time \<Rightarrow> ('w, unit) io" where
  "checkConsent st now =
     (if \<not> ProximityConsentEnabled st then throw (Sentinel ErrConsentRequired)
      else if \<not> HasActiveConsent st now then throw (Sentinel ErrConsentExpired)
      else ret ())"

definition CheckConsent :: "'w NearbyService \<Rightarrow> string \<Rightarrow> ('w, unit) io" where
  "CheckConsent n userID =
     bindE (settingsOrDefault n userID) (\<lambda>st.
     bindE (call (Now (ns_clock n))) (\<lambda>now. checkConsent st now))"

record candidate =
  cd_userID :: string
  cd_dist :: real
  cd_mutual :: bool
  cd_target :: PrivacySettings

text \<open>The body of the first loop of \<^verbatim>\<open>query\<close>; \<open>None\<close> is its \<^verbatim>\<open>continue\<close>.\<close>

definition consider_candidate ::
    "'w NearbyService \<Rightarrow> string \<Rightarrow> PrivacySettings \<Rightarrow> GeoPosition \<Rightarrow> time \<Rightarrow> NearbyCandidate
     \<Rightarrow> ('w, candidate option) io" where
  "consider_candidate n requesterID requesterSettings myPos now c =
     (if nc_UserID c = requesterID then ret None
      else
        bindE (wrapE ''presence: block check''
                 (br_IsBlockedEitherWay (ns_blocks n) requesterID (nc_UserID c))) (\<lambda>blocked.
        if blocked then ret None
        else
          bindE (settingsOrDefault n (nc_UserID c)) (\<lambda>target.
          if Paused target \<or> PresenceVisibility target = VisibilityInvisible then ret None
          else if \<not> HasActiveConsent target now then ret None
          else
            bindE (wrapE ''presence: follow check''
                     (IsMutualFollow (ns_follows n) requesterID (nc_UserID c))) (\<lambda>mutual.
            if PresenceVisibility target = VisibilityFriendsOnly \<and> \<not> mutual then ret None
            else
              let dist = DistanceMeters myPos (nc_Position c);
                  maxRadius = min (real_of_int (VisibilityRadiusM requesterSettings))
                                  (real_of_int (VisibilityRadiusM target))
              in if dist > maxRadius then ret None
                 else
                   bindE (wrapE ''presence: pair rate limit''
                            (Allow (ns_pairLimiter n) (pairKey requesterID (nc_UserID c))
                               PairQueryLimit PairQueryWindow)) (\<lambda>(allowed, _).
                   if \<not> allowed then ret None
                   else ret (Some \<lparr>cd_userID = nc_UserID c, cd_dist = dist, cd_mutual = mutual,
                                   cd_target = target\<rparr>))))))"

definition shows_identity :: "candidate \<Rightarrow> bool" where
  "shows_identity c \<longleftrightarrow> cd_mutual c \<or> RevealLevel (cd_target c) = RevealLevelOpenDiscovery"

definition query_endpoint :: string where
  "query_endpoint = ''ws:/v1/presence/connect''"

definition resolve_profiles :: "'w NearbyService \<Rightarrow> candidate list \<Rightarrow> ('w, string \<rightharpoonup> Profile) io" where
  "resolve_profiles n survivors =
     (let needProfile = map cd_userID (filter shows_identity survivors) in
      if needProfile \<noteq> []
      then wrapE ''presence: resolve profiles'' (Resolve (ns_profiles n) needProfile)
      else ret Map.empty)"

text \<open>The body of the last loop of \<^verbatim>\<open>query\<close>: the result about one survivor, and its audit entry.\<close>

definition disclose ::
    "'w NearbyService \<Rightarrow> string \<Rightarrow> time \<Rightarrow> (string \<rightharpoonup> PresenceEntry) \<Rightarrow> (string \<rightharpoonup> Profile) \<Rightarrow> candidate
     \<Rightarrow> ('w, NearbyResult option) io" where
  "disclose n requesterID now details profiles c =
     (case details (cd_userID c) of
        None \<Rightarrow> ret None
      | Some detail \<Rightarrow>
          (let bucket = BucketFor (cd_dist c) in
           if bucket = BucketNone then ret None
           else
             let profile = (if shows_identity c then profiles (cd_userID c) else None);
                 res = \<lparr>nr_UserID = cd_userID c,
                        nr_DisplayName = (case profile of None \<Rightarrow> '''' | Some p \<Rightarrow> pf_DisplayName p),
                        nr_AvatarURL = (case profile of None \<Rightarrow> '''' | Some p \<Rightarrow> pf_AvatarURL p),
                        nr_Bucket = bucket,
                        nr_TrackID = (if pe_ShareTrack detail then pe_TrackID detail else '''')\<rparr>
             in bindE (call (NewID (ns_ids n))) (\<lambda>i.
                bindE (wrapE ''presence: append audit log'' (alr_Append (ns_audit n)
                         \<lparr>ale_ID = i, RequesterID = requesterID, TargetID = cd_userID c,
                          OccurredAt = now, ale_Bucket = bucket, Endpoint = query_endpoint\<rparr>)) (\<lambda>_.
                ret (Some res)))))"

definition query ::
    "'w NearbyService \<Rightarrow> string \<Rightarrow> PrivacySettings \<Rightarrow> GeoPosition \<Rightarrow> time \<Rightarrow> ('w, NearbyResult list) io"
where
  "query n requesterID requesterSettings myPos now =
     (let searchRadius = real_of_int (VisibilityRadiusM requesterSettings) + searchPadding in
      bindE (wrapE ''presence: search'' (geo_Search (ns_geo n) myPos searchRadius requesterID)) (\<lambda>raw.
      if raw = [] then ret []
      else
        bindE (wrapE ''presence: daily rate limit''
                 (Allow (ns_dailyLimiter n) (dailyKey requesterID) DailyQueryLimit DailyQueryWindow))
          (\<lambda>(dailyAllowed, _).
        if \<not> dailyAllowed then ret []
        else
          bindE (collect (consider_candidate n requesterID requesterSettings myPos now) raw) (\<lambda>survivors.
          if survivors = [] then ret []
          else
            bindE (wrapE ''presence: detail'' (geo_Detail (ns_geo n) (map cd_userID survivors))) (\<lambda>details.
            bindE (resolve_profiles n survivors) (\<lambda>profiles.
            collect (disclose n requesterID now details profiles) survivors))))))"

definition ApplyUpdate ::
    "'w NearbyService \<Rightarrow> string \<Rightarrow> real \<Rightarrow> real \<Rightarrow> string \<Rightarrow> duration \<Rightarrow> ('w, NearbyResult list) io"
where
  "ApplyUpdate n requesterID rawLat rawLon trackID ttl =
     bindE (settingsOrDefault n requesterID) (\<lambda>requesterSettings.
     bindE (call (Now (ns_clock n))) (\<lambda>now.
     bindE (checkConsent requesterSettings now) (\<lambda>_.
     bindE (wrapE ''presence: apply update'' (Jitter (ns_jitter n) \<lparr>Lat = rawLat, Lon = rawLon\<rparr>))
       (\<lambda>jittered.
     bindE (if Paused requesterSettings \<or> PresenceVisibility requesterSettings = VisibilityInvisible
            then ignore (geo_Remove (ns_geo n) requesterID)
            else wrapE ''presence: upsert presence entry'' (geo_Upsert (ns_geo n)
                   \<lparr>pe_UserID = requesterID, pe_Position = jittered, pe_TrackID = trackID,
                    pe_ShareTrack = PresenceShareTrack requesterSettings,
                    pe_Visibility = PresenceVisibility requesterSettings,
                    pe_UpdatedAt = now\<rparr> ttl)) (\<lambda>_.
     query n requesterID requesterSettings jittered now)))))"

definition ApplyHeartbeat ::
    "'w NearbyService \<Rightarrow> string \<Rightarrow> duration \<Rightarrow> ('w, NearbyResult list) io" where
  "ApplyHeartbeat n requesterID ttl =
     bindE (settingsOrDefault n requesterID) (\<lambda>requesterSettings.
     bindE (call (Now (ns_clock n))) (\<lambda>now.
     bindE (checkConsent requesterSettings now) (\<lambda>_.
     bindE (wrapE ''presence: touch presence entry'' (geo_Touch (ns_geo n) requesterID ttl)) (\<lambda>r.
     case r of
       None \<Rightarrow> ret []
     | Some pos \<Rightarrow> query n requesterID requesterSettings pos now))))"

definition SetVisibility :: "'w NearbyService \<Rightarrow> string \<Rightarrow> string \<Rightarrow> ('w, unit) io" where
  "SetVisibility n userID mode =
     (if mode = VisibilityInvisible then geo_Remove (ns_geo n) userID else ret ())"

definition Disconnect :: "'w NearbyService \<Rightarrow> string \<Rightarrow> ('w, unit) io" where
  "Disconnect n userID = geo_Remove (ns_geo n) userID"

text \<open>The four ways in which a query that does not fail can go.\<close>

lemma query_cases:
  assumes "query n a rs p now w = (Inr res, w')"
  obtains (empty) w1 where
      "geo_Search (ns_geo n) p (real_of_int (VisibilityRadiusM rs) + searchPadding) a w = (Inr [], w1)"
      "res = []" "w' = w1"
  | (over_budget) raw w1 x where
      "geo_Search (ns_geo n) p (real_of_int (VisibilityRadiusM rs) + searchPadding) a w = (Inr raw, w1)"
      "Allow (ns_dailyLimiter n) (dailyKey a) DailyQueryLimit DailyQueryWindow w1 = (Inr (False, x), w')"
      "res = []"
  | (nobody) raw w1 x w2 where
      "geo_Search (ns_geo n) p (real_of_int (VisibilityRadiusM rs) + searchPadding) a w = (Inr raw, w1)"
      "Allow (ns_dailyLimiter n) (dailyKey a) DailyQueryLimit DailyQueryWindow w1 = (Inr (True, x), w2)"
      "collect (consider_candidate n a rs p now) raw w2 = (Inr [], w')" "res = []"
  | (some) raw w1 x w2 cs w3 det w4 prof w5 where
      "geo_Search (ns_geo n) p (real_of_int (VisibilityRadiusM rs) + searchPadding) a w = (Inr raw, w1)"
      "Allow (ns_dailyLimiter n) (dailyKey a) DailyQueryLimit DailyQueryWindow w1 = (Inr (True, x), w2)"
      "collect (consider_candidate n a rs p now) raw w2 = (Inr cs, w3)"
      "geo_Detail (ns_geo n) (map cd_userID cs) w3 = (Inr det, w4)"
      "resolve_profiles n cs w4 = (Inr prof, w5)"
      "collect (disclose n a now det prof) cs w5 = (Inr res, w')"
  using assms unfolding query_def Let_def
  by (auto split: if_splits)

section \<open>What may be disclosed\<close>

definition mutual :: "pview \<Rightarrow> string \<Rightarrow> string \<Rightarrow> bool" where
  "mutual v a b \<longleftrightarrow> (a, b) \<in> pv_follows v \<and> (b, a) \<in> pv_follows v"

definition may_see :: "pview \<Rightarrow> string \<Rightarrow> time \<Rightarrow> string \<Rightarrow> bool" where
  "may_see v a now b \<longleftrightarrow>
     a \<noteq> b \<and> (a, b) \<notin> pv_blocks v \<and> (b, a) \<notin> pv_blocks v
     \<and> \<not> Paused (on_record v b) \<and> PresenceVisibility (on_record v b) \<noteq> VisibilityInvisible
     \<and> HasActiveConsent (on_record v b) now
     \<and> (PresenceVisibility (on_record v b) = VisibilityFriendsOnly \<longrightarrow> mutual v a b)"

definition may_name :: "pview \<Rightarrow> string \<Rightarrow> string \<Rightarrow> bool" where
  "may_name v a b \<longleftrightarrow> mutual v a b \<or> RevealLevel (on_record v b) = RevealLevelOpenDiscovery"

text \<open>The bucket of a distance inside both radii.\<close>

definition bucket_within :: "DistanceBucket \<Rightarrow> int \<Rightarrow> int \<Rightarrow> bool" where
  "bucket_within k r1 r2 \<longleftrightarrow>
     k \<noteq> BucketNone \<and> (\<exists>d \<ge> 0. k = BucketFor d \<and> d \<le> real_of_int r1 \<and> d \<le> real_of_int r2)"

definition permitted :: "pview \<Rightarrow> string \<Rightarrow> time \<Rightarrow> NearbyResult \<Rightarrow> bool" where
  "permitted v a now r \<longleftrightarrow>
     may_see v a now (nr_UserID r)
     \<and> (nr_DisplayName r \<noteq> '''' \<or> nr_AvatarURL r \<noteq> '''' \<longrightarrow> may_name v a (nr_UserID r))
     \<and> bucket_within (nr_Bucket r) (VisibilityRadiusM (on_record v a))
         (VisibilityRadiusM (on_record v (nr_UserID r)))"

text \<open>The audit entry that accounts for a result.\<close>

definition accounts :: "string \<Rightarrow> time \<Rightarrow> AuditLogEntry \<Rightarrow> NearbyResult \<Rightarrow> bool" where
  "accounts a now e r \<longleftrightarrow>
     RequesterID e = a \<and> TargetID e = nr_UserID r \<and> OccurredAt e = now
     \<and> ale_Bucket e = nr_Bucket r \<and> Endpoint e = query_endpoint"

definition audited :: "pview \<Rightarrow> AuditLogEntry list \<Rightarrow> pview" where
  "audited v es = v\<lparr>pv_audit := pv_audit v @ es\<rparr>"

lemma audited_simps [simp]:
  "audited v [] = v" "pv_settings (audited v es) = pv_settings v" "pv_blocks (audited v es) = pv_blocks v"
  "pv_follows (audited v es) = pv_follows v" "pv_audit (audited v es) = pv_audit v @ es"
  "(audited v es)\<lparr>pv_audit := pv_audit v @ es @ fs\<rparr> = audited v (es @ fs)"
  "on_record (audited v es) u = on_record v u"
  by (simp_all add: audited_def on_record_def)

definition only_audits :: "pview \<Rightarrow> pview \<Rightarrow> bool" where
  "only_audits v v' \<longleftrightarrow> (\<exists>es. v' = audited v es)"

lemma only_audits_reflp: "reflp only_audits"
  by (auto simp: reflp_def only_audits_def intro!: exI [of _ "[]"])

lemma only_audits_transp: "transp only_audits"
  by (auto simp: transp_def only_audits_def audited_def)

text \<open>What the first loop knows of a survivor.\<close>

definition screened :: "pview \<Rightarrow> string \<Rightarrow> PrivacySettings \<Rightarrow> time \<Rightarrow> candidate \<Rightarrow> bool" where
  "screened v a rs now c \<longleftrightarrow>
     may_see v a now (cd_userID c) \<and> (cd_mutual c \<longleftrightarrow> mutual v a (cd_userID c))
     \<and> erased (cd_target c) = on_record v (cd_userID c)
     \<and> 0 \<le> cd_dist c \<and> cd_dist c \<le> real_of_int (VisibilityRadiusM rs)
     \<and> cd_dist c \<le> real_of_int (VisibilityRadiusM (cd_target c))"

lemma erased_eq_fields:
  assumes "erased s = t"
  shows "Paused s = Paused t" "PresenceVisibility s = PresenceVisibility t"
    "HasActiveConsent s now = HasActiveConsent t now" "VisibilityRadiusM s = VisibilityRadiusM t"
    "RevealLevel s = RevealLevel t" "ProximityConsentEnabled s = ProximityConsentEnabled t"
  using assms by auto

section \<open>The pipeline over any environment that keeps its contracts\<close>

locale nearby_env =
  settings_repository "ns_settings n" dv + block_repository "ns_blocks n" dv
  + follow_checker "ns_follows n" dv + audit_log "ns_audit n" dv + geo_index "ns_geo n" dv
  + monotone_clock "ns_clock n" reading
  for n :: "'w NearbyService" and dv :: "'w \<Rightarrow> pview" and reading :: "'w \<Rightarrow> time" +
  assumes Resolve_keeps: "keeps dv (Resolve (ns_profiles n) us)"
    and pair_keeps: "keeps dv (Allow (ns_pairLimiter n) k l d)"
    and daily_keeps: "keeps dv (Allow (ns_dailyLimiter n) k l d)"
    and Jitter_keeps: "keeps dv (Jitter (ns_jitter n) p)"
    and Now_keeps: "keeps dv (Now (ns_clock n))"
    and NewID_keeps: "keeps dv (NewID (ns_ids n))"
    and Get_reading: "keeps reading (psr_Get (ns_settings n) u)"
begin

lemma settingsOrDefault_reading: "keeps reading (settingsOrDefault n u)"
  unfolding settingsOrDefault_def by (intro keeps_intros Get_reading)

lemma keeps_settingsOrDefault: "keeps dv (settingsOrDefault n u)"
  unfolding settingsOrDefault_def by (intro keeps_intros Get_keeps)

lemma keeps_consider: "keeps dv (consider_candidate n a rs p now c)"
  unfolding consider_candidate_def Let_def case_prod_beta
  by (intro keeps_intros IsBlocked_keeps keeps_settingsOrDefault IsMutual_keeps pair_keeps)

lemma keeps_resolve_profiles: "keeps dv (resolve_profiles n cs)"
  unfolding resolve_profiles_def Let_def by (intro keeps_intros Resolve_keeps)

lemma settingsOrDefault_on_record:
  assumes "settingsOrDefault n u w = (Inr s, w')"
  shows "dv w' = dv w \<and> erased s = on_record (dv w) u"
proof -
  from assms obtain r where get: "psr_Get (ns_settings n) u w = (r, w')"
    and r: "(case r of Inl e \<Rightarrow> errors_Is e ErrSettingsNotFound \<and> s = DefaultPrivacySettings u
             | Inr st \<Rightarrow> s = st)"
    unfolding settingsOrDefault_def by (auto split: if_splits sum.splits)
  note keepsD [OF Get_keeps get]
  moreover have "erased s = on_record (dv w) u"
    using get r Get_row Get_absent
    by (cases r) (auto simp: on_record_def split: option.splits)
  ultimately show ?thesis by simp
qed

lemma consider_screened:
  assumes "consider_candidate n a rs p now c w = (Inr (Some x), w')"
  shows "screened (dv w) a rs now x \<and> cd_userID x = nc_UserID c
       \<and> cd_dist x = DistanceMeters p (nc_Position c)"
proof -
  from assms obtain w1 t w2 m w3 d where
    blocked: "br_IsBlockedEitherWay (ns_blocks n) a (nc_UserID c) w = (Inr False, w1)"
    and get: "settingsOrDefault n (nc_UserID c) w1 = (Inr t, w2)"
    and mut: "IsMutualFollow (ns_follows n) a (nc_UserID c) w2 = (Inr m, w3)"
    and self: "nc_UserID c \<noteq> a"
    and t: "\<not> Paused t" "PresenceVisibility t \<noteq> VisibilityInvisible" "HasActiveConsent t now"
      "PresenceVisibility t = VisibilityFriendsOnly \<longrightarrow> m"
    and d: "\<not> d > min (real_of_int (VisibilityRadiusM rs)) (real_of_int (VisibilityRadiusM t))"
      "d = DistanceMeters p (nc_Position c)"
    and x: "x = \<lparr>cd_userID = nc_UserID c, cd_dist = d, cd_mutual = m, cd_target = t\<rparr>"
    unfolding consider_candidate_def
    by (auto simp: Let_def split: if_splits)
  have v1: "dv w1 = dv w" by (rule keepsD [OF IsBlocked_keeps blocked])
  note g = settingsOrDefault_on_record [OF get]
  note e = erased_eq_fields [OF conjunct2 [OF g]]
  have "m \<longleftrightarrow> mutual (dv w) a (nc_UserID c)"
    using IsMutual_iff [OF mut] g v1 by (simp add: mutual_def)
  moreover have "(a, nc_UserID c) \<notin> pv_blocks (dv w)" "(nc_UserID c, a) \<notin> pv_blocks (dv w)"
    using IsBlocked_iff [OF blocked] by simp_all
  ultimately show ?thesis
    using self t d g v1 e DistanceMeters_nonneg [of p "nc_Position c"]
    by (auto simp: x screened_def may_see_def)
qed

lemma survivors_screened:
  assumes "collect (consider_candidate n a rs p now) raw w = (Inr cs, w')"
  shows "dv w' = dv w \<and> (\<forall>c \<in> set cs. screened (dv w) a rs now c)"
proof (rule collect_invariant [OF assms])
  show "dv w = dv w \<and> (\<forall>c \<in> set []. screened (dv w) a rs now c)" by simp
next
  fix x w1 r w2 ys
  assume "dv w1 = dv w \<and> (\<forall>c \<in> set ys. screened (dv w) a rs now c)"
    and f: "consider_candidate n a rs p now x w1 = (Inr r, w2)"
  then show "dv w2 = dv w \<and> (\<forall>c \<in> set (appended ys r). screened (dv w) a rs now c)"
    using keepsD [OF keeps_consider f] consider_screened [of a rs p now x w1]
    by (cases r) auto
qed

lemma disclose_Some:
  assumes "disclose n a now details profiles c w = (Inr (Some r), w')"
    and "screened v a rs now c" and "VisibilityRadiusM rs = VisibilityRadiusM (on_record v a)"
  shows "permitted v a now r \<and> (\<exists>e. accounts a now e r \<and> dv w' = audited (dv w) [e])"
proof -
  from assms(1) obtain det i w1 where
    b: "BucketFor (cd_dist c) \<noteq> BucketNone" and det: "details (cd_userID c) = Some det"
    and ids: "NewID (ns_ids n) w = (i, w1)"
    and app: "alr_Append (ns_audit n)
         \<lparr>ale_ID = i, RequesterID = a, TargetID = cd_userID c, OccurredAt = now,
          ale_Bucket = BucketFor (cd_dist c), Endpoint = query_endpoint\<rparr> w1 = (Inr (), w')"
    and r: "nr_UserID r = cd_userID c" "nr_Bucket r = BucketFor (cd_dist c)"
      "\<not> shows_identity c \<Longrightarrow> nr_DisplayName r = '''' \<and> nr_AvatarURL r = ''''"
    unfolding disclose_def
    by (auto simp: Let_def split: if_splits option.splits)
  have "dv w' = audited (dv w) [\<lparr>ale_ID = i, RequesterID = a, TargetID = cd_userID c, OccurredAt = now,
          ale_Bucket = BucketFor (cd_dist c), Endpoint = query_endpoint\<rparr>]"
    using Append_done [OF app] keepsD [OF NewID_keeps ids] by (simp add: audited_def)
  moreover have "bucket_within (BucketFor (cd_dist c)) (VisibilityRadiusM (on_record v a))
      (VisibilityRadiusM (on_record v (cd_userID c)))"
    unfolding bucket_within_def
    using assms(2,3) b by (auto simp: screened_def dest: erased_eq_fields(4) intro!: exI [of _ "cd_dist c"])
  then have "permitted v a now r"
    using assms(2,3) r(3)
    by (auto simp: permitted_def screened_def r(1,2) shows_identity_def may_name_def
        dest: erased_eq_fields(5))
  moreover have "accounts a now \<lparr>ale_ID = i, RequesterID = a, TargetID = cd_userID c,
      OccurredAt = now, ale_Bucket = BucketFor (cd_dist c), Endpoint = query_endpoint\<rparr> r"
    by (simp add: accounts_def r(1,2))
  ultimately show ?thesis by blast
qed

lemma disclose_None:
  assumes "disclose n a now details profiles c w = (Inr None, w')"
  shows "w' = w"
  using assms unfolding disclose_def by (auto simp: Let_def split: option.splits if_splits)

lemma disclosed:
  assumes "collect (disclose n a now details profiles) cs w = (Inr rs, w')"
    and "\<forall>c \<in> set cs. screened v a st now c" and "VisibilityRadiusM st = VisibilityRadiusM (on_record v a)"
  shows "(\<forall>r \<in> set rs. permitted v a now r)
       \<and> (\<exists>es. list_all2 (accounts a now) es rs \<and> dv w' = audited (dv w) es)"
proof (rule collect_invariant [OF assms(1)])
  show "(\<forall>r \<in> set []. permitted v a now r)
      \<and> (\<exists>es. list_all2 (accounts a now) es [] \<and> dv w = audited (dv w) es)"
    by (intro conjI exI [of _ "[]"]) simp_all
next
  fix c w1 r w2 ys
  assume c: "c \<in> set cs" and f: "disclose n a now details profiles c w1 = (Inr r, w2)"
    and I: "(\<forall>r \<in> set ys. permitted v a now r)
      \<and> (\<exists>es. list_all2 (accounts a now) es ys \<and> dv w1 = audited (dv w) es)"
  then obtain es where es: "list_all2 (accounts a now) es ys" "dv w1 = audited (dv w) es" by blast
  show "(\<forall>r \<in> set (appended ys r). permitted v a now r)
      \<and> (\<exists>es. list_all2 (accounts a now) es (appended ys r) \<and> dv w2 = audited (dv w) es)"
  proof (cases r)
    case None
    with f I show ?thesis by (auto dest: disclose_None)
  next
    case (Some x)
    obtain e where x: "permitted v a now x" "accounts a now e x" "dv w2 = audited (dv w1) [e]"
      using disclose_Some [OF f [unfolded Some] _ assms(3)] assms(2) c by blast
    have "list_all2 (accounts a now) (es @ [e]) (ys @ [x])"
      using es x by (simp add: list_all2_appendI)
    moreover have "dv w2 = audited (dv w) (es @ [e])" using x es by (simp add: audited_def)
    ultimately show ?thesis using I x Some by auto
  qed
qed

lemma query_permitted:
  assumes "query n a rs p now w = (Inr res, w')"
    and "VisibilityRadiusM rs = VisibilityRadiusM (on_record (dv w) a)"
  shows "(\<forall>r \<in> set res. permitted (dv w) a now r)
       \<and> (\<exists>es. list_all2 (accounts a now) es res \<and> dv w' = audited (dv w) es)"
proof -
  have nothing: ?thesis if "res = []" "dv w' = dv w"
    using that by (auto intro!: exI [of _ "[]"])
  from assms(1) show ?thesis
  proof (cases rule: query_cases)
    case (empty w1)
    show ?thesis
      by (rule nothing) (simp_all add: empty keepsD [OF geo_keeps(4) empty(1)])
  next
    case (over_budget raw w1 x)
    show ?thesis
      by (rule nothing) (simp_all add: over_budget(3) keepsD [OF geo_keeps(4) over_budget(1)]
          keepsD [OF daily_keeps over_budget(2)])
  next
    case (nobody raw w1 x w2)
    show ?thesis
      by (rule nothing) (simp_all add: nobody(4) keepsD [OF geo_keeps(4) nobody(1)]
          keepsD [OF daily_keeps nobody(2)] survivors_screened [OF nobody(3)])
  next
    case (some raw w1 x w2 cs w3 det w4 prof w5)
    have v2: "dv w2 = dv w"
      using keepsD [OF geo_keeps(4) some(1)] keepsD [OF daily_keeps some(2)] by simp
    note scr = survivors_screened [OF some(3)]
    have "dv w5 = dv w"
      using keepsD [OF geo_keeps(5) some(4)]
        keepsD [OF keeps_resolve_profiles some(5)] scr v2 by simp
    then show ?thesis
      using disclosed [OF some(6) _ assms(2)] scr v2 by simp
  qed
qed

text \<open>Whatever happens, also when a query fails half way: only audit entries are added.\<close>

lemma Append_moves: "moves dv only_audits (alr_Append (ns_audit n) e)"
proof (rule movesI)
  fix w r w'
  assume app: "alr_Append (ns_audit n) e w = (r, w')"
  show "only_audits (dv w) (dv w')"
  proof (cases r)
    case (Inl x)
    from Append_failed [OF app [unfolded Inl]] show ?thesis
      by (auto simp: only_audits_def audited_def intro: exI [of _ "[]"])
  next
    case (Inr x)
    from Append_done [OF app [unfolded Inr unit_eq [of x]]] show ?thesis
      by (auto simp: only_audits_def audited_def)
  qed
qed

lemmas keeps_moves = moves_keeps [OF only_audits_reflp]

lemma disclose_moves: "moves dv only_audits (disclose n a now details profiles c)"
  unfolding disclose_def Let_def
  by (intro moves_intros only_audits_transp Append_moves)
    (rule keeps_moves, intro keeps_intros NewID_keeps)+

lemma query_moves: "moves dv only_audits (query n a rs p now)"
  unfolding query_def Let_def case_prod_beta
  by (intro moves_intros only_audits_transp only_audits_reflp disclose_moves
      keeps_moves [OF geo_keeps(4)] keeps_moves [OF daily_keeps] keeps_moves [OF keeps_consider]
      keeps_moves [OF geo_keeps(5)] keeps_moves [OF keeps_resolve_profiles] keeps_moves [OF keeps_ret])

text \<open>What a frame that is answered shows: live consent, and nothing but permitted results.\<close>

definition answered :: "string \<Rightarrow> 'w \<Rightarrow> NearbyResult list \<Rightarrow> 'w \<Rightarrow> bool" where
  "answered a w res w' \<longleftrightarrow>
     (\<exists>now \<ge> reading w. HasActiveConsent (on_record (dv w) a) now
        \<and> (\<forall>r \<in> set res. permitted (dv w) a now r)
        \<and> (\<exists>es. list_all2 (accounts a now) es res \<and> dv w' = audited (dv w) es))"

lemma checkConsent_done: "checkConsent st now w = (Inr x, w') \<longleftrightarrow> HasActiveConsent st now \<and> w' = w"
  by (auto simp: checkConsent_def HasActiveConsent_def split: option.splits)

lemma ApplyUpdate_answered:
  assumes "ApplyUpdate n a lat lon trk ttl w = (Inr res, w')"
  shows "answered a w res w'"
proof -
  from assms obtain st w1 now w2 p w3 w4 x where
    get: "settingsOrDefault n a w = (Inr st, w1)" and clk: "Now (ns_clock n) w1 = (now, w2)"
    and ok: "HasActiveConsent st now"
    and jit: "Jitter (ns_jitter n) \<lparr>Lat = lat, Lon = lon\<rparr> w2 = (Inr p, w3)"
    and geo: "(if Paused st \<or> PresenceVisibility st = VisibilityInvisible
            then ignore (geo_Remove (ns_geo n) a)
            else geo_Upsert (ns_geo n)
                   \<lparr>pe_UserID = a, pe_Position = p, pe_TrackID = trk,
                    pe_ShareTrack = PresenceShareTrack st, pe_Visibility = PresenceVisibility st,
                    pe_UpdatedAt = now\<rparr> ttl) w3 = (Inr x, w4)"
    and q: "query n a st p now w4 = (Inr res, w')"
    unfolding ApplyUpdate_def by (auto simp: checkConsent_done split: if_splits)
  have "dv w4 = dv w3"
    by (rule keepsD [OF keeps_if [OF keeps_ignore [OF geo_keeps(3)] geo_keeps(1)] geo])
  then have v4: "dv w4 = dv w"
    using settingsOrDefault_on_record [OF get] keepsD [OF Now_keeps clk] keepsD [OF Jitter_keeps jit]
    by simp
  note e = erased_eq_fields [OF conjunct2 [OF settingsOrDefault_on_record [OF get]]]
  have "reading w \<le> now"
    using Now_forward [OF clk] keepsD [OF settingsOrDefault_reading get] by simp
  then show ?thesis
    using query_permitted [OF q] v4 e ok unfolding answered_def by auto
qed

lemma ApplyHeartbeat_answered:
  assumes "ApplyHeartbeat n a ttl w = (Inr res, w')"
  shows "answered a w res w'"
proof -
  from assms obtain st w1 now w2 r w3 where
    get: "settingsOrDefault n a w = (Inr st, w1)" and clk: "Now (ns_clock n) w1 = (now, w2)"
    and ok: "HasActiveConsent st now"
    and tch: "geo_Touch (ns_geo n) a ttl w2 = (Inr r, w3)"
    and q: "(case r of None \<Rightarrow> ret [] | Some pos \<Rightarrow> query n a st pos now) w3 = (Inr res, w')"
    unfolding ApplyHeartbeat_def by (auto simp: checkConsent_done)
  have v3: "dv w3 = dv w"
    using settingsOrDefault_on_record [OF get] keepsD [OF Now_keeps clk] keepsD [OF geo_keeps(2) tch]
    by simp
  note e = erased_eq_fields [OF conjunct2 [OF settingsOrDefault_on_record [OF get]]]
  have "(\<forall>r \<in> set res. permitted (dv w) a now r)
      \<and> (\<exists>es. list_all2 (accounts a now) es res \<and> dv w' = audited (dv w) es)"
  proof (cases r)
    case None
    with q v3 show ?thesis by (auto intro!: exI [of _ "[]"])
  next
    case (Some pos)
    with q have "query n a st pos now w3 = (Inr res, w')" by simp
    from query_permitted [OF this] v3 e show ?thesis by simp
  qed
  moreover have "reading w \<le> now"
    using Now_forward [OF clk] keepsD [OF settingsOrDefault_reading get] by simp
  ultimately show ?thesis using e ok unfolding answered_def by auto
qed

text \<open>Whatever becomes of a frame, all it does to the durable state is append to the audit log.\<close>

lemma checkConsent_keeps: "keeps dv (checkConsent st now)"
  unfolding checkConsent_def by (intro keeps_intros)

lemma frames_move:
  "moves dv only_audits (ApplyUpdate n a lat lon trk ttl)"
  "moves dv only_audits (ApplyHeartbeat n a ttl)"
proof -
  show "moves dv only_audits (ApplyUpdate n a lat lon trk ttl)"
    unfolding ApplyUpdate_def
    by (intro moves_bindE only_audits_transp query_moves keeps_moves keeps_intros keeps_settingsOrDefault
        Now_keeps checkConsent_keeps Jitter_keeps geo_keeps)
  show "moves dv only_audits (ApplyHeartbeat n a ttl)"
    unfolding ApplyHeartbeat_def
    by (intro moves_bindE moves_case_option only_audits_transp query_moves keeps_moves [OF keeps_ret]
        keeps_moves [OF keeps_settingsOrDefault] keeps_moves [OF keeps_call [OF Now_keeps]]
        keeps_moves [OF checkConsent_keeps] keeps_moves [OF keeps_wrapE [OF geo_keeps(2)]])
qed

text \<open>
  Without consent, or with one that has expired, the frame changes nothing, and what it carries does not
  matter; the error tells which of the two it is, unless the settings could not be read.
\<close>

lemma consent_missing:
  assumes "\<And>q. reading w \<le> q \<Longrightarrow> \<not> HasActiveConsent (on_record (dv w) a) q"
  obtains e w1 where "dv w1 = dv w"
    and "\<And>lat lon trk ttl. ApplyUpdate n a lat lon trk ttl w = (Inl e, w1)"
    and "\<And>ttl. ApplyHeartbeat n a ttl w = (Inl e, w1)"
    and "CheckConsent n a w = (Inl e, w1)"
    and "e = Sentinel (if ProximityConsentEnabled (on_record (dv w) a) then ErrConsentExpired else ErrConsentRequired)
      \<or> (\<exists>e'. e = Wrapped ''presence: get settings'' e' \<and> psr_Get (ns_settings n) a w = (Inl e', w1)
             \<and> \<not> errors_Is e' ErrSettingsNotFound)"
proof -
  obtain r w1 where get: "settingsOrDefault n a w = (r, w1)" by fastforce
  note v1 = keepsD [OF keeps_settingsOrDefault get]
  show thesis
  proof (cases r)
    case (Inl e)
    then have "\<exists>e'. e = Wrapped ''presence: get settings'' e' \<and> psr_Get (ns_settings n) a w = (Inl e', w1)
        \<and> \<not> errors_Is e' ErrSettingsNotFound"
      using get by (auto simp: settingsOrDefault_def elim!: bindE_InlE split: sum.splits if_splits)
    then show ?thesis
      using that [of w1 e] get Inl v1
      by (simp add: ApplyUpdate_def ApplyHeartbeat_def CheckConsent_def bindE_Inl)
  next
    case (Inr st)
    obtain now w2 where clk: "Now (ns_clock n) w1 = (now, w2)" by fastforce
    then have c: "call (Now (ns_clock n)) w1 = (Inr now, w2)" by (simp add: call_def)
    have st: "erased st = on_record (dv w) a" using settingsOrDefault_on_record [OF get [unfolded Inr]] by simp
    have "reading w \<le> now"
      using Now_forward [OF clk] keepsD [OF settingsOrDefault_reading get] by simp
    with assms st have none: "\<not> HasActiveConsent st now" by (metis HasActiveConsent_erased)
    have same: "ProximityConsentEnabled st = ProximityConsentEnabled (on_record (dv w) a)" using st by (metis erased_fields(4))
    let ?e = "Sentinel (if ProximityConsentEnabled (on_record (dv w) a) then ErrConsentExpired else ErrConsentRequired)"
    have no: "checkConsent st now w2 = (Inl ?e, w2)" using none same by (simp add: checkConsent_def)
    have "dv w2 = dv w" using keepsD [OF Now_keeps clk] v1 by simp
    then show ?thesis
      using that [of w2 ?e] get Inr c no
      by (simp add: ApplyUpdate_def ApplyHeartbeat_def CheckConsent_def bindE_Inl bindE_Inr)
  qed
qed

end

section \<open>How often a target is shown\<close>

text \<open>
  \<open>spent w g w'\<close>: on the way from \<open>w\<close> to \<open>w'\<close> the pair limiter granted \<open>g\<close> calls for the pair
  \<open>(a, t)\<close>. Only the pair limiter asked for that pair's key grants any.
\<close>

definition spares_pair :: "('w \<Rightarrow> nat \<Rightarrow> 'w \<Rightarrow> bool) \<Rightarrow> ('w \<Rightarrow> 'a \<times> 'w) \<Rightarrow> bool" where
  "spares_pair spent m \<longleftrightarrow> moves (\<lambda>w. w) (\<lambda>w w'. spent w 0 w') m"

definition times_shown :: "string \<Rightarrow> NearbyResult list \<Rightarrow> nat" where
  "times_shown t res = length (filter (\<lambda>r. nr_UserID r = t) res)"

definition shown_in :: "string \<Rightarrow> err + NearbyResult list \<Rightarrow> nat" where
  "shown_in t r = (case r of Inl _ \<Rightarrow> 0 | Inr res \<Rightarrow> times_shown t res)"

locale pair_budget =
  fixes n :: "'w NearbyService" and spent :: "'w \<Rightarrow> nat \<Rightarrow> 'w \<Rightarrow> bool"
    and a :: string and t :: string
  assumes spent_refl: "spent w 0 w"
    and spent_trans: "spent w g w1 \<Longrightarrow> spent w1 h w2 \<Longrightarrow> spent w (g + h) w2"
    and others: "spares_pair spent (psr_Get (ns_settings n) u)"
      "spares_pair spent (br_IsBlockedEitherWay (ns_blocks n) u v)"
      "spares_pair spent (IsMutualFollow (ns_follows n) u v)"
      "spares_pair spent (geo_Upsert (ns_geo n) e d)" "spares_pair spent (geo_Touch (ns_geo n) u d)"
      "spares_pair spent (geo_Remove (ns_geo n) u)" "spares_pair spent (geo_Search (ns_geo n) p radius u)"
      "spares_pair spent (geo_Detail (ns_geo n) us)" "spares_pair spent (alr_Append (ns_audit n) ae)"
      "spares_pair spent (Resolve (ns_profiles n) us)" "spares_pair spent (Jitter (ns_jitter n) p)"
      "spares_pair spent (Now (ns_clock n))" "spares_pair spent (NewID (ns_ids n))"
      "spares_pair spent (Allow (ns_dailyLimiter n) (dailyKey u) l d)"
    and pair_other: "k \<noteq> pairKey a t \<Longrightarrow> spares_pair spent (Allow (ns_pairLimiter n) k l d)"
    and pair_granted: "Allow (ns_pairLimiter n) (pairKey a t) PairQueryLimit PairQueryWindow w = (Inr (True, x), w')
      \<Longrightarrow> spent w 1 w'"
    and pair_refused: "Allow (ns_pairLimiter n) (pairKey a t) PairQueryLimit PairQueryWindow w = (r, w')
      \<Longrightarrow> \<nexists>x. r = Inr (True, x) \<Longrightarrow> spent w 0 w'"
begin

lemma spent0_reflp: "reflp (\<lambda>w w'. spent w 0 w')"
  and spent0_transp: "transp (\<lambda>w w'. spent w 0 w')"
  using spent_refl spent_trans [of _ 0 _ 0] by (auto simp: reflp_def transp_def)

lemmas spares_intros =
  others [unfolded spares_pair_def] pair_other [unfolded spares_pair_def]
  moves_intros spent0_reflp spent0_transp moves_keeps [OF spent0_reflp keeps_ret]
  moves_keeps [OF spent0_reflp keeps_throw]

lemma moves_call0:
  "moves (\<lambda>w. w) (\<lambda>w w'. spent w 0 w') f \<Longrightarrow> moves (\<lambda>w. w) (\<lambda>w w'. spent w 0 w') (call f)"
  by (auto simp: moves_def call_def split: prod.splits) (metis snd_conv)

lemma settingsOrDefault_spares: "moves (\<lambda>w. w) (\<lambda>w w'. spent w 0 w') (settingsOrDefault n u)"
  unfolding settingsOrDefault_def by (intro spares_intros)

lemma disclose_spares: "moves (\<lambda>w. w) (\<lambda>w w'. spent w 0 w') (disclose n u now ds ps c)"
  unfolding disclose_def Let_def by (intro spares_intros moves_call0)

lemma resolve_spares: "moves (\<lambda>w. w) (\<lambda>w w'. spent w 0 w') (resolve_profiles n cs)"
  unfolding resolve_profiles_def Let_def by (intro spares_intros)

text \<open>A query by another requester, or about another target, leaves the budget of the pair alone.\<close>

lemma consider_other:
  "pairKey u (nc_UserID c) \<noteq> pairKey a t \<Longrightarrow>
   moves (\<lambda>w. w) (\<lambda>w w'. spent w 0 w') (consider_candidate n u rs p now c)"
  unfolding consider_candidate_def Let_def case_prod_beta
  by (intro spares_intros settingsOrDefault_spares)

lemma consider_Some:
  assumes "consider_candidate n u rs p now c w = (Inr (Some x), w')"
  shows "cd_userID x = nc_UserID c"
  using assms unfolding consider_candidate_def by (auto simp: Let_def split: if_splits)

text \<open>For the pair itself, a survivor costs one grant and everything else nothing.\<close>

definition cost :: "err + candidate option \<Rightarrow> nat" where
  "cost r = (case r of Inr (Some x) \<Rightarrow> if cd_userID x = t then 1 else 0 | _ \<Rightarrow> 0)"

definition costs :: "('w, candidate option) io \<Rightarrow> bool" where
  "costs m \<longleftrightarrow> (\<forall>w r w'. m w = (r, w') \<longrightarrow> spent w (cost r) w')"

lemma cost_simps [simp]: "cost (Inl e) = 0" "cost (Inr None) = 0"
  "cost (Inr (Some x)) = (if cd_userID x = t then 1 else 0)"
  by (simp_all add: cost_def)

lemma costs_bindE:
  assumes m: "moves (\<lambda>w. w) (\<lambda>w w'. spent w 0 w') m" and k: "\<And>x. costs (k x)"
  shows "costs (bindE m k)"
  unfolding costs_def
proof (intro allI impI)
  fix w r w'
  assume run: "bindE m k w = (r, w')"
  obtain y w1 where mw: "m w = (y, w1)" by fastforce
  note first = movesD [OF m mw]
  show "spent w (cost r) w'"
  proof (cases y)
    case (Inl e)
    with run mw first show ?thesis by (auto simp: bindE_Inl)
  next
    case (Inr x)
    with run mw have "k x w1 = (r, w')" by (simp add: bindE_Inr)
    with k have "spent w1 (cost r) w'" by (auto simp: costs_def)
    from spent_trans [OF first this] show ?thesis by simp
  qed
qed

lemma costs_None: "costs (ret None)"
  by (simp add: costs_def spent_refl)

lemma costs_if: "(b \<Longrightarrow> costs m) \<Longrightarrow> (\<not> b \<Longrightarrow> costs m') \<Longrightarrow> costs (if b then m else m')"
  by simp

lemma costs_Allow:
  assumes "cd_userID y = t"
  shows "costs (bindE (wrapE s (Allow (ns_pairLimiter n) (pairKey a t) PairQueryLimit PairQueryWindow))
     (\<lambda>z. if \<not> fst z then ret None else ret (Some y)))"
  unfolding costs_def
proof (intro allI impI)
  fix w r w'
  assume run: "bindE (wrapE s (Allow (ns_pairLimiter n) (pairKey a t) PairQueryLimit PairQueryWindow))
     (\<lambda>z. if \<not> fst z then ret None else ret (Some y)) w = (r, w')"
  obtain q w1 where al: "Allow (ns_pairLimiter n) (pairKey a t) PairQueryLimit PairQueryWindow w = (q, w1)"
    by fastforce
  show "spent w (cost r) w'"
  proof (cases "\<exists>x. q = Inr (True, x)")
    case True
    then obtain x where q: "q = Inr (True, x)" by blast
    with run al have "r = Inr (Some y)" "w' = w1" by (auto simp: bindE_def wrapE_def)
    with pair_granted [OF al [unfolded q]] assms show ?thesis by simp
  next
    case False
    from pair_refused [OF al this] run al False show ?thesis
      by (auto simp: bindE_def wrapE_def split: sum.splits if_splits)
  qed
qed

lemma consider_costs: "costs (consider_candidate n a rs p now c)"
proof (cases "nc_UserID c = t")
  case True
  show ?thesis
    unfolding consider_candidate_def Let_def case_prod_beta True
    by (intro costs_bindE costs_if costs_None costs_Allow spares_intros settingsOrDefault_spares) simp
next
  case False
  then have "pairKey a (nc_UserID c) \<noteq> pairKey a t" by (simp add: pairKey_def)
  note other = consider_other [OF this]
  show ?thesis
    unfolding costs_def
  proof (intro allI impI)
    fix w r w'
    assume run: "consider_candidate n a rs p now c w = (r, w')"
    have "cost r = 0"
      using consider_Some run False by (auto simp: cost_def split: sum.split option.split)
    with movesD [OF other run] show "spent w (cost r) w'" by simp
  qed
qed

lemma survivors_cost:
  assumes "collect (consider_candidate n a rs p now) raw w = (r, w')"
  shows "\<exists>g. spent w g w' \<and> (\<forall>cs. r = Inr cs \<longrightarrow> length (filter (\<lambda>c. cd_userID c = t) cs) \<le> g)"
  using assms
proof (induction raw arbitrary: w r w')
  case Nil
  then show ?case using spent_refl by (auto intro!: exI [of _ 0])
next
  case (Cons c raw)
  obtain y w1 where y: "consider_candidate n a rs p now c w = (y, w1)" by fastforce
  from consider_costs y have s1: "spent w (cost y) w1" by (auto simp: costs_def)
  show ?case
  proof (cases y)
    case (Inl e)
    with Cons.prems y s1 show ?thesis by (auto simp: bindE_Inl)
  next
    case (Inr x)
    obtain z w2 where z: "collect (consider_candidate n a rs p now) raw w1 = (z, w2)" by fastforce
    from Cons.IH [OF z] obtain g where g: "spent w1 g w2"
      "\<forall>cs. z = Inr cs \<longrightarrow> length (filter (\<lambda>c. cd_userID c = t) cs) \<le> g" by blast
    have r: "w' = w2" "\<forall>cs. r = Inr cs \<longrightarrow>
        (\<exists>zs. z = Inr zs \<and> cs = (case x of None \<Rightarrow> zs | Some k \<Rightarrow> k # zs))"
      using Cons.prems y Inr z by (auto simp: bindE_def split: sum.splits)
    have "spent w (cost y + g) w'" using spent_trans [OF s1 g(1)] r(1) by simp
    moreover have "\<forall>cs. r = Inr cs \<longrightarrow> length (filter (\<lambda>c. cd_userID c = t) cs) \<le> cost y + g"
      using r(2) g(2) Inr by (auto split: option.splits)
    ultimately show ?thesis by blast
  qed
qed

lemma disclosed_times:
  assumes "collect (disclose n u now ds ps) cs w = (Inr res, w')"
  shows "times_shown k res \<le> length (filter (\<lambda>c. cd_userID c = k) cs)"
  using assms
proof (induction cs arbitrary: w res)
  case Nil
  then show ?case by (simp add: times_shown_def)
next
  case (Cons c cs)
  then obtain x w1 zs where d: "disclose n u now ds ps c w = (Inr x, w1)"
    and zs: "collect (disclose n u now ds ps) cs w1 = (Inr zs, w')"
    and res: "res = (case x of None \<Rightarrow> zs | Some y \<Rightarrow> y # zs)"
    by auto
  have "\<forall>y. x = Some y \<longrightarrow> nr_UserID y = cd_userID c"
    using d unfolding disclose_def by (auto simp: Let_def split: option.splits if_splits)
  with Cons.IH [OF zs] res show ?case by (auto simp: times_shown_def split: option.splits)
qed

text \<open>A whole query: what it showed of the target was granted, also if it failed in the end.\<close>

lemma query_budget:
  assumes "query n a rs p now w = (r, w')"
  shows "\<exists>g. spent w g w' \<and> (\<forall>res. r = Inr res \<longrightarrow> times_shown t res \<le> g)"
proof (cases r)
  case (Inl e)
  have "moves (\<lambda>w. w) (\<lambda>w w'. \<exists>g. spent w g w') (query n a rs p now)"
  proof -
    have R: "reflp (\<lambda>w w'. \<exists>g. spent w g w')" "transp (\<lambda>w w'. \<exists>g. spent w g w')"
      using spent_refl by (auto simp: reflp_def transp_def) (meson spent_trans)
    have up: "moves (\<lambda>w. w) (\<lambda>w w'. spent w 0 w') m \<Longrightarrow> moves (\<lambda>w. w) (\<lambda>w w'. \<exists>g. spent w g w') m"
      for m :: "'w \<Rightarrow> 'b \<times> 'w" by (auto simp: moves_def)
    have own: "moves (\<lambda>w. w) (\<lambda>w w'. \<exists>g. spent w g w') (collect (consider_candidate n a rs p now) raw)" for raw
      by (rule movesI) (use survivors_cost in blast)
    show ?thesis
      unfolding query_def Let_def case_prod_beta
      by (intro moves_intros R own up [OF disclose_spares] up [OF resolve_spares] moves_keeps [OF R(1) keeps_ret]
          others [unfolded spares_pair_def, THEN up])
  qed
  from movesD [OF this assms] Inl show ?thesis by blast
next
  case (Inr res)
  note q = assms [unfolded Inr]
  note srch = movesD [OF others(7) [unfolded spares_pair_def]]
  note day = movesD [OF others(14) [unfolded spares_pair_def]]
  note det = movesD [OF others(8) [unfolded spares_pair_def]]
  from q show ?thesis
  proof (cases rule: query_cases)
    case (empty w1)
    then show ?thesis using srch Inr by (intro exI [of _ 0]) (auto simp: times_shown_def)
  next
    case (over_budget raw w1 x)
    then have "spent w (0 + 0) w'" by (intro spent_trans [OF srch day])
    then show ?thesis using over_budget Inr by (auto simp: times_shown_def)
  next
    case (nobody raw w1 x w2)
    obtain g where "spent w2 g w'" using survivors_cost [OF nobody(3)] by blast
    then have "spent w ((0 + 0) + g) w'" using nobody by (intro spent_trans [OF spent_trans [OF srch day]])
    then show ?thesis using nobody Inr by (auto simp: times_shown_def)
  next
    case (some raw w1 x w2 cs w3 d w4 prof w5)
    obtain g where g: "spent w2 g w3" "length (filter (\<lambda>c. cd_userID c = t) cs) \<le> g"
      using survivors_cost [OF some(3)] by blast
    have "spent w5 0 w'"
      by (rule movesD [OF moves_collect [OF spent0_reflp spent0_transp disclose_spares] some(6)])
    then have "spent w (0 + 0 + g + 0 + 0 + 0) w'"
      using srch [OF some(1)] day [OF some(2)] g(1) det [OF some(4)] movesD [OF resolve_spares some(5)]
      by (meson spent_trans)
    then show ?thesis using disclosed_times [OF some(6), of t] g(2) Inr by fastforce
  qed
qed

lemma query_other_budget:
  assumes "\<And>v. pairKey u v \<noteq> pairKey a t"
  shows "moves (\<lambda>w. w) (\<lambda>w w'. spent w 0 w') (query n u rs p now)"
  unfolding query_def Let_def case_prod_beta
  by (intro spares_intros consider_other assms disclose_spares resolve_spares)

text \<open>The frames, of this requester and of others.\<close>

lemma query_shown: "query n a rs p now w = (r, w') \<Longrightarrow> \<exists>g. spent w g w' \<and> shown_in t r \<le> g"
  using query_budget by (cases r) (fastforce simp: shown_in_def)+

definition within_budget :: "('w, NearbyResult list) io \<Rightarrow> bool" where
  "within_budget m \<longleftrightarrow> (\<forall>w r w'. m w = (r, w') \<longrightarrow> (\<exists>g. spent w g w' \<and> shown_in t r \<le> g))"

lemma within_budget_bindE:
  assumes m: "moves (\<lambda>w. w) (\<lambda>w w'. spent w 0 w') m" and k: "\<And>x. within_budget (k x)"
  shows "within_budget (bindE m k)"
  unfolding within_budget_def
proof (intro allI impI)
  fix w r w'
  assume run: "bindE m k w = (r, w')"
  obtain y w1 where mw: "m w = (y, w1)" by fastforce
  note first = movesD [OF m mw]
  show "\<exists>g. spent w g w' \<and> shown_in t r \<le> g"
  proof (cases y)
    case (Inl e)
    with run mw first show ?thesis by (auto simp: bindE_Inl shown_in_def)
  next
    case (Inr x)
    with run mw have "k x w1 = (r, w')" by (simp add: bindE_Inr)
    with k obtain g where g: "spent w1 g w'" "shown_in t r \<le> g" unfolding within_budget_def by blast
    from spent_trans [OF first g(1)] g(2) show ?thesis by auto
  qed
qed

lemma within_budget_query: "within_budget (query n a rs p now)"
  using query_shown by (auto simp: within_budget_def)

lemma within_budget_nil: "within_budget (ret [])"
  using spent_refl by (auto simp: within_budget_def shown_in_def times_shown_def)

lemma checkConsent_spares: "moves (\<lambda>w. w) (\<lambda>w w'. spent w 0 w') (checkConsent st now)"
  unfolding checkConsent_def by (intro spares_intros)

lemma ApplyUpdate_budget: "within_budget (ApplyUpdate n a lat lon trk ttl)"
  unfolding ApplyUpdate_def
  by (intro within_budget_bindE within_budget_query settingsOrDefault_spares moves_call0
      checkConsent_spares spares_intros)

lemma ApplyHeartbeat_budget: "within_budget (ApplyHeartbeat n a ttl)"
  unfolding ApplyHeartbeat_def
  by (intro within_budget_bindE settingsOrDefault_spares moves_call0 checkConsent_spares spares_intros)
    (auto split: option.split intro: within_budget_query within_budget_nil)

lemma frames_of_others:
  assumes "\<And>v. pairKey u v \<noteq> pairKey a t"
  shows "moves (\<lambda>w. w) (\<lambda>w w'. spent w 0 w') (ApplyUpdate n u lat lon trk ttl)"
    and "moves (\<lambda>w. w) (\<lambda>w w'. spent w 0 w') (ApplyHeartbeat n u ttl)"
  unfolding ApplyUpdate_def ApplyHeartbeat_def
  by (intro spares_intros settingsOrDefault_spares moves_call0 checkConsent_spares query_other_budget assms)+

end

end
