(* ===== verification/Postgres.thy ===== *)
theory Postgres
  imports Platform
begin

text \<open>
  The PostgreSQL pool the repositories send their SQL through. A statement is a function of the
  server's clock and the tables; the pool may lose a connection before the statement was carried
  out or after, and the code then sees the same error. What happens is the environment's: a list of
  delays and outcomes, over which every theorem is general. The SQL itself is translated in the
  repositories' theories.
\<close>

datatype outcome = Answered | Lost_before | Lost_after

record 't pg =
  pg_tables :: 't
  pg_now :: time
  pg_script :: "(nat \<times> outcome) list"

definition pg_lost :: err where
  "pg_lost = Foreign ''conn closed''"

definition pg_run :: "(time \<Rightarrow> 't \<Rightarrow> (err + 'a) \<times> 't) \<Rightarrow> ('t pg, 'a) io" where
  "pg_run stmt p =
     (case pg_script p of
        [] \<Rightarrow> (case stmt (pg_now p) (pg_tables p) of (x, t) \<Rightarrow> (x, p\<lparr>pg_tables := t\<rparr>))
      | (delay, oc) # rest \<Rightarrow>
          (let now = pg_now p + int delay;
               p1 = p\<lparr>pg_now := now, pg_script := rest\<rparr>
           in case oc of
                Answered \<Rightarrow> (case stmt now (pg_tables p) of (x, t) \<Rightarrow> (x, p1\<lparr>pg_tables := t\<rparr>))
              | Lost_before \<Rightarrow> (Inl pg_lost, p1)
              | Lost_after \<Rightarrow> (Inl pg_lost, p1\<lparr>pg_tables := snd (stmt now (pg_tables p))\<rparr>)))"

text \<open>SQLSTATE codes; \<^verbatim>\<open>errors.As(err, &pgErr)\<close> finds one anywhere in the chain.\<close>

fun pg_code :: "err \<Rightarrow> string option" where
  "pg_code (Foreign c) = Some c"
| "pg_code (Wrapped _ e) = pg_code e"
| "pg_code (Detailed e _) = pg_code e"
| "pg_code (Sentinel _) = None"

definition CheckViolation :: string where "CheckViolation = ''23514''"
definition UniqueViolation :: string where "UniqueViolation = ''23505''"
definition ForeignKeyViolation :: string where "ForeignKeyViolation = ''23503''"

lemmas pg_codes = CheckViolation_def UniqueViolation_def ForeignKeyViolation_def

definition isCheckViolation :: "err \<Rightarrow> bool" where
  "isCheckViolation e \<longleftrightarrow> pg_code e = Some CheckViolation"

definition isUniqueViolation :: "err \<Rightarrow> bool" where
  "isUniqueViolation e \<longleftrightarrow> pg_code e = Some UniqueViolation"

lemma pg_lost_code [simp]: "\<not> isCheckViolation pg_lost" "\<not> isUniqueViolation pg_lost"
  by (simp_all add: isCheckViolation_def isUniqueViolation_def pg_lost_def pg_codes)

lemma pg_lost_no_sentinel [simp]: "\<not> errors_Is pg_lost s"
  by (simp add: pg_lost_def)

text \<open>What the code can conclude from an answer, and from an error.\<close>

lemma pg_run_InrE:
  assumes "pg_run stmt p = (Inr x, p')"
  obtains t where "pg_now p \<le> t" and "stmt t (pg_tables p) = (Inr x, pg_tables p')"
proof -
  have "\<exists>t \<ge> pg_now p. stmt t (pg_tables p) = (Inr x, pg_tables p')"
  proof (cases "pg_script p")
    case Nil
    with assms show ?thesis by (auto simp: pg_run_def split: prod.splits)
  next
    case (Cons d rest)
    with assms show ?thesis
      by (intro exI [of _ "pg_now p + int (fst d)"])
        (auto simp: pg_run_def Let_def split: prod.splits outcome.splits)
  qed
  then show thesis using that by blast
qed

lemma pg_run_InlE:
  assumes "pg_run stmt p = (Inl e, p')"
  obtains (refused) t where "stmt t (pg_tables p) = (Inl e, pg_tables p')"
  | (lost) "e = pg_lost" and "pg_tables p' = pg_tables p"
  | (applied) t x where "e = pg_lost" and "stmt t (pg_tables p) = (x, pg_tables p')"
proof -
  have "(\<exists>t. stmt t (pg_tables p) = (Inl e, pg_tables p'))
      \<or> (e = pg_lost \<and> pg_tables p' = pg_tables p)
      \<or> (e = pg_lost \<and> (\<exists>t. pg_tables p' = snd (stmt t (pg_tables p))))"
  proof (cases "pg_script p")
    case Nil
    with assms show ?thesis by (auto simp: pg_run_def split: prod.splits)
  next
    case (Cons d rest)
    obtain delay oc where d: "d = (delay, oc)" by (cases d)
    with assms Cons show ?thesis
      by (cases oc) (force simp: pg_run_def Let_def split: prod.splits)+
  qed
  then show thesis using refused lost applied by (metis prod.collapse)
qed

text \<open>Where a statement of the tables cannot fail, only the connection to them can.\<close>

lemma pg_run_lost:
  assumes "pg_run stmt p = (Inl e, p')" and "\<And>t tb. \<exists>x tb'. stmt t tb = (Inr x, tb')"
  shows "e = pg_lost" and "pg_script p \<noteq> []"
proof -
  from assms(2) have ok: "stmt t tb \<noteq> (Inl d, tb')" for t tb d tb' by (metis Inl_Inr_False prod.inject)
  show "e = pg_lost" using assms(1) by (cases rule: pg_run_InlE) (auto simp: ok)
  show "pg_script p \<noteq> []" using assms(1) ok by (auto simp: pg_run_def split: prod.splits)
qed

lemma pg_run_script: "pg_run stmt p = (r, p') \<Longrightarrow> pg_script p = [] \<Longrightarrow> pg_script p' = []"
  by (auto simp: pg_run_def split: prod.splits)

text \<open>A statement that only reads leaves every view of the tables alone.\<close>

lemma keeps_pg_read:
  assumes "\<And>t tb. snd (stmt t tb) = tb"
  shows "keeps (\<lambda>p. f (pg_tables p)) (pg_run stmt)"
proof (rule keepsI)
  fix p r p'
  assume run: "pg_run stmt p = (r, p')"
  have "pg_tables p' = pg_tables p"
  proof (cases r)
    case (Inl e)
    from run [unfolded Inl] show ?thesis
      by (cases rule: pg_run_InlE) (metis assms snd_conv)+
  next
    case (Inr x)
    from run [unfolded Inr] show ?thesis
      by (rule pg_run_InrE) (metis assms snd_conv)
  qed
  then show "f (pg_tables p') = f (pg_tables p)" by simp
qed

definition pg_start :: "'t \<Rightarrow> 't pg" where
  "pg_start tb = \<lparr>pg_tables = tb, pg_now = 0, pg_script = []\<rparr>"

lemma pg_run_start [simp]:
  "pg_run stmt (pg_start tb) = (case stmt 0 tb of (x, t) \<Rightarrow> (x, pg_start t))"
  by (simp add: pg_run_def pg_start_def split: prod.split)

text \<open>Nor does one that writes elsewhere change a view.\<close>

lemma keeps_pg_run:
  assumes "\<And>t tb. f (snd (stmt t tb)) = f tb"
  shows "keeps (\<lambda>p. f (pg_tables p)) (pg_run stmt)"
  unfolding keeps_def
  by (auto simp: pg_run_def Let_def assms split: prod.splits list.splits outcome.splits)
    (metis assms snd_conv)+

end
