(* ===== verification/Presence_Postgres.thy ===== *)
theory Presence_Postgres
  imports Presence_Domain Postgres
begin

text \<open>
  \<^verbatim>\<open>backend/internal/presence/postgres/repo.go\<close> over the tables of \<^verbatim>\<open>0002_presence.up.sql\<close> and
  the \<^verbatim>\<open>follows\<close> table of \<^verbatim>\<open>0001_init.up.sql\<close>, their \<^verbatim>\<open>CHECK\<close>, \<^verbatim>\<open>PRIMARY KEY\<close> and \<^verbatim>\<open>REFERENCES\<close>
  constraints included. Identifiers are the canonical texts of UUIDs.
\<close>

record settings_row =
  presence_visibility :: string
  presence_share_track :: bool
  proximity_consent_enabled :: bool
  proximity_consent_ts :: "time option"
  proximity_consent_renew_due :: "time option"
  visibility_radius_m :: int
  reveal_level :: int
  paused_bool :: bool
  created_at :: time
  updated_at :: time

text \<open>Of the \<^verbatim>\<open>users\<close> table, what presence reads.\<close>

record user_row =
  display_name :: string
  avatar_url :: "string option"
  deleted_at :: "time option"

record presence_tables =
  tb_users :: "string \<rightharpoonup> user_row"
  user_privacy_settings :: "string \<rightharpoonup> settings_row"
  user_blocks :: "(string \<times> string) \<rightharpoonup> time"
  tb_follows :: "(string \<times> string) set"
  presence_audit_log :: "AuditLogEntry list"

definition row_settings :: "string \<Rightarrow> settings_row \<Rightarrow> PrivacySettings" where
  "row_settings u r = \<lparr>
     UserID = u, PresenceVisibility = presence_visibility r,
     PresenceShareTrack = presence_share_track r,
     ProximityConsentEnabled = proximity_consent_enabled r,
     ProximityConsentTS = proximity_consent_ts r,
     ProximityConsentRenewDue = proximity_consent_renew_due r,
     VisibilityRadiusM = visibility_radius_m r, RevealLevel = reveal_level r,
     Paused = paused_bool r, CreatedAt = created_at r, UpdatedAt = updated_at r\<rparr>"

definition settings_of_row :: "PrivacySettings \<Rightarrow> time \<Rightarrow> time \<Rightarrow> settings_row" where
  "settings_of_row s created now = \<lparr>
     presence_visibility = PresenceVisibility s, presence_share_track = PresenceShareTrack s,
     proximity_consent_enabled = ProximityConsentEnabled s,
     proximity_consent_ts = ProximityConsentTS s,
     proximity_consent_renew_due = ProximityConsentRenewDue s,
     visibility_radius_m = VisibilityRadiusM s, reveal_level = RevealLevel s,
     paused_bool = Paused s, created_at = created, updated_at = now\<rparr>"

definition pg_settings_Get :: "string \<Rightarrow> (presence_tables pg, PrivacySettings) io" where
  "pg_settings_Get userID =
     bindE (pg_run (\<lambda>_ tb. (Inr (user_privacy_settings tb userID), tb))) (\<lambda>r. case r of
       None \<Rightarrow> throw (Sentinel ErrSettingsNotFound)
     | Some row \<Rightarrow> ret (row_settings userID row))"

text \<open>
  \<^verbatim>\<open>INSERT ... ON CONFLICT (user_id) DO UPDATE\<close>: \<^verbatim>\<open>created_at\<close> is set once. The checks of the table
  come before its foreign key.
\<close>

text \<open>
  The checks on a row of \<^verbatim>\<open>user_privacy_settings\<close>, as the migration writes them; the service's own
  constants are the same values.
\<close>

definition settings_check :: "PrivacySettings \<Rightarrow> bool" where
  "settings_check s \<longleftrightarrow>
     PresenceVisibility s \<in> {''invisible'', ''friends_only'', ''everyone''}
     \<and> VisibilityRadiusM s \<in> {150, 1000, 5000, 15000} \<and> RevealLevel s \<in> {0, 1, 2}"

lemma settings_check_valid [simp]: "settings_check s = valid_settings s"
  by (auto simp: settings_check_def valid_settings_def IsValidVisibility_def IsValidRadius_def IsValidRevealLevel_def
      VisibilityInvisible_def VisibilityFriendsOnly_def VisibilityEveryone_def AllowedRadiiM_def RevealLevelAnonymous_def
      RevealLevelConnections_def RevealLevelOpenDiscovery_def)

definition upsert_settings ::
    "PrivacySettings \<Rightarrow> time \<Rightarrow> presence_tables \<Rightarrow> (err + unit) \<times> presence_tables" where
  "upsert_settings s now tb =
     (if \<not> settings_check s then (Inl (Foreign CheckViolation), tb)
      else case user_privacy_settings tb (UserID s) of
             Some old \<Rightarrow>
               (Inr (), tb\<lparr>user_privacy_settings :=
                  (user_privacy_settings tb)(UserID s \<mapsto> settings_of_row s (created_at old) now)\<rparr>)
           | None \<Rightarrow>
               if UserID s \<notin> dom (tb_users tb) then (Inl (Foreign ForeignKeyViolation), tb)
               else (Inr (), tb\<lparr>user_privacy_settings :=
                       (user_privacy_settings tb)(UserID s \<mapsto> settings_of_row s now now)\<rparr>))"

definition pg_settings_Upsert :: "PrivacySettings \<Rightarrow> (presence_tables pg, unit) io" where
  "pg_settings_Upsert s = pg_run (upsert_settings s)"

definition insert_block ::
    "string \<Rightarrow> string \<Rightarrow> time \<Rightarrow> presence_tables \<Rightarrow> (err + unit) \<times> presence_tables" where
  "insert_block blockerID blockedID now tb =
     (if blockerID = blockedID then (Inl (Foreign CheckViolation), tb)
      else if user_blocks tb (blockerID, blockedID) \<noteq> None then (Inr (), tb)
      else if blockerID \<notin> dom (tb_users tb) \<or> blockedID \<notin> dom (tb_users tb)
           then (Inl (Foreign ForeignKeyViolation), tb)
      else (Inr (), tb\<lparr>user_blocks := (user_blocks tb)((blockerID, blockedID) \<mapsto> now)\<rparr>))"

definition pg_Block :: "string \<Rightarrow> string \<Rightarrow> (presence_tables pg, unit) io" where
  "pg_Block blockerID blockedID =
     bindE (attempt (pg_run (insert_block blockerID blockedID))) (\<lambda>r. case r of
       Inl e \<Rightarrow> if isCheckViolation e then throw (Sentinel ErrCannotBlockSelf) else throw e
     | Inr _ \<Rightarrow> ret ())"

definition pg_Unblock :: "string \<Rightarrow> string \<Rightarrow> (presence_tables pg, unit) io" where
  "pg_Unblock blockerID blockedID =
     pg_run (\<lambda>_ tb. (Inr (), tb\<lparr>user_blocks := (user_blocks tb)((blockerID, blockedID) := None)\<rparr>))"

definition pg_IsBlockedEitherWay :: "string \<Rightarrow> string \<Rightarrow> (presence_tables pg, bool) io" where
  "pg_IsBlockedEitherWay a b =
     pg_run (\<lambda>_ tb. (Inr (user_blocks tb (a, b) \<noteq> None \<or> user_blocks tb (b, a) \<noteq> None), tb))"

definition pg_IsMutualFollow :: "string \<Rightarrow> string \<Rightarrow> (presence_tables pg, bool) io" where
  "pg_IsMutualFollow a b =
     pg_run (\<lambda>_ tb. (Inr ((a, b) \<in> tb_follows tb \<and> (b, a) \<in> tb_follows tb), tb))"

definition insert_audit ::
    "AuditLogEntry \<Rightarrow> time \<Rightarrow> presence_tables \<Rightarrow> (err + unit) \<times> presence_tables" where
  "insert_audit e now tb =
     (if ale_Bucket e = BucketNone then (Inl (Foreign CheckViolation), tb)
      else if ale_ID e \<in> ale_ID ` set (presence_audit_log tb) then (Inl (Foreign UniqueViolation), tb)
      else (Inr (), tb\<lparr>presence_audit_log := presence_audit_log tb @ [e]\<rparr>))"

definition pg_Append :: "AuditLogEntry \<Rightarrow> (presence_tables pg, unit) io" where
  "pg_Append e = wrapE ''presence/postgres: append audit log'' (pg_run (insert_audit e))"

definition pg_settings_repo :: "presence_tables pg PrivacySettingsRepository" where
  "pg_settings_repo = \<lparr>psr_Get = pg_settings_Get, psr_Upsert = pg_settings_Upsert\<rparr>"

definition pg_block_repo :: "presence_tables pg BlockRepository" where
  "pg_block_repo = \<lparr>br_Block = pg_Block, br_Unblock = pg_Unblock,
     br_IsBlockedEitherWay = pg_IsBlockedEitherWay\<rparr>"

definition pg_follow_checker :: "presence_tables pg FollowChecker" where
  "pg_follow_checker = \<lparr>IsMutualFollow = pg_IsMutualFollow\<rparr>"

definition pg_audit_repo :: "presence_tables pg AuditLogRepository" where
  "pg_audit_repo = \<lparr>alr_Append = pg_Append\<rparr>"

section \<open>The tables keep the contracts\<close>

definition tables_view :: "presence_tables \<Rightarrow> pview" where
  "tables_view tb = \<lparr>
     pv_settings = (\<lambda>u. map_option (\<lambda>r. erased (row_settings u r)) (user_privacy_settings tb u)),
     pv_blocks = dom (user_blocks tb), pv_follows = tb_follows tb,
     pv_audit = presence_audit_log tb\<rparr>"

definition pg_view :: "presence_tables pg \<Rightarrow> pview" where
  "pg_view p = tables_view (pg_tables p)"

lemma pg_view_eq: "pg_tables p' = pg_tables p \<Longrightarrow> pg_view p' = pg_view p"
  by (simp add: pg_view_def)

lemma keeps_pg_view: "(\<And>t tb. snd (stmt t tb) = tb) \<Longrightarrow> keeps pg_view (pg_run stmt)"
  using keeps_pg_read [of stmt tables_view] by (simp add: pg_view_def [abs_def])

lemma row_of_settings: "erased (row_settings (UserID s) (settings_of_row s c t)) = erased s"
  by (simp add: row_settings_def settings_of_row_def erased_def)

lemma upsert_settings_view:
  "upsert_settings s now tb = (Inr (), tb') \<Longrightarrow>
   tables_view tb' = (tables_view tb)\<lparr>pv_settings := (pv_settings (tables_view tb))(UserID s \<mapsto> erased s)\<rparr>"
  by (auto simp: upsert_settings_def tables_view_def row_of_settings fun_eq_iff
      split: if_splits option.splits)

lemma upsert_settings_refused: "upsert_settings s now tb = (Inl e, tb') \<Longrightarrow> tb' = tb"
  by (auto simp: upsert_settings_def split: if_splits option.splits)

interpretation pg_settings: settings_repository pg_settings_repo pg_view
proof
  fix u
  show "keeps pg_view (psr_Get pg_settings_repo u)"
    unfolding pg_settings_repo_def pg_settings_Get_def
    by (simp, intro keeps_intros keeps_pg_view) simp
next
  fix u w s w'
  assume "psr_Get pg_settings_repo u w = (Inr s, w')"
  then show "pv_settings (pg_view w) u = Some (erased s) \<and> UserID s = u"
    by (auto simp: pg_settings_repo_def pg_settings_Get_def pg_view_def tables_view_def row_settings_def
        elim!: pg_run_InrE split: option.splits)
next
  fix u w e w'
  assume "psr_Get pg_settings_repo u w = (Inl e, w')" and "errors_Is e ErrSettingsNotFound"
  then show "pv_settings (pg_view w) u = None"
    by (auto simp: pg_settings_repo_def pg_settings_Get_def pg_view_def tables_view_def
        elim!: bindE_InlE pg_run_InlE pg_run_InrE split: option.splits)
next
  fix s w w'
  assume "psr_Upsert pg_settings_repo s w = (Inr (), w')"
  then show "pg_view w' = (pg_view w)\<lparr>pv_settings := (pv_settings (pg_view w))(UserID s \<mapsto> erased s)\<rparr>"
    by (auto simp: pg_settings_repo_def pg_settings_Upsert_def pg_view_def
        elim!: pg_run_InrE dest: upsert_settings_view)
next
  fix s w e w'
  assume "psr_Upsert pg_settings_repo s w = (Inl e, w')"
  then have "pg_run (upsert_settings s) w = (Inl e, w')"
    by (simp add: pg_settings_repo_def pg_settings_Upsert_def)
  then show "pg_view w' = pg_view w
      \<or> pg_view w' = (pg_view w)\<lparr>pv_settings := (pv_settings (pg_view w))(UserID s \<mapsto> erased s)\<rparr>"
  proof (cases rule: pg_run_InlE)
    case (refused t)
    show ?thesis by (rule disjI1 [OF pg_view_eq [OF upsert_settings_refused [OF refused]]])
  next
    case lost
    show ?thesis by (rule disjI1 [OF pg_view_eq [OF lost(2)]])
  next
    case (applied t x)
    show ?thesis
    proof (cases x)
      case (Inl y)
      then show ?thesis using upsert_settings_refused applied(2) pg_view_eq by metis
    next
      case (Inr y)
      then show ?thesis using upsert_settings_view applied(2) by (metis pg_view_def unit_eq)
    qed
  qed
qed

lemma insert_block_view:
  "insert_block a b now tb = (Inr (), tb') \<Longrightarrow>
   tables_view tb' = (tables_view tb)\<lparr>pv_blocks := insert (a, b) (pv_blocks (tables_view tb))\<rparr>"
  by (auto simp: insert_block_def tables_view_def insert_absorb domI split: if_splits)

lemma pg_Block_done:
  assumes "pg_Block a b w = (Inr (), w')"
  obtains t where "insert_block a b t (pg_tables w) = (Inr (), pg_tables w')"
  using assms by (auto simp: pg_Block_def elim!: pg_run_InrE split: sum.splits if_splits)

lemma pg_Unblock_view:
  "tables_view (tb\<lparr>user_blocks := (user_blocks tb)((a, b) := None)\<rparr>)
   = (tables_view tb)\<lparr>pv_blocks := pv_blocks (tables_view tb) - {(a, b)}\<rparr>"
  by (simp add: tables_view_def)

interpretation pg_blocks: block_repository pg_block_repo pg_view
proof
  fix a b
  show "keeps pg_view (br_IsBlockedEitherWay pg_block_repo a b)"
    unfolding pg_block_repo_def pg_IsBlockedEitherWay_def by (simp add: keeps_pg_view)
next
  fix a b w x w'
  assume "br_IsBlockedEitherWay pg_block_repo a b w = (Inr x, w')"
  then show "x \<longleftrightarrow> (a, b) \<in> pv_blocks (pg_view w) \<or> (b, a) \<in> pv_blocks (pg_view w)"
    by (auto simp: pg_block_repo_def pg_IsBlockedEitherWay_def pg_view_def tables_view_def
        elim!: pg_run_InrE)
next
  fix a b w w'
  assume "br_Block pg_block_repo a b w = (Inr (), w')"
  then show "pg_view w' = (pg_view w)\<lparr>pv_blocks := insert (a, b) (pv_blocks (pg_view w))\<rparr>"
    by (simp add: pg_block_repo_def pg_view_def) (metis pg_Block_done insert_block_view)
next
  fix a b w w'
  assume "br_Unblock pg_block_repo a b w = (Inr (), w')"
  then show "pg_view w' = (pg_view w)\<lparr>pv_blocks := pv_blocks (pg_view w) - {(a, b)}\<rparr>"
    by (auto simp: pg_block_repo_def pg_Unblock_def pg_view_def pg_Unblock_view [symmetric]
        elim!: pg_run_InrE)
qed

interpretation pg_follows: follow_checker pg_follow_checker pg_view
proof
  fix a b
  show "keeps pg_view (IsMutualFollow pg_follow_checker a b)"
    unfolding pg_follow_checker_def pg_IsMutualFollow_def by (simp add: keeps_pg_view)
next
  fix a b w x w'
  assume "IsMutualFollow pg_follow_checker a b w = (Inr x, w')"
  then show "x \<longleftrightarrow> (a, b) \<in> pv_follows (pg_view w) \<and> (b, a) \<in> pv_follows (pg_view w)"
    by (auto simp: pg_follow_checker_def pg_IsMutualFollow_def pg_view_def tables_view_def
        elim!: pg_run_InrE)
qed

lemma insert_audit_view:
  "insert_audit e now tb = (Inr (), tb') \<Longrightarrow>
   tables_view tb' = (tables_view tb)\<lparr>pv_audit := pv_audit (tables_view tb) @ [e]\<rparr>"
  by (auto simp: insert_audit_def tables_view_def split: if_splits)

lemma insert_audit_refused: "insert_audit e now tb = (Inl x, tb') \<Longrightarrow> tb' = tb"
  by (auto simp: insert_audit_def split: if_splits)

interpretation pg_audit: audit_log pg_audit_repo pg_view
proof
  fix e w w'
  assume "alr_Append pg_audit_repo e w = (Inr (), w')"
  then show "pg_view w' = (pg_view w)\<lparr>pv_audit := pv_audit (pg_view w) @ [e]\<rparr>"
    by (auto simp: pg_audit_repo_def pg_Append_def pg_view_def elim!: pg_run_InrE dest: insert_audit_view)
next
  fix e w x w'
  assume "alr_Append pg_audit_repo e w = (Inl x, w')"
  then obtain x' where "pg_run (insert_audit e) w = (Inl x', w')"
    by (auto simp: pg_audit_repo_def pg_Append_def elim: wrapE_InlE)
  then show "pg_view w' = pg_view w \<or> pg_view w' = (pg_view w)\<lparr>pv_audit := pv_audit (pg_view w) @ [e]\<rparr>"
  proof (cases rule: pg_run_InlE)
    case (refused t)
    show ?thesis by (rule disjI1 [OF pg_view_eq [OF insert_audit_refused [OF refused]]])
  next
    case lost
    show ?thesis by (rule disjI1 [OF pg_view_eq [OF lost(2)]])
  next
    case (applied t y)
    show ?thesis
    proof (cases y)
      case (Inl z)
      then show ?thesis using insert_audit_refused applied(2) pg_view_eq by metis
    next
      case (Inr z)
      then show ?thesis using insert_audit_view applied(2) by (metis pg_view_def unit_eq)
    qed
  qed
qed

end
