(* ===== verification/Redis.thy ===== *)
theory Redis
  imports Geo Platform
begin

text \<open>
  The Redis server is not part of the repository: the commands the code sends are a parameter, a
  record of operations on the server's state \<open>'r\<close>. What the code relies on is Redis's documented
  behaviour of each command, stated as a relation on the server's visible contents (\<open>rstate\<close>), and
  the locale \<open>redis_server\<close> says that a command does what its relation allows at some instant
  not before the last one, or fails, with or without having been carried out. \<open>mem_redis\<close> is a
  concrete server with a script of delays and failures; it shows that the locale can be met.
\<close>

section \<open>Values\<close>

text \<open>\<^verbatim>\<open>encoding/json\<close> of the plain structs the code stores, as the tree of the document.\<close>

datatype json =
    JStr string
  | JNum int
  | JBool bool
  | JTime time
  | JArr "json list"
  | JObj "(string \<times> json) list"

datatype rval = RCount int | RJson json

type_synonym keyspace = "string \<Rightarrow> (rval \<times> time option) option"

record rstate =
  rs_kv :: keyspace
  rs_geo :: "string \<Rightarrow> (string \<times> GeoPosition) list"
  rs_now :: time

text \<open>An entry whose time to live is over is gone.\<close>

definition aged :: "time \<Rightarrow> keyspace \<Rightarrow> keyspace" where
  "aged t m = (\<lambda>k. case m k of
       Some (v, Some e) \<Rightarrow> if t < e then Some (v, Some e) else None
     | x \<Rightarrow> x)"

definition advance :: "time \<Rightarrow> rstate \<Rightarrow> rstate" where
  "advance t s = s\<lparr>rs_kv := aged t (rs_kv s), rs_now := t\<rparr>"

lemma advance_simps [simp]:
  "rs_kv (advance t s) = aged t (rs_kv s)"
  "rs_geo (advance t s) = rs_geo s"
  "rs_now (advance t s) = t"
  by (simp_all add: advance_def)

lemma aged_Some: "aged t m k = Some (v, x) \<Longrightarrow> m k = Some (v, x)"
  by (auto simp: aged_def split: option.splits prod.splits if_splits)

lemma aged_no_expiry: "m k = Some (v, None) \<Longrightarrow> aged t m k = Some (v, None)"
  by (simp add: aged_def)

lemma aged_live: "m k = Some (v, Some e) \<Longrightarrow> t < e \<Longrightarrow> aged t m k = Some (v, Some e)"
  by (simp add: aged_def)

lemma aged_None: "m k = None \<Longrightarrow> aged t m k = None"
  by (simp add: aged_def)

section \<open>The commands\<close>

record 'r redis_client =
  cmd_Incr :: "string \<Rightarrow> ('r, int) io"
  cmd_Expire :: "string \<Rightarrow> duration \<Rightarrow> ('r, bool) io"
  cmd_TTL :: "string \<Rightarrow> ('r, duration) io"
  cmd_Set :: "string \<Rightarrow> rval \<Rightarrow> duration \<Rightarrow> ('r, unit) io"
  cmd_Get :: "string \<Rightarrow> ('r, rval) io"
  cmd_Del :: "string \<Rightarrow> ('r, unit) io"
  cmd_MGet :: "string list \<Rightarrow> ('r, rval option list) io"
  cmd_GeoAdd :: "string \<Rightarrow> string \<Rightarrow> GeoPosition \<Rightarrow> ('r, unit) io"
  cmd_GeoPos :: "string \<Rightarrow> string list \<Rightarrow> ('r, GeoPosition option list) io"
  cmd_ZRem :: "string \<Rightarrow> string \<Rightarrow> ('r, unit) io"
  cmd_GeoSearch :: "string \<Rightarrow> GeoPosition \<Rightarrow> real \<Rightarrow> ('r, string list) io"

text \<open>\<^verbatim>\<open>EXPIRE\<close> takes whole seconds, at least one; \<^verbatim>\<open>TTL\<close> reports seconds, rounded.\<close>

definition whole_seconds :: "duration \<Rightarrow> duration" where
  "whole_seconds d = (if d \<le> 0 then 0 else max 1 (d div Second) * Second)"

definition wrong_type :: err where
  "wrong_type = Foreign ''WRONGTYPE''"

definition incr_doc :: "string \<Rightarrow> rstate \<Rightarrow> (err + int) \<times> rstate" where
  "incr_doc k s =
     (case rs_kv s k of
        None \<Rightarrow> (Inr 1, s\<lparr>rs_kv := (rs_kv s)(k \<mapsto> (RCount 1, None))\<rparr>)
      | Some (RCount c, x) \<Rightarrow> (Inr (c + 1), s\<lparr>rs_kv := (rs_kv s)(k \<mapsto> (RCount (c + 1), x))\<rparr>)
      | Some (RJson _, _) \<Rightarrow> (Inl wrong_type, s))"

definition expire_doc :: "string \<Rightarrow> duration \<Rightarrow> rstate \<Rightarrow> (err + bool) \<times> rstate" where
  "expire_doc k d s =
     (case rs_kv s k of
        None \<Rightarrow> (Inr False, s)
      | Some (v, _) \<Rightarrow>
          if whole_seconds d \<le> 0 then (Inr True, s\<lparr>rs_kv := (rs_kv s)(k := None)\<rparr>)
          else (Inr True, s\<lparr>rs_kv := (rs_kv s)(k \<mapsto> (v, Some (rs_now s + whole_seconds d)))\<rparr>))"

definition ttl_doc :: "string \<Rightarrow> rstate \<Rightarrow> (err + duration) \<times> rstate" where
  "ttl_doc k s =
     (case rs_kv s k of
        None \<Rightarrow> (Inr (-2), s)
      | Some (_, None) \<Rightarrow> (Inr (-1), s)
      | Some (_, Some e) \<Rightarrow> (Inr ((e - rs_now s + Second div 2) div Second * Second), s))"

definition set_doc :: "string \<Rightarrow> rval \<Rightarrow> duration \<Rightarrow> rstate \<Rightarrow> (err + unit) \<times> rstate" where
  "set_doc k v d s =
     (Inr (), s\<lparr>rs_kv := (rs_kv s)(k \<mapsto> (v, if d > 0 then Some (rs_now s + d) else None))\<rparr>)"

definition get_doc :: "string \<Rightarrow> rstate \<Rightarrow> (err + rval) \<times> rstate" where
  "get_doc k s =
     (case rs_kv s k of None \<Rightarrow> (Inl (Sentinel RedisNil), s) | Some (v, _) \<Rightarrow> (Inr v, s))"

definition del_doc :: "string \<Rightarrow> rstate \<Rightarrow> (err + unit) \<times> rstate" where
  "del_doc k s = (Inr (), s\<lparr>rs_kv := (rs_kv s)(k := None)\<rparr>)"

definition mget_doc :: "string list \<Rightarrow> rstate \<Rightarrow> (err + rval option list) \<times> rstate" where
  "mget_doc ks s = (Inr (map (\<lambda>k. map_option fst (rs_kv s k)) ks), s)"

text \<open>
  \<^verbatim>\<open>GEOADD\<close> refuses positions outside the Mercator range and stores a 52-bit geohash, so the
  position read back is a rounded one: \<open>rounded\<close> is that rounding.
\<close>

definition geo_valid :: "GeoPosition \<Rightarrow> bool" where
  "geo_valid p \<longleftrightarrow> \<bar>Lon p\<bar> \<le> 180 \<and> \<bar>Lat p\<bar> \<le> 85.05112878"

definition geoadd_doc ::
    "(GeoPosition \<Rightarrow> GeoPosition) \<Rightarrow> string \<Rightarrow> string \<Rightarrow> GeoPosition \<Rightarrow> rstate \<Rightarrow> (err + unit) \<times> rstate"
where
  "geoadd_doc rounded k m p s =
     (if geo_valid p
      then (Inr (), s\<lparr>rs_geo := (rs_geo s)(k := (m, rounded p) # filter (\<lambda>(n, _). n \<noteq> m) (rs_geo s k))\<rparr>)
      else (Inl (Foreign ''ERR invalid longitude,latitude pair''), s))"

definition geopos_doc :: "string \<Rightarrow> string list \<Rightarrow> rstate \<Rightarrow> (err + GeoPosition option list) \<times> rstate" where
  "geopos_doc k ms s = (Inr (map (map_of (rs_geo s k)) ms), s)"

definition zrem_doc :: "string \<Rightarrow> string \<Rightarrow> rstate \<Rightarrow> (err + unit) \<times> rstate" where
  "zrem_doc k m s = (Inr (), s\<lparr>rs_geo := (rs_geo s)(k := filter (\<lambda>(n, _). n \<noteq> m) (rs_geo s k))\<rparr>)"

text \<open>\<^verbatim>\<open>GEOSEARCH\<close> lists the members within the radius, by the server's distance, in some order.\<close>

definition geosearch_doc ::
    "(GeoPosition \<Rightarrow> GeoPosition \<Rightarrow> real) \<Rightarrow> string \<Rightarrow> GeoPosition \<Rightarrow> real \<Rightarrow> rstate
     \<Rightarrow> err + string list \<Rightarrow> rstate \<Rightarrow> bool" where
  "geosearch_doc rdist k p radius s res s' \<longleftrightarrow>
     s' = s \<and> (\<exists>ms. res = Inr ms \<and> distinct ms
       \<and> set ms = {m. \<exists>q. map_of (rs_geo s k) m = Some q \<and> rdist p q \<le> radius})"

section \<open>The server\<close>

definition det :: "('s \<Rightarrow> 'x \<times> 's) \<Rightarrow> 's \<Rightarrow> 'x \<Rightarrow> 's \<Rightarrow> bool" where
  "det f s x s' \<longleftrightarrow> f s = (x, s')"

text \<open>A command behaves as documented at some instant, or fails, carried out or not.\<close>

definition obeys ::
    "('r \<Rightarrow> rstate) \<Rightarrow> ('r, 'a) io \<Rightarrow> (rstate \<Rightarrow> err + 'a \<Rightarrow> rstate \<Rightarrow> bool) \<Rightarrow> bool" where
  "obeys view cmd doc \<longleftrightarrow>
     (\<forall>r res r'. cmd r = (res, r') \<longrightarrow>
        (\<exists>t \<ge> rs_now (view r).
           doc (advance t (view r)) res (view r')
           \<or> (\<exists>e. res = Inl (Foreign e)
                \<and> (view r' = advance t (view r) \<or> (\<exists>x. doc (advance t (view r)) x (view r'))))))"

locale redis_server =
  fixes R :: "'r redis_client"
    and view :: "'r \<Rightarrow> rstate"
    and rounded :: "GeoPosition \<Rightarrow> GeoPosition"
    and rdist :: "GeoPosition \<Rightarrow> GeoPosition \<Rightarrow> real"
  assumes Incr: "obeys view (cmd_Incr R k) (det (incr_doc k))"
    and Expire: "obeys view (cmd_Expire R k d) (det (expire_doc k d))"
    and TTL: "obeys view (cmd_TTL R k) (det (ttl_doc k))"
    and Set: "obeys view (cmd_Set R k v d) (det (set_doc k v d))"
    and Get: "obeys view (cmd_Get R k) (det (get_doc k))"
    and Del: "obeys view (cmd_Del R k) (det (del_doc k))"
    and MGet: "obeys view (cmd_MGet R ks) (det (mget_doc ks))"
    and GeoAdd: "obeys view (cmd_GeoAdd R k m p) (det (geoadd_doc rounded k m p))"
    and GeoPos: "obeys view (cmd_GeoPos R k ms) (det (geopos_doc k ms))"
    and ZRem: "obeys view (cmd_ZRem R k m) (det (zrem_doc k m))"
    and GeoSearch: "obeys view (cmd_GeoSearch R k p radius) (geosearch_doc rdist k p radius)"

lemma obeysE:
  assumes "obeys view cmd (det f)" and "cmd r = (res, r')"
  obtains t where "rs_now (view r) \<le> t" and "f (advance t (view r)) = (res, view r')"
  | t e where "rs_now (view r) \<le> t" and "res = Inl (Foreign e)" and "view r' = advance t (view r)"
  | t e x where "rs_now (view r) \<le> t" and "res = Inl (Foreign e)"
      and "f (advance t (view r)) = (x, view r')"
  using assms unfolding obeys_def det_def by meson

text \<open>A reply that is not an error is the documented one.\<close>

lemma obeys_InrE:
  assumes "obeys view cmd (det f)" and "cmd r = (Inr x, r')"
  obtains t where "rs_now (view r) \<le> t" and "f (advance t (view r)) = (Inr x, view r')"
  using assms by (elim obeysE) auto

section \<open>A concrete server\<close>

record mem =
  contents :: rstate
  script :: "(nat \<times> bool \<times> bool) list" \<comment> \<open>delay, does it answer, is it carried out\<close>

definition mem_run :: "(rstate \<Rightarrow> (err + 'a) \<times> rstate) \<Rightarrow> (mem, 'a) io" where
  "mem_run doc m =
     (case script m of
        [] \<Rightarrow> (case doc (advance (rs_now (contents m)) (contents m)) of
                (x, s) \<Rightarrow> (x, m\<lparr>contents := s\<rparr>))
      | (delay, answers, applied) # rest \<Rightarrow>
          (let now = advance (rs_now (contents m) + int delay) (contents m)
           in case doc now of (x, s) \<Rightarrow>
                if answers then (x, \<lparr>contents = s, script = rest\<rparr>)
                else (Inl (Foreign ''i/o timeout''),
                      \<lparr>contents = (if applied then s else now), script = rest\<rparr>)))"

definition geosearch_mem :: "string \<Rightarrow> GeoPosition \<Rightarrow> real \<Rightarrow> rstate \<Rightarrow> (err + string list) \<times> rstate" where
  "geosearch_mem k p radius s =
     (Inr (remdups (map fst (filter (\<lambda>(m, _). case map_of (rs_geo s k) m of
                                         None \<Rightarrow> False
                                       | Some q \<Rightarrow> DistanceMeters p q \<le> radius) (rs_geo s k)))), s)"

definition mem_redis :: "mem redis_client" where
  "mem_redis = \<lparr>
     cmd_Incr = (\<lambda>k. mem_run (incr_doc k)),
     cmd_Expire = (\<lambda>k d. mem_run (expire_doc k d)),
     cmd_TTL = (\<lambda>k. mem_run (ttl_doc k)),
     cmd_Set = (\<lambda>k v d. mem_run (set_doc k v d)),
     cmd_Get = (\<lambda>k. mem_run (get_doc k)),
     cmd_Del = (\<lambda>k. mem_run (del_doc k)),
     cmd_MGet = (\<lambda>ks. mem_run (mget_doc ks)),
     cmd_GeoAdd = (\<lambda>k m p. mem_run (geoadd_doc id k m p)),
     cmd_GeoPos = (\<lambda>k ms. mem_run (geopos_doc k ms)),
     cmd_ZRem = (\<lambda>k m. mem_run (zrem_doc k m)),
     cmd_GeoSearch = (\<lambda>k p radius. mem_run (geosearch_mem k p radius))\<rparr>"

lemma mem_run_obeys:
  assumes "\<And>s x s'. f s = (x, s') \<Longrightarrow> doc s x s'"
  shows "obeys contents (mem_run f) doc"
  unfolding obeys_def
proof (intro allI impI)
  fix m res m'
  assume run: "mem_run f m = (res, m')"
  show "\<exists>t \<ge> rs_now (contents m). doc (advance t (contents m)) res (contents m')
      \<or> (\<exists>e. res = Inl (Foreign e) \<and> (contents m' = advance t (contents m)
             \<or> (\<exists>x. doc (advance t (contents m)) x (contents m'))))"
  proof (cases "script m")
    case Nil
    with run show ?thesis
      by (intro exI [of _ "rs_now (contents m)"])
        (auto simp: mem_run_def split: prod.splits intro: assms)
  next
    case (Cons d rest)
    obtain delay answers applied where d: "d = (delay, answers, applied)" by (cases d) auto
    show ?thesis
      using run Cons d
      by (intro exI [of _ "rs_now (contents m) + int delay"])
        (auto simp: mem_run_def Let_def split: prod.splits if_splits dest: assms)
  qed
qed

lemma geosearch_mem_doc:
  "geosearch_mem k p radius s = (x, s') \<Longrightarrow> geosearch_doc DistanceMeters k p radius s x s'"
  by (auto simp: geosearch_doc_def geosearch_mem_def image_iff split: option.splits)
    (meson map_of_SomeD)+

interpretation mem_server: redis_server mem_redis contents id DistanceMeters
  by unfold_locales
    (auto simp: mem_redis_def det_def intro!: mem_run_obeys intro: geosearch_mem_doc)

end
