(* ===== verification/Rate_Limiter.thy ===== *)
theory Rate_Limiter
  imports Redis
begin

text \<open>
  \<^verbatim>\<open>backend/internal/platform/cache/ratelimiter.go\<close>: the fixed-window counter over Redis that the
  HTTP middleware and the presence service share.
\<close>

definition RedisRateLimiter_Allow ::
    "'r redis_client \<Rightarrow> string \<Rightarrow> int \<Rightarrow> duration \<Rightarrow> ('r, bool \<times> duration) io" where
  "RedisRateLimiter_Allow R key limit window =
     bindE (cmd_Incr R key) (\<lambda>n.
     bindE (if n = 1 then bindE (cmd_Expire R key window) (\<lambda>_. ret ()) else ret ()) (\<lambda>_.
       if n \<le> limit then ret (True, 0)
       else bindE (attempt (cmd_TTL R key)) (\<lambda>ttl.
              ret (False, case ttl of
                            Inl _ \<Rightarrow> window
                          | Inr d \<Rightarrow> if d < 0 then window else d))))"

definition RedisRateLimiter :: "'r redis_client \<Rightarrow> 'r RateLimiter" where
  "RedisRateLimiter R = \<lparr>Allow = RedisRateLimiter_Allow R\<rparr>"

section \<open>The counter of one key inside a window\<close>

text \<open>
  \<open>counted D s key c\<close>: the server has counted \<open>c\<close> calls under \<open>key\<close> and will not forget them
  before \<open>D\<close>.
\<close>

definition counted :: "time \<Rightarrow> rstate \<Rightarrow> string \<Rightarrow> int \<Rightarrow> bool" where
  "counted D s key c \<longleftrightarrow>
     (c = 0 \<and> rs_kv s key = None)
     \<or> (c > 0 \<and> (\<exists>x. rs_kv s key = Some (RCount c, x) \<and> (\<forall>e. x = Some e \<longrightarrow> D \<le> e)))"

lemma counted_nonneg: "counted D s key c \<Longrightarrow> 0 \<le> c"
  by (auto simp: counted_def)

lemma counted_advance: "counted D s key c \<Longrightarrow> t < D \<Longrightarrow> counted D (advance t s) key c"
  by (auto simp: counted_def aged_def split: option.splits)

lemma incr_doc_counted:
  assumes "counted D s key c" and "incr_doc key s = (x, s')"
  shows "x = Inr (c + 1) \<and> counted D s' key (c + 1) \<and> rs_now s' = rs_now s"
  using assms by (auto simp: counted_def incr_doc_def)

lemma expire_doc_counted:
  assumes "counted D s key c" and "expire_doc key d s = (x, s')" and "0 < d"
    and "D \<le> rs_now s + whole_seconds d"
  shows "counted D s' key c \<and> rs_now s' = rs_now s"
  using assms
  by (auto simp: counted_def expire_doc_def whole_seconds_def Second_def split: option.splits if_splits)

lemma ttl_doc_same: "ttl_doc key s = (x, s') \<Longrightarrow> s' = s"
  by (auto simp: ttl_doc_def split: option.splits prod.splits)

lemma whole_seconds_pos: "0 < d \<Longrightarrow> 0 < whole_seconds d"
  by (simp add: whole_seconds_def Second_def)

lemma doc_now:
  "rs_now (snd (incr_doc k s)) = rs_now s"
  "rs_now (snd (expire_doc k d s)) = rs_now s"
  "rs_now (snd (ttl_doc k s)) = rs_now s"
  by (auto simp: incr_doc_def expire_doc_def ttl_doc_def
      split: option.splits prod.splits rval.splits if_splits)

context redis_server
begin

text \<open>How a command moves the server, whether it answers or fails: at some instant \<open>t\<close>.\<close>

lemma commandE:
  assumes "obeys view cmd (det f)" and "cmd r = (x, r')"
    and same: "\<And>s. rs_now (snd (f s)) = rs_now s"
  obtains "rs_now (view r) \<le> rs_now (view r')"
    and "f (advance (rs_now (view r')) (view r)) = (x, view r')"
  | y e where "rs_now (view r) \<le> rs_now (view r')" and "x = Inl e"
    and "view r' = advance (rs_now (view r')) (view r)
         \<or> f (advance (rs_now (view r')) (view r)) = (y, view r')"
  using assms(1,2)
proof (cases rule: obeysE)
  case (1 t)
  then show ?thesis using that(1) same [of "advance t (view r)"] by simp
next
  case (2 t e)
  then have "rs_now (view r') = t" by simp
  with 2 show ?thesis using that(2) [of "Foreign e"] by simp
next
  case (3 t e y)
  then show ?thesis using that(2) [of "Foreign e" y] same [of "advance t (view r)"] by simp
qed

lemmas Incr_E = commandE [OF Incr _ doc_now(1)]
  and Expire_E = commandE [OF Expire _ doc_now(2)]
  and TTL_E = commandE [OF TTL _ doc_now(3)]

lemma command_time:
  assumes "obeys view cmd (det f)" and "cmd r = (x, r')"
    and "\<And>s. rs_now (snd (f s)) = rs_now s"
  shows "rs_now (view r) \<le> rs_now (view r')"
  using assms by (rule commandE) simp_all

lemmas cmd_time =
  command_time [OF Incr _ doc_now(1)] command_time [OF Expire _ doc_now(2)]
  command_time [OF TTL _ doc_now(3)]

lemma Incr_counted:
  assumes cmd: "cmd_Incr R key r = (x, r')" and c: "counted D (view r) key c"
    and early: "rs_now (view r') < D"
  shows "(\<forall>n. x = Inr n \<longrightarrow> n = c + 1) \<and> (counted D (view r') key (c + 1)
           \<or> (\<exists>e. x = Inl e) \<and> counted D (view r') key c)"
proof -
  note adv = counted_advance [OF c early]
  note inc = incr_doc_counted [OF adv]
  from cmd show ?thesis
  proof (rule Incr_E)
    assume "incr_doc key (advance (rs_now (view r')) (view r)) = (x, view r')"
    from inc [OF this] show ?thesis by simp
  next
    fix y e
    assume x: "x = Inl e"
    assume "view r' = advance (rs_now (view r')) (view r)
      \<or> incr_doc key (advance (rs_now (view r')) (view r)) = (y, view r')"
    then show ?thesis
    proof
      assume "view r' = advance (rs_now (view r')) (view r)"
      with adv x show ?thesis by (metis Inl_Inr_False)
    next
      assume "incr_doc key (advance (rs_now (view r')) (view r)) = (y, view r')"
      from inc [OF this] x show ?thesis by simp
    qed
  qed
qed

lemma Expire_counted:
  assumes cmd: "cmd_Expire R key d r = (x, r')" and c: "counted D (view r) key c"
    and early: "rs_now (view r') < D" and "0 < d" and D: "D \<le> rs_now (view r) + whole_seconds d"
  shows "counted D (view r') key c"
proof -
  note adv = counted_advance [OF c early]
  have "rs_now (view r) \<le> rs_now (view r')" by (rule cmd_time(2) [OF cmd])
  then have "D \<le> rs_now (advance (rs_now (view r')) (view r)) + whole_seconds d" using D by simp
  note exp = expire_doc_counted [OF adv _ \<open>0 < d\<close> this]
  from cmd show ?thesis
    by (rule Expire_E) (metis exp, metis adv exp)
qed

lemma TTL_counted:
  assumes cmd: "cmd_TTL R key r = (x, r')" and c: "counted D (view r) key c"
    and early: "rs_now (view r') < D"
  shows "counted D (view r') key c"
proof -
  note adv = counted_advance [OF c early]
  from cmd show ?thesis
    by (rule TTL_E) (metis adv ttl_doc_same, metis adv ttl_doc_same)
qed

text \<open>One call: it counts, and it is granted exactly when the count is within the limit.\<close>

lemma Allow_time:
  "RedisRateLimiter_Allow R key limit window r = (x, r') \<Longrightarrow> rs_now (view r) \<le> rs_now (view r')"
  unfolding RedisRateLimiter_Allow_def bindE_def attempt_def
  by (auto split: prod.splits sum.splits if_splits dest!: cmd_time)

lemma Allow_counted:
  assumes allow: "RedisRateLimiter_Allow R key limit window r = (x, r')"
    and start: "counted D (view r) key c" and "0 < window"
    and D: "0 < c \<or> D \<le> rs_now (view r) + whole_seconds window"
    and early: "rs_now (view r') < D"
  shows "(\<forall>b d. x = Inr (b, d) \<longrightarrow> (b \<longleftrightarrow> c + 1 \<le> limit) \<and> counted D (view r') key (c + 1))
       \<and> (\<exists>c' \<ge> c. counted D (view r') key c')"
proof -
  obtain n r1 where incr: "cmd_Incr R key r = (n, r1)" by fastforce
  show ?thesis
  proof (cases n)
    case (Inl e)
    with incr allow have "x = Inl e" "r' = r1" by (auto simp: RedisRateLimiter_Allow_def bindE_def)
    with Incr_counted [OF incr start] early show ?thesis
      using counted_nonneg [OF start] by (auto intro: exI [of _ "c + 1"])
  next
    case (Inr k)
    define step where
      "step = (if k = 1 then bindE (cmd_Expire R key window) (\<lambda>_. ret ()) else ret ())"
    obtain y r2 where step: "step r1 = (y, r2)" by fastforce
    have t1: "rs_now (view r) \<le> rs_now (view r1)" by (rule cmd_time(1) [OF incr])
    have t2: "rs_now (view r1) \<le> rs_now (view r2)"
      using step by (auto simp: step_def bindE_def split: if_splits prod.splits sum.splits dest: cmd_time)
    have rest: "(case y of Inl e \<Rightarrow> (Inl e, r2) | Inr _ \<Rightarrow>
        (if k \<le> limit then ret (True, 0)
         else bindE (attempt (cmd_TTL R key)) (\<lambda>ttl.
                ret (False, case ttl of Inl _ \<Rightarrow> window | Inr d \<Rightarrow> if d < 0 then window else d))) r2)
        = (x, r')"
      using allow incr Inr step
      by (simp add: RedisRateLimiter_Allow_def bindE_def step_def split: prod.splits)
    have t3: "rs_now (view r2) \<le> rs_now (view r')"
      using rest by (auto simp: bindE_def attempt_def split: sum.splits if_splits prod.splits dest: cmd_time)
    have k: "k = c + 1" and c1: "counted D (view r1) key (c + 1)"
      using Incr_counted [OF incr start] Inr t2 t3 early by auto
    have c2: "counted D (view r2) key (c + 1)"
      using step c1 Expire_counted [OF _ c1 _ assms(3)] D t1 t3 early k counted_nonneg [OF start]
      by (auto simp: step_def bindE_def split: if_splits prod.splits sum.splits)
    have c3: "counted D (view r') key (c + 1)"
      using rest c2 TTL_counted [OF _ c2] early
      by (auto simp: bindE_def attempt_def split: sum.splits if_splits prod.splits)
    have "\<forall>b d. x = Inr (b, d) \<longrightarrow> (b \<longleftrightarrow> c + 1 \<le> limit)"
      using rest k by (auto simp: bindE_def attempt_def split: sum.splits if_splits prod.splits)
    with c3 show ?thesis by (auto intro!: exI [of _ "c + 1"])
  qed
qed

end

section \<open>A window of calls\<close>

text \<open>
  \<open>passes_by key s s'\<close>: between the states the server did nothing to \<open>key\<close> but let it age.
\<close>

definition passes_by :: "string \<Rightarrow> rstate \<Rightarrow> rstate \<Rightarrow> bool" where
  "passes_by key s s' \<longleftrightarrow>
     s' = s \<or> rs_now s \<le> rs_now s' \<and> rs_kv s' key = aged (rs_now s') (rs_kv s) key"

text \<open>
  The calls for one key among everything else that happens to the server: \<open>granted\<close>, \<open>denied\<close> and
  \<open>failed\<close> are the outcomes of a call, \<open>elsewhere\<close> is any activity that leaves the key to age.
\<close>

inductive limiter_run ::
    "'r redis_client \<Rightarrow> ('r \<Rightarrow> rstate) \<Rightarrow> string \<Rightarrow> int \<Rightarrow> duration \<Rightarrow> 'r \<Rightarrow> nat \<Rightarrow> 'r \<Rightarrow> bool"
  for R :: "'r redis_client" and view key limit window r0
where
  start: "limiter_run R view key limit window r0 0 r0"
| granted: "limiter_run R view key limit window r0 g r \<Longrightarrow>
    RedisRateLimiter_Allow R key limit window r = (Inr (True, d), r') \<Longrightarrow>
    limiter_run R view key limit window r0 (Suc g) r'"
| denied: "limiter_run R view key limit window r0 g r \<Longrightarrow>
    RedisRateLimiter_Allow R key limit window r = (Inr (False, d), r') \<Longrightarrow>
    limiter_run R view key limit window r0 g r'"
| failed: "limiter_run R view key limit window r0 g r \<Longrightarrow>
    RedisRateLimiter_Allow R key limit window r = (Inl e, r') \<Longrightarrow>
    limiter_run R view key limit window r0 g r'"
| elsewhere: "limiter_run R view key limit window r0 g r \<Longrightarrow>
    passes_by key (view r) (view r') \<Longrightarrow>
    limiter_run R view key limit window r0 g r'"

context redis_server
begin

lemma window_step:
  assumes allow: "RedisRateLimiter_Allow R key limit window r = (x, r')"
    and IH: "t0 \<le> rs_now (view r)
       \<and> (rs_now (view r) < D \<longrightarrow> (\<exists>c. counted D (view r) key c \<and> c0 + int g \<le> c \<and> P))"
    and "0 < window" and D: "0 < c0 \<or> D \<le> t0 + whole_seconds window"
  shows "t0 \<le> rs_now (view r')
       \<and> (rs_now (view r') < D \<longrightarrow> (\<exists>c. counted D (view r') key c \<and> c0 + int g \<le> c \<and> P))"
proof (intro conjI impI)
  note time = Allow_time [OF allow]
  show "t0 \<le> rs_now (view r')" using IH time by simp
  assume early: "rs_now (view r') < D"
  then obtain c where c: "counted D (view r) key c" "c0 + int g \<le> c" P
    using IH time by auto
  have "0 < c \<or> D \<le> rs_now (view r) + whole_seconds window" using D IH c(2) by auto
  then obtain c' where "c \<le> c'" "counted D (view r') key c'"
    using Allow_counted [OF allow c(1) assms(3) _ early] by auto
  with c show "\<exists>c. counted D (view r') key c \<and> c0 + int g \<le> c \<and> P" by auto
qed

lemma window_invariant:
  assumes "limiter_run R view key limit window r0 g r"
    and "0 < window" and c0: "counted D (view r0) key c0"
    and D: "0 < c0 \<or> D \<le> rs_now (view r0) + whole_seconds window"
  shows "rs_now (view r0) \<le> rs_now (view r)
       \<and> (rs_now (view r) < D \<longrightarrow>
            (\<exists>c. counted D (view r) key c \<and> c0 + int g \<le> c \<and> int g \<le> max 0 (limit - c0)))"
  using assms(1)
proof (induction rule: limiter_run.induct)
  case start
  then show ?case using c0 by auto
next
  case (granted g r d r')
  note time = Allow_time [OF granted.hyps(2)]
  show ?case
  proof (intro conjI impI)
    show "rs_now (view r0) \<le> rs_now (view r')" using granted.IH time by simp
    assume early: "rs_now (view r') < D"
    then obtain c where c: "counted D (view r) key c" "c0 + int g \<le> c"
      using granted.IH time by auto
    have "c + 1 \<le> limit \<and> counted D (view r') key (c + 1)"
      using Allow_counted [OF granted.hyps(2) c(1) assms(2) _ early] granted.IH D c(2) by auto
    with c(2) show "\<exists>c. counted D (view r') key c \<and> c0 + int (Suc g) \<le> c
        \<and> int (Suc g) \<le> max 0 (limit - c0)"
      by (intro exI [of _ "c + 1"]) auto
  qed
next
  case (denied g r d r')
  then show ?case by (intro window_step [OF denied.hyps(2) denied.IH assms(2) D])
next
  case (failed g r e r')
  then show ?case by (intro window_step [OF failed.hyps(2) failed.IH assms(2) D])
next
  case (elsewhere g r r')
  show ?case
  proof (intro conjI impI)
    show "rs_now (view r0) \<le> rs_now (view r')" using elsewhere by (auto simp: passes_by_def)
    assume early: "rs_now (view r') < D"
    then obtain c where c: "counted D (view r) key c" "c0 + int g \<le> c" "int g \<le> max 0 (limit - c0)"
      using elsewhere by (auto simp: passes_by_def)
    have "counted D (view r') key c"
      using counted_advance [OF c(1) early] elsewhere.hyps(2) c(1) by (auto simp: counted_def passes_by_def)
    with c show "\<exists>c. counted D (view r') key c \<and> c0 + int g \<le> c \<and> int g \<le> max 0 (limit - c0)"
      by blast
  qed
qed

end

section \<open>What the window promises\<close>

lemma limiter_window:
  assumes "redis_server R view rounded rdist"
    and "limiter_run R view key limit window r0 g r"
    and "0 < window" and "rs_kv (view r0) key = None"
    and "rs_now (view r) < rs_now (view r0) + whole_seconds window"
  shows "int g \<le> max 0 limit"
  using redis_server.window_invariant [OF assms(1,2,3), of _ 0] assms(4,5)
  by (fastforce simp: counted_def)

text \<open>
  Whatever the server answers, loses or delays, and whatever else happens
  to it, a key that had no counter is granted at most \<open>limit\<close> calls before the window that its
  first call opened is over.
\<close>

lemma limiter_bounds_window:
  assumes "redis_server R view rounded rdist"
    and "limiter_run R view key limit window r0 g r"
    and "0 < window" and "rs_kv (view r0) key = None"
    and "rs_now (view r) < rs_now (view r0) + whole_seconds window"
  shows "int g \<le> max 0 limit"
  using limiter_window [OF assms] .

definition empty_mem :: "(nat \<times> bool \<times> bool) list \<Rightarrow> mem" where
  "empty_mem sc = \<lparr>contents = \<lparr>rs_kv = \<lambda>_. None, rs_geo = \<lambda>_. [], rs_now = 0\<rparr>, script = sc\<rparr>"

lemmas mem_eval =
  io_unfold mem_redis_def mem_run_def advance_def aged_def incr_doc_def expire_doc_def ttl_doc_def
  set_doc_def get_doc_def del_doc_def mget_doc_def whole_seconds_def Let_def

lemma limiter_bounds_window_witness:
  "\<exists>r1 r2 d. RedisRateLimiter_Allow mem_redis ''k'' 1 (30 * Second) (empty_mem []) = (Inr (True, 0), r1)
     \<and> RedisRateLimiter_Allow mem_redis ''k'' 1 (30 * Second) r1 = (Inr (False, d), r2)
     \<and> int 1 \<le> max 0 1"
proof -
  let ?k = "''k''" and ?w = "30 * Second"
  obtain r1 where one: "RedisRateLimiter_Allow mem_redis ?k 1 ?w (empty_mem []) = (Inr (True, 0), r1)"
    and r1: "rs_now (contents r1) = 0" "script r1 = []"
      "rs_kv (contents r1) ?k = Some (RCount 1, Some (30 * Second))"
    by (simp add: RedisRateLimiter_Allow_def empty_mem_def mem_eval Second_def)
  obtain d r2 where two: "RedisRateLimiter_Allow mem_redis ?k 1 ?w r1 = (Inr (False, d), r2)"
    and r2: "rs_now (contents r2) = 0"
    using r1 by (simp add: RedisRateLimiter_Allow_def mem_eval Second_def)
  have "limiter_run mem_redis contents ?k 1 ?w (empty_mem []) (Suc 0) r2"
    using limiter_run.denied [OF limiter_run.granted [OF limiter_run.start one] two] .
  from limiter_bounds_window [OF mem_server.redis_server_axioms this] r2
  have "int (Suc 0) \<le> max 0 1" by (simp add: empty_mem_def Second_def whole_seconds_def)
  with one two show ?thesis by auto
qed

text \<open>
  A counter left without a time to live, as it is when the first call's
  \<^verbatim>\<open>INCR\<close> is carried out and its \<^verbatim>\<open>EXPIRE\<close> is not, never recovers: no matter how many windows go
  by, what is left of the first limit is all that is ever granted. (The comment in
  \<^verbatim>\<open>ratelimiter.go\<close> calls the situation self-healing.)
\<close>

lemma limiter_no_expiry_stuck:
  assumes "redis_server R view rounded rdist"
    and "limiter_run R view key limit window r0 g r"
    and "0 < window" and "rs_kv (view r0) key = Some (RCount c, None)" and "0 < c"
  shows "int g \<le> max 0 (limit - c)"
  using redis_server.window_invariant [OF assms(1,2,3), of "rs_now (view r) + 1" c] assms(4,5)
  by (auto simp: counted_def)

text \<open>
  The situation arises: the connection drops between the two commands. A year later a call is
  still refused.
\<close>

lemma limiter_no_expiry_stuck_witness:
  "\<exists>r1 r2 d.
     RedisRateLimiter_Allow mem_redis ''k'' 1 (30 * Second)
       (empty_mem [(0, True, True), (0, False, False), (10 ^ 17, True, True)])
       = (Inl (Foreign ''i/o timeout''), r1)
     \<and> RedisRateLimiter_Allow mem_redis ''k'' 1 (30 * Second) r1 = (Inr (False, d), r2)
     \<and> (0 :: int) \<le> max 0 (1 - 1)"
proof -
  let ?k = "''k''" and ?w = "30 * Second"
  obtain r1 where one: "RedisRateLimiter_Allow mem_redis ?k 1 ?w
        (empty_mem [(0, True, True), (0, False, False), (10 ^ 17, True, True)])
        = (Inl (Foreign ''i/o timeout''), r1)"
    and r1: "rs_now (contents r1) = 0" "script r1 = [(10 ^ 17, True, True)]"
      "rs_kv (contents r1) ?k = Some (RCount 1, None)"
    by (simp add: RedisRateLimiter_Allow_def empty_mem_def mem_eval Second_def)
  obtain d r2 where two: "RedisRateLimiter_Allow mem_redis ?k 1 ?w r1 = (Inr (False, d), r2)"
    using r1 by (simp add: RedisRateLimiter_Allow_def mem_eval Second_def)
  have "limiter_run mem_redis contents ?k 1 ?w r1 0 r2"
    using limiter_run.denied [OF limiter_run.start two] .
  from limiter_no_expiry_stuck [OF mem_server.redis_server_axioms this] r1
  have "(0 :: int) \<le> max 0 (1 - 1)" by (simp add: Second_def)
  with one two show ?thesis by auto
qed

end
