(* ===== verification/Geo_Index.thy ===== *)
theory Geo_Index
  imports Presence_Domain Rate_Limiter
begin

text \<open>
  \<^verbatim>\<open>backend/internal/presence/redisstore/geoindex.go\<close>: the index of live positions, a geo set for the
  positions and one key with a time to live per user for the rest.
\<close>

section \<open>The store\<close>

definition geoKey :: string where "geoKey = ''presence:geo''"

definition detailKey :: "string \<Rightarrow> string" where "detailKey userID = ''presence:detail:'' @ userID"

record detail =
  dt_TrackID :: string
  dt_ShareTrack :: bool
  dt_Visibility :: string
  dt_UpdatedAt :: time

definition marshal_detail :: "detail \<Rightarrow> json" where
  "marshal_detail d = JObj [(''track_id'', JStr (dt_TrackID d)), (''share_track'', JBool (dt_ShareTrack d)),
     (''visibility'', JStr (dt_Visibility d)), (''updated_at'', JTime (dt_UpdatedAt d))]"

text \<open>
  \<^verbatim>\<open>json.Unmarshal\<close> into the struct: fields in any order, the last one of a name counts, a missing
  one keeps its zero value, an unknown one is skipped, a value of another type is an error.
\<close>

fun read_detail_field :: "string \<times> json \<Rightarrow> detail \<Rightarrow> detail option" where
  "read_detail_field (k, v) d =
     (if k = ''track_id'' then (case v of JStr s \<Rightarrow> Some (d\<lparr>dt_TrackID := s\<rparr>) | _ \<Rightarrow> None)
      else if k = ''share_track'' then (case v of JBool b \<Rightarrow> Some (d\<lparr>dt_ShareTrack := b\<rparr>) | _ \<Rightarrow> None)
      else if k = ''visibility'' then (case v of JStr s \<Rightarrow> Some (d\<lparr>dt_Visibility := s\<rparr>) | _ \<Rightarrow> None)
      else if k = ''updated_at'' then (case v of JTime t \<Rightarrow> Some (d\<lparr>dt_UpdatedAt := t\<rparr>) | _ \<Rightarrow> None)
      else Some d)"

definition zero_detail :: detail where
  "zero_detail = \<lparr>dt_TrackID = '''', dt_ShareTrack = False, dt_Visibility = '''', dt_UpdatedAt = zero_time\<rparr>"

fun unmarshal_detail :: "rval \<Rightarrow> detail option" where
  "unmarshal_detail (RJson (JObj fs)) =
     fold (\<lambda>f d. case d of None \<Rightarrow> None | Some d \<Rightarrow> read_detail_field f d) fs (Some zero_detail)"
| "unmarshal_detail _ = None"

lemma unmarshal_marshal_detail: "unmarshal_detail (RJson (marshal_detail d)) = Some d"
  by (simp add: marshal_detail_def zero_detail_def)

definition bad_json :: err where "bad_json = Foreign ''invalid character''"

definition Store_Upsert :: "'r redis_client \<Rightarrow> PresenceEntry \<Rightarrow> duration \<Rightarrow> ('r, unit) io" where
  "Store_Upsert R entry ttl =
     bindE (wrapE ''redisstore: geoadd'' (cmd_GeoAdd R geoKey (pe_UserID entry) (pe_Position entry))) (\<lambda>_.
     let d = \<lparr>dt_TrackID = pe_TrackID entry, dt_ShareTrack = pe_ShareTrack entry,
              dt_Visibility = pe_Visibility entry, dt_UpdatedAt = pe_UpdatedAt entry\<rparr>
     in bindE (wrapE ''redisstore: set detail''
                 (cmd_Set R (detailKey (pe_UserID entry)) (RJson (marshal_detail d)) ttl)) (\<lambda>_.
        ret ()))"

definition Store_Touch :: "'r redis_client \<Rightarrow> string \<Rightarrow> duration \<Rightarrow> ('r, GeoPosition option) io" where
  "Store_Touch R userID ttl =
     bindE (attempt (cmd_Get R (detailKey userID))) (\<lambda>b. case b of
       Inl e \<Rightarrow> if errors_Is e RedisNil then ret None else throw (Wrapped ''redisstore: get detail'' e)
     | Inr b \<Rightarrow>
         bindE (wrapE ''redisstore: geopos'' (cmd_GeoPos R geoKey [userID])) (\<lambda>positions.
         case positions of
           [] \<Rightarrow> ret None
         | None # _ \<Rightarrow> ret None
         | Some pos # _ \<Rightarrow>
             bindE (wrapE ''redisstore: renew ttl'' (cmd_Expire R (detailKey userID) ttl)) (\<lambda>_.
             case unmarshal_detail b of
               None \<Rightarrow> throw (Wrapped ''redisstore: unmarshal detail'' bad_json)
             | Some _ \<Rightarrow> ret (Some pos))))"

definition Store_Remove :: "'r redis_client \<Rightarrow> string \<Rightarrow> ('r, unit) io" where
  "Store_Remove R userID =
     bindE (wrapE ''redisstore: zrem'' (cmd_ZRem R geoKey userID)) (\<lambda>_.
     bindE (wrapE ''redisstore: del detail'' (cmd_Del R (detailKey userID))) (\<lambda>_. ret ()))"

text \<open>The loop of \<^verbatim>\<open>Search\<close>: a name without a position at its index is skipped.\<close>

fun search_candidates :: "string \<Rightarrow> string list \<Rightarrow> GeoPosition option list \<Rightarrow> NearbyCandidate list" where
  "search_candidates excl [] ps = []"
| "search_candidates excl (nm # names) ps =
     (let rest = search_candidates excl names (tl ps) in
      if nm = excl then rest
      else case ps of
             [] \<Rightarrow> rest
           | None # _ \<Rightarrow> rest
           | Some pos # _ \<Rightarrow> \<lparr>nc_UserID = nm, nc_Position = pos\<rparr> # rest)"

definition Store_Search ::
    "'r redis_client \<Rightarrow> GeoPosition \<Rightarrow> real \<Rightarrow> string \<Rightarrow> ('r, NearbyCandidate list) io" where
  "Store_Search R pos radiusM excludeUserID =
     bindE (wrapE ''redisstore: geosearch'' (cmd_GeoSearch R geoKey pos radiusM)) (\<lambda>names.
     if names = [] then ret []
     else bindE (wrapE ''redisstore: geopos'' (cmd_GeoPos R geoKey names)) (\<lambda>positions.
          ret (search_candidates excludeUserID names positions)))"

text \<open>The loop of \<^verbatim>\<open>Detail\<close>; the position is left at its zero value.\<close>

fun detail_entries ::
    "string list \<Rightarrow> rval option list \<Rightarrow> (string \<rightharpoonup> PresenceEntry) \<Rightarrow> (string \<rightharpoonup> PresenceEntry) option" where
  "detail_entries (u # us) (None # vs) out = detail_entries us vs out"
| "detail_entries (u # us) (Some v # vs) out =
     (case unmarshal_detail v of
        None \<Rightarrow> None
      | Some d \<Rightarrow> detail_entries us vs
          (out(u \<mapsto> \<lparr>pe_UserID = u, pe_Position = \<lparr>Lat = 0, Lon = 0\<rparr>, pe_TrackID = dt_TrackID d,
                     pe_ShareTrack = dt_ShareTrack d, pe_Visibility = dt_Visibility d,
                     pe_UpdatedAt = dt_UpdatedAt d\<rparr>)))"
| "detail_entries _ _ out = Some out"

definition Store_Detail :: "'r redis_client \<Rightarrow> string list \<Rightarrow> ('r, string \<rightharpoonup> PresenceEntry) io" where
  "Store_Detail R userIDs =
     (if userIDs = [] then ret Map.empty
      else bindE (wrapE ''redisstore: mget detail'' (cmd_MGet R (map detailKey userIDs))) (\<lambda>vals.
           case detail_entries userIDs vals Map.empty of
             None \<Rightarrow> throw (Wrapped ''redisstore: unmarshal detail'' bad_json)
           | Some out \<Rightarrow> ret out))"

definition Store :: "'r redis_client \<Rightarrow> 'r GeoIndex" where
  "Store R = \<lparr>geo_Upsert = Store_Upsert R, geo_Touch = Store_Touch R, geo_Remove = Store_Remove R,
     geo_Search = Store_Search R, geo_Detail = Store_Detail R\<rparr>"

section \<open>Searching\<close>

lemma search_candidates_excludes: "c \<in> set (search_candidates excl names ps) \<Longrightarrow> nc_UserID c \<noteq> excl"
  by (induction excl names ps rule: search_candidates.induct)
    (auto simp: Let_def split: list.splits option.splits if_splits)

lemma Store_Search_excludes:
  "Store_Search R p r u w = (Inr cs, w') \<Longrightarrow> c \<in> set cs \<Longrightarrow> nc_UserID c \<noteq> u"
  using search_candidates_excludes [of c u] by (auto simp: Store_Search_def split: if_splits)

lemma search_candidates_doc:
  "search_candidates excl names (map f names)
   = [\<lparr>nc_UserID = nm, nc_Position = the (f nm)\<rparr>. nm \<leftarrow> names, nm \<noteq> excl \<and> f nm \<noteq> None]"
  by (induction names) (auto simp: Let_def split: option.split)

section \<open>What the commands leave alone\<close>

lemma aged_aged: "t \<le> u \<Longrightarrow> m' k = aged t m k \<Longrightarrow> aged u m' k = aged u m k"
  by (auto simp: aged_def split: option.splits prod.splits if_splits)

lemma passes_by_reflp: "reflp (passes_by key)"
  by (simp add: reflp_def passes_by_def)

lemma passes_by_transp: "transp (passes_by key)"
  unfolding transp_def passes_by_def by (smt (verit) aged_aged order_trans)

text \<open>A command whose documented effect spares the key.\<close>

definition spares :: "string \<Rightarrow> (rstate \<Rightarrow> err + 'a \<Rightarrow> rstate \<Rightarrow> bool) \<Rightarrow> bool" where
  "spares key doc \<longleftrightarrow>
     (\<forall>s x s'. doc s x s' \<longrightarrow> rs_now s' = rs_now s \<and> rs_kv s' key = rs_kv s key)"

lemma obeys_passes_by:
  assumes "obeys view cmd doc" and "spares key doc"
  shows "moves view (passes_by key) cmd"
proof (rule movesI)
  fix r x r'
  assume "cmd r = (x, r')"
  then obtain t where t: "rs_now (view r) \<le> t"
    and c: "view r' = advance t (view r) \<or> (\<exists>y. doc (advance t (view r)) y (view r'))"
    using assms(1) unfolding obeys_def by blast
  from c have "rs_now (view r') = t \<and> rs_kv (view r') key = aged t (rs_kv (view r)) key"
    using assms(2) unfolding spares_def by (metis advance_simps(1,3))
  then show "passes_by key (view r) (view r')" using t by (simp add: passes_by_def)
qed

lemma doc_spares:
  "k \<noteq> key \<Longrightarrow> spares key (det (incr_doc k))"
  "k \<noteq> key \<Longrightarrow> spares key (det (expire_doc k d))"
  "spares key (det (ttl_doc k))"
  "k \<noteq> key \<Longrightarrow> spares key (det (set_doc k v d))"
  "spares key (det (get_doc k))"
  "k \<noteq> key \<Longrightarrow> spares key (det (del_doc k))"
  "spares key (det (mget_doc ks))"
  "spares key (det (geoadd_doc rounded k m p))"
  "spares key (det (geopos_doc k ms))"
  "spares key (det (zrem_doc k m))"
  "spares key (geosearch_doc rdist k p radius)"
  by (auto simp: spares_def det_def incr_doc_def expire_doc_def ttl_doc_def set_doc_def get_doc_def
      del_doc_def mget_doc_def geoadd_doc_def geopos_doc_def zrem_doc_def geosearch_doc_def
      split: option.splits prod.splits rval.splits if_splits)

lemma key_kinds_apart:
  "detailKey u \<noteq> pairKey a b" "dailyKey u \<noteq> pairKey a b" "updateFrameKey u \<noteq> pairKey a b"
  by (simp_all add: detailKey_def pairKey_def dailyKey_def updateFrameKey_def)

context redis_server
begin

lemmas commands_pass_by =
  obeys_passes_by [OF Incr doc_spares(1)] obeys_passes_by [OF Expire doc_spares(2)]
  obeys_passes_by [OF TTL doc_spares(3)] obeys_passes_by [OF Set doc_spares(4)]
  obeys_passes_by [OF Get doc_spares(5)] obeys_passes_by [OF Del doc_spares(6)]
  obeys_passes_by [OF MGet doc_spares(7)] obeys_passes_by [OF GeoAdd doc_spares(8)]
  obeys_passes_by [OF GeoPos doc_spares(9)] obeys_passes_by [OF ZRem doc_spares(10)]
  obeys_passes_by [OF GeoSearch doc_spares(11)]

lemmas pass_by_intros = moves_intros passes_by_reflp passes_by_transp
  moves_keeps [OF passes_by_reflp keeps_ret] moves_keeps [OF passes_by_reflp keeps_throw]

lemma Allow_passes_by: "k \<noteq> key \<Longrightarrow> moves view (passes_by key) (RedisRateLimiter_Allow R k limit window)"
  unfolding RedisRateLimiter_Allow_def by (intro pass_by_intros commands_pass_by)

text \<open>The index never touches a counter of the limiter.\<close>

lemma Store_passes_by:
  assumes "\<And>u. detailKey u \<noteq> key"
  shows "moves view (passes_by key) (Store_Upsert R e d)"
    "moves view (passes_by key) (Store_Touch R u d)"
    "moves view (passes_by key) (Store_Remove R u)"
    "moves view (passes_by key) (Store_Search R p radius u)"
    "moves view (passes_by key) (Store_Detail R us)"
proof -
  note i = pass_by_intros commands_pass_by assms
  show "moves view (passes_by key) (Store_Upsert R e d)"
    unfolding Store_Upsert_def Let_def by (intro i)
  show "moves view (passes_by key) (Store_Remove R u)"
    unfolding Store_Remove_def by (intro i)
  show "moves view (passes_by key) (Store_Search R p radius u)"
    unfolding Store_Search_def by (intro i)
  show "moves view (passes_by key) (Store_Detail R us)"
    unfolding Store_Detail_def by (intro i)
  show "moves view (passes_by key) (Store_Touch R u d)"
    unfolding Store_Touch_def
    by (intro i) (auto split: list.split option.split intro!: i)
qed

end

section \<open>What the store promises\<close>

context redis_server
begin

text \<open>A read that answers shows the aged state at the instant it was carried out.\<close>

lemma answer_E:
  assumes "obeys view cmd (det f)" and "cmd r = (Inr x, r')"
  obtains t where "rs_now (view r) \<le> t" and "fst (f (advance t (view r))) = Inr x"
    and "view r' = snd (f (advance t (view r)))"
  using assms by (rule obeys_InrE) (metis fst_conv snd_conv that)

lemma Del_answer:
  assumes "cmd_Del R k r = (Inr x, r')"
  shows "rs_kv (view r') k = None \<and> rs_geo (view r') = rs_geo (view r)"
  using Del assms by (rule answer_E) (simp add: del_doc_def)

lemma map_of_filter_self: "map_of (filter (\<lambda>(n, _). n \<noteq> m) xs) m = None"
  by (induction xs) auto

lemma ZRem_answer:
  assumes "cmd_ZRem R k m r = (Inr x, r')"
  shows "map_of (rs_geo (view r') k) m = None"
  using ZRem assms by (rule answer_E) (simp add: zrem_doc_def map_of_filter_self)

lemma Set_answer:
  assumes "cmd_Set R k v d r = (Inr x, r')" and "0 < d"
  shows "rs_kv (view r') k = Some (v, Some (rs_now (view r') + d))"
  using Set assms(1) by (rule answer_E) (simp add: set_doc_def assms(2))

lemma MGet_answer:
  assumes "cmd_MGet R ks r = (Inr x, r')"
  shows "rs_now (view r) \<le> rs_now (view r')
    \<and> x = map (\<lambda>k. map_option fst (aged (rs_now (view r')) (rs_kv (view r)) k)) ks"
  using MGet assms by (rule answer_E) (simp add: mget_doc_def)

lemma Store_Remove_gone:
  assumes "Store_Remove R u r = (Inr x, r')"
  shows "map_of (rs_geo (view r') geoKey) u = None \<and> rs_kv (view r') (detailKey u) = None"
proof -
  from assms obtain r1 where z: "cmd_ZRem R geoKey u r = (Inr (), r1)"
    and d: "cmd_Del R (detailKey u) r1 = (Inr (), r')"
    by (auto simp: Store_Remove_def)
  show ?thesis using ZRem_answer [OF z] Del_answer [OF d] by simp
qed

lemma Store_Upsert_stored:
  assumes "Store_Upsert R e ttl r = (Inr x, r')" and "0 < ttl"
  shows "rs_kv (view r') (detailKey (pe_UserID e)) =
    Some (RJson (marshal_detail \<lparr>dt_TrackID = pe_TrackID e, dt_ShareTrack = pe_ShareTrack e,
            dt_Visibility = pe_Visibility e, dt_UpdatedAt = pe_UpdatedAt e\<rparr>),
          Some (rs_now (view r') + ttl))"
  using assms by (auto simp: Store_Upsert_def Let_def Set_answer)

lemma Search_unlisted:
  assumes "Store_Search R p radius v r = (Inr cs, r')" and none: "map_of (rs_geo (view r) geoKey) u = None"
  shows "u \<notin> nc_UserID ` set cs"
proof -
  have sub: "\<forall>c \<in> set (search_candidates v names ps). nc_UserID c \<in> set names" for names ps
    by (induction v names ps rule: search_candidates.induct)
      (auto simp: Let_def split: list.splits option.splits if_splits)
  from assms(1) obtain names r1 where srch: "cmd_GeoSearch R geoKey p radius r = (Inr names, r1)"
    and cs: "\<forall>c \<in> set cs. nc_UserID c \<in> set names"
    by (auto simp: Store_Search_def sub split: if_splits)
  have "u \<notin> set names"
    using GeoSearch srch none unfolding obeys_def geosearch_doc_def by fastforce
  with cs show ?thesis by blast
qed

lemma Store_Detail_one:
  assumes "Store_Detail R [u] r = (Inr m, r')"
  shows "rs_now (view r) \<le> rs_now (view r')
    \<and> detail_entries [u] [map_option fst (aged (rs_now (view r')) (rs_kv (view r)) (detailKey u))] Map.empty
        = Some m"
proof -
  from assms obtain vals where "cmd_MGet R [detailKey u] r = (Inr vals, r')"
    and "detail_entries [u] vals Map.empty = Some m"
    by (auto simp: Store_Detail_def split: option.splits)
  with MGet_answer show ?thesis by fastforce
qed

end

text \<open>
  What an update writes to the index is read back field by field while its
  time to live lasts, and from then on the user is not in the index any more, as long as nobody
  writes the entry again.
\<close>

lemma Store_entry_lives_ttl:
  assumes "redis_server R view rounded rdist"
    and up: "Store_Upsert R e ttl r0 = (Inr (), r1)" and ttl: "0 < ttl"
    and quiet: "passes_by (detailKey (pe_UserID e)) (view r1) (view r2)"
    and read: "Store_Detail R [pe_UserID e] r2 = (Inr m, r3)"
  shows "m (pe_UserID e) = (if rs_now (view r3) < rs_now (view r1) + ttl
           then Some (e\<lparr>pe_Position := \<lparr>Lat = 0, Lon = 0\<rparr>\<rparr>) else None)"
proof -
  let ?u = "pe_UserID e" and ?t = "rs_now (view r3)"
  note stored = redis_server.Store_Upsert_stored [OF assms(1) up ttl]
  note one = redis_server.Store_Detail_one [OF assms(1) read]
  have "aged ?t (rs_kv (view r2)) (detailKey ?u) = aged ?t (rs_kv (view r1)) (detailKey ?u)"
    using quiet one by (auto simp: passes_by_def intro: aged_aged)
  with one stored have "detail_entries [?u]
      [map_option fst (aged ?t (rs_kv (view r1)) (detailKey ?u))] Map.empty = Some m" by simp
  then show ?thesis
    using stored by (auto simp: aged_def unmarshal_marshal_detail split: if_splits)
qed

text \<open>
  Once a removal has returned the user is out of the index: whatever the
  server does next short of a new update, no search returns the user and there is no detail to read.
\<close>

lemma Store_Remove_immediate:
  assumes "redis_server R view rounded rdist" and "Store_Remove R u r0 = (Inr (), r1)"
    and "rs_geo (view r2) = rs_geo (view r1)" and "passes_by (detailKey u) (view r1) (view r2)"
  shows "(Store_Search R p radius v r2 = (Inr cs, r3) \<longrightarrow> u \<notin> nc_UserID ` set cs)
    \<and> (Store_Detail R [u] r2 = (Inr m, r4) \<longrightarrow> m u = None)"
proof -
  note gone = redis_server.Store_Remove_gone [OF assms(1,2)]
  have "u \<notin> nc_UserID ` set cs" if "Store_Search R p radius v r2 = (Inr cs, r3)"
    using redis_server.Search_unlisted [OF assms(1) that] gone assms(3) by simp
  moreover have "m u = None" if read: "Store_Detail R [u] r2 = (Inr m, r4)"
  proof -
    have "aged (rs_now (view r4)) (rs_kv (view r2)) (detailKey u) = None"
      using assms(4) gone by (auto simp: passes_by_def aged_def)
    with redis_server.Store_Detail_one [OF assms(1) read] show ?thesis by auto
  qed
  ultimately show ?thesis by blast
qed

section \<open>The claims at work on the concrete server\<close>

definition sample_entry :: PresenceEntry where
  "sample_entry = \<lparr>pe_UserID = ''u'', pe_Position = \<lparr>Lat = 10, Lon = 20\<rparr>, pe_TrackID = ''t'',
     pe_ShareTrack = True, pe_Visibility = VisibilityEveryone, pe_UpdatedAt = 5\<rparr>"

lemma geo_valid_sample: "geo_valid \<lparr>Lat = 10, Lon = 20\<rparr>"
  by (simp add: geo_valid_def)

lemma Store_entry_lives_ttl_witness:
  "\<exists>r1 r3 m. Store_Upsert mem_redis sample_entry 90 (empty_mem [(0, True, True), (0, True, True), (100, True, True)])
      = (Inr (), r1)
     \<and> Store_Detail mem_redis [''u''] r1 = (Inr m, r3) \<and> m ''u'' = None"
proof -
  let ?r0 = "empty_mem [(0, True, True), (0, True, True), (100, True, True)]"
  obtain r1 where up: "Store_Upsert mem_redis sample_entry 90 ?r0 = (Inr (), r1)"
    and r1: "script r1 = [(100, True, True)]" "rs_now (contents r1) = 0"
      "rs_kv (contents r1) (detailKey ''u'') = Some (RJson (marshal_detail
         \<lparr>dt_TrackID = ''t'', dt_ShareTrack = True, dt_Visibility = VisibilityEveryone,
          dt_UpdatedAt = 5\<rparr>), Some 90)"
    using geo_valid_sample
    by (simp add: Store_Upsert_def empty_mem_def mem_eval geoadd_doc_def sample_entry_def)
  obtain m r3 where read: "Store_Detail mem_redis [''u''] r1 = (Inr m, r3)"
    and r3: "rs_now (contents r3) = 100"
    using r1 by (simp add: Store_Detail_def mem_eval)
  have u: "pe_UserID sample_entry = ''u''" by (simp add: sample_entry_def)
  have "passes_by (detailKey (pe_UserID sample_entry)) (contents r1) (contents r1)"
    by (simp add: passes_by_def)
  from Store_entry_lives_ttl [OF mem_server.redis_server_axioms up _ this, unfolded u, OF _ read] r3 r1
  have "m ''u'' = None" by simp
  with up read show ?thesis by blast
qed

lemma Store_Remove_immediate_witness:
  "\<exists>r1 r2 cs r3. Store_Upsert mem_redis sample_entry 90 (empty_mem []) = (Inr (), r1)
     \<and> Store_Remove mem_redis ''u'' r1 = (Inr (), r2)
     \<and> Store_Search mem_redis \<lparr>Lat = 10, Lon = 20\<rparr> 1000 ''v'' r2 = (Inr cs, r3)
     \<and> ''u'' \<notin> nc_UserID ` set cs"
proof -
  obtain r1 where up: "Store_Upsert mem_redis sample_entry 90 (empty_mem []) = (Inr (), r1)"
    and r1: "script r1 = []" "rs_geo (contents r1) geoKey = [(''u'', \<lparr>Lat = 10, Lon = 20\<rparr>)]"
    using geo_valid_sample
    by (simp add: Store_Upsert_def empty_mem_def mem_eval geoadd_doc_def sample_entry_def)
  obtain r2 where rem: "Store_Remove mem_redis ''u'' r1 = (Inr (), r2)"
    and r2: "script r2 = []" "rs_geo (contents r2) geoKey = []"
    using r1 by (simp add: Store_Remove_def mem_eval zrem_doc_def)
  obtain cs r3 where srch: "Store_Search mem_redis \<lparr>Lat = 10, Lon = 20\<rparr> 1000 ''v'' r2 = (Inr cs, r3)"
    using r2 by (auto simp: Store_Search_def mem_eval geosearch_mem_def geopos_doc_def)
  have "passes_by (detailKey ''u'') (contents r2) (contents r2)" by (simp add: passes_by_def)
  from Store_Remove_immediate [OF mem_server.redis_server_axioms rem refl this] srch
  have "''u'' \<notin> nc_UserID ` set cs" by blast
  with up rem srch show ?thesis by blast
qed

end
