(* ===== verification/Mfa.thy ===== *)
theory Mfa
  imports Postgres
begin

text \<open>
  \<^verbatim>\<open>backend/internal/auth/mfa\<close>: the TOTP factor (\<^verbatim>\<open>totp.go\<close>), its repository interface (\<^verbatim>\<open>repo.go\<close>)
  and the Postgres implementation (\<^verbatim>\<open>mfa/postgres/repo.go\<close>, table \<^verbatim>\<open>user_mfa_totp\<close>). The OTP
  library is not part of the repository: generating a secret and checking a code against one are
  parameters.
\<close>

section \<open>Secrets\<close>

record Secret =
  sec_UserID :: string
  sec_Value :: string
  sec_VerifiedAt :: "time option"

record 'w SecretRepository =
  sr_Get :: "string \<Rightarrow> ('w, Secret) io"
  sr_Upsert :: "Secret \<Rightarrow> ('w, unit) io"
  sr_MarkVerified :: "string \<Rightarrow> time \<Rightarrow> ('w, unit) io"

text \<open>
  \<open>otp_generate\<close> is \<^verbatim>\<open>totp.Generate\<close> for an account name, its result the secret and the
  \<^verbatim>\<open>otpauth\<close> URI; \<open>otp_validate\<close> is \<^verbatim>\<open>totp.ValidateCustom\<close> with the options of the code: the
  submitted code, the secret, the instant.
\<close>

record 'w otp_library =
  otp_generate :: "string \<Rightarrow> ('w, string \<times> string) io"
  otp_validate :: "string \<Rightarrow> string \<Rightarrow> time \<Rightarrow> err + bool"

record 'w TOTPChallenger =
  tc_secrets :: "'w SecretRepository"
  tc_clock :: "'w Clock"
  tc_accountName :: "string \<Rightarrow> ('w, string) io"
  tc_otp :: "'w otp_library"

definition mfa_enroll :: "'w TOTPChallenger \<Rightarrow> string \<Rightarrow> ('w, string \<times> string) io" where
  "mfa_enroll c userID =
     bindE (wrapE ''mfa: resolve account name'' (tc_accountName c userID)) (\<lambda>account.
     bindE (wrapE ''mfa: generate secret'' (otp_generate (tc_otp c) account)) (\<lambda>key.
     bindE (wrapE ''mfa: store secret'' (sr_Upsert (tc_secrets c)
              \<lparr>sec_UserID = userID, sec_Value = fst key, sec_VerifiedAt = None\<rparr>)) (\<lambda>_.
     ret key)))"

definition mfa_Enroll :: "'w TOTPChallenger \<Rightarrow> string \<Rightarrow> ('w, string) io" where
  "mfa_Enroll c userID = bindE (mfa_enroll c userID) (\<lambda>key. ret (fst key))"

definition mfa_EnrollURI :: "'w TOTPChallenger \<Rightarrow> string \<Rightarrow> ('w, string \<times> string) io" where
  "mfa_EnrollURI c userID = bindE (mfa_enroll c userID) (\<lambda>key. ret (fst key, snd key))"

text \<open>The first accepted code activates the factor.\<close>

definition mfa_activate :: "'w TOTPChallenger \<Rightarrow> string \<Rightarrow> Secret \<Rightarrow> ('w, unit) io" where
  "mfa_activate c userID s =
     (if sec_VerifiedAt s = None
      then bindE (call (Now (tc_clock c))) (\<lambda>now.
           wrapE ''mfa: mark verified'' (sr_MarkVerified (tc_secrets c) userID now))
      else ret ())"

text \<open>The part of \<^verbatim>\<open>Verify\<close> after the secret has been read.\<close>

definition mfa_check :: "'w TOTPChallenger \<Rightarrow> string \<Rightarrow> string \<Rightarrow> Secret \<Rightarrow> ('w, bool) io" where
  "mfa_check c userID code s =
     bindE (call (Now (tc_clock c))) (\<lambda>now.
     case otp_validate (tc_otp c) code (sec_Value s) now of
       Inl e \<Rightarrow> throw (Wrapped ''mfa: validate code'' e)
     | Inr ok \<Rightarrow>
         if \<not> ok then ret False
         else bindE (mfa_activate c userID s) (\<lambda>_. ret True))"

definition mfa_Verify :: "'w TOTPChallenger \<Rightarrow> string \<Rightarrow> string \<Rightarrow> ('w, bool) io" where
  "mfa_Verify c userID code =
     bindE (attempt (sr_Get (tc_secrets c) userID)) (\<lambda>r. case r of
       Inl e \<Rightarrow> if errors_Is e ErrSecretNotFound then throw (Sentinel ErrSecretNotFound)
                else throw (Wrapped ''mfa: get secret'' e)
     | Inr s \<Rightarrow> mfa_check c userID code s)"

definition mfa_HasVerified :: "'w TOTPChallenger \<Rightarrow> string \<Rightarrow> ('w, bool) io" where
  "mfa_HasVerified c userID =
     bindE (attempt (sr_Get (tc_secrets c) userID)) (\<lambda>r. case r of
       Inl e \<Rightarrow> if errors_Is e ErrSecretNotFound then ret False
                else throw (Wrapped ''mfa: get secret'' e)
     | Inr s \<Rightarrow> ret (sec_VerifiedAt s \<noteq> None))"

section \<open>The contract of the repository\<close>

text \<open>\<open>factor w u\<close>: the secret on file for the user and when it was verified.\<close>

type_synonym factors = "string \<rightharpoonup> string \<times> time option"

locale secret_repository =
  fixes repo :: "'w SecretRepository"
    and factor :: "'w \<Rightarrow> factors"
  assumes Get_keeps: "keeps factor (sr_Get repo u)"
    and Get_row: "sr_Get repo u w = (Inr s, w') \<Longrightarrow> factor w u = Some (sec_Value s, sec_VerifiedAt s)"
    and Get_absent: "sr_Get repo u w = (Inl e, w') \<Longrightarrow> errors_Is e ErrSecretNotFound \<Longrightarrow> factor w u = None"
    and Upsert_done: "sr_Upsert repo s w = (Inr (), w')
      \<Longrightarrow> factor w' = (factor w)(sec_UserID s \<mapsto> (sec_Value s, None))"
    and MarkVerified_done: "sr_MarkVerified repo u t w = (Inr (), w')
      \<Longrightarrow> \<exists>v old. factor w u = Some (v, old) \<and> factor w' = (factor w)(u \<mapsto> (v, Some t))"

text \<open>A challenger whose clock, account names and OTP library have nothing to do with the factors.\<close>

locale totp_challenger =
  secret_repository "tc_secrets c" factor
  for c :: "'w TOTPChallenger" and factor :: "'w \<Rightarrow> factors" +
  assumes Now_keeps: "keeps factor (Now (tc_clock c))"
    and account_keeps: "keeps factor (tc_accountName c u)"
    and generate_keeps: "keeps factor (otp_generate (tc_otp c) n)"
begin

lemma HasVerified_iff:
  assumes "mfa_HasVerified c u w = (Inr b, w')"
  shows "factor w' = factor w \<and> (b \<longleftrightarrow> (\<exists>v t. factor w u = Some (v, Some t)))"
proof -
  from assms obtain r where get: "sr_Get (tc_secrets c) u w = (r, w')"
    and r: "case r of Inl e \<Rightarrow> errors_Is e ErrSecretNotFound \<and> \<not> b | Inr s \<Rightarrow> b \<longleftrightarrow> sec_VerifiedAt s \<noteq> None"
    by (auto simp: mfa_HasVerified_def split: sum.splits if_splits)
  have "b \<longleftrightarrow> (\<exists>v t. factor w u = Some (v, Some t))"
  proof (cases r)
    case (Inl e)
    with get r Get_absent show ?thesis by auto
  next
    case (Inr s)
    with get r Get_row [of u w s] show ?thesis by auto
  qed
  then show ?thesis using keepsD [OF Get_keeps get] by simp
qed

lemma Enroll_pending:
  assumes "mfa_EnrollURI c u w = (Inr (v, uri), w')"
  shows "factor w' = (factor w)(u \<mapsto> (v, None))"
proof -
  from assms obtain a w1 w2 where acc: "tc_accountName c u w = (Inr a, w1)"
    and gen: "otp_generate (tc_otp c) a w1 = (Inr (v, uri), w2)"
    and up: "sr_Upsert (tc_secrets c) \<lparr>sec_UserID = u, sec_Value = v, sec_VerifiedAt = None\<rparr> w2 = (Inr (), w')"
    by (auto simp: mfa_EnrollURI_def mfa_enroll_def)
  show ?thesis
    using Upsert_done [OF up] keepsD [OF account_keeps acc] keepsD [OF generate_keeps gen] by simp
qed

text \<open>A factor is active after a check exactly because a code was accepted against its secret.\<close>

lemma Verify_true:
  assumes "mfa_Verify c u code w = (Inr True, w')"
  shows "\<exists>v t now. (\<exists>old. factor w u = Some (v, old)) \<and> otp_validate (tc_otp c) code v now = Inr True
      \<and> factor w' = (factor w)(u \<mapsto> (v, Some t))"
proof -
  from assms obtain s w1 where get: "sr_Get (tc_secrets c) u w = (Inr s, w1)"
    and chk: "mfa_check c u code s w1 = (Inr True, w')"
    by (auto simp: mfa_Verify_def split: sum.splits if_splits)
  note g = Get_row [OF get] keepsD [OF Get_keeps get]
  from chk obtain now w2 where clk: "Now (tc_clock c) w1 = (now, w2)"
    and ok: "otp_validate (tc_otp c) code (sec_Value s) now = Inr True"
    and mark: "mfa_activate c u s w2 = (Inr (), w')"
    by (auto simp: mfa_check_def split: sum.splits if_splits)
  have f2: "factor w2 = factor w" using keepsD [OF Now_keeps clk] g by simp
  show ?thesis
  proof (cases "sec_VerifiedAt s")
    case (Some t)
    then have "factor w' = (factor w)(u \<mapsto> (sec_Value s, Some t))" using mark f2 g by (auto simp: mfa_activate_def fun_upd_idem)
    then show ?thesis using g ok by blast
  next
    case None
    with mark obtain now2 w3 where clk2: "Now (tc_clock c) w2 = (now2, w3)"
      and mv: "sr_MarkVerified (tc_secrets c) u now2 w3 = (Inr (), w')"
      by (auto simp: mfa_activate_def)
    have "factor w3 = factor w" using keepsD [OF Now_keeps clk2] f2 by simp
    with MarkVerified_done [OF mv] g
    have "factor w' = (factor w)(u \<mapsto> (sec_Value s, Some now2))" by auto
    then show ?thesis using g ok by blast
  qed
qed

lemma Verify_false:
  assumes "mfa_Verify c u code w = (Inr False, w')"
  shows "factor w' = factor w"
proof -
  from assms obtain s w1 now where get: "sr_Get (tc_secrets c) u w = (Inr s, w1)"
    and clk: "Now (tc_clock c) w1 = (now, w')"
    by (auto simp: mfa_Verify_def mfa_check_def split: sum.splits if_splits)
  show ?thesis using keepsD [OF Get_keeps get] keepsD [OF Now_keeps clk] by simp
qed

end

section \<open>Postgres\<close>

record totp_row =
  totp_secret :: string
  totp_verified_at :: "time option"

record mfa_tables =
  mt_users :: "string set"
  user_mfa_totp :: "string \<rightharpoonup> totp_row"

definition pg_secret_Get :: "string \<Rightarrow> (mfa_tables pg, Secret) io" where
  "pg_secret_Get userID =
     bindE (pg_run (\<lambda>_ tb. (Inr (user_mfa_totp tb userID), tb))) (\<lambda>r. case r of
       None \<Rightarrow> throw (Sentinel ErrSecretNotFound)
     | Some row \<Rightarrow> ret \<lparr>sec_UserID = userID, sec_Value = totp_secret row, sec_VerifiedAt = totp_verified_at row\<rparr>)"

definition upsert_totp :: "Secret \<Rightarrow> mfa_tables \<Rightarrow> (err + unit) \<times> mfa_tables" where
  "upsert_totp s tb =
     (if user_mfa_totp tb (sec_UserID s) = None \<and> sec_UserID s \<notin> mt_users tb
      then (Inl (Foreign ForeignKeyViolation), tb)
      else (Inr (), tb\<lparr>user_mfa_totp := (user_mfa_totp tb)
              (sec_UserID s \<mapsto> \<lparr>totp_secret = sec_Value s, totp_verified_at = None\<rparr>)\<rparr>))"

definition pg_secret_Upsert :: "Secret \<Rightarrow> (mfa_tables pg, unit) io" where
  "pg_secret_Upsert s = pg_run (\<lambda>_. upsert_totp s)"

text \<open>The result of an \<^verbatim>\<open>UPDATE\<close> is its number of affected rows.\<close>

definition mark_totp :: "string \<Rightarrow> time \<Rightarrow> mfa_tables \<Rightarrow> (err + nat) \<times> mfa_tables" where
  "mark_totp userID verifiedAt tb =
     (case user_mfa_totp tb userID of
        None \<Rightarrow> (Inr 0, tb)
      | Some row \<Rightarrow> (Inr 1, tb\<lparr>user_mfa_totp := (user_mfa_totp tb)
                       (userID \<mapsto> row\<lparr>totp_verified_at := Some verifiedAt\<rparr>)\<rparr>))"

definition pg_secret_MarkVerified :: "string \<Rightarrow> time \<Rightarrow> (mfa_tables pg, unit) io" where
  "pg_secret_MarkVerified userID verifiedAt =
     bindE (pg_run (\<lambda>_. mark_totp userID verifiedAt)) (\<lambda>affected.
     if affected = 0 then throw (Sentinel ErrSecretNotFound) else ret ())"

definition pg_secret_repo :: "mfa_tables pg SecretRepository" where
  "pg_secret_repo = \<lparr>sr_Get = pg_secret_Get, sr_Upsert = pg_secret_Upsert,
     sr_MarkVerified = pg_secret_MarkVerified\<rparr>"

definition table_factors :: "mfa_tables \<Rightarrow> factors" where
  "table_factors tb = (\<lambda>u. map_option (\<lambda>r. (totp_secret r, totp_verified_at r)) (user_mfa_totp tb u))"

lemma upsert_totp_factors:
  "upsert_totp s tb = (Inr x, tb') \<Longrightarrow>
   table_factors tb' = (table_factors tb)(sec_UserID s \<mapsto> (sec_Value s, None))"
  by (auto simp: upsert_totp_def table_factors_def split: if_splits)

lemma mark_totp_factors:
  "mark_totp u t tb = (Inr k, tb') \<Longrightarrow> k \<noteq> 0 \<Longrightarrow>
   \<exists>v old. table_factors tb u = Some (v, old) \<and> table_factors tb' = (table_factors tb)(u \<mapsto> (v, Some t))"
  by (auto simp: mark_totp_def table_factors_def split: option.splits)

interpretation pg_secrets: secret_repository pg_secret_repo "\<lambda>p. table_factors (pg_tables p)"
proof
  fix u
  show "keeps (\<lambda>p. table_factors (pg_tables p)) (sr_Get pg_secret_repo u)"
    unfolding pg_secret_repo_def pg_secret_Get_def
    by (simp, intro keeps_intros keeps_pg_read) simp
next
  fix u w s w'
  assume "sr_Get pg_secret_repo u w = (Inr s, w')"
  then show "table_factors (pg_tables w) u = Some (sec_Value s, sec_VerifiedAt s)"
    by (auto simp: pg_secret_repo_def pg_secret_Get_def table_factors_def elim!: pg_run_InrE
        split: option.splits)
next
  fix u w e w'
  assume "sr_Get pg_secret_repo u w = (Inl e, w')" and "errors_Is e ErrSecretNotFound"
  then show "table_factors (pg_tables w) u = None"
    by (auto simp: pg_secret_repo_def pg_secret_Get_def table_factors_def
        elim!: bindE_InlE pg_run_InlE pg_run_InrE split: option.splits)
next
  fix s w w'
  assume "sr_Upsert pg_secret_repo s w = (Inr (), w')"
  then show "table_factors (pg_tables w')
      = (table_factors (pg_tables w))(sec_UserID s \<mapsto> (sec_Value s, None))"
    by (simp add: pg_secret_repo_def pg_secret_Upsert_def) (metis pg_run_InrE upsert_totp_factors)
next
  fix u t w w'
  assume "sr_MarkVerified pg_secret_repo u t w = (Inr (), w')"
  then obtain k where "pg_run (\<lambda>_. mark_totp u t) w = (Inr k, w')" and "k \<noteq> 0"
    by (auto simp: pg_secret_repo_def pg_secret_MarkVerified_def split: if_splits)
  then show "\<exists>v old. table_factors (pg_tables w) u = Some (v, old)
      \<and> table_factors (pg_tables w') = (table_factors (pg_tables w))(u \<mapsto> (v, Some t))"
    by (metis pg_run_InrE mark_totp_factors)
qed

end
