(* ===== verification/Auth_Service.thy ===== *)
theory Auth_Service
  imports Mfa
begin

text \<open>
  \<^verbatim>\<open>backend/internal/auth\<close>: the domain (\<^verbatim>\<open>domain.go\<close>), the repository interfaces (\<^verbatim>\<open>repo.go\<close>) and the
  service (\<^verbatim>\<open>service.go\<close>): sign-up, login, OAuth login, refresh-token rotation, logout, MFA, roles.
  The password hasher, the signer of access tokens, the OIDC verifier and the generator of refresh
  tokens are the interfaces the service has; \<^verbatim>\<open>token.HashRefreshToken\<close> (SHA-256 in hexadecimal) is
  the function \<open>as_hashRefreshToken\<close>.
\<close>

section \<open>Domain\<close>

definition UserStatusActive :: string where "UserStatusActive = ''active''"
definition UserStatusSuspended :: string where "UserStatusSuspended = ''suspended''"
definition UserStatusDeleted :: string where "UserStatusDeleted = ''deleted''"
definition RoleUser :: string where "RoleUser = ''user''"
definition RoleCatalogCurator :: string where "RoleCatalogCurator = ''catalog_curator''"

record User =
  us_ID :: string
  us_Email :: string
  us_PasswordHash :: string
  us_DisplayName :: string
  us_Handle :: string
  us_Status :: string
  us_Role :: string
  us_CreatedAt :: time
  us_UpdatedAt :: time

record Identity =
  id_ID :: string
  id_UserID :: string
  id_Provider :: string
  id_ProviderUserID :: string
  id_CreatedAt :: time

record Device =
  dv_ID :: string
  dv_UserID :: string
  dv_Platform :: string
  dv_PushToken :: string
  dv_AppVersion :: string
  dv_LastSeenAt :: time

record RefreshToken =
  rt_ID :: string
  rt_UserID :: string
  rt_DeviceID :: string
  rt_TokenHash :: string
  rt_IssuedAt :: time
  rt_ExpiresAt :: time
  rt_RevokedAt :: "time option"
  rt_ReplacedBy :: string

section \<open>Interfaces\<close>

record 'w UserRepository =
  ur_Create :: "User \<Rightarrow> ('w, unit) io"
  ur_GetByEmail :: "string \<Rightarrow> ('w, User) io"
  ur_GetByID :: "string \<Rightarrow> ('w, User) io"

record 'w IdentityRepository =
  ir_GetUserIDByProvider :: "string \<Rightarrow> string \<Rightarrow> ('w, string) io"
  ir_Link :: "Identity \<Rightarrow> ('w, unit) io"

record 'w DeviceRepository =
  dr_Upsert :: "Device \<Rightarrow> ('w, string) io"

record 'w RefreshTokenRepository =
  rr_Store :: "RefreshToken \<Rightarrow> ('w, unit) io"
  rr_GetByHash :: "string \<Rightarrow> ('w, RefreshToken) io"
  rr_Revoke :: "string \<Rightarrow> time \<Rightarrow> ('w, unit) io"
  rr_MarkReplaced :: "string \<Rightarrow> string \<Rightarrow> time \<Rightarrow> ('w, unit) io"
  rr_RevokeAllForUser :: "string \<Rightarrow> time \<Rightarrow> ('w, unit) io"

record 'w Signer =
  Sign :: "string \<Rightarrow> ('w, string \<times> time) io"

record 'w Hasher =
  Hash :: "string \<Rightarrow> ('w, string) io"
  hs_Verify :: "string \<Rightarrow> string \<Rightarrow> err + bool"

record 'w MFAProvider =
  mp_EnrollURI :: "string \<Rightarrow> ('w, string \<times> string) io"
  mp_Verify :: "string \<Rightarrow> string \<Rightarrow> ('w, bool) io"
  mp_HasVerified :: "string \<Rightarrow> ('w, bool) io"

record 'w AuthService =
  as_users :: "'w UserRepository"
  as_identities :: "'w IdentityRepository"
  as_devices :: "'w DeviceRepository"
  as_refreshTokens :: "'w RefreshTokenRepository"
  as_hasher :: "'w Hasher"
  as_signer :: "'w Signer"
  as_refreshGen :: "('w, string) io"
  as_oauthVerifier :: "string \<Rightarrow> string \<Rightarrow> ('w, string \<times> string) io"
  as_mfa :: "'w MFAProvider"
  as_clock :: "'w Clock"
  as_ids :: "'w Generator"
  as_refreshTTL :: duration
  as_hashRefreshToken :: "string \<Rightarrow> string"

record DeviceInput =
  di_Platform :: string
  di_PushToken :: string
  di_AppVersion :: string

record SignUpInput =
  su_Email :: string
  su_Password :: string
  su_DisplayName :: string
  su_Device :: "DeviceInput option"

record LoginInput =
  li_Email :: string
  li_Password :: string
  li_Device :: "DeviceInput option"

record AuthResult =
  ar_UserID :: string
  ar_AccessToken :: string
  ar_AccessTokenExpiresAt :: time
  ar_RefreshToken :: string
  ar_RefreshTokenExpiresAt :: time

section \<open>Sessions\<close>

definition normalizeEmail :: "string \<Rightarrow> string" where
  "normalizeEmail email = ToLower (TrimSpace email)"

definition auth_invalid :: "string \<Rightarrow> err" where
  "auth_invalid msg = Detailed (Sentinel AuthErrInvalidInput) msg"

definition storeRefreshToken ::
    "'w AuthService \<Rightarrow> string \<Rightarrow> string \<Rightarrow> string \<Rightarrow> time \<Rightarrow> ('w, string) io" where
  "storeRefreshToken s userID deviceID tokenHash expiresAt =
     bindE (call (NewID (as_ids s))) (\<lambda>i.
     bindE (call (Now (as_clock s))) (\<lambda>issued.
     bindE (wrapE ''auth: store refresh token'' (rr_Store (as_refreshTokens s)
              \<lparr>rt_ID = i, rt_UserID = userID, rt_DeviceID = deviceID, rt_TokenHash = tokenHash,
               rt_IssuedAt = issued, rt_ExpiresAt = expiresAt, rt_RevokedAt = None,
               rt_ReplacedBy = ''''\<rparr>)) (\<lambda>_.
     ret i)))"

definition issueTokens :: "'w AuthService \<Rightarrow> string \<Rightarrow> string \<Rightarrow> ('w, AuthResult \<times> string) io" where
  "issueTokens s userID deviceID =
     bindE (wrapE ''auth: sign access token'' (Sign (as_signer s) userID)) (\<lambda>(accessToken, accessExpiresAt).
     bindE (wrapE ''auth: generate refresh token'' (as_refreshGen s)) (\<lambda>refreshPlain.
     bindE (call (Now (as_clock s))) (\<lambda>now.
     let refreshExpiresAt = now + as_refreshTTL s in
     bindE (storeRefreshToken s userID deviceID (as_hashRefreshToken s refreshPlain) refreshExpiresAt)
       (\<lambda>newID.
     ret (\<lparr>ar_UserID = userID, ar_AccessToken = accessToken,
           ar_AccessTokenExpiresAt = accessExpiresAt, ar_RefreshToken = refreshPlain,
           ar_RefreshTokenExpiresAt = refreshExpiresAt\<rparr>, newID)))))"

definition upsertDevice :: "'w AuthService \<Rightarrow> string \<Rightarrow> DeviceInput option \<Rightarrow> ('w, string) io" where
  "upsertDevice s userID device =
     (case device of
        None \<Rightarrow> ret ''''
      | Some d \<Rightarrow>
          if di_Platform d = '''' then ret ''''
          else bindE (call (Now (as_clock s))) (\<lambda>now.
               wrapE ''auth: upsert device'' (dr_Upsert (as_devices s)
                 \<lparr>dv_ID = '''', dv_UserID = userID, dv_Platform = di_Platform d,
                  dv_PushToken = di_PushToken d, dv_AppVersion = di_AppVersion d,
                  dv_LastSeenAt = now\<rparr>)))"

definition issueSession :: "'w AuthService \<Rightarrow> string \<Rightarrow> DeviceInput option \<Rightarrow> ('w, AuthResult) io" where
  "issueSession s userID device =
     bindE (upsertDevice s userID device) (\<lambda>deviceID.
     bindE (issueTokens s userID deviceID) (\<lambda>(result, _). ret result))"

section \<open>Signing up and logging in\<close>

definition SignUp :: "'w AuthService \<Rightarrow> SignUpInput \<Rightarrow> ('w, AuthResult) io" where
  "SignUp s inp =
     (let email = normalizeEmail (su_Email inp) in
      if email = '''' then throw (auth_invalid ''email is required'')
      else if length (su_Password inp) < 8
           then throw (auth_invalid ''password must be at least 8 characters'')
      else let displayName = TrimSpace (su_DisplayName inp) in
      if displayName = '''' then throw (auth_invalid ''display_name is required'')
      else
        bindE (wrapE ''auth: hash password'' (Hash (as_hasher s) (su_Password inp))) (\<lambda>hash.
        bindE (call (Now (as_clock s))) (\<lambda>now.
        bindE (call (NewID (as_ids s))) (\<lambda>uid.
        let user = \<lparr>us_ID = uid, us_Email = email, us_PasswordHash = hash,
                    us_DisplayName = displayName, us_Handle = '''', us_Status = UserStatusActive,
                    us_Role = RoleUser, us_CreatedAt = now, us_UpdatedAt = now\<rparr> in
        bindE (attempt (ur_Create (as_users s) user)) (\<lambda>r. case r of
          Inl e \<Rightarrow> if errors_Is e ErrEmailTaken then throw (Sentinel ErrEmailTaken)
                   else throw (Wrapped ''auth: create user'' e)
        | Inr _ \<Rightarrow> issueSession s uid (su_Device inp))))))"

definition Login :: "'w AuthService \<Rightarrow> LoginInput \<Rightarrow> ('w, AuthResult) io" where
  "Login s inp =
     (let email = normalizeEmail (li_Email inp) in
      if email = '''' \<or> li_Password inp = ''''
      then throw (auth_invalid ''email and password are required'')
      else
        bindE (attempt (ur_GetByEmail (as_users s) email)) (\<lambda>r. case r of
          Inl e \<Rightarrow> if errors_Is e ErrUserNotFound then throw (Sentinel ErrInvalidCredentials)
                   else throw (Wrapped ''auth: get user'' e)
        | Inr user \<Rightarrow>
            if us_Status user \<noteq> UserStatusActive \<or> us_PasswordHash user = ''''
            then throw (Sentinel ErrInvalidCredentials)
            else case hs_Verify (as_hasher s) (li_Password inp) (us_PasswordHash user) of
                   Inl e \<Rightarrow> throw (Wrapped ''auth: verify password'' e)
                 | Inr ok \<Rightarrow> if \<not> ok then throw (Sentinel ErrInvalidCredentials)
                             else issueSession s (us_ID user) (li_Device inp)))"

definition LoginWithOAuth ::
    "'w AuthService \<Rightarrow> string \<Rightarrow> string \<Rightarrow> string \<Rightarrow> DeviceInput option \<Rightarrow> ('w, AuthResult) io" where
  "LoginWithOAuth s provider idToken displayName device =
     (if idToken = '''' then throw (auth_invalid ''oauth_token is required'')
      else
        bindE (as_oauthVerifier s provider idToken) (\<lambda>(subject, email).
        bindE (attempt (ir_GetUserIDByProvider (as_identities s) provider subject)) (\<lambda>r. case r of
          Inr userID \<Rightarrow> issueSession s userID device
        | Inl e \<Rightarrow>
            if \<not> errors_Is e ErrIdentityNotLinked then throw (Wrapped ''auth: lookup identity'' e)
            else
              bindE (call (Now (as_clock s))) (\<lambda>now.
              let name0 = TrimSpace displayName;
                  name = (if name0 = '''' then normalizeEmail email else name0) in
              bindE (call (NewID (as_ids s))) (\<lambda>uid.
              bindE (wrapE ''auth: create oauth user'' (ur_Create (as_users s)
                       \<lparr>us_ID = uid, us_Email = normalizeEmail email, us_PasswordHash = '''',
                        us_DisplayName = name, us_Handle = '''', us_Status = UserStatusActive,
                        us_Role = RoleUser, us_CreatedAt = now, us_UpdatedAt = now\<rparr>)) (\<lambda>_.
              bindE (call (NewID (as_ids s))) (\<lambda>iid.
              bindE (wrapE ''auth: link identity'' (ir_Link (as_identities s)
                       \<lparr>id_ID = iid, id_UserID = uid, id_Provider = provider,
                        id_ProviderUserID = subject, id_CreatedAt = now\<rparr>)) (\<lambda>_.
              issueSession s uid device))))))))"

section \<open>Refreshing and logging out\<close>

text \<open>\<^verbatim>\<open>Refresh\<close> up to the point where the presented token is found good.\<close>

definition refresh_admit :: "'w AuthService \<Rightarrow> string \<Rightarrow> ('w, RefreshToken \<times> time) io" where
  "refresh_admit s plaintext =
     bindE (attempt (rr_GetByHash (as_refreshTokens s) (as_hashRefreshToken s plaintext))) (\<lambda>r. case r of
       Inl e \<Rightarrow> if errors_Is e ErrInvalidRefreshToken then throw (Sentinel ErrInvalidRefreshToken)
                else throw (Wrapped ''auth: get refresh token'' e)
     | Inr rt \<Rightarrow>
         bindE (call (Now (as_clock s))) (\<lambda>now.
         if rt_ReplacedBy rt \<noteq> '''' then
           bindE (wrapE ''auth: revoke all after reuse''
                    (rr_RevokeAllForUser (as_refreshTokens s) (rt_UserID rt) now)) (\<lambda>_.
           throw (Sentinel ErrRefreshTokenReused))
         else if rt_RevokedAt rt \<noteq> None then throw (Sentinel ErrRefreshTokenRevoked)
         else if \<not> rt_ExpiresAt rt > now then throw (Sentinel ErrRefreshTokenExpired)
         else ret (rt, now)))"

text \<open>The rest: the new pair, then the link from the old token to the new one.\<close>

definition refresh_rotate :: "'w AuthService \<Rightarrow> RefreshToken \<times> time \<Rightarrow> ('w, AuthResult) io" where
  "refresh_rotate s = (\<lambda>(rt, now).
     bindE (issueTokens s (rt_UserID rt) (rt_DeviceID rt)) (\<lambda>(result, newID).
     bindE (wrapE ''auth: mark replaced''
              (rr_MarkReplaced (as_refreshTokens s) (rt_ID rt) newID now)) (\<lambda>_.
     ret result)))"

definition Refresh :: "'w AuthService \<Rightarrow> string \<Rightarrow> ('w, AuthResult) io" where
  "Refresh s plaintext =
     (if plaintext = '''' then throw (auth_invalid ''refresh_token is required'')
      else bindE (refresh_admit s plaintext) (refresh_rotate s))"

definition Logout :: "'w AuthService \<Rightarrow> string \<Rightarrow> ('w, unit) io" where
  "Logout s plaintext =
     (if plaintext = '''' then throw (auth_invalid ''refresh_token is required'')
      else bindE (attempt (rr_GetByHash (as_refreshTokens s) (as_hashRefreshToken s plaintext))) (\<lambda>r. case r of
             Inl e \<Rightarrow> if errors_Is e ErrInvalidRefreshToken then ret ()
                      else throw (Wrapped ''auth: get refresh token'' e)
           | Inr rt \<Rightarrow>
               bindE (call (Now (as_clock s))) (\<lambda>now.
               wrapE ''auth: revoke refresh token''
                 (rr_Revoke (as_refreshTokens s) (rt_ID rt) now))))"

definition LogoutAll :: "'w AuthService \<Rightarrow> string \<Rightarrow> ('w, unit) io" where
  "LogoutAll s userID =
     (if userID = '''' then throw (auth_invalid ''user id is required'')
      else bindE (call (Now (as_clock s))) (\<lambda>now.
           wrapE ''auth: revoke all'' (rr_RevokeAllForUser (as_refreshTokens s) userID now)))"

section \<open>MFA, roles, profile\<close>

definition EnrollMFA :: "'w AuthService \<Rightarrow> string \<Rightarrow> ('w, string \<times> string) io" where
  "EnrollMFA s userID =
     (if userID = '''' then throw (auth_invalid ''user id is required'')
      else wrapE ''auth: enroll mfa'' (mp_EnrollURI (as_mfa s) userID))"

definition VerifyMFA :: "'w AuthService \<Rightarrow> string \<Rightarrow> string \<Rightarrow> ('w, bool) io" where
  "VerifyMFA s userID code =
     (if userID = '''' \<or> code = '''' then throw (auth_invalid ''user id and code are required'')
      else mp_Verify (as_mfa s) userID code)"

definition HasVerifiedMFA :: "'w AuthService \<Rightarrow> string \<Rightarrow> ('w, bool) io" where
  "HasVerifiedMFA s userID =
     (if userID = '''' then throw (auth_invalid ''user id is required'')
      else mp_HasVerified (as_mfa s) userID)"

definition HasRole :: "'w AuthService \<Rightarrow> string \<Rightarrow> string \<Rightarrow> ('w, bool) io" where
  "HasRole s userID role =
     (if userID = '''' then throw (auth_invalid ''user id is required'')
      else bindE (attempt (ur_GetByID (as_users s) userID)) (\<lambda>r. case r of
             Inl e \<Rightarrow> if errors_Is e ErrUserNotFound then ret False
                      else throw (Wrapped ''auth: get user for role check'' e)
           | Inr user \<Rightarrow> ret (us_Role user = role)))"

definition Me :: "'w AuthService \<Rightarrow> string \<Rightarrow> ('w, User) io" where
  "Me s userID =
     bindE (attempt (ur_GetByID (as_users s) userID)) (\<lambda>r. case r of
       Inl e \<Rightarrow> if errors_Is e ErrUserNotFound then throw (Sentinel ErrUserNotFound)
                else throw (Wrapped ''auth: get user'' e)
     | Inr user \<Rightarrow> ret user)"

text \<open>\<^verbatim>\<open>oauth.StubVerifier\<close>, which this slice wires in.\<close>

definition StubVerifier_Verify :: "string \<Rightarrow> string \<Rightarrow> ('w, string \<times> string) io" where
  "StubVerifier_Verify provider idToken =
     (if provider = ''google'' \<or> provider = ''apple''
      then throw (Sentinel OAuthErrNotImplemented)
      else throw (Sentinel ErrUnsupportedProvider))"

section \<open>The contract of the token store\<close>

definition tokens_wf :: "RefreshToken list \<Rightarrow> bool" where
  "tokens_wf ts \<longleftrightarrow> distinct (map rt_ID ts) \<and> distinct (map rt_TokenHash ts)"

definition revoke_token :: "string \<Rightarrow> time \<Rightarrow> RefreshToken \<Rightarrow> RefreshToken" where
  "revoke_token i t r = (if rt_ID r = i \<and> rt_RevokedAt r = None then r\<lparr>rt_RevokedAt := Some t\<rparr> else r)"

definition replace_token :: "string \<Rightarrow> string \<Rightarrow> time \<Rightarrow> RefreshToken \<Rightarrow> RefreshToken" where
  "replace_token old new t r =
     (if rt_ID r = old then r\<lparr>rt_ReplacedBy := new, rt_RevokedAt := Some t\<rparr> else r)"

definition revoke_user :: "string \<Rightarrow> time \<Rightarrow> RefreshToken \<Rightarrow> RefreshToken" where
  "revoke_user u t r =
     (if rt_UserID r = u \<and> rt_RevokedAt r = None then r\<lparr>rt_RevokedAt := Some t\<rparr> else r)"

definition live_token :: "time \<Rightarrow> RefreshToken \<Rightarrow> bool" where
  "live_token now r \<longleftrightarrow> rt_RevokedAt r = None \<and> rt_ReplacedBy r = '''' \<and> now < rt_ExpiresAt r"

lemma updates_keep [simp]:
  "rt_ID (revoke_token i t r) = rt_ID r" "rt_TokenHash (revoke_token i t r) = rt_TokenHash r"
  "rt_UserID (revoke_token i t r) = rt_UserID r" "rt_ReplacedBy (revoke_token i t r) = rt_ReplacedBy r"
  "rt_ID (replace_token o' n' t r) = rt_ID r" "rt_TokenHash (replace_token o' n' t r) = rt_TokenHash r"
  "rt_UserID (replace_token o' n' t r) = rt_UserID r"
  "rt_ID (revoke_user u t r) = rt_ID r" "rt_TokenHash (revoke_user u t r) = rt_TokenHash r"
  "rt_UserID (revoke_user u t r) = rt_UserID r" "rt_ReplacedBy (revoke_user u t r) = rt_ReplacedBy r"
  by (simp_all add: revoke_token_def replace_token_def revoke_user_def)

locale refresh_tokens =
  fixes repo :: "'w RefreshTokenRepository"
    and toks :: "'w \<Rightarrow> RefreshToken list"
  assumes GetByHash_keeps: "keeps toks (rr_GetByHash repo h)"
    and GetByHash_row: "rr_GetByHash repo h w = (Inr r, w') \<Longrightarrow> r \<in> set (toks w) \<and> rt_TokenHash r = h"
    and GetByHash_absent: "rr_GetByHash repo h w = (Inl e, w') \<Longrightarrow> errors_Is e ErrInvalidRefreshToken
      \<Longrightarrow> h \<notin> rt_TokenHash ` set (toks w)"
    and Store_done: "rr_Store repo r w = (Inr (), w') \<Longrightarrow> rt_RevokedAt r = None
      \<Longrightarrow> rt_ReplacedBy r = '''' \<Longrightarrow> toks w' = toks w @ [r]
      \<and> rt_ID r \<notin> rt_ID ` set (toks w) \<and> rt_TokenHash r \<notin> rt_TokenHash ` set (toks w)"
    and Revoke_done: "rr_Revoke repo i t w = (Inr (), w') \<Longrightarrow> toks w' = map (revoke_token i t) (toks w)"
    and MarkReplaced_done: "rr_MarkReplaced repo i j t w = (Inr (), w')
      \<Longrightarrow> toks w' = map (replace_token i j t) (toks w)"
    and RevokeAll_done: "rr_RevokeAllForUser repo u t w = (Inr (), w')
      \<Longrightarrow> toks w' = map (revoke_user u t) (toks w)"

text \<open>The record that a rotation adds, and the link it makes.\<close>

definition successor :: "'w AuthService \<Rightarrow> RefreshToken \<Rightarrow> RefreshToken \<Rightarrow> AuthResult \<Rightarrow> bool" where
  "successor s old new res \<longleftrightarrow>
     rt_UserID new = rt_UserID old \<and> rt_DeviceID new = rt_DeviceID old
     \<and> rt_TokenHash new = as_hashRefreshToken s (ar_RefreshToken res)
     \<and> rt_RevokedAt new = None \<and> rt_ReplacedBy new = ''''
     \<and> (\<exists>w0. rt_ID new = fst (NewID (as_ids s) w0)) \<and> ar_UserID res = rt_UserID old"

locale auth_sessions =
  refresh_tokens "as_refreshTokens s" toks
  for s :: "'w AuthService" and toks :: "'w \<Rightarrow> RefreshToken list" +
  assumes Sign_keeps: "keeps toks (Sign (as_signer s) u)"
    and refreshGen_keeps: "keeps toks (as_refreshGen s)"
    and Now_keeps: "keeps toks (Now (as_clock s))"
    and NewID_keeps: "keeps toks (NewID (as_ids s))"
begin

lemma issueTokens_stores:
  assumes "issueTokens s u d w = (Inr (res, i), w')"
  shows "\<exists>new. toks w' = toks w @ [new] \<and> rt_ID new = i \<and> (\<exists>w0. i = fst (NewID (as_ids s) w0)) \<and> rt_UserID new = u \<and> rt_DeviceID new = d
     \<and> rt_TokenHash new = as_hashRefreshToken s (ar_RefreshToken res) \<and> rt_RevokedAt new = None
     \<and> rt_ReplacedBy new = '''' \<and> rt_ExpiresAt new = ar_RefreshTokenExpiresAt res \<and> ar_UserID res = u
     \<and> i \<notin> rt_ID ` set (toks w) \<and> rt_TokenHash new \<notin> rt_TokenHash ` set (toks w)"
proof -
  from assms obtain acc ax w1 p w2 n1 w3 w4 n2 w5 where
    sg: "Sign (as_signer s) u w = (Inr (acc, ax), w1)" and gn: "as_refreshGen s w1 = (Inr p, w2)"
    and c1: "Now (as_clock s) w2 = (n1, w3)" and ids: "NewID (as_ids s) w3 = (i, w4)"
    and c2: "Now (as_clock s) w4 = (n2, w5)"
    and st: "rr_Store (as_refreshTokens s)
        \<lparr>rt_ID = i, rt_UserID = u, rt_DeviceID = d, rt_TokenHash = as_hashRefreshToken s p,
         rt_IssuedAt = n2, rt_ExpiresAt = n1 + as_refreshTTL s, rt_RevokedAt = None,
         rt_ReplacedBy = ''''\<rparr> w5 = (Inr (), w')"
    and res: "ar_RefreshToken res = p" "ar_RefreshTokenExpiresAt res = n1 + as_refreshTTL s" "ar_UserID res = u"
    unfolding issueTokens_def storeRefreshToken_def by (auto simp: Let_def)
  have "toks w5 = toks w"
    using keepsD [OF Sign_keeps sg] keepsD [OF refreshGen_keeps gn] keepsD [OF Now_keeps c1]
      keepsD [OF NewID_keeps ids] keepsD [OF Now_keeps c2] by simp
  moreover have "\<exists>w0. i = fst (NewID (as_ids s) w0)" using ids by (metis fst_conv)
  ultimately show ?thesis using Store_done [OF st] res by auto
qed

lemma admit_live:
  assumes "refresh_admit s p w = (Inr (old, now), w')"
  shows "toks w' = toks w \<and> old \<in> set (toks w) \<and> rt_TokenHash old = as_hashRefreshToken s p
    \<and> live_token now old"
proof -
  from assms obtain w1 where get: "rr_GetByHash (as_refreshTokens s) (as_hashRefreshToken s p) w = (Inr old, w1)"
    and clk: "Now (as_clock s) w1 = (now, w')" and ok: "live_token now old"
    unfolding refresh_admit_def live_token_def by (auto split: sum.splits if_splits)
  show ?thesis
    using GetByHash_row [OF get] keepsD [OF GetByHash_keeps get] keepsD [OF Now_keeps clk] ok by simp
qed

lemma rotate_done:
  assumes "refresh_rotate s (old, now) w = (Inr res, w')"
  shows "\<exists>new. successor s old new res \<and> rt_ID new \<notin> rt_ID ` set (toks w)
     \<and> rt_TokenHash new \<notin> rt_TokenHash ` set (toks w)
     \<and> toks w' = map (replace_token (rt_ID old) (rt_ID new) now) (toks w @ [new])"
proof -
  from assms obtain i w1 where iss: "issueTokens s (rt_UserID old) (rt_DeviceID old) w = (Inr (res, i), w1)"
    and mk: "rr_MarkReplaced (as_refreshTokens s) (rt_ID old) i now w1 = (Inr (), w')"
    unfolding refresh_rotate_def by auto
  obtain new where new: "toks w1 = toks w @ [new]" "rt_ID new = i" "successor s old new res"
    "i \<notin> rt_ID ` set (toks w)" "rt_TokenHash new \<notin> rt_TokenHash ` set (toks w)"
    using issueTokens_stores [OF iss] unfolding successor_def by blast
  show ?thesis using new MarkReplaced_done [OF mk] by (intro exI [of _ new]) simp
qed

lemma Refresh_rotates:
  assumes "Refresh s p w = (Inr res, w')"
  shows "\<exists>old now new. old \<in> set (toks w) \<and> rt_TokenHash old = as_hashRefreshToken s p
     \<and> live_token now old \<and> successor s old new res \<and> rt_ID new \<notin> rt_ID ` set (toks w)
     \<and> rt_TokenHash new \<notin> rt_TokenHash ` set (toks w)
     \<and> toks w' = map (replace_token (rt_ID old) (rt_ID new) now) (toks w @ [new])"
proof -
  from assms obtain old now w1 where adm: "refresh_admit s p w = (Inr (old, now), w1)"
    and rot: "refresh_rotate s (old, now) w1 = (Inr res, w')"
    unfolding Refresh_def by (auto split: if_splits)
  show ?thesis using admit_live [OF adm] rotate_done [OF rot] by auto
qed

text \<open>A token that has been rotated away is never good again, and showing it ends all sessions.\<close>

lemma same_hash_same_row:
  "tokens_wf ts \<Longrightarrow> a \<in> set ts \<Longrightarrow> b \<in> set ts \<Longrightarrow> rt_TokenHash a = rt_TokenHash b \<Longrightarrow> a = b"
  by (auto simp: tokens_wf_def distinct_map dest: inj_onD)

lemma Refresh_replaced:
  assumes "tokens_wf (toks w)" and "old \<in> set (toks w)" and "rt_TokenHash old = as_hashRefreshToken s p"
    and "rt_ReplacedBy old \<noteq> ''''" and "Refresh s p w = (r, w')"
  shows "(\<exists>e. r = Inl e) \<and> (r = Inl (Sentinel ErrRefreshTokenReused) \<longrightarrow>
     (\<forall>t \<in> set (toks w'). rt_UserID t = rt_UserID old \<longrightarrow> rt_RevokedAt t \<noteq> None))"
proof (cases "p = ''''")
  case True
  with assms(5) show ?thesis by (auto simp: Refresh_def auth_invalid_def)
next
  case False
  obtain g w1 where get: "rr_GetByHash (as_refreshTokens s) (as_hashRefreshToken s p) w = (g, w1)"
    by fastforce
  show ?thesis
  proof (cases g)
    case (Inl e)
    with get False assms(5) show ?thesis
      by (auto simp: Refresh_def refresh_admit_def bindE_def attempt_def split: if_splits)
  next
    case (Inr rt)
    have rt: "rt = old"
      using GetByHash_row [OF get [unfolded Inr]] assms(1-3) same_hash_same_row by metis
    obtain now w2 where clk: "Now (as_clock s) w1 = (now, w2)" by fastforce
    obtain x w3 where rev: "rr_RevokeAllForUser (as_refreshTokens s) (rt_UserID old) now w2 = (x, w3)"
      by fastforce
    have r: "r = (case x of Inl e \<Rightarrow> Inl (Wrapped ''auth: revoke all after reuse'' e)
                  | Inr _ \<Rightarrow> Inl (Sentinel ErrRefreshTokenReused))" "w' = w3"
      using assms(4,5) False get Inr rt clk rev
      by (auto simp: Refresh_def refresh_admit_def bindE_def attempt_def call_def wrapE_def split: sum.splits)
    show ?thesis
    proof (cases x)
      case (Inl e)
      with r show ?thesis by simp
    next
      case (Inr y)
      from RevokeAll_done [OF rev [unfolded Inr unit_eq [of y]]] r show ?thesis
        by (auto simp: revoke_user_def Inr)
    qed
  qed
qed

lemma Refresh_keeps_wf:
  assumes "Refresh s p w = (Inr res, w')" and "tokens_wf (toks w)"
  shows "tokens_wf (toks w')"
proof -
  have ids: "map rt_ID (map (replace_token o' n' t) xs) = map rt_ID xs"
    "map rt_TokenHash (map (replace_token o' n' t) xs) = map rt_TokenHash xs" for o' n' t xs
    by simp_all
  from Refresh_rotates [OF assms(1)] assms(2) show ?thesis
    by (auto simp: tokens_wf_def ids simp del: map_map)
qed

text \<open>Two requests that are both admitted before either rotates both end with a live session.\<close>

lemma race:
  assumes "refresh_admit s p w = (Inr a, w1)" and "refresh_admit s p w1 = (Inr b, w2)"
    and "refresh_rotate s a w2 = (Inr res1, w3)" and "refresh_rotate s b w3 = (Inr res2, w4)"
    and "tokens_wf (toks w)"
  shows "\<exists>n1 n2. n1 \<in> set (toks w4) \<and> n2 \<in> set (toks w4) \<and> rt_ID n1 \<noteq> rt_ID n2
     \<and> rt_UserID n1 = rt_UserID n2 \<and> rt_RevokedAt n1 = None \<and> rt_RevokedAt n2 = None
     \<and> rt_TokenHash n1 = as_hashRefreshToken s (ar_RefreshToken res1)
     \<and> rt_TokenHash n2 = as_hashRefreshToken s (ar_RefreshToken res2)"
proof -
  obtain old now where a: "a = (old, now)" by fastforce
  obtain old2 now2 where b: "b = (old2, now2)" by fastforce
  note A = admit_live [OF assms(1) [unfolded a]] and B = admit_live [OF assms(2) [unfolded b]]
  have same: "old2 = old" using same_hash_same_row [OF assms(5)] A B by metis
  obtain n1 where n1: "successor s old n1 res1" "rt_ID n1 \<notin> rt_ID ` set (toks w2)"
    "toks w3 = map (replace_token (rt_ID old) (rt_ID n1) now) (toks w2 @ [n1])"
    using rotate_done [OF assms(3) [unfolded a]] by blast
  obtain n2 where n2: "successor s old n2 res2" "rt_ID n2 \<notin> rt_ID ` set (toks w3)"
    "toks w4 = map (replace_token (rt_ID old) (rt_ID n2) now2) (toks w3 @ [n2])"
    using rotate_done [OF assms(4) [unfolded b same]] by blast
  have old_in: "rt_ID old \<in> rt_ID ` set (toks w2)" using A B by auto
  have ne: "rt_ID n1 \<noteq> rt_ID old" using n1(2) old_in by auto
  have n1_in: "n1 \<in> set (toks w3)" using ne by (auto simp: n1(3) replace_token_def)
  have ne2: "rt_ID n2 \<noteq> rt_ID old" "rt_ID n1 \<noteq> rt_ID n2"
    using n2(2) old_in n1_in by (auto simp: n1(3) image_image)
  have "n1 \<in> set (toks w4)" using n1_in ne by (force simp: n2(3) replace_token_def)
  moreover have "n2 \<in> set (toks w4)" using ne2 by (auto simp: n2(3) replace_token_def)
  ultimately show ?thesis using n1(1) n2(1) ne2 unfolding successor_def by metis
qed

text \<open>After a logout the token is not live any more, whatever it was.\<close>

lemma Logout_ends:
  assumes "Logout s p w = (Inr (), w')" and "r \<in> set (toks w')"
    and "rt_TokenHash r = as_hashRefreshToken s p" and "tokens_wf (toks w)"
  shows "rt_RevokedAt r \<noteq> None"
proof -
  from assms(1) obtain g w1 where get: "rr_GetByHash (as_refreshTokens s) (as_hashRefreshToken s p) w = (g, w1)"
    and g: "case g of Inl e \<Rightarrow> errors_Is e ErrInvalidRefreshToken \<and> w' = w1
      | Inr rt \<Rightarrow> \<exists>now w2. Now (as_clock s) w1 = (now, w2)
          \<and> rr_Revoke (as_refreshTokens s) (rt_ID rt) now w2 = (Inr (), w')"
    unfolding Logout_def by (auto split: if_splits sum.splits)
  note k = keepsD [OF GetByHash_keeps get]
  show ?thesis
  proof (cases g)
    case (Inl e)
    with g have "errors_Is e ErrInvalidRefreshToken" and "w' = w1" by simp_all
    with GetByHash_absent [OF get [unfolded Inl]] k assms(2,3)
    have "rt_TokenHash r \<notin> rt_TokenHash ` set (toks w)" "r \<in> set (toks w)" by simp_all
    then show ?thesis by blast
  next
    case (Inr rt)
    with g obtain now w2 where clk: "Now (as_clock s) w1 = (now, w2)"
      and rev: "rr_Revoke (as_refreshTokens s) (rt_ID rt) now w2 = (Inr (), w')" by auto
    have t: "toks w' = map (revoke_token (rt_ID rt) now) (toks w)"
      using Revoke_done [OF rev] keepsD [OF Now_keeps clk] k by simp
    with assms(2) obtain r0 where r0: "r0 \<in> set (toks w)" "r = revoke_token (rt_ID rt) now r0" by auto
    have "r0 = rt"
      using same_hash_same_row [OF assms(4) r0(1)] GetByHash_row [OF get [unfolded Inr]] assms(3) r0(2) by simp
    with r0(2) show ?thesis by (auto simp: revoke_token_def)
  qed
qed

end

section \<open>Accounts\<close>

text \<open>
  The contract of the user directory: \<open>users w\<close> are the rows with the instant of their deletion.
  Addresses are compared without regard to case.
\<close>

locale user_directory =
  fixes repo :: "'w UserRepository"
    and users :: "'w \<Rightarrow> (User \<times> time option) list"
  assumes GetByEmail_keeps: "keeps users (ur_GetByEmail repo e)"
    and GetByID_keeps: "keeps users (ur_GetByID repo i)"
    and GetByEmail_row: "ur_GetByEmail repo e w = (Inr u, w')
      \<Longrightarrow> (u, None) \<in> set (users w) \<and> ToLower (us_Email u) = ToLower e"
    and GetByEmail_absent: "ur_GetByEmail repo e w = (Inl x, w') \<Longrightarrow> errors_Is x ErrUserNotFound
      \<Longrightarrow> \<forall>u. (u, None) \<in> set (users w) \<longrightarrow> ToLower (us_Email u) \<noteq> ToLower e"
    and GetByID_row: "ur_GetByID repo i w = (Inr u, w') \<Longrightarrow> (u, None) \<in> set (users w) \<and> us_ID u = i"
    and Create_done: "ur_Create repo u w = (Inr (), w') \<Longrightarrow> us_Handle u = '''' \<Longrightarrow>
      users w' = users w @ [(u, None)] \<and> (\<forall>(v, d) \<in> set (users w). ToLower (us_Email v) \<noteq> ToLower (us_Email u))"

definition credentials_ok :: "(string \<Rightarrow> string \<Rightarrow> err + bool) \<Rightarrow> string \<Rightarrow> string \<Rightarrow> User \<Rightarrow> bool" where
  "credentials_ok verify email password u \<longleftrightarrow>
     ToLower (us_Email u) = ToLower (normalizeEmail email) \<and> us_Status u = UserStatusActive
     \<and> us_PasswordHash u \<noteq> '''' \<and> verify password (us_PasswordHash u) = Inr True"

text \<open>Sessions, hashing, devices and clocks do not touch the directory.\<close>

locale auth_accounts =
  user_directory "as_users s" users
  for s :: "'w AuthService" and users :: "'w \<Rightarrow> (User \<times> time option) list" +
  assumes session_keeps: "keeps users (Sign (as_signer s) u)" "keeps users (as_refreshGen s)"
      "keeps users (Now (as_clock s))" "keeps users (NewID (as_ids s))"
      "keeps users (rr_Store (as_refreshTokens s) t)" "keeps users (dr_Upsert (as_devices s) d)"
      "keeps users (Hash (as_hasher s) p)"
begin

lemma issueSession_keeps: "keeps users (issueSession s u d)"
  unfolding issueSession_def issueTokens_def storeRefreshToken_def upsertDevice_def Let_def case_prod_beta
  by (intro keeps_intros session_keeps)

lemma issueSession_user: "issueSession s u d w = (Inr res, w') \<Longrightarrow> ar_UserID res = u"
  unfolding issueSession_def issueTokens_def by (auto simp: Let_def)

lemma wrapped_Inl: "wrapE c m w = (Inl e, w') \<Longrightarrow> \<exists>x. e = Wrapped c x"
  by (auto elim: wrapE_InlE)

lemma issueSession_error:
  "issueSession s u d w = (Inl e, w') \<Longrightarrow> \<exists>c x. e = Wrapped c x"
  unfolding issueSession_def issueTokens_def storeRefreshToken_def upsertDevice_def Let_def case_prod_beta
  by (auto elim!: bindE_InlE split: option.splits if_splits dest: wrapped_Inl)

lemma Login_done:
  assumes "Login s inp w = (Inr res, w')"
  shows "\<exists>u. (u, None) \<in> set (users w) \<and> credentials_ok (hs_Verify (as_hasher s)) (li_Email inp) (li_Password inp) u
    \<and> ar_UserID res = us_ID u \<and> users w' = users w"
proof -
  from assms obtain u w1 where get: "ur_GetByEmail (as_users s) (normalizeEmail (li_Email inp)) w = (Inr u, w1)"
    and ok: "us_Status u = UserStatusActive" "us_PasswordHash u \<noteq> ''''"
      "hs_Verify (as_hasher s) (li_Password inp) (us_PasswordHash u) = Inr True"
    and ses: "issueSession s (us_ID u) (li_Device inp) w1 = (Inr res, w')"
    unfolding Login_def by (auto simp: Let_def split: if_splits sum.splits)
  show ?thesis
    using GetByEmail_row [OF get] ok issueSession_user [OF ses] keepsD [OF GetByEmail_keeps get]
      keepsD [OF issueSession_keeps ses]
    by (auto simp: credentials_ok_def)
qed

text \<open>A refusal looks the same whether the address is unknown or the password is wrong.\<close>

lemma Login_refused:
  assumes "Login s inp w = (Inl (Sentinel ErrInvalidCredentials), w')"
  shows "users w' = users w \<and> ((\<forall>u. (u, None) \<in> set (users w) \<longrightarrow> ToLower (us_Email u) \<noteq> ToLower (normalizeEmail (li_Email inp)))
    \<or> (\<exists>u. (u, None) \<in> set (users w) \<and> ToLower (us_Email u) = ToLower (normalizeEmail (li_Email inp))
        \<and> \<not> credentials_ok (hs_Verify (as_hasher s)) (li_Email inp) (li_Password inp) u))"
proof -
  let ?e = "normalizeEmail (li_Email inp)"
  obtain g w1 where get: "ur_GetByEmail (as_users s) ?e w = (g, w1)" by fastforce
  note k = keepsD [OF GetByEmail_keeps get]
  have ne: "?e \<noteq> ''''" "li_Password inp \<noteq> ''''"
    using assms by (auto simp: Login_def Let_def auth_invalid_def split: if_splits)
  show ?thesis
  proof (cases g)
    case (Inl x)
    with assms get ne have "errors_Is x ErrUserNotFound" "w' = w1"
      by (auto simp: Login_def Let_def bindE_def attempt_def split: if_splits)
    with GetByEmail_absent [OF get [unfolded Inl]] k show ?thesis by simp
  next
    case (Inr u)
    note row = GetByEmail_row [OF get [unfolded Inr]]
    show ?thesis
    proof (cases "credentials_ok (hs_Verify (as_hasher s)) (li_Email inp) (li_Password inp) u")
      case True
      with assms get ne Inr have ses: "issueSession s (us_ID u) (li_Device inp) w1 = (Inl (Sentinel ErrInvalidCredentials), w')"
        by (simp add: Login_def Let_def bindE_def attempt_def credentials_ok_def)
      from issueSession_error [OF ses] show ?thesis by simp
    next
      case False
      have "w' = w1"
        using assms get ne Inr False row
        by (auto simp: Login_def Let_def bindE_def attempt_def credentials_ok_def split: if_splits sum.splits)
      with False row k show ?thesis by auto
    qed
  qed
qed

lemma SignUp_done:
  assumes "SignUp s inp w = (Inr res, w')"
  shows "\<exists>u hw. users w' = users w @ [(u, None)] \<and> us_ID u = ar_UserID res
    \<and> us_Email u = normalizeEmail (su_Email inp) \<and> us_Email u \<noteq> '''' \<and> us_Status u = UserStatusActive
    \<and> us_Role u = RoleUser \<and> 8 \<le> length (su_Password inp)
    \<and> (\<exists>w1. Hash (as_hasher s) (su_Password inp) w1 = (Inr (us_PasswordHash u), hw))
    \<and> (\<forall>(v, d) \<in> set (users w). ToLower (us_Email v) \<noteq> ToLower (us_Email u))"
proof -
  let ?e = "normalizeEmail (su_Email inp)"
  from assms obtain hash w1 now w2 uid w3 w4 where ne: "?e \<noteq> ''''" "8 \<le> length (su_Password inp)"
    and hash: "Hash (as_hasher s) (su_Password inp) w = (Inr hash, w1)"
    and clk: "Now (as_clock s) w1 = (now, w2)" and gen: "NewID (as_ids s) w2 = (uid, w3)"
    and cr: "ur_Create (as_users s) \<lparr>us_ID = uid, us_Email = ?e, us_PasswordHash = hash,
        us_DisplayName = TrimSpace (su_DisplayName inp), us_Handle = '''', us_Status = UserStatusActive,
        us_Role = RoleUser, us_CreatedAt = now, us_UpdatedAt = now\<rparr> w3 = (Inr (), w4)"
    and ses: "issueSession s uid (su_Device inp) w4 = (Inr res, w')"
    unfolding SignUp_def by (auto simp: Let_def split: if_splits sum.splits)
  note keep = keepsD [OF session_keeps(7) hash] keepsD [OF session_keeps(3) clk]
    keepsD [OF session_keeps(4) gen] keepsD [OF issueSession_keeps ses]
  show ?thesis
    using Create_done [OF cr] keep issueSession_user [OF ses] ne hash by auto
qed

end

end
