(* ===== verification/Auth_Postgres.thy ===== *)
theory Auth_Postgres
  imports Auth_Service
begin

text \<open>
  \<^verbatim>\<open>backend/internal/auth/postgres/repo.go\<close> over the tables \<^verbatim>\<open>users\<close>, \<^verbatim>\<open>user_auth_identities\<close>,
  \<^verbatim>\<open>user_devices\<close> and \<^verbatim>\<open>refresh_tokens\<close> of \<^verbatim>\<open>0001_init.up.sql\<close>, with their constraints. The
  server's \<^verbatim>\<open>gen_random_uuid()\<close> is the parameter \<open>uuid\<close> applied to a counter. \<^verbatim>\<open>CITEXT\<close> compares
  without case.
\<close>

record auth_tables =
  at_users :: "(User \<times> time option) list" \<comment> \<open>with \<^verbatim>\<open>deleted_at\<close>\<close>
  user_auth_identities :: "Identity list"
  user_devices :: "Device list"
  tb_refresh_tokens :: "RefreshToken list"
  at_uuids :: nat

definition insert_user :: "User \<Rightarrow> auth_tables \<Rightarrow> (err + unit) \<times> auth_tables" where
  "insert_user u tb =
     (if us_Status u \<notin> {UserStatusActive, UserStatusSuspended, UserStatusDeleted}
      then (Inl (Foreign CheckViolation), tb)
      else if \<exists>(v, _) \<in> set (at_users tb). us_ID v = us_ID u \<or> ToLower (us_Email v) = ToLower (us_Email u)
      then (Inl (Foreign UniqueViolation), tb)
      else (Inr (), tb\<lparr>at_users := at_users tb @ [(u\<lparr>us_Handle := ''''\<rparr>, None)]\<rparr>))"

definition pg_user_Create :: "User \<Rightarrow> (auth_tables pg, unit) io" where
  "pg_user_Create u =
     bindE (attempt (pg_run (\<lambda>_. insert_user u))) (\<lambda>r. case r of
       Inl e \<Rightarrow> if isUniqueViolation e then throw (Sentinel ErrEmailTaken) else throw e
     | Inr _ \<Rightarrow> ret ())"

definition select_user :: "(User \<Rightarrow> bool) \<Rightarrow> (auth_tables pg, User) io" where
  "select_user P =
     bindE (pg_run (\<lambda>_ tb. (Inr (List.find (\<lambda>(u, deleted). P u \<and> deleted = None) (at_users tb)), tb))) (\<lambda>r.
     case r of None \<Rightarrow> throw (Sentinel ErrUserNotFound) | Some (u, _) \<Rightarrow> ret u)"

definition pg_user_GetByEmail :: "string \<Rightarrow> (auth_tables pg, User) io" where
  "pg_user_GetByEmail email = select_user (\<lambda>u. ToLower (us_Email u) = ToLower email)"

definition pg_user_GetByID :: "string \<Rightarrow> (auth_tables pg, User) io" where
  "pg_user_GetByID i = select_user (\<lambda>u. us_ID u = i)"

definition user_exists :: "auth_tables \<Rightarrow> string \<Rightarrow> bool" where
  "user_exists tb i \<longleftrightarrow> i \<in> (\<lambda>(u, _). us_ID u) ` set (at_users tb)"

definition pg_GetUserIDByProvider :: "string \<Rightarrow> string \<Rightarrow> (auth_tables pg, string) io" where
  "pg_GetUserIDByProvider provider subject =
     bindE (pg_run (\<lambda>_ tb. (Inr (List.find (\<lambda>x. id_Provider x = provider \<and> id_ProviderUserID x = subject)
                                   (user_auth_identities tb)), tb))) (\<lambda>r.
     case r of None \<Rightarrow> throw (Sentinel ErrIdentityNotLinked) | Some x \<Rightarrow> ret (id_UserID x))"

definition insert_identity :: "Identity \<Rightarrow> auth_tables \<Rightarrow> (err + unit) \<times> auth_tables" where
  "insert_identity x tb =
     (if id_Provider x \<notin> {''google'', ''apple'', ''facebook'', ''password''}
      then (Inl (Foreign CheckViolation), tb)
      else if \<exists>y \<in> set (user_auth_identities tb). id_ID y = id_ID x
              \<or> id_Provider y = id_Provider x \<and> id_ProviderUserID y = id_ProviderUserID x
      then (Inl (Foreign UniqueViolation), tb)
      else if \<not> user_exists tb (id_UserID x) then (Inl (Foreign ForeignKeyViolation), tb)
      else (Inr (), tb\<lparr>user_auth_identities := user_auth_identities tb @ [x]\<rparr>))"

definition pg_Link :: "Identity \<Rightarrow> (auth_tables pg, unit) io" where
  "pg_Link x = pg_run (\<lambda>_. insert_identity x)"

definition upsert_device :: "(nat \<Rightarrow> string) \<Rightarrow> Device \<Rightarrow> auth_tables \<Rightarrow> (err + string) \<times> auth_tables" where
  "upsert_device uuid d tb =
     (if dv_Platform d \<notin> {''ios'', ''android'', ''web'', ''desktop''}
      then (Inl (Foreign CheckViolation), tb)
      else case List.find (\<lambda>x. dv_UserID x = dv_UserID d \<and> dv_Platform x = dv_Platform d) (user_devices tb) of
             Some old \<Rightarrow>
               (Inr (dv_ID old),
                tb\<lparr>user_devices := map (\<lambda>x. if x = old then d\<lparr>dv_ID := dv_ID old\<rparr> else x) (user_devices tb),
                   at_uuids := at_uuids tb + 1\<rparr>)
           | None \<Rightarrow>
               if \<not> user_exists tb (dv_UserID d)
               then (Inl (Foreign ForeignKeyViolation), tb\<lparr>at_uuids := at_uuids tb + 1\<rparr>)
               else (Inr (uuid (at_uuids tb)),
                     tb\<lparr>user_devices := user_devices tb @ [d\<lparr>dv_ID := uuid (at_uuids tb)\<rparr>],
                        at_uuids := at_uuids tb + 1\<rparr>))"

definition pg_device_Upsert :: "(nat \<Rightarrow> string) \<Rightarrow> Device \<Rightarrow> (auth_tables pg, string) io" where
  "pg_device_Upsert uuid d = pg_run (\<lambda>_. upsert_device uuid d)"

definition insert_token :: "RefreshToken \<Rightarrow> auth_tables \<Rightarrow> (err + unit) \<times> auth_tables" where
  "insert_token r tb =
     (if rt_ID r \<in> rt_ID ` set (tb_refresh_tokens tb) \<or> rt_TokenHash r \<in> rt_TokenHash ` set (tb_refresh_tokens tb)
      then (Inl (Foreign UniqueViolation), tb)
      else if \<not> user_exists tb (rt_UserID r)
              \<or> rt_DeviceID r \<noteq> '''' \<and> rt_DeviceID r \<notin> dv_ID ` set (user_devices tb)
      then (Inl (Foreign ForeignKeyViolation), tb)
      else (Inr (), tb\<lparr>tb_refresh_tokens := tb_refresh_tokens tb
              @ [r\<lparr>rt_RevokedAt := None, rt_ReplacedBy := ''''\<rparr>]\<rparr>))"

definition pg_token_Store :: "RefreshToken \<Rightarrow> (auth_tables pg, unit) io" where
  "pg_token_Store r = pg_run (\<lambda>_. insert_token r)"

definition pg_token_GetByHash :: "string \<Rightarrow> (auth_tables pg, RefreshToken) io" where
  "pg_token_GetByHash h =
     bindE (pg_run (\<lambda>_ tb. (Inr (List.find (\<lambda>r. rt_TokenHash r = h) (tb_refresh_tokens tb)), tb))) (\<lambda>r.
     case r of None \<Rightarrow> throw (Sentinel ErrInvalidRefreshToken) | Some x \<Rightarrow> ret x)"

definition pg_token_Revoke :: "string \<Rightarrow> time \<Rightarrow> (auth_tables pg, unit) io" where
  "pg_token_Revoke i t =
     pg_run (\<lambda>_ tb. (Inr (), tb\<lparr>tb_refresh_tokens := map (revoke_token i t) (tb_refresh_tokens tb)\<rparr>))"

text \<open>\<^verbatim>\<open>replaced_by\<close> references \<^verbatim>\<open>refresh_tokens\<close>.\<close>

definition link_token :: "string \<Rightarrow> string \<Rightarrow> time \<Rightarrow> auth_tables \<Rightarrow> (err + unit) \<times> auth_tables" where
  "link_token old new t tb =
     (if old \<in> rt_ID ` set (tb_refresh_tokens tb) \<and> new \<notin> rt_ID ` set (tb_refresh_tokens tb)
      then (Inl (Foreign ForeignKeyViolation), tb)
      else (Inr (), tb\<lparr>tb_refresh_tokens := map (replace_token old new t) (tb_refresh_tokens tb)\<rparr>))"

definition pg_token_MarkReplaced :: "string \<Rightarrow> string \<Rightarrow> time \<Rightarrow> (auth_tables pg, unit) io" where
  "pg_token_MarkReplaced old new t = pg_run (\<lambda>_. link_token old new t)"

definition pg_token_RevokeAllForUser :: "string \<Rightarrow> time \<Rightarrow> (auth_tables pg, unit) io" where
  "pg_token_RevokeAllForUser u t =
     pg_run (\<lambda>_ tb. (Inr (), tb\<lparr>tb_refresh_tokens := map (revoke_user u t) (tb_refresh_tokens tb)\<rparr>))"

definition pg_users :: "auth_tables pg UserRepository" where
  "pg_users = \<lparr>ur_Create = pg_user_Create, ur_GetByEmail = pg_user_GetByEmail, ur_GetByID = pg_user_GetByID\<rparr>"

definition pg_identities :: "auth_tables pg IdentityRepository" where
  "pg_identities = \<lparr>ir_GetUserIDByProvider = pg_GetUserIDByProvider, ir_Link = pg_Link\<rparr>"

definition pg_devices :: "(nat \<Rightarrow> string) \<Rightarrow> auth_tables pg DeviceRepository" where
  "pg_devices uuid = \<lparr>dr_Upsert = pg_device_Upsert uuid\<rparr>"

definition pg_tokens :: "auth_tables pg RefreshTokenRepository" where
  "pg_tokens = \<lparr>rr_Store = pg_token_Store, rr_GetByHash = pg_token_GetByHash, rr_Revoke = pg_token_Revoke,
     rr_MarkReplaced = pg_token_MarkReplaced, rr_RevokeAllForUser = pg_token_RevokeAllForUser\<rparr>"

section \<open>The tables keep the contract of the token store\<close>

lemma insert_token_stores:
  "insert_token r tb = (Inr (), tb') \<Longrightarrow> rt_RevokedAt r = None \<Longrightarrow> rt_ReplacedBy r = '''' \<Longrightarrow>
   tb_refresh_tokens tb' = tb_refresh_tokens tb @ [r]
   \<and> rt_ID r \<notin> rt_ID ` set (tb_refresh_tokens tb) \<and> rt_TokenHash r \<notin> rt_TokenHash ` set (tb_refresh_tokens tb)"
  by (auto simp: insert_token_def split: if_splits)

lemma link_token_links:
  "link_token i j t tb = (Inr (), tb') \<Longrightarrow>
   tb_refresh_tokens tb' = map (replace_token i j t) (tb_refresh_tokens tb)"
  by (auto simp: link_token_def split: if_splits)

lemma pg_answer:
  "pg_run stmt p = (Inr x, p') \<Longrightarrow> \<exists>t. stmt t (pg_tables p) = (Inr x, pg_tables p')"
  by (metis pg_run_InrE)

interpretation pg_token_store: refresh_tokens pg_tokens "\<lambda>p. tb_refresh_tokens (pg_tables p)"
proof
  fix h
  show "keeps (\<lambda>p. tb_refresh_tokens (pg_tables p)) (rr_GetByHash pg_tokens h)"
    unfolding pg_tokens_def pg_token_GetByHash_def
    by (simp, intro keeps_intros keeps_pg_read) simp
next
  fix h w r w'
  assume "rr_GetByHash pg_tokens h w = (Inr r, w')"
  then show "r \<in> set (tb_refresh_tokens (pg_tables w)) \<and> rt_TokenHash r = h"
    by (auto simp: pg_tokens_def pg_token_GetByHash_def find_Some_iff dest!: pg_answer split: option.splits)
next
  fix h w e w'
  assume "rr_GetByHash pg_tokens h w = (Inl e, w')" and "errors_Is e ErrInvalidRefreshToken"
  then show "h \<notin> rt_TokenHash ` set (tb_refresh_tokens (pg_tables w))"
    by (auto simp: pg_tokens_def pg_token_GetByHash_def find_None_iff
        elim!: bindE_InlE pg_run_InlE dest!: pg_answer split: option.splits)
next
  fix r w w'
  assume "rr_Store pg_tokens r w = (Inr (), w')" and "rt_RevokedAt r = None" "rt_ReplacedBy r = ''''"
  then show "tb_refresh_tokens (pg_tables w') = tb_refresh_tokens (pg_tables w) @ [r]
      \<and> rt_ID r \<notin> rt_ID ` set (tb_refresh_tokens (pg_tables w))
      \<and> rt_TokenHash r \<notin> rt_TokenHash ` set (tb_refresh_tokens (pg_tables w))"
    by (simp add: pg_tokens_def pg_token_Store_def) (metis pg_answer insert_token_stores)
next
  fix i t w w'
  assume "rr_Revoke pg_tokens i t w = (Inr (), w')"
  then show "tb_refresh_tokens (pg_tables w') = map (revoke_token i t) (tb_refresh_tokens (pg_tables w))"
    by (auto simp: pg_tokens_def pg_token_Revoke_def dest!: pg_answer sym [where t = "pg_tables w'"])
next
  fix i j t w w'
  assume "rr_MarkReplaced pg_tokens i j t w = (Inr (), w')"
  then show "tb_refresh_tokens (pg_tables w') = map (replace_token i j t) (tb_refresh_tokens (pg_tables w))"
    by (simp add: pg_tokens_def pg_token_MarkReplaced_def) (metis pg_answer link_token_links)
next
  fix u t w w'
  assume "rr_RevokeAllForUser pg_tokens u t w = (Inr (), w')"
  then show "tb_refresh_tokens (pg_tables w') = map (revoke_user u t) (tb_refresh_tokens (pg_tables w))"
    by (auto simp: pg_tokens_def pg_token_RevokeAllForUser_def dest!: pg_answer sym [where t = "pg_tables w'"])
qed

section \<open>The user directory\<close>

lemma find_member: "List.find P xs = Some x \<Longrightarrow> x \<in> set xs \<and> P x"
  by (auto simp: find_Some_iff)

lemma select_user_row:
  assumes "select_user P p = (Inr u, p')"
  shows "(u, None) \<in> set (at_users (pg_tables p)) \<and> P u"
  using assms by (auto simp: select_user_def dest!: pg_answer find_member split: option.splits)

lemma select_user_absent:
  assumes "select_user P p = (Inl x, p')" and "errors_Is x ErrUserNotFound"
  shows "\<forall>u. (u, None) \<in> set (at_users (pg_tables p)) \<longrightarrow> \<not> P u"
  using assms unfolding select_user_def
  by (auto elim!: bindE_InlE pg_run_InlE dest!: pg_answer split: option.splits simp: find_None_iff)

lemma select_user_keeps: "keeps (\<lambda>p. at_users (pg_tables p)) (select_user P)"
  unfolding select_user_def by (intro keeps_intros keeps_pg_read) simp

lemma insert_user_done:
  assumes "insert_user u tb = (Inr (), tb')" and "us_Handle u = ''''"
  shows "at_users tb' = at_users tb @ [(u, None)]
    \<and> (\<forall>(v, d) \<in> set (at_users tb). ToLower (us_Email v) \<noteq> ToLower (us_Email u))"
proof -
  have "u\<lparr>us_Handle := ''''\<rparr> = u" using assms(2) by (cases u) simp
  with assms(1) show ?thesis by (fastforce simp: insert_user_def split: if_splits)
qed

interpretation pg_directory: user_directory pg_users "\<lambda>p. at_users (pg_tables p)"
proof
  fix u w w'
  assume "ur_Create pg_users u w = (Inr (), w')" and "us_Handle u = ''''"
  then show "at_users (pg_tables w') = at_users (pg_tables w) @ [(u, None)]
      \<and> (\<forall>(v, d) \<in> set (at_users (pg_tables w)). ToLower (us_Email v) \<noteq> ToLower (us_Email u))"
    by (auto simp: pg_users_def pg_user_Create_def dest!: pg_answer insert_user_done split: sum.splits if_splits)
qed (auto simp: pg_users_def pg_user_GetByEmail_def pg_user_GetByID_def select_user_keeps
    dest: select_user_row select_user_absent)

end
