(* ===== verification/Token.thy ===== *)
theory Token
  imports Platform
begin

text \<open>
  \<^verbatim>\<open>backend/internal/auth/token/jwt.go\<close>: issuing and checking access tokens. The JWT library and
  Ed25519 are not part of the repository: encoding a set of claims under the private key and parsing
  a token under the public one are the parameters \<open>jwt_encode\<close> and \<open>jwt_parse\<close>, and the locale
  \<open>jwt_library\<close> states what the code relies on. Time stamps in a token are whole seconds.
\<close>

record claims =
  cl_Subject :: string
  cl_Issuer :: string
  cl_IssuedAt :: time
  cl_NotBefore :: time
  cl_ExpiresAt :: time

datatype parse_failure = Token_expired | Token_bad

record jwt =
  jwt_encode :: "claims \<Rightarrow> err + string"
  jwt_parse :: "string \<Rightarrow> string \<Rightarrow> time \<Rightarrow> parse_failure + claims" \<comment> \<open>token, issuer, now\<close>

text \<open>\<^verbatim>\<open>jwt.NewNumericDate\<close> truncates to the second.\<close>

definition NumericDate :: "time \<Rightarrow> time" where
  "NumericDate t = t div Second * Second"

record 'w TokenSigner =
  ts_jwt :: jwt
  ts_issuer :: string
  ts_ttl :: duration
  ts_clock :: "'w Clock"

definition Signer_Sign :: "'w TokenSigner \<Rightarrow> string \<Rightarrow> ('w, string \<times> time) io" where
  "Signer_Sign s userID =
     bindE (call (Now (ts_clock s))) (\<lambda>now.
     let expiresAt = now + ts_ttl s;
         c = \<lparr>cl_Subject = userID, cl_Issuer = ts_issuer s, cl_IssuedAt = NumericDate now,
              cl_NotBefore = NumericDate now, cl_ExpiresAt = NumericDate expiresAt\<rparr>
     in case jwt_encode (ts_jwt s) c of
          Inl e \<Rightarrow> throw (Wrapped ''token: sign'' e)
        | Inr signed \<Rightarrow> ret (signed, expiresAt))"

text \<open>The library reads the clock while it parses.\<close>

definition Authenticate :: "'w TokenSigner \<Rightarrow> string \<Rightarrow> ('w, string) io" where
  "Authenticate s tokenStr =
     bindE (call (Now (ts_clock s))) (\<lambda>now.
     case jwt_parse (ts_jwt s) tokenStr (ts_issuer s) now of
       Inl Token_expired \<Rightarrow> throw (Sentinel ErrExpiredToken)
     | Inl Token_bad \<Rightarrow> throw (Detailed (Sentinel ErrInvalidToken) ''parse'')
     | Inr c \<Rightarrow> if cl_Subject c = '''' then throw (Sentinel ErrInvalidToken)
                else ret (cl_Subject c))"

definition Signer_Verify :: "'w TokenSigner \<Rightarrow> string \<Rightarrow> ('w, string) io" where
  "Signer_Verify s tokenStr = Authenticate s tokenStr"

text \<open>
  The library: a token it accepts encodes its claims, was made for the issuer and is inside its
  times; one it encoded is accepted exactly then, and is expired from its expiry on.
\<close>

locale jwt_library =
  fixes j :: jwt
  assumes parse_sound: "jwt_parse j t iss now = Inr c \<Longrightarrow>
      jwt_encode j c = Inr t \<and> cl_Issuer c = iss \<and> cl_NotBefore c \<le> now \<and> now < cl_ExpiresAt c"
    and parse_complete: "jwt_encode j c = Inr t \<Longrightarrow> cl_NotBefore c \<le> now \<Longrightarrow> now < cl_ExpiresAt c
      \<Longrightarrow> jwt_parse j t (cl_Issuer c) now = Inr c"
    and parse_expired: "jwt_encode j c = Inr t \<Longrightarrow> cl_NotBefore c \<le> now \<Longrightarrow> cl_ExpiresAt c \<le> now
      \<Longrightarrow> jwt_parse j t (cl_Issuer c) now = Inl Token_expired"
begin

lemma Authenticate_issued:
  assumes "ts_jwt s = j" and "Signer_Sign s u w = (Inr (t, ex), w1)" and "u \<noteq> ''''"
    and "Now (ts_clock s) w2 = (now, w3)" and "ex - ts_ttl s \<le> now"
  shows "Authenticate s t w2 =
    ((if now < NumericDate ex then Inr u else Inl (Sentinel ErrExpiredToken)), w3)"
proof -
  from assms(2) obtain issued where enc: "jwt_encode j \<lparr>cl_Subject = u, cl_Issuer = ts_issuer s,
      cl_IssuedAt = NumericDate issued, cl_NotBefore = NumericDate issued,
      cl_ExpiresAt = NumericDate ex\<rparr> = Inr t" and ex: "ex = issued + ts_ttl s"
    unfolding Signer_Sign_def by (auto simp: Let_def assms(1) split: sum.splits)
  have "NumericDate issued \<le> issued" by (simp add: NumericDate_def Second_def)
  then have "NumericDate issued \<le> now" using assms(5) ex by simp
  with parse_complete [OF enc] parse_expired [OF enc] show ?thesis
    using assms(1,3,4) by (simp add: Authenticate_def call_def bindE_def)
qed

lemma Authenticate_sound:
  assumes "ts_jwt s = j" and "Authenticate s t w = (Inr u, w')"
  shows "\<exists>c now. Now (ts_clock s) w = (now, w') \<and> jwt_encode j c = Inr t \<and> cl_Subject c = u \<and> u \<noteq> ''''
     \<and> cl_Issuer c = ts_issuer s \<and> cl_NotBefore c \<le> now \<and> now < cl_ExpiresAt c"
  using assms parse_sound unfolding Authenticate_def
  by (auto split: sum.splits parse_failure.splits if_splits) blast

end

text \<open>
  A concrete library: a token is the number of its claims in a list. It shows that the laws can be
  met, and the examples run on it.
\<close>

fun claims_index :: "claims list \<Rightarrow> nat \<Rightarrow> claims \<Rightarrow> nat option" where
  "claims_index [] i c = None"
| "claims_index (d # ds) i c = (if d = c then Some i else claims_index ds (Suc i) c)"

fun claims_at :: "claims list \<Rightarrow> nat \<Rightarrow> string \<Rightarrow> claims option" where
  "claims_at [] i t = None"
| "claims_at (d # ds) i t = (if t = Itoa (int i) then Some d else claims_at ds (Suc i) t)"

definition table_jwt :: "claims list \<Rightarrow> jwt" where
  "table_jwt cs = \<lparr>
     jwt_encode = (\<lambda>c. case claims_index (remdups cs) 0 c of
        None \<Rightarrow> Inl (Foreign ''key'') | Some i \<Rightarrow> Inr (Itoa (int i))),
     jwt_parse = (\<lambda>t iss now. case claims_at (remdups cs) 0 t of
        None \<Rightarrow> Inl Token_bad
      | Some c \<Rightarrow> if cl_Issuer c \<noteq> iss \<or> \<not> cl_NotBefore c \<le> now then Inl Token_bad
                  else if \<not> now < cl_ExpiresAt c then Inl Token_expired else Inr c)\<rparr>"

lemma claims_index_at:
  "claims_index ds i c = Some k \<Longrightarrow> i \<le> k \<and> claims_at ds i (Itoa (int k)) = Some c"
  by (induction ds i c rule: claims_index.induct) (auto simp: Itoa_inj split: if_splits dest: Suc_leD)

lemma claims_at_member: "claims_at ds i t = Some c \<Longrightarrow> c \<in> set ds"
  by (induction ds i t rule: claims_at.induct) (auto split: if_splits)

lemma claims_at_index:
  "distinct ds \<Longrightarrow> claims_at ds i t = Some c \<Longrightarrow> \<exists>k. claims_index ds i c = Some k \<and> t = Itoa (int k)"
  by (induction ds i t rule: claims_at.induct) (auto split: if_splits dest: claims_at_member)

interpretation table_library: jwt_library "table_jwt cs"
proof
  fix t iss now c
  assume "jwt_parse (table_jwt cs) t iss now = Inr c"
  then show "jwt_encode (table_jwt cs) c = Inr t \<and> cl_Issuer c = iss \<and> cl_NotBefore c \<le> now \<and> now < cl_ExpiresAt c"
    using claims_at_index [of "remdups cs" 0 t c]
    by (auto simp: table_jwt_def split: option.splits if_splits)
next
  fix c t now
  assume "jwt_encode (table_jwt cs) c = Inr t" and "cl_NotBefore c \<le> now" and "now < cl_ExpiresAt c"
  then show "jwt_parse (table_jwt cs) t (cl_Issuer c) now = Inr c"
    using claims_index_at [of "remdups cs" 0 c] by (auto simp: table_jwt_def split: option.splits)
next
  fix c t now
  assume "jwt_encode (table_jwt cs) c = Inr t" and "cl_NotBefore c \<le> now" and "cl_ExpiresAt c \<le> now"
  then show "jwt_parse (table_jwt cs) t (cl_Issuer c) now = Inl Token_expired"
    using claims_index_at [of "remdups cs" 0 c] by (auto simp: table_jwt_def split: option.splits)
qed

section \<open>What an access token is good for\<close>

text \<open>
  A token that was issued for a user authenticates that user, at any
  instant from its issue to the whole second before its expiry, and from then on the answer is that
  it has expired.
\<close>

lemma access_token_lifetime:
  assumes "jwt_library (ts_jwt s)" and "Signer_Sign s u w = (Inr (t, ex), w1)" and "u \<noteq> ''''"
    and "Now (ts_clock s) w2 = (now, w3)" and "ex - ts_ttl s \<le> now"
  shows "fst (Authenticate s t w2) =
    (if now < NumericDate ex then Inr u else Inl (Sentinel ErrExpiredToken))"
  using jwt_library.Authenticate_issued [OF assms(1) refl assms(2-5)] by simp

definition sample_signer :: "Frozen TokenSigner" where
  "sample_signer = \<lparr>ts_jwt = table_jwt [\<lparr>cl_Subject = ''u'', cl_Issuer = ''smusic'', cl_IssuedAt = 0,
     cl_NotBefore = 0, cl_ExpiresAt = 15 * Minute\<rparr>], ts_issuer = ''smusic'', ts_ttl = 15 * Minute,
     ts_clock = Frozen_clock\<rparr>"

lemma access_token_lifetime_witness:
  "fst (Authenticate sample_signer (Itoa 0) \<lparr>fr_t = 14 * Minute\<rparr>) = Inr ''u''
   \<and> fst (Authenticate sample_signer (Itoa 0) \<lparr>fr_t = 15 * Minute\<rparr>) = Inl (Sentinel ErrExpiredToken)"
proof -
  have sign: "Signer_Sign sample_signer ''u'' \<lparr>fr_t = 0\<rparr> = (Inr (Itoa 0, 15 * Minute), \<lparr>fr_t = 0\<rparr>)"
    by (simp add: Signer_Sign_def sample_signer_def Frozen_clock_def call_def bindE_def Let_def
        NumericDate_def duration_defs table_jwt_def)
  have lib: "jwt_library (ts_jwt sample_signer)"
    using table_library.jwt_library_axioms by (simp add: sample_signer_def)
  note life = access_token_lifetime [OF lib sign, of "\<lparr>fr_t = T\<rparr>" T "\<lparr>fr_t = T\<rparr>" for T]
  show ?thesis
    using life [of "14 * Minute"] life [of "15 * Minute"]
    by (simp add: sample_signer_def Frozen_clock_def NumericDate_def duration_defs)
qed

end
