(* ===== verification/World.thy ===== *)
theory World
  imports Settings_Service Nearby_Service Presence_Postgres Geo_Index Auth_Postgres Token
begin

text \<open>
  The wiring of the two processes: \<^verbatim>\<open>cmd/server/main.go\<close> (auth and the settings of presence) and
  \<^verbatim>\<open>cmd/presence-server/main.go\<close> (the query engine), on the state they share. What is not in the
  repository is in the record \<open>externals\<close>. The interpretations show that the wired parts meet the
  contracts the services are written against.
\<close>

section \<open>The state and what is outside\<close>

record ('r, 'i, 'x) world =
  w_presence :: "presence_tables pg"
  w_auth :: "auth_tables pg"
  w_mfa :: "mfa_tables pg"
  w_redis :: 'r
  w_clock :: wallclock
  w_ids :: 'i
  w_rand :: 'x

text \<open>
  The Redis client, \<^verbatim>\<open>uuid.NewV7\<close>, \<^verbatim>\<open>crypto/rand\<close> (as eight-byte words and as encoded tokens), the
  OTP, password and JWT libraries, SHA-256 and PostgreSQL's \<^verbatim>\<open>gen_random_uuid()\<close>.
\<close>

record ('r, 'i, 'x) externals =
  ex_redis :: "'r redis_client"
  ex_uuid :: "'i Generator"
  ex_random :: "('x, 64 word) io"
  ex_token :: "('x, string) io"
  ex_otp :: "'x otp_library"
  ex_hasher :: "'x Hasher"
  ex_jwt :: jwt
  ex_sha256 :: "string \<Rightarrow> string"
  ex_pg_uuid :: "nat \<Rightarrow> string"

record deployment =
  dp_JWTIssuer :: string
  dp_AccessTokenTTL :: duration
  dp_RefreshTokenTTL :: duration

definition on_presence :: "(presence_tables pg \<Rightarrow> 'a \<times> presence_tables pg) \<Rightarrow> ('r, 'i, 'x) world \<Rightarrow> 'a \<times> ('r, 'i, 'x) world" where
  "on_presence = zoom w_presence (\<lambda>p w. w\<lparr>w_presence := p\<rparr>)"

definition on_auth :: "(auth_tables pg \<Rightarrow> 'a \<times> auth_tables pg) \<Rightarrow> ('r, 'i, 'x) world \<Rightarrow> 'a \<times> ('r, 'i, 'x) world" where
  "on_auth = zoom w_auth (\<lambda>p w. w\<lparr>w_auth := p\<rparr>)"

definition on_mfa :: "(mfa_tables pg \<Rightarrow> 'a \<times> mfa_tables pg) \<Rightarrow> ('r, 'i, 'x) world \<Rightarrow> 'a \<times> ('r, 'i, 'x) world" where
  "on_mfa = zoom w_mfa (\<lambda>p w. w\<lparr>w_mfa := p\<rparr>)"

definition on_redis :: "('r \<Rightarrow> 'a \<times> 'r) \<Rightarrow> ('r, 'i, 'x) world \<Rightarrow> 'a \<times> ('r, 'i, 'x) world" where
  "on_redis = zoom w_redis (\<lambda>p w. w\<lparr>w_redis := p\<rparr>)"

definition on_clock :: "(wallclock \<Rightarrow> 'a \<times> wallclock) \<Rightarrow> ('r, 'i, 'x) world \<Rightarrow> 'a \<times> ('r, 'i, 'x) world" where
  "on_clock = zoom w_clock (\<lambda>p w. w\<lparr>w_clock := p\<rparr>)"

definition on_ids :: "('i \<Rightarrow> 'a \<times> 'i) \<Rightarrow> ('r, 'i, 'x) world \<Rightarrow> 'a \<times> ('r, 'i, 'x) world" where
  "on_ids = zoom w_ids (\<lambda>p w. w\<lparr>w_ids := p\<rparr>)"

definition on_rand :: "('x \<Rightarrow> 'a \<times> 'x) \<Rightarrow> ('r, 'i, 'x) world \<Rightarrow> 'a \<times> ('r, 'i, 'x) world" where
  "on_rand = zoom w_rand (\<lambda>p w. w\<lparr>w_rand := p\<rparr>)"

lemmas on_defs = on_presence_def on_auth_def on_mfa_def on_redis_def on_clock_def on_ids_def on_rand_def

lemma on_part:
  "on_presence m w = (x, w') \<Longrightarrow> m (w_presence w) = (x, w_presence w')"
  "on_auth n w = (y, w') \<Longrightarrow> n (w_auth w) = (y, w_auth w')"
  "on_mfa k w = (z, w') \<Longrightarrow> k (w_mfa w) = (z, w_mfa w')"
  "on_redis l w = (u, w') \<Longrightarrow> l (w_redis w) = (u, w_redis w')"
  "on_clock p w = (v, w') \<Longrightarrow> p (w_clock w) = (v, w_clock w')"
  by (auto simp: on_defs zoom_def split: prod.splits)

section \<open>The process of the live feed\<close>

text \<open>\<^verbatim>\<open>profileResolver\<close>: the two columns of the users that are not deleted.\<close>

definition profile_rows :: "string list \<Rightarrow> presence_tables \<Rightarrow> string \<rightharpoonup> Profile" where
  "profile_rows ids tb = (\<lambda>u.
     if u \<in> set ids
     then (case tb_users tb u of
             Some row \<Rightarrow> if deleted_at row = None
                         then Some \<lparr>pf_DisplayName = display_name row,
                                    pf_AvatarURL = (case avatar_url row of None \<Rightarrow> '''' | Some a \<Rightarrow> a)\<rparr>
                         else None
           | None \<Rightarrow> None)
     else None)"

definition profileResolver_Resolve :: "string list \<Rightarrow> (presence_tables pg, string \<rightharpoonup> Profile) io" where
  "profileResolver_Resolve userIDs =
     (if userIDs = [] then ret Map.empty
      else wrapE ''presence-server: resolve profiles'' (pg_run (\<lambda>_ tb. (Inr (profile_rows userIDs tb), tb))))"

definition world_settings :: "('r, 'i, 'x) world PrivacySettingsRepository" where
  "world_settings = \<lparr>psr_Get = (\<lambda>u. on_presence (psr_Get pg_settings_repo u)),
     psr_Upsert = (\<lambda>s. on_presence (psr_Upsert pg_settings_repo s))\<rparr>"

definition world_blocks :: "('r, 'i, 'x) world BlockRepository" where
  "world_blocks = \<lparr>br_Block = (\<lambda>a b. on_presence (br_Block pg_block_repo a b)),
     br_Unblock = (\<lambda>a b. on_presence (br_Unblock pg_block_repo a b)),
     br_IsBlockedEitherWay = (\<lambda>a b. on_presence (br_IsBlockedEitherWay pg_block_repo a b))\<rparr>"

definition world_geo :: "'r redis_client \<Rightarrow> ('r, 'i, 'x) world GeoIndex" where
  "world_geo R = \<lparr>geo_Upsert = (\<lambda>e d. on_redis (geo_Upsert (Store R) e d)),
     geo_Touch = (\<lambda>u d. on_redis (geo_Touch (Store R) u d)),
     geo_Remove = (\<lambda>u. on_redis (geo_Remove (Store R) u)),
     geo_Search = (\<lambda>p r u. on_redis (geo_Search (Store R) p r u)),
     geo_Detail = (\<lambda>us. on_redis (geo_Detail (Store R) us))\<rparr>"

definition world_limiter :: "'r redis_client \<Rightarrow> ('r, 'i, 'x) world RateLimiter" where
  "world_limiter R = \<lparr>Allow = (\<lambda>k l d. on_redis (Allow (RedisRateLimiter R) k l d))\<rparr>"

definition world_clock :: "('r, 'i, 'x) world Clock" where
  "world_clock = \<lparr>Now = on_clock (Now Real_clock)\<rparr>"

definition world_ids :: "'i Generator \<Rightarrow> ('r, 'i, 'x) world Generator" where
  "world_ids g = \<lparr>NewID = on_ids (NewID g)\<rparr>"

definition presence_server_nearby :: "('r, 'i, 'x) externals \<Rightarrow> ('r, 'i, 'x) world NearbyService" where
  "presence_server_nearby ex = \<lparr>
     ns_settings = world_settings,
     ns_blocks = world_blocks,
     ns_follows = \<lparr>IsMutualFollow = (\<lambda>a b. on_presence (IsMutualFollow pg_follow_checker a b))\<rparr>,
     ns_geo = world_geo (ex_redis ex),
     ns_audit = \<lparr>alr_Append = (\<lambda>e. on_presence (alr_Append pg_audit_repo e))\<rparr>,
     ns_profiles = \<lparr>Resolve = (\<lambda>us. on_presence (profileResolver_Resolve us))\<rparr>,
     ns_pairLimiter = world_limiter (ex_redis ex),
     ns_dailyLimiter = world_limiter (ex_redis ex),
     ns_jitter = \<lparr>Jitter = (\<lambda>p. on_rand (RandJitterer_Jitter (ex_random ex) p))\<rparr>,
     ns_clock = world_clock,
     ns_ids = world_ids (ex_uuid ex)\<rparr>"

section \<open>The core process\<close>

definition server_challenger :: "('r, 'i, 'x) externals \<Rightarrow> ('r, 'i, 'x) world TOTPChallenger" where
  "server_challenger ex = \<lparr>
     tc_secrets = \<lparr>sr_Get = (\<lambda>u. on_mfa (sr_Get pg_secret_repo u)),
                   sr_Upsert = (\<lambda>s. on_mfa (sr_Upsert pg_secret_repo s)),
                   sr_MarkVerified = (\<lambda>u t. on_mfa (sr_MarkVerified pg_secret_repo u t))\<rparr>,
     tc_clock = world_clock,
     tc_accountName = (\<lambda>u. bindE (on_auth (ur_GetByID pg_users u)) (\<lambda>x. ret (us_Email x))),
     tc_otp = \<lparr>otp_generate = (\<lambda>n. on_rand (otp_generate (ex_otp ex) n)),
               otp_validate = otp_validate (ex_otp ex)\<rparr>\<rparr>"

definition server_signer :: "('r, 'i, 'x) externals \<Rightarrow> deployment \<Rightarrow> ('r, 'i, 'x) world TokenSigner" where
  "server_signer ex cfg = \<lparr>ts_jwt = ex_jwt ex, ts_issuer = dp_JWTIssuer cfg, ts_ttl = dp_AccessTokenTTL cfg,
     ts_clock = world_clock\<rparr>"

definition server_auth :: "('r, 'i, 'x) externals \<Rightarrow> deployment \<Rightarrow> ('r, 'i, 'x) world AuthService" where
  "server_auth ex cfg = \<lparr>
     as_users = \<lparr>ur_Create = (\<lambda>u. on_auth (ur_Create pg_users u)),
                 ur_GetByEmail = (\<lambda>e. on_auth (ur_GetByEmail pg_users e)),
                 ur_GetByID = (\<lambda>i. on_auth (ur_GetByID pg_users i))\<rparr>,
     as_identities = \<lparr>ir_GetUserIDByProvider = (\<lambda>p q. on_auth (ir_GetUserIDByProvider pg_identities p q)),
                      ir_Link = (\<lambda>x. on_auth (ir_Link pg_identities x))\<rparr>,
     as_devices = \<lparr>dr_Upsert = (\<lambda>d. on_auth (dr_Upsert (pg_devices (ex_pg_uuid ex)) d))\<rparr>,
     as_refreshTokens = \<lparr>rr_Store = (\<lambda>r. on_auth (rr_Store pg_tokens r)),
                         rr_GetByHash = (\<lambda>h. on_auth (rr_GetByHash pg_tokens h)),
                         rr_Revoke = (\<lambda>i t. on_auth (rr_Revoke pg_tokens i t)),
                         rr_MarkReplaced = (\<lambda>i j t. on_auth (rr_MarkReplaced pg_tokens i j t)),
                         rr_RevokeAllForUser = (\<lambda>u t. on_auth (rr_RevokeAllForUser pg_tokens u t))\<rparr>,
     as_hasher = \<lparr>Hash = (\<lambda>p. on_rand (Hash (ex_hasher ex) p)), hs_Verify = hs_Verify (ex_hasher ex)\<rparr>,
     as_signer = \<lparr>Sign = Signer_Sign (server_signer ex cfg)\<rparr>,
     as_refreshGen = on_rand (ex_token ex),
     as_oauthVerifier = StubVerifier_Verify,
     as_mfa = \<lparr>mp_EnrollURI = mfa_EnrollURI (server_challenger ex),
               mp_Verify = mfa_Verify (server_challenger ex),
               mp_HasVerified = mfa_HasVerified (server_challenger ex)\<rparr>,
     as_clock = world_clock,
     as_ids = world_ids (ex_uuid ex),
     as_refreshTTL = dp_RefreshTokenTTL cfg,
     as_hashRefreshToken = ex_sha256 ex\<rparr>"

definition server_settings :: "('r, 'i, 'x) externals \<Rightarrow> deployment \<Rightarrow> ('r, 'i, 'x) world SettingsService" where
  "server_settings ex cfg = \<lparr>
     ss_settings = world_settings,
     ss_blocks = world_blocks,
     ss_geo = Some (world_geo (ex_redis ex)),
     ss_mfa = \<lparr>mfa_HasVerifiedMFA = HasVerifiedMFA (server_auth ex cfg)\<rparr>,
     ss_clock = world_clock\<rparr>"

section \<open>The wired parts keep the contracts\<close>

definition durable :: "('r, 'i, 'x) world \<Rightarrow> pview" where
  "durable w = pg_view (w_presence w)"

lemma keeps_durable:
  "keeps pg_view m \<Longrightarrow> keeps durable (on_presence m)"
  "keeps durable (on_redis r)" "keeps durable (on_clock c)" "keeps durable (on_ids i)"
  "keeps durable (on_rand x)" "keeps durable (on_mfa f)" "keeps durable (on_auth a)"
  by (auto simp: on_defs durable_def [abs_def] intro: keeps_zoom_same keeps_zoom_other)

lemma RandJitterer_zoom: "keeps durable (on_rand (RandJitterer_Jitter rnd p))"
  by (rule keeps_durable)

lemma world_settings_laws: "settings_repository world_settings durable"
proof
  fix u
  show "keeps durable (psr_Get world_settings u)"
    by (simp add: world_settings_def keeps_durable pg_settings.Get_keeps)
next
  fix u w s w'
  assume "psr_Get world_settings u w = (Inr s, w')"
  then show "pv_settings (durable w) u = Some (erased s) \<and> UserID s = u"
    using pg_settings.Get_row by (auto simp: world_settings_def durable_def dest: on_part)
next
  fix u w e w'
  assume "psr_Get world_settings u w = (Inl e, w')" and "errors_Is e ErrSettingsNotFound"
  then show "pv_settings (durable w) u = None"
    using pg_settings.Get_absent by (auto simp: world_settings_def durable_def dest: on_part)
next
  fix s w w'
  assume "psr_Upsert world_settings s w = (Inr (), w')"
  then show "durable w' = (durable w)\<lparr>pv_settings := (pv_settings (durable w))(UserID s \<mapsto> erased s)\<rparr>"
    using pg_settings.Upsert_done by (auto simp: world_settings_def durable_def dest: on_part)
next
  fix s w e w'
  assume "psr_Upsert world_settings s w = (Inl e, w')"
  then show "durable w' = durable w
      \<or> durable w' = (durable w)\<lparr>pv_settings := (pv_settings (durable w))(UserID s \<mapsto> erased s)\<rparr>"
    using pg_settings.Upsert_failed by (auto simp: world_settings_def durable_def dest!: on_part)
qed

lemma world_blocks_laws: "block_repository world_blocks durable"
proof
  fix a b
  show "keeps durable (br_IsBlockedEitherWay world_blocks a b)"
    by (simp add: world_blocks_def keeps_durable pg_blocks.IsBlocked_keeps)
next
  fix a b w x w'
  assume "br_IsBlockedEitherWay world_blocks a b w = (Inr x, w')"
  then show "x \<longleftrightarrow> (a, b) \<in> pv_blocks (durable w) \<or> (b, a) \<in> pv_blocks (durable w)"
    using pg_blocks.IsBlocked_iff [of a b "w_presence w" x "w_presence w'"]
    by (auto simp: world_blocks_def durable_def dest!: on_part)
next
  fix a b w w'
  assume "br_Block world_blocks a b w = (Inr (), w')"
  then show "durable w' = (durable w)\<lparr>pv_blocks := insert (a, b) (pv_blocks (durable w))\<rparr>"
    using pg_blocks.Block_done by (auto simp: world_blocks_def durable_def dest: on_part)
next
  fix a b w w'
  assume "br_Unblock world_blocks a b w = (Inr (), w')"
  then show "durable w' = (durable w)\<lparr>pv_blocks := pv_blocks (durable w) - {(a, b)}\<rparr>"
    using pg_blocks.Unblock_done by (auto simp: world_blocks_def durable_def dest: on_part)
qed

lemma HasVerifiedMFA_keeps: "keeps durable (HasVerifiedMFA (server_auth ex cfg) u)"
  unfolding HasVerifiedMFA_def
  by (rule keeps_if, rule keeps_throw)
    (simp add: server_auth_def mfa_HasVerified_def server_challenger_def, intro keeps_intros keeps_durable)

text \<open>The last reading of the shared clock.\<close>

definition clock_reading :: "('r, 'i, 'x) world \<Rightarrow> time" where
  "clock_reading w = wall (w_clock w)"

lemma keeps_clock:
  "keeps clock_reading (on_redis r)" "keeps clock_reading (on_presence c)" "keeps clock_reading (on_ids i)"
  "keeps clock_reading (on_rand x)" "keeps clock_reading (on_mfa f)" "keeps clock_reading (on_auth a)"
  by (auto simp: on_defs clock_reading_def [abs_def] intro: keeps_zoom_other)

lemma HasVerifiedMFA_clock: "keeps clock_reading (HasVerifiedMFA (server_auth ex cfg) u)"
  unfolding HasVerifiedMFA_def
  by (rule keeps_if, rule keeps_throw)
    (simp add: server_auth_def mfa_HasVerified_def server_challenger_def, intro keeps_intros keeps_clock)

lemma world_settings_clock: "keeps clock_reading (psr_Get world_settings u)"
  by (simp add: world_settings_def keeps_clock)

lemma world_clock_laws: "monotone_clock world_clock clock_reading"
  by unfold_locales
    (auto simp: world_clock_def clock_reading_def dest!: on_part(5)
      dest: real_clock.Now_reading real_clock.Now_forward)

interpretation core_settings: settings_service "server_settings ex cfg" durable clock_reading
  by (intro settings_service.intro settings_service_axioms.intro)
    (auto simp: server_settings_def world_settings_laws world_blocks_laws HasVerifiedMFA_keeps
      world_clock_laws HasVerifiedMFA_clock world_settings_clock,
     auto simp: world_geo_def world_clock_def keeps_durable)

lemma world_follows_laws:
  "follow_checker \<lparr>IsMutualFollow = (\<lambda>a b. on_presence (IsMutualFollow pg_follow_checker a b))\<rparr> durable"
  by unfold_locales
    (simp_all add: durable_def keeps_durable(1) pg_follows.IsMutual_keeps,
     drule pg_follows.IsMutual_iff [OF on_part(1)], assumption)

lemma world_audit_laws:
  "audit_log \<lparr>alr_Append = (\<lambda>e. on_presence (alr_Append pg_audit_repo e))\<rparr> durable"
  by unfold_locales
    (simp_all add: durable_def pg_audit.Append_done [OF on_part(1)],
     drule pg_audit.Append_failed [OF on_part(1)], assumption)

lemma world_geo_laws: "geo_index (world_geo R) durable"
proof
  fix p r u w cs w' c
  assume "geo_Search (world_geo R) p r u w = (Inr cs, w')" and "c \<in> set cs"
  then show "nc_UserID c \<noteq> u"
    by (auto simp: world_geo_def Store_def dest!: on_part(4) dest: Store_Search_excludes)
qed (simp_all add: world_geo_def keeps_durable)

lemma Resolve_keeps_durable: "keeps durable (on_presence (profileResolver_Resolve us))"
proof (rule keeps_durable(1))
  show "keeps pg_view (profileResolver_Resolve us)"
    unfolding profileResolver_Resolve_def by (intro keeps_intros keeps_pg_view) simp
qed

interpretation live_feed: nearby_env "presence_server_nearby ex" durable clock_reading
  by (intro nearby_env.intro nearby_env_axioms.intro)
    (auto simp: presence_server_nearby_def world_settings_laws world_blocks_laws world_follows_laws
      world_audit_laws world_geo_laws world_clock_laws Resolve_keeps_durable,
     auto simp: world_limiter_def world_clock_def world_ids_def world_settings_clock keeps_durable)

section \<open>Tokens and factors of the wired core\<close>

definition token_rows :: "('r, 'i, 'x) world \<Rightarrow> RefreshToken list" where
  "token_rows w = tb_refresh_tokens (pg_tables (w_auth w))"

definition factor_rows :: "('r, 'i, 'x) world \<Rightarrow> factors" where
  "factor_rows w = table_factors (pg_tables (w_mfa w))"

lemma keeps_token_rows:
  "keeps (\<lambda>p. tb_refresh_tokens (pg_tables p)) m \<Longrightarrow> keeps token_rows (on_auth m)"
  "keeps token_rows (on_clock c)" "keeps token_rows (on_ids i)" "keeps token_rows (on_rand x)"
  by (auto simp: on_defs token_rows_def [abs_def] intro: keeps_zoom_same keeps_zoom_other)

lemma keeps_factor_rows:
  "keeps (\<lambda>p. table_factors (pg_tables p)) m \<Longrightarrow> keeps factor_rows (on_mfa m)"
  "keeps factor_rows (on_clock c)" "keeps factor_rows (on_auth i)" "keeps factor_rows (on_rand x)"
  by (auto simp: on_defs factor_rows_def [abs_def] intro: keeps_zoom_same keeps_zoom_other)

lemma Sign_keeps_tokens: "keeps token_rows (Signer_Sign (server_signer ex cfg) u)"
  unfolding Signer_Sign_def Let_def server_signer_def world_clock_def
  by (simp, intro keeps_intros keeps_token_rows)

lemmas token_laws =
  pg_token_store.GetByHash_row [OF on_part(2)] pg_token_store.GetByHash_absent [OF on_part(2)]
  pg_token_store.Store_done [OF on_part(2)] pg_token_store.Revoke_done [OF on_part(2)]
  pg_token_store.MarkReplaced_done [OF on_part(2)] pg_token_store.RevokeAll_done [OF on_part(2)]

lemma world_tokens_laws:
  "refresh_tokens \<lparr>rr_Store = (\<lambda>r. on_auth (rr_Store pg_tokens r)),
                   rr_GetByHash = (\<lambda>h. on_auth (rr_GetByHash pg_tokens h)),
                   rr_Revoke = (\<lambda>i t. on_auth (rr_Revoke pg_tokens i t)),
                   rr_MarkReplaced = (\<lambda>i j t. on_auth (rr_MarkReplaced pg_tokens i j t)),
                   rr_RevokeAllForUser = (\<lambda>u t. on_auth (rr_RevokeAllForUser pg_tokens u t))\<rparr> token_rows"
  by unfold_locales
    (simp_all only: token_rows_def RefreshTokenRepository.select_convs,
     rule keeps_token_rows(1), rule pg_token_store.GetByHash_keeps, (erule token_laws; assumption)+)

interpretation core_sessions: auth_sessions "server_auth ex cfg" token_rows
  by (intro auth_sessions.intro auth_sessions_axioms.intro)
    (simp_all add: server_auth_def world_tokens_laws Sign_keeps_tokens world_clock_def world_ids_def
      keeps_token_rows)

text \<open>The accounts, over the same tables.\<close>

definition user_rows :: "('r, 'i, 'x) world \<Rightarrow> (User \<times> time option) list" where
  "user_rows w = at_users (pg_tables (w_auth w))"

lemma keeps_user_rows:
  "keeps (\<lambda>p. at_users (pg_tables p)) m \<Longrightarrow> keeps user_rows (on_auth m)"
  "keeps user_rows (on_clock c)" "keeps user_rows (on_ids i)" "keeps user_rows (on_rand x)"
  by (auto simp: on_defs user_rows_def [abs_def] intro: keeps_zoom_same keeps_zoom_other)

lemma Sign_keeps_users: "keeps user_rows (Signer_Sign (server_signer ex cfg) u)"
  unfolding Signer_Sign_def Let_def server_signer_def world_clock_def
  by (simp, intro keeps_intros keeps_user_rows)

lemma session_tables_keep_users:
  "keeps (\<lambda>p. at_users (pg_tables p)) (pg_token_Store t)"
  "keeps (\<lambda>p. at_users (pg_tables p)) (pg_device_Upsert uuid d)"
  unfolding pg_token_Store_def pg_device_Upsert_def
  by (rule keeps_pg_run, simp add: insert_token_def upsert_device_def split: option.split)+

lemma world_directory_laws:
  "user_directory \<lparr>ur_Create = (\<lambda>u. on_auth (ur_Create pg_users u)),
                   ur_GetByEmail = (\<lambda>e. on_auth (ur_GetByEmail pg_users e)),
                   ur_GetByID = (\<lambda>i. on_auth (ur_GetByID pg_users i))\<rparr> user_rows"
  by unfold_locales
    (simp_all only: UserRepository.select_convs keeps_user_rows pg_directory.GetByEmail_keeps
       pg_directory.GetByID_keeps,
     auto simp: user_rows_def dest!: on_part(2) dest: pg_directory.GetByEmail_row
       pg_directory.GetByEmail_absent pg_directory.GetByID_row pg_directory.Create_done)

interpretation core_accounts: auth_accounts "server_auth ex cfg" user_rows
  by (intro auth_accounts.intro auth_accounts_axioms.intro)
    (simp_all add: server_auth_def world_directory_laws Sign_keeps_users world_clock_def world_ids_def
      keeps_user_rows pg_tokens_def pg_devices_def session_tables_keep_users)

lemmas factor_laws =
  pg_secrets.Get_row [OF on_part(3)] pg_secrets.Get_absent [OF on_part(3)]
  pg_secrets.Upsert_done [OF on_part(3)] pg_secrets.MarkVerified_done [OF on_part(3)]

lemma world_secrets_laws:
  "secret_repository \<lparr>sr_Get = (\<lambda>u. on_mfa (sr_Get pg_secret_repo u)),
                   sr_Upsert = (\<lambda>s. on_mfa (sr_Upsert pg_secret_repo s)),
                   sr_MarkVerified = (\<lambda>u t. on_mfa (sr_MarkVerified pg_secret_repo u t))\<rparr> factor_rows"
  by unfold_locales
    (simp_all only: factor_rows_def SecretRepository.select_convs,
     rule keeps_factor_rows(1), rule pg_secrets.Get_keeps, (erule factor_laws; assumption)+)

interpretation core_factors: totp_challenger "server_challenger ex" factor_rows
proof (intro totp_challenger.intro totp_challenger_axioms.intro)
  show "secret_repository (tc_secrets (server_challenger ex)) factor_rows"
    by (simp add: server_challenger_def world_secrets_laws)
qed (auto simp: server_challenger_def world_clock_def keeps_factor_rows intro!: keeps_intros)

section \<open>The budget of a pair of users\<close>

text \<open>What the limiter granted for the pair on the way from one state to another.\<close>

definition pair_spent ::
    "'r redis_client \<Rightarrow> ('r \<Rightarrow> rstate) \<Rightarrow> string \<Rightarrow> string \<Rightarrow> ('r, 'i, 'x) world \<Rightarrow> nat \<Rightarrow> ('r, 'i, 'x) world \<Rightarrow> bool"
where
  "pair_spent R view a t w g w' \<longleftrightarrow>
     (\<forall>r0 g0. limiter_run R view (pairKey a t) PairQueryLimit PairQueryWindow r0 g0 (w_redis w)
       \<longrightarrow> limiter_run R view (pairKey a t) PairQueryLimit PairQueryWindow r0 (g0 + g) (w_redis w'))"

lemma spares_pair_redis:
  assumes "moves view (passes_by (pairKey a t)) m"
  shows "spares_pair (pair_spent R view a t) (on_redis m)"
  unfolding spares_pair_def
proof (rule movesI)
  fix w x w'
  assume run: "on_redis m w = (x, w')"
  have "passes_by (pairKey a t) (view (w_redis w)) (view (w_redis w'))"
    by (rule movesD [OF assms on_part(4) [OF run]])
  then show "pair_spent R view a t w 0 w'"
    by (auto simp: pair_spent_def intro: limiter_run.elsewhere)
qed

lemma spares_pair_other:
  "spares_pair (pair_spent R view a t) (on_presence m1)" "spares_pair (pair_spent R view a t) (on_clock m2)"
  "spares_pair (pair_spent R view a t) (on_ids m3)" "spares_pair (pair_spent R view a t) (on_rand m4)"
  by (auto simp: spares_pair_def moves_def on_defs zoom_def pair_spent_def split: prod.splits)

lemma pair_spent_trans:
  "pair_spent R view a t w g w1 \<Longrightarrow> pair_spent R view a t w1 h w2 \<Longrightarrow> pair_spent R view a t w (g + h) w2"
  unfolding pair_spent_def by (metis add.assoc)

lemma pair_spent_call:
  assumes "on_redis (RedisRateLimiter_Allow R (pairKey a t) PairQueryLimit PairQueryWindow) w = (r, w')"
  shows "pair_spent R view a t w (if \<exists>x. r = Inr (True, x) then 1 else 0) w'"
proof -
  note call = on_part(4) [OF assms]
  consider (refused) x where "r = Inr (False, x)" | (granted) x where "r = Inr (True, x)" | (failed) e where "r = Inl e"
    by (metis (full_types) obj_sumE surj_pair)
  then show ?thesis
    by cases (use call in \<open>auto simp: pair_spent_def intro: limiter_run.intros\<close>)
qed

context redis_server
begin

lemma production_budget:
  assumes "ex_redis ex = R"
  shows "pair_budget (presence_server_nearby ex) (pair_spent R view a t) a t"
proof -
  note apart = key_kinds_apart [of _ a t]
  show ?thesis
    by unfold_locales
      (simp_all add: presence_server_nearby_def assms world_settings_def world_blocks_def world_geo_def
        world_limiter_def world_clock_def world_ids_def Store_def RedisRateLimiter_def
        spares_pair_other spares_pair_redis Store_passes_by Allow_passes_by apart,
       simp add: pair_spent_def, erule (1) pair_spent_trans,
       drule pair_spent_call, simp, drule pair_spent_call, simp)
qed

end

interpretation mem_budget: pair_budget "presence_server_nearby (ex\<lparr>ex_redis := mem_redis\<rparr>)"
  "pair_spent mem_redis contents a t" a t
  by (rule mem_server.production_budget) simp

end
