(* ===== verification/Samples.thy ===== *)
theory Samples
  imports World
begin

text \<open>
  A small world: two users at one place, stores that answer, and libraries given as tables. The
  claims on the wired processes are run on it.
\<close>

section \<open>A small world\<close>

text \<open>Users \<open>a\<close> and \<open>b\<close> stand at the same place; both consented and \<open>b\<close> is visible to everyone.\<close>

definition sample_row :: settings_row where
  "sample_row = \<lparr>presence_visibility = VisibilityEveryone, presence_share_track = True,
     proximity_consent_enabled = True, proximity_consent_ts = Some 0,
     proximity_consent_renew_due = Some ConsentValidityPeriod, visibility_radius_m = 1000,
     reveal_level = RevealLevelOpenDiscovery, paused_bool = False, created_at = 0, updated_at = 0\<rparr>"

definition sample_tables :: presence_tables where
  "sample_tables = \<lparr>
     tb_users = [''a'' \<mapsto> \<lparr>display_name = ''Ann'', avatar_url = None, deleted_at = None\<rparr>,
                 ''b'' \<mapsto> \<lparr>display_name = ''Bob'', avatar_url = None, deleted_at = None\<rparr>],
     user_privacy_settings = [''a'' \<mapsto> sample_row, ''b'' \<mapsto> sample_row],
     user_blocks = Map.empty, tb_follows = {}, presence_audit_log = []\<rparr>"

definition sample_place :: GeoPosition where
  "sample_place = \<lparr>Lat = 10, Lon = 20\<rparr>"

definition sample_redis :: mem where
  "sample_redis = \<lparr>contents = \<lparr>
     rs_kv = [detailKey ''b'' \<mapsto> (RJson (marshal_detail \<lparr>dt_TrackID = ''t'', dt_ShareTrack = True,
                dt_Visibility = VisibilityEveryone, dt_UpdatedAt = 0\<rparr>), Some (90 * Second))],
     rs_geo = (\<lambda>_. [])(geoKey := [(''b'', sample_place)]), rs_now = 0\<rparr>, script = []\<rparr>"

definition sample_claims :: claims where
  "sample_claims = \<lparr>cl_Subject = ''a'', cl_Issuer = ''smusic'', cl_IssuedAt = 0, cl_NotBefore = 0,
     cl_ExpiresAt = 15 * Minute\<rparr>"

definition sample_ex :: "(mem, Sequential, nat) externals" where
  "sample_ex = \<lparr>
     ex_redis = mem_redis, ex_uuid = Sequential_gen, ex_random = (\<lambda>x. (Inr 0, x)),
     ex_token = (\<lambda>x. (Inr (Itoa (int x)), Suc x)),
     ex_otp = \<lparr>otp_generate = (\<lambda>n x. (Inr (''seed'', ''uri''), x)),
               otp_validate = (\<lambda>code v now. Inr (code = ''000000''))\<rparr>,
     ex_hasher = \<lparr>Hash = (\<lambda>p x. (Inr p, x)), hs_Verify = (\<lambda>p h. Inr (p = h))\<rparr>,
     ex_jwt = table_jwt [sample_claims], ex_sha256 = (\<lambda>s. s), ex_pg_uuid = (\<lambda>n. Itoa (int n))\<rparr>"

definition sample_world :: "(mem, Sequential, nat) world" where
  "sample_world = \<lparr>
     w_presence = pg_start sample_tables,
     w_auth = pg_start \<lparr>at_users = [], user_auth_identities = [], user_devices = [],
                       tb_refresh_tokens = [], at_uuids = 0\<rparr>,
     w_mfa = pg_start \<lparr>mt_users = {''a''}, user_mfa_totp = [''a'' \<mapsto> \<lparr>totp_secret = ''seed'', totp_verified_at = Some 1\<rparr>]\<rparr>,
     w_redis = sample_redis,
     w_clock = \<lparr>wall = 10, ticks = []\<rparr>,
     w_ids = NewSequential ''id'',
     w_rand = 0\<rparr>"

lemma offset_zero [simp]: "offsetMeters p 0 0 = p"
  by (simp add: offsetMeters_def)

lemmas wiring_defs =
  presence_server_nearby_def world_settings_def world_blocks_def world_geo_def world_limiter_def
  world_clock_def world_ids_def pg_settings_repo_def pg_block_repo_def pg_follow_checker_def
  pg_audit_repo_def Store_def RedisRateLimiter_def Real_clock_def Sequential_gen_def

lemma sample_jitter: "RandJitterer_Jitter (ex_random sample_ex) p x = (Inr p, x)"
  by (simp add: RandJitterer_Jitter_def secureFloat64_def sample_ex_def io_unfold Let_def)

definition sample_cfg :: deployment where
  "sample_cfg = \<lparr>dp_JWTIssuer = ''smusic'', dp_AccessTokenTTL = 15 * Minute,
     dp_RefreshTokenTTL = 30 * 24 * Hour\<rparr>"

lemma kinds_distinct:
  "detailKey u \<noteq> dailyKey v" "dailyKey v \<noteq> detailKey u" "detailKey u \<noteq> pairKey v v'"
  "pairKey v v' \<noteq> detailKey u" "dailyKey u \<noteq> pairKey v v'" "pairKey v v' \<noteq> dailyKey u"
  "detailKey ''a'' \<noteq> detailKey ''b''" "detailKey ''b'' \<noteq> detailKey ''a''"
  by (simp_all add: detailKey_def dailyKey_def pairKey_def)

lemma sample_parts:
  "ex_redis sample_ex = mem_redis" "ex_uuid sample_ex = Sequential_gen"
  by (simp_all add: sample_ex_def)

text \<open>How the wired operations are evaluated: the wiring, the tables, the limits, the index.\<close>

lemmas sample_eval =
  wiring_defs on_defs zoom_def read_wall.simps checkConsent_def HasActiveConsent_def row_settings_def
  sample_row_def ConsentValidityPeriod_def duration_defs visibility_defs reveal_defs settingsOrDefault_def
  pg_settings_Get_def pg_run_def pg_start_def sample_tables_def io_unfold sample_jitter sample_parts

lemmas sample_index =
  sample_parts sample_redis_def Store_Upsert_def Store_Search_def Store_Remove_def mem_eval geoadd_doc_def
  zrem_doc_def geo_valid_def geosearch_mem_def geopos_doc_def sample_place_def searchPadding_def
  JitterRadiusM_def RedisRateLimiter_Allow_def kinds_distinct DailyQueryLimit_def DailyQueryWindow_def
  on_defs zoom_def

lemmas sample_screen =
  sample_parts consider_candidate_def Let_def pg_IsBlockedEitherWay_def pg_IsMutualFollow_def mem_eval
  RedisRateLimiter_Allow_def kinds_distinct PairQueryLimit_def PairQueryWindow_def DistanceMeters_self

lemmas sample_disclose =
  sample_parts resolve_profiles_def shows_identity_def profileResolver_Resolve_def profile_rows_def
  disclose_def Store_Detail_def mem_eval kinds_distinct unmarshal_marshal_detail BucketFor_def Let_def
  Sequential_NewID_def NewSequential_def pg_Append_def insert_audit_def

definition sample_result :: NearbyResult where
  "sample_result = \<lparr>nr_UserID = ''b'', nr_DisplayName = ''Bob'', nr_AvatarURL = '''',
     nr_Bucket = Bucket1, nr_TrackID = ''t''\<rparr>"

text \<open>User \<open>a\<close> sends its position and is shown \<open>b\<close>.\<close>

lemma sample_update:
  "\<exists>w'. ApplyUpdate (presence_server_nearby sample_ex) ''a'' 10 20 ''t'' (90 * Second) sample_world
     = (Inr [sample_result], w') \<and> rs_now (contents (w_redis w')) = 0"
  unfolding ApplyUpdate_def query_def sample_result_def
  apply (simp add: sample_eval sample_world_def)
  apply (simp add: sample_index)
  apply (simp add: sample_screen sample_eval)
  apply (simp add: sample_disclose sample_eval)
  done

section \<open>The same world with an account and a session\<close>

definition sample_user_row :: User where
  "sample_user_row = \<lparr>us_ID = ''a'', us_Email = ''ann'', us_PasswordHash = ''password'', us_DisplayName = ''Ann'',
     us_Handle = '''', us_Status = UserStatusActive, us_Role = RoleUser, us_CreatedAt = 0, us_UpdatedAt = 0\<rparr>"

definition sample_token :: RefreshToken where
  "sample_token = \<lparr>rt_ID = ''t1'', rt_UserID = ''a'', rt_DeviceID = '''', rt_TokenHash = ''first'',
     rt_IssuedAt = 0, rt_ExpiresAt = 100, rt_RevokedAt = None, rt_ReplacedBy = ''''\<rparr>"

definition sample_session_world :: "(mem, Sequential, nat) world" where
  "sample_session_world = sample_world\<lparr>w_auth := pg_start \<lparr>at_users = [(sample_user_row, None)],
     user_auth_identities = [], user_devices = [], tb_refresh_tokens = [sample_token], at_uuids = 0\<rparr>\<rparr>"

lemmas sample_auth_eval =
  on_defs zoom_def io_unfold pg_run_def pg_start_def server_auth_def server_signer_def world_clock_def world_ids_def
  Real_clock_def read_wall.simps Sequential_gen_def Sequential_NewID_def NewSequential_def Let_def duration_defs
  sample_session_world_def sample_world_def sample_user_row_def sample_token_def sample_cfg_def
  pg_users_def pg_tokens_def pg_devices_def UserStatusActive_def RoleUser_def

end
