(* ===== verification/Hub.thy ===== *)
theory Hub
  imports Nearby_Service "HOL-Library.Multiset"
begin

text \<open>
  \<^verbatim>\<open>backend/internal/presence/hub.go\<close>: the pipeline between the connections and the query engine. A
  bounded queue of jobs, a fixed pool of workers, a registry of connections for the broadcast at
  shutdown. The fields of \<^verbatim>\<open>Hub\<close> that never change after construction are the record \<open>Hub\<close>, the ones
  that do are \<open>hub\<close>; the goroutines are the events of \<open>hub_run\<close>.
\<close>

section \<open>Frames, connections and jobs\<close>

datatype FrameType = FrameNearbyUpdate | FrameResyncFull | FrameDrain

record Frame =
  fr_Type :: FrameType
  fr_Users :: "NearbyResult list"
  fr_ReconnectHint :: string

text \<open>
  The interface \<^verbatim>\<open>Conn\<close> over the state \<open>'c\<close> of the transport. An interface value is compared by the
  pointer in it, which is \<open>cn_ref\<close>.
\<close>

record 'c Conn =
  cn_ref :: nat
  cn_UserID :: string
  cn_Send :: "Frame \<Rightarrow> 'c \<Rightarrow> err option \<times> 'c"
  cn_Close :: "'c \<Rightarrow> 'c"

datatype jobKind = jobUpdate | jobHeartbeat

record 'c ingestJob =
  jb_kind :: jobKind
  jb_conn :: "'c Conn"
  jb_lat :: real
  jb_lon :: real
  jb_trackID :: string

record Metrics =
  IngestDropped :: nat
  FanoutDropped :: nat
  FramesSent :: nat

record 'w Hub =
  hb_nearby :: "'w NearbyService"
  hb_presenceTTL :: duration
  hb_workers :: nat
  hb_updateLimiter :: "'w RateLimiter option"
  hb_updateFrameLimit :: int
  hb_updateFrameWindow :: duration

record 'c hub =
  ingest :: "'c ingestJob list"
  ingest_cap :: nat
  ingest_closed :: bool
  metrics :: Metrics
  conns :: "string \<rightharpoonup> 'c Conn"
  wg :: nat

definition NewHubWithLimit ::
    "'w NearbyService \<Rightarrow> duration \<Rightarrow> nat \<Rightarrow> nat \<Rightarrow> 'w RateLimiter option \<Rightarrow> int \<Rightarrow> duration \<Rightarrow> 'w Hub \<times> 'c hub"
where
  "NewHubWithLimit nearby presenceTTL workers ingestBuffer updateLimiter limit0 window0 =
     (let limit = (if limit0 \<le> 0 then UpdateFrameLimit else limit0);
          window = (if window0 \<le> 0 then UpdateFrameWindow else window0)
      in (\<lparr>hb_nearby = nearby, hb_presenceTTL = presenceTTL, hb_workers = workers,
           hb_updateLimiter = updateLimiter, hb_updateFrameLimit = limit, hb_updateFrameWindow = window\<rparr>,
          \<lparr>ingest = [], ingest_cap = ingestBuffer, ingest_closed = False,
           metrics = \<lparr>IngestDropped = 0, FanoutDropped = 0, FramesSent = 0\<rparr>,
           conns = Map.empty, wg = workers\<rparr>))"

definition NewHub ::
    "'w NearbyService \<Rightarrow> duration \<Rightarrow> nat \<Rightarrow> nat \<Rightarrow> 'w RateLimiter option \<Rightarrow> 'w Hub \<times> 'c hub" where
  "NewHub nearby presenceTTL workers ingestBuffer updateLimiter =
     NewHubWithLimit nearby presenceTTL workers ingestBuffer updateLimiter 0 0"

section \<open>The operations\<close>

text \<open>
  The environment of the services, the transport, the hub itself, the jobs its workers are at, and
  whether the context that \<^verbatim>\<open>Run\<close> was given is done.
\<close>

record ('w, 'c) live =
  lv_env :: 'w
  lv_wire :: 'c
  lv_hub :: "'c hub"
  lv_busy :: "'c ingestJob list"
  lv_done :: bool

definition AllowUpdateFrame :: "'w Hub \<Rightarrow> string \<Rightarrow> ('w, bool) io" where
  "AllowUpdateFrame h userID =
     (case hb_updateLimiter h of
        None \<Rightarrow> ret True
      | Some l \<Rightarrow> bindE (Allow l (updateFrameKey userID) (hb_updateFrameLimit h) (hb_updateFrameWindow h))
                   (\<lambda>(allowed, _). ret allowed))"

definition Register :: "'c Conn \<Rightarrow> ('w, 'c) live \<Rightarrow> ('w, 'c) live" where
  "Register c s = s\<lparr>lv_hub := (lv_hub s)\<lparr>conns := (conns (lv_hub s))(cn_UserID c \<mapsto> c)\<rparr>\<rparr>"

definition forget :: "'c Conn \<Rightarrow> 'c hub \<Rightarrow> 'c hub" where
  "forget c h =
     (if map_option cn_ref (conns h (cn_UserID c)) = Some (cn_ref c)
      then h\<lparr>conns := (conns h)(cn_UserID c := None)\<rparr> else h)"

definition Unregister :: "'w Hub \<Rightarrow> 'c Conn \<Rightarrow> ('w, 'c) live \<Rightarrow> ('w, 'c) live" where
  "Unregister h c s =
     s\<lparr>lv_hub := forget c (lv_hub s),
       lv_env := snd (Disconnect (hb_nearby h) (cn_UserID c) (lv_env s))\<rparr>"

text \<open>A send on the queue: accepted, refused because it is full, or a panic because it is closed.\<close>

datatype sent = Accepted | Refused err | Panic

definition enqueue :: "'c ingestJob \<Rightarrow> 'c hub \<Rightarrow> sent \<times> 'c hub" where
  "enqueue job h =
     (if ingest_closed h then (Panic, h)
      else if length (ingest h) < ingest_cap h then (Accepted, h\<lparr>ingest := ingest h @ [job]\<rparr>)
      else (Refused (Sentinel ErrIngestSaturated),
            h\<lparr>metrics := (metrics h)\<lparr>IngestDropped := IngestDropped (metrics h) + 1\<rparr>\<rparr>))"

definition EnqueueUpdate :: "'c Conn \<Rightarrow> real \<Rightarrow> real \<Rightarrow> string \<Rightarrow> 'c hub \<Rightarrow> sent \<times> 'c hub" where
  "EnqueueUpdate c lat lon trackID =
     enqueue \<lparr>jb_kind = jobUpdate, jb_conn = c, jb_lat = lat, jb_lon = lon, jb_trackID = trackID\<rparr>"

definition EnqueueHeartbeat :: "'c Conn \<Rightarrow> 'c hub \<Rightarrow> sent \<times> 'c hub" where
  "EnqueueHeartbeat c =
     enqueue \<lparr>jb_kind = jobHeartbeat, jb_conn = c, jb_lat = 0, jb_lon = 0, jb_trackID = ''''\<rparr>"

definition deliver :: "'c Conn \<Rightarrow> Frame \<Rightarrow> ('w, 'c) live \<Rightarrow> ('w, 'c) live" where
  "deliver c f s =
     (case cn_Send c f (lv_wire s) of
        (Some _, wire) \<Rightarrow> s\<lparr>lv_wire := wire, lv_hub := (lv_hub s)\<lparr>metrics :=
           (metrics (lv_hub s))\<lparr>FanoutDropped := FanoutDropped (metrics (lv_hub s)) + 1\<rparr>\<rparr>\<rparr>
      | (None, wire) \<Rightarrow> s\<lparr>lv_wire := wire, lv_hub := (lv_hub s)\<lparr>metrics :=
           (metrics (lv_hub s))\<lparr>FramesSent := FramesSent (metrics (lv_hub s)) + 1\<rparr>\<rparr>\<rparr>)"

definition answer_job :: "'w Hub \<Rightarrow> 'c ingestJob \<Rightarrow> ('w, NearbyResult list) io" where
  "answer_job h job =
     (case jb_kind job of
        jobUpdate \<Rightarrow> ApplyUpdate (hb_nearby h) (cn_UserID (jb_conn job)) (jb_lat job) (jb_lon job)
                       (jb_trackID job) (hb_presenceTTL h)
      | jobHeartbeat \<Rightarrow> ApplyHeartbeat (hb_nearby h) (cn_UserID (jb_conn job)) (hb_presenceTTL h))"

definition consent_error :: "err \<Rightarrow> bool" where
  "consent_error e \<longleftrightarrow> errors_Is e ErrConsentRequired \<or> errors_Is e ErrConsentExpired"

definition consent_hint :: "err \<Rightarrow> string" where
  "consent_hint e = (if errors_Is e ErrConsentExpired then ''consent_expired'' else ''consent_required'')"

definition process :: "'w Hub \<Rightarrow> 'c ingestJob \<Rightarrow> ('w, 'c) live \<Rightarrow> ('w, 'c) live" where
  "process h job s =
     (case answer_job h job (lv_env s) of
        (Inl e, w) \<Rightarrow>
          (let s1 = s\<lparr>lv_env := w\<rparr> in
           if consent_error e then
             (let s2 = deliver (jb_conn job)
                         \<lparr>fr_Type = FrameDrain, fr_Users = [], fr_ReconnectHint = consent_hint e\<rparr> s1
              in s2\<lparr>lv_wire := cn_Close (jb_conn job) (lv_wire s2)\<rparr>)
           else s1)
      | (Inr results, w) \<Rightarrow>
          deliver (jb_conn job)
            \<lparr>fr_Type = FrameNearbyUpdate, fr_Users = results, fr_ReconnectHint = ''''\<rparr> (s\<lparr>lv_env := w\<rparr>))"

definition SendResync ::
    "'w Hub \<Rightarrow> 'c Conn \<Rightarrow> real \<Rightarrow> real \<Rightarrow> string \<Rightarrow> ('w, 'c) live \<Rightarrow> err option \<times> ('w, 'c) live" where
  "SendResync h c lat lon trackID s =
     (case ApplyUpdate (hb_nearby h) (cn_UserID c) lat lon trackID (hb_presenceTTL h) (lv_env s) of
        (Inl e, w) \<Rightarrow> (Some e, s\<lparr>lv_env := w\<rparr>)
      | (Inr results, w) \<Rightarrow>
          (None, deliver c \<lparr>fr_Type = FrameResyncFull, fr_Users = results, fr_ReconnectHint = ''''\<rparr>
                   (s\<lparr>lv_env := w\<rparr>)))"

text \<open>
  \<^verbatim>\<open>Shutdown\<close>: the broadcast, in whatever order the map of connections is iterated, and the closing
  of the queue, which panics when it is closed already. The wait for the workers is the caller's.
\<close>

definition drain_all :: "string \<Rightarrow> 'c Conn list \<Rightarrow> ('w, 'c) live \<Rightarrow> ('w, 'c) live" where
  "drain_all hint =
     fold (\<lambda>c. deliver c \<lparr>fr_Type = FrameDrain, fr_Users = [], fr_ReconnectHint = hint\<rparr>)"

definition close_ingest :: "'c hub \<Rightarrow> sent \<times> 'c hub" where
  "close_ingest h = (if ingest_closed h then (Panic, h) else (Accepted, h\<lparr>ingest_closed := True\<rparr>))"

section \<open>The goroutines\<close>

datatype 'c hub_event =
    Ev_env
  | Ev_cancel
  | Ev_transport
  | Ev_register "'c Conn"
  | Ev_unregister "'c Conn"
  | Ev_submit "'c ingestJob" sent
  | Ev_hand "'c ingestJob"
  | Ev_take "'c ingestJob"
  | Ev_process "'c ingestJob"
  | Ev_worker_exit
  | Ev_resync "'c Conn"
  | Ev_drain string "'c Conn list"
  | Ev_close sent

text \<open>
  One step. A worker that is at no job takes the first one while the queue holds one, is handed one by the
  sender when the queue has no room of its own, or leaves when its context is done or when the queue is
  closed and empty. What the workers are at is finished in any order; the other processes change the
  environment, and the network the transport, at any time.
\<close>

inductive hub_step :: "'w Hub \<Rightarrow> ('w, 'c) live \<Rightarrow> 'c hub_event \<Rightarrow> ('w, 'c) live \<Rightarrow> bool" for h where
  env: "hub_step h s Ev_env (s\<lparr>lv_env := w\<rparr>)"
| cancel: "hub_step h s Ev_cancel (s\<lparr>lv_done := True\<rparr>)"
| transport: "hub_step h s Ev_transport (s\<lparr>lv_wire := wire\<rparr>)"
| register: "hub_step h s (Ev_register c) (Register c s)"
| unregister: "hub_step h s (Ev_unregister c) (Unregister h c s)"
| submit: "enqueue job (lv_hub s) = (r, hub') \<Longrightarrow> hub_step h s (Ev_submit job r) (s\<lparr>lv_hub := hub'\<rparr>)"
| hand: "ingest_cap (lv_hub s) = 0 \<Longrightarrow> \<not> ingest_closed (lv_hub s) \<Longrightarrow> length (lv_busy s) < wg (lv_hub s) \<Longrightarrow>
    hub_step h s (Ev_hand job) (s\<lparr>lv_busy := lv_busy s @ [job]\<rparr>)"
| take_job: "ingest (lv_hub s) = job # rest \<Longrightarrow> length (lv_busy s) < wg (lv_hub s) \<Longrightarrow>
    hub_step h s (Ev_take job) (s\<lparr>lv_hub := (lv_hub s)\<lparr>ingest := rest\<rparr>, lv_busy := lv_busy s @ [job]\<rparr>)"
| work: "job \<in> set (lv_busy s) \<Longrightarrow>
    hub_step h s (Ev_process job) (process h job (s\<lparr>lv_busy := remove1 job (lv_busy s)\<rparr>))"
| worker_exit: "length (lv_busy s) < wg (lv_hub s) \<Longrightarrow> lv_done s \<or> ingest_closed (lv_hub s) \<and> ingest (lv_hub s) = [] \<Longrightarrow>
    hub_step h s Ev_worker_exit (s\<lparr>lv_hub := (lv_hub s)\<lparr>wg := wg (lv_hub s) - 1\<rparr>\<rparr>)"
| resync: "SendResync h c lat lon trk s = (r, s') \<Longrightarrow> hub_step h s (Ev_resync c) s'"
| drain: "cs = map (\<lambda>u. the (conns (lv_hub s) u)) us \<Longrightarrow> distinct us \<Longrightarrow> set us = dom (conns (lv_hub s)) \<Longrightarrow>
    hub_step h s (Ev_drain hint cs) (drain_all hint cs s)"
| closing: "close_ingest (lv_hub s) = (r, hub') \<Longrightarrow> hub_step h s (Ev_close r) (s\<lparr>lv_hub := hub'\<rparr>)"

inductive hub_run :: "'w Hub \<Rightarrow> ('w, 'c) live \<Rightarrow> 'c hub_event list \<Rightarrow> ('w, 'c) live \<Rightarrow> bool" for h s0 where
  start: "hub_run h s0 [] s0"
| step: "hub_run h s0 evs s \<Longrightarrow> hub_step h s ev s' \<Longrightarrow> hub_run h s0 (evs @ [ev]) s'"

definition start_live :: "'w Hub \<times> 'c hub \<Rightarrow> 'w \<Rightarrow> 'c \<Rightarrow> ('w, 'c) live" where
  "start_live h w wire = \<lparr>lv_env = w, lv_wire = wire, lv_hub = snd h, lv_busy = [], lv_done = False\<rparr>"

inductive_cases hub_stepE: "hub_step h s ev s'"

section \<open>What the counters and the queue say\<close>

fun accepted :: "'c hub_event \<Rightarrow> 'c ingestJob list" where
  "accepted (Ev_submit job Accepted) = [job]"
| "accepted (Ev_hand job) = [job]"
| "accepted _ = []"

fun taken :: "'c hub_event \<Rightarrow> 'c ingestJob list" where
  "taken (Ev_hand job) = [job]"
| "taken (Ev_take job) = [job]"
| "taken _ = []"

fun processed :: "'c hub_event \<Rightarrow> 'c ingestJob list" where
  "processed (Ev_process job) = [job]"
| "processed _ = []"

fun dropped :: "'c hub_event \<Rightarrow> nat" where
  "dropped (Ev_submit job (Refused e)) = 1"
| "dropped _ = 0"

text \<open>A delivery changes the counters and the transport, nothing else.\<close>

lemma deliver_frame [simp]:
  "lv_env (deliver c f s) = lv_env s" "lv_busy (deliver c f s) = lv_busy s" "lv_done (deliver c f s) = lv_done s"
  "ingest (lv_hub (deliver c f s)) = ingest (lv_hub s)"
  "ingest_cap (lv_hub (deliver c f s)) = ingest_cap (lv_hub s)"
  "ingest_closed (lv_hub (deliver c f s)) = ingest_closed (lv_hub s)"
  "conns (lv_hub (deliver c f s)) = conns (lv_hub s)" "wg (lv_hub (deliver c f s)) = wg (lv_hub s)"
  "IngestDropped (metrics (lv_hub (deliver c f s))) = IngestDropped (metrics (lv_hub s))"
  by (auto simp: deliver_def split: prod.split option.split)

lemma drain_all_frame [simp]:
  "lv_env (drain_all hint cs s) = lv_env s" "lv_busy (drain_all hint cs s) = lv_busy s" "lv_done (drain_all hint cs s) = lv_done s"
  "ingest (lv_hub (drain_all hint cs s)) = ingest (lv_hub s)"
  "ingest_cap (lv_hub (drain_all hint cs s)) = ingest_cap (lv_hub s)"
  "ingest_closed (lv_hub (drain_all hint cs s)) = ingest_closed (lv_hub s)"
  "conns (lv_hub (drain_all hint cs s)) = conns (lv_hub s)" "wg (lv_hub (drain_all hint cs s)) = wg (lv_hub s)"
  "IngestDropped (metrics (lv_hub (drain_all hint cs s))) = IngestDropped (metrics (lv_hub s))"
  unfolding drain_all_def by (induction cs arbitrary: s) auto

lemma process_frame [simp]:
  "lv_done (process h job s) = lv_done s" "lv_busy (process h job s) = lv_busy s"
  "ingest (lv_hub (process h job s)) = ingest (lv_hub s)"
  "ingest_cap (lv_hub (process h job s)) = ingest_cap (lv_hub s)"
  "ingest_closed (lv_hub (process h job s)) = ingest_closed (lv_hub s)"
  "conns (lv_hub (process h job s)) = conns (lv_hub s)" "wg (lv_hub (process h job s)) = wg (lv_hub s)"
  "IngestDropped (metrics (lv_hub (process h job s))) = IngestDropped (metrics (lv_hub s))"
  by (auto simp: process_def Let_def split: prod.split sum.split)

lemma SendResync_frame:
  assumes "SendResync h c lat lon trk s = (r, s')"
  shows "ingest (lv_hub s') = ingest (lv_hub s)" "ingest_cap (lv_hub s') = ingest_cap (lv_hub s)"
    "ingest_closed (lv_hub s') = ingest_closed (lv_hub s)" "conns (lv_hub s') = conns (lv_hub s)"
    "wg (lv_hub s') = wg (lv_hub s)" "lv_done s' = lv_done s" "lv_busy s' = lv_busy s"
    "IngestDropped (metrics (lv_hub s')) = IngestDropped (metrics (lv_hub s))"
  using assms by (auto simp: SendResync_def split: prod.splits sum.splits)

lemma forget_frame [simp]:
  "ingest (forget c h) = ingest h" "ingest_cap (forget c h) = ingest_cap h"
  "ingest_closed (forget c h) = ingest_closed h" "metrics (forget c h) = metrics h" "wg (forget c h) = wg h"
  by (simp_all add: forget_def)

text \<open>What every step preserves of the queue.\<close>

definition queue_ok :: "nat \<Rightarrow> nat \<Rightarrow> 'c hub_event list \<Rightarrow> ('w, 'c) live \<Rightarrow> bool" where
  "queue_ok cap k evs s \<longleftrightarrow>
     ingest_cap (lv_hub s) = cap \<and> length (ingest (lv_hub s)) \<le> cap
     \<and> length (lv_busy s) \<le> wg (lv_hub s) \<and> wg (lv_hub s) \<le> k
     \<and> concat (map accepted evs) = concat (map taken evs) @ ingest (lv_hub s)
     \<and> mset (concat (map taken evs)) = mset (concat (map processed evs)) + mset (lv_busy s)
     \<and> IngestDropped (metrics (lv_hub s)) = sum_list (map dropped evs)"

lemma hub_step_queue:
  assumes "hub_step h s ev s'" and "queue_ok cap k evs s"
  shows "queue_ok cap k (evs @ [ev]) s'"
  using assms(1)
proof (cases rule: hub_step.cases)
  case (work job)
  have "length (remove1 job (lv_busy s)) \<le> length (lv_busy s)" by (simp add: length_remove1)
  moreover have "mset (lv_busy s) = add_mset job (mset (remove1 job (lv_busy s)))" using work(3) by simp
  ultimately show ?thesis using assms(2) work by (simp add: queue_ok_def del: mset_remove1)
qed (use assms(2) in \<open>auto simp: queue_ok_def Register_def Unregister_def enqueue_def close_ingest_def
      SendResync_frame split: if_splits\<close>)

lemma hub_run_queue:
  "hub_run h s0 evs s \<Longrightarrow> queue_ok cap k [] s0 \<Longrightarrow> queue_ok cap k evs s"
  by (induction rule: hub_run.induct) (auto intro: hub_step_queue)

lemma start_queue_ok:
  "queue_ok cap k [] (start_live (NewHubWithLimit n ttl k cap l m d) w wire)"
  by (simp add: queue_ok_def start_live_def NewHubWithLimit_def Let_def)

text \<open>
  C15. In every run of the hub the queue holds at most its capacity and at most as many jobs are worked
  on as there are workers; jobs leave the queue in the order they were accepted in; what has left it is
  what has been processed, in whatever order the workers finish, and what a worker is at, so that no job
  is lost or duplicated; and the drop counter counts exactly the frames that were refused.
\<close>

lemma hub_queue_accounts:
  assumes "hub_run h (start_live (NewHubWithLimit n ttl k cap l m d) w wire) evs s"
  shows "length (ingest (lv_hub s)) \<le> cap \<and> length (lv_busy s) \<le> k
    \<and> concat (map accepted evs) = concat (map taken evs) @ ingest (lv_hub s)
    \<and> mset (concat (map taken evs)) = mset (concat (map processed evs)) + mset (lv_busy s)
    \<and> IngestDropped (metrics (lv_hub s)) = sum_list (map dropped evs)"
  using hub_run_queue [OF assms start_queue_ok] by (simp add: queue_ok_def)

section \<open>Closing the queue\<close>

lemma closed_step:
  assumes "hub_step h s ev s'"
  shows "ingest_closed (lv_hub s') \<longleftrightarrow> ingest_closed (lv_hub s) \<or> ev = Ev_close Accepted"
  using assms
  by (cases rule: hub_step.cases)
    (auto simp: Register_def Unregister_def enqueue_def close_ingest_def SendResync_frame
      split: if_splits)

lemma closed_run:
  "hub_run h s0 evs s \<Longrightarrow> \<not> ingest_closed (lv_hub s0) \<Longrightarrow>
   ingest_closed (lv_hub s) \<longleftrightarrow> Ev_close Accepted \<in> set evs"
  by (induction rule: hub_run.induct) (auto simp: closed_step)

lemma start_open [simp]: "\<not> ingest_closed (lv_hub (start_live (NewHubWithLimit n ttl k cap l m d) w wire))"
  by (simp add: start_live_def NewHubWithLimit_def Let_def)

text \<open>
  The reader of a connection that submits a frame panics (send on a closed
  channel) exactly when \<^verbatim>\<open>Shutdown\<close> has closed the queue: \<^verbatim>\<open>enqueue\<close> has no other guard, and the
  hub does not stop the readers before it closes.
\<close>

lemma hub_panic_iff_shutdown:
  assumes "hub_run h (start_live (NewHubWithLimit n ttl k cap l m d) w wire) evs s"
  shows "fst (enqueue job (lv_hub s)) = Panic \<longleftrightarrow> Ev_close Accepted \<in> set evs"
  using closed_run [OF assms] by (auto simp: enqueue_def)

text \<open>A worker that left without the context being done had seen the queue closed and empty.\<close>

definition pool_ok :: "nat \<Rightarrow> ('w, 'c) live \<Rightarrow> bool" where
  "pool_ok k s \<longleftrightarrow>
     wg (lv_hub s) < k \<and> \<not> lv_done s \<longrightarrow> ingest_closed (lv_hub s) \<and> ingest (lv_hub s) = []"

lemma pool_step:
  assumes "hub_step h s ev s'" and "pool_ok k s"
  shows "pool_ok k s'"
  using assms
  by (cases rule: hub_step.cases)
    (auto simp: pool_ok_def Register_def Unregister_def enqueue_def close_ingest_def SendResync_frame
      split: if_splits)

lemma pool_run: "hub_run h s0 evs s \<Longrightarrow> pool_ok k s0 \<Longrightarrow> pool_ok k s"
  by (induction rule: hub_run.induct) (auto intro: pool_step)

text \<open>
  C16. If the context of \<^verbatim>\<open>Run\<close> was not cancelled, then by the time every
  worker has left, which is what \<^verbatim>\<open>Shutdown\<close> waits for, every job that was accepted has been
  taken, in the order of acceptance, and has been processed, once.
\<close>

lemma hub_shutdown_finishes_jobs:
  assumes "hub_run h (start_live (NewHubWithLimit n ttl k cap l m d) w wire) evs s"
    and "0 < k" and "\<not> lv_done s" and "wg (lv_hub s) = 0"
  shows "concat (map taken evs) = concat (map accepted evs)
    \<and> mset (concat (map processed evs)) = mset (concat (map accepted evs))"
proof -
  have "pool_ok k (start_live (NewHubWithLimit n ttl k cap l m d) w wire)"
    by (simp add: pool_ok_def start_live_def NewHubWithLimit_def Let_def)
  from pool_run [OF assms(1) this] hub_run_queue [OF assms(1) start_queue_ok] assms(2-) show ?thesis
    by (simp add: pool_ok_def queue_ok_def)
qed

text \<open>
  Once the context is cancelled nothing makes the workers take what is queued: from any
  state in which they are at no job all of them can leave at once, with every queued job still in the
  queue. (The comment of \<^verbatim>\<open>Run\<close> promises that every in-flight job has been drained.)
\<close>

lemma hub_cancel_loses_jobs:
  assumes "lv_busy s = []"
  shows "\<exists>evs s'. hub_run h (s\<lparr>lv_done := True\<rparr>) evs s' \<and> wg (lv_hub s') = 0
     \<and> ingest (lv_hub s') = ingest (lv_hub s) \<and> concat (map taken evs) = []"
proof -
  have "\<exists>evs s'. hub_run h s0 evs s' \<and> wg (lv_hub s') = 0
      \<and> ingest (lv_hub s') = ingest (lv_hub s0) \<and> concat (map taken evs) = []"
    if "lv_done s1" "hub_run h s0 evs1 s1" "concat (map taken evs1) = []"
      "ingest (lv_hub s1) = ingest (lv_hub s0)" "lv_busy s1 = []" for s0 s1 evs1
    using that
  proof (induction "wg (lv_hub s1)" arbitrary: s1 evs1)
    case 0
    then show ?case by metis
  next
    case (Suc n)
    let ?s2 = "s1\<lparr>lv_hub := (lv_hub s1)\<lparr>wg := wg (lv_hub s1) - 1\<rparr>\<rparr>"
    have "hub_step h s1 Ev_worker_exit ?s2"
      using Suc.hyps(2) Suc.prems(1,5) by (intro hub_step.worker_exit) auto
    from hub_run.step [OF Suc.prems(2) this] Suc.hyps(2) Suc.prems
    show ?case by (intro Suc.hyps(1) [of ?s2 "evs1 @ [Ev_worker_exit]"]) auto
  qed
  from this [of "s\<lparr>lv_done := True\<rparr>" "s\<lparr>lv_done := True\<rparr>" "[]"] assms show ?thesis
    by (simp add: hub_run.start)
qed

section \<open>What a worker sends\<close>

text \<open>The three ways in which a job can end.\<close>

lemma process_answered:
  "answer_job h job (lv_env s) = (Inr results, w) \<Longrightarrow>
   process h job s = deliver (jb_conn job)
     \<lparr>fr_Type = FrameNearbyUpdate, fr_Users = results, fr_ReconnectHint = ''''\<rparr> (s\<lparr>lv_env := w\<rparr>)"
  by (simp add: process_def)

lemma process_evicted:
  assumes "answer_job h job (lv_env s) = (Inl e, w)" and "consent_error e"
  shows "lv_env (process h job s) = w
    \<and> lv_wire (process h job s) = cn_Close (jb_conn job) (snd (cn_Send (jb_conn job)
        \<lparr>fr_Type = FrameDrain, fr_Users = [], fr_ReconnectHint = consent_hint e\<rparr> (lv_wire s)))"
  using assms by (auto simp: process_def deliver_def Let_def split: prod.split option.split)

lemma process_swallowed:
  "answer_job h job (lv_env s) = (Inl e, w) \<Longrightarrow> \<not> consent_error e \<Longrightarrow> process h job s = s\<lparr>lv_env := w\<rparr>"
  by (simp add: process_def)

text \<open>Every send is counted once.\<close>

lemma deliver_counted:
  "FramesSent (metrics (lv_hub (deliver c f s))) + FanoutDropped (metrics (lv_hub (deliver c f s)))
   = Suc (FramesSent (metrics (lv_hub s)) + FanoutDropped (metrics (lv_hub s)))"
  by (auto simp: deliver_def split: prod.split option.split)

section \<open>The registry\<close>

lemma registry_step:
  assumes "hub_step h s ev s'" and "\<forall>u c. conns (lv_hub s) u = Some c \<longrightarrow> cn_UserID c = u"
  shows "\<forall>u c. conns (lv_hub s') u = Some c \<longrightarrow> cn_UserID c = u"
  using assms
  by (cases rule: hub_step.cases)
    (auto simp: Register_def Unregister_def forget_def enqueue_def close_ingest_def SendResync_frame
      split: if_splits)

lemma registry_run:
  assumes "hub_run h s0 evs s" and "\<forall>u c. conns (lv_hub s0) u = Some c \<longrightarrow> cn_UserID c = u"
  shows "\<forall>u c. conns (lv_hub s) u = Some c \<longrightarrow> cn_UserID c = u"
  using assms
proof (induction rule: hub_run.induct)
  case (step evs s ev s')
  show ?case by (rule registry_step [OF step.hyps(2) step.IH [OF step.prems]])
qed

text \<open>
  A connection that was replaced by a newer one of the same user stays out of the registry when it
  goes, but the user's entry in the index goes with it.
\<close>

lemma Unregister_stale:
  assumes "conns (lv_hub s) (cn_UserID old) = Some new" and "cn_ref new \<noteq> cn_ref old"
  shows "conns (lv_hub (Unregister h old s)) = conns (lv_hub s)
    \<and> lv_env (Unregister h old s) = snd (geo_Remove (ns_geo (hb_nearby h)) (cn_UserID old) (lv_env s))"
  using assms by (simp add: Unregister_def forget_def Disconnect_def)

end
