(* ===== verification/Ws_Conn.thy ===== *)
theory Ws_Conn
  imports Hub
begin

text \<open>
  \<^verbatim>\<open>backend/internal/presence/ws/conn.go\<close> and \<^verbatim>\<open>protocol.go\<close>: one connection with its outbound
  buffer and its writer goroutine, and the frames as they go over the wire. gorilla/websocket and
  the network are the environment: a write may succeed or fail at any time.
\<close>

section \<open>The wire format\<close>

record userFrame =
  uf_UserID :: string
  uf_DisplayName :: string
  uf_AvatarURL :: string
  uf_DistanceBucket :: string
  uf_DistanceLabel :: string
  uf_NowPlaying :: "string option"

record outboundFrame =
  of_Type :: string
  of_Users :: "userFrame list"
  of_ReconnectHint :: string

fun frame_type :: "FrameType \<Rightarrow> string" where
  "frame_type FrameNearbyUpdate = ''nearby_update''"
| "frame_type FrameResyncFull = ''resync_full''"
| "frame_type FrameDrain = ''drain''"

fun bucketCode :: "DistanceBucket \<Rightarrow> string" where
  "bucketCode Bucket1 = ''under_150m''"
| "bucketCode Bucket2 = ''150m_1km''"
| "bucketCode Bucket3 = ''1km_5km''"
| "bucketCode Bucket4 = ''5km_15km''"
| "bucketCode BucketNone = ''''"

definition toUserFrame :: "NearbyResult \<Rightarrow> userFrame" where
  "toUserFrame u = \<lparr>uf_UserID = nr_UserID u, uf_DisplayName = nr_DisplayName u,
     uf_AvatarURL = nr_AvatarURL u, uf_DistanceBucket = bucketCode (nr_Bucket u),
     uf_DistanceLabel = Label (nr_Bucket u),
     uf_NowPlaying = (if nr_TrackID u \<noteq> '''' then Some (nr_TrackID u) else None)\<rparr>"

definition toOutboundFrame :: "Frame \<Rightarrow> outboundFrame" where
  "toOutboundFrame f = \<lparr>of_Type = frame_type (fr_Type f), of_Users = map toUserFrame (fr_Users f),
     of_ReconnectHint = fr_ReconnectHint f\<rparr>"

text \<open>The wire loses nothing of the result: the frame says exactly what the query engine decided.\<close>

lemma bucketCode_inj: "bucketCode a = bucketCode b \<Longrightarrow> a = b"
  by (cases a; cases b) simp_all

lemma toOutboundFrame_inj: "toOutboundFrame f = toOutboundFrame g \<Longrightarrow> f = g"
proof -
  assume eq: "toOutboundFrame f = toOutboundFrame g"
  have t: "frame_type a = frame_type b \<Longrightarrow> a = b" for a b by (cases a; cases b) simp_all
  have "inj toUserFrame"
    by (auto simp: inj_def toUserFrame_def intro!: NearbyResult.equality dest: bucketCode_inj split: if_splits)
  with eq t show "f = g"
    by (auto simp: toOutboundFrame_def intro!: Frame.equality dest: map_injective)
qed

section \<open>The connection\<close>

definition outboundBuffer :: nat where "outboundBuffer = 8"

text \<open>
  \<open>out\<close> is the buffered channel, \<open>shutdown\<close> and \<open>closed\<close> the two that are only ever closed,
  \<open>writer\<close> where the goroutine of \<^verbatim>\<open>writePump\<close> is, \<open>written\<close> what the client was sent. \<open>sending\<close> holds
  the frames of the calls of \<^verbatim>\<open>Send\<close> that are between the check of \<^verbatim>\<open>closedVal\<close> and the \<^verbatim>\<open>select\<close>.
\<close>

datatype writer = Pumping | Draining | Gone

record conn =
  out :: "Frame list"
  shutdown :: bool
  closed :: bool
  closedVal :: bool
  writer :: writer
  written :: "outboundFrame list"
  sending :: "Frame list"

definition newConn :: conn where
  "newConn = \<lparr>out = [], shutdown = False, closed = False, closedVal = False, writer = Pumping,
     written = [], sending = []\<rparr>"

text \<open>\<^verbatim>\<open>Send\<close> when nothing comes between its check and its \<^verbatim>\<open>select\<close>.\<close>

definition conn_Send :: "Frame \<Rightarrow> conn \<Rightarrow> err option \<times> conn" where
  "conn_Send f c =
     (if closedVal c then (Some (Sentinel ErrConnClosed), c)
      else if length (out c) < outboundBuffer then (None, c\<lparr>out := out c @ [f]\<rparr>)
      else if closed c then (Some (Sentinel ErrConnClosed), c)
      else (Some (Sentinel ErrOutboundBufferFull), c))"

definition conn_close :: "conn \<Rightarrow> conn" where
  "conn_close c = (if shutdown c then c else c\<lparr>closedVal := True, shutdown := True\<rparr>)"

definition teardown :: "conn \<Rightarrow> conn" where
  "teardown c = c\<lparr>closed := True, writer := Gone\<rparr>"

text \<open>
  The steps of a connection: the two halves of \<^verbatim>\<open>Send\<close>, \<^verbatim>\<open>close\<close>, and the writer, whose write may
  succeed or not. While draining, the result of a write is not looked at, and the deadline may cut
  the drain short.
\<close>

datatype conn_event =
    Send_starts Frame | Send_refused Frame | Send_queued Frame | Send_closed Frame | Send_full Frame
  | Closing | Wrote Frame | Write_failed Frame | Drain_begins
  | Drained_one Frame | Drain_lost Frame | Drain_done | Drain_deadline

inductive conn_step :: "conn \<Rightarrow> conn_event \<Rightarrow> conn \<Rightarrow> bool" where
  send_starts: "\<not> closedVal c \<Longrightarrow> conn_step c (Send_starts f) (c\<lparr>sending := f # sending c\<rparr>)"
| send_refused: "closedVal c \<Longrightarrow> conn_step c (Send_refused f) c"
| send_queued: "f \<in> set (sending c) \<Longrightarrow> length (out c) < outboundBuffer \<Longrightarrow>
    conn_step c (Send_queued f) (c\<lparr>out := out c @ [f], sending := remove1 f (sending c)\<rparr>)"
| send_closed: "f \<in> set (sending c) \<Longrightarrow> closed c \<Longrightarrow>
    conn_step c (Send_closed f) (c\<lparr>sending := remove1 f (sending c)\<rparr>)"
| send_full: "f \<in> set (sending c) \<Longrightarrow> outboundBuffer \<le> length (out c) \<Longrightarrow> \<not> closed c \<Longrightarrow>
    conn_step c (Send_full f) (c\<lparr>sending := remove1 f (sending c)\<rparr>)"
| closing: "conn_step c Closing (conn_close c)"
| wrote: "writer c = Pumping \<Longrightarrow> out c = f # rest \<Longrightarrow>
    conn_step c (Wrote f) (c\<lparr>out := rest, written := written c @ [toOutboundFrame f]\<rparr>)"
| write_failed: "writer c = Pumping \<Longrightarrow> out c = f # rest \<Longrightarrow>
    conn_step c (Write_failed f) (teardown (c\<lparr>out := rest, closedVal := True\<rparr>))"
| drain_begins: "writer c = Pumping \<Longrightarrow> shutdown c \<Longrightarrow> conn_step c Drain_begins (c\<lparr>writer := Draining\<rparr>)"
| drained_one: "writer c = Draining \<Longrightarrow> out c = f # rest \<Longrightarrow>
    conn_step c (Drained_one f) (c\<lparr>out := rest, written := written c @ [toOutboundFrame f]\<rparr>)"
| drain_lost: "writer c = Draining \<Longrightarrow> out c = f # rest \<Longrightarrow>
    conn_step c (Drain_lost f) (c\<lparr>out := rest\<rparr>)"
| drain_done: "writer c = Draining \<Longrightarrow> out c = [] \<Longrightarrow> conn_step c Drain_done (teardown c)"
| drain_deadline: "writer c = Draining \<Longrightarrow> conn_step c Drain_deadline (teardown c)"

inductive conn_run :: "conn_event list \<Rightarrow> conn \<Rightarrow> bool" where
  start: "conn_run [] newConn"
| step: "conn_run evs c \<Longrightarrow> conn_step c ev c' \<Longrightarrow> conn_run (evs @ [ev]) c'"

inductive_cases conn_stepE: "conn_step c ev c'"

fun queued :: "conn_event \<Rightarrow> Frame list" where
  "queued (Send_queued f) = [f]"
| "queued _ = []"

fun taken :: "conn_event \<Rightarrow> Frame list" where
  "taken (Wrote f) = [f]"
| "taken (Write_failed f) = [f]"
| "taken (Drained_one f) = [f]"
| "taken (Drain_lost f) = [f]"
| "taken _ = []"

fun sent_frames :: "conn_event \<Rightarrow> Frame list" where
  "sent_frames (Wrote f) = [f]"
| "sent_frames (Drained_one f) = [f]"
| "sent_frames _ = []"

fun tears_down :: "conn_event \<Rightarrow> bool" where
  "tears_down (Write_failed f) = True"
| "tears_down Drain_done = True"
| "tears_down Drain_deadline = True"
| "tears_down _ = False"

definition failure :: "conn_event \<Rightarrow> bool" where
  "failure ev \<longleftrightarrow> (case ev of Write_failed f \<Rightarrow> True | Drain_lost f \<Rightarrow> True | Drain_deadline \<Rightarrow> True | _ \<Rightarrow> False)"

section \<open>The invariant of a connection\<close>

definition conn_ok :: "conn_event list \<Rightarrow> conn \<Rightarrow> bool" where
  "conn_ok evs c \<longleftrightarrow>
     length (out c) \<le> outboundBuffer
     \<and> concat (map queued evs) = concat (map taken evs) @ out c
     \<and> written c = map toOutboundFrame (concat (map sent_frames evs))
     \<and> (closed c \<longleftrightarrow> writer c = Gone) \<and> (closed c \<longrightarrow> closedVal c) \<and> (shutdown c \<longrightarrow> closedVal c)
     \<and> (writer c = Draining \<longrightarrow> shutdown c)
     \<and> length (filter tears_down evs) = (if closed c then 1 else 0)"

lemma conn_step_ok: "conn_step c ev c' \<Longrightarrow> conn_ok evs c \<Longrightarrow> conn_ok (evs @ [ev]) c'"
  by (cases rule: conn_step.cases, assumption) (auto simp: conn_ok_def conn_close_def teardown_def)

lemma conn_run_ok: "conn_run evs c \<Longrightarrow> conn_ok evs c"
proof (induction rule: conn_run.induct)
  case start
  show ?case by (simp add: conn_ok_def newConn_def)
next
  case (step evs c ev c')
  then show ?case by (blast intro: conn_step_ok)
qed

text \<open>Without failures, what the writer takes is what it sends.\<close>

lemma taken_sent: "\<not> failure ev \<Longrightarrow> taken ev = sent_frames ev"
  by (cases ev) (simp_all add: failure_def)

lemma all_sent: "\<forall>ev \<in> set evs. \<not> failure ev \<Longrightarrow> concat (map taken evs) = concat (map sent_frames evs)"
  by (induction evs) (simp_all add: taken_sent)

lemma sent_subseq: "subseq (sent_frames ev) (taken ev)"
  by (cases ev) simp_all

lemma sent_subseqs: "subseq (concat (map sent_frames evs)) (concat (map taken evs))"
  by (induction evs) (auto intro: list_emb_append_mono sent_subseq)

text \<open>
  At every moment of a connection's life the buffer holds at most eight frames,
  and what the client was sent is some of the frames that were accepted, in the order of their
  acceptance; without a failed write or an expired deadline it is all of them but the ones still in
  the buffer.
\<close>

lemma conn_in_order:
  assumes "conn_run evs c"
  shows "length (out c) \<le> 8
    \<and> (\<exists>fs. subseq fs (concat (map queued evs)) \<and> written c = map toOutboundFrame fs)
    \<and> ((\<forall>ev \<in> set evs. \<not> failure ev) \<longrightarrow>
         map toOutboundFrame (concat (map queued evs)) = written c @ map toOutboundFrame (out c))"
proof -
  note ok = conn_run_ok [OF assms, unfolded conn_ok_def]
  have "subseq (concat (map sent_frames evs)) (concat (map queued evs))"
    using ok sent_subseqs [of evs] by (metis subseq_append' list_emb_append2 subseq_order.trans prefix_imp_subseq prefixI)
  with ok all_sent [of evs] show ?thesis
    by (auto simp: outboundBuffer_def)
qed

text \<open>
  The transport of a connection is closed at most once however its closing,
  its sends and its failing writes interleave (a second close of the channel would panic), and a
  connection whose transport is closed accepts no call of \<^verbatim>\<open>Send\<close> any more.
\<close>

lemma conn_torn_down_once:
  assumes "conn_run evs c"
  shows "length (filter tears_down evs) \<le> 1
    \<and> (closed c \<longrightarrow> fst (conn_Send f c) = Some (Sentinel ErrConnClosed))"
  using conn_run_ok [OF assms] by (simp add: conn_ok_def conn_Send_def)

text \<open>The frames accepted before the drain ended are all written when no write fails.\<close>

lemma written_grows: "conn_step c ev c' \<Longrightarrow> prefix (written c) (written c')"
  by (cases rule: conn_step.cases, assumption) (simp_all add: conn_close_def teardown_def)

text \<open>
  C17. If no write fails and the deadline of the drain does not expire,
  then once the writer has drained and closed the connection, every frame that was accepted before
  that has been written to the client, in order: in particular the drain frame with which the hub
  evicts a user without consent.
\<close>

lemma conn_drain_reaches_client:
  assumes "conn_run (before @ after) c" and "Drain_done \<in> set after"
    and "\<forall>ev \<in> set (before @ after). \<not> failure ev"
  shows "prefix (map toOutboundFrame (concat (map queued before))) (written c)"
proof -
  have "prefix (map toOutboundFrame (concat (map queued before))) (written c)"
    if "conn_run evs c" "evs = before @ after" "Drain_done \<in> set after" "\<forall>ev \<in> set evs. \<not> failure ev"
    for evs after
    using that
  proof (induction arbitrary: after rule: conn_run.induct)
    case (step evs c ev c')
    obtain after' where after: "after = after' @ [ev]" and evs: "evs = before @ after'"
      using step.prems(1,2) by (cases after rule: rev_cases) auto
    show ?case
    proof (cases "Drain_done \<in> set after'")
      case True
      with step.IH [OF evs] step.prems(3) written_grows [OF step.hyps(2)] show ?thesis
        by (auto intro: prefix_order.trans)
    next
      case False
      with step.prems(2) after have "conn_step c Drain_done c'" using step.hyps(2) by auto
      then have "out c = []" and w: "written c' = written c" by (auto elim: conn_stepE simp: teardown_def)
      with conn_run_ok [OF step.hyps(1)] all_sent [of evs] step.prems(3)
      have "written c = map toOutboundFrame (concat (map queued evs))" by (simp add: conn_ok_def)
      then show ?thesis by (simp add: w evs map_mono_prefix)
    qed
  qed simp
  with assms show ?thesis by blast
qed

section \<open>The claims at work\<close>

definition sample_drain :: Frame where
  "sample_drain = \<lparr>fr_Type = FrameDrain, fr_Users = [], fr_ReconnectHint = ''consent_required''\<rparr>"

text \<open>A drain frame is queued, the connection is closed, and the writer drains and tears down.\<close>

lemma sample_conn_run:
  obtains c where "conn_run ([Send_starts sample_drain, Send_queued sample_drain, Closing]
      @ [Drain_begins, Drained_one sample_drain, Drain_done]) c" and "closed c"
proof -
  let ?f = sample_drain
  let ?c1 = "newConn\<lparr>sending := [?f]\<rparr>"
  let ?c2 = "newConn\<lparr>out := [?f]\<rparr>"
  let ?c3 = "conn_close ?c2"
  let ?c4 = "?c3\<lparr>writer := Draining\<rparr>"
  let ?c5 = "?c4\<lparr>out := [], written := [toOutboundFrame ?f]\<rparr>"
  have r1: "conn_run [Send_starts ?f] ?c1"
    using conn_run.step [OF conn_run.start conn_step.send_starts [of newConn ?f]] by (simp add: newConn_def)
  from conn_run.step [OF r1 conn_step.send_queued [of ?f ?c1]]
  have r2: "conn_run [Send_starts ?f, Send_queued ?f] ?c2" by (simp add: newConn_def outboundBuffer_def)
  from conn_run.step [OF r2 conn_step.closing]
  have r3: "conn_run [Send_starts ?f, Send_queued ?f, Closing] ?c3" by simp
  from conn_run.step [OF r3 conn_step.drain_begins [of ?c3]]
  have r4: "conn_run [Send_starts ?f, Send_queued ?f, Closing, Drain_begins] ?c4"
    by (simp add: newConn_def conn_close_def)
  from conn_run.step [OF r4 conn_step.drained_one [of ?c4 ?f "[]"]]
  have r5: "conn_run [Send_starts ?f, Send_queued ?f, Closing, Drain_begins, Drained_one ?f] ?c5"
    by (simp add: newConn_def conn_close_def)
  from conn_run.step [OF r5 conn_step.drain_done [of ?c5]]
  have "conn_run [Send_starts ?f, Send_queued ?f, Closing, Drain_begins, Drained_one ?f, Drain_done] (teardown ?c5)"
    by simp
  then show thesis using that [of "teardown ?c5"] by (simp add: teardown_def)
qed

lemma conn_in_order_witness: "\<exists>evs c. conn_run evs c \<and> written c = [toOutboundFrame sample_drain] \<and> length (out c) \<le> 8"
proof -
  obtain c where run: "conn_run ([Send_starts sample_drain, Send_queued sample_drain, Closing]
      @ [Drain_begins, Drained_one sample_drain, Drain_done]) c" by (rule sample_conn_run)
  from conn_in_order [OF run] have "[toOutboundFrame sample_drain] = written c @ map toOutboundFrame (out c)"
    "length (out c) \<le> 8" by (simp_all add: failure_def)
  moreover have "written c = map toOutboundFrame [sample_drain]"
    using conn_run_ok [OF run] by (simp add: conn_ok_def)
  ultimately have "written c = [toOutboundFrame sample_drain]" "length (out c) \<le> 8" by auto
  with run show ?thesis by blast
qed

lemma conn_torn_down_once_witness:
  "\<exists>evs c. conn_run evs c \<and> closed c \<and> fst (conn_Send sample_drain c) = Some (Sentinel ErrConnClosed)"
proof -
  obtain c where run: "conn_run ([Send_starts sample_drain, Send_queued sample_drain, Closing]
      @ [Drain_begins, Drained_one sample_drain, Drain_done]) c" "closed c" by (rule sample_conn_run)
  from conn_torn_down_once [OF run(1)] run show ?thesis by blast
qed

lemma conn_drain_reaches_client_witness:
  "\<exists>evs c. conn_run evs c \<and> closed c \<and> prefix [toOutboundFrame sample_drain] (written c)"
proof -
  obtain c where run: "conn_run ([Send_starts sample_drain, Send_queued sample_drain, Closing]
      @ [Drain_begins, Drained_one sample_drain, Drain_done]) c" "closed c" by (rule sample_conn_run)
  from conn_drain_reaches_client [OF run(1)] have "prefix [toOutboundFrame sample_drain] (written c)"
    by (simp add: failure_def)
  with run show ?thesis by blast
qed

end
