(* ===== verification/Middleware.thy ===== *)
theory Middleware
  imports Platform
begin

text \<open>
  \<^verbatim>\<open>backend/internal/platform/httpx\<close> and \<^verbatim>\<open>backend/internal/platform/middleware\<close>: what stands between a
  request and the handlers. A request is the parts of \<^verbatim>\<open>http.Request\<close> the code looks at, a response
  the status, the headers and the body it writes; a handler works on the state \<open>'w\<close> of the services.
\<close>

section \<open>Requests and responses\<close>

record http_request =
  rq_header :: "string \<rightharpoonup> string"
  rq_query :: "string \<rightharpoonup> string"
  rq_Host :: string
  rq_RemoteAddr :: string
  rq_body :: string
  rq_user :: "string option" \<comment> \<open>the value under \<^verbatim>\<open>userIDCtxKey\<close> of the request's context\<close>

definition first_value :: "(string \<rightharpoonup> string) \<Rightarrow> string \<Rightarrow> string" where
  "first_value m k = (case m k of None \<Rightarrow> '''' | Some v \<Rightarrow> v)"

datatype 'b body = NoBody | ErrorBody string string | JSONBody 'b | TextBody string

record 'b response =
  rs_status :: int
  rs_header :: "(string \<times> string) list"
  rs_body :: "'b body"

type_synonym ('w, 'b) handler = "http_request \<Rightarrow> 'w \<Rightarrow> 'b response \<times> 'w"

definition content_type :: "string \<times> string" where
  "content_type = (''Content-Type'', ''application/json; charset=utf-8'')"

definition WriteJSON :: "int \<Rightarrow> 'b option \<Rightarrow> 'b response" where
  "WriteJSON status v =
     \<lparr>rs_status = status, rs_header = [content_type],
      rs_body = (case v of None \<Rightarrow> NoBody | Some x \<Rightarrow> JSONBody x)\<rparr>"

definition WriteError :: "int \<Rightarrow> string \<Rightarrow> string \<Rightarrow> 'b response" where
  "WriteError status code message =
     \<lparr>rs_status = status, rs_header = [content_type], rs_body = ErrorBody code message\<rparr>"

section \<open>Authentication\<close>

record 'w Authenticator =
  au_Authenticate :: "string \<Rightarrow> ('w, string) io"

definition bearer :: string where "bearer = ''Bearer ''"

definition WithUserID :: "string \<Rightarrow> http_request \<Rightarrow> http_request" where
  "WithUserID u r = r\<lparr>rq_user := Some u\<rparr>"

definition RequireAuth :: "'w Authenticator \<Rightarrow> ('w, 'b) handler \<Rightarrow> ('w, 'b) handler" where
  "RequireAuth authr next_handler r w =
     (let header = first_value (rq_header r) ''Authorization'' in
      if \<not> HasPrefix header bearer \<or> length header \<le> length bearer
      then (WriteError 401 ''unauthorized'' ''missing or malformed Authorization header'', w)
      else case au_Authenticate authr (TrimPrefix header bearer) w of
             (Inl _, w1) \<Rightarrow> (WriteError 401 ''unauthorized'' ''invalid or expired access token'', w1)
           | (Inr u, w1) \<Rightarrow> next_handler (WithUserID u r) w1)"

record 'w RoleChecker =
  rc_HasRole :: "string \<Rightarrow> string \<Rightarrow> ('w, bool) io"

definition RequireRole :: "'w RoleChecker \<Rightarrow> string \<Rightarrow> ('w, 'b) handler \<Rightarrow> ('w, 'b) handler" where
  "RequireRole checker role next_handler r w =
     (case rq_user r of
        None \<Rightarrow> (WriteError 401 ''unauthorized'' ''missing authenticated user'', w)
      | Some u \<Rightarrow>
          (case rc_HasRole checker u role w of
             (Inl _, w1) \<Rightarrow> (WriteError 500 ''internal_error'' ''internal error'', w1)
           | (Inr hasRole, w1) \<Rightarrow>
               if \<not> hasRole
               then (WriteError 403 ''forbidden'' (''this action requires the '' @ role @ '' role''), w1)
               else next_handler r w1))"

section \<open>Rate limiting\<close>

text \<open>\<^verbatim>\<open>int(retryAfter.Seconds())\<close> truncates towards zero.\<close>

definition seconds :: "duration \<Rightarrow> int" where
  "seconds d = (if d < 0 then - ((- d) div Second) else d div Second)"

definition RateLimit ::
    "'w RateLimiter \<Rightarrow> (http_request \<Rightarrow> string) \<Rightarrow> int \<Rightarrow> duration \<Rightarrow> ('w, 'b) handler \<Rightarrow> ('w, 'b) handler"
where
  "RateLimit rl keyFn limit window next_handler r w =
     (case Allow rl (keyFn r) limit window w of
        (Inl _, w1) \<Rightarrow> next_handler r w1
      | (Inr (allowed, retryAfter), w1) \<Rightarrow>
          if \<not> allowed
          then ((WriteError 429 ''rate_limited'' ''too many requests, slow down'')
                  \<lparr>rs_header := [(''Retry-After'', Itoa (seconds retryAfter)), content_type]\<rparr>, w1)
          else next_handler r w1)"

fun lastColon_from :: "nat \<Rightarrow> string \<Rightarrow> int" where
  "lastColon_from 0 s = -1"
| "lastColon_from (Suc i) s = (if s ! i = CHR '':'' then int i else lastColon_from i s)"

definition lastColon :: "string \<Rightarrow> int" where
  "lastColon s = lastColon_from (length s) s"

definition ClientIPKey :: "string \<Rightarrow> http_request \<Rightarrow> string" where
  "ClientIPKey pre r =
     (let host = rq_RemoteAddr r; i = lastColon host;
          host' = (if 0 \<le> i then take (nat i) host else host)
      in pre @ '':'' @ host')"

text \<open>\<^verbatim>\<open>lastColon\<close> finds the last one.\<close>

lemma lastColon_from_split:
  "CHR '':'' \<notin> set port \<Longrightarrow> k \<le> length port \<Longrightarrow>
   lastColon_from (length addr + 1 + k) (addr @ CHR '':'' # port) = int (length addr)"
  by (induction k) (auto simp: nth_append, metis Suc_le_lessD nth_mem)

lemma lastColon_split:
  "CHR '':'' \<notin> set port \<Longrightarrow> lastColon (addr @ CHR '':'' # port) = int (length addr)"
  using lastColon_from_split [of port "length port" addr] by (simp add: lastColon_def)

lemma lastColon_from_none: "CHR '':'' \<notin> set s \<Longrightarrow> n \<le> length s \<Longrightarrow> lastColon_from n s = -1"
  by (induction n) (auto, metis Suc_le_lessD nth_mem)

text \<open>
  The key of a client is its address without the port, also for an IPv6
  address full of colons: two connections from one address share a budget, and different
  addresses never do.
\<close>

lemma ClientIPKey_ignores_port:
  assumes "CHR '':'' \<notin> set p" and "CHR '':'' \<notin> set q"
    and "rq_RemoteAddr r = a @ '':'' @ p" and "rq_RemoteAddr s = b @ '':'' @ q"
  shows "ClientIPKey pre r = ClientIPKey pre s \<longleftrightarrow> a = b"
  using lastColon_split [OF assms(1), of a] lastColon_split [OF assms(2), of b] assms(3,4)
  by (simp add: ClientIPKey_def Let_def)

definition from_addr :: "string \<Rightarrow> http_request" where
  "from_addr a = \<lparr>rq_header = Map.empty, rq_query = Map.empty, rq_Host = '''', rq_RemoteAddr = a,
     rq_body = '''', rq_user = None\<rparr>"

lemma ClientIPKey_ignores_port_witness:
  "ClientIPKey ''rl'' (from_addr ''[2001:db8::1]:443'') = ClientIPKey ''rl'' (from_addr ''[2001:db8::1]:8080'')"
  using ClientIPKey_ignores_port [of "''443''" "''8080''" "from_addr ''[2001:db8::1]:443''" "''[2001:db8::1]''"
      "from_addr ''[2001:db8::1]:8080''" "''[2001:db8::1]''" "''rl''"]
  by (simp add: from_addr_def)

section \<open>What lets a request through\<close>

text \<open>A request that the guards do not answer themselves reaches the handler as the user of its token.\<close>

lemma RequireAuth_cases:
  assumes "RequireAuth authr next_handler r w = (res, w')"
  obtains (refused) "rs_status res = 401" "w' = w \<or> (\<exists>t e. au_Authenticate authr t w = (Inl e, w'))"
  | (through) token u w1 where "rq_header r ''Authorization'' = Some (bearer @ token)" "token \<noteq> ''''"
      "au_Authenticate authr token w = (Inr u, w1)" "next_handler (WithUserID u r) w1 = (res, w')"
proof (cases "let header = first_value (rq_header r) ''Authorization'' in
    \<not> HasPrefix header bearer \<or> length header \<le> length bearer")
  case True
  with assms show thesis by (auto simp: RequireAuth_def Let_def WriteError_def intro: refused)
next
  case False
  then obtain token where h: "first_value (rq_header r) ''Authorization'' = bearer @ token" and "token \<noteq> ''''"
    by (auto simp: Let_def elim: HasPrefixE)
  then have "rq_header r ''Authorization'' = Some (bearer @ token)"
    by (auto simp: first_value_def bearer_def split: option.splits)
  then show thesis
    using assms h \<open>token \<noteq> ''''\<close>
    by (auto simp: RequireAuth_def Let_def WriteError_def split: prod.splits sum.splits intro: refused through)
qed

lemma RequireRole_cases:
  assumes "RequireRole checker role next_handler r w = (res, w')"
  obtains (refused) "rs_status res \<in> {401, 403, 500}" "w' = w \<or> (\<exists>u b. rc_HasRole checker u role w = (b, w'))"
  | (through) u w1 where "rq_user r = Some u" "rc_HasRole checker u role w = (Inr True, w1)"
      "next_handler r w1 = (res, w')"
  using assms
  by (auto simp: RequireRole_def WriteError_def split: option.splits prod.splits sum.splits if_splits
      intro: refused through)

end
