(* ===== verification/Ws_Handler.thy ===== *)
theory Ws_Handler
  imports Ws_Conn Middleware
begin

text \<open>
  \<^verbatim>\<open>backend/internal/presence/ws/handler.go\<close>: the handshake of \<^verbatim>\<open>GET /v1/presence/connect\<close>, the loop
  over the client's frames, and what each frame does. gorilla/websocket's upgrade, \<^verbatim>\<open>url.Parse\<close> and
  the JSON decoder are parameters.
\<close>

section \<open>Inbound frames\<close>

record nowPlayingIn =
  np_TrackID :: string
  np_PositionMs :: int

record inboundFrame =
  if_Type :: string
  if_Lat :: "real option"
  if_Lon :: "real option"
  if_AccuracyM :: "real option"
  if_NowPlaying :: "nowPlayingIn option"
  if_Mode :: string

definition TypeUpdate :: string where "TypeUpdate = ''update''"
definition TypeHeartbeat :: string where "TypeHeartbeat = ''heartbeat''"
definition TypeVisibility :: string where "TypeVisibility = ''visibility''"

lemmas type_defs = TypeUpdate_def TypeHeartbeat_def TypeVisibility_def

section \<open>The handshake\<close>

definition newOriginChecker :: "(string \<Rightarrow> string option) \<Rightarrow> string list \<Rightarrow> http_request \<Rightarrow> bool" where
  "newOriginChecker url_host allowedOrigins r =
     (let allowed = map ToLower allowedOrigins;
          origin = first_value (rq_header r) ''Origin''
      in if origin = '''' then True
         else if allowed = [] then (case url_host origin of None \<Rightarrow> False | Some h \<Rightarrow> EqualFold h (rq_Host r))
         else ToLower origin \<in> set allowed)"

definition bearerToken :: "http_request \<Rightarrow> string" where
  "bearerToken r =
     (let h = first_value (rq_header r) ''Authorization'' in
      if HasPrefix h bearer then TrimPrefix h bearer else first_value (rq_query r) ''access_token'')"

record ('w, 'c) Handler =
  hd_hub :: "'w Hub"
  hd_nearby :: "'w NearbyService"
  hd_authr :: "'w Authenticator"
  hd_allowedOrigins :: "string list"
  hd_url_host :: "string \<Rightarrow> string option"
  hd_decode :: "string \<Rightarrow> inboundFrame option"
  hd_conn :: "string \<Rightarrow> 'c \<Rightarrow> 'c Conn \<times> 'c" \<comment> \<open>\<^verbatim>\<open>newConn\<close> on the upgraded socket\<close>

datatype handshake = Refused_with int string string | Bad_upgrade | Upgraded string

text \<open>
  What \<^verbatim>\<open>ServeHTTP\<close> does up to the upgrade. The upgrader refuses a request whose origin its check
  refuses, and may refuse for reasons of its own (\<open>upgradable\<close>).
\<close>

definition ServeHTTP_handshake ::
    "('w, 'c) Handler \<Rightarrow> bool \<Rightarrow> http_request \<Rightarrow> 'w \<Rightarrow> handshake \<times> 'w" where
  "ServeHTTP_handshake h upgradable r w =
     (let token = bearerToken r in
      if token = '''' then (Refused_with 401 ''unauthorized'' ''missing access token'', w)
      else case au_Authenticate (hd_authr h) token w of
        (Inl _, w1) \<Rightarrow> (Refused_with 401 ''unauthorized'' ''invalid or expired access token'', w1)
      | (Inr userID, w1) \<Rightarrow>
          (case CheckConsent (hd_nearby h) userID w1 of
             (Inl e, w2) \<Rightarrow>
               (if errors_Is e ErrConsentRequired
                then (Refused_with 403 ''consent_required'' ''proximity discovery consent has not been granted'', w2)
                else if errors_Is e ErrConsentExpired
                then (Refused_with 403 ''consent_expired''
                        ''proximity discovery consent has expired and must be renewed'', w2)
                else (Refused_with 500 ''internal_error'' ''internal error'', w2))
           | (Inr _, w2) \<Rightarrow>
               if upgradable \<and> newOriginChecker (hd_url_host h) (hd_allowedOrigins h) r
               then (Upgraded userID, w2) else (Bad_upgrade, w2)))"

section \<open>The frames of a connection\<close>

text \<open>\<^verbatim>\<open>True\<close> when the reader panicked, which it does on a closed queue.\<close>

definition submit :: "sent \<times> 'c hub \<Rightarrow> ('w, 'c) live \<Rightarrow> bool \<times> ('w, 'c) live" where
  "submit x s = (case x of (r, hub') \<Rightarrow> (r = Panic, s\<lparr>lv_hub := hub'\<rparr>))"

definition handleInbound ::
    "('w, 'c) Handler \<Rightarrow> 'c Conn \<Rightarrow> inboundFrame \<Rightarrow> ('w, 'c) live \<Rightarrow> bool \<times> ('w, 'c) live" where
  "handleInbound h c f s =
     (if if_Type f = TypeUpdate then
        (case (if_Lat f, if_Lon f) of
           (Some lat, Some lon) \<Rightarrow>
             (case AllowUpdateFrame (hd_hub h) (cn_UserID c) (lv_env s) of
                (Inr True, w) \<Rightarrow>
                  (let trackID = (case if_NowPlaying f of None \<Rightarrow> '''' | Some np \<Rightarrow> np_TrackID np)
                   in submit (EnqueueUpdate c lat lon trackID (lv_hub s)) (s\<lparr>lv_env := w\<rparr>))
              | (_, w) \<Rightarrow> (False, s\<lparr>lv_env := w\<rparr>))
         | _ \<Rightarrow> (False, s))
      else if if_Type f = TypeHeartbeat then submit (EnqueueHeartbeat c (lv_hub s)) s
      else if if_Type f = TypeVisibility
      then (False, s\<lparr>lv_env := snd (SetVisibility (hd_nearby h) (cn_UserID c) (if_Mode f) (lv_env s))\<rparr>)
      else (False, s))"

text \<open>The messages until the first read error; one that does not decode is skipped.\<close>

fun readLoop ::
    "('w, 'c) Handler \<Rightarrow> 'c Conn \<Rightarrow> string list \<Rightarrow> ('w, 'c) live \<Rightarrow> bool \<times> ('w, 'c) live" where
  "readLoop h c [] s = (False, s)"
| "readLoop h c (data # rest) s =
     (case hd_decode h data of
        None \<Rightarrow> readLoop h c rest s
      | Some f \<Rightarrow> (case handleInbound h c f s of
                     (True, s1) \<Rightarrow> (True, s1)
                   | (False, s1) \<Rightarrow> readLoop h c rest s1))"

text \<open>
  The whole handler when nothing else runs: the writer's goroutine, the workers and the other
  connections interleave with it at each call. A panic skips what follows the loop, which is not
  deferred.
\<close>

definition ServeHTTP ::
    "('w, 'c) Handler \<Rightarrow> bool \<Rightarrow> http_request \<Rightarrow> string list \<Rightarrow> ('w, 'c) live \<Rightarrow> handshake \<times> ('w, 'c) live"
where
  "ServeHTTP h upgradable r messages s =
     (case ServeHTTP_handshake h upgradable r (lv_env s) of
        (Upgraded userID, w) \<Rightarrow>
          (case hd_conn h userID (lv_wire s) of
             (c, wire) \<Rightarrow>
               (case readLoop h c messages (Register c (s\<lparr>lv_env := w, lv_wire := wire\<rparr>)) of
                  (True, s1) \<Rightarrow> (Upgraded userID, s1)
                | (False, s1) \<Rightarrow>
                    (let s2 = Unregister (hd_hub h) c s1
                     in (Upgraded userID, s2\<lparr>lv_wire := cn_Close c (lv_wire s2)\<rparr>))))
      | (other, w) \<Rightarrow> (other, s\<lparr>lv_env := w\<rparr>))"

text \<open>The connection of \<^verbatim>\<open>newConn\<close>: a fresh cell of the store of connections.\<close>

record sockets =
  sk_next :: nat
  sk_conn :: "nat \<Rightarrow> conn"

definition ws_conn :: "nat \<Rightarrow> string \<Rightarrow> sockets Conn" where
  "ws_conn ref userID = \<lparr>cn_ref = ref, cn_UserID = userID,
     cn_Send = (\<lambda>f k. case conn_Send f (sk_conn k ref) of (e, c) \<Rightarrow> (e, k\<lparr>sk_conn := (sk_conn k)(ref := c)\<rparr>)),
     cn_Close = (\<lambda>k. k\<lparr>sk_conn := (sk_conn k)(ref := conn_close (sk_conn k ref))\<rparr>)\<rparr>"

definition open_socket :: "string \<Rightarrow> sockets \<Rightarrow> sockets Conn \<times> sockets" where
  "open_socket userID k =
     (ws_conn (sk_next k) userID,
      \<lparr>sk_next = Suc (sk_next k), sk_conn = (sk_conn k)(sk_next k := newConn)\<rparr>)"

section \<open>Properties of the handshake and the loop\<close>

lemma handshake_Upgraded:
  assumes "ServeHTTP_handshake h upgradable r w = (Upgraded u, w')"
  obtains w1 where "bearerToken r \<noteq> ''''" and "au_Authenticate (hd_authr h) (bearerToken r) w = (Inr u, w1)"
    and "CheckConsent (hd_nearby h) u w1 = (Inr (), w')"
    and "newOriginChecker (hd_url_host h) (hd_allowedOrigins h) r"
  using assms unfolding ServeHTTP_handshake_def
  by (auto simp: Let_def split: if_splits prod.splits sum.splits)

text \<open>A frame leaves the registry, the counters of deliveries and the transport alone.\<close>

lemma enqueue_frame:
  "enqueue job hub = (r, hub') \<Longrightarrow> conns hub' = conns hub \<and> wg hub' = wg hub \<and> ingest_cap hub' = ingest_cap hub
     \<and> ingest_closed hub' = ingest_closed hub
     \<and> (ingest hub' = ingest hub \<or> ingest hub' = ingest hub @ [job])"
  by (auto simp: enqueue_def split: if_splits)

text \<open>Every job that a frame of a connection adds is that connection's own.\<close>

lemma handleInbound_jobs:
  assumes "handleInbound h c f s = (p, s')"
  shows "lv_wire s' = lv_wire s \<and> conns (lv_hub s') = conns (lv_hub s)
    \<and> (\<exists>js. ingest (lv_hub s') = ingest (lv_hub s) @ js \<and> length js \<le> 1 \<and> (\<forall>j \<in> set js. jb_conn j = c))"
  using assms
  by (auto simp: handleInbound_def submit_def EnqueueUpdate_def EnqueueHeartbeat_def enqueue_def Let_def
      split: if_splits option.splits prod.splits sum.splits bool.splits)

end
