(* ===== verification/Feed.thy ===== *)
theory Feed
  imports World Ws_Handler
begin

text \<open>
  The hub and the handler of the live feed as \<^verbatim>\<open>run\<close> of \<^verbatim>\<open>cmd/presence-server/main.go\<close> builds them, over
  the query engine of \<open>World\<close>.
\<close>

record feed_config =
  fc_PresenceTTL :: duration
  fc_PresenceWorkers :: nat
  fc_PresenceIngestBuffer :: nat
  fc_PresenceUpdateRateLimit :: int
  fc_PresenceUpdateRateWindow :: duration
  fc_CORSAllowedOrigins :: "string list"

definition presence_server_hub ::
    "('r, 'i, 'x) externals \<Rightarrow> feed_config \<Rightarrow> ('r, 'i, 'x) world Hub \<times> 'c hub" where
  "presence_server_hub ex fc =
     NewHubWithLimit (presence_server_nearby ex) (fc_PresenceTTL fc) (fc_PresenceWorkers fc)
       (fc_PresenceIngestBuffer fc) (Some (world_limiter (ex_redis ex)))
       (fc_PresenceUpdateRateLimit fc) (fc_PresenceUpdateRateWindow fc)"

definition feed_hub :: "('r, 'i, 'x) externals \<Rightarrow> feed_config \<Rightarrow> ('r, 'i, 'x) world Hub" where
  "feed_hub ex fc = fst (presence_server_hub ex fc :: _ \<times> unit hub)"

definition presence_server_handler ::
    "('r, 'i, 'x) externals \<Rightarrow> deployment \<Rightarrow> feed_config \<Rightarrow> (string \<Rightarrow> string option)
     \<Rightarrow> (string \<Rightarrow> inboundFrame option) \<Rightarrow> (('r, 'i, 'x) world, sockets) Handler" where
  "presence_server_handler ex cfg fc url_host decode = \<lparr>
     hd_hub = feed_hub ex fc, hd_nearby = presence_server_nearby ex,
     hd_authr = \<lparr>au_Authenticate = Authenticate (server_signer ex cfg)\<rparr>,
     hd_allowedOrigins = fc_CORSAllowedOrigins fc, hd_url_host = url_host, hd_decode = decode,
     hd_conn = open_socket\<rparr>"

lemma feed_hub_nearby [simp]: "hb_nearby (feed_hub ex fc) = presence_server_nearby ex"
  by (simp add: feed_hub_def presence_server_hub_def NewHubWithLimit_def Let_def)

end
