(* ===== verification/Presence_Claims.thy ===== *)
theory Presence_Claims
  imports Samples Feed
begin

text \<open>
  What the presence feature promises, over the two wired processes of \<^verbatim>\<open>cmd/server\<close> and
  \<^verbatim>\<open>cmd/presence-server\<close>, with a small world on which every claim is run.
\<close>

section \<open>Frames of the feed\<close>

text \<open>A job is an update or a heartbeat of the user of its connection.\<close>

abbreviation job_user :: "'c ingestJob \<Rightarrow> string" where
  "job_user job \<equiv> cn_UserID (jb_conn job)"

lemma answer_job_cases:
  "answer_job h job = ApplyUpdate (hb_nearby h) (job_user job) (jb_lat job) (jb_lon job) (jb_trackID job) (hb_presenceTTL h)
   \<or> answer_job h job = ApplyHeartbeat (hb_nearby h) (job_user job) (hb_presenceTTL h)"
  by (cases "jb_kind job") (simp_all add: answer_job_def)

lemma feed_answered:
  assumes "answer_job (feed_hub ex fc) job w = (Inr res, w')"
  shows "\<exists>now \<ge> clock_reading w. HasActiveConsent (on_record (durable w) (job_user job)) now
    \<and> (\<forall>r \<in> set res. permitted (durable w) (job_user job) now r)
    \<and> (\<exists>es. list_all2 (accounts (job_user job) now) es res \<and> durable w' = audited (durable w) es)"
  using answer_job_cases [of "feed_hub ex fc" job] assms
    live_feed.ApplyUpdate_answered live_feed.ApplyHeartbeat_answered
  by (fastforce simp: live_feed.answered_def)

lemma feed_moves:
  assumes "answer_job (feed_hub ex fc) job w = (r, w')"
  shows "only_audits (durable w) (durable w')"
  using answer_job_cases [of "feed_hub ex fc" job] assms movesD [OF live_feed.frames_move(1)]
    movesD [OF live_feed.frames_move(2)]
  by fastforce

text \<open>
  C1. Whatever a frame of the live feed is answered with is permitted by
  what is on record when the frame is processed: the requester's consent is live, and each user
  shown is somebody else, not blocked in either direction, not paused, not invisible, with live
  consent, a mutual follow if visible to friends only, within the radius of both; a name or an
  avatar is there only for a mutual follow or an open profile, and the distance is a bucket.
\<close>

lemma frame_discloses_only_permitted:
  assumes "answer_job (feed_hub ex fc) job w = (Inr res, w')"
  shows "\<exists>now \<ge> clock_reading w. HasActiveConsent (on_record (durable w) (job_user job)) now
    \<and> (\<forall>r \<in> set res. permitted (durable w) (job_user job) now r)"
  using feed_answered [OF assms] by blast

text \<open>
  C4. A frame changes nothing in the database but to append to the audit log,
  whatever fails on the way, and a frame that is answered has appended exactly one entry per user
  shown, in order, with the requester, the target, the bucket and the instant.
\<close>

lemma frame_audits_disclosures:
  assumes "answer_job (feed_hub ex fc) job w = (r, w')"
  shows "\<exists>es. durable w' = audited (durable w) es
    \<and> (\<forall>res. r = Inr res \<longrightarrow> (\<exists>now \<ge> clock_reading w. list_all2 (accounts (job_user job) now) es res))"
proof (cases r)
  case (Inl e)
  with feed_moves [OF assms] show ?thesis by (auto simp: only_audits_def)
next
  case (Inr res)
  with feed_answered [of ex fc job w res w'] assms show ?thesis by blast
qed

lemma settings_lost:
  assumes "psr_Get (ns_settings (presence_server_nearby ex)) u w = (Inl e, w')" and "\<not> errors_Is e ErrSettingsNotFound"
  shows "e = pg_lost \<and> pg_script (w_presence w) \<noteq> []"
proof -
  from assms(1) have "pg_settings_Get u (w_presence w) = (Inl e, w_presence w')"
    by (auto simp: presence_server_nearby_def world_settings_def pg_settings_repo_def dest: on_part(1))
  then have "pg_run (\<lambda>_ tb. (Inr (user_privacy_settings tb u), tb)) (w_presence w) = (Inl e, w_presence w')"
    unfolding pg_settings_Get_def using assms(2) by (auto elim!: bindE_InlE split: option.splits)
  from pg_run_lost [OF this] show ?thesis by auto
qed

text \<open>
  C9. The frame of a user without consent on record, or with consent that has expired by the clock, is
  not processed: no coordinate or track it carries makes a difference to the state of the environment,
  and nothing in the database changes. Unless the connection to the database is lost while the settings
  are read, the connection is sent a drain frame that tells which of the two it is, and is closed.
\<close>

lemma frame_without_consent_evicts:
  assumes "\<not> HasActiveConsent (on_record (durable (lv_env s)) (job_user job)) (clock_reading (lv_env s))"
  shows "durable (lv_env (process (feed_hub ex fc) job s)) = durable (lv_env s)
    \<and> lv_env (process (feed_hub ex fc) (job\<lparr>jb_lat := lat, jb_lon := lon, jb_trackID := trk\<rparr>) s)
        = lv_env (process (feed_hub ex fc) job s)
    \<and> (fst (answer_job (feed_hub ex fc) job (lv_env s))
          = Inl (Sentinel (if ProximityConsentEnabled (on_record (durable (lv_env s)) (job_user job))
                           then ErrConsentExpired else ErrConsentRequired))
        \<and> lv_wire (process (feed_hub ex fc) job s) =
            cn_Close (jb_conn job) (snd (cn_Send (jb_conn job)
              \<lparr>fr_Type = FrameDrain, fr_Users = [],
               fr_ReconnectHint = (if ProximityConsentEnabled (on_record (durable (lv_env s)) (job_user job))
                                   then ''consent_expired'' else ''consent_required'')\<rparr> (lv_wire s)))
       \<or> fst (answer_job (feed_hub ex fc) job (lv_env s)) = Inl (Wrapped ''presence: get settings'' pg_lost)
        \<and> pg_script (w_presence (lv_env s)) \<noteq> [])"
proof -
  let ?on = "ProximityConsentEnabled (on_record (durable (lv_env s)) (job_user job))"
  have none: "\<not> HasActiveConsent (on_record (durable (lv_env s)) (job_user job)) q" if "clock_reading (lv_env s) \<le> q" for q
    using assms that by (auto simp: HasActiveConsent_def split: if_splits option.splits)
  obtain e w1 where w1: "durable w1 = durable (lv_env s)"
    and up: "\<And>lat lon trk ttl. ApplyUpdate (presence_server_nearby ex) (job_user job) lat lon trk ttl (lv_env s) = (Inl e, w1)"
    and hb: "\<And>ttl. ApplyHeartbeat (presence_server_nearby ex) (job_user job) ttl (lv_env s) = (Inl e, w1)"
    and e: "e = Sentinel (if ?on then ErrConsentExpired else ErrConsentRequired)
      \<or> (\<exists>e'. e = Wrapped ''presence: get settings'' e'
           \<and> psr_Get (ns_settings (presence_server_nearby ex)) (job_user job) (lv_env s) = (Inl e', w1)
           \<and> \<not> errors_Is e' ErrSettingsNotFound)"
    by (rule live_feed.consent_missing [where ex = ex, OF none], assumption, rule that; assumption)
  have ans: "answer_job (feed_hub ex fc) (job\<lparr>jb_lat := x, jb_lon := y, jb_trackID := z\<rparr>) (lv_env s) = (Inl e, w1)"
    for x y z by (simp add: answer_job_def up hb split: jobKind.split)
  from ans [where x = "jb_lat job" and y = "jb_lon job" and z = "jb_trackID job"]
  have ans0: "answer_job (feed_hub ex fc) job (lv_env s) = (Inl e, w1)" by simp
  have env: "lv_env (process (feed_hub ex fc) (job\<lparr>jb_lat := x, jb_lon := y, jb_trackID := z\<rparr>) s) = w1" for x y z
    by (simp add: process_def ans Let_def)
  from env [where x = "jb_lat job" and y = "jb_lon job" and z = "jb_trackID job"]
  have env0: "lv_env (process (feed_hub ex fc) job s) = w1" by simp
  have wire: "lv_wire (process (feed_hub ex fc) job s) =
      cn_Close (jb_conn job) (snd (cn_Send (jb_conn job) \<lparr>fr_Type = FrameDrain, fr_Users = [],
        fr_ReconnectHint = (if ?on then ''consent_expired'' else ''consent_required'')\<rparr> (lv_wire s)))"
    if "e = Sentinel (if ?on then ErrConsentExpired else ErrConsentRequired)"
    using process_evicted [OF ans0] that by (simp add: consent_error_def consent_hint_def split: if_splits)
  from e show ?thesis
  proof (elim disjE exE conjE)
    assume e: "e = Sentinel (if ?on then ErrConsentExpired else ErrConsentRequired)"
    show ?thesis by (intro conjI disjI1) (simp_all add: w1 env env0 ans0 wire [OF e], simp add: e)
  next
    fix e'
    assume e: "e = Wrapped ''presence: get settings'' e'"
      and lost: "psr_Get (ns_settings (presence_server_nearby ex)) (job_user job) (lv_env s) = (Inl e', w1)"
        "\<not> errors_Is e' ErrSettingsNotFound"
    show ?thesis by (intro conjI disjI2) (simp_all add: w1 env env0 ans0 e settings_lost [OF lost])
  qed
qed

text \<open>
  C3. From the moment \<^verbatim>\<open>RevokeConsent\<close> has returned in the core process, as long as the
  record is not changed again: no frame of the user is answered by the live feed and no frame of
  anybody else is answered with the user, although the two processes share nothing but the stores.
\<close>

lemma revoked_user_gone:
  assumes "RevokeConsent (server_settings ex cfg) u w = (Inr s, w1)"
    and "on_record (durable w2) u = on_record (durable w1) u"
    and "answer_job (feed_hub ex fc) job w2 = (Inr res, w3)"
  shows "job_user job \<noteq> u \<and> u \<notin> nr_UserID ` set res"
proof -
  have "\<not> HasActiveConsent (on_record (durable w2) u) now" for now
    using core_settings.RevokeConsent_done [OF assms(1)] assms(2) by (simp add: HasActiveConsent_def)
  with feed_answered [OF assms(3)] show ?thesis
    by (auto simp: permitted_def may_see_def)
qed

text \<open>
  C7. Consent is granted only to a user whose TOTP factor is verified at that
  moment; it then lasts the six months from an instant not before the call, and nothing else of the
  settings changes.
\<close>

lemma grant_needs_verified_factor:
  assumes "GrantConsent (server_settings ex cfg) u w = (Inr s, w')"
  shows "(\<exists>secret t. factor_rows w u = Some (secret, Some t))
    \<and> (\<exists>now \<ge> clock_reading w. on_record (durable w') u = (on_record (durable w) u)
          \<lparr>ProximityConsentEnabled := True, ProximityConsentTS := Some now,
           ProximityConsentRenewDue := Some (now + ConsentValidityPeriod)\<rparr>)
    \<and> (\<forall>v. v \<noteq> u \<longrightarrow> on_record (durable w') v = on_record (durable w) v)"
proof -
  note granted = core_settings.GrantConsent_done [OF assms]
  then obtain w1 where "mfa_HasVerifiedMFA (ss_mfa (server_settings ex cfg)) u w = (Inr True, w1)" by blast
  then have "mfa_HasVerified (server_challenger ex) u w = (Inr True, w1)"
    by (simp add: server_settings_def server_auth_def HasVerifiedMFA_def split: if_splits)
  from core_factors.HasVerified_iff [OF this] have "\<exists>v t. factor_rows w u = Some (v, Some t)" by simp
  moreover from granted obtain now where "clock_reading w \<le> now"
    and "erased s = (on_record (durable w) u)\<lparr>ProximityConsentEnabled := True, ProximityConsentTS := Some now,
           ProximityConsentRenewDue := Some (now + ConsentValidityPeriod)\<rparr>" by blast
  ultimately show ?thesis using granted by (auto simp: on_record_def)
qed

text \<open>
  C8. Whatever a settings update is given and however it ends, the stored rows
  stay valid (a closed list of radii, visibilities and reveal levels), no other user's row changes,
  and the consent of the user is what it was: only \<^verbatim>\<open>GrantConsent\<close> and \<^verbatim>\<open>RevokeConsent\<close> touch it. An
  input with an invalid field is refused and changes nothing.
\<close>

lemma update_keeps_rows_valid:
  assumes "SettingsService_Update (server_settings ex cfg) u inp w = (r, w')" and "rows_valid (durable w)"
  shows "rows_valid (durable w')
    \<and> (\<forall>v. v \<noteq> u \<longrightarrow> on_record (durable w') v = on_record (durable w) v)
    \<and> same_consent (on_record (durable w') u) (on_record (durable w) u)
    \<and> (\<not> input_valid inp \<longrightarrow> (\<exists>e. r = Inl e) \<and> durable w' = durable w)"
proof -
  have "valid_settings (merged inp (on_record (durable w) u))" if "input_valid inp"
    by (rule merged_valid [OF on_record_valid [OF assms(2)] that])
  with core_settings.Update_any [OF assms(1)] assms(2) core_settings.Update_refused [OF _ assms(1)]
  show ?thesis
    by (auto simp: rows_valid_upsert merged_same_consent) (simp_all add: same_consent_def)
qed

section \<open>How often a user is shown\<close>

text \<open>
  The frames of all users, one after the other, among anything that leaves the pair's counter to
  age. User identifiers are UUIDs: they hold no colon. \<open>feed_run ... k w\<close>: in the frames up to \<open>w\<close> the
  requester \<open>a\<close> was shown the user \<open>t\<close> \<open>k\<close> times.
\<close>

inductive feed_run ::
    "('r, 'i, 'x) externals \<Rightarrow> feed_config \<Rightarrow> ('r \<Rightarrow> rstate) \<Rightarrow> string \<Rightarrow> string \<Rightarrow> ('r, 'i, 'x) world
     \<Rightarrow> nat \<Rightarrow> ('r, 'i, 'x) world \<Rightarrow> bool"
  for ex fc view a t w0
where
  start: "feed_run ex fc view a t w0 0 w0"
| frame: "feed_run ex fc view a t w0 k w \<Longrightarrow> CHR '':'' \<notin> set (job_user job) \<Longrightarrow>
    answer_job (feed_hub ex fc) (job :: sockets ingestJob) w = (r, w') \<Longrightarrow>
    feed_run ex fc view a t w0 (k + (if job_user job = a then shown_in t r else 0)) w'"
| elsewhere: "feed_run ex fc view a t w0 k w \<Longrightarrow>
    passes_by (pairKey a t) (view (w_redis w)) (view (w_redis w')) \<Longrightarrow>
    feed_run ex fc view a t w0 k w'"

lemma feed_spends:
  assumes "redis_server (ex_redis ex) view rounded rdist" and "CHR '':'' \<notin> set a"
    and "CHR '':'' \<notin> set (job_user job)" and "answer_job (feed_hub ex fc) job w = (r, w')"
  shows "\<exists>g. pair_spent (ex_redis ex) view a t w g w' \<and> (if job_user job = a then shown_in t r else 0) \<le> g"
proof -
  have budget: "pair_budget (presence_server_nearby ex) (pair_spent (ex_redis ex) view a t) a t"
    by (rule redis_server.production_budget [OF assms(1) refl])
  show ?thesis
  proof (cases "job_user job = a")
    case True
    then show ?thesis
      using answer_job_cases [of "feed_hub ex fc" job] assms(4)
        pair_budget.ApplyUpdate_budget [OF budget] pair_budget.ApplyHeartbeat_budget [OF budget]
      by (auto simp: pair_budget.within_budget_def [OF budget])
  next
    case False
    then have apart: "pairKey (job_user job) v \<noteq> pairKey a t" for v
      using pairKey_inj [OF assms(3,2)] by simp
    have "pair_spent (ex_redis ex) view a t w 0 w'"
      using answer_job_cases [of "feed_hub ex fc" job] assms(4)
        movesD [OF pair_budget.frames_of_others(1) [OF budget apart]]
        movesD [OF pair_budget.frames_of_others(2) [OF budget apart]]
      by fastforce
    with False show ?thesis by auto
  qed
qed

lemma feed_run_granted:
  assumes "redis_server (ex_redis ex) view rounded rdist" and "CHR '':'' \<notin> set a"
    and "feed_run ex fc view a t w0 k w"
  shows "\<exists>g. limiter_run (ex_redis ex) view (pairKey a t) PairQueryLimit PairQueryWindow (w_redis w0) g (w_redis w)
    \<and> k \<le> g"
  using assms(3)
proof (induction rule: feed_run.induct)
  case start
  show ?case by (intro exI [of _ 0] conjI limiter_run.start) simp
next
  case (frame k w job r w')
  obtain g where g: "limiter_run (ex_redis ex) view (pairKey a t) PairQueryLimit PairQueryWindow (w_redis w0) g (w_redis w)"
    "k \<le> g" using frame.IH by blast
  from feed_spends [OF assms(1,2) frame.hyps(2,3)] obtain h
    where "pair_spent (ex_redis ex) view a t w h w'" "(if job_user job = a then shown_in t r else 0) \<le> h"
    by blast
  with g show ?case unfolding pair_spent_def by (meson add_mono)
next
  case (elsewhere k w w')
  then obtain g where "limiter_run (ex_redis ex) view (pairKey a t) PairQueryLimit PairQueryWindow (w_redis w0) g (w_redis w)"
    "k \<le> g" by blast
  with limiter_run.elsewhere [OF this(1) elsewhere.hyps(2)] show ?case by blast
qed

text \<open>
  C2. Against triangulation: from a moment at which the pair has no counter,
  and as long as less than thirty seconds have gone by on the server's clock, all frames of all
  users together show the requester the same other user at most once, whatever Redis answers, loses
  or delays.
\<close>

lemma pair_shown_once_per_window:
  assumes "redis_server (ex_redis ex) view rounded rdist"
    and "feed_run ex fc view a t w0 k w" and "CHR '':'' \<notin> set a"
    and "rs_kv (view (w_redis w0)) (pairKey a t) = None"
    and "rs_now (view (w_redis w)) < rs_now (view (w_redis w0)) + 30 * Second"
  shows "k \<le> 1"
proof -
  obtain g where g: "limiter_run (ex_redis ex) view (pairKey a t) PairQueryLimit PairQueryWindow (w_redis w0) g (w_redis w)"
    "k \<le> g" using feed_run_granted [OF assms(1,3,2)] by blast
  have "whole_seconds PairQueryWindow = 30 * Second" "0 < PairQueryWindow"
    by (simp_all add: PairQueryWindow_def whole_seconds_def Second_def)
  with limiter_window [OF assms(1) g(1)] assms(4,5) g(2) show ?thesis
    by (simp add: PairQueryLimit_def)
qed

section \<open>Connections and the shared index\<close>

text \<open>
  C10. A connection is upgraded only with an access token that the JWT
  library accepts for the configured issuer at an instant not before the request, whose subject
  has live consent on record.
\<close>

lemma handshake_needs_token_and_consent:
  assumes "ServeHTTP_handshake (presence_server_handler ex cfg fc url_host decode) upgradable rq w = (Upgraded u, w')"
  shows "\<exists>now c. clock_reading w \<le> now
    \<and> jwt_parse (ex_jwt ex) (bearerToken rq) (dp_JWTIssuer cfg) now = Inr c \<and> cl_Subject c = u \<and> u \<noteq> ''''
    \<and> HasActiveConsent (on_record (durable w) u) now \<and> durable w' = durable w"
proof -
  from assms obtain w1 where auth: "Authenticate (server_signer ex cfg) (bearerToken rq) w = (Inr u, w1)"
    and con: "CheckConsent (presence_server_nearby ex) u w1 = (Inr (), w')"
    by (rule handshake_Upgraded) (simp add: presence_server_handler_def)
  from auth obtain now c where clk: "Now (world_clock :: ('a, 'b, 'c) world Clock) w = (now, w1)"
    and c: "jwt_parse (ex_jwt ex) (bearerToken rq) (dp_JWTIssuer cfg) now = Inr c" "cl_Subject c = u" "u \<noteq> ''''"
    by (auto simp: Authenticate_def server_signer_def split: sum.splits parse_failure.splits if_splits)
  from con obtain st w2 now2 where get: "settingsOrDefault (presence_server_nearby ex) u w1 = (Inr st, w2)"
    and clk2: "Now (ns_clock (presence_server_nearby ex)) w2 = (now2, w')"
    and ok: "HasActiveConsent st now2"
    by (auto simp: CheckConsent_def live_feed.checkConsent_done)
  note m = monotone_clock.Now_reading [OF world_clock_laws clk] monotone_clock.Now_forward [OF world_clock_laws clk]
  have d1: "durable w1 = durable w" using keepsD [OF keeps_durable(3)] clk by (simp add: world_clock_def)
  have "now \<le> now2"
    using m live_feed.Now_forward [OF clk2] keepsD [OF live_feed.settingsOrDefault_reading get] by simp
  then have "HasActiveConsent st now" by (rule HasActiveConsent_earlier [OF ok])
  moreover note live_feed.settingsOrDefault_on_record [OF get]
  moreover have "durable w' = durable w2" by (rule keepsD [OF live_feed.Now_keeps clk2])
  ultimately show ?thesis using m c d1 by (metis HasActiveConsent_erased)
qed

text \<open>
  C18. When a user reconnects before the old connection is noticed to be
  gone, closing the old one leaves the new connection registered but takes the user out of the index
  of live positions, so the connected user is invisible until the next update.
\<close>

lemma stale_close_hides_live_user:
  assumes "redis_server (ex_redis ex) view rounded rdist"
    and "conns (lv_hub s) (cn_UserID old) = Some new" and "cn_ref new \<noteq> cn_ref old"
    and "fst (Disconnect (presence_server_nearby ex) (cn_UserID old) (lv_env s)) = Inr ()"
  shows "conns (lv_hub (Unregister (feed_hub ex fc) old s)) (cn_UserID old) = Some new
    \<and> map_of (rs_geo (view (w_redis (lv_env (Unregister (feed_hub ex fc) old s)))) geoKey) (cn_UserID old) = None"
proof -
  let ?w' = "lv_env (Unregister (feed_hub ex fc) old s)"
  note stale = Unregister_stale [OF assms(2,3), of "feed_hub ex fc"]
  have "geo_Remove (world_geo (ex_redis ex)) (cn_UserID old) (lv_env s) = (Inr (), ?w')"
    using assms(4) stale by (simp add: Disconnect_def presence_server_nearby_def prod_eq_iff)
  then have "Store_Remove (ex_redis ex) (cn_UserID old) (w_redis (lv_env s)) = (Inr (), w_redis ?w')"
    by (simp add: world_geo_def Store_def on_part(4))
  from redis_server.Store_Remove_gone [OF assms(1) this] stale assms(2) show ?thesis by simp
qed

section \<open>The claims at work\<close>

definition sample_fc :: feed_config where
  "sample_fc = \<lparr>fc_PresenceTTL = 90 * Second, fc_PresenceWorkers = 1, fc_PresenceIngestBuffer = 1,
     fc_PresenceUpdateRateLimit = 12, fc_PresenceUpdateRateWindow = Minute, fc_CORSAllowedOrigins = []\<rparr>"

definition sample_job :: "string \<Rightarrow> sockets ingestJob" where
  "sample_job u = \<lparr>jb_kind = jobUpdate, jb_conn = ws_conn 0 u, jb_lat = 10, jb_lon = 20, jb_trackID = ''t''\<rparr>"

definition sample_live :: "((mem, Sequential, nat) world, sockets) live" where
  "sample_live = start_live (presence_server_hub sample_ex sample_fc) sample_world
     \<lparr>sk_next = 1, sk_conn = (\<lambda>_. newConn)\<rparr>"

lemma sample_user [simp]: "job_user (sample_job u) = u"
  by (simp add: sample_job_def ws_conn_def)

lemma sample_answer:
  obtains w' where "answer_job (feed_hub sample_ex sample_fc) (sample_job ''a'') sample_world = (Inr [sample_result], w')"
    and "rs_now (contents (w_redis w')) = 0"
proof -
  have "hb_presenceTTL (feed_hub sample_ex sample_fc) = 90 * Second"
    by (simp add: feed_hub_def presence_server_hub_def NewHubWithLimit_def Let_def sample_fc_def)
  then show thesis
    using sample_update that by (auto simp: answer_job_def sample_job_def ws_conn_def)
qed

lemma frame_discloses_only_permitted_witness:
  "\<exists>w'. answer_job (feed_hub sample_ex sample_fc) (sample_job ''a'') sample_world = (Inr [sample_result], w')
     \<and> (\<exists>now \<ge> clock_reading sample_world. permitted (durable sample_world) ''a'' now sample_result)"
proof -
  obtain w' where run: "answer_job (feed_hub sample_ex sample_fc) (sample_job ''a'') sample_world = (Inr [sample_result], w')"
    by (rule sample_answer)
  from frame_discloses_only_permitted [OF run] run show ?thesis by auto
qed

lemma frame_audits_disclosures_witness:
  "\<exists>w' e. answer_job (feed_hub sample_ex sample_fc) (sample_job ''a'') sample_world = (Inr [sample_result], w')
     \<and> durable w' = audited (durable sample_world) [e] \<and> TargetID e = ''b''"
proof -
  obtain w' where run: "answer_job (feed_hub sample_ex sample_fc) (sample_job ''a'') sample_world = (Inr [sample_result], w')"
    by (rule sample_answer)
  from frame_audits_disclosures [OF run] obtain es now where
    "durable w' = audited (durable sample_world) es" "list_all2 (accounts ''a'' now) es [sample_result]" by auto
  with run show ?thesis
    by (auto simp: list_all2_Cons2 accounts_def sample_result_def)
qed

lemma sample_unknown: "\<not> ProximityConsentEnabled (on_record (durable sample_world) ''c'')"
  by (simp add: on_record_def durable_def pg_view_def tables_view_def sample_world_def pg_start_def
      sample_tables_def DefaultPrivacySettings_def erased_def)

lemma sample_refused:
  "fst (answer_job (feed_hub sample_ex sample_fc) (sample_job ''c'') sample_world) = Inl (Sentinel ErrConsentRequired)"
  unfolding answer_job_def sample_job_def ws_conn_def ApplyUpdate_def
  by (simp add: sample_eval sample_world_def) (simp add: DefaultPrivacySettings_def)

lemma frame_without_consent_evicts_witness:
  "out (sk_conn (lv_wire (process (feed_hub sample_ex sample_fc) (sample_job ''c'') sample_live)) 0)
     = [\<lparr>fr_Type = FrameDrain, fr_Users = [], fr_ReconnectHint = ''consent_required''\<rparr>]
   \<and> shutdown (sk_conn (lv_wire (process (feed_hub sample_ex sample_fc) (sample_job ''c'') sample_live)) 0)"
proof -
  have live: "lv_env sample_live = sample_world" "lv_wire sample_live = \<lparr>sk_next = 1, sk_conn = (\<lambda>_. newConn)\<rparr>"
    by (simp_all add: sample_live_def start_live_def)
  have off: "\<not> ProximityConsentEnabled (on_record (durable (lv_env sample_live)) (job_user (sample_job ''c'')))"
    using sample_unknown by (simp add: live)
  then have "\<not> HasActiveConsent (on_record (durable (lv_env sample_live)) (job_user (sample_job ''c''))) (clock_reading (lv_env sample_live))"
    by (simp add: HasActiveConsent_def)
  from frame_without_consent_evicts [OF this, of sample_ex sample_fc] sample_refused off show ?thesis
    by (simp add: live) (simp add: sample_job_def ws_conn_def conn_Send_def newConn_def conn_close_def outboundBuffer_def)
qed

lemma sample_valid: "rows_valid (durable sample_world)"
  by (auto simp: rows_valid_def durable_def pg_view_def tables_view_def sample_world_def pg_start_def
      sample_tables_def ran_def valid_settings_def row_settings_def sample_row_def erased_def IsValidVisibility_def
      visibility_defs IsValidRadius_def AllowedRadiiM_def IsValidRevealLevel_def reveal_defs split: if_splits)

lemma update_keeps_rows_valid_witness:
  "\<exists>e w'. SettingsService_Update (server_settings sample_ex sample_cfg) ''a''
       \<lparr>in_PresenceVisibility = None, in_PresenceShareTrack = None, in_VisibilityRadiusM = Some 7,
        in_RevealLevel = None, in_Paused = Some True\<rparr> sample_world = (Inl e, w')
     \<and> durable w' = durable sample_world"
proof -
  let ?inp = "\<lparr>in_PresenceVisibility = None, in_PresenceShareTrack = None, in_VisibilityRadiusM = Some 7,
        in_RevealLevel = None, in_Paused = Some True\<rparr>"
  obtain r w' where run: "SettingsService_Update (server_settings sample_ex sample_cfg) ''a'' ?inp sample_world = (r, w')"
    by fastforce
  have "\<not> input_valid ?inp" by (simp add: input_valid_def IsValidRadius_def AllowedRadiiM_def)
  with update_keeps_rows_valid [OF run sample_valid] run show ?thesis by auto
qed

lemma pair_shown_once_per_window_witness:
  "\<exists>w. feed_run sample_ex sample_fc contents ''a'' ''b'' sample_world 1 w \<and> (1 :: nat) \<le> 1"
proof -
  obtain w where run: "answer_job (feed_hub sample_ex sample_fc) (sample_job ''a'') sample_world = (Inr [sample_result], w)"
    and w: "rs_now (contents (w_redis w)) = 0" by (rule sample_answer)
  have "feed_run sample_ex sample_fc contents ''a'' ''b'' sample_world
      (0 + (if job_user (sample_job ''a'') = ''a'' then shown_in ''b'' (Inr [sample_result]) else 0)) w"
    by (rule feed_run.frame [OF feed_run.start _ run]) simp
  then have k: "feed_run sample_ex sample_fc contents ''a'' ''b'' sample_world 1 w"
    by (simp add: shown_in_def times_shown_def sample_result_def)
  have "redis_server (ex_redis sample_ex) contents id DistanceMeters"
    by (simp add: sample_parts mem_server.redis_server_axioms)
  from pair_shown_once_per_window [OF this k] w k show ?thesis
    by (auto simp: sample_world_def sample_redis_def Second_def detailKey_def pairKey_def)
qed

lemma handshake_needs_token_and_consent_witness:
  "\<exists>w'. ServeHTTP_handshake (presence_server_handler sample_ex sample_cfg sample_fc (\<lambda>_. None) (\<lambda>_. None)) True
        \<lparr>rq_header = Map.empty, rq_query = [''access_token'' \<mapsto> Itoa 0], rq_Host = '''', rq_RemoteAddr = '''',
         rq_body = '''', rq_user = None\<rparr> sample_world = (Upgraded ''a'', w')
     \<and> durable w' = durable sample_world"
proof -
  let ?rq = "\<lparr>rq_header = Map.empty, rq_query = [''access_token'' \<mapsto> Itoa 0], rq_Host = '''', rq_RemoteAddr = '''',
         rq_body = '''', rq_user = None\<rparr>"
  have tok: "bearerToken ?rq = Itoa 0"
    by (simp add: bearerToken_def first_value_def HasPrefix_def bearer_def)
  have ne: "Itoa 0 \<noteq> ''''" by (simp add: Itoa_def)
  have orig: "newOriginChecker (\<lambda>_. None) [] ?rq" by (simp add: newOriginChecker_def first_value_def)
  have "\<exists>w'. ServeHTTP_handshake (presence_server_handler sample_ex sample_cfg sample_fc (\<lambda>_. None) (\<lambda>_. None)) True
        ?rq sample_world = (Upgraded ''a'', w')"
    unfolding ServeHTTP_handshake_def tok
    by (simp add: presence_server_handler_def ne orig Authenticate_def server_signer_def sample_ex_def table_jwt_def
        sample_claims_def CheckConsent_def sample_cfg_def sample_fc_def Let_def)
      (simp add: sample_eval sample_world_def orig presence_server_handler_def CheckConsent_def sample_fc_def)
  then obtain w' where run: "ServeHTTP_handshake (presence_server_handler sample_ex sample_cfg sample_fc (\<lambda>_. None) (\<lambda>_. None)) True
        ?rq sample_world = (Upgraded ''a'', w')" by blast
  from handshake_needs_token_and_consent [OF run] run show ?thesis by blast
qed

lemma grant_needs_verified_factor_witness:
  "\<exists>s w'. GrantConsent (server_settings sample_ex sample_cfg) ''a'' sample_world = (Inr s, w')
     \<and> ProximityConsentEnabled (on_record (durable w') ''a'') \<and> factor_rows sample_world ''a'' = Some (''seed'', Some 1)"
proof -
  have "\<exists>s w'. GrantConsent (server_settings sample_ex sample_cfg) ''a'' sample_world = (Inr s, w')"
    unfolding GrantConsent_def server_settings_def
    by (simp add: sample_eval sample_world_def HasVerifiedMFA_def server_auth_def mfa_HasVerified_def server_challenger_def
        pg_secret_repo_def pg_secret_Get_def SettingsService_Get_def)
      (simp add: sample_eval pg_settings_Upsert_def upsert_settings_def valid_settings_def IsValidVisibility_def
        IsValidRadius_def AllowedRadiiM_def IsValidRevealLevel_def Let_def)
  then obtain s w' where run: "GrantConsent (server_settings sample_ex sample_cfg) ''a'' sample_world = (Inr s, w')" by blast
  from grant_needs_verified_factor [OF run] run show ?thesis
    by (auto simp: factor_rows_def table_factors_def sample_world_def pg_start_def totp_row.splits)
qed

lemma revoked_user_gone_witness:
  "\<exists>s w1 w2. RevokeConsent (server_settings sample_ex sample_cfg) ''b'' sample_world = (Inr s, w1)
     \<and> answer_job (feed_hub sample_ex sample_fc) (sample_job ''a'') w1 = (Inr [], w2)
     \<and> ''b'' \<notin> nr_UserID ` set []"
proof -
  have "\<exists>s w1. RevokeConsent (server_settings sample_ex sample_cfg) ''b'' sample_world = (Inr s, w1)
     \<and> (\<exists>w2. answer_job (feed_hub sample_ex sample_fc) (sample_job ''a'') w1 = (Inr [], w2))"
    unfolding RevokeConsent_def server_settings_def
    apply (simp add: sample_eval sample_world_def SettingsService_Get_def)
    apply (simp add: sample_eval pg_settings_Upsert_def upsert_settings_def valid_settings_def IsValidVisibility_def
        IsValidRadius_def AllowedRadiiM_def IsValidRevealLevel_def Let_def removeFromIndex_def)
    apply (simp add: sample_index)
    apply (simp add: answer_job_def sample_job_def ws_conn_def ApplyUpdate_def query_def)
    apply (simp add: sample_eval)
    apply (simp add: sample_index DistanceMeters_self)
    done
  then obtain s w1 w2 where rev: "RevokeConsent (server_settings sample_ex sample_cfg) ''b'' sample_world = (Inr s, w1)"
    and ans: "answer_job (feed_hub sample_ex sample_fc) (sample_job ''a'') w1 = (Inr [], w2)" by blast
  from revoked_user_gone [OF rev refl ans] rev ans show ?thesis
    by (intro exI [of _ s] exI [of _ w1] exI [of _ w2] conjI) simp_all
qed

lemma stale_close_hides_live_user_witness:
  "let s = Register (ws_conn 1 ''b'') sample_live
   in conns (lv_hub (Unregister (feed_hub sample_ex sample_fc) (ws_conn 0 ''b'') s)) ''b'' = Some (ws_conn 1 ''b'')
     \<and> map_of (rs_geo (contents (w_redis (lv_env (Unregister (feed_hub sample_ex sample_fc) (ws_conn 0 ''b'') s)))) geoKey) ''b'' = None
     \<and> map_of (rs_geo (contents (w_redis (lv_env s))) geoKey) ''b'' = Some sample_place"
proof -
  let ?s = "Register (ws_conn 1 ''b'') sample_live"
  have env: "lv_env ?s = sample_world" by (simp add: Register_def sample_live_def start_live_def)
  have R: "redis_server (ex_redis sample_ex) contents id DistanceMeters"
    by (simp add: sample_parts mem_server.redis_server_axioms)
  have dis: "fst (Disconnect (presence_server_nearby sample_ex) ''b'' sample_world) = Inr ()"
    unfolding Disconnect_def
    by (simp add: sample_eval sample_world_def) (simp add: sample_index)
  have "map_of (rs_geo (contents (w_redis sample_world)) geoKey) ''b'' = Some sample_place"
    by (simp add: sample_world_def sample_redis_def)
  moreover have "conns (lv_hub ?s) (cn_UserID (ws_conn 0 ''b'')) = Some (ws_conn 1 ''b'')"
    by (simp add: Register_def ws_conn_def)
  note stale_close_hides_live_user [OF R this, of sample_fc]
  ultimately show ?thesis using env dis by (simp add: Let_def ws_conn_def)
qed

text \<open>The hub: one job fits, the second is refused, the first is processed; then the queue is closed.\<close>

lemma sample_live_start:
  "sample_live = start_live (NewHubWithLimit (presence_server_nearby sample_ex) (90 * Second) 1 1
     (Some (world_limiter (ex_redis sample_ex))) 12 Minute) sample_world \<lparr>sk_next = 1, sk_conn = (\<lambda>_. newConn)\<rparr>"
  by (simp add: sample_live_def presence_server_hub_def sample_fc_def)

definition sample_events :: "sockets hub_event list" where
  "sample_events = [Ev_submit (sample_job ''a'') Accepted, Ev_submit (sample_job ''c'') (Refused (Sentinel ErrIngestSaturated)),
     Ev_take (sample_job ''a''), Ev_process (sample_job ''a''), Ev_close Accepted, Ev_worker_exit]"

lemma sample_hub_run:
  obtains s where "hub_run (feed_hub sample_ex sample_fc) sample_live sample_events s"
    and "\<not> lv_done s" and "wg (lv_hub s) = 0"
proof -
  let ?h = "feed_hub sample_ex sample_fc" and ?a = "sample_job ''a''" and ?c = "sample_job ''c''"
  have live: "ingest (lv_hub sample_live) = []" "ingest_cap (lv_hub sample_live) = 1" "lv_busy sample_live = []"
    "\<not> ingest_closed (lv_hub sample_live)" "wg (lv_hub sample_live) = 1" "\<not> lv_done sample_live"
    by (simp_all add: sample_live_start start_live_def NewHubWithLimit_def Let_def)
  let ?s1 = "sample_live\<lparr>lv_hub := (lv_hub sample_live)\<lparr>ingest := [?a]\<rparr>\<rparr>"
  let ?h2 = "snd (enqueue ?c (lv_hub ?s1))"
  let ?s2 = "?s1\<lparr>lv_hub := ?h2\<rparr>"
  let ?t = "?s2\<lparr>lv_hub := (lv_hub ?s2)\<lparr>ingest := []\<rparr>, lv_busy := [?a]\<rparr>"
  let ?s3 = "process ?h ?a (?t\<lparr>lv_busy := []\<rparr>)"
  let ?s4 = "?s3\<lparr>lv_hub := (lv_hub ?s3)\<lparr>ingest_closed := True\<rparr>\<rparr>"
  let ?s5 = "?s4\<lparr>lv_hub := (lv_hub ?s4)\<lparr>wg := wg (lv_hub ?s4) - 1\<rparr>\<rparr>"
  have h2: "ingest ?h2 = [?a]" "\<not> ingest_closed ?h2" "wg ?h2 = 1"
    using live by (simp_all add: enqueue_def)
  have "enqueue ?a (lv_hub sample_live) = (Accepted, (lv_hub sample_live)\<lparr>ingest := [?a]\<rparr>)"
    using live by (simp add: enqueue_def)
  from hub_run.step [OF hub_run.start [of ?h] hub_step.submit [OF this]]
  have run1: "hub_run ?h sample_live [Ev_submit ?a Accepted] ?s1" by simp
  have "enqueue ?c (lv_hub ?s1) = (Refused (Sentinel ErrIngestSaturated), ?h2)"
    using live by (simp add: enqueue_def)
  from hub_run.step [OF run1 hub_step.submit [OF this]]
  have "hub_run ?h sample_live [Ev_submit ?a Accepted, Ev_submit ?c (Refused (Sentinel ErrIngestSaturated))] ?s2"
    by simp
  from hub_run.step [OF this hub_step.take_job [of ?s2 ?a "[]"]]
  have "hub_run ?h sample_live [Ev_submit ?a Accepted, Ev_submit ?c (Refused (Sentinel ErrIngestSaturated)), Ev_take ?a] ?t"
    using h2 live by simp
  from hub_run.step [OF this hub_step.work [of ?a ?t]]
  have "hub_run ?h sample_live [Ev_submit ?a Accepted, Ev_submit ?c (Refused (Sentinel ErrIngestSaturated)), Ev_take ?a,
      Ev_process ?a] ?s3"
    by simp
  from hub_run.step [OF this hub_step.closing [of ?s3 Accepted "(lv_hub ?s3)\<lparr>ingest_closed := True\<rparr>"]]
  have "hub_run ?h sample_live [Ev_submit ?a Accepted, Ev_submit ?c (Refused (Sentinel ErrIngestSaturated)), Ev_take ?a,
      Ev_process ?a, Ev_close Accepted] ?s4"
    using h2 by (simp add: close_ingest_def)
  from hub_run.step [OF this hub_step.worker_exit [of ?s4]]
  have "hub_run ?h sample_live [Ev_submit ?a Accepted, Ev_submit ?c (Refused (Sentinel ErrIngestSaturated)), Ev_take ?a,
      Ev_process ?a, Ev_close Accepted, Ev_worker_exit] ?s5"
    using h2 by simp
  then have "hub_run ?h sample_live sample_events ?s5" by (simp add: sample_events_def)
  moreover have "\<not> lv_done ?s5" "wg (lv_hub ?s5) = 0" using h2 live by simp_all
  ultimately show thesis by (rule that)
qed

lemma hub_queue_accounts_witness:
  "\<exists>evs s. hub_run (feed_hub sample_ex sample_fc) sample_live evs s \<and> IngestDropped (metrics (lv_hub s)) = 1
     \<and> concat (map accepted evs) = [sample_job ''a'']"
proof -
  obtain s where run: "hub_run (feed_hub sample_ex sample_fc) sample_live sample_events s" by (rule sample_hub_run)
  from hub_queue_accounts [OF run [unfolded sample_live_start]]
  have "IngestDropped (metrics (lv_hub s)) = 1" by (simp add: sample_events_def)
  with run show ?thesis by (intro exI conjI) (assumption, simp_all add: sample_events_def)
qed

lemma hub_panic_iff_shutdown_witness:
  "\<exists>evs s. hub_run (feed_hub sample_ex sample_fc) sample_live evs s
     \<and> fst (enqueue (sample_job ''a'') (lv_hub s)) = Panic"
proof -
  obtain s where run: "hub_run (feed_hub sample_ex sample_fc) sample_live sample_events s" by (rule sample_hub_run)
  from hub_panic_iff_shutdown [OF run [unfolded sample_live_start]] run show ?thesis by (auto simp: sample_events_def)
qed

lemma hub_shutdown_finishes_jobs_witness:
  "\<exists>evs s. hub_run (feed_hub sample_ex sample_fc) sample_live evs s \<and> wg (lv_hub s) = 0
     \<and> mset (concat (map processed evs)) = {#sample_job ''a''#}"
proof -
  obtain s where run: "hub_run (feed_hub sample_ex sample_fc) sample_live sample_events s" "\<not> lv_done s" "wg (lv_hub s) = 0"
    by (rule sample_hub_run)
  from hub_shutdown_finishes_jobs [OF run(1) [unfolded sample_live_start] _ run(2,3)]
  have "mset (concat (map processed sample_events)) = {#sample_job ''a''#}" by (simp add: sample_events_def)
  with run show ?thesis by blast
qed

end
