(* ===== verification/Auth_Claims.thy ===== *)
theory Auth_Claims
  imports Samples Middleware
begin

text \<open>
  What the accounts, the sessions and the second factor promise, over the wired core process.
\<close>

section \<open>Signing up and logging in\<close>

lemma server_hasher: "hs_Verify (as_hasher (server_auth ex cfg)) = hs_Verify (ex_hasher ex)"
  by (simp add: server_auth_def)

text \<open>
  C21. A login succeeds only for an address on record, whatever its case and
  the space around it, whose account is active and not deleted and whose stored hash the hasher
  accepts for the password; the session is that account's and no account changes.
\<close>

lemma login_needs_active_account:
  assumes "Login (server_auth ex cfg) inp w = (Inr res, w')"
  shows "\<exists>u. (u, None) \<in> set (user_rows w) \<and> ToLower (us_Email u) = ToLower (normalizeEmail (li_Email inp))
    \<and> us_Status u = UserStatusActive \<and> us_PasswordHash u \<noteq> ''''
    \<and> hs_Verify (ex_hasher ex) (li_Password inp) (us_PasswordHash u) = Inr True
    \<and> ar_UserID res = us_ID u \<and> user_rows w' = user_rows w"
  using core_accounts.Login_done [OF assms]
  by (auto simp: credentials_ok_def server_auth_def)

text \<open>
  C22. Whoever signed up can log in: with the same password and the same address up to
  case and surrounding space, and as long as the accounts are what the sign-up left, the login is
  never answered with invalid credentials, and if it succeeds it is a session of the account that
  was created. The hasher is any that accepts what it hashed.
\<close>

lemma signup_then_login:
  assumes "\<And>p x h x'. Hash (ex_hasher ex) p x = (Inr h, x') \<Longrightarrow> h \<noteq> '''' \<and> hs_Verify (ex_hasher ex) p h = Inr True"
    and "SignUp (server_auth ex cfg) inp w = (Inr res, w1)"
    and "user_rows w2 = user_rows w1"
    and "normalizeEmail (li_Email inp2) = normalizeEmail (su_Email inp)" and "li_Password inp2 = su_Password inp"
    and "Login (server_auth ex cfg) inp2 w2 = (r, w3)"
  shows "r \<noteq> Inl (Sentinel ErrInvalidCredentials) \<and> (\<forall>res2. r = Inr res2 \<longrightarrow> ar_UserID res2 = ar_UserID res)"
proof -
  from core_accounts.SignUp_done [OF assms(2)] obtain u h0 h1 where rows: "user_rows w1 = user_rows w @ [(u, None)]"
    and u: "us_ID u = ar_UserID res" "us_Email u = normalizeEmail (su_Email inp)" "us_Status u = UserStatusActive"
    and hash: "Hash (as_hasher (server_auth ex cfg)) (su_Password inp) h0 = (Inr (us_PasswordHash u), h1)"
    and new: "\<forall>(v, d) \<in> set (user_rows w). ToLower (us_Email v) \<noteq> ToLower (us_Email u)" by blast
  have "us_PasswordHash u \<noteq> '''' \<and> hs_Verify (ex_hasher ex) (su_Password inp) (us_PasswordHash u) = Inr True"
    using hash assms(1) by (auto simp: server_auth_def on_rand_def zoom_def split: prod.splits)
  then have ok: "credentials_ok (hs_Verify (ex_hasher ex)) (li_Email inp2) (li_Password inp2) u"
    using u assms(4,5) by (simp add: credentials_ok_def server_auth_def)
  have only: "v = u" if "(v, None) \<in> set (user_rows w2)" "ToLower (us_Email v) = ToLower (normalizeEmail (li_Email inp2))" for v
    using that rows new assms(3,4) u(2) by auto
  have there: "(u, None) \<in> set (user_rows w2)" using rows assms(3) by simp
  show ?thesis
  proof (intro conjI notI allI impI)
    assume "r = Inl (Sentinel ErrInvalidCredentials)"
    from core_accounts.Login_refused [OF assms(6) [unfolded this], unfolded server_hasher] there only ok u(2) assms(4) show False by metis
  next
    fix res2
    assume "r = Inr res2"
    from core_accounts.Login_done [OF assms(6) [unfolded this]] only u(1) show "ar_UserID res2 = ar_UserID res"
      by (auto simp: credentials_ok_def)
  qed
qed

section \<open>Refresh tokens\<close>

lemma successor_ID:
  assumes "successor (server_auth ex cfg) old new res"
  shows "\<exists>g. rt_ID new = fst (NewID (ex_uuid ex) g)"
proof -
  from assms obtain v where "rt_ID new = fst (NewID (as_ids (server_auth ex cfg)) v)"
    by (auto simp: successor_def)
  also have "\<dots> = fst (NewID (ex_uuid ex) (w_ids v))"
    by (simp add: server_auth_def world_ids_def on_ids_def zoom_def case_prod_beta)
  finally show ?thesis by blast
qed

text \<open>The row a token is looked up in.\<close>

lemma find_token:
  assumes "tokens_wf ts" and "old \<in> set ts" and "rt_TokenHash old = h"
  shows "List.find (\<lambda>r. rt_TokenHash r = h) ts = Some old"
proof (cases "List.find (\<lambda>r. rt_TokenHash r = h) ts")
  case None
  with assms(2,3) show ?thesis by (auto simp: find_None_iff)
next
  case (Some y)
  then have "y \<in> set ts" "rt_TokenHash y = rt_TokenHash old" using assms(3) by (auto simp: find_Some_iff)
  with Some core_sessions.same_hash_same_row [OF assms(1) _ assms(2)] show ?thesis by auto
qed

lemma reused_token:
  assumes "tokens_wf (token_rows w)" and "old \<in> set (token_rows w)" and "rt_TokenHash old = ex_sha256 ex p"
    and "rt_ReplacedBy old \<noteq> ''''" and "p \<noteq> ''''" and "Refresh (server_auth ex cfg) p w = (r, w')"
  shows "r = Inl (Sentinel ErrRefreshTokenReused) \<or> (\<exists>c. r = Inl (Wrapped c pg_lost)) \<and> pg_script (w_auth w) \<noteq> []"
proof -
  let ?find = "\<lambda>(_::time) tb. (Inr (List.find (\<lambda>r. rt_TokenHash r = ex_sha256 ex p) (tb_refresh_tokens tb)), tb) :: (err + RefreshToken option) \<times> auth_tables"
  obtain f p1 where get: "pg_run ?find (w_auth w) = (f, p1)" by fastforce
  show ?thesis
  proof (cases f)
    case (Inl e)
    from pg_run_lost [OF get [unfolded Inl]] have "e = pg_lost" "pg_script (w_auth w) \<noteq> []" by auto
    with get Inl assms(5,6) show ?thesis
      by (auto simp: Refresh_def refresh_admit_def server_auth_def pg_tokens_def pg_token_GetByHash_def on_auth_def zoom_def
          bindE_def attempt_def throw_def)
  next
    case (Inr x)
    from get [unfolded Inr] have x: "x = Some old"
      by (rule pg_run_InrE) (auto simp: find_token [OF assms(1-3), unfolded token_rows_def])
    obtain now c1 where clk: "read_wall (w_clock w) = (now, c1)" by fastforce
    let ?revoke = "\<lambda>(_::time) tb. (Inr (), tb\<lparr>tb_refresh_tokens := map (revoke_user (rt_UserID old) now) (tb_refresh_tokens tb)\<rparr>)
      :: (err + unit) \<times> auth_tables"
    obtain g p2 where rev: "pg_run ?revoke p1 = (g, p2)" by fastforce
    have "r = (case g of Inl e \<Rightarrow> Inl (Wrapped ''auth: revoke all after reuse'' e) | Inr _ \<Rightarrow> Inl (Sentinel ErrRefreshTokenReused))"
      using assms(4,5,6) get clk rev
      by (auto simp: Inr x Refresh_def refresh_admit_def server_auth_def pg_tokens_def pg_token_GetByHash_def
          pg_token_RevokeAllForUser_def world_clock_def Real_clock_def on_auth_def on_clock_def zoom_def
          bindE_def attempt_def wrapE_def throw_def ret_def call_def split: sum.splits)
    moreover have "e = pg_lost \<and> pg_script (w_auth w) \<noteq> []" if "g = Inl e" for e
      using pg_run_lost [OF rev [unfolded that]] pg_run_script [OF get] by auto
    ultimately show ?thesis by (cases g) auto
  qed
qed

text \<open>
  C23. A refresh succeeds only with a token that is on record, not revoked, not
  replaced and not expired; it adds one fresh record of the same user and device and marks the
  presented one as replaced by it. Presented a second time the old token is refused as reused and all
  sessions of its user are revoked, or the connection to the database was lost on the way.
\<close>

lemma refresh_single_use:
  assumes "\<And>g. fst (NewID (ex_uuid ex) g) \<noteq> ''''"
    and "tokens_wf (token_rows w)" and "Refresh (server_auth ex cfg) p w = (Inr res, w1)"
    and "token_rows w2 = token_rows w1" and "Refresh (server_auth ex cfg) p w2 = (r, w3)"
  shows "\<exists>old now new. old \<in> set (token_rows w) \<and> rt_TokenHash old = ex_sha256 ex p \<and> live_token now old
    \<and> rt_UserID new = rt_UserID old \<and> rt_DeviceID new = rt_DeviceID old
    \<and> rt_TokenHash new = ex_sha256 ex (ar_RefreshToken res) \<and> rt_RevokedAt new = None
    \<and> token_rows w1 = map (replace_token (rt_ID old) (rt_ID new) now) (token_rows w @ [new])
    \<and> (r = Inl (Sentinel ErrRefreshTokenReused)
         \<and> (\<forall>t \<in> set (token_rows w3). rt_UserID t = rt_UserID old \<longrightarrow> rt_RevokedAt t \<noteq> None)
       \<or> (\<exists>c. r = Inl (Wrapped c pg_lost)) \<and> pg_script (w_auth w2) \<noteq> [])"
proof -
  from core_sessions.Refresh_rotates [OF assms(3)] obtain old now new where
    old: "old \<in> set (token_rows w)" "rt_TokenHash old = as_hashRefreshToken (server_auth ex cfg) p" "live_token now old"
    and suc: "successor (server_auth ex cfg) old new res"
    and rows: "token_rows w1 = map (replace_token (rt_ID old) (rt_ID new) now) (token_rows w @ [new])" by blast
  note wf1 = core_sessions.Refresh_keeps_wf [OF assms(3,2)]
  let ?old = "replace_token (rt_ID old) (rt_ID new) now old"
  have "rt_ID new \<noteq> ''''"
    using suc assms(1) by (metis successor_ID)
  then have rep: "rt_ReplacedBy ?old \<noteq> ''''" by (simp add: replace_token_def)
  have there: "?old \<in> set (token_rows w2)" using old(1) rows assms(4) by auto
  have p: "p \<noteq> ''''" using assms(3) by (auto simp: Refresh_def auth_invalid_def)
  have hash: "rt_TokenHash ?old = ex_sha256 ex p" using old(2) by (simp add: server_auth_def)
  note wf2 = wf1 [folded assms(4)]
  from core_sessions.Refresh_replaced [OF wf2 there _ rep assms(5)] old(2)
  have "r = Inl (Sentinel ErrRefreshTokenReused) \<longrightarrow>
      (\<forall>t \<in> set (token_rows w3). rt_UserID t = rt_UserID old \<longrightarrow> rt_RevokedAt t \<noteq> None)" by simp
  moreover note reused_token [OF wf2 there hash rep p assms(5)]
  moreover have "rt_UserID new = rt_UserID old \<and> rt_DeviceID new = rt_DeviceID old
      \<and> rt_TokenHash new = ex_sha256 ex (ar_RefreshToken res) \<and> rt_RevokedAt new = None"
    using suc by (simp add: successor_def server_auth_def)
  ultimately show ?thesis
    using old rows by (intro exI [of _ old] exI [of _ now] exI [of _ new]) (auto simp: server_auth_def)
qed

text \<open>The two parts of a refresh, when nothing outside fails.\<close>

lemma admit_live_token:
  assumes "tokens_wf (token_rows w)" and "pg_script (w_auth w) = []" and "old \<in> set (token_rows w)"
    and "rt_TokenHash old = ex_sha256 ex p" and "rt_ReplacedBy old = ''''" and "rt_RevokedAt old = None"
  shows "refresh_admit (server_auth ex cfg) p w
    = (if fst (read_wall (w_clock w)) < rt_ExpiresAt old then Inr (old, fst (read_wall (w_clock w)))
       else Inl (Sentinel ErrRefreshTokenExpired), w\<lparr>w_clock := snd (read_wall (w_clock w))\<rparr>)"
proof -
  note find = find_token [OF assms(1,3,4), unfolded token_rows_def]
  obtain now c where "read_wall (w_clock w) = (now, c)" by fastforce
  then show ?thesis
    using assms(2,5,6)
    by (simp add: refresh_admit_def server_auth_def pg_tokens_def pg_token_GetByHash_def world_clock_def Real_clock_def
        on_auth_def on_clock_def zoom_def bindE_def attempt_def throw_def ret_def call_def pg_run_def find)
qed

lemma rotate_succeeds:
  assumes "pg_script (w_auth w) = []" and "\<And>c. \<exists>t. jwt_encode (ex_jwt ex) c = Inr t"
    and "ex_token ex (w_rand w) = (Inr tok, x)" and "NewID (ex_uuid ex) (w_ids w) = (i, g)"
    and "i \<notin> rt_ID ` set (token_rows w)" and "ex_sha256 ex tok \<notin> rt_TokenHash ` set (token_rows w)"
    and "user_exists (pg_tables (w_auth w)) (rt_UserID old)"
    and "rt_DeviceID old = '''' \<or> rt_DeviceID old \<in> dv_ID ` set (user_devices (pg_tables (w_auth w)))"
  shows "\<exists>res w'. refresh_rotate (server_auth ex cfg) (old, now) w = (Inr res, w')
    \<and> ar_RefreshToken res = tok \<and> pg_script (w_auth w') = [] \<and> w_rand w' = x \<and> w_ids w' = g
    \<and> at_users (pg_tables (w_auth w')) = at_users (pg_tables (w_auth w))
    \<and> user_devices (pg_tables (w_auth w')) = user_devices (pg_tables (w_auth w))
    \<and> rt_ID ` set (token_rows w') = insert i (rt_ID ` set (token_rows w))
    \<and> rt_TokenHash ` set (token_rows w') = insert (ex_sha256 ex tok) (rt_TokenHash ` set (token_rows w))"
proof -
  obtain t1 c1 where c1: "read_wall (w_clock w) = (t1, c1)" by fastforce
  obtain t2 c2 where c2: "read_wall c1 = (t2, c2)" by fastforce
  obtain t3 c3 where c3: "read_wall c2 = (t3, c3)" by fastforce
  let ?claims = "\<lparr>cl_Subject = rt_UserID old, cl_Issuer = dp_JWTIssuer cfg, cl_IssuedAt = NumericDate t1,
      cl_NotBefore = NumericDate t1, cl_ExpiresAt = NumericDate (t1 + dp_AccessTokenTTL cfg)\<rparr>"
  obtain signed where signed: "jwt_encode (ex_jwt ex) ?claims = Inr signed" using assms(2) by blast
  let ?new = "\<lparr>rt_ID = i, rt_UserID = rt_UserID old, rt_DeviceID = rt_DeviceID old, rt_TokenHash = ex_sha256 ex tok,
      rt_IssuedAt = t3, rt_ExpiresAt = t2 + dp_RefreshTokenTTL cfg, rt_RevokedAt = None, rt_ReplacedBy = ''''\<rparr>"
  let ?rows = "map (replace_token (rt_ID old) i now) (token_rows w @ [?new])"
  have "refresh_rotate (server_auth ex cfg) (old, now) w
      = (Inr \<lparr>ar_UserID = rt_UserID old, ar_AccessToken = signed, ar_AccessTokenExpiresAt = t1 + dp_AccessTokenTTL cfg,
           ar_RefreshToken = tok, ar_RefreshTokenExpiresAt = t2 + dp_RefreshTokenTTL cfg\<rparr>,
         w\<lparr>w_clock := c3, w_rand := x, w_ids := g, w_auth := (w_auth w)\<lparr>pg_tables :=
           (pg_tables (w_auth w))\<lparr>tb_refresh_tokens := ?rows\<rparr>\<rparr>\<rparr>)"
    using assms(1,3-8) c1 c2 c3 signed
    by (simp add: refresh_rotate_def issueTokens_def storeRefreshToken_def Signer_Sign_def server_auth_def server_signer_def
        pg_tokens_def pg_token_Store_def pg_token_MarkReplaced_def insert_token_def link_token_def world_clock_def world_ids_def
        Real_clock_def on_defs zoom_def bindE_def wrapE_def ret_def call_def pg_run_def Let_def token_rows_def)
  moreover have "rt_ID ` set ?rows = insert i (rt_ID ` set (token_rows w))"
    "rt_TokenHash ` set ?rows = insert (ex_sha256 ex tok) (rt_TokenHash ` set (token_rows w))"
    by (auto simp: image_image)
  ultimately show ?thesis using assms(1) by (simp add: token_rows_def)
qed

text \<open>
  C24. A live refresh token, and a database, a clock, a source of randomness and a JWT library that work:
  two requests with the token that are both let in before either has marked it replaced both succeed,
  and end with two different live sessions of the user. The rotation reads and writes in separate
  statements, without a transaction or a condition on the row it marks.
\<close>

lemma refresh_race_two_sessions:
  assumes "tokens_wf (token_rows w)" and "pg_script (w_auth w) = []"
    and "old \<in> set (token_rows w)" and "rt_TokenHash old = ex_sha256 ex p"
    and "rt_ReplacedBy old = ''''" and "rt_RevokedAt old = None"
    and "clock_reading (snd (refresh_admit (server_auth ex cfg) p (snd (refresh_admit (server_auth ex cfg) p w)))) < rt_ExpiresAt old"
    and "user_exists (pg_tables (w_auth w)) (rt_UserID old)"
    and "rt_DeviceID old = '''' \<or> rt_DeviceID old \<in> dv_ID ` set (user_devices (pg_tables (w_auth w)))"
    and "\<And>c. \<exists>t. jwt_encode (ex_jwt ex) c = Inr t"
    and "ex_token ex (w_rand w) = (Inr t1, x1)" and "ex_token ex x1 = (Inr t2, x2)"
    and "NewID (ex_uuid ex) (w_ids w) = (i1, g1)" and "NewID (ex_uuid ex) g1 = (i2, g2)"
    and "distinct (i1 # i2 # map rt_ID (token_rows w))"
    and "distinct (ex_sha256 ex t1 # ex_sha256 ex t2 # map rt_TokenHash (token_rows w))"
  shows "\<exists>a b w1 w2 res1 w3 res2 w4. refresh_admit (server_auth ex cfg) p w = (Inr a, w1)
     \<and> refresh_admit (server_auth ex cfg) p w1 = (Inr b, w2)
     \<and> refresh_rotate (server_auth ex cfg) a w2 = (Inr res1, w3)
     \<and> refresh_rotate (server_auth ex cfg) b w3 = (Inr res2, w4)
     \<and> (\<exists>n1 n2. n1 \<in> set (token_rows w4) \<and> n2 \<in> set (token_rows w4) \<and> rt_ID n1 \<noteq> rt_ID n2
          \<and> rt_UserID n1 = rt_UserID n2 \<and> rt_RevokedAt n1 = None \<and> rt_RevokedAt n2 = None
          \<and> rt_TokenHash n1 = ex_sha256 ex (ar_RefreshToken res1)
          \<and> rt_TokenHash n2 = ex_sha256 ex (ar_RefreshToken res2))"
proof -
  obtain n1 c1 where c1: "read_wall (w_clock w) = (n1, c1)" by fastforce
  obtain n2 c2 where c2: "read_wall c1 = (n2, c2)" by fastforce
  let ?w1 = "w\<lparr>w_clock := c1\<rparr>" and ?w2 = "w\<lparr>w_clock := c2\<rparr>"
  note admit = admit_live_token [where old = old, OF _ _ _ assms(4-6)]
  have first: "refresh_admit (server_auth ex cfg) p w = (if n1 < rt_ExpiresAt old then Inr (old, n1)
      else Inl (Sentinel ErrRefreshTokenExpired), ?w1)"
    by (subst admit [OF assms(1-3)]) (simp add: c1)
  have second: "refresh_admit (server_auth ex cfg) p ?w1 = (if n2 < rt_ExpiresAt old then Inr (old, n2)
      else Inl (Sentinel ErrRefreshTokenExpired), ?w2)"
    by (subst admit) (use assms(1-3) in \<open>simp_all add: c2 token_rows_def\<close>)
  have times: "n1 \<le> n2" "n2 = wall c2"
    using c1 c2 by (auto simp: read_wall.simps split: list.splits)
  have live: "n1 < rt_ExpiresAt old" "n2 < rt_ExpiresAt old"
    using assms(7) times by (auto simp: first second clock_reading_def)
  have "\<exists>res1 w3. refresh_rotate (server_auth ex cfg) (old, n1) ?w2 = (Inr res1, w3)
      \<and> ar_RefreshToken res1 = t1 \<and> pg_script (w_auth w3) = [] \<and> w_rand w3 = x1 \<and> w_ids w3 = g1
      \<and> at_users (pg_tables (w_auth w3)) = at_users (pg_tables (w_auth ?w2))
      \<and> user_devices (pg_tables (w_auth w3)) = user_devices (pg_tables (w_auth ?w2))
      \<and> rt_ID ` set (token_rows w3) = insert i1 (rt_ID ` set (token_rows ?w2))
      \<and> rt_TokenHash ` set (token_rows w3) = insert (ex_sha256 ex t1) (rt_TokenHash ` set (token_rows ?w2))"
    by (rule rotate_succeeds) (use assms in \<open>auto simp: token_rows_def\<close>)
  then obtain res1 w3 where r1: "refresh_rotate (server_auth ex cfg) (old, n1) ?w2 = (Inr res1, w3)"
    and w3: "pg_script (w_auth w3) = []" "w_rand w3 = x1" "w_ids w3 = g1"
      "at_users (pg_tables (w_auth w3)) = at_users (pg_tables (w_auth w))"
      "user_devices (pg_tables (w_auth w3)) = user_devices (pg_tables (w_auth w))"
      "rt_ID ` set (token_rows w3) = insert i1 (rt_ID ` set (token_rows w))"
      "rt_TokenHash ` set (token_rows w3) = insert (ex_sha256 ex t1) (rt_TokenHash ` set (token_rows w))"
    by (auto simp: token_rows_def)
  have "\<exists>res2 w4. refresh_rotate (server_auth ex cfg) (old, n2) w3 = (Inr res2, w4)"
    using rotate_succeeds [where ex = ex and cfg = cfg and old = old and now = n2 and w = w3 and tok = t2 and i = i2 and x = x2 and g = g2] w3
      assms(8-16) by (auto simp: user_exists_def)
  then obtain res2 w4 where r2: "refresh_rotate (server_auth ex cfg) (old, n2) w3 = (Inr res2, w4)" by blast
  have a: "refresh_admit (server_auth ex cfg) p w = (Inr (old, n1), ?w1)"
    and b: "refresh_admit (server_auth ex cfg) p ?w1 = (Inr (old, n2), ?w2)"
    using first second live by simp_all
  have hash: "as_hashRefreshToken (server_auth ex cfg) = ex_sha256 ex" by (simp add: server_auth_def)
  have ends: "\<exists>n1 n2. n1 \<in> set (token_rows w4) \<and> n2 \<in> set (token_rows w4) \<and> rt_ID n1 \<noteq> rt_ID n2
      \<and> rt_UserID n1 = rt_UserID n2 \<and> rt_RevokedAt n1 = None \<and> rt_RevokedAt n2 = None
      \<and> rt_TokenHash n1 = ex_sha256 ex (ar_RefreshToken res1) \<and> rt_TokenHash n2 = ex_sha256 ex (ar_RefreshToken res2)"
    by (rule core_sessions.race [OF a b r1 r2 assms(1), unfolded hash])
  show ?thesis
    by (rule exI [of _ "(old, n1)"], rule exI [of _ "(old, n2)"], rule exI [of _ ?w1], rule exI [of _ ?w2],
        rule exI [of _ res1], rule exI [of _ w3], rule exI [of _ res2], rule exI [of _ w4])
      (intro conjI a b r1 r2 ends)
qed

text \<open>
  After a logout that succeeded no record with that token's hash is live, and
  logging out with an unknown token is a success too.
\<close>

lemma logout_ends_session:
  assumes "tokens_wf (token_rows w)" and "Logout (server_auth ex cfg) p w = (Inr (), w')"
    and "t \<in> set (token_rows w')" and "rt_TokenHash t = ex_sha256 ex p"
  shows "\<not> live_token now t"
  using core_sessions.Logout_ends [OF assms(2,3) _ assms(1)] assms(4)
  by (simp add: live_token_def server_auth_def)

section \<open>The second factor\<close>

text \<open>
  Enrolling leaves the user with a pending secret, whatever there was before; verifying
  answers true only when the library accepts the code for the secret on record, and then that secret
  is the verified one; any other answer leaves the factor alone; and the factor counts as verified
  exactly when a verified secret is on record.
\<close>

lemma mfa_lifecycle:
  "(EnrollMFA (server_auth ex cfg) u w = (Inr (v, uri), w') \<longrightarrow>
      factor_rows w' = (factor_rows w)(u \<mapsto> (v, None)))
   \<and> (VerifyMFA (server_auth ex cfg) u code w = (Inr True, w') \<longrightarrow>
      (\<exists>v t now. (\<exists>st. factor_rows w u = Some (v, st)) \<and> otp_validate (ex_otp ex) code v now = Inr True
         \<and> factor_rows w' = (factor_rows w)(u \<mapsto> (v, Some t))))
   \<and> (VerifyMFA (server_auth ex cfg) u code w = (Inr False, w') \<longrightarrow> factor_rows w' = factor_rows w)
   \<and> (HasVerifiedMFA (server_auth ex cfg) u w = (Inr b, w') \<longrightarrow>
      (b \<longleftrightarrow> (\<exists>v t. factor_rows w u = Some (v, Some t))) \<and> factor_rows w' = factor_rows w)"
proof -
  have otp: "otp_validate (tc_otp (server_challenger ex)) = otp_validate (ex_otp ex)"
    by (simp add: server_challenger_def)
  have mfa: "as_mfa (server_auth ex cfg) = \<lparr>mp_EnrollURI = mfa_EnrollURI (server_challenger ex),
               mp_Verify = mfa_Verify (server_challenger ex),
               mp_HasVerified = mfa_HasVerified (server_challenger ex)\<rparr>"
    by (simp add: server_auth_def)
  show ?thesis
    using core_factors.Enroll_pending [of ex u w v uri w'] core_factors.Verify_true [of ex u code w w']
      core_factors.Verify_false [of ex u code w w'] core_factors.HasVerified_iff [of ex u w b w']
    by (auto simp: EnrollMFA_def VerifyMFA_def HasVerifiedMFA_def mfa otp split: if_splits)
qed


section \<open>The curator's gate\<close>

text \<open>The middleware the catalog's write routes stand behind: a token, then the role.\<close>

definition curator_gate :: "('r, 'i, 'x) externals \<Rightarrow> deployment \<Rightarrow> (('r, 'i, 'x) world, 'b) handler
    \<Rightarrow> (('r, 'i, 'x) world, 'b) handler" where
  "curator_gate ex cfg h =
     RequireAuth \<lparr>au_Authenticate = Authenticate (server_signer ex cfg)\<rparr>
       (RequireRole \<lparr>rc_HasRole = HasRole (server_auth ex cfg)\<rparr> RoleCatalogCurator h)"

text \<open>
  A catalog write that is answered with anything but a refusal has run its handler for
  the subject of a bearer token the signer issued and that has not expired, and that subject's
  account, as stored and not deleted at the time, has the curator's role: the role is read from the
  database for every request, it is not taken from the token.
\<close>

lemma curator_only:
  assumes "jwt_library (ex_jwt ex)" and "curator_gate ex cfg h r w = (res, w')"
    and "rs_status res \<notin> {401, 403, 500}"
  shows "\<exists>token c now u row w1. rq_header r ''Authorization'' = Some (bearer @ token)
    \<and> jwt_encode (ex_jwt ex) c = Inr token \<and> cl_Subject c = u \<and> cl_Issuer c = dp_JWTIssuer cfg
    \<and> clock_reading w \<le> now \<and> now < cl_ExpiresAt c
    \<and> (row, None) \<in> set (user_rows w) \<and> us_ID row = u \<and> us_Role row = RoleCatalogCurator
    \<and> user_rows w1 = user_rows w \<and> h (WithUserID u r) w1 = (res, w')"
proof -
  from assms(2,3) obtain token u w1 where hd: "rq_header r ''Authorization'' = Some (bearer @ token)"
    and au: "Authenticate (server_signer ex cfg) token w = (Inr u, w1)"
    and rest: "RequireRole \<lparr>rc_HasRole = HasRole (server_auth ex cfg)\<rparr> RoleCatalogCurator h (WithUserID u r) w1 = (res, w')"
    unfolding curator_gate_def by (auto elim!: RequireAuth_cases)
  from rest assms(3) obtain v w2 where v: "rq_user (WithUserID u r) = Some v"
    and role: "HasRole (server_auth ex cfg) v RoleCatalogCurator w1 = (Inr True, w2)"
    and run: "h (WithUserID u r) w2 = (res, w')"
    by (auto elim!: RequireRole_cases)
  have vu: "v = u" using v by (simp add: WithUserID_def)
  from jwt_library.Authenticate_sound [OF assms(1) _ au] obtain c now where
    clk: "Now (ts_clock (server_signer ex cfg)) w = (now, w1)"
    and c: "jwt_encode (ex_jwt ex) c = Inr token" "cl_Subject c = u" "cl_Issuer c = dp_JWTIssuer cfg" "now < cl_ExpiresAt c"
    by (auto simp: server_signer_def)
  have now: "clock_reading w \<le> now"
    using monotone_clock.Now_forward [OF world_clock_laws] clk by (auto simp: server_signer_def)
  have rows1: "user_rows w1 = user_rows w"
    using keepsD [OF keeps_user_rows(2)] clk by (auto simp: server_signer_def world_clock_def)
  from role obtain row where get: "ur_GetByID (as_users (server_auth ex cfg)) u w1 = (Inr row, w2)"
    and r: "us_Role row = RoleCatalogCurator"
    by (auto simp: HasRole_def vu split: sum.splits if_splits)
  note row = core_accounts.GetByID_row [OF get] keepsD [OF core_accounts.GetByID_keeps get]
  show ?thesis
    using hd c now rows1 row r run
    by (intro exI [of _ token] exI [of _ c] exI [of _ now] exI [of _ u] exI [of _ row] exI [of _ w2]) auto
qed

section \<open>The claims at work\<close>

lemmas sample_token_eval =
  sample_auth_eval Refresh_def refresh_admit_def refresh_rotate_def issueTokens_def storeRefreshToken_def
  pg_token_GetByHash_def pg_token_Store_def insert_token_def pg_token_MarkReplaced_def link_token_def
  pg_token_Revoke_def pg_token_RevokeAllForUser_def user_exists_def sample_ex_def Signer_Sign_def
  table_jwt_def replace_token_def revoke_token_def revoke_user_def NumericDate_def sample_claims_def token_rows_def

lemma sample_tokens_wf: "tokens_wf (token_rows sample_session_world)"
  by (simp add: tokens_wf_def sample_auth_eval token_rows_def)

lemma sample_refresh:
  obtains res w1 e w3 where "Refresh (server_auth sample_ex sample_cfg) ''first'' sample_session_world = (Inr res, w1)"
    and "Refresh (server_auth sample_ex sample_cfg) ''first'' w1 = (Inl e, w3)"
    and "pg_script (w_auth w1) = []"
proof -
  have "\<exists>res w1 e w3. Refresh (server_auth sample_ex sample_cfg) ''first'' sample_session_world = (Inr res, w1)
      \<and> Refresh (server_auth sample_ex sample_cfg) ''first'' w1 = (Inl e, w3)
      \<and> pg_script (w_auth w1) = []"
    by (simp add: sample_token_eval Itoa_def digits.simps)
  then show thesis using that by blast
qed

lemma sample_logout:
  obtains w1 where "Logout (server_auth sample_ex sample_cfg) ''first'' sample_session_world = (Inr (), w1)"
    and "token_rows w1 = [revoke_token ''t1'' 10 sample_token]"
proof -
  have "\<exists>w1. Logout (server_auth sample_ex sample_cfg) ''first'' sample_session_world = (Inr (), w1)
      \<and> token_rows w1 = [revoke_token ''t1'' 10 sample_token]"
    by (simp add: sample_token_eval Logout_def)
  then show thesis using that by blast
qed

lemmas sample_user_eval =
  sample_token_eval Login_def SignUp_def issueSession_def upsertDevice_def pg_user_GetByEmail_def
  select_user_def pg_user_Create_def insert_user_def user_rows_def

lemma normalizeEmail_sample: "normalizeEmail ''Ann'' = ''ann''" "normalizeEmail ''bob'' = ''bob''"
  "normalizeEmail ''Bob'' = ''bob''" "ToLower ''ann'' = ''ann''" "ToLower ''bob'' = ''bob''"
  "TrimSpace ''Bob'' = ''Bob''"
proof -
  have "ToLower ''Ann'' = ''ann''" "ToLower ''Bob'' = ''bob''" by code_simp+
  moreover show "ToLower ''ann'' = ''ann''" "ToLower ''bob'' = ''bob''" by code_simp+
  ultimately show "normalizeEmail ''Ann'' = ''ann''" "normalizeEmail ''bob'' = ''bob''"
    "normalizeEmail ''Bob'' = ''bob''" "TrimSpace ''Bob'' = ''Bob''"
    by (simp_all add: normalizeEmail_def TrimSpace_visible visible_ascii_def)
qed

definition sample_login_input :: LoginInput where
  "sample_login_input = \<lparr>li_Email = ''Ann'', li_Password = ''password'', li_Device = None\<rparr>"

lemma sample_login:
  obtains res w1 where "Login (server_auth sample_ex sample_cfg) sample_login_input sample_session_world = (Inr res, w1)"
proof -
  have "\<exists>res w1. Login (server_auth sample_ex sample_cfg) sample_login_input sample_session_world = (Inr res, w1)"
    by (simp add: sample_user_eval sample_login_input_def normalizeEmail_sample Itoa_def digits.simps)
  then show thesis using that by blast
qed

text \<open>A signer that knows the claims of the account the sign-up creates.\<close>

definition sample_signup_ex :: "(mem, Sequential, nat) externals" where
  "sample_signup_ex = sample_ex\<lparr>
     ex_hasher := \<lparr>Hash = (\<lambda>p x. (Inr (''h:'' @ p), x)), hs_Verify = (\<lambda>p h. Inr (''h:'' @ p = h))\<rparr>,
     ex_jwt := table_jwt [sample_claims\<lparr>cl_Subject := ''id-'' @ Itoa 1\<rparr>]\<rparr>"

lemma sample_signup:
  obtains res w1 r w2 where "SignUp (server_auth sample_signup_ex sample_cfg)
      \<lparr>su_Email = ''Bob'', su_Password = ''password'', su_DisplayName = ''Bob'', su_Device = None\<rparr> sample_session_world = (Inr res, w1)"
    and "Login (server_auth sample_signup_ex sample_cfg)
      \<lparr>li_Email = ''bob'', li_Password = ''password'', li_Device = None\<rparr> w1 = (Inr r, w2)"
proof -
  have "\<exists>res w1 r w2. SignUp (server_auth sample_signup_ex sample_cfg)
      \<lparr>su_Email = ''Bob'', su_Password = ''password'', su_DisplayName = ''Bob'', su_Device = None\<rparr> sample_session_world = (Inr res, w1)
    \<and> Login (server_auth sample_signup_ex sample_cfg)
      \<lparr>li_Email = ''bob'', li_Password = ''password'', li_Device = None\<rparr> w1 = (Inr r, w2)"
    by (simp add: sample_user_eval sample_signup_ex_def normalizeEmail_sample Itoa_def digits.simps)
  then show thesis using that by blast
qed


lemma login_needs_active_account_witness:
  "\<exists>res w1 u. Login (server_auth sample_ex sample_cfg) sample_login_input sample_session_world = (Inr res, w1)
     \<and> (u, None) \<in> set (user_rows sample_session_world) \<and> ar_UserID res = us_ID u"
proof -
  obtain res w1 where run: "Login (server_auth sample_ex sample_cfg) sample_login_input sample_session_world = (Inr res, w1)"
    by (rule sample_login)
  from login_needs_active_account [OF run] run show ?thesis by blast
qed

lemma signup_then_login_witness:
  "\<exists>res w1 res2 w2. SignUp (server_auth sample_signup_ex sample_cfg)
      \<lparr>su_Email = ''Bob'', su_Password = ''password'', su_DisplayName = ''Bob'', su_Device = None\<rparr> sample_session_world = (Inr res, w1)
    \<and> Login (server_auth sample_signup_ex sample_cfg)
      \<lparr>li_Email = ''bob'', li_Password = ''password'', li_Device = None\<rparr> w1 = (Inr res2, w2)
    \<and> ar_UserID res2 = ar_UserID res"
proof -
  let ?s = "server_auth sample_signup_ex sample_cfg"
  let ?in = "\<lparr>su_Email = ''Bob'', su_Password = ''password'', su_DisplayName = ''Bob'', su_Device = None\<rparr>"
  let ?in2 = "\<lparr>li_Email = ''bob'', li_Password = ''password'', li_Device = None\<rparr>"
  obtain res w1 res2 w2 where up: "SignUp ?s ?in sample_session_world = (Inr res, w1)"
    and li: "Login ?s ?in2 w1 = (Inr res2, w2)" by (rule sample_signup)
  have hash: "h \<noteq> '''' \<and> hs_Verify (ex_hasher sample_signup_ex) p h = Inr True"
    if "Hash (ex_hasher sample_signup_ex) p x = (Inr h, x')" for p x h x'
    using that by (auto simp: sample_signup_ex_def)
  have "ar_UserID res2 = ar_UserID res"
    using signup_then_login [OF hash up refl _ _ li] by (simp add: normalizeEmail_sample)
  with up li show ?thesis by blast
qed

lemma refresh_single_use_witness:
  "\<exists>res w1 w3. Refresh (server_auth sample_ex sample_cfg) ''first'' sample_session_world = (Inr res, w1)
     \<and> Refresh (server_auth sample_ex sample_cfg) ''first'' w1 = (Inl (Sentinel ErrRefreshTokenReused), w3)
     \<and> length (token_rows w1) = Suc (length (token_rows sample_session_world))
     \<and> (\<forall>t \<in> set (token_rows w3). rt_UserID t = ''a'' \<longrightarrow> rt_RevokedAt t \<noteq> None)"
proof -
  obtain res w1 e w3 where run: "Refresh (server_auth sample_ex sample_cfg) ''first'' sample_session_world = (Inr res, w1)"
    and again: "Refresh (server_auth sample_ex sample_cfg) ''first'' w1 = (Inl e, w3)" and up: "pg_script (w_auth w1) = []"
    by (rule sample_refresh)
  have ids: "fst (NewID (ex_uuid sample_ex) g) \<noteq> ''''" for g
    by (simp add: sample_ex_def Sequential_gen_def Sequential_NewID_def Let_def)
  from refresh_single_use [OF ids sample_tokens_wf run refl again] up obtain old where
    old: "old \<in> set (token_rows sample_session_world)" and len: "length (token_rows w1) = Suc (length (token_rows sample_session_world))"
    and e: "e = Sentinel ErrRefreshTokenReused" "\<forall>t \<in> set (token_rows w3). rt_UserID t = rt_UserID old \<longrightarrow> rt_RevokedAt t \<noteq> None"
    by auto
  from old have "rt_UserID old = ''a''" by (simp add: sample_auth_eval token_rows_def)
  with run again len e show ?thesis by auto
qed

text \<open>A library that signs whatever it is given.\<close>

definition sample_race_ex :: "(mem, Sequential, nat) externals" where
  "sample_race_ex = sample_ex\<lparr>ex_jwt := \<lparr>jwt_encode = (\<lambda>c. Inr (cl_Subject c)), jwt_parse = (\<lambda>_ _ _. Inl Token_bad)\<rparr>\<rparr>"

lemma refresh_race_two_sessions_witness:
  "\<exists>a b w1 w2 res1 w3 res2 w4 n1 n2. refresh_admit (server_auth sample_race_ex sample_cfg) ''first'' sample_session_world = (Inr a, w1)
     \<and> refresh_admit (server_auth sample_race_ex sample_cfg) ''first'' w1 = (Inr b, w2)
     \<and> refresh_rotate (server_auth sample_race_ex sample_cfg) a w2 = (Inr res1, w3)
     \<and> refresh_rotate (server_auth sample_race_ex sample_cfg) b w3 = (Inr res2, w4)
     \<and> n1 \<in> set (token_rows w4) \<and> n2 \<in> set (token_rows w4) \<and> rt_ID n1 \<noteq> rt_ID n2
     \<and> rt_RevokedAt n1 = None \<and> rt_RevokedAt n2 = None"
proof -
  let ?s = "server_auth sample_race_ex sample_cfg" and ?w = sample_session_world
  have hash: "rt_TokenHash sample_token = ex_sha256 sample_race_ex ''first''"
    and live: "rt_ReplacedBy sample_token = ''''" "rt_RevokedAt sample_token = None"
    by (simp_all add: sample_race_ex_def sample_ex_def sample_token_def)
  have rows: "token_rows ?w = [sample_token]" "pg_script (w_auth ?w) = []"
    by (simp_all add: sample_auth_eval token_rows_def)
  have idle: "read_wall (w_clock ?w) = (10, w_clock ?w)" by (simp add: sample_auth_eval)
  have admit: "refresh_admit ?s ''first'' ?w = (Inr (sample_token, 10), ?w)"
    using admit_live_token [where ex = sample_race_ex and cfg = sample_cfg, OF sample_tokens_wf rows(2) _ hash live]
    by (simp add: rows idle) (simp add: sample_token_def)
  have env: "user_exists (pg_tables (w_auth ?w)) (rt_UserID sample_token)" "rt_DeviceID sample_token = ''''"
    "clock_reading ?w < rt_ExpiresAt sample_token"
    by (simp_all add: sample_auth_eval user_exists_def clock_reading_def)
  have new: "ex_token sample_race_ex (w_rand ?w) = (Inr (Itoa 0), 1)" "ex_token sample_race_ex 1 = (Inr (Itoa 1), 2)"
    by (simp_all add: sample_race_ex_def sample_ex_def sample_auth_eval)
  obtain i1 g1 i2 g2 where ids: "NewID (ex_uuid sample_race_ex) (w_ids ?w) = (i1, g1)" "NewID (ex_uuid sample_race_ex) g1 = (i2, g2)"
    and i: "i1 = ''id-'' @ Itoa 1" "i2 = ''id-'' @ Itoa 2"
    by (simp add: sample_race_ex_def sample_ex_def sample_auth_eval)
  have fresh: "distinct (i1 # i2 # map rt_ID (token_rows ?w))"
    by (simp add: rows i sample_token_def Itoa_def digits.simps char_of_def bit_Suc_0_iff)
  have hashes: "distinct (ex_sha256 sample_race_ex (Itoa 0) # ex_sha256 sample_race_ex (Itoa 1) # map rt_TokenHash (token_rows ?w))"
    by (simp add: rows sample_race_ex_def sample_ex_def sample_token_def Itoa_def digits.simps char_of_def bit_Suc_0_iff)
  have sign: "\<exists>t. jwt_encode (ex_jwt sample_race_ex) c = Inr t" for c by (simp add: sample_race_ex_def)
  have there: "sample_token \<in> set (token_rows ?w)" by (simp add: rows)
  have last: "clock_reading (snd (refresh_admit ?s ''first'' (snd (refresh_admit ?s ''first'' ?w)))) < rt_ExpiresAt sample_token"
    by (simp add: admit env)
  from refresh_race_two_sessions [OF sample_tokens_wf rows(2) there hash live last env(1) disjI1 [OF env(2)] sign new ids fresh hashes]
  show ?thesis by blast
qed

lemma logout_ends_session_witness:
  "\<exists>w1 t. Logout (server_auth sample_ex sample_cfg) ''first'' sample_session_world = (Inr (), w1)
     \<and> t \<in> set (token_rows w1) \<and> \<not> live_token 10 t"
proof -
  obtain w1 where run: "Logout (server_auth sample_ex sample_cfg) ''first'' sample_session_world = (Inr (), w1)"
    and rows: "token_rows w1 = [revoke_token ''t1'' 10 sample_token]" by (rule sample_logout)
  have "\<not> live_token 10 (revoke_token ''t1'' 10 sample_token)"
    by (rule logout_ends_session [OF sample_tokens_wf run])
      (simp_all add: rows revoke_token_def sample_token_def sample_ex_def)
  with run rows show ?thesis by auto
qed

lemma sample_factor:
  obtains w1 where "VerifyMFA (server_auth sample_ex sample_cfg) ''a'' ''000000'' sample_world = (Inr True, w1)"
proof -
  have "\<exists>w1. VerifyMFA (server_auth sample_ex sample_cfg) ''a'' ''000000'' sample_world = (Inr True, w1)"
    by (simp add: sample_auth_eval sample_ex_def VerifyMFA_def mfa_Verify_def mfa_check_def server_challenger_def
        pg_secret_repo_def mfa_activate_def pg_secret_Get_def)
  then show thesis using that by blast
qed

lemma mfa_lifecycle_witness:
  "\<exists>w1 v t. VerifyMFA (server_auth sample_ex sample_cfg) ''a'' ''000000'' sample_world = (Inr True, w1)
     \<and> factor_rows w1 = (factor_rows sample_world)(''a'' \<mapsto> (v, Some t))"
proof -
  obtain w1 where run: "VerifyMFA (server_auth sample_ex sample_cfg) ''a'' ''000000'' sample_world = (Inr True, w1)"
    by (rule sample_factor)
  from mfa_lifecycle [of sample_ex sample_cfg "''a''" sample_world _ _ w1 "''000000''"] run show ?thesis by blast
qed

definition sample_curator_world :: "(mem, Sequential, nat) world" where
  "sample_curator_world = sample_session_world\<lparr>w_auth := pg_start \<lparr>
     at_users = [(sample_user_row\<lparr>us_Role := RoleCatalogCurator\<rparr>, None)],
     user_auth_identities = [], user_devices = [], tb_refresh_tokens = [], at_uuids = 0\<rparr>\<rparr>"

definition sample_request :: http_request where
  "sample_request = \<lparr>rq_header = [''Authorization'' \<mapsto> bearer @ ''0''], rq_query = Map.empty, rq_Host = '''',
     rq_RemoteAddr = '''', rq_body = '''', rq_user = None\<rparr>"

lemma Itoa_zero: "Itoa 0 = ''0''"
  by code_simp

lemma sample_curator:
  obtains w1 where "curator_gate sample_ex sample_cfg (\<lambda>r w. (WriteJSON 201 (Some ()), w)) sample_request sample_curator_world
     = (WriteJSON 201 (Some ()), w1)"
proof -
  have "\<exists>w1. curator_gate sample_ex sample_cfg (\<lambda>r w. (WriteJSON 201 (Some ()), w)) sample_request sample_curator_world
     = (WriteJSON 201 (Some ()), w1)"
    by (simp add: sample_auth_eval curator_gate_def RequireAuth_def RequireRole_def sample_request_def first_value_def
        Let_def sample_curator_world_def WithUserID_def Authenticate_def sample_ex_def table_jwt_def sample_claims_def
        HasRole_def pg_user_GetByID_def select_user_def RoleCatalogCurator_def bearer_def
        HasPrefix_def TrimPrefix_def Itoa_zero)
  then show thesis using that by blast
qed

lemma curator_only_witness:
  "\<exists>w1 row. curator_gate sample_ex sample_cfg (\<lambda>r w. (WriteJSON 201 (Some ()), w)) sample_request sample_curator_world
     = (WriteJSON 201 (Some ()), w1)
     \<and> (row, None) \<in> set (user_rows sample_curator_world) \<and> us_Role row = RoleCatalogCurator"
proof -
  obtain w1 where run: "curator_gate sample_ex sample_cfg (\<lambda>r w. (WriteJSON 201 (Some ()), w)) sample_request sample_curator_world
     = (WriteJSON 201 (Some ()), w1)" by (rule sample_curator)
  have jwt: "jwt_library (ex_jwt sample_ex)"
    by (simp add: sample_ex_def table_library.jwt_library_axioms)
  from curator_only [OF jwt run] run show ?thesis by (auto simp: WriteJSON_def)
qed

end
