(* ===== verification/Playback_Service.thy ===== *)
theory Playback_Service
  imports Platform
begin

text \<open>
  \<^verbatim>\<open>backend/internal/playback\<close> without its adapters: the session state and the interfaces
  (\<^verbatim>\<open>domain.go\<close>, \<^verbatim>\<open>repo.go\<close>) and the service that plays, pauses, seeks, skips and queues
  (\<^verbatim>\<open>service.go\<close>), each request as the sequence of what it does; \<open>Player\<close> takes them apart. A nil and an empty queue are one list; the code never tells them apart.
\<close>

section \<open>Domain and interfaces\<close>

record SessionState =
  ss_SessionID :: string
  ss_UserID :: string
  ss_DeviceID :: string
  ss_TrackID :: string
  ss_PositionMs :: int
  ss_IsPlaying :: bool
  ss_Queue :: "string list"
  ss_UpdatedAt :: time

record 'w StateStore =
  st_Save :: "SessionState \<Rightarrow> duration \<Rightarrow> ('w, unit) io"
  st_Load :: "string \<Rightarrow> ('w, SessionState) io"
  st_Delete :: "string \<Rightarrow> ('w, unit) io"

record 'w MediaURLResolver =
  mr_Resolve :: "string \<Rightarrow> ('w, string \<times> time) io"

record 'w TrackChecker =
  tk_TrackExists :: "string \<Rightarrow> ('w, bool) io"

record PlayEvent =
  ev_ID :: string
  ev_UserID :: string
  ev_TrackID :: string
  ev_DeviceID :: string
  ev_PlayedAt :: time
  ev_ContextType :: string

record 'w PlayEventRecorder =
  er_Record :: "PlayEvent \<Rightarrow> ('w, unit) io"

definition NoopPlayEventRecorder :: "'w PlayEventRecorder" where
  "NoopPlayEventRecorder = \<lparr>er_Record = (\<lambda>_. ret ())\<rparr>"

section \<open>The service\<close>

definition EnqueuePositionNext :: string where "EnqueuePositionNext = ''next''"
definition EnqueuePositionEnd :: string where "EnqueuePositionEnd = ''end''"

record 'w PlaybackService =
  ps_store :: "'w StateStore"
  ps_resolver :: "'w MediaURLResolver"
  ps_tracks :: "'w TrackChecker"
  ps_events :: "'w PlayEventRecorder"
  ps_clock :: "'w Clock"
  ps_ids :: "'w Generator"
  ps_sessionTTL :: duration

definition playback_invalid :: "string \<Rightarrow> err" where
  "playback_invalid d = Detailed (Sentinel PlaybackErrInvalidInput) d"

definition CreateSession :: "'w PlaybackService \<Rightarrow> string \<Rightarrow> string \<Rightarrow> ('w, SessionState) io" where
  "CreateSession s userID deviceID =
     (if userID = '''' then throw (playback_invalid ''user id is required'')
      else
        bindE (call (NewID (ps_ids s))) (\<lambda>i.
        bindE (call (Now (ps_clock s))) (\<lambda>now.
        let state = \<lparr>ss_SessionID = i, ss_UserID = userID, ss_DeviceID = deviceID, ss_TrackID = '''',
                     ss_PositionMs = 0, ss_IsPlaying = False, ss_Queue = [], ss_UpdatedAt = now\<rparr> in
        bindE (wrapE ''playback: create session'' (st_Save (ps_store s) state (ps_sessionTTL s))) (\<lambda>_.
        ret state))))"

definition getOwnedSession :: "'w PlaybackService \<Rightarrow> string \<Rightarrow> string \<Rightarrow> ('w, SessionState) io" where
  "getOwnedSession s sessionID requesterID =
     (if sessionID = '''' \<or> requesterID = ''''
      then throw (playback_invalid ''session id and requester are required'')
      else
        bindE (attempt (st_Load (ps_store s) sessionID)) (\<lambda>r. case r of
          Inl e \<Rightarrow> if errors_Is e ErrSessionNotFound then throw (Sentinel ErrSessionNotFound)
                   else throw (Wrapped ''playback: load session'' e)
        | Inr state \<Rightarrow>
            if ss_UserID state \<noteq> requesterID then throw (Sentinel ErrForbidden) else ret state))"

definition GetState :: "'w PlaybackService \<Rightarrow> string \<Rightarrow> string \<Rightarrow> ('w, SessionState) io" where
  "GetState s sessionID requesterID = getOwnedSession s sessionID requesterID"

definition loadTrack :: "'w PlaybackService \<Rightarrow> string \<Rightarrow> ('w, string \<times> time) io" where
  "loadTrack s trackID =
     bindE (wrapE ''playback: check track exists'' (tk_TrackExists (ps_tracks s) trackID)) (\<lambda>exists.
     if \<not> exists then throw (Sentinel PlaybackErrTrackNotFound)
     else wrapE ''playback: resolve media url'' (mr_Resolve (ps_resolver s) trackID))"

definition saveAndRecord :: "'w PlaybackService \<Rightarrow> SessionState \<Rightarrow> string \<Rightarrow> ('w, unit) io" where
  "saveAndRecord s state trackID =
     bindE (wrapE ''playback: save session'' (st_Save (ps_store s) state (ps_sessionTTL s))) (\<lambda>_.
     bindE (call (NewID (ps_ids s))) (\<lambda>i.
     wrapE ''playback: record play event'' (er_Record (ps_events s)
       \<lparr>ev_ID = i, ev_UserID = ss_UserID state, ev_TrackID = trackID, ev_DeviceID = ss_DeviceID state,
        ev_PlayedAt = ss_UpdatedAt state, ev_ContextType = ''playlist''\<rparr>)))"

record PlayResult =
  pr_TrackID :: string
  pr_StreamURL :: string
  pr_ExpiresAt :: time
  pr_State :: SessionState

definition Play :: "'w PlaybackService \<Rightarrow> string \<Rightarrow> string \<Rightarrow> string \<Rightarrow> int \<Rightarrow> ('w, PlayResult) io" where
  "Play s sessionID requesterID trackID positionMs =
     (if trackID = '''' then throw (playback_invalid ''track id is required'')
      else if positionMs < 0 then throw (playback_invalid ''position_ms must not be negative'')
      else
        bindE (getOwnedSession s sessionID requesterID) (\<lambda>state.
        bindE (loadTrack s trackID) (\<lambda>(streamURL, expiresAt).
        bindE (call (Now (ps_clock s))) (\<lambda>now.
        let state = state\<lparr>ss_TrackID := trackID, ss_PositionMs := positionMs, ss_IsPlaying := True,
                         ss_UpdatedAt := now\<rparr> in
        bindE (saveAndRecord s state trackID) (\<lambda>_.
        ret \<lparr>pr_TrackID = trackID, pr_StreamURL = streamURL, pr_ExpiresAt = expiresAt, pr_State = state\<rparr>)))))"

definition Pause :: "'w PlaybackService \<Rightarrow> string \<Rightarrow> string \<Rightarrow> ('w, SessionState) io" where
  "Pause s sessionID requesterID =
     bindE (getOwnedSession s sessionID requesterID) (\<lambda>state.
     bindE (call (Now (ps_clock s))) (\<lambda>now.
     let state = state\<lparr>ss_IsPlaying := False, ss_UpdatedAt := now\<rparr> in
     bindE (wrapE ''playback: pause'' (st_Save (ps_store s) state (ps_sessionTTL s))) (\<lambda>_.
     ret state)))"

definition Seek :: "'w PlaybackService \<Rightarrow> string \<Rightarrow> string \<Rightarrow> int \<Rightarrow> ('w, SessionState) io" where
  "Seek s sessionID requesterID positionMs =
     (if positionMs < 0 then throw (playback_invalid ''position_ms must not be negative'')
      else
        bindE (getOwnedSession s sessionID requesterID) (\<lambda>state.
        bindE (call (Now (ps_clock s))) (\<lambda>now.
        let state = state\<lparr>ss_PositionMs := positionMs, ss_UpdatedAt := now\<rparr> in
        bindE (wrapE ''playback: seek'' (st_Save (ps_store s) state (ps_sessionTTL s))) (\<lambda>_.
        ret state))))"

definition Next :: "'w PlaybackService \<Rightarrow> string \<Rightarrow> string \<Rightarrow> ('w, PlayResult) io" where
  "Next s sessionID requesterID =
     bindE (getOwnedSession s sessionID requesterID) (\<lambda>state.
     case ss_Queue state of
       [] \<Rightarrow> throw (Sentinel ErrEmptyQueue)
     | trackID # rest \<Rightarrow>
         bindE (loadTrack s trackID) (\<lambda>(streamURL, expiresAt).
         bindE (call (Now (ps_clock s))) (\<lambda>now.
         let state = state\<lparr>ss_TrackID := trackID, ss_PositionMs := 0, ss_IsPlaying := True,
                          ss_Queue := rest, ss_UpdatedAt := now\<rparr> in
         bindE (saveAndRecord s state trackID) (\<lambda>_.
         ret \<lparr>pr_TrackID = trackID, pr_StreamURL = streamURL, pr_ExpiresAt = expiresAt, pr_State = state\<rparr>))))"

text \<open>The loop of \<^verbatim>\<open>Enqueue\<close> over the tracks; it stops at the first that does not exist.\<close>

primrec check_tracks :: "'w PlaybackService \<Rightarrow> string list \<Rightarrow> ('w, unit) io" where
  "check_tracks s [] = ret ()"
| "check_tracks s (i # rest) =
     bindE (wrapE ''playback: check track exists'' (tk_TrackExists (ps_tracks s) i)) (\<lambda>exists.
     if \<not> exists then throw (Sentinel PlaybackErrTrackNotFound) else check_tracks s rest)"

text \<open>\<^verbatim>\<open>Enqueue\<close> up to the state it is about to save, and the save.\<close>

definition enqueue_read ::
    "'w PlaybackService \<Rightarrow> string \<Rightarrow> string \<Rightarrow> string list \<Rightarrow> string \<Rightarrow> ('w, SessionState) io" where
  "enqueue_read s sessionID requesterID trackIDs position =
     (if trackIDs = [] then throw (playback_invalid ''at least one track id is required'')
      else if '''' \<in> set trackIDs then throw (playback_invalid ''track ids must not be empty'')
      else
        bindE (getOwnedSession s sessionID requesterID) (\<lambda>state.
        bindE (check_tracks s trackIDs) (\<lambda>_.
        let q = (if position = EnqueuePositionNext then trackIDs @ ss_Queue state
                 else ss_Queue state @ trackIDs) in
        bindE (call (Now (ps_clock s))) (\<lambda>now.
        ret (state\<lparr>ss_Queue := q, ss_UpdatedAt := now\<rparr>)))))"

definition enqueue_write :: "'w PlaybackService \<Rightarrow> SessionState \<Rightarrow> ('w, SessionState) io" where
  "enqueue_write s state =
     bindE (wrapE ''playback: enqueue'' (st_Save (ps_store s) state (ps_sessionTTL s))) (\<lambda>_. ret state)"

definition Enqueue ::
    "'w PlaybackService \<Rightarrow> string \<Rightarrow> string \<Rightarrow> string list \<Rightarrow> string \<Rightarrow> ('w, SessionState) io" where
  "Enqueue s sessionID requesterID trackIDs position =
     bindE (enqueue_read s sessionID requesterID trackIDs position) (enqueue_write s)"

end
