(* ===== verification/Player.thy ===== *)
theory Player
  imports Playback_Service "HOL-Library.Multiset"
begin

text \<open>
  What the playback service promises, over any store that keeps the contract \<open>state_store\<close>. A request
  is four atomic parts: it reads the session, looks things up, writes the session back and records
  what is played. The parts of different requests interleave in any order. Whoever sends his own
  requests one after the other sees each of them act as one command on a player, or not at all.
\<close>

section \<open>The player\<close>

text \<open>What a listener knows of a session, and what a request asks of it.\<close>

record player =
  pl_track :: string
  pl_position :: int
  pl_playing :: bool
  pl_queue :: "string list"

definition player_of :: "SessionState \<Rightarrow> player" where
  "player_of s = \<lparr>pl_track = ss_TrackID s, pl_position = ss_PositionMs s, pl_playing = ss_IsPlaying s,
     pl_queue = ss_Queue s\<rparr>"

datatype command = CPlay string int | CPause | CSeek int | CNext | CEnqueue "string list" string

fun command_step :: "command \<Rightarrow> player \<Rightarrow> player option" where
  "command_step (CPlay t p) pl =
     (if t = '''' \<or> p < 0 then None else Some (pl\<lparr>pl_track := t, pl_position := p, pl_playing := True\<rparr>))"
| "command_step CPause pl = Some (pl\<lparr>pl_playing := False\<rparr>)"
| "command_step (CSeek p) pl = (if p < 0 then None else Some (pl\<lparr>pl_position := p\<rparr>))"
| "command_step CNext pl =
     (case pl_queue pl of
        [] \<Rightarrow> None
      | t # q \<Rightarrow> Some \<lparr>pl_track = t, pl_position = 0, pl_playing = True, pl_queue = q\<rparr>)"
| "command_step (CEnqueue ts pos) pl =
     (if ts = [] \<or> '''' \<in> set ts then None
      else Some (pl\<lparr>pl_queue := (if pos = EnqueuePositionNext then ts @ pl_queue pl else pl_queue pl @ ts)\<rparr>))"

primrec commands :: "command list \<Rightarrow> player \<Rightarrow> player option" where
  "commands [] pl = Some pl"
| "commands (c # cs) pl = Option.bind (command_step c pl) (commands cs)"

lemma commands_append: "commands (cs @ ds) pl = Option.bind (commands cs pl) (commands ds)"
  by (induction cs arbitrary: pl) (auto split: Option.bind_splits)

text \<open>The request that carries a command, and the state it answers with.\<close>

fun exec :: "'w PlaybackService \<Rightarrow> string \<Rightarrow> string \<Rightarrow> command \<Rightarrow> ('w, SessionState) io" where
  "exec s i u (CPlay t p) = bindE (Play s i u t p) (\<lambda>r. ret (pr_State r))"
| "exec s i u CPause = Pause s i u"
| "exec s i u (CSeek p) = Seek s i u p"
| "exec s i u CNext = bindE (Next s i u) (\<lambda>r. ret (pr_State r))"
| "exec s i u (CEnqueue ts pos) = Enqueue s i u ts pos"

text \<open>
  The parts of a request. \<open>refusal\<close> is what its arguments are refused with before the session is
  read, \<open>look_up\<close> what happens between the read and the write, \<open>note_play\<close> what follows the write.
\<close>

fun refusal :: "command \<Rightarrow> err option" where
  "refusal (CPlay t p) =
     (if t = '''' then Some (playback_invalid ''track id is required'')
      else if p < 0 then Some (playback_invalid ''position_ms must not be negative'') else None)"
| "refusal (CSeek p) = (if p < 0 then Some (playback_invalid ''position_ms must not be negative'') else None)"
| "refusal (CEnqueue ts pos) =
     (if ts = [] then Some (playback_invalid ''at least one track id is required'')
      else if '''' \<in> set ts then Some (playback_invalid ''track ids must not be empty'') else None)"
| "refusal _ = None"

definition read_session :: "'w PlaybackService \<Rightarrow> string \<Rightarrow> string \<Rightarrow> command \<Rightarrow> ('w, SessionState) io" where
  "read_session s i u c = (case refusal c of Some e \<Rightarrow> throw e | None \<Rightarrow> getOwnedSession s i u)"

definition stamped :: "'w PlaybackService \<Rightarrow> SessionState \<Rightarrow> ('w, SessionState) io" where
  "stamped s st = bindE (call (Now (ps_clock s))) (\<lambda>now. ret (st\<lparr>ss_UpdatedAt := now\<rparr>))"

fun look_up :: "'w PlaybackService \<Rightarrow> command \<Rightarrow> SessionState \<Rightarrow> ('w, SessionState) io" where
  "look_up s (CPlay t p) st = bindE (loadTrack s t) (\<lambda>_.
     stamped s (st\<lparr>ss_TrackID := t, ss_PositionMs := p, ss_IsPlaying := True\<rparr>))"
| "look_up s CPause st = stamped s (st\<lparr>ss_IsPlaying := False\<rparr>)"
| "look_up s (CSeek p) st = stamped s (st\<lparr>ss_PositionMs := p\<rparr>)"
| "look_up s CNext st =
     (case ss_Queue st of
        [] \<Rightarrow> throw (Sentinel ErrEmptyQueue)
      | t # q \<Rightarrow> bindE (loadTrack s t) (\<lambda>_.
          stamped s (st\<lparr>ss_TrackID := t, ss_PositionMs := 0, ss_IsPlaying := True, ss_Queue := q\<rparr>)))"
| "look_up s (CEnqueue ts pos) st = bindE (check_tracks s ts) (\<lambda>_.
     stamped s (st\<lparr>ss_Queue := (if pos = EnqueuePositionNext then ts @ ss_Queue st else ss_Queue st @ ts)\<rparr>))"

fun save_context :: "command \<Rightarrow> string" where
  "save_context CPause = ''playback: pause''"
| "save_context (CSeek p) = ''playback: seek''"
| "save_context (CEnqueue ts pos) = ''playback: enqueue''"
| "save_context _ = ''playback: save session''"

definition write_session :: "'w PlaybackService \<Rightarrow> command \<Rightarrow> SessionState \<Rightarrow> ('w, unit) io" where
  "write_session s c st = wrapE (save_context c) (st_Save (ps_store s) st (ps_sessionTTL s))"

fun starts_track :: "command \<Rightarrow> bool" where
  "starts_track (CPlay t p) = True"
| "starts_track CNext = True"
| "starts_track _ = False"

definition note_play :: "'w PlaybackService \<Rightarrow> command \<Rightarrow> SessionState \<Rightarrow> ('w, unit) io" where
  "note_play s c st =
     (if starts_track c then
        bindE (call (NewID (ps_ids s))) (\<lambda>n.
        wrapE ''playback: record play event'' (er_Record (ps_events s)
          \<lparr>ev_ID = n, ev_UserID = ss_UserID st, ev_TrackID = ss_TrackID st, ev_DeviceID = ss_DeviceID st,
           ev_PlayedAt = ss_UpdatedAt st, ev_ContextType = ''playlist''\<rparr>))
      else ret ())"

text \<open>The four parts, one after the other, are the request.\<close>

definition in_parts :: "'w PlaybackService \<Rightarrow> string \<Rightarrow> string \<Rightarrow> command \<Rightarrow> ('w, SessionState) io" where
  "in_parts s i u c =
     bindE (read_session s i u c) (\<lambda>st.
     bindE (look_up s c st) (\<lambda>new.
     bindE (write_session s c new) (\<lambda>_.
     bindE (note_play s c new) (\<lambda>_. ret new))))"

lemma exec_in_parts: "exec s i u c = in_parts s i u c"
proof (cases c)
  case (CPlay t p)
  show ?thesis
    by (simp add: CPlay Play_def in_parts_def read_session_def write_session_def note_play_def stamped_def
        saveAndRecord_def bindE_assoc Let_def case_prod_beta del: ret_apply throw_apply)
next
  case CPause
  show ?thesis
    by (simp add: CPause Pause_def in_parts_def read_session_def write_session_def note_play_def stamped_def
        bindE_assoc Let_def del: ret_apply throw_apply)
next
  case (CSeek p)
  show ?thesis
    by (simp add: CSeek Seek_def in_parts_def read_session_def write_session_def note_play_def stamped_def
        bindE_assoc Let_def del: ret_apply throw_apply)
next
  case CNext
  show ?thesis
    unfolding CNext exec.simps Next_def in_parts_def read_session_def refusal.simps option.case bindE_assoc
    by (rule arg_cong [where f = "bindE _"], rule ext, rename_tac st, case_tac "ss_Queue st")
      (simp_all add: write_session_def note_play_def stamped_def saveAndRecord_def bindE_assoc Let_def
        case_prod_beta del: ret_apply throw_apply)
next
  case (CEnqueue ts pos)
  show ?thesis
    by (simp add: CEnqueue Enqueue_def enqueue_read_def enqueue_write_def in_parts_def read_session_def
        write_session_def note_play_def stamped_def bindE_assoc Let_def del: ret_apply throw_apply)
qed

text \<open>
  Where a request in progress stands: what it has read, is about to write, has written. \<open>next_part\<close> is
  its next part.
\<close>

datatype phase = Asked | Loaded SessionState | Ready SessionState | Stored SessionState | Finished SessionState

primrec carried :: "phase \<Rightarrow> SessionState set" where
  "carried Asked = {}"
| "carried (Loaded st) = {st}"
| "carried (Ready st) = {st}"
| "carried (Stored st) = {st}"
| "carried (Finished st) = {st}"

primrec next_part :: "'w PlaybackService \<Rightarrow> string \<Rightarrow> string \<Rightarrow> command \<Rightarrow> phase \<Rightarrow> ('w, phase) io" where
  "next_part s i u c Asked = bindE (read_session s i u c) (\<lambda>st. ret (Loaded st))"
| "next_part s i u c (Loaded st) = bindE (look_up s c st) (\<lambda>new. ret (Ready new))"
| "next_part s i u c (Ready st) = bindE (write_session s c st) (\<lambda>_. ret (Stored st))"
| "next_part s i u c (Stored st) = bindE (note_play s c st) (\<lambda>_. ret (Finished st))"
| "next_part s i u c (Finished st) = ret (Finished st)"

definition is_err :: "err + 'a \<Rightarrow> bool" where
  "is_err r \<longleftrightarrow> (\<exists>e. r = Inl e)"

lemma is_err_simps [simp]: "is_err (Inl e)" "\<not> is_err (Inr x)"
  by (simp_all add: is_err_def)

section \<open>The contract of the store\<close>

text \<open>
  \<open>saved w\<close> is the session stored under each identifier. Sessions may vanish at any time, since they
  have a time to live; nothing but a save puts one there.
\<close>

locale state_store =
  fixes store :: "'w StateStore"
    and saved :: "'w \<Rightarrow> string \<rightharpoonup> SessionState"
  assumes Save_done: "st_Save store s ttl w = (Inr (), w')
      \<Longrightarrow> \<exists>m. m \<subseteq>\<^sub>m saved w \<and> saved w' = m(ss_SessionID s \<mapsto> s)"
    and Save_failed: "st_Save store s ttl w = (Inl e, w')
      \<Longrightarrow> \<exists>m. m \<subseteq>\<^sub>m saved w \<and> (saved w' = m \<or> saved w' = m(ss_SessionID s \<mapsto> s))"
    and Load_fades: "st_Load store i w = (r, w') \<Longrightarrow> saved w' \<subseteq>\<^sub>m saved w"
    and Load_found: "st_Load store i w = (Inr s, w') \<Longrightarrow> saved w' i = Some s"
    and Load_absent: "st_Load store i w = (Inl e, w') \<Longrightarrow> errors_Is e ErrSessionNotFound \<Longrightarrow> saved w' i = None"

locale playback_service =
  state_store "ps_store s" saved
  for s :: "'w PlaybackService" and saved :: "'w \<Rightarrow> string \<rightharpoonup> SessionState" +
  assumes Now_keeps: "keeps saved (Now (ps_clock s))"
    and NewID_keeps: "keeps saved (NewID (ps_ids s))"
    and Resolve_keeps: "keeps saved (mr_Resolve (ps_resolver s) t)"
    and TrackExists_keeps: "keeps saved (tk_TrackExists (ps_tracks s) t)"
    and Record_keeps: "keeps saved (er_Record (ps_events s) e)"

text \<open>A session is stored under its own identifier.\<close>

definition sessions_wf :: "(string \<rightharpoonup> SessionState) \<Rightarrow> bool" where
  "sessions_wf m \<longleftrightarrow> (\<forall>i st. m i = Some st \<longrightarrow> ss_SessionID st = i)"

lemma sessions_wf_fades: "m' \<subseteq>\<^sub>m m \<Longrightarrow> sessions_wf m \<Longrightarrow> sessions_wf m'"
  unfolding sessions_wf_def map_le_def by (metis domI)

lemma sessions_wf_saved: "sessions_wf m \<Longrightarrow> sessions_wf (m(ss_SessionID st \<mapsto> st))"
  by (simp add: sessions_wf_def)

text \<open>\<open>turned c old new\<close>: the session \<open>new\<close> is \<open>old\<close> after the command, of the same user and device.\<close>

definition turned :: "command \<Rightarrow> SessionState \<Rightarrow> SessionState \<Rightarrow> bool" where
  "turned c old new \<longleftrightarrow> ss_SessionID new = ss_SessionID old \<and> ss_UserID new = ss_UserID old
     \<and> ss_DeviceID new = ss_DeviceID old \<and> command_step c (player_of old) = Some (player_of new)"

context playback_service
begin

lemma getOwned_done:
  assumes "getOwnedSession s i u w = (Inr st, w')"
  shows "saved w i = Some st \<and> saved w' i = Some st \<and> saved w' \<subseteq>\<^sub>m saved w \<and> ss_UserID st = u"
proof -
  from assms have load: "st_Load (ps_store s) i w = (Inr st, w')" and u: "ss_UserID st = u"
    by (auto simp: getOwnedSession_def split: sum.splits if_splits)
  have "saved w' i = Some st" using Load_found [OF load] .
  with Load_fades [OF load] u show ?thesis by (auto simp: map_le_def dom_def)
qed

lemma getOwned_fades:
  assumes "getOwnedSession s i u w = (r, w')"
  shows "saved w' \<subseteq>\<^sub>m saved w"
proof (cases "i = '''' \<or> u = ''''")
  case True
  with assms show ?thesis by (auto simp: getOwnedSession_def)
next
  case False
  then obtain x where "st_Load (ps_store s) i w = (x, w')"
    using assms by (auto simp: getOwnedSession_def bindE_def attempt_def split: prod.splits sum.splits if_splits)
  then show ?thesis by (rule Load_fades)
qed

lemma loadTrack_keeps: "keeps saved (loadTrack s t)"
  unfolding loadTrack_def by (intro keeps_intros TrackExists_keeps Resolve_keeps)

lemma check_tracks_keeps: "keeps saved (check_tracks s ts)"
proof (induction ts)
  case Nil
  show ?case unfolding check_tracks.simps by (rule keeps_ret)
next
  case (Cons t ts)
  then show ?case unfolding check_tracks.simps by (intro keeps_intros TrackExists_keeps)
qed

lemma stamped_done:
  assumes "stamped s st w = (r, w')"
  shows "saved w' = saved w \<and> (\<exists>now. r = Inr (st\<lparr>ss_UpdatedAt := now\<rparr>))"
  using assms keepsD [OF Now_keeps] by (auto simp: stamped_def bindE_def call_def split: prod.splits)

lemma stamped_keeps: "keeps saved (stamped s st)"
  by (rule keepsI) (use stamped_done in blast)

lemma look_up_keeps: "keeps saved (look_up s c st)"
proof (cases c)
  case CNext
  then show ?thesis by (cases "ss_Queue st") (auto intro!: keeps_intros loadTrack_keeps stamped_keeps)
qed (auto intro!: keeps_intros loadTrack_keeps check_tracks_keeps stamped_keeps)

lemma look_up_done:
  assumes "look_up s c st w = (Inr new, w')" and "refusal c = None"
  shows "turned c st new"
  using assms by (cases c) (auto simp: turned_def player_of_def dest!: stamped_done split: list.splits if_splits)

lemma note_play_keeps: "keeps saved (note_play s c st)"
  unfolding note_play_def by (auto intro!: keeps_intros NewID_keeps Record_keeps)

text \<open>What each part of a request does to the sessions, and what it carries on.\<close>

lemma read_session_done:
  assumes "read_session s i u c w = (Inr st, w')"
  shows "refusal c = None \<and> saved w i = Some st \<and> saved w' \<subseteq>\<^sub>m saved w \<and> ss_UserID st = u"
  using assms getOwned_done by (auto simp: read_session_def split: option.splits)

lemma read_session_fades: "read_session s i u c w = (r, w') \<Longrightarrow> saved w' \<subseteq>\<^sub>m saved w"
  using getOwned_fades by (auto simp: read_session_def split: option.splits)

lemma write_session_done:
  assumes "write_session s c st w = (r, w')"
  obtains left where "left \<subseteq>\<^sub>m saved w" and "saved w' = left \<and> is_err r \<or> saved w' = left(ss_SessionID st \<mapsto> st)"
proof (cases r)
  case (Inl e)
  with assms obtain e' where "st_Save (ps_store s) st (ps_sessionTTL s) w = (Inl e', w')"
    by (auto simp: write_session_def elim: wrapE_InlE)
  from Save_failed [OF this] Inl that show ?thesis by auto
next
  case (Inr x)
  with assms have "st_Save (ps_store s) st (ps_sessionTTL s) w = (Inr (), w')" by (auto simp: write_session_def)
  from Save_done [OF this] that show ?thesis by blast
qed

lemma CreateSession_effect:
  assumes "CreateSession s u d w = (r, w')"
  shows "(\<exists>st left. left \<subseteq>\<^sub>m saved w \<and> saved w' = left(ss_SessionID st \<mapsto> st)
       \<and> ss_SessionID st = fst (NewID (ps_ids s) w) \<and> ss_UserID st = u \<and> ss_DeviceID st = d
       \<and> player_of st = \<lparr>pl_track = '''', pl_position = 0, pl_playing = False, pl_queue = []\<rparr>
       \<and> (\<forall>y. r = Inr y \<longrightarrow> y = st))
    \<or> (saved w' \<subseteq>\<^sub>m saved w \<and> (\<exists>e. r = Inl e))"
proof (cases "u = ''''")
  case True
  with assms show ?thesis by (auto simp: CreateSession_def)
next
  case False
  obtain i w1 where new: "NewID (ps_ids s) w = (i, w1)" by fastforce
  obtain now w2 where clk: "Now (ps_clock s) w1 = (now, w2)" by fastforce
  let ?st = "\<lparr>ss_SessionID = i, ss_UserID = u, ss_DeviceID = d, ss_TrackID = '''', ss_PositionMs = 0,
      ss_IsPlaying = False, ss_Queue = [], ss_UpdatedAt = now\<rparr>"
  have same: "saved w2 = saved w" using keepsD [OF Now_keeps clk] keepsD [OF NewID_keeps new] by simp
  from assms False new clk
  have run: "bindE (wrapE ''playback: create session'' (st_Save (ps_store s) ?st (ps_sessionTTL s))) (\<lambda>_. ret ?st) w2 = (r, w')"
    by (simp add: CreateSession_def bindE_def call_def Let_def)
  have fresh: "ss_SessionID ?st = fst (NewID (ps_ids s) w)" using new by simp
  show ?thesis using run
  proof (cases rule: bindE_E)
    case (failed e)
    then obtain e' where "st_Save (ps_store s) ?st (ps_sessionTTL s) w2 = (Inl e', w')" by (auto elim: wrapE_InlE)
    from Save_failed [OF this] obtain left where "left \<subseteq>\<^sub>m saved w" and "saved w' = left \<or> saved w' = left(ss_SessionID ?st \<mapsto> ?st)"
      using same by auto
    with failed(2) fresh show ?thesis by (auto simp: player_of_def intro!: exI [of _ ?st])
  next
    case (answered x w3)
    then have "st_Save (ps_store s) ?st (ps_sessionTTL s) w2 = (Inr (), w3)" by auto
    from Save_done [OF this] obtain left where "left \<subseteq>\<^sub>m saved w" and "saved w3 = left(ss_SessionID ?st \<mapsto> ?st)"
      using same by auto
    with answered(2) fresh show ?thesis by (auto simp: player_of_def intro!: exI [of _ ?st])
  qed
qed

lemma GetState_fades:
  assumes "GetState s i u w = (r, w')"
  shows "saved w' \<subseteq>\<^sub>m saved w"
  using assms unfolding GetState_def by (rule getOwned_fades)

end

section \<open>Many requests\<close>

text \<open>
  A request in progress: the session and the user it names, the command, and where it stands. The
  steps of a crowd of requests, with the sessions time may remove at any moment and other modules
  that leave the sessions alone: \<open>who\<close> says whose requests they are, \<open>new_id\<close> which identifiers new
  sessions may get.
\<close>

type_synonym request = "string \<times> string \<times> command \<times> phase"

inductive crowd_step :: "'w PlaybackService \<Rightarrow> ('w \<Rightarrow> string \<rightharpoonup> SessionState) \<Rightarrow> (string \<Rightarrow> string \<Rightarrow> bool)
    \<Rightarrow> (string \<Rightarrow> bool) \<Rightarrow> request multiset \<Rightarrow> 'w \<Rightarrow> request multiset \<Rightarrow> 'w \<Rightarrow> bool"
  for s saved who new_id where
  arrives: "who j v \<Longrightarrow> crowd_step s saved who new_id fl w (add_mset (j, v, c, Asked) fl) w"
| advances: "(j, v, c, p) \<in># fl \<Longrightarrow> next_part s j v c p w = (Inr p', w')
    \<Longrightarrow> crowd_step s saved who new_id fl w (add_mset (j, v, c, p') (fl - {#(j, v, c, p)#})) w'"
| fails: "(j, v, c, p) \<in># fl \<Longrightarrow> next_part s j v c p w = (Inl e, w')
    \<Longrightarrow> crowd_step s saved who new_id fl w (fl - {#(j, v, c, p)#}) w'"
| creates: "CreateSession s v d w = (r, w') \<Longrightarrow> new_id (fst (NewID (ps_ids s) w))
    \<Longrightarrow> crowd_step s saved who new_id fl w fl w'"
| looks: "GetState s j v w = (r, w') \<Longrightarrow> crowd_step s saved who new_id fl w fl w'"
| elsewhere: "saved w' \<subseteq>\<^sub>m saved w \<Longrightarrow> crowd_step s saved who new_id fl w fl w'"

text \<open>Any number of requests of all users, in any interleaving.\<close>

inductive traffic :: "'w PlaybackService \<Rightarrow> ('w \<Rightarrow> string \<rightharpoonup> SessionState) \<Rightarrow> 'w \<Rightarrow> request multiset \<Rightarrow> 'w \<Rightarrow> bool"
  for s saved w0 where
  quiet: "traffic s saved w0 {#} w0"
| moves: "traffic s saved w0 fl w \<Longrightarrow> crowd_step s saved (\<lambda>_ _. True) (\<lambda>_. True) fl w fl' w' \<Longrightarrow> traffic s saved w0 fl' w'"

text \<open>
  A run in which the user \<open>u\<close> sends the next request to the session \<open>i\<close> when the last one has been
  answered, while everybody else's requests, and the user's own to other sessions, go on between the
  parts of it: \<open>sent\<close> are the commands answered so far and whether the answer was a success, then
  comes the one in progress. Identifiers of new sessions are new.
\<close>

inductive requests :: "'w PlaybackService \<Rightarrow> ('w \<Rightarrow> string \<rightharpoonup> SessionState) \<Rightarrow> string \<Rightarrow> string \<Rightarrow> 'w
    \<Rightarrow> (command \<times> bool) list \<Rightarrow> (command \<times> phase) option \<Rightarrow> request multiset \<Rightarrow> 'w \<Rightarrow> bool"
  for s saved i u w0 where
  start: "requests s saved i u w0 [] None {#} w0"
| asks: "requests s saved i u w0 sent None fl w \<Longrightarrow> requests s saved i u w0 sent (Some (c, Asked)) fl w"
| goes_on: "requests s saved i u w0 sent (Some (c, p)) fl w \<Longrightarrow> next_part s i u c p w = (Inr p', w')
    \<Longrightarrow> requests s saved i u w0 sent (Some (c, p')) fl w'"
| refused: "requests s saved i u w0 sent (Some (c, p)) fl w \<Longrightarrow> next_part s i u c p w = (Inl e, w')
    \<Longrightarrow> requests s saved i u w0 (sent @ [(c, False)]) None fl w'"
| answered: "requests s saved i u w0 sent (Some (c, Finished st)) fl w
    \<Longrightarrow> requests s saved i u w0 (sent @ [(c, True)]) None fl w"
| others: "requests s saved i u w0 sent own fl w \<Longrightarrow> crowd_step s saved (\<lambda>j v. (j, v) \<noteq> (i, u)) (\<lambda>n. n \<noteq> i) fl w fl' w'
    \<Longrightarrow> requests s saved i u w0 sent own fl' w'"

definition unanswered :: "(command \<times> phase) option \<Rightarrow> (command \<times> bool) list" where
  "unanswered own = (case own of None \<Rightarrow> [] | Some (c, p) \<Rightarrow> [(c, False)])"

text \<open>
  Which commands took effect: every one that was answered, none that was not sent, in the order
  they were sent.
\<close>

definition effective :: "(command \<times> bool) list \<Rightarrow> command list \<Rightarrow> bool" where
  "effective sent cs \<longleftrightarrow> (\<exists>bs. list_all2 (\<lambda>(_, answered) b. answered \<longrightarrow> b) sent bs
     \<and> cs = map (fst \<circ> fst) (filter snd (zip sent bs)))"

lemma effective_Nil: "effective [] []"
  by (simp add: effective_def)

lemma effective_snoc:
  assumes "effective sent cs"
  shows "effective (sent @ [(c, ok)]) (cs @ [c])" and "\<not> ok \<Longrightarrow> effective (sent @ [(c, ok)]) cs"
proof -
  from assms obtain bs where bs: "list_all2 (\<lambda>(_, answered) b. answered \<longrightarrow> b) sent bs"
    "cs = map (fst \<circ> fst) (filter snd (zip sent bs))" by (auto simp: effective_def)
  note len = list_all2_lengthD [OF bs(1)]
  show "effective (sent @ [(c, ok)]) (cs @ [c])"
    unfolding effective_def using bs len by (intro exI [of _ "bs @ [True]"]) (simp add: list_all2_appendI)
  show "\<not> ok \<Longrightarrow> effective (sent @ [(c, ok)]) cs"
    unfolding effective_def using bs len by (intro exI [of _ "bs @ [False]"]) (simp add: list_all2_appendI)
qed

text \<open>
  A property of sessions that new sessions have and every command keeps; and a crowd all of whose
  sessions, stored under their own identifiers or carried by the requests that name them, have it.
\<close>

definition kept_by_commands :: "(SessionState \<Rightarrow> bool) \<Rightarrow> bool" where
  "kept_by_commands P \<longleftrightarrow> (\<forall>c old new. P old \<longrightarrow> turned c old new \<longrightarrow> P new)
     \<and> (\<forall>st. player_of st = \<lparr>pl_track = '''', pl_position = 0, pl_playing = False, pl_queue = []\<rparr> \<longrightarrow> P st)"

definition request_ok :: "(SessionState \<Rightarrow> bool) \<Rightarrow> request \<Rightarrow> bool" where
  "request_ok P r = (case r of (j, v, c, p) \<Rightarrow>
     (p = Asked \<or> refusal c = None) \<and> (\<forall>st \<in> carried p. ss_SessionID st = j \<and> ss_UserID st = v \<and> P st))"

definition crowd_ok :: "(SessionState \<Rightarrow> bool) \<Rightarrow> request multiset \<Rightarrow> (string \<rightharpoonup> SessionState) \<Rightarrow> bool" where
  "crowd_ok P fl m \<longleftrightarrow> sessions_wf m \<and> (\<forall>j st. m j = Some st \<longrightarrow> P st) \<and> (\<forall>r \<in># fl. request_ok P r)"

lemma crowd_ok_fades: "m' \<subseteq>\<^sub>m m \<Longrightarrow> crowd_ok P fl m \<Longrightarrow> crowd_ok P fl m'"
  unfolding crowd_ok_def using sessions_wf_fades by (metis domI map_le_def)

lemma crowd_ok_saved: "left \<subseteq>\<^sub>m m \<Longrightarrow> P st \<Longrightarrow> crowd_ok P fl m \<Longrightarrow> crowd_ok P fl (left(ss_SessionID st \<mapsto> st))"
  using crowd_ok_fades [of left m P fl] by (auto simp: crowd_ok_def sessions_wf_saved)

lemma crowd_ok_fewer: "crowd_ok P fl m \<Longrightarrow> crowd_ok P (fl - {#r#}) m"
  by (auto simp: crowd_ok_def dest: in_diffD)

lemma crowd_ok_add: "crowd_ok P (add_mset r fl) m \<longleftrightarrow> request_ok P r \<and> crowd_ok P fl m"
  by (auto simp: crowd_ok_def)

context playback_service
begin

text \<open>A part of a request: what is stored after it, and what the request carries on.\<close>

lemma next_part_saved:
  assumes "next_part s j v c p w = (r, w')"
  shows "saved w' \<subseteq>\<^sub>m saved w
    \<or> (\<exists>st left. p = Ready st \<and> left \<subseteq>\<^sub>m saved w \<and> saved w' = left(ss_SessionID st \<mapsto> st))"
proof (cases p)
  case Asked
  with assms obtain r1 where "read_session s j v c w = (r1, w')" by (auto simp: bindE_def split: prod.splits sum.splits)
  from read_session_fades [OF this] show ?thesis ..
next
  case (Loaded st)
  with assms obtain r1 where "look_up s c st w = (r1, w')" by (auto simp: bindE_def split: prod.splits sum.splits)
  from keepsD [OF look_up_keeps this] show ?thesis by simp
next
  case (Ready st)
  with assms obtain r1 where "write_session s c st w = (r1, w')" by (auto simp: bindE_def split: prod.splits sum.splits)
  then show ?thesis by (rule write_session_done) (use Ready in auto)
next
  case (Stored st)
  with assms obtain r1 where "note_play s c st w = (r1, w')" by (auto simp: bindE_def split: prod.splits sum.splits)
  from keepsD [OF note_play_keeps this] show ?thesis by simp
next
  case (Finished st)
  with assms show ?thesis by simp
qed

lemma next_part_crowd:
  assumes run: "next_part s j v c p w = (r, w')" and "crowd_ok P fl (saved w)" and "\<forall>st \<in> carried p. P st"
  shows "crowd_ok P fl (saved w')"
  using next_part_saved [OF run]
proof (elim disjE exE conjE)
  assume "saved w' \<subseteq>\<^sub>m saved w"
  then show ?thesis using assms(2) by (rule crowd_ok_fades)
next
  fix st left
  assume "p = Ready st" and "left \<subseteq>\<^sub>m saved w" and "saved w' = left(ss_SessionID st \<mapsto> st)"
  with crowd_ok_saved [OF this(2) _ assms(2)] assms(3) show ?thesis by simp
qed

lemma next_part_ok:
  assumes "next_part s j v c p w = (Inr p', w')" and "crowd_ok P fl (saved w)" and "request_ok P (j, v, c, p)"
    and "kept_by_commands P"
  shows "request_ok P (j, v, c, p')"
proof (cases p)
  case Asked
  with assms(1) obtain st where "read_session s j v c w = (Inr st, w')" "p' = Loaded st" by auto
  with read_session_done [OF this(1)] assms(2) show ?thesis by (auto simp: request_ok_def crowd_ok_def sessions_wf_def)
next
  case (Loaded st)
  with assms(1) obtain new where "look_up s c st w = (Inr new, w')" and p': "p' = Ready new" by auto
  with look_up_done Loaded assms(3) have "turned c st new" by (auto simp: request_ok_def)
  moreover from this Loaded assms(3,4) have "P new" unfolding request_ok_def kept_by_commands_def by auto
  ultimately show ?thesis using Loaded assms(3) p' by (simp add: request_ok_def turned_def)
qed (use assms(1,3) in \<open>auto simp: request_ok_def\<close>)

lemma crowd_step_ok:
  assumes "crowd_step s saved who new_id fl w fl' w'" and "crowd_ok P fl (saved w)" and P: "kept_by_commands P"
  shows "crowd_ok P fl' (saved w')"
  using assms(1,2)
proof cases
  case (arrives j v c)
  with assms(2) show ?thesis by (simp add: crowd_ok_add request_ok_def)
next
  case (advances j v c p p')
  with assms(2) have "request_ok P (j, v, c, p)" by (auto simp: crowd_ok_def)
  from next_part_ok [OF advances(3) assms(2) this P] next_part_crowd [OF advances(3) crowd_ok_fewer [OF assms(2)]] this
  show ?thesis by (simp add: advances(1) crowd_ok_add request_ok_def)
next
  case (fails j v c p e)
  with assms(2) have "request_ok P (j, v, c, p)" by (auto simp: crowd_ok_def)
  from next_part_crowd [OF fails(3) crowd_ok_fewer [OF assms(2)]] this show ?thesis by (simp add: fails(1) request_ok_def)
next
  case (creates v d r)
  from CreateSession_effect [OF creates(2)] show ?thesis
    using crowd_ok_fades crowd_ok_saved assms(2) P unfolding creates(1) kept_by_commands_def by metis
next
  case (looks j v r)
  from crowd_ok_fades [OF GetState_fades [OF looks(2)] assms(2)] show ?thesis by (simp add: looks(1))
next
  case elsewhere
  then show ?thesis using crowd_ok_fades assms(2) by blast
qed

lemma traffic_ok:
  assumes "traffic s saved w0 fl w" and "crowd_ok P {#} (saved w0)" and "kept_by_commands P"
  shows "crowd_ok P fl (saved w)"
  using assms by (induction rule: traffic.induct) (auto intro: crowd_step_ok)

end

text \<open>What a valid session is: playing something, at a position in it, with a queue of tracks.\<close>

definition session_valid :: "SessionState \<Rightarrow> bool" where
  "session_valid st \<longleftrightarrow> 0 \<le> ss_PositionMs st \<and> '''' \<notin> set (ss_Queue st) \<and> (ss_IsPlaying st \<longrightarrow> ss_TrackID st \<noteq> '''')"

definition player_valid :: "player \<Rightarrow> bool" where
  "player_valid pl \<longleftrightarrow> 0 \<le> pl_position pl \<and> '''' \<notin> set (pl_queue pl) \<and> (pl_playing pl \<longrightarrow> pl_track pl \<noteq> '''')"

lemma session_valid_player: "session_valid st = player_valid (player_of st)"
  by (simp add: session_valid_def player_valid_def player_of_def)

lemma command_step_valid: "command_step c pl = Some pl' \<Longrightarrow> player_valid pl \<Longrightarrow> player_valid pl'"
  by (cases c) (auto simp: player_valid_def split: if_splits list.splits)

lemma session_valid_kept: "kept_by_commands session_valid"
  unfolding kept_by_commands_def turned_def session_valid_player using command_step_valid
  by (auto simp: player_valid_def)

text \<open>
  The commands sent to a session lead from \<open>st0\<close> to \<open>st\<close>; and what holds of the session a user
  commands, wherever the request in progress stands.
\<close>

definition reached :: "(command \<times> bool) list \<Rightarrow> SessionState \<Rightarrow> SessionState \<Rightarrow> bool" where
  "reached sent st0 st \<longleftrightarrow> (\<exists>cs. effective sent cs \<and> commands cs (player_of st0) = Some (player_of st)
     \<and> ss_UserID st = ss_UserID st0 \<and> ss_DeviceID st = ss_DeviceID st0)"

lemma reached_start: "reached [] st st"
  using effective_Nil by (auto simp: reached_def intro!: exI [of _ "[]"])

lemma reached_turned:
  assumes "reached sent st0 old" and "turned c old new"
  shows "reached (sent @ [(c, ok)]) st0 new"
proof -
  from assms(1) obtain cs where "effective sent cs" "commands cs (player_of st0) = Some (player_of old)"
    "ss_UserID old = ss_UserID st0" "ss_DeviceID old = ss_DeviceID st0" by (auto simp: reached_def)
  with assms(2) effective_snoc(1) show ?thesis
    unfolding reached_def turned_def by (intro exI [of _ "cs @ [c]"]) (simp add: commands_append)
qed

lemma reached_failed: "reached sent st0 st \<Longrightarrow> reached (sent @ [(c, False)]) st0 st"
  unfolding reached_def using effective_snoc(2) by blast

fun own_ok :: "string \<Rightarrow> SessionState \<Rightarrow> (command \<times> bool) list \<Rightarrow> (command \<times> phase) option \<Rightarrow> SessionState option \<Rightarrow> bool" where
  "own_ok i st0 sent None now \<longleftrightarrow> (\<forall>st. now = Some st \<longrightarrow> reached sent st0 st)"
| "own_ok i st0 sent (Some (c, Asked)) now \<longleftrightarrow> (\<forall>st. now = Some st \<longrightarrow> reached sent st0 st)"
| "own_ok i st0 sent (Some (c, Loaded old)) now \<longleftrightarrow> (\<forall>st. now = Some st \<longrightarrow> reached sent st0 st)
     \<and> refusal c = None \<and> ss_SessionID old = i \<and> reached sent st0 old"
| "own_ok i st0 sent (Some (c, Ready new)) now \<longleftrightarrow> (\<forall>st. now = Some st \<longrightarrow> reached sent st0 st)
     \<and> ss_SessionID new = i \<and> (\<exists>old. reached sent st0 old \<and> turned c old new)"
| "own_ok i st0 sent (Some (c, _)) now \<longleftrightarrow> (\<forall>st. now = Some st \<longrightarrow> (\<exists>old. reached sent st0 old \<and> turned c old st))"

lemma own_ok_gone: "own_ok i st0 sent own now \<Longrightarrow> own_ok i st0 sent own None"
  by (induction i st0 sent own now rule: own_ok.induct) auto

lemma own_ok_reached:
  assumes "own_ok i st0 sent own (Some st)"
  shows "reached (sent @ unanswered own) st0 st"
proof (cases own)
  case (Some r)
  then obtain c p where "own = Some (c, p)" by (cases r) auto
  with assms show ?thesis
    by (cases p) (auto simp: unanswered_def intro: reached_failed reached_turned)
qed (use assms in \<open>simp add: unanswered_def\<close>)

lemma own_ok_user: "own_ok i st0 sent own (Some st) \<Longrightarrow> ss_UserID st = ss_UserID st0"
  by (drule own_ok_reached) (auto simp: reached_def)

text \<open>The others leave the session alone: none of their requests gets beyond the question.\<close>

definition aside :: "string \<Rightarrow> string \<Rightarrow> request multiset \<Rightarrow> bool" where
  "aside i u fl \<longleftrightarrow> (\<forall>(j, v, c, p) \<in># fl. (j, v) \<noteq> (i, u) \<and> (j = i \<longrightarrow> p = Asked))"

context playback_service
begin

lemma next_part_aside:
  assumes "next_part s j v c p w = (r, w')" and "(j, v) \<noteq> (i, u)" and "j = i \<longrightarrow> p = Asked"
    and "request_ok P (j, v, c, p)" and "saved w i = None \<or> (\<exists>st. saved w i = Some st \<and> ss_UserID st = u)"
  shows "(saved w' i = None \<or> saved w' i = saved w i) \<and> (j = i \<longrightarrow> is_err r)"
proof
  show "saved w' i = None \<or> saved w' i = saved w i"
    using next_part_saved [OF assms(1)] assms(3,4) by (auto simp: request_ok_def map_le_def dom_def)
  show "j = i \<longrightarrow> is_err r"
    using assms(1-3,5) by (cases r) (auto dest!: read_session_done)
qed

lemma others_aside:
  assumes "crowd_step s saved (\<lambda>j v. (j, v) \<noteq> (i, u)) (\<lambda>n. n \<noteq> i) fl w fl' w'" and "aside i u fl"
    and "crowd_ok P fl (saved w)" and "saved w i = None \<or> (\<exists>st. saved w i = Some st \<and> ss_UserID st = u)"
  shows "aside i u fl' \<and> (saved w' i = None \<or> saved w' i = saved w i)"
  using assms(1)
proof cases
  case (arrives j v c)
  with assms(2) show ?thesis by (auto simp: aside_def)
next
  case (advances j v c p p')
  with assms(2,3) have "(j, v) \<noteq> (i, u)" "j = i \<longrightarrow> p = Asked" "request_ok P (j, v, c, p)"
    by (auto simp: aside_def crowd_ok_def)
  from next_part_aside [OF advances(3) this assms(4)] this(1) assms(2) show ?thesis
    unfolding advances(1) aside_def by (auto dest: in_diffD)
next
  case (fails j v c p e)
  with assms(2,3) have "(j, v) \<noteq> (i, u)" "j = i \<longrightarrow> p = Asked" "request_ok P (j, v, c, p)"
    by (auto simp: aside_def crowd_ok_def)
  from next_part_aside [OF fails(3) this assms(4)] assms(2) show ?thesis
    unfolding fails(1) aside_def by (auto dest: in_diffD)
next
  case (creates v d r)
  from CreateSession_effect [OF creates(2)] creates(3) assms(2) show ?thesis
    unfolding creates(1) by (auto simp: map_le_def dom_def)
next
  case (looks j v r)
  from GetState_fades [OF looks(2)] assms(2) show ?thesis unfolding looks(1) by (auto simp: map_le_def dom_def)
next
  case elsewhere
  with assms(2) show ?thesis by (auto simp: map_le_def dom_def)
qed

text \<open>A part of the user's own request.\<close>

lemma own_goes_on:
  assumes run: "next_part s i u c p w = (r, w')" and ok: "own_ok i st0 sent (Some (c, p)) (saved w i)"
    and wf: "sessions_wf (saved w)"
  shows "(\<forall>p'. r = Inr p' \<longrightarrow> own_ok i st0 sent (Some (c, p')) (saved w' i))
    \<and> (is_err r \<longrightarrow> own_ok i st0 (sent @ [(c, False)]) None (saved w' i))"
proof (cases p)
  case Asked
  with next_part_saved [OF run] ok have now: "\<forall>st. saved w' i = Some st \<longrightarrow> reached sent st0 st"
    by (auto simp: map_le_def dom_def)
  show ?thesis
    using run Asked now ok wf by (auto simp: reached_failed sessions_wf_def dest!: read_session_done)
next
  case (Loaded old)
  with next_part_saved [OF run] ok have now: "\<forall>st. saved w' i = Some st \<longrightarrow> reached sent st0 st"
    by (auto simp: map_le_def dom_def)
  from ok Loaded have old: "refusal c = None" "ss_SessionID old = i" "reached sent st0 old" by auto
  show ?thesis
  proof (cases r)
    case (Inl e)
    with now show ?thesis by (simp add: reached_failed)
  next
    case (Inr p')
    with run Loaded obtain new where p': "p' = Ready new" and "look_up s c old w = (Inr new, w')" by auto
    with look_up_done old(1) have "turned c old new" by blast
    moreover from this old(2) have "ss_SessionID new = i" by (simp add: turned_def)
    ultimately show ?thesis using Inr p' now old(3) by auto
  qed
next
  case (Ready new)
  with ok obtain old where new: "ss_SessionID new = i" "reached sent st0 old" "turned c old new"
    and now: "\<forall>st. saved w i = Some st \<longrightarrow> reached sent st0 st" by auto
  from run Ready obtain r1 where wr: "write_session s c new w = (r1, w')" and r: "r = (case r1 of Inl e \<Rightarrow> Inl e | Inr _ \<Rightarrow> Inr (Stored new))"
    by (auto simp: bindE_def split: prod.splits sum.splits)
  from wr obtain left where left: "left \<subseteq>\<^sub>m saved w" "saved w' = left \<and> is_err r1 \<or> saved w' = left(i \<mapsto> new)"
    using new(1) by (auto elim: write_session_done)
  from left(1) now have "\<forall>st. left i = Some st \<longrightarrow> reached sent st0 st" by (auto simp: map_le_def dom_def)
  with left(2) new r show ?thesis
    by (auto simp: is_err_def intro: reached_failed reached_turned split: sum.splits)
next
  case (Stored new)
  with run obtain r1 where "note_play s c new w = (r1, w')" and r: "r = (case r1 of Inl e \<Rightarrow> Inl e | Inr _ \<Rightarrow> Inr (Finished new))"
    by (auto simp: bindE_def split: prod.splits sum.splits)
  from keepsD [OF note_play_keeps this(1)] ok Stored r show ?thesis
    by (auto intro: reached_turned split: sum.splits)
next
  case (Finished st)
  with run ok show ?thesis by auto
qed

text \<open>
  After any run the session is gone or is in the state that the answered commands, and perhaps some
  whose request failed half way, lead to; the user and the device are what they were.
\<close>

lemma requests_invariant:
  assumes "requests s saved i u w0 sent own fl w" and "sessions_wf (saved w0)"
    and "saved w0 i = Some st0" and "ss_UserID st0 = u"
  shows "crowd_ok (\<lambda>_. True) fl (saved w) \<and> aside i u fl \<and> own_ok i st0 sent own (saved w i)"
  using assms(1)
proof (induction rule: requests.induct)
  case start
  then show ?case using assms(2,3) reached_start by (simp add: crowd_ok_def aside_def)
next
  case (asks sent fl w c)
  then show ?case by simp
next
  case (goes_on sent c p fl w p' w')
  then have wf: "sessions_wf (saved w)" by (simp add: crowd_ok_def)
  from own_goes_on [OF goes_on.hyps(2) _ wf] next_part_crowd [OF goes_on.hyps(2)] goes_on.IH show ?case by simp
next
  case (refused sent c p fl w e w')
  then have wf: "sessions_wf (saved w)" by (simp add: crowd_ok_def)
  from own_goes_on [OF refused.hyps(2) _ wf] next_part_crowd [OF refused.hyps(2)] refused.IH show ?case by simp
next
  case (answered sent c st fl w)
  then show ?case by (auto intro: reached_turned)
next
  case (others sent own fl w fl' w')
  then have owner: "saved w i = None \<or> (\<exists>st. saved w i = Some st \<and> ss_UserID st = u)"
    using assms(4) by (cases "saved w i") (auto dest: own_ok_user)
  from others have ok: "aside i u fl" "crowd_ok (\<lambda>_. True) fl (saved w)" by auto
  from others_aside [OF others.hyps(2) ok owner] crowd_step_ok [OF others.hyps(2) ok(2)] others.IH show ?case
    by (auto simp: kept_by_commands_def dest: own_ok_gone)
qed

lemma requests_follow:
  assumes "requests s saved i u w0 sent own fl w" and "sessions_wf (saved w0)"
    and "saved w0 i = Some st0" and "ss_UserID st0 = u" and "saved w i = Some st"
  shows "\<exists>cs. effective (sent @ unanswered own) cs \<and> commands cs (player_of st0) = Some (player_of st)
     \<and> ss_UserID st = u \<and> ss_DeviceID st = ss_DeviceID st0"
  using requests_invariant [OF assms(1-4)] own_ok_reached assms(4,5) by (fastforce simp: reached_def)

end

context playback_service
begin

text \<open>
  Two enqueues that both read before either writes: the one that writes last wins, and the tracks of
  the other are not in the queue.
\<close>

lemma enqueue_read_done:
  assumes "enqueue_read s i u ts pos w = (Inr new, w')"
  shows "\<exists>old. saved w i = Some old \<and> saved w' \<subseteq>\<^sub>m saved w \<and> saved w' i = Some old
     \<and> ss_SessionID new = ss_SessionID old
     \<and> ss_Queue new = (if pos = EnqueuePositionNext then ts @ ss_Queue old else ss_Queue old @ ts)"
proof -
  from assms obtain old w1 w2 now where own: "getOwnedSession s i u w = (Inr old, w1)"
    and chk: "check_tracks s ts w1 = (Inr (), w2)" and clk: "Now (ps_clock s) w2 = (now, w')"
    and new: "new = old\<lparr>ss_Queue := (if pos = EnqueuePositionNext then ts @ ss_Queue old else ss_Queue old @ ts), ss_UpdatedAt := now\<rparr>"
    by (auto simp: enqueue_read_def Let_def split: if_splits)
  note st = getOwned_done [OF own] keepsD [OF check_tracks_keeps chk] keepsD [OF Now_keeps clk]
  show ?thesis using st new by (intro exI [of _ old]) simp
qed

lemma enqueue_write_done:
  assumes "enqueue_write s st w = (Inr st', w')"
  shows "st' = st \<and> (\<exists>left. left \<subseteq>\<^sub>m saved w \<and> saved w' = left(ss_SessionID st \<mapsto> st))"
  using assms Save_done by (auto simp: enqueue_write_def)

lemma enqueue_race:
  assumes "sessions_wf (saved w)" and "saved w i = Some old"
    and "enqueue_read s i u ts pos w = (Inr a, w1)" and "enqueue_read s i u us pos' w1 = (Inr b, w2)"
    and "enqueue_write s a w2 = (Inr a', w3)" and "enqueue_write s b w3 = (Inr b', w4)"
  shows "\<exists>st. saved w4 i = Some st
     \<and> ss_Queue st = (if pos' = EnqueuePositionNext then us @ ss_Queue old else ss_Queue old @ us)"
proof -
  from enqueue_read_done [OF assms(3)] assms(2) have w1: "saved w1 i = Some old" by auto
  with enqueue_read_done [OF assms(4)] have b: "ss_SessionID b = ss_SessionID old"
    "ss_Queue b = (if pos' = EnqueuePositionNext then us @ ss_Queue old else ss_Queue old @ us)" by auto
  with enqueue_write_done [OF assms(6)] assms(1,2) have "saved w4 i = Some b" by (auto simp: sessions_wf_def)
  with b show ?thesis by blast
qed

end

end
