(* ===== verification/Playback_Store.thy ===== *)
theory Playback_Store
  imports Player Geo_Index
begin

text \<open>
  The adapters of the playback module: the session store on Redis
  (\<^verbatim>\<open>playback/redisstore/store.go\<close>) and the resolver of signed stream addresses
  (\<^verbatim>\<open>playback/media/resolver.go\<close>). HMAC-SHA256 in hexadecimal is a parameter.
\<close>

section \<open>Sessions on Redis\<close>

definition sessionKey :: "string \<Rightarrow> string" where "sessionKey i = ''playback:session:'' @ i"

definition marshal_session :: "SessionState \<Rightarrow> json" where
  "marshal_session s = JObj [(''SessionID'', JStr (ss_SessionID s)), (''UserID'', JStr (ss_UserID s)),
     (''DeviceID'', JStr (ss_DeviceID s)), (''TrackID'', JStr (ss_TrackID s)),
     (''PositionMs'', JNum (ss_PositionMs s)), (''IsPlaying'', JBool (ss_IsPlaying s)),
     (''Queue'', JArr (map JStr (ss_Queue s))), (''UpdatedAt'', JTime (ss_UpdatedAt s))]"

text \<open>\<^verbatim>\<open>json.Unmarshal\<close> into the struct, as for the details of the live index.\<close>

fun read_strings :: "json list \<Rightarrow> string list option" where
  "read_strings [] = Some []"
| "read_strings (JStr s # js) = map_option ((#) s) (read_strings js)"
| "read_strings (_ # js) = None"

fun read_session_field :: "string \<times> json \<Rightarrow> SessionState \<Rightarrow> SessionState option" where
  "read_session_field (k, v) s =
     (if k = ''SessionID'' then (case v of JStr x \<Rightarrow> Some (s\<lparr>ss_SessionID := x\<rparr>) | _ \<Rightarrow> None)
      else if k = ''UserID'' then (case v of JStr x \<Rightarrow> Some (s\<lparr>ss_UserID := x\<rparr>) | _ \<Rightarrow> None)
      else if k = ''DeviceID'' then (case v of JStr x \<Rightarrow> Some (s\<lparr>ss_DeviceID := x\<rparr>) | _ \<Rightarrow> None)
      else if k = ''TrackID'' then (case v of JStr x \<Rightarrow> Some (s\<lparr>ss_TrackID := x\<rparr>) | _ \<Rightarrow> None)
      else if k = ''PositionMs'' then (case v of JNum x \<Rightarrow> Some (s\<lparr>ss_PositionMs := x\<rparr>) | _ \<Rightarrow> None)
      else if k = ''IsPlaying'' then (case v of JBool x \<Rightarrow> Some (s\<lparr>ss_IsPlaying := x\<rparr>) | _ \<Rightarrow> None)
      else if k = ''Queue''
        then (case v of JArr x \<Rightarrow> map_option (\<lambda>q. s\<lparr>ss_Queue := q\<rparr>) (read_strings x) | _ \<Rightarrow> None)
      else if k = ''UpdatedAt'' then (case v of JTime x \<Rightarrow> Some (s\<lparr>ss_UpdatedAt := x\<rparr>) | _ \<Rightarrow> None)
      else Some s)"

definition zero_session :: SessionState where
  "zero_session = \<lparr>ss_SessionID = '''', ss_UserID = '''', ss_DeviceID = '''', ss_TrackID = '''',
     ss_PositionMs = 0, ss_IsPlaying = False, ss_Queue = [], ss_UpdatedAt = zero_time\<rparr>"

fun unmarshal_session :: "rval \<Rightarrow> SessionState option" where
  "unmarshal_session (RJson (JObj fs)) =
     fold (\<lambda>f s. Option.bind s (read_session_field f)) fs (Some zero_session)"
| "unmarshal_session _ = None"

lemma read_strings_map [simp]: "read_strings (map JStr ss) = Some ss"
  by (induction ss) auto

lemma unmarshal_marshal_session: "unmarshal_session (RJson (marshal_session s)) = Some s"
  by (simp add: marshal_session_def zero_session_def)

definition SessionStore_Save :: "'r redis_client \<Rightarrow> SessionState \<Rightarrow> duration \<Rightarrow> ('r, unit) io" where
  "SessionStore_Save R state ttl =
     wrapE ''redisstore: save''
       (cmd_Set R (sessionKey (ss_SessionID state)) (RJson (marshal_session state)) ttl)"

definition SessionStore_Load :: "'r redis_client \<Rightarrow> string \<Rightarrow> ('r, SessionState) io" where
  "SessionStore_Load R sessionID =
     bindE (attempt (cmd_Get R (sessionKey sessionID))) (\<lambda>b. case b of
       Inl e \<Rightarrow> if errors_Is e RedisNil then throw (Sentinel ErrSessionNotFound)
                else throw (Wrapped ''redisstore: load'' e)
     | Inr b \<Rightarrow>
         (case unmarshal_session b of
            None \<Rightarrow> throw (Wrapped ''redisstore: unmarshal state'' bad_json)
          | Some state \<Rightarrow> ret state))"

definition SessionStore_Delete :: "'r redis_client \<Rightarrow> string \<Rightarrow> ('r, unit) io" where
  "SessionStore_Delete R sessionID = wrapE ''redisstore: delete'' (cmd_Del R (sessionKey sessionID))"

definition SessionStore :: "'r redis_client \<Rightarrow> 'r StateStore" where
  "SessionStore R = \<lparr>st_Save = SessionStore_Save R, st_Load = SessionStore_Load R,
     st_Delete = SessionStore_Delete R\<rparr>"

text \<open>The sessions a Redis server holds.\<close>

definition sessions_in :: "rstate \<Rightarrow> string \<rightharpoonup> SessionState" where
  "sessions_in s i = (case rs_kv s (sessionKey i) of None \<Rightarrow> None | Some (v, _) \<Rightarrow> unmarshal_session v)"

lemma sessionKey_inj [simp]: "sessionKey i = sessionKey j \<longleftrightarrow> i = j"
  by (simp add: sessionKey_def)

lemma sessions_in_advance: "sessions_in (advance t s) \<subseteq>\<^sub>m sessions_in s"
  by (auto simp: map_le_def sessions_in_def aged_def dom_def split: option.splits prod.splits if_splits)

lemma sessions_in_set:
  assumes "set_doc (sessionKey (ss_SessionID st)) (RJson (marshal_session st)) d s = (x, s')"
  shows "sessions_in s' = (sessions_in s)(ss_SessionID st \<mapsto> st)"
  using assms by (auto simp: set_doc_def sessions_in_def fun_eq_iff unmarshal_marshal_session)

context redis_server
begin

lemma SessionStore_Save_effect:
  assumes "SessionStore_Save R st ttl r = (x, r')"
  shows "\<exists>m. m \<subseteq>\<^sub>m sessions_in (view r)
     \<and> (sessions_in (view r') = m(ss_SessionID st \<mapsto> st) \<or> (sessions_in (view r') = m \<and> (\<exists>e. x = Inl e)))"
proof -
  from assms obtain y where set: "cmd_Set R (sessionKey (ss_SessionID st)) (RJson (marshal_session st)) ttl r = (y, r')"
    and x: "x = Inr () \<Longrightarrow> y = Inr ()"
    by (auto simp: SessionStore_Save_def wrapE_def split: prod.splits sum.splits)
  from Set set obtain t where "(\<exists>z. set_doc (sessionKey (ss_SessionID st)) (RJson (marshal_session st)) ttl
        (advance t (view r)) = (z, view r')) \<or> (view r' = advance t (view r) \<and> y \<noteq> Inr ())"
    by (rule obeysE) auto
  then show ?thesis
  proof (elim disjE exE conjE)
    fix z
    assume "set_doc (sessionKey (ss_SessionID st)) (RJson (marshal_session st)) ttl (advance t (view r)) = (z, view r')"
    from sessions_in_set [OF this] sessions_in_advance show ?thesis by blast
  next
    assume "view r' = advance t (view r)" and "y \<noteq> Inr ()"
    moreover from this x have "\<exists>e. x = Inl e" by (cases x) auto
    ultimately show ?thesis using sessions_in_advance by metis
  qed
qed

lemma SessionStore_Load_effect:
  assumes "SessionStore_Load R i r = (x, r')"
  shows "sessions_in (view r') \<subseteq>\<^sub>m sessions_in (view r)
    \<and> (\<forall>st. x = Inr st \<longrightarrow> sessions_in (view r') i = Some st)
    \<and> (\<forall>e. x = Inl e \<longrightarrow> errors_Is e ErrSessionNotFound \<longrightarrow> sessions_in (view r') i = None)"
proof -
  from assms obtain y where get: "cmd_Get R (sessionKey i) r = (y, r')"
    and x: "x = (case y of Inl e \<Rightarrow> Inl (if errors_Is e RedisNil then Sentinel ErrSessionNotFound
        else Wrapped ''redisstore: load'' e)
      | Inr b \<Rightarrow> (case unmarshal_session b of None \<Rightarrow> Inl (Wrapped ''redisstore: unmarshal state'' bad_json)
        | Some st \<Rightarrow> Inr st))"
    by (auto simp: SessionStore_Load_def bindE_def attempt_def split: prod.splits sum.splits option.splits if_splits)
  from Get get show ?thesis
  proof (rule obeysE)
    fix t
    assume "get_doc (sessionKey i) (advance t (view r)) = (y, view r')"
    then have v: "view r' = advance t (view r)" and y: "y = (case rs_kv (advance t (view r)) (sessionKey i) of
        None \<Rightarrow> Inl (Sentinel RedisNil) | Some (v, _) \<Rightarrow> Inr v)"
      by (auto simp: get_doc_def split: option.splits)
    from v have "sessions_in (view r') \<subseteq>\<^sub>m sessions_in (view r)" using sessions_in_advance by simp
    moreover have "x = Inr st \<Longrightarrow> sessions_in (view r') i = Some st" for st
      using x y v by (auto simp: sessions_in_def split: option.splits)
    moreover have "x = Inl e \<Longrightarrow> errors_Is e ErrSessionNotFound \<Longrightarrow> sessions_in (view r') i = None" for e
      using x y v by (auto simp: sessions_in_def bad_json_def split: option.splits)
    ultimately show ?thesis by blast
  next
    fix t e
    assume "y = Inl (Foreign e)" "view r' = advance t (view r)"
    then show ?thesis using x sessions_in_advance by auto
  next
    fix t e z
    assume "y = Inl (Foreign e)" "get_doc (sessionKey i) (advance t (view r)) = (z, view r')"
    moreover from this have "view r' = advance t (view r)" by (auto simp: get_doc_def split: option.splits)
    ultimately show ?thesis using x sessions_in_advance by auto
  qed
qed

end

sublocale redis_server \<subseteq> sessions: state_store "SessionStore R" "\<lambda>r. sessions_in (view r)"
proof
  fix st ttl r r'
  assume "st_Save (SessionStore R) st ttl r = (Inr (), r')"
  then show "\<exists>m. m \<subseteq>\<^sub>m sessions_in (view r) \<and> sessions_in (view r') = m(ss_SessionID st \<mapsto> st)"
    using SessionStore_Save_effect by (fastforce simp: SessionStore_def)
next
  fix st ttl r e r'
  assume "st_Save (SessionStore R) st ttl r = (Inl e, r')"
  then show "\<exists>m. m \<subseteq>\<^sub>m sessions_in (view r) \<and> (sessions_in (view r') = m
      \<or> sessions_in (view r') = m(ss_SessionID st \<mapsto> st))"
    using SessionStore_Save_effect by (fastforce simp: SessionStore_def)
qed (use SessionStore_Load_effect in \<open>auto simp: SessionStore_def\<close>)

section \<open>Signed stream addresses\<close>

definition DefaultTTL :: duration where "DefaultTTL = 10 * Minute"

record 'w LocalResolver =
  lr_baseURL :: string
  lr_signingKey :: string
  lr_ttl :: duration
  lr_clock :: "'w Clock"
  lr_hmac :: "string \<Rightarrow> string \<Rightarrow> string" \<comment> \<open>key, message; \<^verbatim>\<open>hex(hmac(sha256))\<close>\<close>

definition NewLocalResolver ::
    "(string \<Rightarrow> string \<Rightarrow> string) \<Rightarrow> string \<Rightarrow> string \<Rightarrow> 'w Clock \<Rightarrow> 'w LocalResolver" where
  "NewLocalResolver hmac baseURL signingKey clk =
     \<lparr>lr_baseURL = baseURL, lr_signingKey = signingKey, lr_ttl = DefaultTTL, lr_clock = clk, lr_hmac = hmac\<rparr>"

definition unix :: "time \<Rightarrow> int" where
  "unix t = t div Second"

definition media_sign :: "'w LocalResolver \<Rightarrow> string \<Rightarrow> string \<Rightarrow> string" where
  "media_sign r trackID ex = lr_hmac r (lr_signingKey r) (trackID @ ''.'' @ ex)"

definition media_Resolve :: "'w LocalResolver \<Rightarrow> string \<Rightarrow> ('w, string \<times> time) io" where
  "media_Resolve r trackID =
     bindE (call (Now (lr_clock r))) (\<lambda>now.
     let expiresAt = now + lr_ttl r;
         ex = Itoa (unix expiresAt);
         sig = media_sign r trackID ex
     in ret (lr_baseURL r @ ''/sample.mp3?track='' @ trackID @ ''&exp='' @ ex @ ''&sig='' @ sig, expiresAt))"

definition media_Verify :: "'w LocalResolver \<Rightarrow> string \<Rightarrow> string \<Rightarrow> string \<Rightarrow> 'w \<Rightarrow> bool \<times> 'w" where
  "media_Verify r trackID ex sig w =
     (if media_sign r trackID ex \<noteq> sig then (False, w)
      else case Atoi ex of
             None \<Rightarrow> (False, w)
           | Some expUnix \<Rightarrow> (case Now (lr_clock r) w of (now, w') \<Rightarrow> (unix now \<le> expUnix, w')))"

lemma not_digit_dot: "\<not> is_digit (CHR ''.'')"
  by (simp add: is_digit_def)

lemma Atoi_no_dot: "Atoi s \<noteq> None \<Longrightarrow> CHR ''.'' \<notin> set s"
proof -
  assume "Atoi s \<noteq> None"
  then have "list_all is_digit (if s \<noteq> [] \<and> (hd s = CHR ''-'' \<or> hd s = CHR ''+'') then tl s else s)"
    by (auto simp: Atoi_def Let_def split: if_splits)
  then show ?thesis
    using not_digit_dot by (cases s) (auto simp: list_all_iff split: if_splits)
qed

lemma Itoa_no_dot: "CHR ''.'' \<notin> set (Itoa n)"
  using digits_is_digit not_digit_dot by (auto simp: Itoa_def list_all_iff)

text \<open>The signed message has one reading: its last dot separates the track from the expiry.\<close>

lemma last_dot_unique:
  assumes "t @ CHR ''.'' # e = t' @ CHR ''.'' # e'" and "CHR ''.'' \<notin> set e" and "CHR ''.'' \<notin> set e'"
  shows "t = t' \<and> e = e'"
  using assms by (auto simp: append_eq_append_conv2 append_eq_Cons_conv Cons_eq_append_conv)

text \<open>
  The address a track resolves to is accepted for exactly that track and expiry
  until the second the ten minutes are over, and its signature vouches for nothing else: for another
  track or another expiry the verifier refuses it, unless two messages have the same HMAC.
\<close>

lemma stream_url_expires:
  assumes "media_Resolve (NewLocalResolver hmac baseURL key clk) t w = (Inr (url, expiresAt), w1)"
    and "0 \<le> expiresAt" and "expiresAt < 2 ^ 63"
  shows "\<exists>now sig. Now clk w = (now, w1) \<and> expiresAt = now + 10 * Minute
    \<and> url = baseURL @ ''/sample.mp3?track='' @ t @ ''&exp='' @ Itoa (unix expiresAt) @ ''&sig='' @ sig
    \<and> fst (media_Verify (NewLocalResolver hmac baseURL key clk) t (Itoa (unix expiresAt)) sig w2)
        = (unix (fst (Now clk w2)) \<le> unix expiresAt)
    \<and> (fst (media_Verify (NewLocalResolver hmac baseURL key clk) t' e' sig w2) \<longrightarrow>
        t' = t \<and> e' = Itoa (unix expiresAt)
        \<or> (\<exists>m m'. m \<noteq> m' \<and> hmac key m = hmac key m'))"
proof -
  let ?r = "NewLocalResolver hmac baseURL key clk" and ?e = "Itoa (unix expiresAt)"
  let ?sig = "media_sign ?r t ?e"
  from assms(1) have now: "Now clk w = (expiresAt - 10 * Minute, w1)"
    and url: "url = baseURL @ ''/sample.mp3?track='' @ t @ ''&exp='' @ ?e @ ''&sig='' @ ?sig"
    by (auto simp: media_Resolve_def NewLocalResolver_def DefaultTTL_def Let_def)
  have "0 \<le> unix expiresAt" "unix expiresAt \<le> expiresAt" using assms(2) by (simp_all add: unix_def Second_def)
  then have "Atoi ?e = Some (unix expiresAt)" using assms(3) by (intro Atoi_Itoa) auto
  then have "fst (media_Verify ?r t ?e ?sig w2) = (unix (fst (Now clk w2)) \<le> unix expiresAt)"
    by (simp add: media_Verify_def NewLocalResolver_def split: prod.split)
  moreover have "t' = t \<and> e' = ?e \<or> (\<exists>m m'. m \<noteq> m' \<and> hmac key m = hmac key m')"
    if "fst (media_Verify ?r t' e' ?sig w2)"
  proof (cases "t' @ CHR ''.'' # e' = t @ CHR ''.'' # ?e")
    case True
    from that have "Atoi e' \<noteq> None" by (auto simp: media_Verify_def split: if_splits option.splits)
    with last_dot_unique [OF True Atoi_no_dot Itoa_no_dot] show ?thesis by blast
  next
    case False
    moreover from that have "hmac key (t' @ CHR ''.'' # e') = hmac key (t @ CHR ''.'' # ?e)"
      by (auto simp: media_Verify_def media_sign_def NewLocalResolver_def split: if_splits)
    ultimately show ?thesis by blast
  qed
  ultimately show ?thesis using now url by (intro exI [of _ "expiresAt - 10 * Minute"] exI [of _ ?sig]) simp
qed

definition clock_at :: "time \<Rightarrow> wallclock" where
  "clock_at t = \<lparr>wall = t, ticks = []\<rparr>"

lemma stream_url_expires_witness:
  "\<exists>url. media_Resolve (NewLocalResolver (\<lambda>k m. k @ m) ''base'' ''key'' Real_clock) ''t'' (clock_at 0)
       = (Inr (url, 600000000000), clock_at 0)
     \<and> (\<exists>sig. fst (media_Verify (NewLocalResolver (\<lambda>k m. k @ m) ''base'' ''key'' Real_clock) ''t'' (Itoa 600) sig
         (clock_at 600000000000)))"
proof -
  let ?r = "NewLocalResolver (\<lambda>k m. k @ m) ''base'' ''key'' Real_clock"
  obtain url where run: "media_Resolve ?r ''t'' (clock_at 0) = (Inr (url, 600000000000), clock_at 0)"
    by (simp add: media_Resolve_def NewLocalResolver_def Real_clock_def read_wall.simps clock_at_def
        DefaultTTL_def duration_defs Let_def io_unfold)
  have u: "unix 600000000000 = 600" by (simp add: unix_def Second_def)
  have "\<exists>sig. fst (media_Verify ?r ''t'' (Itoa 600) sig (clock_at 600000000000))"
    using stream_url_expires [OF run, of "clock_at 600000000000" "''t''" "''0''"]
    by (auto simp: u Real_clock_def read_wall.simps clock_at_def)
  with run show ?thesis by blast
qed

section \<open>How long a session lives\<close>

context redis_server
begin

lemma SessionStore_Load_answer:
  assumes "SessionStore_Load R i r = (x, r')"
  shows "rs_now (view r) \<le> rs_now (view r')
     \<and> (x = (case aged (rs_now (view r')) (rs_kv (view r)) (sessionKey i) of
               None \<Rightarrow> Inl (Sentinel ErrSessionNotFound)
             | Some (v, _) \<Rightarrow> (case unmarshal_session v of
                 None \<Rightarrow> Inl (Wrapped ''redisstore: unmarshal state'' bad_json) | Some st \<Rightarrow> Inr st))
        \<or> (\<exists>e. x = Inl (Wrapped ''redisstore: load'' (Foreign e))))"
proof -
  obtain y where get: "cmd_Get R (sessionKey i) r = (y, r')"
    using assms by (auto simp: SessionStore_Load_def bindE_def attempt_def split: prod.splits sum.splits option.splits if_splits)
  from Get get obtain t where t: "rs_now (view r) \<le> t" "view r' = advance t (view r)"
    and y: "y = (case aged t (rs_kv (view r)) (sessionKey i) of None \<Rightarrow> Inl (Sentinel RedisNil) | Some (v, _) \<Rightarrow> Inr v)
      \<or> (\<exists>e. y = Inl (Foreign e))"
    by (rule obeysE) (fastforce simp: get_doc_def split: option.splits)+
  show ?thesis
    using assms y unfolding t(2)
    by (auto simp: SessionStore_Load_def bindE_def attempt_def get t(1) split: sum.splits option.splits)
qed

lemma SessionStore_Save_stored:
  assumes "SessionStore_Save R st ttl r = (Inr (), r')" and "0 < ttl"
  shows "rs_kv (view r') (sessionKey (ss_SessionID st)) = Some (RJson (marshal_session st), Some (rs_now (view r') + ttl))"
  using assms Set_answer by (auto simp: SessionStore_Save_def)

end

text \<open>
  A session that was saved is read back field by field until its time to live is
  over, and from then on it is not found, as long as nobody saves or deletes it again; a read may
  also fail, and then says so.
\<close>

lemma session_lives_ttl:
  assumes "redis_server R view rounded rdist"
    and "SessionStore_Save R st ttl r0 = (Inr (), r1)" and "0 < ttl"
    and "passes_by (sessionKey (ss_SessionID st)) (view r1) (view r2)"
    and "SessionStore_Load R (ss_SessionID st) r2 = (x, r3)"
  shows "x = (if rs_now (view r3) < rs_now (view r1) + ttl then Inr st else Inl (Sentinel ErrSessionNotFound))
    \<or> (\<exists>e. x = Inl (Wrapped ''redisstore: load'' (Foreign e)))"
proof -
  let ?k = "sessionKey (ss_SessionID st)" and ?t = "rs_now (view r3)"
  note stored = redis_server.SessionStore_Save_stored [OF assms(1-3)]
  note load = redis_server.SessionStore_Load_answer [OF assms(1,5)]
  have "aged ?t (rs_kv (view r2)) ?k = aged ?t (rs_kv (view r1)) ?k"
    using assms(4) load by (auto simp: passes_by_def intro: aged_aged)
  also have "\<dots> = (if ?t < rs_now (view r1) + ttl
      then Some (RJson (marshal_session st), Some (rs_now (view r1) + ttl)) else None)"
    by (simp add: aged_def stored)
  finally show ?thesis using load by (auto simp: unmarshal_marshal_session)
qed

definition sample_session :: SessionState where
  "sample_session = \<lparr>ss_SessionID = ''s'', ss_UserID = ''u'', ss_DeviceID = '''', ss_TrackID = ''t'',
     ss_PositionMs = 5, ss_IsPlaying = True, ss_Queue = [''x'', ''y''], ss_UpdatedAt = 7\<rparr>"

lemma session_lives_ttl_witness:
  "\<exists>r1 r3. SessionStore_Save mem_redis sample_session 90 (empty_mem [(0, True, True), (89, True, True)]) = (Inr (), r1)
     \<and> SessionStore_Load mem_redis ''s'' r1 = (Inr sample_session, r3)"
proof -
  let ?r0 = "empty_mem [(0, True, True), (89, True, True)]"
  obtain r1 where up: "SessionStore_Save mem_redis sample_session 90 ?r0 = (Inr (), r1)"
    and r1: "script r1 = [(89, True, True)]" "rs_now (contents r1) = 0"
      "rs_kv (contents r1) (sessionKey ''s'') = Some (RJson (marshal_session sample_session), Some 90)"
    by (simp add: SessionStore_Save_def empty_mem_def mem_eval sample_session_def)
  obtain x r3 where read: "SessionStore_Load mem_redis (ss_SessionID sample_session) r1 = (x, r3)"
    and r3: "rs_now (contents r3) = 89" "\<not> (\<exists>e. x = Inl (Wrapped ''redisstore: load'' (Foreign e)))"
    using r1 by (simp add: SessionStore_Load_def mem_eval sample_session_def unmarshal_marshal_session)
  have s: "ss_SessionID sample_session = ''s''" by (simp add: sample_session_def)
  have "passes_by (sessionKey (ss_SessionID sample_session)) (contents r1) (contents r1)"
    by (simp add: passes_by_def)
  from session_lives_ttl [OF mem_server.redis_server_axioms up _ this read] r3 r1
  have "x = Inr sample_session" by simp
  with up read s show ?thesis by auto
qed

end
