(* ===== verification/Float64.thy ===== *)
theory Float64
  imports Complex_Main
begin

text \<open>
  \<^verbatim>\<open>float64\<close> as far as playlist positions need it: the exact result of an operation, rounded to 53
  significant bits and no finer than \<open>2 ^ -1074\<close>, ties to even. Values stay far below the largest
  \<^verbatim>\<open>float64\<close>, so overflow to infinity is not modelled.
\<close>

definition round_even :: "real \<Rightarrow> int" where
  "round_even y =
     (let n = \<lfloor>y\<rfloor>; d = y - of_int n
      in if d < 1 / 2 then n else if d > 1 / 2 then n + 1 else if even n then n else n + 1)"

text \<open>The exponent of the last place.\<close>

definition last_place :: "real \<Rightarrow> int" where
  "last_place x = max (\<lfloor>log 2 \<bar>x\<bar>\<rfloor> - 52) (-1074)"

definition f64 :: "real \<Rightarrow> real" where
  "f64 x = (if x = 0 then 0
     else of_int (round_even (x / 2 powr of_int (last_place x))) * 2 powr of_int (last_place x))"

definition f64_add :: "real \<Rightarrow> real \<Rightarrow> real" where "f64_add x y = f64 (x + y)"
definition f64_half :: "real \<Rightarrow> real" where "f64_half x = f64 (x / 2)"

lemma round_even_int [simp]: "round_even (of_int n) = n"
  by (simp add: round_even_def)

lemma round_even_error: "\<bar>of_int (round_even y) - y\<bar> \<le> 1 / 2"
proof -
  have "of_int \<lfloor>y\<rfloor> \<le> y" "y < of_int \<lfloor>y\<rfloor> + 1" by linarith+
  then show ?thesis by (auto simp: round_even_def Let_def)
qed

lemma round_even_nonneg: "0 \<le> y \<Longrightarrow> 0 \<le> round_even y"
  by (auto simp: round_even_def Let_def)

lemma f64_zero [simp]: "f64 0 = 0"
  by (simp add: f64_def)

lemma last_place_power: "last_place (2 powr of_int k) = max (k - 52) (-1074)"
  by (simp add: last_place_def)

text \<open>Powers of two are exact down to the smallest one; half of that is a tie and becomes zero.\<close>

lemma f64_power:
  assumes "-1074 \<le> k"
  shows "f64 (2 powr of_int k) = 2 powr of_int k"
proof -
  let ?e = "max (k - 52) (-1074)"
  have e: "?e \<le> k" using assms by simp
  then obtain m where m: "k - ?e = int m" using zero_le_imp_eq_int by force
  have "2 powr of_int k / 2 powr of_int ?e = (2 :: real) powr of_int (k - ?e)"
    by (simp add: powr_diff)
  also have "\<dots> = of_int (2 ^ m)" unfolding m by (simp add: powr_realpow)
  finally have "round_even (2 powr of_int k / 2 powr of_int ?e) = 2 ^ m" by (metis round_even_int)
  moreover have "of_int (2 ^ m) * (2 :: real) powr of_int ?e = 2 powr of_int k"
    using m by (simp add: powr_realpow [symmetric] powr_add [symmetric]) (metis m of_int_add of_int_of_nat_eq add.commute diff_add_cancel)
  ultimately show ?thesis by (simp add: f64_def last_place_power)
qed

lemma f64_underflow: "f64 (2 powr -1075) = 0"
proof -
  have "2 powr -1075 / 2 powr -1074 = (2 :: real) powr (-1075 - -1074)"
    by (rule powr_diff [symmetric])
  then have "2 powr -1075 / 2 powr -1074 = (1 / 2 :: real)" by (simp add: powr_minus_divide)
  moreover have "last_place (2 powr -1075) = -1074"
    using last_place_power [of "-1075"] by simp
  moreover have "round_even (1 / 2) = 0" by (simp add: round_even_def)
  ultimately show ?thesis by (simp add: f64_def)
qed

text \<open>How far rounding moves a value, and what it cannot come near to.\<close>

lemma last_place_bound:
  assumes "0 < x"
  shows "2 powr of_int (last_place x) \<le> max (x * 2 powr -52) (2 powr -1074)"
proof (cases "\<lfloor>log 2 x\<rfloor> - 52 \<le> -1074")
  case True
  then show ?thesis using assms by (simp add: last_place_def)
next
  case False
  then have "real_of_int (last_place x) = of_int \<lfloor>log 2 x\<rfloor> + - 52" using assms by (simp add: last_place_def)
  then have "2 powr of_int (last_place x) = 2 powr of_int \<lfloor>log 2 x\<rfloor> * (2 :: real) powr -52"
    by (simp only: powr_add)
  also have "\<dots> \<le> 2 powr (log 2 x) * 2 powr -52" by (intro mult_right_mono powr_mono) auto
  also have "\<dots> = x * 2 powr -52" using assms by simp
  finally show ?thesis by simp
qed

lemma f64_error:
  assumes "0 < x"
  shows "\<bar>f64 x - x\<bar> \<le> max (x * 2 powr -52) (2 powr -1074) / 2"
proof -
  let ?u = "2 powr of_int (last_place x) :: real"
  have "f64 x - x = (of_int (round_even (x / ?u)) - x / ?u) * ?u"
    using assms by (simp add: f64_def left_diff_distrib)
  then have "\<bar>f64 x - x\<bar> = \<bar>of_int (round_even (x / ?u)) - x / ?u\<bar> * ?u"
    by (simp add: abs_mult)
  also have "\<dots> \<le> 1 / 2 * ?u" by (intro mult_right_mono round_even_error) simp
  also have "\<dots> \<le> max (x * 2 powr -52) (2 powr -1074) / 2" using last_place_bound [OF assms] by simp
  finally show ?thesis .
qed

lemma f64_gap:
  assumes "0 \<le> x"
  shows "f64 x = 0 \<or> 2 powr -1074 \<le> f64 x"
proof (cases "x = 0")
  case False
  let ?u = "2 powr of_int (last_place x) :: real"
  have u: "2 powr -1074 \<le> ?u" by (intro powr_mono) (auto simp: last_place_def)
  have "0 \<le> round_even (x / ?u)" using assms by (intro round_even_nonneg) simp
  moreover have "f64 x = of_int (round_even (x / ?u)) * ?u" using False by (simp add: f64_def)
  moreover have "1 * ?u \<le> of_int (round_even (x / ?u)) * ?u" if "0 < round_even (x / ?u)"
    using that by (intro mult_right_mono) auto
  ultimately show ?thesis using u by fastforce
qed simp

text \<open>Halving goes down and adding the gap goes up, within the bounds stated.\<close>

lemma f64_half_less:
  assumes "2 powr -1074 \<le> x"
  shows "f64_half x < x"
proof (cases "x = 2 powr -1074")
  case True
  have "(2 :: real) powr -1074 / 2 = 2 powr (-1074 - 1)" by (simp only: powr_diff powr_one)
  then have "x / 2 = 2 powr -1075" using True by simp
  then show ?thesis using True f64_underflow by (simp add: f64_half_def)
next
  case False
  have pos: "(0 :: real) < 2 powr -1074" by simp
  with assms have x: "0 < x / 2" by linarith
  have "x / 2 * 2 powr -52 / 2 < x / 2"
  proof -
    have "(2 :: real) powr -52 \<le> 2 powr 0" by (intro powr_mono) auto
    then have "x / 2 * 2 powr -52 \<le> x / 2 * 1" using x by (intro mult_left_mono) auto
    then show ?thesis using x by linarith
  qed
  moreover have "2 powr -1074 / 2 < x / 2" using False assms by simp
  ultimately have "max (x / 2 * 2 powr -52) (2 powr -1074) / 2 < x / 2" by (simp add: max_def)
  with f64_error [OF x] show ?thesis unfolding f64_half_def by linarith
qed

lemma f64_add_greater:
  assumes "0 \<le> x" and "x \<le> 2 ^ 61"
  shows "x < f64_add x 1024"
proof -
  have y: "0 < x + 1024" using assms by simp
  have "(x + 1024) * 2 powr -52 / 2 < 1024"
    using assms by (simp add: powr_minus_divide field_simps)
  moreover have "(2 :: real) powr -1074 \<le> 2 powr 0" by (intro powr_mono) auto
  ultimately have "max ((x + 1024) * 2 powr -52) (2 powr -1074) / 2 < 1024" by (simp add: max_def)
  with f64_error [OF y] show ?thesis unfolding f64_add_def by linarith
qed

end
