(* ===== verification/Library_Service.thy ===== *)
theory Library_Service
  imports Platform Float64
begin

text \<open>
  \<^verbatim>\<open>backend/internal/library\<close> without its adapters: playlists and saved tracks (\<^verbatim>\<open>domain.go\<close>,
  \<^verbatim>\<open>repo.go\<close>, \<^verbatim>\<open>service.go\<close>). A value formatted into the text of an error is left out of the text.
\<close>

section \<open>Domain and repositories\<close>

definition VisibilityPrivate :: string where "VisibilityPrivate = ''private''"
definition VisibilityUnlisted :: string where "VisibilityUnlisted = ''unlisted''"
definition VisibilityPublic :: string where "VisibilityPublic = ''public''"
definition VisibilityCollaborative :: string where "VisibilityCollaborative = ''collaborative''"

record Playlist =
  ply_ID :: string
  ply_OwnerID :: string
  ply_Title :: string
  ply_Description :: string
  ply_Visibility :: string
  ply_CoverURL :: string
  ply_CreatedAt :: time
  ply_UpdatedAt :: time

record PlaylistTrack =
  plt_ID :: string
  plt_PlaylistID :: string
  plt_TrackID :: string
  plt_Position :: real
  plt_AddedBy :: string
  plt_AddedAt :: time

record LibraryTrack =
  lit_UserID :: string
  lit_TrackID :: string
  lit_AddedAt :: time

record 'w PlaylistRepository =
  plr_Create :: "Playlist \<Rightarrow> ('w, unit) io"
  plr_GetByID :: "string \<Rightarrow> ('w, Playlist) io"
  plr_ListByOwner :: "string \<Rightarrow> ('w, Playlist list) io"

record 'w PlaylistTrackRepository =
  ptr_Add :: "PlaylistTrack \<Rightarrow> ('w, unit) io"
  ptr_Remove :: "string \<Rightarrow> string \<Rightarrow> ('w, unit) io"
  ptr_List :: "string \<Rightarrow> ('w, PlaylistTrack list) io"
  ptr_MaxPosition :: "string \<Rightarrow> ('w, real option) io"

record 'w LibraryTrackRepository =
  ltr_Add :: "LibraryTrack \<Rightarrow> ('w, unit) io"
  ltr_Remove :: "string \<Rightarrow> string \<Rightarrow> ('w, unit) io"
  ltr_List :: "string \<Rightarrow> string \<Rightarrow> int \<Rightarrow> ('w, LibraryTrack list \<times> string) io"

text \<open>The interface \<^verbatim>\<open>TrackChecker\<close> of this module.\<close>

record 'w LibraryTrackChecker =
  lck_TrackExists :: "string \<Rightarrow> ('w, bool) io"

section \<open>The service\<close>

definition positionGap :: real where "positionGap = 1024"
definition defaultSavedTracksLimit :: int where "defaultSavedTracksLimit = 50"
definition maxSavedTracksLimit :: int where "maxSavedTracksLimit = 200"

definition PositionStart :: string where "PositionStart = ''start''"
definition PositionEnd :: string where "PositionEnd = ''end''"

record 'w LibraryService =
  ls_playlists :: "'w PlaylistRepository"
  ls_playlistTracks :: "'w PlaylistTrackRepository"
  ls_libraryTracks :: "'w LibraryTrackRepository"
  ls_tracks :: "'w LibraryTrackChecker"
  ls_clock :: "'w Clock"
  ls_ids :: "'w Generator"

definition library_invalid :: "string \<Rightarrow> err" where
  "library_invalid d = Detailed (Sentinel LibraryErrInvalidInput) d"

record CreatePlaylistInput =
  cpi_OwnerID :: string
  cpi_Title :: string
  cpi_Description :: string
  cpi_Visibility :: string

definition isValidVisibility :: "string \<Rightarrow> bool" where
  "isValidVisibility v \<longleftrightarrow>
     v \<in> {VisibilityPrivate, VisibilityUnlisted, VisibilityPublic, VisibilityCollaborative}"

definition CreatePlaylist :: "'w LibraryService \<Rightarrow> CreatePlaylistInput \<Rightarrow> ('w, Playlist) io" where
  "CreatePlaylist s inp =
     (if cpi_OwnerID inp = '''' then throw (library_invalid ''owner is required'')
      else let title = TrimSpace (cpi_Title inp) in
      if title = '''' then throw (library_invalid ''title is required'')
      else let visibility = (if cpi_Visibility inp = '''' then VisibilityPrivate else cpi_Visibility inp) in
      if \<not> isValidVisibility visibility then throw (library_invalid ''invalid visibility %q'')
      else
        bindE (call (Now (ls_clock s))) (\<lambda>now.
        bindE (call (NewID (ls_ids s))) (\<lambda>i.
        let p = \<lparr>ply_ID = i, ply_OwnerID = cpi_OwnerID inp, ply_Title = title,
                 ply_Description = cpi_Description inp, ply_Visibility = visibility, ply_CoverURL = '''',
                 ply_CreatedAt = now, ply_UpdatedAt = now\<rparr> in
        bindE (wrapE ''library: create playlist'' (plr_Create (ls_playlists s) p)) (\<lambda>_. ret p))))"

definition ListPlaylists :: "'w LibraryService \<Rightarrow> string \<Rightarrow> ('w, Playlist list) io" where
  "ListPlaylists s ownerID =
     (if ownerID = '''' then throw (library_invalid ''owner is required'')
      else wrapE ''library: list playlists'' (plr_ListByOwner (ls_playlists s) ownerID))"

definition getPlaylist :: "'w LibraryService \<Rightarrow> string \<Rightarrow> ('w, Playlist) io" where
  "getPlaylist s playlistID =
     bindE (attempt (plr_GetByID (ls_playlists s) playlistID)) (\<lambda>r. case r of
       Inl e \<Rightarrow> if errors_Is e ErrPlaylistNotFound then throw (Sentinel ErrPlaylistNotFound)
                else throw (Wrapped ''library: get playlist'' e)
     | Inr p \<Rightarrow> ret p)"

definition getOwnedPlaylist :: "'w LibraryService \<Rightarrow> string \<Rightarrow> string \<Rightarrow> ('w, Playlist) io" where
  "getOwnedPlaylist s playlistID requesterID =
     (if playlistID = '''' \<or> requesterID = ''''
      then throw (library_invalid ''playlist id and requester are required'')
      else bindE (getPlaylist s playlistID) (\<lambda>p.
           if ply_OwnerID p \<noteq> requesterID then throw (Sentinel ErrNotOwner) else ret p))"

definition ListPlaylistTracks ::
    "'w LibraryService \<Rightarrow> string \<Rightarrow> string \<Rightarrow> ('w, Playlist \<times> PlaylistTrack list) io" where
  "ListPlaylistTracks s playlistID requesterID =
     (if playlistID = '''' then throw (library_invalid ''playlist id is required'')
      else bindE (getPlaylist s playlistID) (\<lambda>p.
           if ply_Visibility p = VisibilityPrivate \<and> ply_OwnerID p \<noteq> requesterID
           then throw (Sentinel ErrNotOwner)
           else bindE (wrapE ''library: list playlist tracks'' (ptr_List (ls_playlistTracks s) playlistID))
                  (\<lambda>tracks. ret (p, tracks))))"

definition computePosition :: "'w LibraryService \<Rightarrow> string \<Rightarrow> string \<Rightarrow> ('w, real) io" where
  "computePosition s playlistID position =
     (if position = PositionStart then
        bindE (wrapE ''library: list playlist tracks'' (ptr_List (ls_playlistTracks s) playlistID)) (\<lambda>items.
        case items of
          [] \<Rightarrow> ret positionGap
        | it # _ \<Rightarrow> ret (f64_half (plt_Position it)))
      else
        bindE (wrapE ''library: max position'' (ptr_MaxPosition (ls_playlistTracks s) playlistID)) (\<lambda>m.
        case m of None \<Rightarrow> ret positionGap | Some maxPos \<Rightarrow> ret (f64_add maxPos positionGap)))"

definition AddTrack ::
    "'w LibraryService \<Rightarrow> string \<Rightarrow> string \<Rightarrow> string \<Rightarrow> string \<Rightarrow> ('w, PlaylistTrack) io" where
  "AddTrack s playlistID requesterID trackID position =
     (if trackID = '''' then throw (library_invalid ''track id is required'')
      else
        bindE (getOwnedPlaylist s playlistID requesterID) (\<lambda>_.
        bindE (wrapE ''library: check track exists'' (lck_TrackExists (ls_tracks s) trackID)) (\<lambda>exists.
        if \<not> exists then throw (Sentinel LibraryErrTrackNotFound)
        else
          bindE (computePosition s playlistID position) (\<lambda>pos.
          bindE (call (NewID (ls_ids s))) (\<lambda>i.
          bindE (call (Now (ls_clock s))) (\<lambda>now.
          let pt = \<lparr>plt_ID = i, plt_PlaylistID = playlistID, plt_TrackID = trackID, plt_Position = pos,
                    plt_AddedBy = requesterID, plt_AddedAt = now\<rparr> in
          bindE (wrapE ''library: add track'' (ptr_Add (ls_playlistTracks s) pt)) (\<lambda>_. ret pt)))))))"

definition RemoveTrack :: "'w LibraryService \<Rightarrow> string \<Rightarrow> string \<Rightarrow> string \<Rightarrow> ('w, unit) io" where
  "RemoveTrack s playlistID requesterID trackID =
     (if trackID = '''' then throw (library_invalid ''track id is required'')
      else
        bindE (getOwnedPlaylist s playlistID requesterID) (\<lambda>_.
        bindE (attempt (ptr_Remove (ls_playlistTracks s) playlistID trackID)) (\<lambda>r. case r of
          Inl e \<Rightarrow> if errors_Is e ErrTrackNotInPlaylist then throw (Sentinel ErrTrackNotInPlaylist)
                   else throw (Wrapped ''library: remove track'' e)
        | Inr _ \<Rightarrow> ret ())))"

definition SaveTrack :: "'w LibraryService \<Rightarrow> string \<Rightarrow> string \<Rightarrow> ('w, unit) io" where
  "SaveTrack s userID trackID =
     (if userID = '''' \<or> trackID = '''' then throw (library_invalid ''user and track are required'')
      else
        bindE (wrapE ''library: check track exists'' (lck_TrackExists (ls_tracks s) trackID)) (\<lambda>exists.
        if \<not> exists then throw (Sentinel LibraryErrTrackNotFound)
        else
          bindE (call (Now (ls_clock s))) (\<lambda>now.
          wrapE ''library: save track'' (ltr_Add (ls_libraryTracks s)
            \<lparr>lit_UserID = userID, lit_TrackID = trackID, lit_AddedAt = now\<rparr>))))"

definition UnsaveTrack :: "'w LibraryService \<Rightarrow> string \<Rightarrow> string \<Rightarrow> ('w, unit) io" where
  "UnsaveTrack s userID trackID =
     (if userID = '''' \<or> trackID = '''' then throw (library_invalid ''user and track are required'')
      else wrapE ''library: unsave track'' (ltr_Remove (ls_libraryTracks s) userID trackID))"

definition ListSavedTracks ::
    "'w LibraryService \<Rightarrow> string \<Rightarrow> string \<Rightarrow> int \<Rightarrow> ('w, LibraryTrack list \<times> string) io" where
  "ListSavedTracks s userID cursor limit =
     (if userID = '''' then throw (library_invalid ''user is required'')
      else
        let l = (if limit \<le> 0 then defaultSavedTracksLimit else limit);
            l = (if l > maxSavedTracksLimit then maxSavedTracksLimit else l) in
        wrapE ''library: list saved tracks'' (ltr_List (ls_libraryTracks s) userID cursor l))"

end
