(* ===== verification/Catalog_Service.thy ===== *)
theory Catalog_Service
  imports Platform
begin

text \<open>
  \<^verbatim>\<open>backend/internal/catalog\<close> without its adapters: artists, albums, tracks with their credits and
  renditions (\<^verbatim>\<open>domain.go\<close>), the repositories (\<^verbatim>\<open>repo.go\<close>) and the service (\<^verbatim>\<open>service.go\<close>). A value formatted into the text of an
  error is left out of the text.
\<close>

section \<open>Domain\<close>

record Artist =
  art_ID :: string
  art_Name :: string
  art_Slug :: string
  art_Bio :: string
  art_ImageURL :: string
  art_Verified :: bool
  art_CreatedAt :: time
  art_UpdatedAt :: time

definition AlbumTypeAlbum :: string where "AlbumTypeAlbum = ''album''"
definition AlbumTypeSingle :: string where "AlbumTypeSingle = ''single''"
definition AlbumTypeEP :: string where "AlbumTypeEP = ''ep''"
definition AlbumTypeCompilation :: string where "AlbumTypeCompilation = ''compilation''"

record Album =
  alb_ID :: string
  alb_Title :: string
  alb_PrimaryArtistID :: string
  alb_ReleaseDate :: "time option"
  alb_AlbumType :: string
  alb_CoverURL :: string
  alb_CreatedAt :: time
  alb_UpdatedAt :: time

definition ArtistRolePrimary :: string where "ArtistRolePrimary = ''primary''"
definition ArtistRoleFeatured :: string where "ArtistRoleFeatured = ''featured''"
definition ArtistRoleProducer :: string where "ArtistRoleProducer = ''producer''"
definition ArtistRoleComposer :: string where "ArtistRoleComposer = ''composer''"

record TrackArtist =
  ta_ArtistID :: string
  ta_ArtistName :: string
  ta_Role :: string

record Track =
  trk_ID :: string
  trk_Title :: string
  trk_AlbumID :: string
  trk_DurationMs :: int
  trk_TrackNumber :: "int option"
  trk_ISRC :: string
  trk_Explicit :: bool
  trk_PopularityScore :: real
  trk_Artists :: "TrackArtist list"
  trk_CreatedAt :: time
  trk_UpdatedAt :: time

record AudioAsset =
  aud_ID :: string
  aud_TrackID :: string
  aud_StorageURI :: string
  aud_BitrateKbps :: int
  aud_Codec :: string
  aud_QualityTier :: string

text \<open>\<^verbatim>\<open>Page[T]\<close>\<close>

record 'a Page =
  page_Items :: "'a list"
  page_NextCursor :: string

section \<open>Repositories\<close>

record 'w ArtistRepository =
  arr_Create :: "Artist \<Rightarrow> ('w, unit) io"
  arr_GetByID :: "string \<Rightarrow> ('w, Artist) io"
  arr_Search :: "string \<Rightarrow> string \<Rightarrow> int \<Rightarrow> ('w, Artist Page) io"

record 'w AlbumRepository =
  alr_Create :: "Album \<Rightarrow> ('w, unit) io"
  alr_GetByID :: "string \<Rightarrow> ('w, Album) io"
  alr_ListByArtist :: "string \<Rightarrow> ('w, Album list) io"
  alr_Search :: "string \<Rightarrow> string \<Rightarrow> int \<Rightarrow> ('w, Album Page) io"

record 'w TrackRepository =
  trr_Create :: "Track \<Rightarrow> AudioAsset list \<Rightarrow> ('w, unit) io"
  trr_GetByID :: "string \<Rightarrow> ('w, Track) io"
  trr_ListByAlbum :: "string \<Rightarrow> ('w, Track list) io"
  trr_Search :: "string \<Rightarrow> string \<Rightarrow> int \<Rightarrow> ('w, Track Page) io"
  trr_ListAudioAssets :: "string \<Rightarrow> ('w, AudioAsset list) io"

section \<open>The service\<close>

definition defaultSearchLimit :: int where "defaultSearchLimit = 20"
definition maxSearchLimit :: int where "maxSearchLimit = 100"

record 'w CatalogService =
  cs_artists :: "'w ArtistRepository"
  cs_albums :: "'w AlbumRepository"
  cs_tracks :: "'w TrackRepository"
  cs_clock :: "'w Clock"
  cs_ids :: "'w Generator"

definition catalog_invalid :: "string \<Rightarrow> err" where
  "catalog_invalid d = Detailed (Sentinel CatalogErrInvalidInput) d"

record CreateArtistInput =
  cai_Name :: string
  cai_Slug :: string
  cai_Bio :: string
  cai_ImageURL :: string

definition CreateArtist :: "'w CatalogService \<Rightarrow> CreateArtistInput \<Rightarrow> ('w, Artist) io" where
  "CreateArtist s inp =
     (let name = TrimSpace (cai_Name inp) in
      if name = '''' then throw (catalog_invalid ''name is required'')
      else
        bindE (call (Now (cs_clock s))) (\<lambda>now.
        bindE (call (NewID (cs_ids s))) (\<lambda>i.
        let a = \<lparr>art_ID = i, art_Name = name, art_Slug = TrimSpace (cai_Slug inp), art_Bio = cai_Bio inp,
                 art_ImageURL = cai_ImageURL inp, art_Verified = False, art_CreatedAt = now,
                 art_UpdatedAt = now\<rparr> in
        bindE (wrapE ''catalog: create artist'' (arr_Create (cs_artists s) a)) (\<lambda>_. ret a))))"

definition GetArtist :: "'w CatalogService \<Rightarrow> string \<Rightarrow> ('w, Artist) io" where
  "GetArtist s i =
     (if i = '''' then throw (catalog_invalid ''id is required'')
      else bindE (attempt (arr_GetByID (cs_artists s) i)) (\<lambda>r. case r of
             Inl e \<Rightarrow> if errors_Is e ErrArtistNotFound then throw (Sentinel ErrArtistNotFound)
                      else throw (Wrapped ''catalog: get artist'' e)
           | Inr a \<Rightarrow> ret a))"

record CreateAlbumInput =
  cbi_Title :: string
  cbi_PrimaryArtistID :: string
  cbi_AlbumType :: string
  cbi_CoverURL :: string

definition isValidAlbumType :: "string \<Rightarrow> bool" where
  "isValidAlbumType t \<longleftrightarrow> t \<in> {AlbumTypeAlbum, AlbumTypeSingle, AlbumTypeEP, AlbumTypeCompilation}"

definition isValidArtistRole :: "string \<Rightarrow> bool" where
  "isValidArtistRole r \<longleftrightarrow> r \<in> {ArtistRolePrimary, ArtistRoleFeatured, ArtistRoleProducer, ArtistRoleComposer}"

text \<open>The check that the primary artist exists, before an album is stored.\<close>

definition primary_artist_exists :: "'w CatalogService \<Rightarrow> string \<Rightarrow> ('w, unit) io" where
  "primary_artist_exists s artistID =
     (if artistID = '''' then ret ()
      else bindE (attempt (GetArtist s artistID)) (\<lambda>r. case r of
             Inl e \<Rightarrow> if errors_Is e ErrArtistNotFound
                      then throw (catalog_invalid ''primary_artist_id does not exist'') else throw e
           | Inr _ \<Rightarrow> ret ()))"

definition CreateAlbum :: "'w CatalogService \<Rightarrow> CreateAlbumInput \<Rightarrow> ('w, Album) io" where
  "CreateAlbum s inp =
     (let title = TrimSpace (cbi_Title inp) in
      if title = '''' then throw (catalog_invalid ''title is required'')
      else
        let albumType = (if cbi_AlbumType inp = '''' then AlbumTypeAlbum else cbi_AlbumType inp) in
        if \<not> isValidAlbumType albumType then throw (catalog_invalid ''invalid album_type %q'')
        else
          bindE (primary_artist_exists s (cbi_PrimaryArtistID inp)) (\<lambda>_.
          bindE (call (Now (cs_clock s))) (\<lambda>now.
          bindE (call (NewID (cs_ids s))) (\<lambda>i.
          let a = \<lparr>alb_ID = i, alb_Title = title, alb_PrimaryArtistID = cbi_PrimaryArtistID inp,
                   alb_ReleaseDate = None, alb_AlbumType = albumType, alb_CoverURL = cbi_CoverURL inp,
                   alb_CreatedAt = now, alb_UpdatedAt = now\<rparr> in
          bindE (wrapE ''catalog: create album'' (alr_Create (cs_albums s) a)) (\<lambda>_. ret a)))))"

definition GetAlbum :: "'w CatalogService \<Rightarrow> string \<Rightarrow> ('w, Album \<times> Track list) io" where
  "GetAlbum s i =
     (if i = '''' then throw (catalog_invalid ''id is required'')
      else bindE (attempt (alr_GetByID (cs_albums s) i)) (\<lambda>r. case r of
             Inl e \<Rightarrow> if errors_Is e ErrAlbumNotFound then throw (Sentinel ErrAlbumNotFound)
                      else throw (Wrapped ''catalog: get album'' e)
           | Inr album \<Rightarrow>
               bindE (wrapE ''catalog: list album tracks'' (trr_ListByAlbum (cs_tracks s) i)) (\<lambda>tracks.
               ret (album, tracks))))"

record CreateTrackInput =
  cti_Title :: string
  cti_AlbumID :: string
  cti_DurationMs :: int
  cti_TrackNumber :: "int option"
  cti_ISRC :: string
  cti_Explicit :: bool
  cti_Artists :: "TrackArtist list"
  cti_Assets :: "AudioAsset list"

text \<open>The check that the album exists, before a track is stored.\<close>

definition album_exists :: "'w CatalogService \<Rightarrow> string \<Rightarrow> ('w, unit) io" where
  "album_exists s albumID =
     (if albumID = '''' then ret ()
      else bindE (attempt (alr_GetByID (cs_albums s) albumID)) (\<lambda>r. case r of
             Inl e \<Rightarrow> if errors_Is e ErrAlbumNotFound
                      then throw (catalog_invalid ''album_id does not exist'')
                      else throw (Wrapped ''catalog: get album'' e)
           | Inr _ \<Rightarrow> ret ()))"

definition CreateTrack :: "'w CatalogService \<Rightarrow> CreateTrackInput \<Rightarrow> ('w, Track) io" where
  "CreateTrack s inp =
     (let title = TrimSpace (cti_Title inp) in
      if title = '''' then throw (catalog_invalid ''title is required'')
      else if cti_DurationMs inp \<le> 0 then throw (catalog_invalid ''duration_ms must be positive'')
      else if cti_Artists inp = [] then throw (catalog_invalid ''at least one artist credit is required'')
      else if \<exists>ta \<in> set (cti_Artists inp). ta_ArtistID ta = '''' \<or> \<not> isValidArtistRole (ta_Role ta)
           then throw (catalog_invalid ''invalid artist credit'')
      else
        bindE (album_exists s (cti_AlbumID inp)) (\<lambda>_.
        bindE (call (Now (cs_clock s))) (\<lambda>now.
        bindE (call (NewID (cs_ids s))) (\<lambda>i.
        let t = \<lparr>trk_ID = i, trk_Title = title, trk_AlbumID = cti_AlbumID inp,
                 trk_DurationMs = cti_DurationMs inp, trk_TrackNumber = cti_TrackNumber inp,
                 trk_ISRC = cti_ISRC inp, trk_Explicit = cti_Explicit inp, trk_PopularityScore = 0,
                 trk_Artists = cti_Artists inp, trk_CreatedAt = now, trk_UpdatedAt = now\<rparr> in
        bindE (wrapE ''catalog: create track'' (trr_Create (cs_tracks s) t (cti_Assets inp))) (\<lambda>_. ret t)))))"

definition GetTrack :: "'w CatalogService \<Rightarrow> string \<Rightarrow> ('w, Track \<times> AudioAsset list) io" where
  "GetTrack s i =
     (if i = '''' then throw (catalog_invalid ''id is required'')
      else bindE (attempt (trr_GetByID (cs_tracks s) i)) (\<lambda>r. case r of
             Inl e \<Rightarrow> if errors_Is e CatalogErrTrackNotFound then throw (Sentinel CatalogErrTrackNotFound)
                      else throw (Wrapped ''catalog: get track'' e)
           | Inr track \<Rightarrow>
               bindE (wrapE ''catalog: list audio assets'' (trr_ListAudioAssets (cs_tracks s) i)) (\<lambda>assets.
               ret (track, assets))))"

definition TrackExists :: "'w CatalogService \<Rightarrow> string \<Rightarrow> ('w, bool) io" where
  "TrackExists s i =
     bindE (attempt (GetTrack s i)) (\<lambda>r. case r of
       Inl e \<Rightarrow> if errors_Is e CatalogErrTrackNotFound \<or> errors_Is e CatalogErrInvalidInput then ret False
                else throw e
     | Inr _ \<Rightarrow> ret True)"

definition SearchTypeTrack :: string where "SearchTypeTrack = ''track''"
definition SearchTypeAlbum :: string where "SearchTypeAlbum = ''album''"
definition SearchTypeArtist :: string where "SearchTypeArtist = ''artist''"

record SearchInput =
  si_Query :: string
  si_Type :: string
  si_Cursor :: string
  si_Limit :: int

record SearchOutput =
  so_Tracks :: "Track list"
  so_Albums :: "Album list"
  so_Artists :: "Artist list"
  so_NextCursor :: string

definition clamp_limit :: "int \<Rightarrow> int \<Rightarrow> int \<Rightarrow> int" where
  "clamp_limit dflt biggest n = (let l = (if n \<le> 0 then dflt else n) in if l > biggest then biggest else l)"

definition catalog_Search :: "'w CatalogService \<Rightarrow> SearchInput \<Rightarrow> ('w, SearchOutput) io" where
  "catalog_Search s inp =
     (let q = TrimSpace (si_Query inp) in
      if q = '''' then throw (catalog_invalid ''q is required'')
      else
        let lim = clamp_limit defaultSearchLimit maxSearchLimit (si_Limit inp);
            searchType = (if si_Type inp = '''' then SearchTypeTrack else si_Type inp) in
        if searchType = SearchTypeTrack then
          bindE (wrapE ''catalog: search tracks'' (trr_Search (cs_tracks s) q (si_Cursor inp) lim)) (\<lambda>p.
          ret \<lparr>so_Tracks = page_Items p, so_Albums = [], so_Artists = [], so_NextCursor = page_NextCursor p\<rparr>)
        else if searchType = SearchTypeAlbum then
          bindE (wrapE ''catalog: search albums'' (alr_Search (cs_albums s) q (si_Cursor inp) lim)) (\<lambda>p.
          ret \<lparr>so_Tracks = [], so_Albums = page_Items p, so_Artists = [], so_NextCursor = page_NextCursor p\<rparr>)
        else if searchType = SearchTypeArtist then
          bindE (wrapE ''catalog: search artists'' (arr_Search (cs_artists s) q (si_Cursor inp) lim)) (\<lambda>p.
          ret \<lparr>so_Tracks = [], so_Albums = [], so_Artists = page_Items p, so_NextCursor = page_NextCursor p\<rparr>)
        else throw (catalog_invalid ''unsupported type %q''))"

end
