(* ===== verification/Paging.thy ===== *)
theory Paging
  imports Prelude "HOL-Library.Multiset"
begin

text \<open>
  Keyset pagination, as all list queries of the repositories do it: rows in the order of a key, one
  more than the limit is fetched, and the key of the last row handed out is the cursor of the next
  page. The order is a parameter; that it is a strict total order is the locale \<open>strict_order\<close>.
\<close>

section \<open>Sorting by a key\<close>

fun insort_by :: "('k \<Rightarrow> 'k \<Rightarrow> bool) \<Rightarrow> ('a \<Rightarrow> 'k) \<Rightarrow> 'a \<Rightarrow> 'a list \<Rightarrow> 'a list" where
  "insort_by lt key x [] = [x]"
| "insort_by lt key x (y # ys) = (if lt (key y) (key x) then y # insort_by lt key x ys else x # y # ys)"

definition order_by :: "('k \<Rightarrow> 'k \<Rightarrow> bool) \<Rightarrow> ('a \<Rightarrow> 'k) \<Rightarrow> 'a list \<Rightarrow> 'a list" where
  "order_by lt key xs = foldr (insort_by lt key) xs []"

lemma order_by_simps [simp]:
  "order_by lt key [] = []" "order_by lt key (x # xs) = insort_by lt key x (order_by lt key xs)"
  by (simp_all add: order_by_def)

lemma set_insort_by [simp]: "set (insort_by lt key x xs) = insert x (set xs)"
  by (induction xs) auto

lemma set_order_by [simp]: "set (order_by lt key xs) = set xs"
  by (induction xs) auto

lemma length_insort_by [simp]: "length (insort_by lt key x xs) = Suc (length xs)"
  by (induction xs) auto

lemma length_order_by [simp]: "length (order_by lt key xs) = length xs"
  by (induction xs) auto

text \<open>Sorting neither loses nor doubles a row.\<close>

lemma mset_insort_by [simp]: "mset (insort_by lt key x xs) = add_mset x (mset xs)"
  by (induction xs) auto

lemma mset_order_by [simp]: "mset (order_by lt key xs) = mset xs"
  by (induction xs) auto

section \<open>A page\<close>

definition keyset_page :: "('k \<Rightarrow> 'k \<Rightarrow> bool) \<Rightarrow> ('a \<Rightarrow> 'k) \<Rightarrow> nat \<Rightarrow> 'k option \<Rightarrow> 'a list \<Rightarrow> 'a list \<times> 'k option" where
  "keyset_page lt key cap c rows =
     (let items = take (Suc cap) (order_by lt key
            (filter (\<lambda>x. case c of None \<Rightarrow> True | Some k \<Rightarrow> lt k (key x)) rows))
      in if length items > cap then (take cap items, Some (key (items ! (cap - 1)))) else (items, None))"

text \<open>All pages from a cursor on, at most \<open>n\<close> of them.\<close>

primrec keyset_walk :: "('k \<Rightarrow> 'k \<Rightarrow> bool) \<Rightarrow> ('a \<Rightarrow> 'k) \<Rightarrow> nat \<Rightarrow> 'a list \<Rightarrow> nat \<Rightarrow> 'k option \<Rightarrow> 'a list list" where
  "keyset_walk lt key cap rows 0 c = []"
| "keyset_walk lt key cap rows (Suc n) c =
     (case keyset_page lt key cap c rows of
        (items, None) \<Rightarrow> [items]
      | (items, Some k) \<Rightarrow> items # keyset_walk lt key cap rows n (Some k))"

section \<open>Walking through the pages\<close>

locale strict_order =
  fixes lt :: "'k \<Rightarrow> 'k \<Rightarrow> bool"
  assumes lt_irrefl: "\<not> lt x x"
    and lt_trans: "lt x y \<Longrightarrow> lt y z \<Longrightarrow> lt x z"
    and lt_total: "x \<noteq> y \<Longrightarrow> lt x y \<or> lt y x"
begin

abbreviation increasing :: "('a \<Rightarrow> 'k) \<Rightarrow> 'a list \<Rightarrow> bool" where
  "increasing key \<equiv> sorted_wrt (\<lambda>x y. lt (key x) (key y))"

lemma increasing_insort:
  assumes "increasing key xs" and "key x \<notin> key ` set xs"
  shows "increasing key (insort_by lt key x xs)"
  using assms
proof (induction xs)
  case (Cons y ys)
  then show ?case
    using lt_total [of "key x" "key y"] lt_trans by auto
qed simp

lemma increasing_order_by:
  assumes "distinct (map key xs)"
  shows "increasing key (order_by lt key xs)"
  using assms by (induction xs) (auto intro: increasing_insort)

lemma filter_insort_by:
  assumes "increasing key xs" and "key x \<notin> key ` set xs"
  shows "filter P (insort_by lt key x xs) = (if P x then insort_by lt key x (filter P xs) else filter P xs)"
  using assms
proof (induction xs)
  case (Cons y ys)
  have front: "insort_by lt key x zs = x # zs" if "\<forall>z \<in> set zs. \<not> lt (key z) (key x)" for zs
    using that by (cases zs) auto
  show ?case
  proof (cases "lt (key y) (key x)")
    case True
    with Cons show ?thesis by simp
  next
    case False
    with Cons.prems lt_total have "lt (key x) (key y)" by auto
    with Cons.prems have "\<forall>z \<in> set (y # ys). \<not> lt (key z) (key x)"
      using lt_trans lt_irrefl by (auto, blast+)
    then have "insort_by lt key x (filter P (y # ys)) = x # filter P (y # ys)" by (intro front) auto
    with False show ?thesis by simp
  qed
qed simp

lemma filter_order_by:
  assumes "distinct (map key xs)"
  shows "order_by lt key (filter P xs) = filter P (order_by lt key xs)"
  using assms by (induction xs) (simp_all add: filter_insort_by increasing_order_by)

lemma rest_after:
  assumes "increasing key xs" and "i < length xs"
  shows "filter (\<lambda>x. lt (key (xs ! i)) (key x)) xs = drop (Suc i) xs"
  using assms
proof (induction xs arbitrary: i)
  case (Cons y ys)
  show ?case
  proof (cases i)
    case 0
    with Cons.prems show ?thesis by (simp add: lt_irrefl)
  next
    case (Suc j)
    with Cons.prems have "lt (key y) (key (ys ! j))" by simp
    then have "\<not> lt (key (ys ! j)) (key y)" using lt_trans lt_irrefl by blast
    with Suc Cons show ?thesis by simp
  qed
qed simp

text \<open>The page after the first \<open>n\<close> rows is the next \<open>cap\<close> rows.\<close>

lemma page_at:
  fixes rows :: "'a list" and key :: "'a \<Rightarrow> 'k"
  defines "all \<equiv> order_by lt key rows"
  assumes "distinct (map key rows)" and "0 < cap" and "n \<le> length rows"
    and "c = (if n = 0 then None else Some (key (all ! (n - 1))))"
  shows "keyset_page lt key cap c rows =
    (take cap (drop n all), if n + cap < length rows then Some (key (all ! (n + cap - 1))) else None)"
proof -
  have inc: "increasing key all" unfolding all_def by (rule increasing_order_by) (rule assms)
  have len: "length all = length rows" by (simp add: all_def)
  have "order_by lt key (filter (\<lambda>x. case c of None \<Rightarrow> True | Some k \<Rightarrow> lt k (key x)) rows) = drop n all"
  proof (cases n)
    case 0
    then show ?thesis using assms(5) by (simp add: all_def)
  next
    case (Suc m)
    then show ?thesis
      using assms(4,5) rest_after [OF inc, of m] len
      by (simp add: filter_order_by [OF assms(2)] all_def [symmetric])
  qed
  then show ?thesis
    using assms(3,4) len by (auto simp: keyset_page_def Let_def min_def nth_append)
qed

lemma walk_from:
  fixes rows :: "'a list" and key :: "'a \<Rightarrow> 'k"
  defines "all \<equiv> order_by lt key rows"
  assumes "distinct (map key rows)" and "0 < cap" and "n \<le> length rows" and "length rows - n < fuel"
    and "c = (if n = 0 then None else Some (key (all ! (n - 1))))"
  shows "concat (keyset_walk lt key cap rows fuel c) = drop n all
    \<and> (\<forall>p \<in> set (keyset_walk lt key cap rows fuel c). length p \<le> cap)"
  using assms(4-)
proof (induction fuel arbitrary: n c)
  case (Suc fuel)
  note page = page_at [OF assms(2,3) Suc.prems(1), where c = c, folded all_def, OF Suc.prems(3)]
  show ?case
  proof (cases "n + cap < length rows")
    case True
    have "concat (keyset_walk lt key cap rows fuel (Some (key (all ! (n + cap - 1))))) = drop (n + cap) all
      \<and> (\<forall>p \<in> set (keyset_walk lt key cap rows fuel (Some (key (all ! (n + cap - 1))))). length p \<le> cap)"
      using True Suc.prems(2) assms(3) by (intro Suc.IH) auto
    then show ?thesis
      using True page append_take_drop_id [of cap "drop n all"] by (simp add: add.commute)
  next
    case False
    then show ?thesis using page by (simp add: all_def)
  qed
qed simp

lemma walk_complete:
  assumes "distinct (map key rows)" and "0 < cap" and "length rows < fuel"
  shows "concat (keyset_walk lt key cap rows fuel None) = order_by lt key rows
    \<and> (\<forall>p \<in> set (keyset_walk lt key cap rows fuel None). length p \<le> cap)"
  using walk_from [where n = 0 and c = None, OF assms(1,2)] assms(3) by simp

end

section \<open>The orders of the queries\<close>

text \<open>
  Texts are compared with the collation of the database, a parameter \<open>cl\<close>; ties go by identifier.
\<close>

definition by_name_id :: "(string \<Rightarrow> string \<Rightarrow> bool) \<Rightarrow> (string \<Rightarrow> string \<Rightarrow> bool)
    \<Rightarrow> string \<times> string \<Rightarrow> string \<times> string \<Rightarrow> bool" where
  "by_name_id cl ul = (\<lambda>(n, i) (m, j). cl n m \<or> (n = m \<and> ul i j))"

lemma by_name_id_order:
  assumes "strict_order cl" and "strict_order ul"
  shows "strict_order (by_name_id cl ul)"
proof -
  note cl = strict_order.lt_irrefl [OF assms(1)] strict_order.lt_trans [OF assms(1)] strict_order.lt_total [OF assms(1)]
  note ul = strict_order.lt_irrefl [OF assms(2)] strict_order.lt_trans [OF assms(2)] strict_order.lt_total [OF assms(2)]
  show ?thesis
    by unfold_locales (auto simp: by_name_id_def cl(1) ul(1) dest: cl(2,3) ul(2,3))
qed

text \<open>Byte order: identifiers, and texts under the collation \<^verbatim>\<open>C\<close>.\<close>

definition byte_lt :: "string \<Rightarrow> string \<Rightarrow> bool" where
  "byte_lt s t \<longleftrightarrow> (s, t) \<in> lexord {(a, b). (of_char a :: nat) < of_char b}"

interpretation bytes: strict_order byte_lt
proof
  fix s t u :: string
  let ?r = "{(a, b). (of_char a :: nat) < of_char b}"
  show "\<not> byte_lt s s" by (simp add: byte_lt_def lexord_irreflexive)
  show "byte_lt s t \<Longrightarrow> byte_lt t u \<Longrightarrow> byte_lt s u"
    using lexord_trans [of s t ?r u] by (auto simp: byte_lt_def trans_def)
  show "s \<noteq> t \<Longrightarrow> byte_lt s t \<or> byte_lt t s"
  proof -
    have "of_char a < (of_char b :: nat) \<or> a = b \<or> of_char b < (of_char a :: nat)" for a b :: char
      by (metis linorder_less_linear of_char_eq_iff)
    then show "s \<noteq> t \<Longrightarrow> byte_lt s t \<or> byte_lt t s"
      using lexord_linear [of ?r s t] by (auto simp: byte_lt_def)
  qed
qed

section \<open>Following the cursors\<close>

text \<open>A client that asks for page after page, until there is no cursor or it has asked \<open>n\<close> times.\<close>

primrec walk_pages :: "(string \<Rightarrow> ('w, 'a list \<times> string) io) \<Rightarrow> nat \<Rightarrow> string \<Rightarrow> ('w, 'a list list) io" where
  "walk_pages fetch 0 c = ret []"
| "walk_pages fetch (Suc n) c =
     bindE (fetch c) (\<lambda>(items, next).
     if next = '''' then ret [items]
     else bindE (walk_pages fetch n next) (\<lambda>rest. ret (items # rest)))"

definition cursor_text :: "('k \<Rightarrow> string) \<Rightarrow> 'k option \<Rightarrow> string" where
  "cursor_text enc c = (case c of None \<Rightarrow> '''' | Some k \<Rightarrow> enc k)"

text \<open>
  The contract of a paged query: for a cursor it has handed out, or none, it answers with a page of
  the rows \<open>rows w\<close> and the next cursor.
\<close>

locale paged = strict_order lt
  for lt :: "'k \<Rightarrow> 'k \<Rightarrow> bool" +
  fixes key :: "'a \<Rightarrow> 'k"
    and enc :: "'k \<Rightarrow> string"
    and cap :: nat
    and rows :: "'w \<Rightarrow> 'a list"
    and fetch :: "string \<Rightarrow> ('w, 'a list \<times> string) io"
  assumes fetch_page: "fetch (cursor_text enc c) w = (Inr (items, next), w') \<Longrightarrow>
      (items, next) = map_prod id (cursor_text enc) (keyset_page lt key cap c (rows w))"
    and fetch_keeps: "keeps rows (fetch text)"
    and enc_nonempty: "enc k \<noteq> ''''"
    and cap_positive: "0 < cap"
begin

lemma walk_is_walk:
  assumes "walk_pages fetch n (cursor_text enc c) w = (Inr pages, w')"
  shows "pages = keyset_walk lt key cap (rows w) n c \<and> rows w' = rows w"
  using assms
proof (induction n arbitrary: c w pages)
  case (Suc n)
  from Suc.prems obtain items nxt w1 where f: "fetch (cursor_text enc c) w = (Inr (items, nxt), w1)"
    and rest: "(if nxt = '''' then ret [items] else bindE (walk_pages fetch n nxt) (\<lambda>rest. ret (items # rest))) w1
      = (Inr pages, w')"
    by auto
  obtain ko where page: "keyset_page lt key cap c (rows w) = (items, ko)" and nxt: "nxt = cursor_text enc ko"
    using fetch_page [OF f] by (cases "keyset_page lt key cap c (rows w)") auto
  note same = keepsD [OF fetch_keeps f]
  show ?case
  proof (cases ko)
    case None
    then show ?thesis using rest nxt page same by (simp add: cursor_text_def)
  next
    case (Some k)
    then have "nxt \<noteq> ''''" using nxt enc_nonempty by (simp add: cursor_text_def)
    with rest obtain ps where "walk_pages fetch n nxt w1 = (Inr ps, w')" and "pages = items # ps" by auto
    then show ?thesis using Suc.IH [of ko w1 ps] nxt page same Some by simp
  qed
qed simp

text \<open>Who follows the cursors to the end has seen every row once, in order, in pages of the size asked for.\<close>

lemma walk_sees_all:
  assumes "walk_pages fetch n '''' w = (Inr pages, w')" and "distinct (map key (rows w))"
    and "length (rows w) < n"
  shows "concat pages = order_by lt key (rows w) \<and> (\<forall>p \<in> set pages. length p \<le> cap)"
  using walk_is_walk [of n None w pages w'] walk_complete [OF assms(2) cap_positive assms(3)] assms(1)
  by (simp add: cursor_text_def)

end

text \<open>Removing rows does not reorder the others, ties included.\<close>

lemma sorted_insort_by:
  fixes key :: "'a \<Rightarrow> real"
  shows "sorted (map key xs) \<Longrightarrow> sorted (map key (insort_by (<) key x xs))"
  by (induction xs) auto

lemma sorted_order_by:
  fixes key :: "'a \<Rightarrow> real"
  shows "sorted (map key (order_by (<) key xs))"
  by (induction xs) (simp_all add: sorted_insort_by)

lemma filter_order_by_number:
  fixes key :: "'a \<Rightarrow> real"
  shows "filter P (order_by (<) key xs) = order_by (<) key (filter P xs)"
proof (induction xs)
  case (Cons x xs)
  have sorted: "sorted (map key (order_by (<) key xs))" by (rule sorted_order_by)
  have front: "insort_by (<) key x zs = x # zs" if "\<forall>z \<in> set zs. key x \<le> key z" for zs
    using that by (cases zs) auto
  have "filter P (insort_by (<) key x ys) = (if P x then insort_by (<) key x (filter P ys) else filter P ys)"
    if "sorted (map key ys)" for ys
    using that
  proof (induction ys)
    case (Cons y ys)
    show ?case
    proof (cases "key y < key x")
      case True
      with Cons show ?thesis by simp
    next
      case False
      with Cons.prems have "\<forall>z \<in> set (filter P (y # ys)). key x \<le> key z" by auto
      from front [OF this] show ?thesis using False by simp
    qed
  qed simp
  from this [OF sorted] show ?case using Cons by simp
qed simp

text \<open>The first row of an order by a number has the smallest one.\<close>

lemma hd_order_by:
  fixes key :: "'a \<Rightarrow> real"
  shows "order_by (<) key xs = z # zs \<Longrightarrow> z \<in> set xs \<and> (\<forall>y \<in> set xs. key z \<le> key y)"
proof (induction xs arbitrary: z zs)
  case (Cons x xs)
  show ?case
  proof (cases "order_by (<) key xs")
    case Nil
    then have "set xs = {}" using set_order_by [of "(<)" key xs] by simp
    with Cons.prems Nil show ?thesis by simp
  next
    case (Cons a as)
    from Cons.IH [OF this] Cons.prems this show ?thesis by (fastforce split: if_splits)
  qed
qed simp

end
