(* ===== verification/Catalog_Postgres.thy ===== *)
theory Catalog_Postgres
  imports Catalog_Service Postgres Paging
begin

text \<open>
  \<^verbatim>\<open>backend/internal/catalog/postgres/repo.go\<close>: the SQL of the three repositories on the tables of
  \<^verbatim>\<open>migrations/0001_init.up.sql\<close>. A nullable text column is kept as the text the code reads, where
  the empty one is NULL. The collation of the database, \<^verbatim>\<open>pg_trgm\<close>'s similarity and the encoding
  of a cursor (JSON in base64) are parameters; rows that an ORDER BY leaves tied come in the order
  of storage, on which nothing here rests.
\<close>

section \<open>Tables and parameters\<close>

record catalog_tables =
  ct_artists :: "Artist list"
  ct_albums :: "Album list"
  ct_tracks :: "Track list" \<comment> \<open>without credits\<close>
  ct_credits :: "(string \<times> string \<times> string) list" \<comment> \<open>track, artist, role\<close>
  ct_assets :: "AudioAsset list"
  ct_uuids :: nat

record catalog_env =
  ce_collate :: "string \<Rightarrow> string \<Rightarrow> bool"
  ce_similarity :: "string \<Rightarrow> string \<Rightarrow> real"
  ce_encode :: "string \<times> string \<Rightarrow> string"
  ce_decode :: "string \<Rightarrow> (string \<times> string) option"
  ce_uuid :: "nat \<Rightarrow> string"

definition similarityThreshold :: real where "similarityThreshold = 15 / 100"

definition encodeNameCursor :: "catalog_env \<Rightarrow> string \<Rightarrow> string \<Rightarrow> string" where
  "encodeNameCursor env nm i = ce_encode env (nm, i)"

definition decodeNameCursor :: "catalog_env \<Rightarrow> string \<Rightarrow> err + (string \<times> string)" where
  "decodeNameCursor env c =
     (if c = '''' then Inr ('''', '''')
      else case ce_decode env c of
             None \<Rightarrow> Inl (Wrapped ''catalog: invalid cursor'' (Foreign ''decode'')) | Some k \<Rightarrow> Inr k)"

text \<open>The three searches differ in the table and the column they look at.\<close>

definition name_search ::
    "catalog_env \<Rightarrow> (catalog_tables \<Rightarrow> 'a list) \<Rightarrow> ('a \<Rightarrow> string) \<Rightarrow> ('a \<Rightarrow> string) \<Rightarrow> string \<Rightarrow> string \<Rightarrow> int
     \<Rightarrow> (catalog_tables pg, 'a Page) io" where
  "name_search env rows nm ident q cursor limit =
     (case decodeNameCursor env cursor of
        Inl e \<Rightarrow> throw e
      | Inr c \<Rightarrow>
          pg_run (\<lambda>_ tb.
            (Inr (case keyset_page (by_name_id (ce_collate env) byte_lt) (\<lambda>x. (nm x, ident x)) (nat limit)
                         (if cursor = '''' then None else Some c)
                         (filter (\<lambda>x. ce_similarity env (nm x) q > similarityThreshold) (rows tb)) of
                    (items, None) \<Rightarrow> \<lparr>page_Items = items, page_NextCursor = ''''\<rparr>
                  | (items, Some (n, i)) \<Rightarrow>
                      \<lparr>page_Items = items, page_NextCursor = encodeNameCursor env n i\<rparr>), tb)))"

section \<open>Artists\<close>

definition insert_artist :: "Artist \<Rightarrow> catalog_tables \<Rightarrow> (err + unit) \<times> catalog_tables" where
  "insert_artist a tb =
     (if \<exists>b \<in> set (ct_artists tb). art_ID b = art_ID a \<or> (art_Slug a \<noteq> '''' \<and> art_Slug b = art_Slug a)
      then (Inl (Foreign UniqueViolation), tb)
      else (Inr (), tb\<lparr>ct_artists := ct_artists tb @ [a\<lparr>art_UpdatedAt := art_CreatedAt a\<rparr>]\<rparr>))"

definition pg_artist_Create :: "Artist \<Rightarrow> (catalog_tables pg, unit) io" where
  "pg_artist_Create a = pg_run (\<lambda>_. insert_artist a)"

definition pg_artist_GetByID :: "string \<Rightarrow> (catalog_tables pg, Artist) io" where
  "pg_artist_GetByID i =
     bindE (pg_run (\<lambda>_ tb. (Inr (List.find (\<lambda>a. art_ID a = i) (ct_artists tb)), tb))) (\<lambda>r.
     case r of None \<Rightarrow> throw (Sentinel ErrArtistNotFound) | Some a \<Rightarrow> ret a)"

definition pg_artist_Search :: "catalog_env \<Rightarrow> string \<Rightarrow> string \<Rightarrow> int \<Rightarrow> (catalog_tables pg, Artist Page) io" where
  "pg_artist_Search env q cursor limit = name_search env ct_artists art_Name art_ID q cursor limit"

section \<open>Albums\<close>

definition Day :: duration where "Day = 24 * Hour"

text \<open>\<^verbatim>\<open>CHECK (album_type IN ...)\<close> of the migration, the service's own album types.\<close>

definition album_type_check :: "string \<Rightarrow> bool" where
  "album_type_check t \<longleftrightarrow> t \<in> {''album'', ''single'', ''ep'', ''compilation''}"

lemma album_type_check_valid [simp]: "album_type_check t = isValidAlbumType t"
  by (auto simp: album_type_check_def isValidAlbumType_def AlbumTypeAlbum_def AlbumTypeSingle_def AlbumTypeEP_def
      AlbumTypeCompilation_def)

definition insert_album :: "Album \<Rightarrow> catalog_tables \<Rightarrow> (err + unit) \<times> catalog_tables" where
  "insert_album a tb =
     (if \<not> album_type_check (alb_AlbumType a) then (Inl (Foreign CheckViolation), tb)
      else if \<exists>b \<in> set (ct_albums tb). alb_ID b = alb_ID a then (Inl (Foreign UniqueViolation), tb)
      else if alb_PrimaryArtistID a \<noteq> '''' \<and> alb_PrimaryArtistID a \<notin> art_ID ` set (ct_artists tb)
      then (Inl (Foreign ForeignKeyViolation), tb)
      else (Inr (), tb\<lparr>ct_albums := ct_albums tb @ [a\<lparr>alb_UpdatedAt := alb_CreatedAt a,
              alb_ReleaseDate := map_option (\<lambda>d. d div Day * Day) (alb_ReleaseDate a)\<rparr>]\<rparr>))"

definition pg_album_Create :: "Album \<Rightarrow> (catalog_tables pg, unit) io" where
  "pg_album_Create a = pg_run (\<lambda>_. insert_album a)"

definition pg_album_GetByID :: "string \<Rightarrow> (catalog_tables pg, Album) io" where
  "pg_album_GetByID i =
     bindE (pg_run (\<lambda>_ tb. (Inr (List.find (\<lambda>a. alb_ID a = i) (ct_albums tb)), tb))) (\<lambda>r.
     case r of None \<Rightarrow> throw (Sentinel ErrAlbumNotFound) | Some a \<Rightarrow> ret a)"

text \<open>\<^verbatim>\<open>release_date DESC NULLS LAST, id\<close> and \<^verbatim>\<open>track_number NULLS LAST, id\<close>\<close>

fun null_last :: "(int \<Rightarrow> int \<Rightarrow> bool) \<Rightarrow> int option \<times> string \<Rightarrow> int option \<times> string \<Rightarrow> bool" where
  "null_last before (Some a, i) (Some b, j) = (before a b \<or> (a = b \<and> byte_lt i j))"
| "null_last before (Some a, i) (None, j) = True"
| "null_last before (None, i) (Some b, j) = False"
| "null_last before (None, i) (None, j) = byte_lt i j"

definition pg_album_ListByArtist :: "string \<Rightarrow> (catalog_tables pg, Album list) io" where
  "pg_album_ListByArtist artistID =
     pg_run (\<lambda>_ tb. (Inr (order_by (null_last (>)) (\<lambda>a. (alb_ReleaseDate a, alb_ID a))
       (filter (\<lambda>a. artistID \<noteq> '''' \<and> alb_PrimaryArtistID a = artistID) (ct_albums tb))), tb))"

definition pg_album_Search :: "catalog_env \<Rightarrow> string \<Rightarrow> string \<Rightarrow> int \<Rightarrow> (catalog_tables pg, Album Page) io" where
  "pg_album_Search env q cursor limit = name_search env ct_albums alb_Title alb_ID q cursor limit"

section \<open>Tracks\<close>

text \<open>\<^verbatim>\<open>INTEGER\<close> and \<^verbatim>\<open>SMALLINT\<close>\<close>

definition in_int4 :: "int \<Rightarrow> bool" where "in_int4 n \<longleftrightarrow> - (2 ^ 31) \<le> n \<and> n < 2 ^ 31"
definition in_int2 :: "int \<Rightarrow> bool" where "in_int2 n \<longleftrightarrow> - (2 ^ 15) \<le> n \<and> n < 2 ^ 15"

definition out_of_range :: err where "out_of_range = Foreign ''22003''"

definition insert_track :: "Track \<Rightarrow> catalog_tables \<Rightarrow> (err + unit) \<times> catalog_tables" where
  "insert_track t tb =
     (if \<not> in_int4 (trk_DurationMs t) \<or> (\<exists>n. trk_TrackNumber t = Some n \<and> \<not> in_int2 n)
      then (Inl out_of_range, tb)
      else if trk_DurationMs t \<le> 0 then (Inl (Foreign CheckViolation), tb)
      else if \<exists>u \<in> set (ct_tracks tb). trk_ID u = trk_ID t \<or> (trk_ISRC t \<noteq> '''' \<and> trk_ISRC u = trk_ISRC t)
      then (Inl (Foreign UniqueViolation), tb)
      else if trk_AlbumID t \<noteq> '''' \<and> trk_AlbumID t \<notin> alb_ID ` set (ct_albums tb)
      then (Inl (Foreign ForeignKeyViolation), tb)
      else (Inr (), tb\<lparr>ct_tracks := ct_tracks tb @ [t\<lparr>trk_Artists := [], trk_PopularityScore := 0,
              trk_UpdatedAt := trk_CreatedAt t\<rparr>]\<rparr>))"

text \<open>\<^verbatim>\<open>CHECK (role IN ...)\<close>, the service's own roles.\<close>

definition role_check :: "string \<Rightarrow> bool" where
  "role_check r \<longleftrightarrow> r \<in> {''primary'', ''featured'', ''producer'', ''composer''}"

lemma role_check_valid [simp]: "role_check r = isValidArtistRole r"
  by (auto simp: role_check_def isValidArtistRole_def ArtistRolePrimary_def ArtistRoleFeatured_def
      ArtistRoleProducer_def ArtistRoleComposer_def)

fun insert_credits :: "string \<Rightarrow> TrackArtist list \<Rightarrow> catalog_tables \<Rightarrow> (err + unit) \<times> catalog_tables" where
  "insert_credits i [] tb = (Inr (), tb)"
| "insert_credits i (ta # tas) tb =
     (let row = (i, ta_ArtistID ta, ta_Role ta) in
      if \<not> role_check (ta_Role ta) then (Inl (Foreign CheckViolation), tb)
      else if row \<in> set (ct_credits tb) then (Inl (Foreign UniqueViolation), tb)
      else if ta_ArtistID ta \<notin> art_ID ` set (ct_artists tb) then (Inl (Foreign ForeignKeyViolation), tb)
      else insert_credits i tas (tb\<lparr>ct_credits := ct_credits tb @ [row]\<rparr>))"

definition QualityTiers :: "string set" where "QualityTiers = {''low'', ''normal'', ''high'', ''lossless''}"
definition Codecs :: "string set" where "Codecs = {''aac'', ''opus'', ''flac''}"

fun insert_assets ::
    "(nat \<Rightarrow> string) \<Rightarrow> string \<Rightarrow> AudioAsset list \<Rightarrow> catalog_tables \<Rightarrow> (err + unit) \<times> catalog_tables" where
  "insert_assets uuid i [] tb = (Inr (), tb)"
| "insert_assets uuid i (a # as) tb =
     (if \<not> in_int4 (aud_BitrateKbps a) then (Inl out_of_range, tb)
      else if aud_Codec a \<notin> Codecs \<or> aud_QualityTier a \<notin> QualityTiers then (Inl (Foreign CheckViolation), tb)
      else insert_assets uuid i as
             (tb\<lparr>ct_assets := ct_assets tb @ [a\<lparr>aud_ID := uuid (ct_uuids tb), aud_TrackID := i\<rparr>],
                 ct_uuids := Suc (ct_uuids tb)\<rparr>))"

text \<open>
  The transaction of \<^verbatim>\<open>TrackRepo.Create\<close>: the first statement that fails ends it and \<^verbatim>\<open>Rollback\<close>
  restores the tables; a connection lost at the commit may leave it carried out.
\<close>

definition insert_track_tx ::
    "(nat \<Rightarrow> string) \<Rightarrow> Track \<Rightarrow> AudioAsset list \<Rightarrow> catalog_tables \<Rightarrow> (err + unit) \<times> catalog_tables" where
  "insert_track_tx uuid t assets tb =
     (case insert_track t tb of
        (Inl e, _) \<Rightarrow> (Inl e, tb)
      | (Inr _, tb1) \<Rightarrow>
          (case insert_credits (trk_ID t) (trk_Artists t) tb1 of
             (Inl e, _) \<Rightarrow> (Inl e, tb)
           | (Inr _, tb2) \<Rightarrow>
               (case insert_assets uuid (trk_ID t) assets tb2 of
                  (Inl e, _) \<Rightarrow> (Inl e, tb)
                | (Inr _, tb3) \<Rightarrow> (Inr (), tb3))))"

definition pg_track_Create :: "catalog_env \<Rightarrow> Track \<Rightarrow> AudioAsset list \<Rightarrow> (catalog_tables pg, unit) io" where
  "pg_track_Create env t assets = pg_run (\<lambda>_. insert_track_tx (ce_uuid env) t assets)"

definition credits_of :: "catalog_env \<Rightarrow> string \<Rightarrow> catalog_tables \<Rightarrow> TrackArtist list" where
  "credits_of env i tb =
     order_by (by_name_id (ce_collate env) (ce_collate env)) (\<lambda>ta. (ta_Role ta, ta_ArtistName ta))
       [\<lparr>ta_ArtistID = art_ID a, ta_ArtistName = art_Name a, ta_Role = role\<rparr>.
          (t, artist, role) \<leftarrow> ct_credits tb, t = i, a \<leftarrow> ct_artists tb, art_ID a = artist]"

definition trackArtists :: "catalog_env \<Rightarrow> string \<Rightarrow> (catalog_tables pg, TrackArtist list) io" where
  "trackArtists env i = pg_run (\<lambda>_ tb. (Inr (credits_of env i tb), tb))"

definition pg_track_GetByID :: "catalog_env \<Rightarrow> string \<Rightarrow> (catalog_tables pg, Track) io" where
  "pg_track_GetByID env i =
     bindE (pg_run (\<lambda>_ tb. (Inr (List.find (\<lambda>t. trk_ID t = i) (ct_tracks tb)), tb))) (\<lambda>r.
     case r of
       None \<Rightarrow> throw (Sentinel CatalogErrTrackNotFound)
     | Some t \<Rightarrow> bindE (trackArtists env i) (\<lambda>artists. ret (t\<lparr>trk_Artists := artists\<rparr>)))"

primrec attach_artists :: "catalog_env \<Rightarrow> Track list \<Rightarrow> (catalog_tables pg, Track list) io" where
  "attach_artists env [] = ret []"
| "attach_artists env (t # ts) =
     bindE (trackArtists env (trk_ID t)) (\<lambda>artists.
     bindE (attach_artists env ts) (\<lambda>rest. ret (t\<lparr>trk_Artists := artists\<rparr> # rest)))"

definition pg_track_ListByAlbum :: "catalog_env \<Rightarrow> string \<Rightarrow> (catalog_tables pg, Track list) io" where
  "pg_track_ListByAlbum env albumID =
     bindE (pg_run (\<lambda>_ tb. (Inr (order_by (null_last (<)) (\<lambda>t. (trk_TrackNumber t, trk_ID t))
              (filter (\<lambda>t. albumID \<noteq> '''' \<and> trk_AlbumID t = albumID) (ct_tracks tb))), tb)))
       (attach_artists env)"

definition pg_track_Search :: "catalog_env \<Rightarrow> string \<Rightarrow> string \<Rightarrow> int \<Rightarrow> (catalog_tables pg, Track Page) io" where
  "pg_track_Search env q cursor limit = name_search env ct_tracks trk_Title trk_ID q cursor limit"

definition pg_ListAudioAssets :: "string \<Rightarrow> (catalog_tables pg, AudioAsset list) io" where
  "pg_ListAudioAssets i =
     pg_run (\<lambda>_ tb. (Inr (order_by (>) aud_BitrateKbps (filter (\<lambda>a. aud_TrackID a = i) (ct_assets tb))), tb))"

definition pg_artists :: "catalog_env \<Rightarrow> catalog_tables pg ArtistRepository" where
  "pg_artists env = \<lparr>arr_Create = pg_artist_Create, arr_GetByID = pg_artist_GetByID, arr_Search = pg_artist_Search env\<rparr>"

definition pg_albums :: "catalog_env \<Rightarrow> catalog_tables pg AlbumRepository" where
  "pg_albums env = \<lparr>alr_Create = pg_album_Create, alr_GetByID = pg_album_GetByID,
     alr_ListByArtist = pg_album_ListByArtist, alr_Search = pg_album_Search env\<rparr>"

definition pg_tracks :: "catalog_env \<Rightarrow> catalog_tables pg TrackRepository" where
  "pg_tracks env = \<lparr>trr_Create = pg_track_Create env, trr_GetByID = pg_track_GetByID env,
     trr_ListByAlbum = pg_track_ListByAlbum env, trr_Search = pg_track_Search env,
     trr_ListAudioAssets = pg_ListAudioAssets\<rparr>"

end
