(* ===== verification/Library_Postgres.thy ===== *)
theory Library_Postgres
  imports Library_Service Catalog_Postgres
begin

text \<open>
  \<^verbatim>\<open>backend/internal/library/postgres/repo.go\<close>: the SQL of playlists, their entries and saved tracks.
  These tables refer to the catalog's and are kept beside them; \<open>md_users\<close> are the identifiers of
  the table \<^verbatim>\<open>users\<close>. The encoding of a cursor is a parameter. Positions are \<^verbatim>\<open>NUMERIC\<close>, which holds
  every \<^verbatim>\<open>float64\<close> exactly.
\<close>

section \<open>Tables\<close>

record media_tables =
  md_users :: "string set"
  md_catalog :: catalog_tables
  md_playlists :: "Playlist list"
  md_entries :: "PlaylistTrack list"
  md_saved :: "LibraryTrack list"

text \<open>The catalog's statements on the common database.\<close>

definition catalog_pg :: "media_tables pg \<Rightarrow> catalog_tables pg" where
  "catalog_pg p = \<lparr>pg_tables = md_catalog (pg_tables p), pg_now = pg_now p, pg_script = pg_script p\<rparr>"

definition on_catalog :: "(catalog_tables pg \<Rightarrow> 'a \<times> catalog_tables pg) \<Rightarrow> media_tables pg \<Rightarrow> 'a \<times> media_tables pg" where
  "on_catalog = zoom catalog_pg
     (\<lambda>q p. \<lparr>pg_tables = (pg_tables p)\<lparr>md_catalog := pg_tables q\<rparr>, pg_now = pg_now q, pg_script = pg_script q\<rparr>)"

lemma on_catalog_part:
  "on_catalog m p = (x, p') \<Longrightarrow> \<exists>q'. m (catalog_pg p) = (x, q')
     \<and> pg_tables p' = (pg_tables p)\<lparr>md_catalog := pg_tables q'\<rparr>"
  by (auto simp: on_catalog_def zoom_def split: prod.splits)

lemma catalog_pg_tables [simp]: "pg_tables (catalog_pg p) = md_catalog (pg_tables p)"
  by (simp add: catalog_pg_def)

section \<open>Playlists\<close>

text \<open>\<^verbatim>\<open>CHECK (visibility IN ...)\<close> of the migration, the service's own visibilities.\<close>

definition visibility_check :: "string \<Rightarrow> bool" where
  "visibility_check v \<longleftrightarrow> v \<in> {''private'', ''unlisted'', ''public'', ''collaborative''}"

lemma visibility_check_valid [simp]: "visibility_check v = isValidVisibility v"
  by (auto simp: visibility_check_def isValidVisibility_def VisibilityPrivate_def VisibilityUnlisted_def
      VisibilityPublic_def VisibilityCollaborative_def)

definition insert_playlist :: "Playlist \<Rightarrow> media_tables \<Rightarrow> (err + unit) \<times> media_tables" where
  "insert_playlist p tb =
     (if \<not> visibility_check (ply_Visibility p) then (Inl (Foreign CheckViolation), tb)
      else if \<exists>q \<in> set (md_playlists tb). ply_ID q = ply_ID p then (Inl (Foreign UniqueViolation), tb)
      else if ply_OwnerID p \<notin> md_users tb then (Inl (Foreign ForeignKeyViolation), tb)
      else (Inr (), tb\<lparr>md_playlists := md_playlists tb @ [p\<lparr>ply_UpdatedAt := ply_CreatedAt p\<rparr>]\<rparr>))"

definition pg_playlist_Create :: "Playlist \<Rightarrow> (media_tables pg, unit) io" where
  "pg_playlist_Create p = pg_run (\<lambda>_. insert_playlist p)"

definition pg_playlist_GetByID :: "string \<Rightarrow> (media_tables pg, Playlist) io" where
  "pg_playlist_GetByID i =
     bindE (pg_run (\<lambda>_ tb. (Inr (List.find (\<lambda>p. ply_ID p = i) (md_playlists tb)), tb))) (\<lambda>r.
     case r of None \<Rightarrow> throw (Sentinel ErrPlaylistNotFound) | Some p \<Rightarrow> ret p)"

text \<open>\<^verbatim>\<open>created_at DESC, id\<close>, and \<^verbatim>\<open>added_at DESC, track_id DESC\<close>\<close>

definition newest_first :: "time \<times> string \<Rightarrow> time \<times> string \<Rightarrow> bool" where
  "newest_first = (\<lambda>(a, i) (b, j). a > b \<or> (a = b \<and> byte_lt i j))"

definition latest_down :: "time \<times> string \<Rightarrow> time \<times> string \<Rightarrow> bool" where
  "latest_down = (\<lambda>(a, i) (b, j). a > b \<or> (a = b \<and> byte_lt j i))"

definition pg_ListByOwner :: "string \<Rightarrow> (media_tables pg, Playlist list) io" where
  "pg_ListByOwner ownerID =
     pg_run (\<lambda>_ tb. (Inr (order_by newest_first (\<lambda>p. (ply_CreatedAt p, ply_ID p))
       (filter (\<lambda>p. ply_OwnerID p = ownerID) (md_playlists tb))), tb))"

section \<open>Entries\<close>

definition insert_entry :: "PlaylistTrack \<Rightarrow> media_tables \<Rightarrow> (err + unit) \<times> media_tables" where
  "insert_entry pt tb =
     (if \<exists>q \<in> set (md_entries tb). plt_ID q = plt_ID pt then (Inl (Foreign UniqueViolation), tb)
      else if plt_PlaylistID pt \<notin> ply_ID ` set (md_playlists tb)
           \<or> plt_TrackID pt \<notin> trk_ID ` set (ct_tracks (md_catalog tb))
           \<or> (plt_AddedBy pt \<noteq> '''' \<and> plt_AddedBy pt \<notin> md_users tb)
      then (Inl (Foreign ForeignKeyViolation), tb)
      else (Inr (), tb\<lparr>md_entries := md_entries tb @ [pt]\<rparr>))"

definition pg_entry_Add :: "PlaylistTrack \<Rightarrow> (media_tables pg, unit) io" where
  "pg_entry_Add pt = pg_run (\<lambda>_. insert_entry pt)"

definition delete_entries :: "string \<Rightarrow> string \<Rightarrow> media_tables \<Rightarrow> (err + nat) \<times> media_tables" where
  "delete_entries playlistID trackID tb =
     (let hit = (\<lambda>q. plt_PlaylistID q = playlistID \<and> plt_TrackID q = trackID)
      in (Inr (length (filter hit (md_entries tb))), tb\<lparr>md_entries := filter (Not \<circ> hit) (md_entries tb)\<rparr>))"

definition pg_entry_Remove :: "string \<Rightarrow> string \<Rightarrow> (media_tables pg, unit) io" where
  "pg_entry_Remove playlistID trackID =
     bindE (pg_run (\<lambda>_. delete_entries playlistID trackID)) (\<lambda>n.
     if n = 0 then throw (Sentinel ErrTrackNotInPlaylist) else ret ())"

definition entries_of :: "string \<Rightarrow> media_tables \<Rightarrow> PlaylistTrack list" where
  "entries_of playlistID tb =
     order_by (<) plt_Position (filter (\<lambda>q. plt_PlaylistID q = playlistID) (md_entries tb))"

definition pg_entry_List :: "string \<Rightarrow> (media_tables pg, PlaylistTrack list) io" where
  "pg_entry_List playlistID = pg_run (\<lambda>_ tb. (Inr (entries_of playlistID tb), tb))"

definition pg_MaxPosition :: "string \<Rightarrow> (media_tables pg, real option) io" where
  "pg_MaxPosition playlistID =
     pg_run (\<lambda>_ tb. (Inr (case map plt_Position (filter (\<lambda>q. plt_PlaylistID q = playlistID) (md_entries tb)) of
                            [] \<Rightarrow> None | p # ps \<Rightarrow> Some (foldl max p ps)), tb))"

section \<open>Saved tracks\<close>

definition insert_saved :: "LibraryTrack \<Rightarrow> media_tables \<Rightarrow> (err + unit) \<times> media_tables" where
  "insert_saved lt tb =
     (if \<exists>q \<in> set (md_saved tb). lit_UserID q = lit_UserID lt \<and> lit_TrackID q = lit_TrackID lt
      then (Inr (), tb)
      else if lit_UserID lt \<notin> md_users tb \<or> lit_TrackID lt \<notin> trk_ID ` set (ct_tracks (md_catalog tb))
      then (Inl (Foreign ForeignKeyViolation), tb)
      else (Inr (), tb\<lparr>md_saved := md_saved tb @ [lt]\<rparr>))"

definition pg_saved_Add :: "LibraryTrack \<Rightarrow> (media_tables pg, unit) io" where
  "pg_saved_Add lt = pg_run (\<lambda>_. insert_saved lt)"

definition pg_saved_Remove :: "string \<Rightarrow> string \<Rightarrow> (media_tables pg, unit) io" where
  "pg_saved_Remove userID trackID =
     pg_run (\<lambda>_ tb. (Inr (), tb\<lparr>md_saved :=
       filter (\<lambda>q. \<not> (lit_UserID q = userID \<and> lit_TrackID q = trackID)) (md_saved tb)\<rparr>))"

record cursor_codec =
  cc_encode :: "time \<times> string \<Rightarrow> string"
  cc_decode :: "string \<Rightarrow> (time \<times> string) option"

definition pg_saved_List ::
    "cursor_codec \<Rightarrow> string \<Rightarrow> string \<Rightarrow> int \<Rightarrow> (media_tables pg, LibraryTrack list \<times> string) io" where
  "pg_saved_List cc userID cursor limit =
     (case (if cursor = '''' then Some None else map_option Some (cc_decode cc cursor)) of
        None \<Rightarrow> throw (Wrapped ''library: invalid cursor'' (Foreign ''decode''))
      | Some c \<Rightarrow>
          pg_run (\<lambda>_ tb.
            (Inr (case keyset_page latest_down (\<lambda>q. (lit_AddedAt q, lit_TrackID q)) (nat limit) c
                         (filter (\<lambda>q. lit_UserID q = userID) (md_saved tb)) of
                    (items, None) \<Rightarrow> (items, '''')
                  | (items, Some k) \<Rightarrow> (items, cc_encode cc k)), tb)))"

definition pg_playlists :: "media_tables pg PlaylistRepository" where
  "pg_playlists = \<lparr>plr_Create = pg_playlist_Create, plr_GetByID = pg_playlist_GetByID,
     plr_ListByOwner = pg_ListByOwner\<rparr>"

definition pg_entries :: "media_tables pg PlaylistTrackRepository" where
  "pg_entries = \<lparr>ptr_Add = pg_entry_Add, ptr_Remove = pg_entry_Remove, ptr_List = pg_entry_List,
     ptr_MaxPosition = pg_MaxPosition\<rparr>"

definition pg_saved :: "cursor_codec \<Rightarrow> media_tables pg LibraryTrackRepository" where
  "pg_saved cc = \<lparr>ltr_Add = pg_saved_Add, ltr_Remove = pg_saved_Remove, ltr_List = pg_saved_List cc\<rparr>"

end
