(* ===== verification/Library_Laws.thy ===== *)
theory Library_Laws
  imports Library_Service Paging
begin

text \<open>
  What the library service promises, over repositories that keep the contracts \<open>playlist_store\<close> and
  \<open>saved_store\<close> and a track checker that tells the truth.
\<close>

section \<open>The track checker\<close>

text \<open>
  What library and playback rely on: the answer is whether the track is in the catalog, and asking
  changes nothing.
\<close>

locale track_checker =
  fixes exists :: "string \<Rightarrow> ('w, bool) io"
    and known :: "'w \<Rightarrow> string set"
  assumes exists_answer: "exists t w = (Inr b, w') \<Longrightarrow> b \<longleftrightarrow> t \<in> known w"
    and exists_keeps: "keeps known (exists t)"

section \<open>Playlists\<close>

definition rows_of :: "string \<Rightarrow> PlaylistTrack list \<Rightarrow> PlaylistTrack list" where
  "rows_of p es = order_by (<) plt_Position (filter (\<lambda>e. plt_PlaylistID e = p) es)"

lemma rows_of_Nil: "rows_of p es = [] \<longleftrightarrow> (\<forall>e \<in> set es. plt_PlaylistID e \<noteq> p)"
proof -
  have "rows_of p es = [] \<longleftrightarrow> set (rows_of p es) = {}" by simp
  then show ?thesis by (auto simp: rows_of_def)
qed

definition without :: "string \<Rightarrow> string \<Rightarrow> PlaylistTrack list \<Rightarrow> PlaylistTrack list" where
  "without p t es = filter (\<lambda>e. \<not> (plt_PlaylistID e = p \<and> plt_TrackID e = t)) es"

locale playlist_store =
  fixes pls :: "'w PlaylistRepository" and ents :: "'w PlaylistTrackRepository"
    and lists :: "'w \<Rightarrow> Playlist list" and entries :: "'w \<Rightarrow> PlaylistTrack list"
  assumes GetByID_row: "plr_GetByID pls i w = (Inr pl, w') \<Longrightarrow> pl \<in> set (lists w) \<and> ply_ID pl = i"
    and reads_keep: "keeps lists (plr_GetByID pls i)" "keeps entries (plr_GetByID pls i)"
      "keeps lists (ptr_List ents p)" "keeps entries (ptr_List ents p)"
      "keeps lists (ptr_MaxPosition ents p)" "keeps entries (ptr_MaxPosition ents p)"
    and writes_keep: "keeps lists (ptr_Add ents e)" "keeps lists (ptr_Remove ents p t)"
    and List_rows: "ptr_List ents p w = (Inr xs, w') \<Longrightarrow> xs = rows_of p (entries w)"
    and Max_row: "ptr_MaxPosition ents p w = (Inr m, w') \<Longrightarrow>
      (case m of None \<Rightarrow> rows_of p (entries w) = []
       | Some x \<Rightarrow> \<forall>e \<in> set (entries w). plt_PlaylistID e = p \<longrightarrow> plt_Position e \<le> x)"
    and Max_in: "ptr_MaxPosition ents p w = (Inr (Some x), w') \<Longrightarrow> x \<in> plt_Position ` set (rows_of p (entries w))"
    and Add_done: "ptr_Add ents e w = (Inr (), w') \<Longrightarrow> entries w' = entries w @ [e]"
    and Add_failed: "ptr_Add ents e w = (Inl er, w') \<Longrightarrow> entries w' = entries w \<or> entries w' = entries w @ [e]"
    and Remove_done: "ptr_Remove ents p t w = (Inr (), w') \<Longrightarrow> entries w' = without p t (entries w)"
    and Remove_failed: "ptr_Remove ents p t w = (Inl er, w') \<Longrightarrow>
      entries w' = entries w \<or> entries w' = without p t (entries w)"

locale playlist_service =
  playlist_store "ls_playlists s" "ls_playlistTracks s" lists entries
  + track_checker "lck_TrackExists (ls_tracks s)" known
  for s :: "'w LibraryService" and lists :: "'w \<Rightarrow> Playlist list" and entries :: "'w \<Rightarrow> PlaylistTrack list"
    and known :: "'w \<Rightarrow> string set" +
  assumes others_keep: "keeps lists (Now (ls_clock s))" "keeps entries (Now (ls_clock s))"
      "keeps lists (NewID (ls_ids s))" "keeps entries (NewID (ls_ids s))"
      "keeps lists (lck_TrackExists (ls_tracks s) t)" "keeps entries (lck_TrackExists (ls_tracks s) t)"
    and known_keeps: "keeps known (plr_GetByID (ls_playlists s) i)"

definition owns :: "string \<Rightarrow> string \<Rightarrow> Playlist list \<Rightarrow> bool" where
  "owns u p ls \<longleftrightarrow> (\<exists>l \<in> set ls. ply_ID l = p \<and> ply_OwnerID l = u)"

text \<open>Where a track is put: before the first row, or after the last one.\<close>

definition place :: "string \<Rightarrow> PlaylistTrack list \<Rightarrow> real \<Rightarrow> bool" where
  "place position rows x \<longleftrightarrow>
     (if rows = [] then x = positionGap
      else if position = PositionStart then x = f64_half (plt_Position (hd rows))
      else \<exists>y \<in> plt_Position ` set rows. (\<forall>e \<in> set rows. plt_Position e \<le> y) \<and> x = f64_add y positionGap)"

context playlist_service
begin

lemma getPlaylist_keeps: "keeps lists (getPlaylist s i)" "keeps entries (getPlaylist s i)" "keeps known (getPlaylist s i)"
  unfolding getPlaylist_def by (intro keeps_intros reads_keep known_keeps)+

lemma getOwnedPlaylist_keeps: "keeps lists (getOwnedPlaylist s i u)" "keeps entries (getOwnedPlaylist s i u)"
  "keeps known (getOwnedPlaylist s i u)"
  unfolding getOwnedPlaylist_def by (intro keeps_intros getPlaylist_keeps)+

lemma getPlaylist_done:
  assumes "getPlaylist s i w = (Inr p, w')"
  shows "p \<in> set (lists w) \<and> ply_ID p = i"
  using assms GetByID_row by (auto simp: getPlaylist_def split: sum.splits if_splits)

lemma getOwnedPlaylist_done:
  assumes "getOwnedPlaylist s i u w = (Inr p, w')"
  shows "owns u i (lists w)"
proof -
  from assms have "getPlaylist s i w = (Inr p, w')" and "ply_OwnerID p = u"
    by (auto simp: getOwnedPlaylist_def split: if_splits)
  with getPlaylist_done [of i w p w'] show ?thesis by (auto simp: owns_def)
qed

lemma computePosition_keeps: "keeps lists (computePosition s p position)" "keeps entries (computePosition s p position)"
  unfolding computePosition_def
  by (intro keeps_intros reads_keep; auto intro!: keeps_intros split: list.split option.split)+

lemma computePosition_place:
  assumes "computePosition s p position w = (Inr x, w')"
  shows "place position (rows_of p (entries w)) x"
proof (cases "position = PositionStart")
  case True
  with assms show ?thesis
    by (auto simp: computePosition_def place_def dest!: List_rows split: list.splits)
next
  case False
  with assms obtain m where m: "ptr_MaxPosition (ls_playlistTracks s) p w = (Inr m, w')"
    and x: "x = (case m of None \<Rightarrow> positionGap | Some y \<Rightarrow> f64_add y positionGap)"
    by (auto simp: computePosition_def split: option.splits)
  show ?thesis
  proof (cases m)
    case None
    then show ?thesis using Max_row [OF m] x by (simp add: place_def)
  next
    case (Some y)
    then show ?thesis
      using Max_row [OF m] Max_in [of p w y w'] m x False
      by (auto simp: place_def rows_of_Nil) (auto simp: rows_of_def)
  qed
qed

text \<open>A request to add a track: refused, or one entry of the user's own playlist at the right place.\<close>

lemma AddTrack_effect:
  assumes "AddTrack s p u t position w = (r, w')"
  shows "lists w' = lists w
    \<and> ((entries w' = entries w \<and> (\<exists>e. r = Inl e))
       \<or> (owns u p (lists w) \<and> t \<in> known w \<and> (\<exists>pt. entries w' = entries w @ [pt] \<and> plt_PlaylistID pt = p
            \<and> plt_TrackID pt = t \<and> plt_AddedBy pt = u \<and> place position (rows_of p (entries w)) (plt_Position pt)
            \<and> (\<forall>x. r = Inr x \<longrightarrow> x = pt))))"
proof (cases "t = ''''")
  case True
  with assms show ?thesis by (auto simp: AddTrack_def)
next
  case False
  note k = getOwnedPlaylist_keeps computePosition_keeps others_keep writes_keep
  have run: "bindE (getOwnedPlaylist s p u) (\<lambda>_.
      bindE (wrapE ''library: check track exists'' (lck_TrackExists (ls_tracks s) t)) (\<lambda>exists.
      if \<not> exists then throw (Sentinel LibraryErrTrackNotFound)
      else bindE (computePosition s p position) (\<lambda>pos. bindE (call (NewID (ls_ids s))) (\<lambda>i.
        bindE (call (Now (ls_clock s))) (\<lambda>now.
        bindE (wrapE ''library: add track'' (ptr_Add (ls_playlistTracks s)
           \<lparr>plt_ID = i, plt_PlaylistID = p, plt_TrackID = t, plt_Position = pos, plt_AddedBy = u, plt_AddedAt = now\<rparr>))
         (\<lambda>_. ret \<lparr>plt_ID = i, plt_PlaylistID = p, plt_TrackID = t, plt_Position = pos, plt_AddedBy = u, plt_AddedAt = now\<rparr>)))))) w
      = (r, w')"
    using assms False unfolding AddTrack_def Let_def by (simp del: ret_apply throw_apply)
  have "keeps lists (AddTrack s p u t position)"
    unfolding AddTrack_def Let_def by (intro keeps_intros k)
  from keepsD [OF this assms] have lists: "lists w' = lists w" .
  have "(entries w' = entries w \<and> (\<exists>e. r = Inl e)) \<or> (\<exists>pt w1. owns u p (lists w) \<and> t \<in> known w
      \<and> plt_PlaylistID pt = p \<and> plt_TrackID pt = t \<and> plt_AddedBy pt = u
      \<and> place position (rows_of p (entries w)) (plt_Position pt) \<and> entries w1 = entries w
      \<and> bindE (wrapE ''library: add track'' (ptr_Add (ls_playlistTracks s) pt)) (\<lambda>_. ret pt) w1 = (r, w'))"
    using run
  proof (cases rule: bindE_E)
    case (failed e)
    then show ?thesis using keepsD [OF k(2)] by blast
  next
    case (answered pl w1)
    note own = getOwnedPlaylist_done [OF answered(1)] and e1 = keepsD [OF k(2) answered(1)]
      and kn = keepsD [OF k(3) answered(1)]
    show ?thesis using answered(2)
    proof (cases rule: bindE_E)
      case (failed e)
      then show ?thesis using e1 keepsD [OF keeps_wrapE [OF others_keep(6)]] by metis
    next
      case (answered ex w2)
      then have chk: "lck_TrackExists (ls_tracks s) t w1 = (Inr ex, w2)" by auto
      note e2 = keepsD [OF others_keep(6) chk] and ok = exists_answer [OF chk]
      show ?thesis
      proof (cases ex)
        case False
        then show ?thesis using answered(2) e1 e2 by auto
      next
        case True
        then have rest: "bindE (computePosition s p position) (\<lambda>pos. bindE (call (NewID (ls_ids s))) (\<lambda>i.
            bindE (call (Now (ls_clock s))) (\<lambda>now.
            bindE (wrapE ''library: add track'' (ptr_Add (ls_playlistTracks s)
               \<lparr>plt_ID = i, plt_PlaylistID = p, plt_TrackID = t, plt_Position = pos, plt_AddedBy = u, plt_AddedAt = now\<rparr>))
             (\<lambda>_. ret \<lparr>plt_ID = i, plt_PlaylistID = p, plt_TrackID = t, plt_Position = pos, plt_AddedBy = u, plt_AddedAt = now\<rparr>)))) w2
            = (r, w')"
          using answered(2) by simp
        show ?thesis using rest
        proof (cases rule: bindE_E)
          case (failed e)
          then show ?thesis using e1 e2 keepsD [OF computePosition_keeps(2)] by metis
        next
          case (answered pos w3)
          note e3 = keepsD [OF computePosition_keeps(2) answered(1)] and pl = computePosition_place [OF answered(1)]
          obtain i w4 where i: "NewID (ls_ids s) w3 = (i, w4)" by fastforce
          obtain now w5 where now: "Now (ls_clock s) w4 = (now, w5)" by fastforce
          let ?pt = "\<lparr>plt_ID = i, plt_PlaylistID = p, plt_TrackID = t, plt_Position = pos, plt_AddedBy = u, plt_AddedAt = now\<rparr>"
          have "bindE (wrapE ''library: add track'' (ptr_Add (ls_playlistTracks s) ?pt)) (\<lambda>_. ret ?pt) w5 = (r, w')"
            using answered(2) i now by (simp add: bindE_Inr call_def)
          moreover have "entries w5 = entries w"
            using e1 e2 e3 keepsD [OF others_keep(4) i] keepsD [OF others_keep(2) now] by simp
          ultimately show ?thesis
            using own ok True kn pl e1 e2 by (intro disjI2 exI [of _ ?pt] exI [of _ w5]) simp
        qed
      qed
    qed
  qed
  then show ?thesis
  proof (elim disjE exE conjE)
    fix pt w1
    assume own: "owns u p (lists w)" "t \<in> known w" and pt: "plt_PlaylistID pt = p" "plt_TrackID pt = t" "plt_AddedBy pt = u"
      "place position (rows_of p (entries w)) (plt_Position pt)" and same: "entries w1 = entries w"
      and add: "bindE (wrapE ''library: add track'' (ptr_Add (ls_playlistTracks s) pt)) (\<lambda>_. ret pt) w1 = (r, w')"
    from add show ?thesis
    proof (cases rule: bindE_E)
      case (failed e)
      then obtain e' where "ptr_Add (ls_playlistTracks s) pt w1 = (Inl e', w')" by (auto elim: wrapE_InlE)
      from Add_failed [OF this] show ?thesis using lists own pt same failed(2) by auto
    next
      case (answered x w2)
      then have "ptr_Add (ls_playlistTracks s) pt w1 = (Inr (), w')" "r = Inr pt" by auto
      from Add_done [OF this(1)] this(2) show ?thesis using lists own pt same by auto
    qed
  qed (use lists in blast)
qed

lemma RemoveTrack_effect:
  assumes "RemoveTrack s p u t w = (r, w')"
  shows "lists w' = lists w
    \<and> ((entries w' = entries w \<and> (\<exists>e. r = Inl e)) \<or> (owns u p (lists w) \<and> entries w' = without p t (entries w)))"
proof (cases "t = ''''")
  case True
  with assms show ?thesis by (auto simp: RemoveTrack_def)
next
  case False
  have "keeps lists (RemoveTrack s p u t)"
    unfolding RemoveTrack_def by (intro keeps_intros getOwnedPlaylist_keeps writes_keep)
  from keepsD [OF this assms] have lists: "lists w' = lists w" .
  have "bindE (getOwnedPlaylist s p u) (\<lambda>_. bindE (attempt (ptr_Remove (ls_playlistTracks s) p t)) (\<lambda>r. case r of
      Inl e \<Rightarrow> if errors_Is e ErrTrackNotInPlaylist then throw (Sentinel ErrTrackNotInPlaylist)
               else throw (Wrapped ''library: remove track'' e)
    | Inr _ \<Rightarrow> ret ())) w = (r, w')"
    using assms False unfolding RemoveTrack_def by (simp only: if_False)
  then show ?thesis
  proof (cases rule: bindE_E)
    case (failed e)
    then show ?thesis using lists keepsD [OF getOwnedPlaylist_keeps(2)] by blast
  next
    case (answered pl w1)
    note own = getOwnedPlaylist_done [OF answered(1)] and e1 = keepsD [OF getOwnedPlaylist_keeps(2) answered(1)]
    obtain x w2 where rm: "ptr_Remove (ls_playlistTracks s) p t w1 = (x, w2)" by fastforce
    with answered(2) have "w' = w2" and "r = Inr () \<longleftrightarrow> x = Inr ()"
      by (auto simp: bindE_def attempt_def split: sum.splits if_splits)
    then show ?thesis
      using lists own e1 rm Remove_done Remove_failed by (cases x; cases r) (fastforce, fastforce, fastforce, fastforce)
  qed
qed

lemma ListPlaylistTracks_done:
  assumes "ListPlaylistTracks s p u w = (Inr (pl, xs), w')"
  shows "pl \<in> set (lists w) \<and> ply_ID pl = p \<and> (ply_Visibility pl = VisibilityPrivate \<longrightarrow> ply_OwnerID pl = u)
    \<and> xs = rows_of p (entries w) \<and> entries w' = entries w \<and> lists w' = lists w"
proof -
  from assms obtain w1 where pl: "getPlaylist s p w = (Inr pl, w1)"
    and vis: "ply_Visibility pl = VisibilityPrivate \<longrightarrow> ply_OwnerID pl = u"
    and ls: "ptr_List (ls_playlistTracks s) p w1 = (Inr xs, w')"
    by (auto simp: ListPlaylistTracks_def split: if_splits)
  show ?thesis
    using getPlaylist_done [OF pl] vis List_rows [OF ls] keepsD [OF getPlaylist_keeps(1) pl]
      keepsD [OF getPlaylist_keeps(2) pl] keepsD [OF reads_keep(3) ls] keepsD [OF reads_keep(4) ls] by simp
qed

end

section \<open>Where a track ends up\<close>

lemma filter_rows: "filter (\<lambda>e. plt_PlaylistID e = p) (es @ [e]) = filter (\<lambda>e. plt_PlaylistID e = p) es @ (if plt_PlaylistID e = p then [e] else [])"
  by simp

lemma set_rows_of [simp]: "set (rows_of p es) = {e \<in> set es. plt_PlaylistID e = p}"
  by (auto simp: rows_of_def)

text \<open>
  \<^verbatim>\<open>ORDER BY position\<close> leaves open in which order entries of one position come: any list of the
  entries that is sorted by position is a listing, \<open>rows_of\<close> the one in the order of storage.
\<close>

definition listed :: "string \<Rightarrow> PlaylistTrack list \<Rightarrow> PlaylistTrack list \<Rightarrow> bool" where
  "listed p es l \<longleftrightarrow> mset l = mset (filter (\<lambda>e. plt_PlaylistID e = p) es) \<and> sorted (map plt_Position l)"

lemma rows_of_listed: "listed p es (rows_of p es)"
proof -
  have "sorted (map plt_Position (rows_of p es))" "mset (rows_of p es) = mset (filter (\<lambda>e. plt_PlaylistID e = p) es)"
    unfolding rows_of_def by (rule sorted_order_by, rule mset_order_by)
  then show ?thesis by (simp add: listed_def)
qed

lemma place_first:
  assumes "place PositionStart (rows_of p es) x" and "\<forall>y \<in> set (rows_of p es). 2 powr -1074 \<le> plt_Position y"
  shows "\<forall>y \<in> set (rows_of p es). x < plt_Position y"
proof (cases "rows_of p es")
  case Nil
  then show ?thesis by simp
next
  case (Cons z zs)
  then have "x = f64_half (plt_Position z)" using assms(1) by (simp add: place_def)
  moreover have "f64_half (plt_Position z) < plt_Position z" using assms(2) Cons by (intro f64_half_less) simp
  moreover have "\<forall>y \<in> set (rows_of p es). plt_Position z \<le> plt_Position y"
    using rows_of_listed [of p es] Cons by (auto simp: listed_def)
  ultimately show ?thesis by force
qed

lemma place_last:
  assumes "place position (rows_of p es) x" and "position \<noteq> PositionStart"
    and "\<forall>y \<in> set (rows_of p es). 0 \<le> plt_Position y \<and> plt_Position y \<le> 2 ^ 61"
  shows "\<forall>y \<in> set (rows_of p es). plt_Position y < x"
proof (cases "rows_of p es = []")
  case False
  then obtain y where y: "y \<in> plt_Position ` set (rows_of p es)" "\<forall>z \<in> set (rows_of p es). plt_Position z \<le> y"
    "x = f64_add y 1024"
    using assms(1,2) by (auto simp: place_def positionGap_def)
  then have "y < x" using assms(3) f64_add_greater [of y] by auto
  with y(2) show ?thesis by force
qed simp

text \<open>A new entry before, or behind, all others is the first, or the last, of every listing.\<close>

lemma listed_first:
  assumes "listed p (es @ [e]) l" and "plt_PlaylistID e = p" and "\<forall>y \<in> set (rows_of p es). plt_Position e < plt_Position y"
  shows "\<exists>l0. listed p es l0 \<and> l = e # l0"
proof -
  from assms(1,2) have l: "mset l = mset (filter (\<lambda>y. plt_PlaylistID y = p) es) + {#e#}" "sorted (map plt_Position l)"
    by (simp_all add: listed_def)
  then obtain z l0 where z: "l = z # l0" by (cases l) auto
  have members: "set l = insert e (set (rows_of p es))" using arg_cong [OF l(1), of set_mset] by simp
  have "z = e"
  proof (rule ccontr)
    assume "z \<noteq> e"
    have "e \<in> set l" using members by simp
    moreover have "z \<in> set l" using z by simp
    ultimately have "e \<in> set l" and "z \<in> insert e (set (rows_of p es))" unfolding members .
    with z \<open>z \<noteq> e\<close> members l(2) have "plt_Position z \<le> plt_Position e" and "z \<in> set (rows_of p es)" by auto
    with assms(3) show False by force
  qed
  with z l show ?thesis by (simp add: listed_def)
qed

lemma listed_last:
  assumes "listed p (es @ [e]) l" and "plt_PlaylistID e = p" and "\<forall>y \<in> set (rows_of p es). plt_Position y < plt_Position e"
  shows "\<exists>l0. listed p es l0 \<and> l = l0 @ [e]"
proof -
  from assms(1,2) have l: "mset l = mset (filter (\<lambda>y. plt_PlaylistID y = p) es) + {#e#}" "sorted (map plt_Position l)"
    by (simp_all add: listed_def)
  then obtain z l0 where z: "l = l0 @ [z]" by (cases l rule: rev_cases) auto
  have members: "set l = insert e (set (rows_of p es))" using arg_cong [OF l(1), of set_mset] by simp
  have "z = e"
  proof (rule ccontr)
    assume "z \<noteq> e"
    have "e \<in> set l" using members by simp
    moreover have "z \<in> set l" using z by simp
    ultimately have "e \<in> set l" and "z \<in> insert e (set (rows_of p es))" unfolding members .
    with z \<open>z \<noteq> e\<close> members l(2) have "plt_Position e \<le> plt_Position z" and "z \<in> set (rows_of p es)"
      by (auto simp: sorted_append)
    with assms(3) show False by force
  qed
  with z l show ?thesis by (simp add: listed_def sorted_append)
qed

lemma listed_without:
  assumes "listed p (without p t es) l"
  shows "\<exists>l0. listed p es l0 \<and> l = filter (\<lambda>e. plt_TrackID e \<noteq> t) l0"
proof -
  let ?fs = "filter (\<lambda>e. plt_PlaylistID e = p) es"
  let ?l0 = "sort_key plt_Position (l @ filter (\<lambda>e. plt_TrackID e = t) ?fs)"
  have kept: "filter (\<lambda>e. plt_PlaylistID e = p) (without p t es) = filter (\<lambda>e. plt_TrackID e \<noteq> t) ?fs"
    by (auto simp: without_def intro!: filter_cong)
  have l: "mset l = mset (filter (\<lambda>e. plt_TrackID e \<noteq> t) ?fs)" "sorted (map plt_Position l)"
    using assms unfolding listed_def kept by simp_all
  have "set l = set (filter (\<lambda>e. plt_TrackID e \<noteq> t) ?fs)" using arg_cong [OF l(1), of set_mset] by (simp only: set_mset_mset)
  then have "\<forall>e \<in> set l. plt_TrackID e \<noteq> t" by simp
  then have "filter (\<lambda>e. plt_TrackID e \<noteq> t) ?l0 = l"
    using l(2) by (simp add: filter_sort sort_key_id_if_sorted)
  moreover have "mset (filter (\<lambda>e. plt_TrackID e \<noteq> t) xs) + mset (filter (\<lambda>e. plt_TrackID e = t) xs) = mset xs" for xs
    by (induction xs) auto
  then have "mset (l @ filter (\<lambda>e. plt_TrackID e = t) ?fs) = mset ?fs" by (simp only: mset_append l(1))
  then have "listed p es ?l0" by (simp only: listed_def mset_sort sorted_sort_key simp_thms)
  ultimately show ?thesis by metis
qed

lemma rows_of_other: "plt_PlaylistID e \<noteq> p \<Longrightarrow> rows_of p (es @ [e]) = rows_of p es"
  by (simp add: rows_of_def)

lemma rows_of_without:
  "rows_of p (without q t es) = (if p = q then filter (\<lambda>e. plt_TrackID e \<noteq> t) (rows_of p es) else rows_of p es)"
  by (auto simp: rows_of_def without_def filter_order_by_number intro!: arg_cong [where f = "order_by (<) plt_Position"]
      filter_cong)

section \<open>Always at the start\<close>

text \<open>A client that adds track after track at the start of a playlist, and nobody else writes to it.\<close>

inductive prepends :: "'w LibraryService \<Rightarrow> string \<Rightarrow> string \<Rightarrow> 'w \<Rightarrow> nat \<Rightarrow> 'w \<Rightarrow> bool"
  for s p u w0 where
  none: "prepends s p u w0 0 w0"
| one: "prepends s p u w0 n w \<Longrightarrow> AddTrack s p u t PositionStart w = (Inr pt, w') \<Longrightarrow> prepends s p u w0 (Suc n) w'"

text \<open>The positions halve until the smallest \<^verbatim>\<open>float64\<close>, and from then on they are all zero.\<close>

lemma halvings: "(f64_half ^^ i) 1024 = (if i \<le> 1084 then 2 powr (10 - real i) else 0)"
proof (induction i)
  case 0
  show ?case by (simp add: powr_numeral)
next
  case (Suc i)
  have half: "2 powr (10 - real i) / 2 = 2 powr (of_int (9 - int i))"
    by (simp add: powr_diff powr_add [symmetric])
  have step: "(f64_half ^^ Suc i) 1024 = f64 ((f64_half ^^ i) 1024 / 2)" by (simp add: f64_half_def)
  consider "i < 1084" | "i = 1084" | "1084 < i" by linarith
  then show ?case
  proof cases
    case 1
    then show ?thesis unfolding step Suc using f64_power [of "9 - int i"] half by simp
  next
    case 2
    then show ?thesis unfolding step Suc using f64_underflow half by simp
  next
    case 3
    then show ?thesis unfolding step Suc by simp
  qed
qed

lemma halvings_antimono: "i \<le> j \<Longrightarrow> (f64_half ^^ j) 1024 \<le> (f64_half ^^ i) 1024"
  by (auto simp: halvings)

context playlist_service
begin

lemma prepends_positions:
  assumes "prepends s p u w0 n w" and "rows_of p (entries w0) = []"
  shows "map plt_Position (filter (\<lambda>e. plt_PlaylistID e = p) (entries w)) = map (\<lambda>i. (f64_half ^^ i) 1024) [0..<n]"
  using assms
proof (induction rule: prepends.induct)
  case none
  then show ?case by (auto simp: rows_of_Nil filter_empty_conv)
next
  case (one n w t pt w')
  let ?fs = "filter (\<lambda>e. plt_PlaylistID e = p) (entries w)"
  note pos = one.IH [OF one.prems]
  from AddTrack_effect [OF one.hyps(2)] have w': "entries w' = entries w @ [pt]" and p: "plt_PlaylistID pt = p"
    and place: "place PositionStart (rows_of p (entries w)) (plt_Position pt)" by auto
  have len: "length ?fs = n" using arg_cong [OF pos, of length] by simp
  have "plt_Position pt = (f64_half ^^ n) 1024"
  proof (cases "rows_of p (entries w)")
    case Nil
    then have "?fs = []" by (auto simp: rows_of_Nil filter_empty_conv)
    then show ?thesis using place Nil len by (simp add: place_def positionGap_def)
  next
    case (Cons z zs)
    then have z: "z \<in> set ?fs" "\<forall>y \<in> set ?fs. plt_Position z \<le> plt_Position y"
      using hd_order_by unfolding rows_of_def by metis+
    have n: "n \<noteq> 0" using z(1) len by (auto simp: filter_empty_conv)
    have "plt_Position z \<in> (\<lambda>i. (f64_half ^^ i) 1024) ` {0..<n}"
      using z(1) arg_cong [OF pos, of set] by auto
    then have "(f64_half ^^ (n - 1)) 1024 \<le> plt_Position z" using halvings_antimono n by fastforce
    moreover have "(f64_half ^^ (n - 1)) 1024 \<in> plt_Position ` set ?fs"
      using arg_cong [OF pos, of set] n by auto
    ultimately have "plt_Position z = (f64_half ^^ (n - 1)) 1024" using z(2) by force
    then have "plt_Position pt = f64_half ((f64_half ^^ (n - 1)) 1024)" using place Cons by (simp add: place_def)
    then show ?thesis using n by (cases n) auto
  qed
  then show ?case using w' p pos by simp
qed

end

section \<open>Saved tracks\<close>

definition save_row :: "LibraryTrack \<Rightarrow> LibraryTrack list \<Rightarrow> LibraryTrack list" where
  "save_row lt xs = (if \<exists>q \<in> set xs. lit_UserID q = lit_UserID lt \<and> lit_TrackID q = lit_TrackID lt then xs else xs @ [lt])"

definition unsave_row :: "string \<Rightarrow> string \<Rightarrow> LibraryTrack list \<Rightarrow> LibraryTrack list" where
  "unsave_row u t xs = filter (\<lambda>q. \<not> (lit_UserID q = u \<and> lit_TrackID q = t)) xs"

abbreviation saved_key :: "LibraryTrack \<Rightarrow> time \<times> string" where
  "saved_key \<equiv> \<lambda>q. (lit_AddedAt q, lit_TrackID q)"

text \<open>No user has a track saved twice.\<close>

definition saved_wf :: "LibraryTrack list \<Rightarrow> bool" where
  "saved_wf xs \<longleftrightarrow> distinct (map (\<lambda>q. (lit_UserID q, lit_TrackID q)) xs)"

lemma saved_wf_save: "saved_wf xs \<Longrightarrow> saved_wf (save_row lt xs)"
  by (auto simp: saved_wf_def save_row_def)

lemma saved_wf_unsave: "saved_wf xs \<Longrightarrow> saved_wf (unsave_row u t xs)"
  by (simp add: saved_wf_def unsave_row_def distinct_map_filter)

lemma saved_wf_keys:
  assumes "saved_wf xs"
  shows "distinct (map saved_key (filter (\<lambda>q. lit_UserID q = u) xs))"
  using assms
proof (induction xs)
  case (Cons x xs)
  then show ?case by (auto simp: saved_wf_def image_iff)
qed (simp add: saved_wf_def)

lemma saved_once:
  assumes "saved_wf xs"
  shows "length (filter (\<lambda>q. lit_TrackID q = t) (filter (\<lambda>q. lit_UserID q = u) xs))
    = (if \<exists>q \<in> set xs. lit_UserID q = u \<and> lit_TrackID q = t then 1 else 0)"
  using assms
proof (induction xs)
  case (Cons x xs)
  then show ?case by (auto simp: saved_wf_def image_iff filter_empty_conv)
qed simp

definition saved_page_size :: "int \<Rightarrow> nat" where
  "saved_page_size limit = nat (min (if limit \<le> 0 then defaultSavedTracksLimit else limit) maxSavedTracksLimit)"

locale saved_store = strict_order before
  for before :: "time \<times> string \<Rightarrow> time \<times> string \<Rightarrow> bool" +
  fixes svd :: "'w LibraryTrackRepository" and saved :: "'w \<Rightarrow> LibraryTrack list" and enc :: "time \<times> string \<Rightarrow> string"
  assumes Save_done: "ltr_Add svd x w = (Inr (), w') \<Longrightarrow> saved w' = save_row x (saved w)"
    and Save_failed: "ltr_Add svd x w = (Inl e, w') \<Longrightarrow> saved w' = saved w \<or> saved w' = save_row x (saved w)"
    and Unsave_done: "ltr_Remove svd u t w = (Inr (), w') \<Longrightarrow> saved w' = unsave_row u t (saved w)"
    and Unsave_failed: "ltr_Remove svd u t w = (Inl e, w') \<Longrightarrow> saved w' = saved w \<or> saved w' = unsave_row u t (saved w)"
    and List_page: "0 < l \<Longrightarrow> ltr_List svd u (cursor_text enc c) l w = (Inr (xs, n), w') \<Longrightarrow>
      (xs, n) = map_prod id (cursor_text enc)
        (keyset_page before saved_key (nat l) c (filter (\<lambda>q. lit_UserID q = u) (saved w)))"
    and List_keeps: "keeps saved (ltr_List svd u k l)"
    and enc_nonempty: "enc k2 \<noteq> ''''"

locale saved_service =
  saved_store before "ls_libraryTracks s" saved enc
  + track_checker "lck_TrackExists (ls_tracks s)" known
  for before and s :: "'w LibraryService" and saved :: "'w \<Rightarrow> LibraryTrack list" and enc
    and known :: "'w \<Rightarrow> string set" +
  assumes clock_saves: "keeps saved (Now (ls_clock s))"
    and tracks_saves: "keeps saved (lck_TrackExists (ls_tracks s) t)"
begin

lemma SaveTrack_done:
  assumes "SaveTrack s u t w = (Inr (), w')"
  shows "t \<in> known w \<and> (\<exists>now. saved w' = save_row \<lparr>lit_UserID = u, lit_TrackID = t, lit_AddedAt = now\<rparr> (saved w))"
proof -
  from assms obtain b w1 now w2 where chk: "lck_TrackExists (ls_tracks s) t w = (Inr b, w1)" and b
    and clk: "Now (ls_clock s) w1 = (now, w2)"
    and add: "ltr_Add (ls_libraryTracks s) \<lparr>lit_UserID = u, lit_TrackID = t, lit_AddedAt = now\<rparr> w2 = (Inr (), w')"
    by (auto simp: SaveTrack_def split: if_splits)
  show ?thesis
    using exists_answer [OF chk] \<open>b\<close> Save_done [OF add] keepsD [OF tracks_saves chk] keepsD [OF clock_saves clk] by auto
qed

lemma UnsaveTrack_done:
  assumes "UnsaveTrack s u t w = (Inr (), w')"
  shows "saved w' = unsave_row u t (saved w)"
  using assms Unsave_done by (auto simp: UnsaveTrack_def split: if_splits)

lemma saved_paged:
  assumes "u \<noteq> ''''"
  shows "paged before saved_key enc (saved_page_size limit) (\<lambda>w. filter (\<lambda>q. lit_UserID q = u) (saved w))
    (\<lambda>c. ListSavedTracks s u c limit)"
proof unfold_locales
  fix c w items w' tx k nx
  let ?l = "min (if limit \<le> 0 then defaultSavedTracksLimit else limit) maxSavedTracksLimit"
  have l: "0 < ?l" by (auto simp: defaultSavedTracksLimit_def maxSavedTracksLimit_def)
  have def: "ListSavedTracks s u tx limit = wrapE ''library: list saved tracks'' (ltr_List (ls_libraryTracks s) u tx ?l)" for tx
    using assms by (simp add: ListSavedTracks_def Let_def min_def)
  show "0 < saved_page_size limit" using l by (simp add: saved_page_size_def)
  show "enc k \<noteq> ''''" by (rule enc_nonempty)
  show "keeps (\<lambda>w. filter (\<lambda>q. lit_UserID q = u) (saved w)) (ListSavedTracks s u tx limit)"
    unfolding def using keeps_wrapE [OF List_keeps] by (auto simp: keeps_def)
  assume "ListSavedTracks s u (cursor_text enc c) limit w = (Inr (items, nx), w')"
  then show "(items, nx) = map_prod id (cursor_text enc)
      (keyset_page before saved_key (saved_page_size limit) c (filter (\<lambda>q. lit_UserID q = u) (saved w)))"
    unfolding def using List_page [OF l] by (auto simp: saved_page_size_def)
qed

end

end
