(* ===== verification/Catalog_Laws.thy ===== *)
theory Catalog_Laws
  imports Catalog_Postgres "HOL-Library.Multiset"
begin

text \<open>
  What the catalog's tables promise: they stay consistent, a track is stored whole or not at all and
  is read back as it was stored, and the searches are paged queries.
\<close>

section \<open>Consistency\<close>

definition catalog_wf :: "catalog_tables \<Rightarrow> bool" where
  "catalog_wf tb \<longleftrightarrow>
     distinct (map art_ID (ct_artists tb)) \<and> distinct (map alb_ID (ct_albums tb))
     \<and> distinct (map trk_ID (ct_tracks tb)) \<and> distinct (ct_credits tb)
     \<and> (\<forall>a \<in> set (ct_albums tb). isValidAlbumType (alb_AlbumType a)
          \<and> (alb_PrimaryArtistID a = '''' \<or> alb_PrimaryArtistID a \<in> art_ID ` set (ct_artists tb)))
     \<and> (\<forall>t \<in> set (ct_tracks tb). 0 < trk_DurationMs t \<and> in_int4 (trk_DurationMs t)
          \<and> (trk_AlbumID t = '''' \<or> trk_AlbumID t \<in> alb_ID ` set (ct_albums tb))
          \<and> trk_ID t \<in> fst ` set (ct_credits tb))
     \<and> (\<forall>(t, a, r) \<in> set (ct_credits tb). t \<in> trk_ID ` set (ct_tracks tb)
          \<and> a \<in> art_ID ` set (ct_artists tb) \<and> isValidArtistRole r)
     \<and> (\<forall>x \<in> set (ct_assets tb). aud_TrackID x \<in> trk_ID ` set (ct_tracks tb))"

lemma insert_artist_wf: "catalog_wf tb \<Longrightarrow> catalog_wf (snd (insert_artist a tb))"
  by (auto simp: insert_artist_def catalog_wf_def)

lemma insert_album_wf: "catalog_wf tb \<Longrightarrow> catalog_wf (snd (insert_album a tb))"
  by (auto simp: insert_album_def catalog_wf_def)

text \<open>The loops of the transaction.\<close>

lemma insert_credits_done:
  assumes "insert_credits i tas tb = (Inr u, tb')"
  shows "tb' = tb\<lparr>ct_credits := ct_credits tb @ map (\<lambda>ta. (i, ta_ArtistID ta, ta_Role ta)) tas\<rparr>
    \<and> (\<forall>ta \<in> set tas. isValidArtistRole (ta_Role ta) \<and> ta_ArtistID ta \<in> art_ID ` set (ct_artists tb))
    \<and> (distinct (ct_credits tb) \<longrightarrow> distinct (ct_credits tb'))"
  using assms
  by (induction i tas tb arbitrary: tb' rule: insert_credits.induct) (auto simp: Let_def split: if_splits)

lemma insert_assets_done:
  assumes "insert_assets uuid i as tb = (Inr u, tb')"
  shows "\<exists>rows n. tb' = tb\<lparr>ct_assets := ct_assets tb @ rows, ct_uuids := n\<rparr>
    \<and> list_all2 (\<lambda>row a. \<exists>x. row = a\<lparr>aud_ID := x, aud_TrackID := i\<rparr>) rows as"
  using assms
proof (induction uuid i as tb arbitrary: tb' rule: insert_assets.induct)
  case (1 uuid i tb)
  then show ?case by (intro exI [of _ "[]"] exI [of _ "ct_uuids tb"]) simp
next
  case (2 uuid i a as tb)
  let ?row = "a\<lparr>aud_ID := uuid (ct_uuids tb), aud_TrackID := i\<rparr>"
  let ?tb = "tb\<lparr>ct_assets := ct_assets tb @ [?row], ct_uuids := Suc (ct_uuids tb)\<rparr>"
  have "insert_assets uuid i as ?tb = (Inr u, tb')"
    and ok: "in_int4 (aud_BitrateKbps a)" "\<not> (aud_Codec a \<notin> Codecs \<or> aud_QualityTier a \<notin> QualityTiers)"
    using "2.prems" by (auto split: if_splits)
  with "2.IH" [of tb'] obtain rows n where "tb' = ?tb\<lparr>ct_assets := ct_assets ?tb @ rows, ct_uuids := n\<rparr>"
    "list_all2 (\<lambda>row a. \<exists>x. row = a\<lparr>aud_ID := x, aud_TrackID := i\<rparr>) rows as" by blast
  then show ?case by (intro exI [of _ "?row # rows"] exI [of _ n]) auto
qed

text \<open>A track that was stored: its row, its credits and its renditions, and nothing else.\<close>

definition track_stored :: "Track \<Rightarrow> AudioAsset list \<Rightarrow> catalog_tables \<Rightarrow> catalog_tables \<Rightarrow> bool" where
  "track_stored t assets tb tb' \<longleftrightarrow> (\<exists>rows n.
     tb' = tb\<lparr>ct_tracks := ct_tracks tb @ [t\<lparr>trk_Artists := [], trk_PopularityScore := 0, trk_UpdatedAt := trk_CreatedAt t\<rparr>],
              ct_credits := ct_credits tb @ map (\<lambda>ta. (trk_ID t, ta_ArtistID ta, ta_Role ta)) (trk_Artists t),
              ct_assets := ct_assets tb @ rows, ct_uuids := n\<rparr>
     \<and> list_all2 (\<lambda>row a. \<exists>x. row = a\<lparr>aud_ID := x, aud_TrackID := trk_ID t\<rparr>) rows assets
     \<and> trk_ID t \<notin> trk_ID ` set (ct_tracks tb)
     \<and> 0 < trk_DurationMs t \<and> in_int4 (trk_DurationMs t)
     \<and> (trk_AlbumID t = '''' \<or> trk_AlbumID t \<in> alb_ID ` set (ct_albums tb))
     \<and> (\<forall>ta \<in> set (trk_Artists t). isValidArtistRole (ta_Role ta) \<and> ta_ArtistID ta \<in> art_ID ` set (ct_artists tb))
     \<and> (distinct (ct_credits tb) \<longrightarrow> distinct (ct_credits tb')))"

lemma insert_track_tx_cases:
  assumes "insert_track_tx uuid t assets tb = (r, tb')"
  shows "(\<exists>e. r = Inl e) \<and> tb' = tb \<or> r = Inr () \<and> track_stored t assets tb tb'"
proof (cases r)
  case (Inl e)
  with assms show ?thesis by (auto simp: insert_track_tx_def split: prod.splits sum.splits)
next
  case (Inr u)
  with assms obtain tb1 tb2 where row: "insert_track t tb = (Inr (), tb1)"
    and cr: "insert_credits (trk_ID t) (trk_Artists t) tb1 = (Inr (), tb2)"
    and as: "insert_assets uuid (trk_ID t) assets tb2 = (Inr (), tb')"
    by (auto simp: insert_track_tx_def split: prod.splits sum.splits)
  from row have tb1: "tb1 = tb\<lparr>ct_tracks := ct_tracks tb @ [t\<lparr>trk_Artists := [], trk_PopularityScore := 0, trk_UpdatedAt := trk_CreatedAt t\<rparr>]\<rparr>"
    and t: "trk_ID t \<notin> trk_ID ` set (ct_tracks tb)" "0 < trk_DurationMs t" "in_int4 (trk_DurationMs t)"
      "trk_AlbumID t = '''' \<or> trk_AlbumID t \<in> alb_ID ` set (ct_albums tb)"
    by (auto simp: insert_track_def split: if_splits)
  from insert_assets_done [OF as] obtain rows n where rows: "tb' = tb2\<lparr>ct_assets := ct_assets tb2 @ rows, ct_uuids := n\<rparr>"
    "list_all2 (\<lambda>row a. \<exists>x. row = a\<lparr>aud_ID := x, aud_TrackID := trk_ID t\<rparr>) rows assets" by blast
  note cr = insert_credits_done [OF cr]
  have "tb' = tb\<lparr>ct_tracks := ct_tracks tb @ [t\<lparr>trk_Artists := [], trk_PopularityScore := 0, trk_UpdatedAt := trk_CreatedAt t\<rparr>],
      ct_credits := ct_credits tb @ map (\<lambda>ta. (trk_ID t, ta_ArtistID ta, ta_Role ta)) (trk_Artists t),
      ct_assets := ct_assets tb @ rows, ct_uuids := n\<rparr>"
    using tb1 cr rows(1) by simp
  note eq = this
  moreover have "ct_credits tb' = ct_credits tb2" "ct_credits tb1 = ct_credits tb" using tb1 rows(1) by simp_all
  moreover from cr have "distinct (ct_credits tb1) \<longrightarrow> distinct (ct_credits tb2)" by blast
  ultimately have "distinct (ct_credits tb) \<longrightarrow> distinct (ct_credits tb')" by (simp only:)
  moreover have "\<forall>ta \<in> set (trk_Artists t). isValidArtistRole (ta_Role ta) \<and> ta_ArtistID ta \<in> art_ID ` set (ct_artists tb)"
    using tb1 cr by simp
  ultimately have "track_stored t assets tb tb'"
    unfolding track_stored_def using eq t rows(2) by blast
  then show ?thesis using Inr by simp
qed

lemma track_stored_wf:
  assumes "track_stored t assets tb tb'" and "catalog_wf tb" and "trk_Artists t \<noteq> []"
  shows "catalog_wf tb'"
proof -
  from assms(1) obtain rows n where tb': "tb' = tb\<lparr>ct_tracks := ct_tracks tb @ [t\<lparr>trk_Artists := [], trk_PopularityScore := 0, trk_UpdatedAt := trk_CreatedAt t\<rparr>],
              ct_credits := ct_credits tb @ map (\<lambda>ta. (trk_ID t, ta_ArtistID ta, ta_Role ta)) (trk_Artists t),
              ct_assets := ct_assets tb @ rows, ct_uuids := n\<rparr>"
    and rows: "list_all2 (\<lambda>row a. \<exists>x. row = a\<lparr>aud_ID := x, aud_TrackID := trk_ID t\<rparr>) rows assets"
    and t: "trk_ID t \<notin> trk_ID ` set (ct_tracks tb)" "0 < trk_DurationMs t" "in_int4 (trk_DurationMs t)"
      "trk_AlbumID t = '''' \<or> trk_AlbumID t \<in> alb_ID ` set (ct_albums tb)"
      "\<forall>ta \<in> set (trk_Artists t). isValidArtistRole (ta_Role ta) \<and> ta_ArtistID ta \<in> art_ID ` set (ct_artists tb)"
      "distinct (ct_credits tb) \<longrightarrow> distinct (ct_credits tb')"
    unfolding track_stored_def by blast
  from rows have "\<forall>row \<in> set rows. aud_TrackID row = trk_ID t"
    by (induction rule: list_all2_induct) auto
  moreover have "trk_ID t \<in> fst ` set (ct_credits tb')" using assms(3) tb' by (cases "trk_Artists t") auto
  moreover have "distinct (map trk_ID (ct_tracks tb'))" using assms(2) t(1) by (auto simp: catalog_wf_def tb')
  moreover have "distinct (ct_credits tb')" using assms(2) t(6) by (simp add: catalog_wf_def)
  moreover have "\<forall>u \<in> set (ct_tracks tb'). 0 < trk_DurationMs u \<and> in_int4 (trk_DurationMs u)
      \<and> (trk_AlbumID u = '''' \<or> trk_AlbumID u \<in> alb_ID ` set (ct_albums tb'))"
    using assms(2) t(2-4) by (auto simp: catalog_wf_def tb')
  moreover have "\<forall>u \<in> set (ct_tracks tb'). trk_ID u \<in> fst ` set (ct_credits tb')"
    using assms(2) \<open>trk_ID t \<in> fst ` set (ct_credits tb')\<close> by (auto simp: catalog_wf_def tb')
  moreover have "\<forall>(i, a, r) \<in> set (ct_credits tb'). i \<in> trk_ID ` set (ct_tracks tb')
      \<and> a \<in> art_ID ` set (ct_artists tb') \<and> isValidArtistRole r"
    using assms(2) t(5) by (auto simp: catalog_wf_def tb')
  moreover have "\<forall>x \<in> set (ct_assets tb'). aud_TrackID x \<in> trk_ID ` set (ct_tracks tb')"
    using assms(2) \<open>\<forall>row \<in> set rows. aud_TrackID row = trk_ID t\<close> by (auto simp: catalog_wf_def tb')
  moreover have "ct_artists tb' = ct_artists tb" "ct_albums tb' = ct_albums tb" by (simp_all add: tb')
  ultimately show ?thesis using assms(2) unfolding catalog_wf_def by simp
qed

section \<open>Reading a track back\<close>

lemma length_filter_order_by: "length (filter P (order_by lt key xs)) = length (filter P xs)"
proof -
  have "mset (filter P (order_by lt key xs)) = mset (filter P xs)" by (simp add: mset_filter)
  from arg_cong [OF this, where f = size] show ?thesis by (simp only: size_mset)
qed

definition credit_of :: "TrackArtist \<Rightarrow> string \<times> string" where
  "credit_of ta = (ta_ArtistID ta, ta_Role ta)"

definition asset_data :: "AudioAsset \<Rightarrow> string \<times> int \<times> string \<times> string" where
  "asset_data a = (aud_StorageURI a, aud_BitrateKbps a, aud_Codec a, aud_QualityTier a)"

lemma stored_row_found:
  assumes "track_stored t assets tb tb'"
  shows "List.find (\<lambda>x. trk_ID x = trk_ID t) (ct_tracks tb')
    = Some (t\<lparr>trk_Artists := [], trk_PopularityScore := 0, trk_UpdatedAt := trk_CreatedAt t\<rparr>)"
proof -
  have skip: "List.find P (xs @ [x]) = Some x" if "\<forall>y \<in> set xs. \<not> P y" "P x" for P :: "Track \<Rightarrow> bool" and xs x
    using that by (induction xs) auto
  from assms obtain rows n where "tb' = tb\<lparr>ct_tracks := ct_tracks tb @ [t\<lparr>trk_Artists := [], trk_PopularityScore := 0, trk_UpdatedAt := trk_CreatedAt t\<rparr>],
              ct_credits := ct_credits tb @ map (\<lambda>ta. (trk_ID t, ta_ArtistID ta, ta_Role ta)) (trk_Artists t),
              ct_assets := ct_assets tb @ rows, ct_uuids := n\<rparr>"
    and "trk_ID t \<notin> trk_ID ` set (ct_tracks tb)"
    unfolding track_stored_def by blast
  then show ?thesis by (auto intro!: skip simp: image_iff)
qed

lemma set_credits_of:
  "set (credits_of env i tb) = {\<lparr>ta_ArtistID = art_ID a, ta_ArtistName = art_Name a, ta_Role = r\<rparr> | a r.
     (i, art_ID a, r) \<in> set (ct_credits tb) \<and> a \<in> set (ct_artists tb)}"
  by (auto simp: credits_of_def)

lemma credit_set: "credit_of ` set (credits_of env i tb)
  = {(x, r). (i, x, r) \<in> set (ct_credits tb) \<and> x \<in> art_ID ` set (ct_artists tb)}"
  unfolding set_credits_of credit_of_def by (auto simp: image_iff) (metis TrackArtist.select_convs(1,3))

lemma stored_credits:
  assumes "track_stored t assets tb tb'" and "catalog_wf tb"
  shows "credit_of ` set (credits_of env (trk_ID t) tb') = credit_of ` set (trk_Artists t)"
proof -
  from assms(1) obtain rows n where tb': "tb' = tb\<lparr>ct_tracks := ct_tracks tb @ [t\<lparr>trk_Artists := [], trk_PopularityScore := 0, trk_UpdatedAt := trk_CreatedAt t\<rparr>],
              ct_credits := ct_credits tb @ map (\<lambda>ta. (trk_ID t, ta_ArtistID ta, ta_Role ta)) (trk_Artists t),
              ct_assets := ct_assets tb @ rows, ct_uuids := n\<rparr>"
    and new: "trk_ID t \<notin> trk_ID ` set (ct_tracks tb)"
    and art: "\<forall>ta \<in> set (trk_Artists t). ta_ArtistID ta \<in> art_ID ` set (ct_artists tb)"
    unfolding track_stored_def by blast
  from assms(2) new have "\<forall>(i, a, r) \<in> set (ct_credits tb). i \<noteq> trk_ID t" by (auto simp: catalog_wf_def)
  then have "{(x, r). (trk_ID t, x, r) \<in> set (ct_credits tb')} = credit_of ` set (trk_Artists t)"
    by (auto simp: tb' credit_of_def)
  moreover have "\<forall>(x, r) \<in> credit_of ` set (trk_Artists t). x \<in> art_ID ` set (ct_artists tb')"
    using art by (auto simp: tb' credit_of_def)
  ultimately show ?thesis unfolding credit_set by blast
qed

lemma stored_assets:
  assumes "track_stored t assets tb tb'" and "catalog_wf tb"
  shows "mset (map asset_data (order_by (>) aud_BitrateKbps (filter (\<lambda>a. aud_TrackID a = trk_ID t) (ct_assets tb'))))
    = mset (map asset_data assets)"
proof -
  from assms(1) obtain rows where tb': "ct_assets tb' = ct_assets tb @ rows"
    and rows: "list_all2 (\<lambda>row a. \<exists>x. row = a\<lparr>aud_ID := x, aud_TrackID := trk_ID t\<rparr>) rows assets"
    and new: "trk_ID t \<notin> trk_ID ` set (ct_tracks tb)"
    unfolding track_stored_def by auto
  from assms(2) new have "filter (\<lambda>a. aud_TrackID a = trk_ID t) (ct_assets tb) = []"
    unfolding catalog_wf_def filter_empty_conv by metis
  moreover from rows have "filter (\<lambda>a. aud_TrackID a = trk_ID t) rows = rows \<and> map asset_data rows = map asset_data assets"
    by (induction rule: list_all2_induct) (auto simp: asset_data_def)
  ultimately show ?thesis by (simp add: tb') (metis mset_map)
qed

section \<open>Searching\<close>

lemma name_search_page:
  assumes "\<And>k. ce_encode env k \<noteq> ''''" and "\<And>k. ce_decode env (ce_encode env k) = Some k"
    and "name_search env rows nm ident q (cursor_text (ce_encode env) c) limit p = (Inr pg, p')"
  shows "(page_Items pg, page_NextCursor pg) = map_prod id (cursor_text (ce_encode env))
    (keyset_page (by_name_id (ce_collate env) byte_lt) (\<lambda>x. (nm x, ident x)) (nat limit) c
      (filter (\<lambda>x. ce_similarity env (nm x) q > similarityThreshold) (rows (pg_tables p))))"
proof -
  have dec: "decodeNameCursor env (cursor_text (ce_encode env) c) = Inr (case c of None \<Rightarrow> ('''', '''') | Some k \<Rightarrow> k)"
    using assms(1,2) by (auto simp: decodeNameCursor_def cursor_text_def split: option.split)
  have cur: "(if cursor_text (ce_encode env) c = '''' then None else Some (case c of None \<Rightarrow> ('''', '''') | Some k \<Rightarrow> k)) = c"
    using assms(1) by (auto simp: cursor_text_def split: option.split)
  from assms(3) show ?thesis
    unfolding name_search_def dec sum.case cur
    by (elim pg_run_InrE) (auto simp: cursor_text_def encodeNameCursor_def split: prod.splits option.splits)
qed

end
