(* ===== verification/Core.thy ===== *)
theory Core
  imports World Playback_Store Library_Postgres Library_Laws Catalog_Laws
begin

text \<open>
  The wiring of the core process for catalog, library and playback (\<^verbatim>\<open>cmd/server/main.go\<close>): the state
  of \<open>World\<close> and beside it the database tables of these modules. The interpretations show that the
  wired parts meet the contracts.
\<close>

section \<open>State and parameters\<close>

record ('r, 'i, 'x) core =
  co_world :: "('r, 'i, 'x) world"
  co_media :: "media_tables pg"

record media_deployment =
  mx_env :: catalog_env
  mx_codec :: cursor_codec
  mx_hmac :: "string \<Rightarrow> string \<Rightarrow> string"
  mx_MediaBaseURL :: string
  mx_MediaSigningKey :: string

definition on_world :: "(('r, 'i, 'x) world \<Rightarrow> 'a \<times> ('r, 'i, 'x) world) \<Rightarrow> ('r, 'i, 'x) core \<Rightarrow> 'a \<times> ('r, 'i, 'x) core" where
  "on_world = zoom co_world (\<lambda>p w. w\<lparr>co_world := p\<rparr>)"

definition on_media :: "(media_tables pg \<Rightarrow> 'a \<times> media_tables pg) \<Rightarrow> ('r, 'i, 'x) core \<Rightarrow> 'a \<times> ('r, 'i, 'x) core" where
  "on_media = zoom co_media (\<lambda>p w. w\<lparr>co_media := p\<rparr>)"

definition core_clock :: "('r, 'i, 'x) core Clock" where
  "core_clock = \<lparr>Now = on_world (Now world_clock)\<rparr>"

definition core_ids :: "('r, 'i, 'x) externals \<Rightarrow> ('r, 'i, 'x) core Generator" where
  "core_ids ex = \<lparr>NewID = on_world (NewID (world_ids (ex_uuid ex)))\<rparr>"

section \<open>The services\<close>

definition core_catalog :: "('r, 'i, 'x) externals \<Rightarrow> media_deployment \<Rightarrow> ('r, 'i, 'x) core CatalogService" where
  "core_catalog ex md = \<lparr>
     cs_artists = \<lparr>arr_Create = (\<lambda>a. on_media (on_catalog (arr_Create (pg_artists (mx_env md)) a))),
                   arr_GetByID = (\<lambda>i. on_media (on_catalog (arr_GetByID (pg_artists (mx_env md)) i))),
                   arr_Search = (\<lambda>q c l. on_media (on_catalog (arr_Search (pg_artists (mx_env md)) q c l)))\<rparr>,
     cs_albums = \<lparr>alr_Create = (\<lambda>a. on_media (on_catalog (alr_Create (pg_albums (mx_env md)) a))),
                  alr_GetByID = (\<lambda>i. on_media (on_catalog (alr_GetByID (pg_albums (mx_env md)) i))),
                  alr_ListByArtist = (\<lambda>i. on_media (on_catalog (alr_ListByArtist (pg_albums (mx_env md)) i))),
                  alr_Search = (\<lambda>q c l. on_media (on_catalog (alr_Search (pg_albums (mx_env md)) q c l)))\<rparr>,
     cs_tracks = \<lparr>trr_Create = (\<lambda>t as. on_media (on_catalog (trr_Create (pg_tracks (mx_env md)) t as))),
                  trr_GetByID = (\<lambda>i. on_media (on_catalog (trr_GetByID (pg_tracks (mx_env md)) i))),
                  trr_ListByAlbum = (\<lambda>i. on_media (on_catalog (trr_ListByAlbum (pg_tracks (mx_env md)) i))),
                  trr_Search = (\<lambda>q c l. on_media (on_catalog (trr_Search (pg_tracks (mx_env md)) q c l))),
                  trr_ListAudioAssets = (\<lambda>i. on_media (on_catalog (trr_ListAudioAssets (pg_tracks (mx_env md)) i)))\<rparr>,
     cs_clock = core_clock, cs_ids = core_ids ex\<rparr>"

definition core_library :: "('r, 'i, 'x) externals \<Rightarrow> media_deployment \<Rightarrow> ('r, 'i, 'x) core LibraryService" where
  "core_library ex md = \<lparr>
     ls_playlists = \<lparr>plr_Create = (\<lambda>p. on_media (plr_Create pg_playlists p)),
                     plr_GetByID = (\<lambda>i. on_media (plr_GetByID pg_playlists i)),
                     plr_ListByOwner = (\<lambda>u. on_media (plr_ListByOwner pg_playlists u))\<rparr>,
     ls_playlistTracks = \<lparr>ptr_Add = (\<lambda>t. on_media (ptr_Add pg_entries t)),
                          ptr_Remove = (\<lambda>p t. on_media (ptr_Remove pg_entries p t)),
                          ptr_List = (\<lambda>p. on_media (ptr_List pg_entries p)),
                          ptr_MaxPosition = (\<lambda>p. on_media (ptr_MaxPosition pg_entries p))\<rparr>,
     ls_libraryTracks = \<lparr>ltr_Add = (\<lambda>t. on_media (ltr_Add (pg_saved (mx_codec md)) t)),
                         ltr_Remove = (\<lambda>u t. on_media (ltr_Remove (pg_saved (mx_codec md)) u t)),
                         ltr_List = (\<lambda>u c l. on_media (ltr_List (pg_saved (mx_codec md)) u c l))\<rparr>,
     ls_tracks = \<lparr>lck_TrackExists = TrackExists (core_catalog ex md)\<rparr>,
     ls_clock = core_clock, ls_ids = core_ids ex\<rparr>"

definition core_playback :: "('r, 'i, 'x) externals \<Rightarrow> media_deployment \<Rightarrow> ('r, 'i, 'x) core PlaybackService" where
  "core_playback ex md = \<lparr>
     ps_store = \<lparr>st_Save = (\<lambda>s d. on_world (on_redis (st_Save (SessionStore (ex_redis ex)) s d))),
                 st_Load = (\<lambda>i. on_world (on_redis (st_Load (SessionStore (ex_redis ex)) i))),
                 st_Delete = (\<lambda>i. on_world (on_redis (st_Delete (SessionStore (ex_redis ex)) i)))\<rparr>,
     ps_resolver = \<lparr>mr_Resolve = media_Resolve
                     (NewLocalResolver (mx_hmac md) (mx_MediaBaseURL md) (mx_MediaSigningKey md) core_clock)\<rparr>,
     ps_tracks = \<lparr>tk_TrackExists = TrackExists (core_catalog ex md)\<rparr>,
     ps_events = NoopPlayEventRecorder,
     ps_clock = core_clock, ps_ids = core_ids ex, ps_sessionTTL = 24 * Hour\<rparr>"

lemma on_core:
  "on_world m w = (x, w') \<Longrightarrow> m (co_world w) = (x, co_world w') \<and> co_media w' = co_media w"
  "on_media n w = (y, w') \<Longrightarrow> n (co_media w) = (y, co_media w') \<and> co_world w' = co_world w"
  by (auto simp: on_world_def on_media_def zoom_def split: prod.splits)

text \<open>The tables the core process keeps in the database, and the sessions on Redis.\<close>

definition media :: "('r, 'i, 'x) core \<Rightarrow> media_tables" where
  "media w = pg_tables (co_media w)"

definition core_sessions :: "('r \<Rightarrow> rstate) \<Rightarrow> ('r, 'i, 'x) core \<Rightarrow> string \<rightharpoonup> SessionState" where
  "core_sessions view w = sessions_in (view (w_redis (co_world w)))"

lemma keeps_media:
  "keeps media (on_world m)"
  "keeps (\<lambda>p. f (pg_tables p)) n \<Longrightarrow> keeps (\<lambda>w. f (media w)) (on_media n)"
  "keeps (core_sessions view) (on_media n)"
  by (auto intro!: keepsI dest!: on_core dest: keepsD simp: media_def core_sessions_def)

lemma keeps_media_view: "keeps media m \<Longrightarrow> keeps (\<lambda>w. f (media w)) m"
  by (auto simp: keeps_def)

lemma keeps_on_catalog:
  "keeps pg_tables m \<Longrightarrow> keeps pg_tables (on_catalog m)"
  by (auto intro!: keepsI dest!: on_catalog_part dest: keepsD)

lemma keeps_on_world: "keeps f m \<Longrightarrow> keeps (\<lambda>w. f (co_world w)) (on_world m)"
  by (auto intro!: keepsI dest!: on_core dest: keepsD)

lemma clock_keeps_sessions:
  "keeps (core_sessions view) (Now core_clock)" "keeps (core_sessions view) (NewID (core_ids ex))"
  unfolding core_sessions_def [abs_def] core_clock_def core_ids_def world_clock_def world_ids_def
  by (simp_all, (rule keeps_on_world, simp add: on_clock_def on_ids_def keeps_zoom_other)+)

section \<open>The track checker\<close>

definition core_tracks :: "('r, 'i, 'x) core \<Rightarrow> string set" where
  "core_tracks w = trk_ID ` set (ct_tracks (md_catalog (media w))) - {''''}"

lemma pg_find: "List.find P xs = Some x \<Longrightarrow> x \<in> set xs \<and> P x"
  by (auto simp: find_Some_iff)

lemma catalog_reads_keep:
  "keeps pg_tables (pg_track_GetByID env i)" "keeps pg_tables (pg_ListAudioAssets i)"
  unfolding pg_track_GetByID_def trackArtists_def pg_ListAudioAssets_def
  by (intro keeps_intros keeps_pg_read [where f = "\<lambda>t. t"]; simp)+

lemma GetTrack_keeps_media: "keeps media (GetTrack (core_catalog ex md) i)"
  unfolding GetTrack_def
  by (intro keeps_intros)
    (simp_all add: core_catalog_def pg_tracks_def keeps_media(2) [where f = "\<lambda>t. t"] keeps_on_catalog catalog_reads_keep)

lemma TrackExists_keeps_media: "keeps media (TrackExists (core_catalog ex md) i)"
  unfolding TrackExists_def by (intro keeps_intros GetTrack_keeps_media)

lemma TrackExists_keeps_sessions: "keeps (core_sessions view) (TrackExists (core_catalog ex md) i)"
  unfolding TrackExists_def GetTrack_def
  by (intro keeps_intros) (simp_all add: core_catalog_def keeps_media)

lemma pg_track_GetByID_row:
  "pg_track_GetByID env i p = (Inr t, p') \<Longrightarrow> i \<in> trk_ID ` set (ct_tracks (pg_tables p))"
  "pg_track_GetByID env i p = (Inl e, p') \<Longrightarrow> errors_Is e CatalogErrTrackNotFound
     \<Longrightarrow> i \<notin> trk_ID ` set (ct_tracks (pg_tables p))"
proof -
  assume "pg_track_GetByID env i p = (Inr t, p')"
  then obtain row where "List.find (\<lambda>t. trk_ID t = i) (ct_tracks (pg_tables p)) = Some row"
    by (auto simp: pg_track_GetByID_def elim!: pg_run_InrE split: option.splits)
  then show "i \<in> trk_ID ` set (ct_tracks (pg_tables p))" by (auto dest: pg_find)
next
  assume "pg_track_GetByID env i p = (Inl e, p')" and "errors_Is e CatalogErrTrackNotFound"
  then have "List.find (\<lambda>t. trk_ID t = i) (ct_tracks (pg_tables p)) = None"
    by (auto simp: pg_track_GetByID_def trackArtists_def elim!: bindE_InlE pg_run_InlE pg_run_InrE split: option.splits)
  then show "i \<notin> trk_ID ` set (ct_tracks (pg_tables p))" by (auto simp: find_None_iff)
qed

lemma pg_track_GetByID_valid:
  "pg_track_GetByID env i p = (Inl e, p') \<Longrightarrow> \<not> errors_Is e CatalogErrInvalidInput"
  by (auto simp: pg_track_GetByID_def trackArtists_def elim!: bindE_InlE pg_run_InlE pg_run_InrE split: option.splits)

lemma core_TrackExists:
  assumes "TrackExists (core_catalog ex md) t w = (Inr b, w')"
  shows "b \<longleftrightarrow> t \<in> core_tracks w"
proof (cases "t = ''''")
  case True
  with assms show ?thesis
    by (auto simp: TrackExists_def GetTrack_def catalog_invalid_def core_tracks_def attempt_def)
next
  case False
  obtain r w1 where get: "trr_GetByID (cs_tracks (core_catalog ex md)) t w = (r, w1)" by fastforce
  from get obtain p where p: "pg_track_GetByID (mx_env md) t (catalog_pg (co_media w)) = (r, p)"
    by (auto simp: core_catalog_def pg_tracks_def dest!: on_core on_catalog_part)
  show ?thesis
  proof (cases r)
    case (Inl e)
    with assms get False pg_track_GetByID_valid [OF p [unfolded Inl]] have "\<not> b" "errors_Is e CatalogErrTrackNotFound"
      by (auto simp: TrackExists_def GetTrack_def bindE_def attempt_def split: prod.splits sum.splits if_splits)
    with pg_track_GetByID_row(2) [OF p [unfolded Inl]] show ?thesis by (simp add: core_tracks_def media_def)
  next
    case (Inr x)
    have none: "\<not> errors_Is e CatalogErrTrackNotFound \<and> \<not> errors_Is e CatalogErrInvalidInput"
      if "trr_ListAudioAssets (cs_tracks (core_catalog ex md)) t w1 = (Inl e, w2)" for e w2
      using that by (auto simp: core_catalog_def pg_tracks_def pg_ListAudioAssets_def dest!: on_core on_catalog_part
          elim!: pg_run_InlE)
    have b
      using assms get Inr False none
      by (auto simp: TrackExists_def GetTrack_def bindE_def attempt_def wrapE_def split: prod.splits sum.splits if_splits)
    with pg_track_GetByID_row(1) [OF p [unfolded Inr]] False show ?thesis by (simp add: core_tracks_def media_def)
  qed
qed

interpretation core_checker: track_checker "TrackExists (core_catalog ex md)" core_tracks
proof
  fix t b w w'
  show "TrackExists (core_catalog ex md) t w = (Inr b, w') \<Longrightarrow> b \<longleftrightarrow> t \<in> core_tracks w" for b w w'
    by (rule core_TrackExists)
  show "keeps core_tracks (TrackExists (core_catalog ex md) t)"
    unfolding core_tracks_def [abs_def] by (rule keeps_media_view, rule TrackExists_keeps_media)
qed

section \<open>Playback\<close>

context redis_server
begin

lemma core_playback_laws:
  assumes "ex_redis ex = R"
  shows "playback_service (core_playback ex md) (core_sessions view)"
proof unfold_locales
  fix s :: SessionState and ttl w w' e i r t ev
  note simps = core_playback_def assms core_sessions_def
  show "st_Save (ps_store (core_playback ex md)) s ttl w = (Inr (), w') \<Longrightarrow>
      \<exists>m. m \<subseteq>\<^sub>m core_sessions view w \<and> core_sessions view w' = m(ss_SessionID s \<mapsto> s)" for w w'
    using sessions.Save_done by (fastforce simp: simps dest!: on_core on_part(4))
  show "st_Save (ps_store (core_playback ex md)) s ttl w = (Inl e, w') \<Longrightarrow>
      \<exists>m. m \<subseteq>\<^sub>m core_sessions view w \<and> (core_sessions view w' = m \<or> core_sessions view w' = m(ss_SessionID s \<mapsto> s))" for w w'
    using sessions.Save_failed by (fastforce simp: simps dest!: on_core on_part(4))
  show "st_Load (ps_store (core_playback ex md)) i w = (r, w') \<Longrightarrow> core_sessions view w' \<subseteq>\<^sub>m core_sessions view w" for w w' r
    using sessions.Load_fades by (fastforce simp: simps dest!: on_core on_part(4))
  show "st_Load (ps_store (core_playback ex md)) i w = (Inr s, w') \<Longrightarrow> core_sessions view w' i = Some s" for w w'
    using sessions.Load_found by (fastforce simp: simps dest!: on_core on_part(4))
  show "st_Load (ps_store (core_playback ex md)) i w = (Inl e, w') \<Longrightarrow> errors_Is e ErrSessionNotFound \<Longrightarrow>
      core_sessions view w' i = None" for w w'
    using sessions.Load_absent by (fastforce simp: simps dest!: on_core on_part(4))
  show "keeps (core_sessions view) (Now (ps_clock (core_playback ex md)))"
    by (simp add: core_playback_def clock_keeps_sessions)
  show "keeps (core_sessions view) (NewID (ps_ids (core_playback ex md)))"
    by (simp add: core_playback_def clock_keeps_sessions)
  show "keeps (core_sessions view) (mr_Resolve (ps_resolver (core_playback ex md)) t)"
    by (simp add: core_playback_def media_Resolve_def NewLocalResolver_def, intro keeps_intros clock_keeps_sessions)
  show "keeps (core_sessions view) (tk_TrackExists (ps_tracks (core_playback ex md)) t)"
    by (simp add: core_playback_def TrackExists_keeps_sessions)
  show "keeps (core_sessions view) (er_Record (ps_events (core_playback ex md)) ev)"
    by (simp add: core_playback_def NoopPlayEventRecorder_def keeps_ret)
qed

end

interpretation mem_playback: playback_service "core_playback (ex\<lparr>ex_redis := mem_redis\<rparr>) md" "core_sessions contents"
  by (rule mem_server.core_playback_laws) simp

section \<open>The catalog\<close>

definition catalog_of :: "('r, 'i, 'x) core \<Rightarrow> catalog_tables" where
  "catalog_of w = md_catalog (media w)"

lemma on_catalog_media:
  assumes "on_media (on_catalog m) w = (x, w')"
  obtains p p' where "m p = (x, p')" and "pg_tables p = catalog_of w" and "pg_tables p' = catalog_of w'"
    and "media w' = (media w)\<lparr>md_catalog := catalog_of w'\<rparr>"
proof -
  from on_catalog_part [OF conjunct1 [OF on_core(2) [OF assms]]] obtain q' where "m (catalog_pg (co_media w)) = (x, q')"
    and "pg_tables (co_media w') = (pg_tables (co_media w))\<lparr>md_catalog := pg_tables q'\<rparr>" by blast
  then show thesis using that [of "catalog_pg (co_media w)" q'] by (simp add: catalog_of_def media_def)
qed

definition stays_wf :: "catalog_tables \<Rightarrow> catalog_tables \<Rightarrow> bool" where
  "stays_wf a b \<longleftrightarrow> (catalog_wf a \<longrightarrow> catalog_wf b)"

lemma stays_wf_order: "reflp stays_wf" "transp stays_wf"
  by (auto simp: reflp_def transp_def stays_wf_def)

lemma pg_run_stays_wf:
  assumes "\<And>t tb. stays_wf tb (snd (stmt t tb))" and "pg_run stmt p = (r, p')"
  shows "stays_wf (pg_tables p) (pg_tables p')"
proof (cases r)
  case (Inl e)
  from assms(2) [unfolded Inl] show ?thesis
    by (cases rule: pg_run_InlE) (metis assms(1) snd_conv, simp add: stays_wf_def, metis assms(1) snd_conv)
next
  case (Inr x)
  from assms(2) [unfolded Inr] show ?thesis by (rule pg_run_InrE) (metis assms(1) snd_conv)
qed

lemma write_stays_wf:
  assumes "\<And>t tb. stays_wf tb (snd (stmt t tb))"
  shows "moves catalog_of stays_wf (on_media (on_catalog (pg_run stmt)))"
proof (rule movesI)
  fix w r and w' :: "('r, 'i, 'x) core"
  assume "on_media (on_catalog (pg_run stmt)) w = (r, w')"
  then obtain p p' where "pg_run stmt p = (r, p')" and "pg_tables p = catalog_of w" and "pg_tables p' = catalog_of w'"
    by (rule on_catalog_media)
  with pg_run_stays_wf [OF assms this(1)] show "stays_wf (catalog_of w) (catalog_of w')" by simp
qed

lemma catalog_keeps:
  "keeps catalog_of (Now core_clock)" "keeps catalog_of (NewID (core_ids ex))"
  unfolding catalog_of_def [abs_def] core_clock_def core_ids_def by (simp_all add: keeps_media_view keeps_media)

lemma read_keeps:
  assumes "keeps pg_tables m"
  shows "keeps catalog_of (on_media (on_catalog m))"
proof (rule keepsI)
  fix w r and w' :: "('r, 'i, 'x) core"
  assume "on_media (on_catalog m) w = (r, w')"
  then obtain p p' where "m p = (r, p')" and "pg_tables p = catalog_of w" and "pg_tables p' = catalog_of w'"
    by (rule on_catalog_media)
  with keepsD [OF assms this(1)] show "catalog_of w' = catalog_of w" by simp
qed

lemma GetByID_keeps: "keeps pg_tables (pg_artist_GetByID i)" "keeps pg_tables (pg_album_GetByID i)"
  unfolding pg_artist_GetByID_def pg_album_GetByID_def
  by (intro keeps_intros keeps_pg_read [where f = "\<lambda>t. t"]; simp)+

lemma existence_checks_keep:
  "keeps catalog_of (primary_artist_exists (core_catalog ex md) i)"
  "keeps catalog_of (album_exists (core_catalog ex md) i)"
  unfolding primary_artist_exists_def GetArtist_def album_exists_def
  by (intro keeps_intros; simp add: core_catalog_def pg_artists_def pg_albums_def read_keeps GetByID_keeps)+

lemma CreateArtist_wf: "moves catalog_of stays_wf (CreateArtist (core_catalog ex md) inp)"
  unfolding CreateArtist_def Let_def
  by (intro moves_intros stays_wf_order)
    (simp_all add: core_catalog_def pg_artists_def pg_artist_Create_def write_stays_wf stays_wf_def insert_artist_wf
      moves_keeps [OF stays_wf_order(1)] keeps_call keeps_ret keeps_throw catalog_keeps)

lemma CreateAlbum_wf: "moves catalog_of stays_wf (CreateAlbum (core_catalog ex md) inp)"
proof -
  have wiring: "cs_clock (core_catalog ex md) = core_clock" "cs_ids (core_catalog ex md) = core_ids ex"
    "alr_Create (cs_albums (core_catalog ex md)) a = on_media (on_catalog (pg_run (\<lambda>_. insert_album a)))" for a
    by (simp_all add: core_catalog_def pg_albums_def pg_album_Create_def)
  show ?thesis
    unfolding CreateAlbum_def Let_def wiring
    by (intro moves_intros stays_wf_order)
      (simp_all add: write_stays_wf stays_wf_def insert_album_wf moves_keeps [OF stays_wf_order(1)] keeps_call keeps_ret
        keeps_throw catalog_keeps existence_checks_keep)
qed

text \<open>What a request to create a track stores.\<close>

definition describes :: "Track \<Rightarrow> CreateTrackInput \<Rightarrow> bool" where
  "describes t inp \<longleftrightarrow> trk_Title t = TrimSpace (cti_Title inp) \<and> trk_AlbumID t = cti_AlbumID inp
     \<and> trk_DurationMs t = cti_DurationMs inp \<and> trk_TrackNumber t = cti_TrackNumber inp
     \<and> trk_ISRC t = cti_ISRC inp \<and> trk_Explicit t = cti_Explicit inp \<and> trk_Artists t = cti_Artists inp
     \<and> trk_PopularityScore t = 0 \<and> trk_UpdatedAt t = trk_CreatedAt t"

lemma store_track:
  assumes "trr_Create (cs_tracks (core_catalog ex md)) t as w = (r, w')"
  shows "(catalog_of w' = catalog_of w \<and> (\<exists>e. r = Inl e)) \<or> track_stored t as (catalog_of w) (catalog_of w')"
proof -
  from assms obtain p p' where run: "pg_run (\<lambda>_. insert_track_tx (ce_uuid (mx_env md)) t as) p = (r, p')"
    and p: "pg_tables p = catalog_of w" "pg_tables p' = catalog_of w'"
    by (auto simp: core_catalog_def pg_tracks_def pg_track_Create_def elim: on_catalog_media)
  show ?thesis
  proof (cases r)
    case (Inl e)
    from run [unfolded Inl] show ?thesis
      by (cases rule: pg_run_InlE) (use p Inl insert_track_tx_cases in \<open>metis (no_types, lifting)\<close>)+
  next
    case (Inr u)
    from run [unfolded Inr] obtain t0 where "insert_track_tx (ce_uuid (mx_env md)) t as (catalog_of w) = (Inr u, catalog_of w')"
      using p by (auto elim: pg_run_InrE)
    from insert_track_tx_cases [OF this] show ?thesis by auto
  qed
qed

lemma CreateTrack_core:
  assumes "CreateTrack (core_catalog ex md) inp w = (r, w')"
  shows "(catalog_of w' = catalog_of w \<and> (\<exists>e. r = Inl e))
    \<or> (\<exists>t. track_stored t (cti_Assets inp) (catalog_of w) (catalog_of w') \<and> describes t inp
         \<and> cti_Artists inp \<noteq> [] \<and> (\<forall>x. r = Inr x \<longrightarrow> x = t))"
proof (cases "TrimSpace (cti_Title inp) = '''' \<or> cti_DurationMs inp \<le> 0 \<or> cti_Artists inp = []
    \<or> (\<exists>ta \<in> set (cti_Artists inp). ta_ArtistID ta = '''' \<or> \<not> isValidArtistRole (ta_Role ta))")
  case True
  with assms show ?thesis unfolding CreateTrack_def Let_def by (auto split: if_splits)
next
  case False
  let ?s = "core_catalog ex md"
  let ?t = "\<lambda>i now. \<lparr>trk_ID = i, trk_Title = TrimSpace (cti_Title inp), trk_AlbumID = cti_AlbumID inp,
      trk_DurationMs = cti_DurationMs inp, trk_TrackNumber = cti_TrackNumber inp, trk_ISRC = cti_ISRC inp,
      trk_Explicit = cti_Explicit inp, trk_PopularityScore = 0, trk_Artists = cti_Artists inp,
      trk_CreatedAt = now, trk_UpdatedAt = now\<rparr>"
  have "bindE (album_exists ?s (cti_AlbumID inp)) (\<lambda>_. bindE (call (Now (cs_clock ?s))) (\<lambda>now.
      bindE (call (NewID (cs_ids ?s))) (\<lambda>i. bindE (wrapE ''catalog: create track'' (trr_Create (cs_tracks ?s) (?t i now) (cti_Assets inp)))
        (\<lambda>_. ret (?t i now))))) w = (r, w')"
    using assms False unfolding CreateTrack_def Let_def by (simp del: ret_apply)
  then show ?thesis
  proof (cases rule: bindE_E)
    case (failed e)
    then show ?thesis using keepsD [OF existence_checks_keep(2)] by blast
  next
    case (answered u w1)
    obtain now w2 where clk: "Now (cs_clock ?s) w1 = (now, w2)" by fastforce
    obtain i w3 where new: "NewID (cs_ids ?s) w2 = (i, w3)" by fastforce
    have "Now core_clock w1 = (now, w2)" and "NewID (core_ids ex) w2 = (i, w3)"
      using clk new by (simp_all add: core_catalog_def)
    then have same: "catalog_of w3 = catalog_of w"
      using keepsD [OF existence_checks_keep(2) answered(1)] keepsD [OF catalog_keeps(1)] keepsD [OF catalog_keeps(2)]
      by metis
    have rest: "bindE (wrapE ''catalog: create track'' (trr_Create (cs_tracks ?s) (?t i now) (cti_Assets inp)))
        (\<lambda>_. ret (?t i now)) w3 = (r, w')"
      using answered(2) clk new by (simp add: bindE_Inr call_def)
    have d: "describes (?t i now) inp" by (simp add: describes_def)
    show ?thesis using rest
    proof (cases rule: bindE_E)
      case (failed e)
      then obtain e' where "trr_Create (cs_tracks ?s) (?t i now) (cti_Assets inp) w3 = (Inl e', w')" by (auto elim: wrapE_InlE)
      from store_track [OF this] show ?thesis using same d False failed(2) by auto
    next
      case (answered x w4)
      then have "trr_Create (cs_tracks ?s) (?t i now) (cti_Assets inp) w3 = (Inr (), w')" "r = Inr (?t i now)" by auto
      from store_track [OF this(1)] this(2) show ?thesis using same d False by auto
    qed
  qed
qed

lemma GetTrack_core:
  assumes "GetTrack (core_catalog ex md) i w = (Inr (t, as), w')"
  shows "\<exists>row. List.find (\<lambda>x. trk_ID x = i) (ct_tracks (catalog_of w)) = Some row
    \<and> t = row\<lparr>trk_Artists := credits_of (mx_env md) i (catalog_of w)\<rparr>
    \<and> as = order_by (>) aud_BitrateKbps (filter (\<lambda>a. aud_TrackID a = i) (ct_assets (catalog_of w)))"
proof -
  from assms obtain w1 where get: "trr_GetByID (cs_tracks (core_catalog ex md)) i w = (Inr t, w1)"
    and as: "trr_ListAudioAssets (cs_tracks (core_catalog ex md)) i w1 = (Inr as, w')"
    by (auto simp: GetTrack_def split: sum.splits if_splits)
  from get obtain p p' where "pg_track_GetByID (mx_env md) i p = (Inr t, p')" and p: "pg_tables p = catalog_of w"
    "pg_tables p' = catalog_of w1"
    by (auto simp: core_catalog_def pg_tracks_def elim: on_catalog_media)
  moreover from as obtain q q' where "pg_ListAudioAssets i q = (Inr as, q')" and "pg_tables q = catalog_of w1"
    by (auto simp: core_catalog_def pg_tracks_def elim: on_catalog_media)
  moreover have "pg_tables p' = pg_tables p" using keepsD [OF catalog_reads_keep(1) calculation(1)] .
  ultimately show ?thesis
    by (fastforce simp: pg_track_GetByID_def trackArtists_def pg_ListAudioAssets_def elim!: pg_run_InrE split: option.splits)
qed

section \<open>The searches\<close>

text \<open>One search of the service as a function of its cursor.\<close>

definition track_pages :: "'w CatalogService \<Rightarrow> string \<Rightarrow> int \<Rightarrow> string \<Rightarrow> ('w, Track list \<times> string) io" where
  "track_pages s q limit c =
     bindE (catalog_Search s \<lparr>si_Query = q, si_Type = SearchTypeTrack, si_Cursor = c, si_Limit = limit\<rparr>) (\<lambda>res.
     ret (so_Tracks res, so_NextCursor res))"

definition matching_tracks :: "catalog_env \<Rightarrow> string \<Rightarrow> catalog_tables \<Rightarrow> Track list" where
  "matching_tracks env q tb =
     filter (\<lambda>t. ce_similarity env (trk_Title t) (TrimSpace q) > similarityThreshold) (ct_tracks tb)"

lemma matching_distinct:
  "catalog_wf tb \<Longrightarrow> distinct (map (\<lambda>t. (trk_Title t, trk_ID t)) (matching_tracks env q tb))"
proof -
  assume "catalog_wf tb"
  then have "distinct (map trk_ID (matching_tracks env q tb))"
    by (simp add: catalog_wf_def matching_tracks_def distinct_map_filter)
  then have "distinct (map snd (map (\<lambda>t. (trk_Title t, trk_ID t)) (matching_tracks env q tb)))" by (simp add: comp_def)
  then show ?thesis by (simp only: distinct_map)
qed

definition search_size :: "int \<Rightarrow> nat" where
  "search_size limit = nat (clamp_limit defaultSearchLimit maxSearchLimit limit)"

end
