(* ===== verification/Core_Library.thy ===== *)
theory Core_Library
  imports Core
begin

text \<open>
  The library module and the searches of the catalog in the core process: the tables and services of
  \<open>Core\<close> meet the contracts of \<open>Library_Laws\<close> and \<open>Paging\<close>.
\<close>

section \<open>Playlists\<close>

definition playlists :: "('r, 'i, 'x) core \<Rightarrow> Playlist list" where
  "playlists w = md_playlists (media w)"

definition entries :: "('r, 'i, 'x) core \<Rightarrow> PlaylistTrack list" where
  "entries w = md_entries (media w)"

definition saved_rows :: "('r, 'i, 'x) core \<Rightarrow> LibraryTrack list" where
  "saved_rows w = md_saved (media w)"

lemmas views = playlists_def entries_def saved_rows_def

lemma views_keep:
  "keeps media m \<Longrightarrow> keeps playlists m" "keeps media m \<Longrightarrow> keeps entries m" "keeps media m \<Longrightarrow> keeps saved_rows m"
  "keeps media m \<Longrightarrow> keeps core_tracks m"
  by (auto simp: keeps_def views core_tracks_def)

lemma media_run:
  assumes "on_media m w = (x, w')"
  obtains p p' where "m p = (x, p')" and "pg_tables p = media w" and "pg_tables p' = media w'"
  using on_core(2) [OF assms] by (auto simp: media_def)

lemma playlist_reads_keep:
  "keeps pg_tables (pg_playlist_GetByID i)" "keeps pg_tables (pg_entry_List p)" "keeps pg_tables (pg_MaxPosition p)"
  "keeps pg_tables (pg_saved_List cc u c l)"
  unfolding pg_playlist_GetByID_def pg_entry_List_def pg_MaxPosition_def pg_saved_List_def
  by (intro keeps_intros keeps_pg_read [where f = "\<lambda>t. t"]; simp)+

lemma foldl_max: "foldl max (p :: real) ps \<in> set (p # ps) \<and> (\<forall>x \<in> set (p # ps). x \<le> foldl max p ps)"
proof (induction ps arbitrary: p)
  case (Cons q ps)
  from Cons [of "max p q"] show ?case by (auto simp: max_def split: if_splits)
qed simp

lemma MaxPosition_answer:
  assumes "pg_MaxPosition p q = (Inr m, q')"
  shows "(case m of None \<Rightarrow> rows_of p (md_entries (pg_tables q)) = []
      | Some x \<Rightarrow> x \<in> plt_Position ` set (rows_of p (md_entries (pg_tables q)))
          \<and> (\<forall>e \<in> set (md_entries (pg_tables q)). plt_PlaylistID e = p \<longrightarrow> plt_Position e \<le> x))"
proof (cases "filter (\<lambda>q. plt_PlaylistID q = p) (md_entries (pg_tables q))")
  case Nil
  then show ?thesis using assms by (auto simp: pg_MaxPosition_def rows_of_def elim!: pg_run_InrE)
next
  case (Cons e es)
  then have m: "m = Some (foldl max (plt_Position e) (map plt_Position es))"
    using assms by (auto simp: pg_MaxPosition_def elim!: pg_run_InrE)
  have "set (e # es) = {x \<in> set (md_entries (pg_tables q)). plt_PlaylistID x = p}"
    using Cons [symmetric] by simp
  moreover note foldl_max [of "plt_Position e" "map plt_Position es"]
  ultimately show ?thesis by (auto simp: m)
qed

lemma updated_rows:
  "tb\<lparr>md_entries := es\<rparr> = tb' \<Longrightarrow> md_entries tb' = es \<and> md_playlists tb' = md_playlists tb"
  "tb\<lparr>md_saved := ls\<rparr> = tb' \<Longrightarrow> md_saved tb' = ls"
  by auto

lemma Remove_answer:
  "pg_entry_Remove p t q = (Inr u, q') \<Longrightarrow> md_entries (pg_tables q') = without p t (md_entries (pg_tables q))"
  "pg_entry_Remove p t q = (Inl e, q') \<Longrightarrow>
     md_entries (pg_tables q') = md_entries (pg_tables q) \<or> md_entries (pg_tables q') = without p t (md_entries (pg_tables q))"
  by (auto simp: pg_entry_Remove_def delete_entries_def Let_def without_def comp_def split: if_splits
      elim!: bindE_InlE pg_run_InlE pg_run_InrE dest!: updated_rows)

lemma Add_answer:
  "pg_entry_Add x q = (Inr u, q') \<Longrightarrow> md_entries (pg_tables q') = md_entries (pg_tables q) @ [x]"
  "pg_entry_Add x q = (Inl e, q') \<Longrightarrow>
     md_entries (pg_tables q') = md_entries (pg_tables q) \<or> md_entries (pg_tables q') = md_entries (pg_tables q) @ [x]"
  by (auto simp: pg_entry_Add_def insert_entry_def split: if_splits elim!: pg_run_InlE pg_run_InrE dest!: updated_rows)

lemma writes_keep_lists:
  "keeps (\<lambda>q. md_playlists (pg_tables q)) (pg_entry_Add x)" "keeps (\<lambda>q. md_playlists (pg_tables q)) (pg_entry_Remove p t)"
  unfolding pg_entry_Add_def pg_entry_Remove_def
  by (intro keeps_intros keeps_pg_run [where f = md_playlists]; simp add: insert_entry_def delete_entries_def Let_def)+

interpretation core_playlists: playlist_store "ls_playlists (core_library ex md)" "ls_playlistTracks (core_library ex md)"
  playlists entries
proof
  fix i p t pl xs m x e u er w w'
  note simps = core_library_def pg_playlists_def pg_entries_def
  note kept = views_keep(1,2) keeps_media(2) [where f = "\<lambda>t. t"] playlist_reads_keep
  show "plr_GetByID (ls_playlists (core_library ex md)) i w = (Inr pl, w') \<Longrightarrow> pl \<in> set (playlists w) \<and> ply_ID pl = i"
    for w w'
    by (auto simp: simps pg_playlist_GetByID_def views elim!: media_run pg_run_InrE split: option.splits dest: pg_find)
  show "keeps playlists (plr_GetByID (ls_playlists (core_library ex md)) i)"
    "keeps entries (plr_GetByID (ls_playlists (core_library ex md)) i)"
    "keeps playlists (ptr_List (ls_playlistTracks (core_library ex md)) p)"
    "keeps entries (ptr_List (ls_playlistTracks (core_library ex md)) p)"
    "keeps playlists (ptr_MaxPosition (ls_playlistTracks (core_library ex md)) p)"
    "keeps entries (ptr_MaxPosition (ls_playlistTracks (core_library ex md)) p)"
    by (simp_all add: simps kept)
  show "keeps playlists (ptr_Add (ls_playlistTracks (core_library ex md)) e)"
    "keeps playlists (ptr_Remove (ls_playlistTracks (core_library ex md)) p t)"
    unfolding playlists_def [abs_def] simps
    by (simp_all add: keeps_media(2) writes_keep_lists)
  show "ptr_List (ls_playlistTracks (core_library ex md)) p w = (Inr xs, w') \<Longrightarrow> xs = rows_of p (entries w)" for w w'
    by (auto simp: simps pg_entry_List_def entries_of_def rows_of_def views elim!: media_run pg_run_InrE)
  show "ptr_MaxPosition (ls_playlistTracks (core_library ex md)) p w = (Inr m, w') \<Longrightarrow>
      (case m of None \<Rightarrow> rows_of p (entries w) = []
       | Some x \<Rightarrow> \<forall>e \<in> set (entries w). plt_PlaylistID e = p \<longrightarrow> plt_Position e \<le> x)" for w w'
    by (auto simp: simps views elim!: media_run dest!: MaxPosition_answer split: option.splits)
  show "ptr_MaxPosition (ls_playlistTracks (core_library ex md)) p w = (Inr (Some x), w') \<Longrightarrow>
      x \<in> plt_Position ` set (rows_of p (entries w))" for w w'
    by (auto simp: simps views elim!: media_run dest!: MaxPosition_answer)
  show "ptr_Add (ls_playlistTracks (core_library ex md)) e w = (Inr (), w') \<Longrightarrow> entries w' = entries w @ [e]" for w w'
    by (auto simp: simps views elim!: media_run dest!: Add_answer)
  show "ptr_Add (ls_playlistTracks (core_library ex md)) e w = (Inl er, w') \<Longrightarrow>
      entries w' = entries w \<or> entries w' = entries w @ [e]" for w w'
    by (auto simp: simps views elim!: media_run dest!: Add_answer)
  show "ptr_Remove (ls_playlistTracks (core_library ex md)) p t w = (Inr (), w') \<Longrightarrow> entries w' = without p t (entries w)"
    for w w'
    by (auto simp: simps views elim!: media_run dest!: Remove_answer)
  show "ptr_Remove (ls_playlistTracks (core_library ex md)) p t w = (Inl er, w') \<Longrightarrow>
      entries w' = entries w \<or> entries w' = without p t (entries w)" for w w'
    by (auto simp: simps views elim!: media_run dest!: Remove_answer)
qed

lemma library_clock_keeps_media:
  "keeps media (Now core_clock)" "keeps media (NewID (core_ids ex))"
  unfolding core_clock_def core_ids_def by (simp_all add: keeps_media)

interpretation core_lists: playlist_service "core_library ex md" playlists entries core_tracks
proof (unfold_locales, simp_all add: core_library_def library_clock_keeps_media views_keep TrackExists_keeps_media
    pg_playlists_def keeps_media(2) [where f = "\<lambda>t. t"] playlist_reads_keep core_TrackExists core_checker.exists_keeps)
qed

section \<open>Cursors\<close>

text \<open>
  What the code relies on of base64, of \<^verbatim>\<open>encoding/json\<close> and of the collation: a cursor is a text that
  is decoded to what it was made from, and the collation orders all texts.
\<close>

locale cursor_texts =
  fixes env :: catalog_env and cc :: cursor_codec
  assumes name_cursor: "ce_encode env k \<noteq> ''''" "ce_decode env (ce_encode env k) = Some k"
    and time_cursor: "cc_encode cc k2 \<noteq> ''''" "cc_decode cc (cc_encode cc k2) = Some k2"
    and collation: "strict_order (ce_collate env)"

lemma latest_down_order: "strict_order latest_down"
  by unfold_locales
    (auto simp: latest_down_def bytes.lt_irrefl dest: bytes.lt_trans bytes.lt_total)

lemma Saved_answers:
  "pg_saved_Add x q = (Inr u, q') \<Longrightarrow> md_saved (pg_tables q') = save_row x (md_saved (pg_tables q))"
  "pg_saved_Add x q = (Inl e, q') \<Longrightarrow>
     md_saved (pg_tables q') = md_saved (pg_tables q) \<or> md_saved (pg_tables q') = save_row x (md_saved (pg_tables q))"
  "pg_saved_Remove v t q = (Inr u, q') \<Longrightarrow> md_saved (pg_tables q') = unsave_row v t (md_saved (pg_tables q))"
  "pg_saved_Remove v t q = (Inl e, q') \<Longrightarrow>
     md_saved (pg_tables q') = md_saved (pg_tables q) \<or> md_saved (pg_tables q') = unsave_row v t (md_saved (pg_tables q))"
  by (auto simp: pg_saved_Add_def pg_saved_Remove_def insert_saved_def save_row_def unsave_row_def split: if_splits
      elim!: pg_run_InlE pg_run_InrE dest!: updated_rows)

context cursor_texts
begin

lemma search_order: "strict_order (by_name_id (ce_collate env) byte_lt)"
  by (rule by_name_id_order [OF collation bytes.strict_order_axioms])

lemma saved_answer:
  assumes "pg_saved_List cc u (cursor_text (cc_encode cc) c) l q = (Inr (xs, n), q')"
  shows "(xs, n) = map_prod id (cursor_text (cc_encode cc))
    (keyset_page latest_down saved_key (nat l) c (filter (\<lambda>q. lit_UserID q = u) (md_saved (pg_tables q))))"
proof -
  have "(if cursor_text (cc_encode cc) c = '''' then Some None else map_option Some (cc_decode cc (cursor_text (cc_encode cc) c)))
      = Some c"
    using time_cursor by (auto simp: cursor_text_def split: option.split)
  with assms show ?thesis
    by (simp only: pg_saved_List_def option.case)
      (elim pg_run_InrE, auto simp: cursor_text_def split: prod.splits option.splits)
qed

lemma core_saved_laws:
  assumes "mx_codec md = cc"
  shows "saved_service latest_down (core_library ex md) saved_rows (cc_encode cc) core_tracks"
proof (intro saved_service.intro saved_store.intro saved_store_axioms.intro saved_service_axioms.intro latest_down_order)
  fix x w w' e u t l c xs n k k2
  note simps = core_library_def pg_saved_def assms
  show "ltr_Add (ls_libraryTracks (core_library ex md)) x w = (Inr (), w') \<Longrightarrow> saved_rows w' = save_row x (saved_rows w)" for w w'
    by (auto simp: simps views elim!: media_run dest!: Saved_answers)
  show "ltr_Add (ls_libraryTracks (core_library ex md)) x w = (Inl e, w') \<Longrightarrow>
      saved_rows w' = saved_rows w \<or> saved_rows w' = save_row x (saved_rows w)" for w w'
    by (auto simp: simps views elim!: media_run dest!: Saved_answers)
  show "ltr_Remove (ls_libraryTracks (core_library ex md)) u t w = (Inr (), w') \<Longrightarrow> saved_rows w' = unsave_row u t (saved_rows w)" for w w'
    by (auto simp: simps views elim!: media_run dest!: Saved_answers)
  show "ltr_Remove (ls_libraryTracks (core_library ex md)) u t w = (Inl e, w') \<Longrightarrow>
      saved_rows w' = saved_rows w \<or> saved_rows w' = unsave_row u t (saved_rows w)" for w w'
    by (auto simp: simps views elim!: media_run dest!: Saved_answers)
  show "ltr_List (ls_libraryTracks (core_library ex md)) u (cursor_text (cc_encode cc) c) l w = (Inr (xs, n), w') \<Longrightarrow>
      (xs, n) = map_prod id (cursor_text (cc_encode cc))
        (keyset_page latest_down saved_key (nat l) c (filter (\<lambda>q. lit_UserID q = u) (saved_rows w)))" for w w'
    using saved_answer by (fastforce simp: simps views elim!: media_run)
  show "keeps saved_rows (ltr_List (ls_libraryTracks (core_library ex md)) u k l)"
    by (simp add: simps views_keep keeps_media(2) [where f = "\<lambda>t. t"] playlist_reads_keep)
  show "cc_encode cc k2 \<noteq> ''''" by (rule time_cursor)
  show "track_checker (lck_TrackExists (ls_tracks (core_library ex md))) core_tracks"
    by (simp add: core_library_def core_checker.track_checker_axioms)
  show "keeps saved_rows (Now (ls_clock (core_library ex md)))"
    by (simp add: core_library_def library_clock_keeps_media views_keep)
  show "keeps saved_rows (lck_TrackExists (ls_tracks (core_library ex md)) t)"
    by (simp add: core_library_def TrackExists_keeps_media views_keep)
qed

text \<open>The search for tracks is a paged query on the tracks whose title is similar enough.\<close>

lemma tracks_paged:
  assumes "mx_env md = env" and "TrimSpace q \<noteq> ''''"
  shows "paged (by_name_id (ce_collate env) byte_lt) (\<lambda>t. (trk_Title t, trk_ID t)) (ce_encode env)
    (search_size limit) (\<lambda>w. matching_tracks env q (catalog_of w)) (track_pages (core_catalog ex md) q limit)"
proof (intro paged.intro paged_axioms.intro search_order name_cursor)
  fix c w items nx w' tx
  let ?l = "clamp_limit defaultSearchLimit maxSearchLimit limit"
  let ?search = "\<lambda>c. wrapE ''catalog: search tracks'' (on_media (on_catalog (name_search env ct_tracks trk_Title trk_ID (TrimSpace q) c ?l)))"
  have def: "track_pages (core_catalog ex md) q limit c = bindE (?search c) (\<lambda>p. ret (page_Items p, page_NextCursor p))" for c
    using assms by (simp add: track_pages_def catalog_Search_def core_catalog_def pg_tracks_def pg_track_Search_def
        bindE_assoc Let_def del: ret_apply)
  show "0 < search_size limit"
    by (auto simp: search_size_def clamp_limit_def Let_def defaultSearchLimit_def maxSearchLimit_def)
  have "keeps pg_tables (name_search env ct_tracks trk_Title trk_ID (TrimSpace q) tx ?l)"
    unfolding name_search_def by (intro keeps_intros keeps_pg_read [where f = "\<lambda>t. t"]; simp)
  from read_keeps [OF this] have "keeps catalog_of (track_pages (core_catalog ex md) q limit tx)"
    unfolding def by (intro keeps_intros)
  then show "keeps (\<lambda>w. matching_tracks env q (catalog_of w)) (track_pages (core_catalog ex md) q limit tx)"
    by (simp add: keeps_def)
  assume "track_pages (core_catalog ex md) q limit (cursor_text (ce_encode env) c) w = (Inr (items, nx), w')"
  then obtain p where "on_media (on_catalog (name_search env ct_tracks trk_Title trk_ID (TrimSpace q)
      (cursor_text (ce_encode env) c) ?l)) w = (Inr p, w')" and pg: "items = page_Items p" "nx = page_NextCursor p"
    unfolding def by auto
  then obtain r r' where "name_search env ct_tracks trk_Title trk_ID (TrimSpace q) (cursor_text (ce_encode env) c) ?l r = (Inr p, r')"
    and "pg_tables r = catalog_of w" by (auto elim: on_catalog_media)
  from name_search_page [OF name_cursor this(1)] this(2) pg
  show "(items, nx) = map_prod id (cursor_text (ce_encode env))
      (keyset_page (by_name_id (ce_collate env) byte_lt) (\<lambda>t. (trk_Title t, trk_ID t)) (search_size limit) c
        (matching_tracks env q (catalog_of w)))"
    by (simp add: search_size_def matching_tracks_def)
qed

end

section \<open>A deployment whose cursors are plain texts\<close>

text \<open>
  A number is written in ones before the text; similar are the titles that start with the text
  searched for; titles come in byte order.
\<close>

definition count_text :: "nat \<Rightarrow> string \<Rightarrow> string" where
  "count_text n s = replicate n CHR ''1'' @ ''0'' @ s"

definition uncount_text :: "string \<Rightarrow> nat \<times> string" where
  "uncount_text s = (let n = length (takeWhile (\<lambda>c. c = CHR ''1'') s) in (n, drop (Suc n) s))"

lemma uncount_count [simp]: "uncount_text (count_text n s) = (n, s)"
  by (simp add: uncount_text_def count_text_def takeWhile_append Let_def)

lemma count_text_nonempty [simp]: "count_text n s \<noteq> ''''"
  by (simp add: count_text_def)

definition sample_env :: catalog_env where
  "sample_env = \<lparr>ce_collate = byte_lt, ce_similarity = (\<lambda>t q. if take (length q) t = q then 1 else 0),
     ce_encode = (\<lambda>(n, i). count_text (length n) (n @ i)),
     ce_decode = (\<lambda>s. case uncount_text s of (k, r) \<Rightarrow> Some (take k r, drop k r)),
     ce_uuid = (\<lambda>n. ''asset'' @ Itoa (int n))\<rparr>"

definition sample_codec :: cursor_codec where
  "sample_codec = \<lparr>
     cc_encode = (\<lambda>(t, i). count_text (if 0 \<le> t then nat (2 * t) else nat (- 2 * t - 1)) i),
     cc_decode = (\<lambda>s. case uncount_text s of (k, r) \<Rightarrow>
       Some (if even k then int k div 2 else - ((int k + 1) div 2), r))\<rparr>"

definition sample_media :: media_deployment where
  "sample_media = \<lparr>mx_env = sample_env, mx_codec = sample_codec, mx_hmac = (\<lambda>k m. k @ m),
     mx_MediaBaseURL = ''media'', mx_MediaSigningKey = ''key''\<rparr>"

lemma sample_media_simps [simp]: "mx_env sample_media = sample_env" "mx_codec sample_media = sample_codec"
  by (simp_all add: sample_media_def)

interpretation sample_texts: cursor_texts sample_env sample_codec
proof (rule cursor_texts.intro)
  fix k :: "string \<times> string" and k2 :: "time \<times> string"
  show "ce_encode sample_env k \<noteq> ''''" "ce_decode sample_env (ce_encode sample_env k) = Some k"
    by (cases k; simp add: sample_env_def)+
  show "cc_encode sample_codec k2 \<noteq> ''''" by (cases k2) (simp add: sample_codec_def)
  show "cc_decode sample_codec (cc_encode sample_codec k2) = Some k2"
    by (cases k2) (auto simp: sample_codec_def even_nat_iff)
  show "strict_order (ce_collate sample_env)" by (simp add: sample_env_def bytes.strict_order_axioms)
qed

interpretation sample_saved: saved_service latest_down "core_library ex sample_media" saved_rows
    "cc_encode sample_codec" core_tracks
  by (rule sample_texts.core_saved_laws) simp

interpretation sample_search: paged "by_name_id (ce_collate sample_env) byte_lt" "\<lambda>t. (trk_Title t, trk_ID t)"
    "ce_encode sample_env" "search_size limit" "\<lambda>w. matching_tracks sample_env ''song'' (catalog_of w)"
    "track_pages (core_catalog ex sample_media) ''song'' limit"
  by (rule sample_texts.tracks_paged) (simp, subst TrimSpace_visible, auto simp: visible_ascii_def)

end
