(* ===== verification/Core_Samples.thy ===== *)
theory Core_Samples
  imports Core_Library Samples
begin

text \<open>
  A small world for the claims on playback, catalog and library: one artist with two tracks, a user
  with a playlist, a saved track and a playback session, and stores that answer.
\<close>

definition sample_artist :: Artist where
  "sample_artist = \<lparr>art_ID = ''r'', art_Name = ''Ann'', art_Slug = '''', art_Bio = '''', art_ImageURL = '''',
     art_Verified = False, art_CreatedAt = 0, art_UpdatedAt = 0\<rparr>"

definition sample_track :: "string \<Rightarrow> string \<Rightarrow> Track" where
  "sample_track i title = \<lparr>trk_ID = i, trk_Title = title, trk_AlbumID = '''', trk_DurationMs = 1000,
     trk_TrackNumber = None, trk_ISRC = '''', trk_Explicit = False, trk_PopularityScore = 0, trk_Artists = [],
     trk_CreatedAt = 0, trk_UpdatedAt = 0\<rparr>"

definition sample_catalog :: catalog_tables where
  "sample_catalog = \<lparr>ct_artists = [sample_artist], ct_albums = [],
     ct_tracks = [sample_track ''t1'' ''song one'', sample_track ''t2'' ''song two''],
     ct_credits = [(''t1'', ''r'', ArtistRolePrimary), (''t2'', ''r'', ArtistRolePrimary)],
     ct_assets = [], ct_uuids = 0\<rparr>"

definition sample_playlist :: Playlist where
  "sample_playlist = \<lparr>ply_ID = ''p'', ply_OwnerID = ''a'', ply_Title = ''mine'', ply_Description = '''',
     ply_Visibility = VisibilityPrivate, ply_CoverURL = '''', ply_CreatedAt = 0, ply_UpdatedAt = 0\<rparr>"

definition sample_entry_row :: PlaylistTrack where
  "sample_entry_row = \<lparr>plt_ID = ''e1'', plt_PlaylistID = ''p'', plt_TrackID = ''t1'', plt_Position = 1024,
     plt_AddedBy = ''a'', plt_AddedAt = 0\<rparr>"

definition sample_media_tables :: media_tables where
  "sample_media_tables = \<lparr>md_users = {''a''}, md_catalog = sample_catalog, md_playlists = [sample_playlist],
     md_entries = [sample_entry_row], md_saved = [\<lparr>lit_UserID = ''a'', lit_TrackID = ''t1'', lit_AddedAt = 0\<rparr>]\<rparr>"

definition sample_playing :: SessionState where
  "sample_playing = \<lparr>ss_SessionID = ''s'', ss_UserID = ''a'', ss_DeviceID = '''', ss_TrackID = ''t1'',
     ss_PositionMs = 5, ss_IsPlaying = True, ss_Queue = [], ss_UpdatedAt = 0\<rparr>"

definition sample_core :: "(mem, Sequential, nat) core" where
  "sample_core = \<lparr>co_world = sample_world\<lparr>w_redis := \<lparr>contents = \<lparr>
       rs_kv = [sessionKey ''s'' \<mapsto> (RJson (marshal_session sample_playing), None)], rs_geo = (\<lambda>_. []), rs_now = 0\<rparr>,
       script = []\<rparr>\<rparr>,
     co_media = pg_start sample_media_tables\<rparr>"

lemmas sample_core_eval =
  on_world_def on_media_def on_catalog_def catalog_pg_def pg_start_def pg_run_def core_clock_def core_ids_def
  zoom_def on_defs io_unfold world_clock_def world_ids_def Real_clock_def read_wall.simps
  Sequential_gen_def Sequential_NewID_def NewSequential_def Let_def duration_defs

lemma same_media: "co_media w = p \<Longrightarrow> w\<lparr>co_media := p\<rparr> = w" for w :: "('r, 'i, 'x) core"
  by (cases w) simp

text \<open>Operations on the tables of a state whose database answers.\<close>

lemma on_media_bindE:
  "on_media (bindE m k) = bindE (on_media m) (\<lambda>x. on_media (k x))"
  "on_media (ret x) = ret x" "on_media (throw e) = throw e"
  by (auto simp: on_media_def zoom_def io_unfold same_media fun_eq_iff split: prod.split sum.split)

lemma on_media_start:
  "co_media w = pg_start tb \<Longrightarrow> on_media (pg_run stmt) w = (case stmt 0 tb of (x, tb') \<Rightarrow> (x, w\<lparr>co_media := pg_start tb'\<rparr>))"
  by (simp add: on_media_def zoom_def split: prod.split)

lemma on_sample_catalog:
  assumes "co_media w = pg_start tb" and "md_catalog tb = sample_catalog"
    and "m (pg_start sample_catalog) = (x, pg_start sample_catalog)"
  shows "on_media (on_catalog m) w = (x, w)"
proof -
  have "w\<lparr>co_media := pg_start tb\<rparr> = w" by (rule same_media) (rule assms(1))
  moreover have "tb\<lparr>md_catalog := sample_catalog\<rparr> = tb" using assms(2) by (cases tb) simp
  ultimately show ?thesis
    using assms by (simp add: on_media_def on_catalog_def catalog_pg_def zoom_def pg_start_def)
qed

text \<open>In any state whose catalog is the sample, both tracks exist.\<close>

lemma sample_TrackExists:
  assumes "co_media w = pg_start tb" and "md_catalog tb = sample_catalog" and "t = ''t1'' \<or> t = ''t2''"
  shows "TrackExists (core_catalog ex sample_media) t w = (Inr True, w)"
proof -
  have "pg_track_GetByID sample_env t (pg_start sample_catalog)
      = (Inr ((if t = ''t1'' then sample_track ''t1'' ''song one'' else sample_track ''t2'' ''song two'')
          \<lparr>trk_Artists := [\<lparr>ta_ArtistID = ''r'', ta_ArtistName = ''Ann'', ta_Role = ArtistRolePrimary\<rparr>]\<rparr>), pg_start sample_catalog)"
    using assms(3) by (auto simp: pg_track_GetByID_def trackArtists_def credits_of_def bindE_def sample_catalog_def sample_track_def
        sample_artist_def)
  note get = on_sample_catalog [where m = "pg_track_GetByID sample_env t", OF assms(1,2) this]
  have "pg_ListAudioAssets t (pg_start sample_catalog) = (Inr [], pg_start sample_catalog)"
    by (simp add: pg_ListAudioAssets_def sample_catalog_def)
  note assets = on_sample_catalog [where m = "pg_ListAudioAssets t", OF assms(1,2) this]
  have "t \<noteq> ''''" using assms(3) by auto
  then show ?thesis
    by (simp add: TrackExists_def GetTrack_def core_catalog_def pg_tracks_def io_unfold get assets)
qed

section \<open>Playback\<close>

lemma sample_core_media [simp]: "co_media sample_core = pg_start sample_media_tables"
  by (simp add: sample_core_def)

lemma sample_media_catalog [simp]: "md_catalog sample_media_tables = sample_catalog"
  by (simp add: sample_media_tables_def)

lemma sample_session_stored:
  "core_sessions contents sample_core = [''s'' \<mapsto> sample_playing]"
proof
  fix i
  show "core_sessions contents sample_core i = [''s'' \<mapsto> sample_playing] i"
    by (simp add: core_sessions_def sample_core_def sessions_in_def sessionKey_def unmarshal_marshal_session)
qed

lemma sample_sessions_wf: "sessions_wf (core_sessions contents sample_core)"
  by (simp add: sample_session_stored sessions_wf_def sample_playing_def)

lemma sample_redis_server: "redis_server (ex_redis sample_ex) contents id DistanceMeters"
  by (simp add: sample_ex_def mem_server.redis_server_axioms)

lemma sample_session_valid: "session_valid sample_playing"
  by (simp add: session_valid_def sample_playing_def)

text \<open>The parts of a request on the session: its owner reads it, another user is refused, a save.\<close>

lemma sample_own: "getOwnedSession (core_playback sample_ex sample_media) ''s'' ''a'' sample_core = (Inr sample_playing, sample_core)"
  by (simp add: getOwnedSession_def core_playback_def SessionStore_def SessionStore_Load_def sample_core_eval sample_parts
      sample_core_def sample_world_def mem_eval unmarshal_marshal_session sample_playing_def fun_eq_iff)

lemma sample_not_own: "getOwnedSession (core_playback sample_ex sample_media) ''s'' ''b'' sample_core = (Inl (Sentinel ErrForbidden), sample_core)"
  by (simp add: getOwnedSession_def core_playback_def SessionStore_def SessionStore_Load_def sample_core_eval sample_parts
      sample_core_def sample_world_def mem_eval unmarshal_marshal_session sample_playing_def fun_eq_iff)

lemma sample_now: "Now (ps_clock (core_playback sample_ex sample_media)) sample_core = (10, sample_core)"
  by (simp add: core_playback_def sample_core_eval sample_core_def sample_world_def)

definition sample_paused :: SessionState where
  "sample_paused = sample_playing\<lparr>ss_IsPlaying := False, ss_UpdatedAt := 10\<rparr>"

lemma sample_write_session:
  "\<exists>w'. write_session (core_playback sample_ex sample_media) CPause sample_paused sample_core = (Inr (), w')
     \<and> core_sessions contents w' ''s'' = Some sample_paused"
  by (simp add: write_session_def core_playback_def SessionStore_def SessionStore_Save_def
      sample_core_eval sample_parts sample_core_def sample_world_def mem_eval unmarshal_marshal_session sample_paused_def
      sample_playing_def core_sessions_def sessions_in_def)

lemma sample_parts_of_pause:
  "\<exists>w'. next_part (core_playback sample_ex sample_media) ''s'' ''a'' CPause Asked sample_core = (Inr (Loaded sample_playing), sample_core)
     \<and> next_part (core_playback sample_ex sample_media) ''s'' ''a'' CPause (Loaded sample_playing) sample_core = (Inr (Ready sample_paused), sample_core)
     \<and> next_part (core_playback sample_ex sample_media) ''s'' ''a'' CPause (Ready sample_paused) sample_core = (Inr (Stored sample_paused), w')
     \<and> next_part (core_playback sample_ex sample_media) ''s'' ''a'' CPause (Stored sample_paused) w' = (Inr (Finished sample_paused), w')
     \<and> next_part (core_playback sample_ex sample_media) ''s'' ''b'' CPause Asked sample_core = (Inl (Sentinel ErrForbidden), sample_core)
     \<and> core_sessions contents w' ''s'' = Some sample_paused"
proof -
  obtain w' where "write_session (core_playback sample_ex sample_media) CPause sample_paused sample_core = (Inr (), w')"
    "core_sessions contents w' ''s'' = Some sample_paused" using sample_write_session by blast
  then show ?thesis
    by (intro exI [of _ w'])
      (simp add: read_session_def stamped_def note_play_def sample_own sample_not_own sample_now bindE_def call_def sample_paused_def)
qed

lemma sample_enqueue_read:
  assumes "t = ''t1'' \<or> t = ''t2''"
  shows "enqueue_read (core_playback sample_ex sample_media) ''s'' ''a'' [t] EnqueuePositionEnd sample_core
    = (Inr (sample_playing\<lparr>ss_Queue := [t], ss_UpdatedAt := 10\<rparr>), sample_core)"
proof -
  have chk: "check_tracks (core_playback sample_ex sample_media) [t] sample_core = (Inr (), sample_core)"
    using sample_TrackExists [OF sample_core_media sample_media_catalog assms] by (simp add: core_playback_def bindE_def wrapE_def)
  show ?thesis
    using assms
    by (auto simp: enqueue_read_def bindE_def sample_own chk call_def sample_now sample_playing_def EnqueuePositionEnd_def
        EnqueuePositionNext_def simp del: check_tracks.simps)
qed

lemma sample_enqueue_write:
  "\<exists>w'. enqueue_write (core_playback sample_ex sample_media) st sample_core = (Inr st, w')
     \<and> (\<exists>w''. enqueue_write (core_playback sample_ex sample_media) st' w' = (Inr st', w''))"
  by (simp add: enqueue_write_def core_playback_def SessionStore_def SessionStore_Save_def sample_core_eval sample_parts
      sample_core_def sample_world_def mem_eval)

section \<open>The catalog\<close>

definition sample_track_input :: CreateTrackInput where
  "sample_track_input = \<lparr>cti_Title = ''song'', cti_AlbumID = '''', cti_DurationMs = 2000, cti_TrackNumber = None,
     cti_ISRC = '''', cti_Explicit = False,
     cti_Artists = [\<lparr>ta_ArtistID = ''r'', ta_ArtistName = '''', ta_Role = ArtistRolePrimary\<rparr>],
     cti_Assets = [\<lparr>aud_ID = '''', aud_TrackID = '''', aud_StorageURI = ''uri'', aud_BitrateKbps = 320,
                    aud_Codec = ''aac'', aud_QualityTier = ''high''\<rparr>]\<rparr>"

lemma sample_catalog_wf: "catalog_wf (catalog_of sample_core)"
  by (simp add: catalog_wf_def catalog_of_def media_def pg_start_def sample_media_tables_def sample_catalog_def
      sample_track_def sample_artist_def in_int4_def isValidArtistRole_def)

lemma sample_create:
  "\<exists>t w1. CreateTrack (core_catalog sample_ex sample_media) sample_track_input sample_core = (Inr t, w1)
     \<and> (\<exists>t' as w2. GetTrack (core_catalog sample_ex sample_media) (trk_ID t) w1 = (Inr (t', as), w2))"
proof -
  have "TrimSpace ''song'' = ''song''" by (subst TrimSpace_visible) (auto simp: visible_ascii_def)
  then show ?thesis
    by (simp add: CreateTrack_def GetTrack_def sample_track_input_def core_catalog_def pg_tracks_def pg_track_Create_def
        pg_track_GetByID_def trackArtists_def pg_ListAudioAssets_def album_exists_def isValidArtistRole_def
        sample_core_eval sample_parts sample_core_def sample_world_def sample_media_tables_def sample_catalog_def
        sample_track_def sample_artist_def insert_track_tx_def insert_track_def in_int4_def in_int2_def Codecs_def QualityTiers_def
        Itoa_def digits.simps)
qed

lemma sample_one_before_two: "byte_lt ''song one'' ''song two''" "\<not> byte_lt ''song two'' ''song one''"
  "\<not> byte_lt ''song one'' ''song one''"
  by (simp_all add: byte_lt_def)

text \<open>Searching page by page, one track each.\<close>

lemma sample_page:
  assumes "c = None \<and> r = ([sample_track ''t1'' ''song one''], ce_encode sample_env (''song one'', ''t1''))
    \<or> c = Some (''song one'', ''t1'') \<and> r = ([sample_track ''t2'' ''song two''], '''')"
  shows "track_pages (core_catalog ex sample_media) ''song'' 1 (cursor_text (ce_encode sample_env) c) sample_core = (Inr r, sample_core)"
proof -
  have trim: "TrimSpace ''song'' = ''song''" by (subst TrimSpace_visible) (auto simp: visible_ascii_def)
  have "keyset_page (by_name_id byte_lt byte_lt) (\<lambda>x. (trk_Title x, trk_ID x)) 1 c
      [sample_track ''t1'' ''song one'', sample_track ''t2'' ''song two''] =
      (fst r, if c = None then Some (''song one'', ''t1'') else None)"
    using assms by (auto simp: keyset_page_def by_name_id_def sample_track_def sample_one_before_two bytes.lt_irrefl)
  then have "name_search sample_env ct_tracks trk_Title trk_ID ''song'' (cursor_text (ce_encode sample_env) c) 1 (pg_start sample_catalog)
      = (Inr \<lparr>page_Items = fst r, page_NextCursor = snd r\<rparr>, pg_start sample_catalog)"
    using assms sample_texts.name_cursor
    by (auto simp: name_search_def decodeNameCursor_def encodeNameCursor_def cursor_text_def sample_catalog_def sample_track_def
        similarityThreshold_def sample_env_def)
  from on_sample_catalog [where m = "name_search sample_env ct_tracks trk_Title trk_ID ''song'' (cursor_text (ce_encode sample_env) c) 1",
      OF sample_core_media sample_media_catalog this]
  show ?thesis
    by (simp add: track_pages_def catalog_Search_def trim Let_def core_catalog_def pg_tracks_def pg_track_Search_def clamp_limit_def
        maxSearchLimit_def io_unfold)
qed

lemma sample_search:
  "walk_pages (track_pages (core_catalog ex sample_media) ''song'' 1) 3 '''' sample_core
     = (Inr [[sample_track ''t1'' ''song one''], [sample_track ''t2'' ''song two'']], sample_core)"
proof -
  have first: "track_pages (core_catalog ex sample_media) ''song'' 1 '''' sample_core
      = (Inr ([sample_track ''t1'' ''song one''], ce_encode sample_env (''song one'', ''t1'')), sample_core)"
    using sample_page [of None] by (simp add: cursor_text_def)
  have second: "track_pages (core_catalog ex sample_media) ''song'' 1 (ce_encode sample_env (''song one'', ''t1'')) sample_core
      = (Inr ([sample_track ''t2'' ''song two''], ''''), sample_core)"
    using sample_page [of "Some (''song one'', ''t1'')"] by (simp add: cursor_text_def)
  show ?thesis
    using sample_texts.name_cursor(1) by (simp add: numeral_3_eq_3 bindE_Inr [where m = "track_pages a b c d" for a b c d, OF first] bindE_def first second)
qed

section \<open>The library\<close>

text \<open>
  Adding the second track to the playlist of a state whose database answers, at the start, in a
  world whose next identifier is not taken.
\<close>

lemma sample_add:
  fixes w :: "(mem, Sequential, nat) core"
  assumes "co_media w = pg_start tb" and "md_catalog tb = sample_catalog" and "md_users tb = {''a''}"
    and "md_playlists tb = [sample_playlist]" and "fst (NewID (core_ids sample_ex) w) \<notin> plt_ID ` set (md_entries tb)"
  shows "\<exists>pt w'. AddTrack (core_library sample_ex sample_media) ''p'' ''a'' ''t2'' PositionStart w = (Inr pt, w')
    \<and> co_media w' = pg_start (tb\<lparr>md_entries := md_entries tb @ [pt]\<rparr>)
    \<and> plt_ID pt = fst (NewID (core_ids sample_ex) w) \<and> w_ids (co_world w') = w_ids (co_world (snd (NewID (core_ids sample_ex) w)))"
proof -
  let ?s = "core_library sample_ex sample_media"
  have tb: "tb\<lparr>md_playlists := md_playlists tb\<rparr> = tb" by simp
  have "on_media (pg_playlist_GetByID ''p'') w = (Inr sample_playlist, w)"
    unfolding pg_playlist_GetByID_def on_media_bindE
    using assms by (simp add: bindE_def on_media_start on_media_bindE same_media sample_playlist_def)
  then have own: "getOwnedPlaylist ?s ''p'' ''a'' w = (Inr sample_playlist, w)"
    by (simp add: getOwnedPlaylist_def getPlaylist_def core_library_def pg_playlists_def io_unfold sample_playlist_def)
  have exists: "lck_TrackExists (ls_tracks ?s) ''t2'' w = (Inr True, w)"
    using sample_TrackExists [OF assms(1,2)] by (simp add: core_library_def)
  obtain pos where pos: "computePosition ?s ''p'' PositionStart w = (Inr pos, w)"
    using assms(1) by (cases "entries_of ''p'' tb") (simp_all add: computePosition_def core_library_def pg_entries_def
        pg_entry_List_def on_media_start same_media io_unfold)
  obtain i w1 where new: "NewID (core_ids sample_ex) w = (i, w1)" by fastforce
  obtain now w2 where clk: "Now core_clock w1 = (now, w2)" by fastforce
  have db: "co_media w2 = pg_start tb" "co_media w1 = pg_start tb"
    using new clk assms(1) by (auto simp: core_ids_def core_clock_def dest!: on_core(1))
  have ids: "w_ids (co_world w2) = w_ids (co_world w1)"
    using clk by (auto simp: sample_core_eval split: prod.splits)
  let ?pt = "\<lparr>plt_ID = i, plt_PlaylistID = ''p'', plt_TrackID = ''t2'', plt_Position = pos, plt_AddedBy = ''a'', plt_AddedAt = now\<rparr>"
  have "insert_entry ?pt tb = (Inr (), tb\<lparr>md_entries := md_entries tb @ [?pt]\<rparr>)"
    using assms new by (auto simp: insert_entry_def sample_playlist_def sample_catalog_def sample_track_def)
  then have add: "ptr_Add (ls_playlistTracks ?s) ?pt w2 = (Inr (), w2\<lparr>co_media := pg_start (tb\<lparr>md_entries := md_entries tb @ [?pt]\<rparr>)\<rparr>)"
    using db by (simp add: core_library_def pg_entries_def pg_entry_Add_def on_media_start)
  have parts: "ls_ids ?s = core_ids sample_ex" "ls_clock ?s = core_clock" by (simp_all add: core_library_def)
  show ?thesis
    using new ids by (simp add: AddTrack_def bindE_def wrapE_def own exists pos call_def parts new clk add Let_def)
qed

lemma sample_ids: "fst (NewID (core_ids sample_ex) w) = fst (Sequential_NewID (w_ids (co_world w)))"
  "w_ids (co_world (snd (NewID (core_ids sample_ex) w))) = snd (Sequential_NewID (w_ids (co_world w)))"
  by (simp_all add: core_ids_def on_world_def world_ids_def on_ids_def zoom_def sample_parts Sequential_gen_def split: prod.splits)

lemma sample_core_ids [simp]: "w_ids (co_world sample_core) = NewSequential ''id''"
  by (simp add: sample_core_def sample_world_def)

text \<open>The first and the second track added to a playlist, and a track removed from it.\<close>

lemma sample_add_first:
  assumes "tb = sample_media_tables \<or> tb = sample_media_tables\<lparr>md_entries := []\<rparr>"
  obtains pt w where "AddTrack (core_library sample_ex sample_media) ''p'' ''a'' ''t2'' PositionStart (sample_core\<lparr>co_media := pg_start tb\<rparr>) = (Inr pt, w)"
    and "co_media w = pg_start (tb\<lparr>md_entries := md_entries tb @ [pt]\<rparr>)" and "plt_ID pt = fst (Sequential_NewID (NewSequential ''id''))"
    and "w_ids (co_world w) = snd (Sequential_NewID (NewSequential ''id''))"
proof -
  have new: "fst (Sequential_NewID (NewSequential ''id'')) \<notin> plt_ID ` set (md_entries tb)"
    using assms by (auto simp: Sequential_NewID_def NewSequential_def Let_def Itoa_def digits.simps sample_media_tables_def
        sample_entry_row_def)
  have parts: "md_catalog tb = sample_catalog" "md_users tb = {''a''}" "md_playlists tb = [sample_playlist]"
    using assms by (auto simp: sample_media_tables_def)
  from sample_add [of "sample_core\<lparr>co_media := pg_start tb\<rparr>", OF _ parts] new that show thesis
    by (fastforce simp: sample_ids)
qed

lemma sample_prepends:
  obtains w where "prepends (core_library sample_ex sample_media) ''p'' ''a''
    (sample_core\<lparr>co_media := pg_start (sample_media_tables\<lparr>md_entries := []\<rparr>)\<rparr>) 2 w"
proof -
  let ?w0 = "sample_core\<lparr>co_media := pg_start (sample_media_tables\<lparr>md_entries := []\<rparr>)\<rparr>"
  obtain p1 w1 where a1: "AddTrack (core_library sample_ex sample_media) ''p'' ''a'' ''t2'' PositionStart ?w0 = (Inr p1, w1)"
    and w1: "co_media w1 = pg_start (sample_media_tables\<lparr>md_entries := [p1]\<rparr>)" and p1: "plt_ID p1 = fst (Sequential_NewID (NewSequential ''id''))"
    and ids: "w_ids (co_world w1) = snd (Sequential_NewID (NewSequential ''id''))"
    by (rule sample_add_first [of "sample_media_tables\<lparr>md_entries := []\<rparr>"]) (auto simp: sample_media_tables_def)
  have parts: "md_catalog (sample_media_tables\<lparr>md_entries := [p1]\<rparr>) = sample_catalog" "md_users (sample_media_tables\<lparr>md_entries := [p1]\<rparr>) = {''a''}"
    "md_playlists (sample_media_tables\<lparr>md_entries := [p1]\<rparr>) = [sample_playlist]"
    by (simp_all add: sample_media_tables_def)
  have new: "fst (NewID (core_ids sample_ex) w1) \<notin> plt_ID ` set (md_entries (sample_media_tables\<lparr>md_entries := [p1]\<rparr>))"
    by (simp add: sample_ids ids p1 Sequential_NewID_def NewSequential_def Let_def Itoa_def digits.simps)
  from sample_add [OF w1 parts new] obtain p2 w2 where
    "AddTrack (core_library sample_ex sample_media) ''p'' ''a'' ''t2'' PositionStart w1 = (Inr p2, w2)" by blast
  from prepends.one [OF prepends.one [OF prepends.none a1] this] that show thesis by (simp add: numeral_2_eq_2)
qed

lemma sample_remove:
  fixes w :: "(mem, Sequential, nat) core"
  assumes "co_media w = pg_start tb" and "md_playlists tb = [sample_playlist]" and "sample_entry_row \<in> set (md_entries tb)"
  shows "\<exists>w'. RemoveTrack (core_library sample_ex sample_media) ''p'' ''a'' ''t1'' w = (Inr (), w')"
proof -
  let ?s = "core_library sample_ex sample_media"
  have "on_media (pg_playlist_GetByID ''p'') w = (Inr sample_playlist, w)"
    unfolding pg_playlist_GetByID_def on_media_bindE
    using assms by (simp add: bindE_def on_media_start on_media_bindE same_media sample_playlist_def)
  then have own: "getOwnedPlaylist ?s ''p'' ''a'' w = (Inr sample_playlist, w)"
    by (simp add: getOwnedPlaylist_def getPlaylist_def core_library_def pg_playlists_def io_unfold sample_playlist_def)
  have "filter (\<lambda>q. plt_PlaylistID q = ''p'' \<and> plt_TrackID q = ''t1'') (md_entries tb) \<noteq> []"
    using assms(3) by (auto simp: filter_empty_conv sample_entry_row_def intro!: bexI [of _ sample_entry_row])
  then have "\<exists>w'. on_media (pg_entry_Remove ''p'' ''t1'') w = (Inr (), w')"
    unfolding pg_entry_Remove_def on_media_bindE
    by (simp add: bindE_def on_media_start [OF assms(1)] on_media_bindE delete_entries_def Let_def)
  then show ?thesis
    by (auto simp: RemoveTrack_def bindE_def attempt_def own) (simp add: core_library_def pg_entries_def)
qed

definition sample_saved :: "(mem, Sequential, nat) core" where
  "sample_saved = sample_core\<lparr>co_media := pg_start (sample_media_tables\<lparr>md_saved :=
     [\<lparr>lit_UserID = ''a'', lit_TrackID = ''t1'', lit_AddedAt = 0\<rparr>,
      \<lparr>lit_UserID = ''a'', lit_TrackID = ''t2'', lit_AddedAt = 10\<rparr>]\<rparr>)\<rparr>"

lemma sample_save: "SaveTrack (core_library sample_ex sample_media) ''a'' ''t2'' sample_core = (Inr (), sample_saved)"
proof -
  let ?s = "core_library sample_ex sample_media"
  have exists: "lck_TrackExists (ls_tracks ?s) ''t2'' sample_core = (Inr True, sample_core)"
    using sample_TrackExists [OF sample_core_media sample_media_catalog] by (simp add: core_library_def)
  have clk: "Now (ls_clock ?s) sample_core = (10, sample_core)"
    by (simp add: core_library_def sample_core_eval sample_core_def sample_world_def)
  have "ltr_Add (ls_libraryTracks ?s) \<lparr>lit_UserID = ''a'', lit_TrackID = ''t2'', lit_AddedAt = 10\<rparr> sample_core = (Inr (), sample_saved)"
    by (simp add: core_library_def pg_saved_def pg_saved_Add_def on_media_start [OF sample_core_media] insert_saved_def
        sample_media_tables_def sample_catalog_def sample_track_def sample_saved_def)
  then show ?thesis by (simp add: SaveTrack_def bindE_def wrapE_def call_def exists clk)
qed

text \<open>The pages of the saved tracks, one each.\<close>

lemma sample_saved_page:
  assumes "c = None \<and> r = ([\<lparr>lit_UserID = ''a'', lit_TrackID = ''t2'', lit_AddedAt = 10\<rparr>], cc_encode sample_codec (10, ''t2''))
    \<or> c = Some (10, ''t2'') \<and> r = ([\<lparr>lit_UserID = ''a'', lit_TrackID = ''t1'', lit_AddedAt = 0\<rparr>], '''')"
  shows "ListSavedTracks (core_library ex sample_media) ''a'' (cursor_text (cc_encode sample_codec) c) 1 sample_saved = (Inr r, sample_saved)"
proof -
  have "keyset_page latest_down saved_key 1 c
      [\<lparr>lit_UserID = ''a'', lit_TrackID = ''t1'', lit_AddedAt = 0\<rparr>, \<lparr>lit_UserID = ''a'', lit_TrackID = ''t2'', lit_AddedAt = 10\<rparr>] =
      (fst r, if c = None then Some (10, ''t2'') else None)"
    using assms by (auto simp: keyset_page_def latest_down_def bytes.lt_irrefl)
  moreover have media: "co_media sample_saved = pg_start (sample_media_tables\<lparr>md_saved :=
     [\<lparr>lit_UserID = ''a'', lit_TrackID = ''t1'', lit_AddedAt = 0\<rparr>,
      \<lparr>lit_UserID = ''a'', lit_TrackID = ''t2'', lit_AddedAt = 10\<rparr>]\<rparr>)" by (simp add: sample_saved_def)
  ultimately have "on_media (pg_saved_List sample_codec ''a'' (cursor_text (cc_encode sample_codec) c) 1) sample_saved
      = (Inr r, sample_saved)"
    using assms sample_texts.time_cursor
    by (auto simp: pg_saved_List_def cursor_text_def on_media_start [OF media] same_media [OF media])
  then show ?thesis
    by (simp add: ListSavedTracks_def Let_def core_library_def pg_saved_def maxSavedTracksLimit_def wrapE_def)
qed

lemma sample_saved_walk:
  "walk_pages (\<lambda>c. ListSavedTracks (core_library ex sample_media) ''a'' c 1) 3 '''' sample_saved
     = (Inr [[\<lparr>lit_UserID = ''a'', lit_TrackID = ''t2'', lit_AddedAt = 10\<rparr>], [\<lparr>lit_UserID = ''a'', lit_TrackID = ''t1'', lit_AddedAt = 0\<rparr>]],
        sample_saved)"
  using sample_saved_page [of None] sample_saved_page [of "Some (10, ''t2'')"] sample_texts.time_cursor(1)
  by (simp add: numeral_3_eq_3 bindE_def cursor_text_def)

end
