(* ===== verification/Core_Claims.thy ===== *)
theory Core_Claims
  imports Core_Samples
begin

text \<open>
  What playback, catalog and library promise in the core process, each claim with a run on a small
  world.
\<close>

section \<open>Playback\<close>

text \<open>
  C20. To a user who sends a session the next request when the last one has been answered,
  the session behaves as one player. Every request reads the session, looks up tracks and the time,
  writes the session back and records what is played; whatever parts of other users' requests, of the
  user's requests to other sessions and of the store's expiry come between these parts, the stored
  session is what the answered commands lead to, each applied exactly once and in the order sent, a
  command whose request failed half way or is under way having been applied once or not at all; the
  user and the device of the session never change.
\<close>

lemma player_follows:
  assumes "redis_server (ex_redis ex) view rounded rdist"
    and "requests (core_playback ex md) (core_sessions view) i u w0 sent own others w"
    and "sessions_wf (core_sessions view w0)" and "core_sessions view w0 i = Some st0" and "ss_UserID st0 = u"
    and "core_sessions view w i = Some st"
  shows "(\<forall>c. exec (core_playback ex md) i u c = in_parts (core_playback ex md) i u c)
    \<and> (\<exists>cs. effective (sent @ unanswered own) cs \<and> commands cs (player_of st0) = Some (player_of st)
        \<and> ss_UserID st = u \<and> ss_DeviceID st = ss_DeviceID st0)"
  using playback_service.requests_follow [OF redis_server.core_playback_laws [OF assms(1) refl] assms(2-6)] exec_in_parts
  by blast

text \<open>
  C32. However requests of all users to all sessions overlap, those of one user to one
  session included, a stored session stays valid: its position is not negative, no track in its queue
  and none that plays is without a name, and it is stored under its own identifier; and every answer
  shows such a session, the one asked for, to the user it belongs to.
\<close>

lemma sessions_stay_valid:
  assumes "redis_server (ex_redis ex) view rounded rdist"
    and "traffic (core_playback ex md) (core_sessions view) w0 going w"
    and "sessions_wf (core_sessions view w0)" and "\<forall>st \<in> ran (core_sessions view w0). session_valid st"
  shows "(\<forall>i u c. exec (core_playback ex md) i u c = in_parts (core_playback ex md) i u c)
    \<and> sessions_wf (core_sessions view w) \<and> (\<forall>st \<in> ran (core_sessions view w). session_valid st)
    \<and> (\<forall>(i, u, c, p) \<in># going. \<forall>st \<in> carried p. ss_SessionID st = i \<and> ss_UserID st = u \<and> session_valid st)"
proof -
  have "crowd_ok session_valid {#} (core_sessions view w0)" using assms(3,4) by (auto simp: crowd_ok_def ran_def)
  from playback_service.traffic_ok [OF redis_server.core_playback_laws [OF assms(1) refl] assms(2) this session_valid_kept]
  have ok: "crowd_ok session_valid going (core_sessions view w)" .
  then have "\<forall>(i, u, c, p) \<in># going. \<forall>st \<in> carried p. ss_SessionID st = i \<and> ss_UserID st = u \<and> session_valid st"
    by (fastforce simp: crowd_ok_def request_ok_def)
  with ok exec_in_parts show ?thesis by (auto simp: crowd_ok_def ran_def)
qed

text \<open>
  C33. Two requests that enqueue tracks to the same session and both read it before
  either writes are both answered with success, and the tracks of the one that writes first are not
  in the queue: the session is read, changed and written back without a lock or a version.
\<close>

lemma enqueue_race_loses:
  assumes "redis_server (ex_redis ex) view rounded rdist"
    and "sessions_wf (core_sessions view w)" and "core_sessions view w i = Some old"
    and "enqueue_read (core_playback ex md) i u ts pos w = (Inr a, w1)"
    and "enqueue_read (core_playback ex md) i u us pos' w1 = (Inr b, w2)"
    and "enqueue_write (core_playback ex md) a w2 = (Inr a', w3)"
    and "enqueue_write (core_playback ex md) b w3 = (Inr b', w4)"
  shows "\<exists>st. core_sessions view w4 i = Some st
     \<and> ss_Queue st = (if pos' = EnqueuePositionNext then us @ ss_Queue old else ss_Queue old @ us)"
  using playback_service.enqueue_race [OF redis_server.core_playback_laws [OF assms(1) refl] assms(2-7)] .

section \<open>The catalog\<close>

text \<open>
  C25. Whatever artists, albums and tracks are submitted, and however the requests
  end, the catalog stays consistent: identifiers are unique, every album names an artist on record or
  none, every track has a positive length, an album on record or none and at least one credit, every
  credit names a track, an artist on record and a valid role, once, and every rendition its track.
\<close>

lemma catalog_stays_consistent:
  assumes "catalog_wf (catalog_of w)"
    and "(\<exists>inp r. CreateArtist (core_catalog ex md) inp w = (r, w')) \<or> (\<exists>inp r. CreateAlbum (core_catalog ex md) inp w = (r, w'))
      \<or> (\<exists>inp r. CreateTrack (core_catalog ex md) inp w = (r, w'))"
  shows "catalog_wf (catalog_of w')"
  using assms(2)
proof (elim disjE exE)
  fix inp r
  assume "CreateArtist (core_catalog ex md) inp w = (r, w')"
  from movesD [OF CreateArtist_wf this] assms(1) show ?thesis by (simp add: stays_wf_def)
next
  fix inp r
  assume "CreateAlbum (core_catalog ex md) inp w = (r, w')"
  from movesD [OF CreateAlbum_wf this] assms(1) show ?thesis by (simp add: stays_wf_def)
next
  fix inp r
  assume "CreateTrack (core_catalog ex md) inp w = (r, w')"
  from CreateTrack_core [OF this] assms(1) show ?thesis
    by (auto simp: describes_def intro: track_stored_wf)
qed

text \<open>
  C26. A track is stored with all its credits and renditions or not at all,
  whatever fails on the way and whether or not the answer of the database is lost; success means it
  is stored.
\<close>

lemma create_track_all_or_nothing:
  assumes "CreateTrack (core_catalog ex md) inp w = (r, w')"
  shows "(catalog_of w' = catalog_of w \<and> is_err r)
    \<or> (\<exists>t. track_stored t (cti_Assets inp) (catalog_of w) (catalog_of w') \<and> describes t inp \<and> (\<forall>x. r = Inr x \<longrightarrow> x = t))"
  using CreateTrack_core [OF assms] by (auto simp: is_err_def)

text \<open>
  C27. A track that was created is read back as it was submitted: the same fields,
  the same credits with the artists' names on record, and the same renditions.
\<close>

lemma create_track_read_back:
  assumes "catalog_wf (catalog_of w)" and "CreateTrack (core_catalog ex md) inp w = (Inr t, w1)"
    and "catalog_of w2 = catalog_of w1" and "GetTrack (core_catalog ex md) (trk_ID t) w2 = (Inr (t', as), w3)"
  shows "describes t inp \<and> t' = t\<lparr>trk_Artists := trk_Artists t'\<rparr>
    \<and> credit_of ` set (trk_Artists t') = credit_of ` set (cti_Artists inp)
    \<and> mset (map asset_data as) = mset (map asset_data (cti_Assets inp))"
proof -
  from CreateTrack_core [OF assms(2)] have stored: "track_stored t (cti_Assets inp) (catalog_of w) (catalog_of w1)"
    and d: "describes t inp" by auto
  from GetTrack_core [OF assms(4)] stored_row_found [OF stored] assms(3)
  have "t' = t\<lparr>trk_Artists := credits_of (mx_env md) (trk_ID t) (catalog_of w1)\<rparr>"
    and as: "as = order_by (>) aud_BitrateKbps (filter (\<lambda>a. aud_TrackID a = trk_ID t) (ct_assets (catalog_of w1)))"
    using d by (auto simp: describes_def)
  then show ?thesis
    using d stored_credits [OF stored assms(1)] stored_assets [OF stored assms(1)]
    by (simp add: describes_def)
qed

text \<open>
  C28. A client that follows the cursors of a track search to the end sees every track
  whose title is similar enough to the query exactly once, in the order of titles, in pages of at
  most the size asked for; the service caps that size at a hundred.
\<close>

lemma search_sees_all:
  assumes "cursor_texts (mx_env md) cc" and "catalog_wf (catalog_of w)" and "TrimSpace q \<noteq> ''''"
    and "walk_pages (track_pages (core_catalog ex md) q limit) n '''' w = (Inr pages, w')"
    and "length (matching_tracks (mx_env md) q (catalog_of w)) < n"
  shows "concat pages = order_by (by_name_id (ce_collate (mx_env md)) byte_lt) (\<lambda>t. (trk_Title t, trk_ID t))
       (matching_tracks (mx_env md) q (catalog_of w))
    \<and> (\<forall>p \<in> set pages. length p \<le> search_size limit)"
  using paged.walk_sees_all [OF cursor_texts.tracks_paged [OF assms(1) refl assms(3)] assms(4) _ assms(5)]
    matching_distinct [OF assms(2)] by simp

section \<open>The library\<close>

text \<open>
  C29. Only the owner of a playlist changes it: anybody else's requests to add or remove a
  track are refused and change no entry, and no request touches another playlist. A private playlist
  is shown to its owner only.
\<close>

lemma playlist_access:
  assumes "AddTrack (core_library ex md) p u t position w = (r1, w1)"
    and "RemoveTrack (core_library ex md) p u t w = (r2, w2)"
    and "ListPlaylistTracks (core_library ex md) p u w = (r3, w3)"
  shows "(owns u p (playlists w) \<or> is_err r1 \<and> is_err r2 \<and> entries w1 = entries w \<and> entries w2 = entries w)
    \<and> (\<forall>q. q = p \<or> rows_of q (entries w1) = rows_of q (entries w) \<and> rows_of q (entries w2) = rows_of q (entries w))
    \<and> (is_err r3 \<or> (\<exists>pl xs. r3 = Inr (pl, xs) \<and> pl \<in> set (playlists w) \<and> ply_ID pl = p \<and> xs = rows_of p (entries w)
          \<and> (ply_Visibility pl \<noteq> VisibilityPrivate \<or> ply_OwnerID pl = u)))"
proof (intro conjI allI)
  note add = core_lists.AddTrack_effect [OF assms(1)] and rem = core_lists.RemoveTrack_effect [OF assms(2)]
  from add rem show "owns u p (playlists w) \<or> is_err r1 \<and> is_err r2 \<and> entries w1 = entries w \<and> entries w2 = entries w"
    by (auto simp: is_err_def)
  show "q = p \<or> rows_of q (entries w1) = rows_of q (entries w) \<and> rows_of q (entries w2) = rows_of q (entries w)" for q
    using add rem by (auto simp: rows_of_other rows_of_without)
  show "is_err r3 \<or> (\<exists>pl xs. r3 = Inr (pl, xs) \<and> pl \<in> set (playlists w) \<and> ply_ID pl = p \<and> xs = rows_of p (entries w)
      \<and> (ply_Visibility pl \<noteq> VisibilityPrivate \<or> ply_OwnerID pl = u))"
    using core_lists.ListPlaylistTracks_done assms(3) by (cases r3) (fastforce simp: is_err_def)+
qed

text \<open>
  C30. As long as every position of the playlist is between \<open>2 powr -1074\<close> and \<open>2 ^ 61\<close>, the
  range in which a \<^verbatim>\<open>float64\<close> can be halved and moved on, a track added at the start is first in
  every listing and one added anywhere else last, the others being in an order they could have been
  listed in before; removing a track removes each of its entries from a listing and leaves the others
  in order. A listing is any order by position: the query leaves open how entries of one position
  follow each other.
\<close>

lemma playlist_order:
  assumes "AddTrack (core_library ex md) p u t position w = (Inr pt, w1)"
    and "\<forall>y \<in> set (entries w). plt_PlaylistID y = p \<longrightarrow> 2 powr -1074 \<le> plt_Position y \<and> plt_Position y \<le> 2 ^ 61"
    and "RemoveTrack (core_library ex md) p u t' w1 = (Inr x, w2)"
  shows "plt_TrackID pt = t \<and> listed p (entries w) (rows_of p (entries w))
    \<and> (\<forall>l. listed p (entries w1) l
        \<longrightarrow> (\<exists>l0. listed p (entries w) l0 \<and> l = (if position = PositionStart then pt # l0 else l0 @ [pt])))
    \<and> (\<forall>l. listed p (entries w2) l
        \<longrightarrow> (\<exists>l0. listed p (entries w1) l0 \<and> l = filter (\<lambda>e. plt_TrackID e \<noteq> t') l0))"
proof (intro conjI allI impI)
  have small: "\<forall>y \<in> set (rows_of p (entries w)). 2 powr -1074 \<le> plt_Position y \<and> plt_Position y \<le> 2 ^ 61"
    using assms(2) by simp
  then have nonneg: "\<forall>y \<in> set (rows_of p (entries w)). 0 \<le> plt_Position y \<and> plt_Position y \<le> 2 ^ 61"
    using powr_ge_zero order_trans by blast
  from core_lists.AddTrack_effect [OF assms(1)] have w1: "entries w1 = entries w @ [pt]"
    and pt: "plt_PlaylistID pt = p" "plt_TrackID pt = t" "place position (rows_of p (entries w)) (plt_Position pt)" by auto
  from core_lists.RemoveTrack_effect [OF assms(3)] have w2: "entries w2 = without p t' (entries w1)" by auto
  show "plt_TrackID pt = t" by (rule pt(2))
  show "listed p (entries w) (rows_of p (entries w))" by (rule rows_of_listed)
  show "\<exists>l0. listed p (entries w) l0 \<and> l = (if position = PositionStart then pt # l0 else l0 @ [pt])"
    if "listed p (entries w1) l" for l
    using that unfolding w1
    by (cases "position = PositionStart")
      (use listed_first [OF _ pt(1)] listed_last [OF _ pt(1)] place_first place_last [OF pt(3) _ nonneg] pt(3) small in simp_all)
  show "\<exists>l0. listed p (entries w1) l0 \<and> l = filter (\<lambda>e. plt_TrackID e \<noteq> t') l0" if "listed p (entries w2) l" for l
    using that unfolding w2 by (rule listed_without)
qed

text \<open>
  C31. A playlist that is only ever added to at the start: its positions are halved each
  time, so after 1085 additions the smallest \<^verbatim>\<open>float64\<close> is reached and every further track
  gets position zero, whose order among each other is lost.
\<close>

lemma prepend_underflow:
  assumes "prepends (core_library ex md) p u w0 n w" and "rows_of p (entries w0) = []"
  shows "map plt_Position (filter (\<lambda>e. plt_PlaylistID e = p) (entries w))
    = map (\<lambda>i. if i \<le> 1084 then 2 powr (10 - real i) else 0) [0..<n]"
  using core_lists.prepends_positions [OF assms] by (simp add: halvings)

text \<open>
  A track a user has saved, for the first time or again, is listed exactly
  once by the pages of the saved tracks, and the pages together are all saved tracks of the user,
  the latest first; each page has at most two hundred.
\<close>

lemma saved_track_listed_once:
  assumes "cursor_texts env (mx_codec md)" and "saved_wf (saved_rows w)"
    and "SaveTrack (core_library ex md) u t w = (Inr (), w1)"
    and "walk_pages (\<lambda>c. ListSavedTracks (core_library ex md) u c limit) n '''' w1 = (Inr pages, w2)"
    and "length (saved_rows w1) < n"
  shows "concat pages = order_by latest_down saved_key (filter (\<lambda>q. lit_UserID q = u) (saved_rows w1))
    \<and> length (filter (\<lambda>q. lit_TrackID q = t) (concat pages)) = 1
    \<and> (\<forall>p \<in> set pages. length p \<le> saved_page_size limit)"
proof -
  note laws = cursor_texts.core_saved_laws [OF assms(1) refl]
  from saved_service.SaveTrack_done [OF laws assms(3)] obtain now where
    w1: "saved_rows w1 = save_row \<lparr>lit_UserID = u, lit_TrackID = t, lit_AddedAt = now\<rparr> (saved_rows w)" by blast
  have u: "u \<noteq> ''''" using assms(3) by (auto simp: SaveTrack_def)
  have wf: "saved_wf (saved_rows w1)" using w1 saved_wf_save assms(2) by simp
  let ?mine = "filter (\<lambda>q. lit_UserID q = u) (saved_rows w1)"
  have len: "length ?mine < n" using length_filter_le assms(5) le_less_trans by blast
  from paged.walk_sees_all [OF saved_service.saved_paged [OF laws u] assms(4) saved_wf_keys [OF wf] len]
  have pages: "concat pages = order_by latest_down saved_key ?mine" "\<forall>p \<in> set pages. length p \<le> saved_page_size limit" by auto
  have "length (filter (\<lambda>q. lit_TrackID q = t) (concat pages)) = length (filter (\<lambda>q. lit_TrackID q = t) ?mine)"
    unfolding pages(1) by (rule length_filter_order_by)
  also have "\<exists>q \<in> set (saved_rows w1). lit_UserID q = u \<and> lit_TrackID q = t"
    unfolding w1 save_row_def by auto
  then have "length (filter (\<lambda>q. lit_TrackID q = t) ?mine) = 1" unfolding saved_once [OF wf] by (rule if_P)
  finally show ?thesis using pages by simp
qed

section \<open>Runs\<close>

text \<open>The owner's pause with another user's between its read and its write.\<close>

lemma player_follows_witness:
  "\<exists>w st cs. requests (core_playback sample_ex sample_media) (core_sessions contents) ''s'' ''a'' sample_core [(CPause, True)] None {#} w
     \<and> core_sessions contents w ''s'' = Some st \<and> \<not> ss_IsPlaying st
     \<and> effective [(CPause, True)] cs \<and> commands cs (player_of sample_playing) = Some (player_of st)"
proof -
  let ?run = "requests (core_playback sample_ex sample_media) (core_sessions contents) ''s'' ''a'' sample_core"
  obtain w where parts: "next_part (core_playback sample_ex sample_media) ''s'' ''a'' CPause Asked sample_core = (Inr (Loaded sample_playing), sample_core)"
    "next_part (core_playback sample_ex sample_media) ''s'' ''a'' CPause (Loaded sample_playing) sample_core = (Inr (Ready sample_paused), sample_core)"
    "next_part (core_playback sample_ex sample_media) ''s'' ''a'' CPause (Ready sample_paused) sample_core = (Inr (Stored sample_paused), w)"
    "next_part (core_playback sample_ex sample_media) ''s'' ''a'' CPause (Stored sample_paused) w = (Inr (Finished sample_paused), w)"
    and theirs: "next_part (core_playback sample_ex sample_media) ''s'' ''b'' CPause Asked sample_core = (Inl (Sentinel ErrForbidden), sample_core)"
    and st: "core_sessions contents w ''s'' = Some sample_paused"
    using sample_parts_of_pause by blast
  have "?run [] (Some (CPause, Loaded sample_playing)) {#} sample_core"
    by (rule requests.goes_on [OF requests.asks [OF requests.start] parts(1)])
  then have "?run [] (Some (CPause, Loaded sample_playing)) {#(''s'', ''b'', CPause, Asked)#} sample_core"
    by (rule requests.others) (rule crowd_step.arrives, simp)
  then have "?run [] (Some (CPause, Loaded sample_playing)) ({#(''s'', ''b'', CPause, Asked)#} - {#(''s'', ''b'', CPause, Asked)#}) sample_core"
    by (rule requests.others) (rule crowd_step.fails [OF _ theirs], simp)
  then have "?run [] (Some (CPause, Loaded sample_playing)) {#} sample_core" by simp
  from requests.answered [OF requests.goes_on [OF requests.goes_on [OF requests.goes_on [OF this parts(2)] parts(3)] parts(4)]]
  have sent: "?run [(CPause, True)] None {#} w" by simp
  have old: "core_sessions contents sample_core ''s'' = Some sample_playing" "ss_UserID sample_playing = ''a''"
    by (simp_all add: sample_session_stored sample_playing_def)
  from player_follows [OF sample_redis_server sent sample_sessions_wf old st] obtain cs where
    "effective [(CPause, True)] cs" "commands cs (player_of sample_playing) = Some (player_of sample_paused)"
    by (auto simp: unanswered_def)
  with sent st show ?thesis by (intro exI [of _ w] exI [of _ sample_paused] exI [of _ cs]) (simp add: sample_paused_def)
qed

text \<open>Two requests of one user that have both read the session before one of them writes.\<close>

lemma sessions_stay_valid_witness:
  "\<exists>w. traffic (core_playback sample_ex sample_media) (core_sessions contents) sample_core
       {#(''s'', ''a'', CPause, Stored sample_paused), (''s'', ''a'', CPause, Loaded sample_playing)#} w
     \<and> core_sessions contents w ''s'' = Some sample_paused \<and> session_valid sample_paused"
proof -
  let ?run = "traffic (core_playback sample_ex sample_media) (core_sessions contents) sample_core"
  obtain w where parts: "next_part (core_playback sample_ex sample_media) ''s'' ''a'' CPause Asked sample_core = (Inr (Loaded sample_playing), sample_core)"
    "next_part (core_playback sample_ex sample_media) ''s'' ''a'' CPause (Loaded sample_playing) sample_core = (Inr (Ready sample_paused), sample_core)"
    "next_part (core_playback sample_ex sample_media) ''s'' ''a'' CPause (Ready sample_paused) sample_core = (Inr (Stored sample_paused), w)"
    and st: "core_sessions contents w ''s'' = Some sample_paused"
    using sample_parts_of_pause by blast
  let ?second = "(''s'', ''a'', CPause, Loaded sample_playing)"
  note step = traffic.moves [OF _ crowd_step.advances]
  have "?run {#(''s'', ''a'', CPause, Asked)#} sample_core"
    using traffic.moves [OF traffic.quiet crowd_step.arrives [where j = "''s''" and v = "''a''" and c = CPause]] by simp
  from step [OF this _ parts(1)] have "?run {#?second#} sample_core" by simp
  from traffic.moves [OF this crowd_step.arrives [where j = "''s''" and v = "''a''" and c = CPause]]
  have "?run {#(''s'', ''a'', CPause, Asked), ?second#} sample_core" by simp
  from step [OF this _ parts(1)] have "?run {#?second, ?second#} sample_core" by simp
  from step [OF this _ parts(2)] have "?run {#(''s'', ''a'', CPause, Ready sample_paused), ?second#} sample_core" by simp
  from step [OF this _ parts(3)] have run: "?run {#(''s'', ''a'', CPause, Stored sample_paused), ?second#} w" by simp
  have start: "\<forall>st \<in> ran (core_sessions contents sample_core). session_valid st"
    by (simp add: sample_session_stored sample_session_valid)
  from sessions_stay_valid [OF sample_redis_server run sample_sessions_wf start] st
  have "session_valid sample_paused" by (metis ranI)
  with run st show ?thesis by blast
qed

lemma enqueue_race_loses_witness:
  "\<exists>a b w3 w4 st. enqueue_read (core_playback sample_ex sample_media) ''s'' ''a'' [''t1''] EnqueuePositionEnd sample_core = (Inr a, sample_core)
     \<and> enqueue_read (core_playback sample_ex sample_media) ''s'' ''a'' [''t2''] EnqueuePositionEnd sample_core = (Inr b, sample_core)
     \<and> enqueue_write (core_playback sample_ex sample_media) a sample_core = (Inr a, w3)
     \<and> enqueue_write (core_playback sample_ex sample_media) b w3 = (Inr b, w4)
     \<and> core_sessions contents w4 ''s'' = Some st \<and> ss_Queue st = [''t2'']"
proof -
  let ?s = "core_playback sample_ex sample_media"
  obtain a b where a: "enqueue_read ?s ''s'' ''a'' [''t1''] EnqueuePositionEnd sample_core = (Inr a, sample_core)"
    and b: "enqueue_read ?s ''s'' ''a'' [''t2''] EnqueuePositionEnd sample_core = (Inr b, sample_core)"
    using sample_enqueue_read by blast
  obtain w3 w4 where w: "enqueue_write ?s a sample_core = (Inr a, w3)" "enqueue_write ?s b w3 = (Inr b, w4)"
    using sample_enqueue_write by blast
  have old: "core_sessions contents sample_core ''s'' = Some sample_playing" by (simp add: sample_session_stored)
  from enqueue_race_loses [OF sample_redis_server sample_sessions_wf old a b w] obtain st where
    "core_sessions contents w4 ''s'' = Some st" "ss_Queue st = [''t2'']"
    by (auto simp: sample_playing_def EnqueuePositionEnd_def EnqueuePositionNext_def)
  with a b w show ?thesis by blast
qed

lemma catalog_stays_consistent_witness:
  "\<exists>t w. CreateTrack (core_catalog sample_ex sample_media) sample_track_input sample_core = (Inr t, w) \<and> catalog_wf (catalog_of w)"
proof -
  obtain t w where run: "CreateTrack (core_catalog sample_ex sample_media) sample_track_input sample_core = (Inr t, w)"
    using sample_create by blast
  from catalog_stays_consistent [OF sample_catalog_wf, of sample_ex sample_media w] run show ?thesis by blast
qed

lemma create_track_all_or_nothing_witness:
  "\<exists>t w. CreateTrack (core_catalog sample_ex sample_media) sample_track_input sample_core = (Inr t, w)
     \<and> track_stored t (cti_Assets sample_track_input) (catalog_of sample_core) (catalog_of w)"
proof -
  obtain t w where run: "CreateTrack (core_catalog sample_ex sample_media) sample_track_input sample_core = (Inr t, w)"
    using sample_create by blast
  from create_track_all_or_nothing [OF run] run show ?thesis by auto
qed

lemma create_track_read_back_witness:
  "\<exists>t w1 t' as w2. CreateTrack (core_catalog sample_ex sample_media) sample_track_input sample_core = (Inr t, w1)
     \<and> GetTrack (core_catalog sample_ex sample_media) (trk_ID t) w1 = (Inr (t', as), w2)
     \<and> mset (map asset_data as) = mset (map asset_data (cti_Assets sample_track_input))"
proof -
  obtain t w1 t' as w2 where run: "CreateTrack (core_catalog sample_ex sample_media) sample_track_input sample_core = (Inr t, w1)"
    "GetTrack (core_catalog sample_ex sample_media) (trk_ID t) w1 = (Inr (t', as), w2)"
    using sample_create by blast
  from create_track_read_back [OF sample_catalog_wf run(1) refl run(2)] run show ?thesis by blast
qed

lemma search_sees_all_witness:
  "\<exists>pages. walk_pages (track_pages (core_catalog sample_ex sample_media) ''song'' 1) 3 '''' sample_core = (Inr pages, sample_core)
     \<and> length pages = 2
     \<and> concat pages = order_by (by_name_id (ce_collate sample_env) byte_lt) (\<lambda>t. (trk_Title t, trk_ID t))
         (matching_tracks sample_env ''song'' (catalog_of sample_core))"
proof -
  have trim: "TrimSpace ''song'' \<noteq> ''''" by (subst TrimSpace_visible) (auto simp: visible_ascii_def)
  have few: "length (matching_tracks (mx_env sample_media) ''song'' (catalog_of sample_core)) < 3"
    unfolding matching_tracks_def
    by (rule le_less_trans [OF length_filter_le]) (simp add: catalog_of_def media_def pg_start_def sample_catalog_def)
  have texts: "cursor_texts (mx_env sample_media) sample_codec" by (simp add: sample_texts.cursor_texts_axioms)
  from search_sees_all [OF texts sample_catalog_wf trim sample_search few] sample_search [of sample_ex]
  show ?thesis
    by (intro exI [of _ "[[sample_track ''t1'' ''song one''], [sample_track ''t2'' ''song two'']]"]) simp
qed

lemma playlist_access_witness:
  "\<exists>r1 w1 r2 w2. AddTrack (core_library sample_ex sample_media) ''p'' ''b'' ''t2'' PositionStart sample_core = (r1, w1)
     \<and> RemoveTrack (core_library sample_ex sample_media) ''p'' ''b'' ''t2'' sample_core = (r2, w2)
     \<and> is_err r1 \<and> is_err r2 \<and> entries w1 = entries sample_core \<and> entries w2 = entries sample_core"
proof -
  obtain r1 w1 where a: "AddTrack (core_library sample_ex sample_media) ''p'' ''b'' ''t2'' PositionStart sample_core = (r1, w1)" by fastforce
  obtain r2 w2 where b: "RemoveTrack (core_library sample_ex sample_media) ''p'' ''b'' ''t2'' sample_core = (r2, w2)" by fastforce
  obtain r3 w3 where c: "ListPlaylistTracks (core_library sample_ex sample_media) ''p'' ''b'' sample_core = (r3, w3)" by fastforce
  have "\<not> owns ''b'' ''p'' (playlists sample_core)"
    by (simp add: owns_def playlists_def media_def pg_start_def sample_media_tables_def sample_playlist_def)
  with playlist_access [OF a b c] a b show ?thesis by blast
qed

lemma playlist_order_witness:
  "\<exists>pt w1 w2. AddTrack (core_library sample_ex sample_media) ''p'' ''a'' ''t2'' PositionStart sample_core = (Inr pt, w1)
     \<and> RemoveTrack (core_library sample_ex sample_media) ''p'' ''a'' ''t1'' w1 = (Inr (), w2)
     \<and> rows_of ''p'' (entries w1) = [pt, sample_entry_row] \<and> rows_of ''p'' (entries w2) = [pt]"
proof -
  have core: "sample_core\<lparr>co_media := pg_start sample_media_tables\<rparr> = sample_core" by (rule same_media) simp
  obtain pt w1 where a: "AddTrack (core_library sample_ex sample_media) ''p'' ''a'' ''t2'' PositionStart sample_core = (Inr pt, w1)"
    and w1: "co_media w1 = pg_start (sample_media_tables\<lparr>md_entries := md_entries sample_media_tables @ [pt]\<rparr>)"
    using sample_add_first [of sample_media_tables, unfolded core] by blast
  obtain w2 where b: "RemoveTrack (core_library sample_ex sample_media) ''p'' ''a'' ''t1'' w1 = (Inr (), w2)"
    using sample_remove [OF w1] by (auto simp: sample_media_tables_def)
  have rows: "entries sample_core = [sample_entry_row]"
    by (simp add: entries_def media_def pg_start_def sample_media_tables_def)
  have range: "\<forall>y \<in> set (entries sample_core). plt_PlaylistID y = ''p'' \<longrightarrow> 2 powr -1074 \<le> plt_Position y \<and> plt_Position y \<le> 2 ^ 61"
  proof -
    have "(2::real) powr -1074 \<le> 2 powr 10" by (rule powr_mono) simp_all
    then show ?thesis by (simp add: rows) (simp add: sample_entry_row_def powr_numeral)
  qed
  have before: "l = [sample_entry_row]" if "listed ''p'' (entries sample_core) l" for l
    using that by (simp add: listed_def rows sample_entry_row_def mset_single_iff)
  from playlist_order [OF a range b] have track: "plt_TrackID pt = ''t2''"
    and added: "\<forall>l. listed ''p'' (entries w1) l \<longrightarrow> (\<exists>l0. listed ''p'' (entries sample_core) l0 \<and> l = pt # l0)"
    and removed: "\<forall>l. listed ''p'' (entries w2) l
      \<longrightarrow> (\<exists>l0. listed ''p'' (entries w1) l0 \<and> l = filter (\<lambda>e. plt_TrackID e \<noteq> ''t1'') l0)"
    by auto
  have first: "l = [pt, sample_entry_row]" if "listed ''p'' (entries w1) l" for l using added that before by auto
  have "rows_of ''p'' (entries w1) = [pt, sample_entry_row]" by (rule first [OF rows_of_listed])
  moreover have "rows_of ''p'' (entries w2) = [pt]"
    using removed rows_of_listed first track by (fastforce simp: sample_entry_row_def)
  ultimately show ?thesis using a b by blast
qed

lemma prepend_underflow_witness:
  "\<exists>w. prepends (core_library sample_ex sample_media) ''p'' ''a''
       (sample_core\<lparr>co_media := pg_start (sample_media_tables\<lparr>md_entries := []\<rparr>)\<rparr>) 2 w
     \<and> map plt_Position (filter (\<lambda>e. plt_PlaylistID e = ''p'') (entries w)) = [1024, 512]"
proof -
  let ?w0 = "sample_core\<lparr>co_media := pg_start (sample_media_tables\<lparr>md_entries := []\<rparr>)\<rparr>"
  obtain w where run: "prepends (core_library sample_ex sample_media) ''p'' ''a'' ?w0 2 w" by (rule sample_prepends)
  have "rows_of ''p'' (entries ?w0) = []" by (simp add: rows_of_def entries_def media_def pg_start_def)
  from prepend_underflow [OF run this] run show ?thesis
    by (intro exI [of _ w]) (simp add: upt_rec powr_numeral)
qed

lemma saved_track_listed_once_witness:
  "\<exists>pages. SaveTrack (core_library sample_ex sample_media) ''a'' ''t2'' sample_core = (Inr (), sample_saved)
     \<and> walk_pages (\<lambda>c. ListSavedTracks (core_library sample_ex sample_media) ''a'' c 1) 3 '''' sample_saved = (Inr pages, sample_saved)
     \<and> length pages = 2 \<and> length (filter (\<lambda>q. lit_TrackID q = ''t2'') (concat pages)) = 1"
proof -
  have texts: "cursor_texts sample_env (mx_codec sample_media)" by (simp add: sample_texts.cursor_texts_axioms)
  have wf: "saved_wf (saved_rows sample_core)"
    by (simp add: saved_wf_def saved_rows_def media_def pg_start_def sample_media_tables_def)
  have few: "length (saved_rows sample_saved) < 3"
    by (simp add: saved_rows_def media_def sample_saved_def pg_start_def)
  from saved_track_listed_once [OF texts wf sample_save sample_saved_walk few] sample_save sample_saved_walk [of sample_ex]
  show ?thesis by (intro exI conjI) (assumption, assumption, simp, blast)
qed

end
