(* ===== verification/Json_Api.thy ===== *)
theory Json_Api
  imports Middleware
begin

text \<open>
  What the REST handlers of all modules share: JSON documents, the decoding of a request body into a
  Go struct (\<^verbatim>\<open>httpx.DecodeJSON\<close>), the texts of errors, and the shape of a handler, which is decode,
  call the service, answer. The grammar of JSON is a parameter: \<open>je_parse\<close> finds the first value in
  a text. Field names are matched up to the case of ASCII letters; a field that is given twice
  replaces a list as a whole.
\<close>

section \<open>Documents\<close>

text \<open>A number without fraction and exponent is a \<open>DInt\<close>; the struct decoder refuses all others.\<close>

datatype doc =
    DNull
  | DBool bool
  | DInt int
  | DNumber string
  | DStr string
  | DArr "doc list"
  | DObj "(string \<times> doc) list"

text \<open>A field tagged \<^verbatim>\<open>omitempty\<close>, of a string, a pointer to a string, a list.\<close>

definition omit_text :: "string \<Rightarrow> string \<Rightarrow> (string \<times> doc) list" where
  "omit_text k s = (if s = '''' then [] else [(k, DStr s)])"

definition omit_option :: "string \<Rightarrow> string option \<Rightarrow> (string \<times> doc) list" where
  "omit_option k x = (case x of None \<Rightarrow> [] | Some s \<Rightarrow> [(k, DStr s)])"

definition omit_list :: "string \<Rightarrow> doc list \<Rightarrow> (string \<times> doc) list" where
  "omit_list k ds = (if ds = [] then [] else [(k, DArr ds)])"

section \<open>Decoding into a struct\<close>

text \<open>
  A setter stores a value into its field: \<open>None\<close> when the value has another type. \<^verbatim>\<open>null\<close> leaves a
  plain field alone and empties a pointer.
\<close>

type_synonym 'a setter = "doc \<Rightarrow> 'a \<Rightarrow> 'a option"

definition in_int64 :: "int \<Rightarrow> bool" where
  "in_int64 n \<longleftrightarrow> - (2 ^ 63) \<le> n \<and> n < 2 ^ 63"

definition text_field :: "(string \<Rightarrow> 'a \<Rightarrow> 'a) \<Rightarrow> 'a setter" where
  "text_field set_to d x = (case d of DNull \<Rightarrow> Some x | DStr s \<Rightarrow> Some (set_to s x) | _ \<Rightarrow> None)"

definition int_field :: "(int \<Rightarrow> 'a \<Rightarrow> 'a) \<Rightarrow> 'a setter" where
  "int_field set_to d x =
     (case d of DNull \<Rightarrow> Some x | DInt n \<Rightarrow> if in_int64 n then Some (set_to n x) else None | _ \<Rightarrow> None)"

definition bool_field :: "(bool \<Rightarrow> 'a \<Rightarrow> 'a) \<Rightarrow> 'a setter" where
  "bool_field set_to d x = (case d of DNull \<Rightarrow> Some x | DBool b \<Rightarrow> Some (set_to b x) | _ \<Rightarrow> None)"

definition text_pointer :: "(string option \<Rightarrow> 'a \<Rightarrow> 'a) \<Rightarrow> 'a setter" where
  "text_pointer set_to d x = (case d of DNull \<Rightarrow> Some (set_to None x) | DStr s \<Rightarrow> Some (set_to (Some s) x) | _ \<Rightarrow> None)"

definition int_pointer :: "(int option \<Rightarrow> 'a \<Rightarrow> 'a) \<Rightarrow> 'a setter" where
  "int_pointer set_to d x =
     (case d of DNull \<Rightarrow> Some (set_to None x)
      | DInt n \<Rightarrow> if in_int64 n then Some (set_to (Some n) x) else None | _ \<Rightarrow> None)"

definition bool_pointer :: "(bool option \<Rightarrow> 'a \<Rightarrow> 'a) \<Rightarrow> 'a setter" where
  "bool_pointer set_to d x = (case d of DNull \<Rightarrow> Some (set_to None x) | DBool b \<Rightarrow> Some (set_to (Some b) x) | _ \<Rightarrow> None)"

primrec decode_all :: "(doc \<Rightarrow> 'b option) \<Rightarrow> doc list \<Rightarrow> 'b list option" where
  "decode_all f [] = Some []"
| "decode_all f (d # ds) = Option.bind (f d) (\<lambda>y. map_option ((#) y) (decode_all f ds))"

definition list_field :: "(doc \<Rightarrow> 'b option) \<Rightarrow> ('b list \<Rightarrow> 'a \<Rightarrow> 'a) \<Rightarrow> 'a setter" where
  "list_field elem set_to d x =
     (case d of DNull \<Rightarrow> Some (set_to [] x) | DArr ds \<Rightarrow> map_option (\<lambda>ys. set_to ys x) (decode_all elem ds) | _ \<Rightarrow> None)"

text \<open>The elements of a list of texts; \<^verbatim>\<open>null\<close> leaves the empty text.\<close>

definition text_elem :: "doc \<Rightarrow> string option" where
  "text_elem d = text_field (\<lambda>s _. s) d ''''"

type_synonym 'a struct = "(string \<times> 'a setter) list"

definition field_setter :: "'a struct \<Rightarrow> string \<Rightarrow> 'a setter option" where
  "field_setter tbl k = map_option snd (List.find (\<lambda>(name, _). EqualFold name k) tbl)"

primrec set_fields :: "'a struct \<Rightarrow> (string \<times> doc) list \<Rightarrow> 'a \<Rightarrow> 'a option" where
  "set_fields tbl [] x = Some x"
| "set_fields tbl (kv # kvs) x =
     (case field_setter tbl (fst kv) of
        None \<Rightarrow> None
      | Some st \<Rightarrow> Option.bind (st (snd kv) x) (set_fields tbl kvs))"

text \<open>\<^verbatim>\<open>DisallowUnknownFields\<close>: a field that the struct does not have is an error.\<close>

definition decode_struct :: "'a struct \<Rightarrow> doc \<Rightarrow> 'a \<Rightarrow> 'a option" where
  "decode_struct tbl d x = (case d of DNull \<Rightarrow> Some x | DObj kvs \<Rightarrow> set_fields tbl kvs x | _ \<Rightarrow> None)"

text \<open>A pointer to a struct: allocated when it is nil, else decoded into.\<close>

definition struct_pointer :: "'b struct \<Rightarrow> 'b \<Rightarrow> ('a \<Rightarrow> 'b option) \<Rightarrow> ('b option \<Rightarrow> 'a \<Rightarrow> 'a) \<Rightarrow> 'a setter" where
  "struct_pointer tbl zero get_from set_to d x =
     (if d = DNull then Some (set_to None x)
      else map_option (\<lambda>y. set_to (Some y) x)
             (decode_struct tbl d (case get_from x of None \<Rightarrow> zero | Some y \<Rightarrow> y)))"

section \<open>The body of a request\<close>

text \<open>What the scanner finds in a text: one value and what follows it, or only a part of one.\<close>

datatype parsed = Complete doc string | Incomplete | Malformed

record json_env =
  je_parse :: "string \<Rightarrow> parsed"
  je_error :: "string \<Rightarrow> string" \<comment> \<open>the decoder's message for a body it refuses\<close>
  je_foreign :: "string \<Rightarrow> string" \<comment> \<open>the text of an error of a library\<close>
  je_format :: "string \<Rightarrow> time \<Rightarrow> string" \<comment> \<open>\<^verbatim>\<open>time.Time.Format\<close>\<close>

definition maxBodyBytes :: nat where "maxBodyBytes = 2 ^ 20"

text \<open>The spaces of JSON.\<close>

definition json_space :: "char \<Rightarrow> bool" where
  "json_space c \<longleftrightarrow> c \<in> set [char_of (32 :: nat), char_of (9 :: nat), char_of (10 :: nat), char_of (13 :: nat)]"

text \<open>
  The reader gives at most \<^verbatim>\<open>maxBodyBytes\<close> and then fails: before the end of the first value that is
  \<^verbatim>\<open>ErrBodyTooLarge\<close>, after it the second \<^verbatim>\<open>Decode\<close> does not see the end of the body.
\<close>

definition DecodeJSON :: "json_env \<Rightarrow> 'a struct \<Rightarrow> 'a \<Rightarrow> http_request \<Rightarrow> err + 'a" where
  "DecodeJSON je tbl zero r =
     (let body = rq_body r; bad = Foreign (je_error je body) in
      case je_parse je (take maxBodyBytes body) of
        Malformed \<Rightarrow> Inl bad
      | Incomplete \<Rightarrow> Inl (if length body > maxBodyBytes then Sentinel ErrBodyTooLarge else bad)
      | Complete d rest \<Rightarrow>
          (case decode_struct tbl d zero of
             None \<Rightarrow> Inl bad
           | Some x \<Rightarrow> if length body \<le> maxBodyBytes \<and> list_all json_space rest then Inr x else Inl (Sentinel TrailingData)))"

section \<open>The texts of errors\<close>

fun sentinel_text :: "sentinel \<Rightarrow> string" where
  "sentinel_text PresenceErrInvalidInput = ''presence: invalid input''"
| "sentinel_text ErrSettingsNotFound = ''presence: privacy settings not found''"
| "sentinel_text ErrConsentRequired = ''presence: proximity consent not granted''"
| "sentinel_text ErrConsentExpired = ''presence: proximity consent expired, renewal required''"
| "sentinel_text ErrCannotBlockSelf = ''presence: cannot block yourself''"
| "sentinel_text ErrBlockNotFound = ''presence: block not found''"
| "sentinel_text ErrInvalidRadius = ''presence: visibility_radius_m must be one of 150, 1000, 5000, 15000''"
| "sentinel_text ErrInvalidRevealLevel = ''presence: reveal_level must be 0, 1 or 2''"
| "sentinel_text ErrInvalidVisibility = ''presence: presence_visibility must be invisible, friends_only or everyone''"
| "sentinel_text ErrIngestSaturated = ''presence: ingest pipeline saturated, slow down update frequency''"
| "sentinel_text ErrMFARequired = ''presence: MFA required to enable proximity discovery''"
| "sentinel_text AuthErrInvalidInput = ''auth: invalid input''"
| "sentinel_text ErrEmailTaken = ''auth: email already registered''"
| "sentinel_text ErrInvalidCredentials = ''auth: invalid email or password''"
| "sentinel_text ErrUserNotFound = ''auth: user not found''"
| "sentinel_text ErrInvalidRefreshToken = ''auth: invalid refresh token''"
| "sentinel_text ErrRefreshTokenExpired = ''auth: refresh token expired''"
| "sentinel_text ErrRefreshTokenRevoked = ''auth: refresh token revoked''"
| "sentinel_text ErrRefreshTokenReused = ''auth: refresh token reuse detected, session revoked''"
| "sentinel_text ErrIdentityNotLinked = ''auth: oauth identity not linked to any user''"
| "sentinel_text ErrSecretNotFound = ''mfa: no factor enrolled for this user''"
| "sentinel_text MfaErrNotImplemented = ''mfa: not implemented in this slice''"
| "sentinel_text OAuthErrNotImplemented = ''oauth: provider verification not implemented in this slice''"
| "sentinel_text ErrUnsupportedProvider = ''oauth: unsupported provider''"
| "sentinel_text ErrInvalidHash = ''password: invalid encoded hash format''"
| "sentinel_text ErrIncompatibleVersion = ''password: incompatible argon2 version''"
| "sentinel_text ErrBodyTooLarge = ''httpx: request body too large''"
| "sentinel_text TrailingData = ''httpx: unexpected trailing data after JSON body''"
| "sentinel_text PlaybackErrInvalidInput = ''playback: invalid input''"
| "sentinel_text ErrSessionNotFound = ''playback: session not found''"
| "sentinel_text ErrForbidden = ''playback: requester does not own this session''"
| "sentinel_text PlaybackErrTrackNotFound = ''playback: track not found in catalog''"
| "sentinel_text ErrEmptyQueue = ''playback: queue is empty''"
| "sentinel_text LibraryErrInvalidInput = ''library: invalid input''"
| "sentinel_text ErrPlaylistNotFound = ''library: playlist not found''"
| "sentinel_text ErrNotOwner = ''library: requester does not own this playlist''"
| "sentinel_text LibraryErrTrackNotFound = ''library: track not found in catalog''"
| "sentinel_text ErrTrackNotInPlaylist = ''library: track not in playlist''"
| "sentinel_text CatalogErrInvalidInput = ''catalog: invalid input''"
| "sentinel_text CatalogErrTrackNotFound = ''catalog: track not found''"
| "sentinel_text ErrAlbumNotFound = ''catalog: album not found''"
| "sentinel_text ErrArtistNotFound = ''catalog: artist not found''"
| "sentinel_text ErrInvalidToken = ''token: invalid access token''"
| "sentinel_text ErrExpiredToken = ''token: access token expired''"
| "sentinel_text ErrConnClosed = ''presence/ws: connection closed''"
| "sentinel_text ErrOutboundBufferFull = ''presence/ws: outbound buffer full''"
| "sentinel_text RedisNil = ''redis: nil''"
| "sentinel_text ErrServerClosed = ''http: Server closed''"
| "sentinel_text MigrateErrNoChange = ''no change''"

text \<open>\<^verbatim>\<open>err.Error()\<close>; a value formatted into a detail is left out of it.\<close>

fun error_text :: "json_env \<Rightarrow> err \<Rightarrow> string" where
  "error_text je (Sentinel s) = sentinel_text s"
| "error_text je (Wrapped c e) = c @ '': '' @ error_text je e"
| "error_text je (Detailed e d) = error_text je e @ '': '' @ d"
| "error_text je (Foreign c) = je_foreign je c"

section \<open>Handlers\<close>

text \<open>A handler of a route, which also gets the values of the parameters in its pattern.\<close>

type_synonym ('w, 'b) endpoint = "(string \<rightharpoonup> string) \<Rightarrow> ('w, 'b) handler"

record 'w route =
  rt_method :: string
  rt_pattern :: string
  rt_endpoint :: "('w, doc) endpoint"

definition NoContent :: "'b response" where
  "NoContent = \<lparr>rs_status = 204, rs_header = [], rs_body = NoBody\<rparr>"

definition ok_json :: "int \<Rightarrow> doc \<Rightarrow> doc response" where
  "ok_json status d = WriteJSON status (Some d)"

text \<open>\<^verbatim>\<open>userID, _ := middleware.UserID(r.Context())\<close> and \<^verbatim>\<open>chi.URLParam\<close>\<close>

definition current_user :: "http_request \<Rightarrow> string" where
  "current_user r = (case rq_user r of None \<Rightarrow> '''' | Some u \<Rightarrow> u)"

text \<open>\<^verbatim>\<open>x, err := svc.Method(...); if err != nil { writeError(w, err); return }; write x\<close>\<close>

definition respond :: "(err \<Rightarrow> 'b response) \<Rightarrow> ('w, 'a) io \<Rightarrow> ('a \<Rightarrow> 'b response) \<Rightarrow> 'w \<Rightarrow> 'b response \<times> 'w" where
  "respond bad m good w = (case m w of (Inl e, w') \<Rightarrow> (bad e, w') | (Inr x, w') \<Rightarrow> (good x, w'))"

text \<open>\<^verbatim>\<open>var req T; if err := httpx.DecodeJSON(r, &req); err != nil { 400 invalid_request; return }\<close>\<close>

definition with_body ::
    "json_env \<Rightarrow> 'a struct \<Rightarrow> 'a \<Rightarrow> http_request \<Rightarrow> ('a \<Rightarrow> 'w \<Rightarrow> doc response \<times> 'w) \<Rightarrow> 'w \<Rightarrow> doc response \<times> 'w" where
  "with_body je tbl zero r k w =
     (case DecodeJSON je tbl zero r of
        Inl e \<Rightarrow> (WriteError 400 ''invalid_request'' (error_text je e), w)
      | Inr req \<Rightarrow> k req w)"

definition internal_error :: "'b response" where
  "internal_error = WriteError 500 ''internal_error'' ''internal error''"

text \<open>The query parameter \<^verbatim>\<open>limit\<close>, zero when it is missing.\<close>

definition with_limit ::
    "http_request \<Rightarrow> (int \<Rightarrow> 'w \<Rightarrow> doc response \<times> 'w) \<Rightarrow> 'w \<Rightarrow> doc response \<times> 'w" where
  "with_limit r k w =
     (let raw = first_value (rq_query r) ''limit'' in
      if raw = '''' then k 0 w
      else case Atoi raw of
             None \<Rightarrow> (WriteError 400 ''invalid_request'' ''limit must be a non-negative integer'', w)
           | Some n \<Rightarrow> if n < 0 then (WriteError 400 ''invalid_request'' ''limit must be a non-negative integer'', w)
                       else k n w)"

text \<open>\<^verbatim>\<open>r.Use(middleware.RequireAuth(authr))\<close> on a group of routes\<close>

definition behind :: "(('w, doc) handler \<Rightarrow> ('w, doc) handler) \<Rightarrow> 'w route list \<Rightarrow> 'w route list" where
  "behind mw rts = map (\<lambda>rt. rt\<lparr>rt_endpoint := (\<lambda>p. mw (rt_endpoint rt p))\<rparr>) rts"

definition route :: "string \<Rightarrow> string \<Rightarrow> ('w, doc) endpoint \<Rightarrow> 'w route" where
  "route method pattern h = \<lparr>rt_method = method, rt_pattern = pattern, rt_endpoint = h\<rparr>"

end
