(* ===== verification/Api_Laws.thy ===== *)
theory Api_Laws
  imports Json_Api
begin

text \<open>
  What the pieces of a handler preserve: a view of the state that the service leaves alone, and
  answers that do not show the text of an internal error.
\<close>

section \<open>Frames of handlers\<close>

lemma keeps_respond [keeps_intros]: "keeps v m \<Longrightarrow> keeps v (respond bad m good)"
  by (auto simp: keeps_def respond_def split: prod.splits sum.splits) (metis snd_conv)+

lemma keeps_with_body [keeps_intros]: "(\<And>req. keeps v (k req)) \<Longrightarrow> keeps v (with_body je tbl zero r k)"
  by (auto simp: keeps_def with_body_def split: sum.splits)

lemma keeps_with_limit [keeps_intros]: "(\<And>n. keeps v (k n)) \<Longrightarrow> keeps v (with_limit r k)"
  by (auto simp: keeps_def with_limit_def Let_def split: option.splits)

lemma keeps_answer [keeps_intros]: "keeps v (\<lambda>w. (res, w))"
  by (simp add: keeps_def)

lemma keeps_RequireAuth [keeps_intros]:
  assumes "\<And>t. keeps v (au_Authenticate authr t)" and "\<And>r. keeps v (h r)"
  shows "keeps v (RequireAuth authr h r)"
  by (auto intro!: keepsI simp: RequireAuth_def Let_def split: if_splits prod.splits sum.splits
      dest!: keepsD [OF assms(1)] keepsD [OF assms(2)])

lemma keeps_RequireRole [keeps_intros]:
  assumes "\<And>u. keeps v (rc_HasRole roles u role)" and "\<And>r. keeps v (h r)"
  shows "keeps v (RequireRole roles role h r)"
  by (auto intro!: keepsI simp: RequireRole_def split: if_splits prod.splits sum.splits option.splits
      dest!: keepsD [OF assms(1)] keepsD [OF assms(2)])

lemma keeps_RateLimit [keeps_intros]:
  assumes "\<And>k. keeps v (Allow rl k limit window)" and "\<And>r. keeps v (h r)"
  shows "keeps v (RateLimit rl key limit window h r)"
  by (auto intro!: keepsI simp: RateLimit_def split: if_splits prod.splits sum.splits
      dest!: keepsD [OF assms(1)] keepsD [OF assms(2)])

text \<open>All routes of a list.\<close>

definition routes_keep :: "('w \<Rightarrow> 'v) \<Rightarrow> 'w route list \<Rightarrow> bool" where
  "routes_keep v rts \<longleftrightarrow> (\<forall>rt \<in> set rts. \<forall>p r. keeps v (rt_endpoint rt p r))"

lemma routes_keep_simps [simp]:
  "routes_keep v []"
  "routes_keep v (rt # rts) \<longleftrightarrow> (\<forall>p r. keeps v (rt_endpoint rt p r)) \<and> routes_keep v rts"
  "routes_keep v (xs @ ys) \<longleftrightarrow> routes_keep v xs \<and> routes_keep v ys"
  by (auto simp: routes_keep_def)

lemma route_endpoint [simp]: "rt_endpoint (route m pat h) = h" "rt_method (route m pat h) = m" "rt_pattern (route m pat h) = pat"
  by (simp_all add: route_def)

lemma behind_simps [simp]:
  "behind mw [] = []" "behind mw (rt # rts) = rt\<lparr>rt_endpoint := (\<lambda>p. mw (rt_endpoint rt p))\<rparr> # behind mw rts"
  by (simp_all add: behind_def)

section \<open>Answers without internals\<close>

definition opaque :: "'b response \<Rightarrow> bool" where
  "opaque res \<longleftrightarrow> (rs_status res = 500 \<longrightarrow> rs_body res = ErrorBody ''internal_error'' ''internal error'')"

named_theorems opaque_intros "an answer that shows no internals"

definition opaque_step :: "('w \<Rightarrow> 'b response \<times> 'w) \<Rightarrow> bool" where
  "opaque_step m \<longleftrightarrow> (\<forall>w. opaque (fst (m w)))"

lemma opaque_stepD: "opaque_step m \<Longrightarrow> m w = (res, w') \<Longrightarrow> opaque res"
  by (metis fst_conv opaque_step_def)

lemma opaque_stepI: "(\<And>w res w'. m w = (res, w') \<Longrightarrow> opaque res) \<Longrightarrow> opaque_step m"
  unfolding opaque_step_def by (metis prod.collapse)

lemma opaque_answers [simp]:
  "opaque internal_error" "s \<noteq> 500 \<Longrightarrow> opaque (WriteError s c m)" "s \<noteq> 500 \<Longrightarrow> opaque (ok_json s d)" "opaque NoContent"
  "s \<noteq> 500 \<Longrightarrow> opaque ((WriteError s c m)\<lparr>rs_header := hs\<rparr>)"
  "opaque (WriteError 500 ''internal_error'' ''internal error'')"
  by (simp_all add: opaque_def internal_error_def WriteError_def ok_json_def WriteJSON_def NoContent_def)

lemma opaque_respond [opaque_intros]:
  "(\<And>e. opaque (bad e)) \<Longrightarrow> (\<And>x. opaque (good x)) \<Longrightarrow> opaque_step (respond bad m good)"
  by (auto intro!: opaque_stepI simp: respond_def split: prod.splits sum.splits)

lemma opaque_with_body [opaque_intros]: "(\<And>req. opaque_step (k req)) \<Longrightarrow> opaque_step (with_body je tbl zero r k)"
  by (auto intro!: opaque_stepI simp: with_body_def split: sum.splits) (metis opaque_stepD)+

lemma opaque_with_limit [opaque_intros]: "(\<And>n. opaque_step (k n)) \<Longrightarrow> opaque_step (with_limit r k)"
  by (auto intro!: opaque_stepI simp: with_limit_def Let_def split: option.splits if_splits) (metis opaque_stepD)+

lemma opaque_if [opaque_intros]: "opaque_step m \<Longrightarrow> opaque_step n \<Longrightarrow> opaque_step (if b then m else n)"
  by simp

lemma opaque_case_prod [opaque_intros]: "(\<And>x y. opaque_step (f x y)) \<Longrightarrow> opaque_step (case p of (x, y) \<Rightarrow> f x y)"
  by (cases p) simp

lemma opaque_RequireAuth [opaque_intros]: "(\<And>r. opaque_step (h r)) \<Longrightarrow> opaque_step (RequireAuth authr h r)"
  by (auto intro!: opaque_stepI simp: RequireAuth_def Let_def split: if_splits prod.splits sum.splits) (metis opaque_stepD)+

lemma opaque_RequireRole [opaque_intros]: "(\<And>r. opaque_step (h r)) \<Longrightarrow> opaque_step (RequireRole roles role h r)"
  by (auto intro!: opaque_stepI simp: RequireRole_def split: if_splits prod.splits sum.splits option.splits) (metis opaque_stepD)+

lemma opaque_RateLimit [opaque_intros]: "(\<And>r. opaque_step (h r)) \<Longrightarrow> opaque_step (RateLimit rl key limit window h r)"
  by (auto intro!: opaque_stepI simp: RateLimit_def split: if_splits prod.splits sum.splits) (metis opaque_stepD)+

definition routes_opaque :: "'w route list \<Rightarrow> bool" where
  "routes_opaque rts \<longleftrightarrow> (\<forall>rt \<in> set rts. \<forall>p r. opaque_step (rt_endpoint rt p r))"

lemma routes_opaque_simps [simp]:
  "routes_opaque []"
  "routes_opaque (rt # rts) \<longleftrightarrow> (\<forall>p r. opaque_step (rt_endpoint rt p r)) \<and> routes_opaque rts"
  "routes_opaque (xs @ ys) \<longleftrightarrow> routes_opaque xs \<and> routes_opaque ys"
  by (auto simp: routes_opaque_def)

section \<open>What a decoded body can be\<close>

text \<open>
  A body that is decoded is one value of at most \<^verbatim>\<open>maxBodyBytes\<close>, \<^verbatim>\<open>null\<close> or an object that has no
  field the struct does not have.
\<close>

lemma field_setter_known:
  assumes "field_setter tbl k = Some st"
  shows "\<exists>name. (name, st) \<in> set tbl \<and> EqualFold name k"
proof -
  from assms obtain f where "List.find (\<lambda>(name, _). EqualFold name k) tbl = Some f" and "snd f = st"
    by (auto simp: field_setter_def)
  then show ?thesis by (cases f) (auto simp: find_Some_iff, metis nth_mem)
qed

lemma set_fields_known:
  "set_fields tbl kvs x = Some y \<Longrightarrow> (k, d) \<in> set kvs \<Longrightarrow> \<exists>name \<in> fst ` set tbl. EqualFold name k"
  by (induction kvs arbitrary: x) (force split: option.splits dest: field_setter_known simp: bind_eq_Some_conv)+

end
