(* ===== verification/Auth_Api.thy ===== *)
theory Auth_Api
  imports Json_Api Auth_Service
begin

text \<open>
  \<^verbatim>\<open>backend/internal/auth/api/handlers.go\<close>: the REST handlers of accounts and sessions.
\<close>

section \<open>Requests and responses\<close>

record deviceRequest =
  dvr_Platform :: string
  dvr_PushToken :: string
  dvr_AppVersion :: string

definition deviceRequest_fields :: "deviceRequest struct" where
  "deviceRequest_fields = [
     (''platform'', text_field (\<lambda>s x. x\<lparr>dvr_Platform := s\<rparr>)),
     (''push_token'', text_field (\<lambda>s x. x\<lparr>dvr_PushToken := s\<rparr>)),
     (''app_version'', text_field (\<lambda>s x. x\<lparr>dvr_AppVersion := s\<rparr>))]"

definition device_toInput :: "deviceRequest option \<Rightarrow> DeviceInput option" where
  "device_toInput d =
     (case d of
        None \<Rightarrow> None
      | Some x \<Rightarrow> if dvr_Platform x = '''' then None
                  else Some \<lparr>di_Platform = dvr_Platform x, di_PushToken = dvr_PushToken x,
                             di_AppVersion = dvr_AppVersion x\<rparr>)"

record credentialsRequest =
  cr_Email :: string
  cr_Password :: string
  cr_DisplayName :: string
  cr_OAuthProvider :: string
  cr_OAuthToken :: string
  cr_Device :: "deviceRequest option"

definition no_device :: deviceRequest where
  "no_device = \<lparr>dvr_Platform = '''', dvr_PushToken = '''', dvr_AppVersion = ''''\<rparr>"

definition credentials_fields :: "credentialsRequest struct" where
  "credentials_fields = [
     (''email'', text_field (\<lambda>s x. x\<lparr>cr_Email := s\<rparr>)),
     (''password'', text_field (\<lambda>s x. x\<lparr>cr_Password := s\<rparr>)),
     (''display_name'', text_field (\<lambda>s x. x\<lparr>cr_DisplayName := s\<rparr>)),
     (''oauth_provider'', text_field (\<lambda>s x. x\<lparr>cr_OAuthProvider := s\<rparr>)),
     (''oauth_token'', text_field (\<lambda>s x. x\<lparr>cr_OAuthToken := s\<rparr>)),
     (''device'', struct_pointer deviceRequest_fields no_device cr_Device (\<lambda>d x. x\<lparr>cr_Device := d\<rparr>))]"

definition no_credentials :: credentialsRequest where
  "no_credentials = \<lparr>cr_Email = '''', cr_Password = '''', cr_DisplayName = '''', cr_OAuthProvider = '''',
     cr_OAuthToken = '''', cr_Device = None\<rparr>"

definition json_time :: "json_env \<Rightarrow> time \<Rightarrow> doc" where
  "json_time je t = DStr (je_format je ''2006-01-02T15:04:05.999999999Z07:00'' t)"

definition toAuthResponse :: "json_env \<Rightarrow> AuthResult \<Rightarrow> doc" where
  "toAuthResponse je r = DObj [
     (''user_id'', DStr (ar_UserID r)),
     (''access_token'', DStr (ar_AccessToken r)),
     (''access_token_expires_at'', json_time je (ar_AccessTokenExpiresAt r)),
     (''refresh_token'', DStr (ar_RefreshToken r)),
     (''refresh_token_expires_at'', json_time je (ar_RefreshTokenExpiresAt r))]"

text \<open>A body with one text field: \<^verbatim>\<open>refreshRequest\<close>, \<^verbatim>\<open>mfaVerifyRequest\<close>\<close>

definition one_text :: "string \<Rightarrow> string struct" where
  "one_text name = [(name, text_field (\<lambda>s _. s))]"

definition refreshRequest :: "string struct" where "refreshRequest = one_text ''refresh_token''"
definition mfaVerifyRequest :: "string struct" where "mfaVerifyRequest = one_text ''code''"

definition meResponse :: "User \<Rightarrow> doc" where
  "meResponse u = DObj ([
     (''user_id'', DStr (us_ID u)), (''email'', DStr (us_Email u)), (''display_name'', DStr (us_DisplayName u))]
     @ omit_text ''handle'' (us_Handle u) @ [(''status'', DStr (us_Status u))])"

section \<open>Errors\<close>

definition writeAuthError :: "json_env \<Rightarrow> err \<Rightarrow> doc response" where
  "writeAuthError je e =
     (if errors_Is e AuthErrInvalidInput then WriteError 400 ''invalid_input'' (error_text je e)
      else if errors_Is e ErrEmailTaken then WriteError 409 ''email_taken'' ''email already registered''
      else if errors_Is e ErrInvalidCredentials then WriteError 401 ''invalid_credentials'' ''invalid email or password''
      else if errors_Is e ErrUserNotFound then WriteError 404 ''not_found'' ''user not found''
      else if errors_Is e ErrInvalidRefreshToken then WriteError 401 ''invalid_refresh_token'' ''invalid refresh token''
      else if errors_Is e ErrRefreshTokenExpired then WriteError 401 ''refresh_token_expired'' ''refresh token expired''
      else if errors_Is e ErrRefreshTokenRevoked then WriteError 401 ''refresh_token_revoked'' ''refresh token revoked''
      else if errors_Is e ErrRefreshTokenReused
      then WriteError 401 ''refresh_token_reused'' ''refresh token reuse detected; all sessions revoked''
      else if errors_Is e ErrSecretNotFound
      then WriteError 400 ''mfa_not_enrolled''
        (''no MFA factor enrolled '' @ map char_of [0xE2, 0x80, 0x94 :: nat] @ '' call /v1/auth/mfa/enroll first'')
      else if errors_Is e OAuthErrNotImplemented then WriteError 501 ''not_implemented'' (error_text je e)
      else if errors_Is e ErrUnsupportedProvider then WriteError 400 ''unsupported_provider'' (error_text je e)
      else internal_error)"

section \<open>Handlers\<close>

definition auth_oauthLogin ::
    "json_env \<Rightarrow> 'w AuthService \<Rightarrow> credentialsRequest \<Rightarrow> 'w \<Rightarrow> doc response \<times> 'w" where
  "auth_oauthLogin je svc req w =
     (if cr_OAuthProvider req = ''''
      then (WriteError 400 ''invalid_request'' ''oauth_provider is required with oauth_token'', w)
      else respond (writeAuthError je)
             (LoginWithOAuth svc (cr_OAuthProvider req) (cr_OAuthToken req) (cr_DisplayName req)
               (device_toInput (cr_Device req)))
             (\<lambda>result. ok_json 200 (toAuthResponse je result)) w)"

definition auth_signUp :: "json_env \<Rightarrow> 'w AuthService \<Rightarrow> ('w, doc) endpoint" where
  "auth_signUp je svc p r = with_body je credentials_fields no_credentials r (\<lambda>req.
     if cr_OAuthToken req \<noteq> '''' then auth_oauthLogin je svc req
     else respond (writeAuthError je)
            (SignUp svc \<lparr>su_Email = cr_Email req, su_Password = cr_Password req,
               su_DisplayName = cr_DisplayName req, su_Device = device_toInput (cr_Device req)\<rparr>)
            (\<lambda>result. ok_json 201 (toAuthResponse je result)))"

definition auth_login :: "json_env \<Rightarrow> 'w AuthService \<Rightarrow> ('w, doc) endpoint" where
  "auth_login je svc p r = with_body je credentials_fields no_credentials r (\<lambda>req.
     if cr_OAuthToken req \<noteq> '''' then auth_oauthLogin je svc req
     else respond (writeAuthError je)
            (Login svc \<lparr>li_Email = cr_Email req, li_Password = cr_Password req,
               li_Device = device_toInput (cr_Device req)\<rparr>)
            (\<lambda>result. ok_json 200 (toAuthResponse je result)))"

definition auth_refresh :: "json_env \<Rightarrow> 'w AuthService \<Rightarrow> ('w, doc) endpoint" where
  "auth_refresh je svc p r = with_body je refreshRequest '''' r (\<lambda>token.
     respond (writeAuthError je) (Refresh svc token) (\<lambda>result. ok_json 200 (toAuthResponse je result)))"

definition auth_logout :: "json_env \<Rightarrow> 'w AuthService \<Rightarrow> ('w, doc) endpoint" where
  "auth_logout je svc p r = with_body je refreshRequest '''' r (\<lambda>token.
     respond (writeAuthError je) (Logout svc token) (\<lambda>_. NoContent))"

definition auth_logoutAll :: "json_env \<Rightarrow> 'w AuthService \<Rightarrow> ('w, doc) endpoint" where
  "auth_logoutAll je svc p r =
     respond (writeAuthError je) (LogoutAll svc (current_user r)) (\<lambda>_. NoContent)"

definition auth_me :: "json_env \<Rightarrow> 'w AuthService \<Rightarrow> ('w, doc) endpoint" where
  "auth_me je svc p r =
     respond (writeAuthError je) (Me svc (current_user r)) (\<lambda>u. ok_json 200 (meResponse u))"

definition auth_mfaEnroll :: "json_env \<Rightarrow> 'w AuthService \<Rightarrow> ('w, doc) endpoint" where
  "auth_mfaEnroll je svc p r =
     respond (writeAuthError je) (EnrollMFA svc (current_user r)) (\<lambda>(secret, url).
       ok_json 200 (DObj [(''secret'', DStr secret), (''otpauth_url'', DStr url)]))"

definition auth_mfaVerify :: "json_env \<Rightarrow> 'w AuthService \<Rightarrow> ('w, doc) endpoint" where
  "auth_mfaVerify je svc p r = with_body je mfaVerifyRequest '''' r (\<lambda>code.
     respond (writeAuthError je) (VerifyMFA svc (current_user r) code) (\<lambda>ok.
       if \<not> ok then WriteError 401 ''invalid_code'' ''invalid or expired code'' else NoContent))"

text \<open>\<^verbatim>\<open>Mount\<close>: the routes, with the rate limit on signing up and logging in.\<close>

definition auth_Mount ::
    "json_env \<Rightarrow> 'w AuthService \<Rightarrow> 'w Authenticator \<Rightarrow> (('w, doc) handler \<Rightarrow> ('w, doc) handler) \<Rightarrow> 'w route list" where
  "auth_Mount je svc authr loginRateLimit =
     behind loginRateLimit [
       route ''POST'' ''/v1/auth/signup'' (auth_signUp je svc),
       route ''POST'' ''/v1/auth/login'' (auth_login je svc)]
     @ [route ''POST'' ''/v1/auth/refresh'' (auth_refresh je svc),
        route ''POST'' ''/v1/auth/logout'' (auth_logout je svc)]
     @ behind (RequireAuth authr) [
       route ''GET'' ''/v1/auth/me'' (auth_me je svc),
       route ''POST'' ''/v1/auth/logout-all'' (auth_logoutAll je svc),
       route ''POST'' ''/v1/auth/mfa/enroll'' (auth_mfaEnroll je svc),
       route ''POST'' ''/v1/auth/mfa/verify'' (auth_mfaVerify je svc)]"

end
