(* ===== verification/Presence_Api.thy ===== *)
theory Presence_Api
  imports Json_Api Settings_Service
begin

text \<open>
  \<^verbatim>\<open>backend/internal/presence/api/handlers.go\<close>: the REST handlers of the privacy settings.
\<close>

section \<open>Requests and responses\<close>

definition short_time :: "json_env \<Rightarrow> time \<Rightarrow> string" where
  "short_time je t = je_format je ''2006-01-02T15:04:05Z07:00'' t"

definition toSettingsResponse :: "json_env \<Rightarrow> PrivacySettings \<Rightarrow> doc" where
  "toSettingsResponse je s = DObj ([
     (''presence_visibility'', DStr (PresenceVisibility s)),
     (''presence_share_track'', DBool (PresenceShareTrack s)),
     (''proximity_consent_enabled'', DBool (ProximityConsentEnabled s))]
     @ omit_option ''proximity_consent_ts'' (map_option (short_time je) (ProximityConsentTS s))
     @ omit_option ''proximity_consent_renew_due'' (map_option (short_time je) (ProximityConsentRenewDue s))
     @ [(''visibility_radius_m'', DInt (VisibilityRadiusM s)),
        (''reveal_level'', DInt (RevealLevel s)),
        (''paused'', DBool (Paused s))])"

definition updateSettingsRequest :: "UpdateSettingsInput struct" where
  "updateSettingsRequest = [
     (''presence_visibility'', text_pointer (\<lambda>v x. x\<lparr>in_PresenceVisibility := v\<rparr>)),
     (''presence_share_track'', bool_pointer (\<lambda>v x. x\<lparr>in_PresenceShareTrack := v\<rparr>)),
     (''visibility_radius_m'', int_pointer (\<lambda>v x. x\<lparr>in_VisibilityRadiusM := v\<rparr>)),
     (''reveal_level'', int_pointer (\<lambda>v x. x\<lparr>in_RevealLevel := v\<rparr>)),
     (''paused'', bool_pointer (\<lambda>v x. x\<lparr>in_Paused := v\<rparr>))]"

definition no_changes :: UpdateSettingsInput where
  "no_changes = \<lparr>in_PresenceVisibility = None, in_PresenceShareTrack = None, in_VisibilityRadiusM = None,
     in_RevealLevel = None, in_Paused = None\<rparr>"

section \<open>Handlers\<close>

definition presence_writeError :: "json_env \<Rightarrow> err \<Rightarrow> doc response" where
  "presence_writeError je e =
     (if errors_Is e PresenceErrInvalidInput \<or> errors_Is e ErrInvalidRadius \<or> errors_Is e ErrInvalidRevealLevel
         \<or> errors_Is e ErrInvalidVisibility then WriteError 400 ''invalid_input'' (error_text je e)
      else if errors_Is e ErrCannotBlockSelf then WriteError 400 ''cannot_block_self'' (error_text je e)
      else if errors_Is e ErrMFARequired then WriteError 403 ''mfa_required'' (error_text je e)
      else if errors_Is e ErrSettingsNotFound then WriteError 404 ''not_found'' (error_text je e)
      else internal_error)"

definition presence_getSettings :: "json_env \<Rightarrow> 'w SettingsService \<Rightarrow> ('w, doc) endpoint" where
  "presence_getSettings je svc p r =
     respond (presence_writeError je) (SettingsService_Get svc (current_user r)) (\<lambda>s. ok_json 200 (toSettingsResponse je s))"

definition presence_updateSettings :: "json_env \<Rightarrow> 'w SettingsService \<Rightarrow> ('w, doc) endpoint" where
  "presence_updateSettings je svc p r = with_body je updateSettingsRequest no_changes r (\<lambda>inp.
     respond (presence_writeError je) (SettingsService_Update svc (current_user r) inp)
       (\<lambda>s. ok_json 200 (toSettingsResponse je s)))"

definition presence_grantConsent :: "json_env \<Rightarrow> 'w SettingsService \<Rightarrow> ('w, doc) endpoint" where
  "presence_grantConsent je svc p r =
     respond (presence_writeError je) (GrantConsent svc (current_user r)) (\<lambda>s. ok_json 200 (toSettingsResponse je s))"

definition presence_revokeConsent :: "json_env \<Rightarrow> 'w SettingsService \<Rightarrow> ('w, doc) endpoint" where
  "presence_revokeConsent je svc p r =
     respond (presence_writeError je) (RevokeConsent svc (current_user r)) (\<lambda>s. ok_json 200 (toSettingsResponse je s))"

definition presence_pause :: "json_env \<Rightarrow> 'w SettingsService \<Rightarrow> ('w, doc) endpoint" where
  "presence_pause je svc p r =
     respond (presence_writeError je) (SetPaused svc (current_user r) True) (\<lambda>s. ok_json 200 (toSettingsResponse je s))"

definition presence_resume :: "json_env \<Rightarrow> 'w SettingsService \<Rightarrow> ('w, doc) endpoint" where
  "presence_resume je svc p r =
     respond (presence_writeError je) (SetPaused svc (current_user r) False) (\<lambda>s. ok_json 200 (toSettingsResponse je s))"

definition presence_block :: "json_env \<Rightarrow> 'w SettingsService \<Rightarrow> ('w, doc) endpoint" where
  "presence_block je svc p r =
     respond (presence_writeError je) (SettingsService_Block svc (current_user r) (first_value p ''user_id'')) (\<lambda>_. NoContent)"

definition presence_unblock :: "json_env \<Rightarrow> 'w SettingsService \<Rightarrow> ('w, doc) endpoint" where
  "presence_unblock je svc p r =
     respond (presence_writeError je) (SettingsService_Unblock svc (current_user r) (first_value p ''user_id'')) (\<lambda>_. NoContent)"

definition presence_Mount :: "json_env \<Rightarrow> 'w SettingsService \<Rightarrow> 'w Authenticator \<Rightarrow> 'w route list" where
  "presence_Mount je svc authr = behind (RequireAuth authr) [
     route ''GET'' ''/v1/presence/settings'' (presence_getSettings je svc),
     route ''PUT'' ''/v1/presence/settings'' (presence_updateSettings je svc),
     route ''POST'' ''/v1/presence/consent'' (presence_grantConsent je svc),
     route ''DELETE'' ''/v1/presence/consent'' (presence_revokeConsent je svc),
     route ''POST'' ''/v1/presence/pause'' (presence_pause je svc),
     route ''POST'' ''/v1/presence/resume'' (presence_resume je svc),
     route ''POST'' ''/v1/presence/blocks/{user_id}'' (presence_block je svc),
     route ''DELETE'' ''/v1/presence/blocks/{user_id}'' (presence_unblock je svc)]"

end
