(* ===== verification/Playback_Api.thy ===== *)
theory Playback_Api
  imports Json_Api Playback_Service
begin

text \<open>
  \<^verbatim>\<open>backend/internal/playback/api/handlers.go\<close>: the REST handlers of playback sessions.
\<close>

section \<open>Requests and responses\<close>

definition timeLayout :: string where "timeLayout = ''2006-01-02T15:04:05.999999999Z07:00''"

definition createSessionRequest :: "string struct" where
  "createSessionRequest = [(''device_id'', text_field (\<lambda>s _. s))]"

definition createSessionResponse :: "SessionState \<Rightarrow> doc" where
  "createSessionResponse s = DObj [(''session_id'', DStr (ss_SessionID s))]"

definition toStateResponse :: "SessionState \<Rightarrow> doc" where
  "toStateResponse s = DObj (omit_text ''track_id'' (ss_TrackID s)
     @ [(''position_ms'', DInt (ss_PositionMs s)), (''is_playing'', DBool (ss_IsPlaying s)),
        (''queue'', DArr (map DStr (ss_Queue s)))])"

text \<open>\<^verbatim>\<open>playRequest\<close> as the pair of its fields.\<close>

definition playRequest :: "(string \<times> int) struct" where
  "playRequest = [(''track_id'', text_field (\<lambda>s x. (s, snd x))), (''position_ms'', int_field (\<lambda>n x. (fst x, n)))]"

definition playResponse :: "json_env \<Rightarrow> PlayResult \<Rightarrow> doc" where
  "playResponse je x = DObj [(''stream_url'', DStr (pr_StreamURL x)),
     (''expires_at'', DStr (je_format je timeLayout (pr_ExpiresAt x)))]"

definition seekRequest :: "int struct" where
  "seekRequest = [(''position_ms'', int_field (\<lambda>n _. n))]"

definition nextResponse :: "json_env \<Rightarrow> PlayResult \<Rightarrow> doc" where
  "nextResponse je x = DObj [(''track_id'', DStr (pr_TrackID x)), (''stream_url'', DStr (pr_StreamURL x)),
     (''expires_at'', DStr (je_format je timeLayout (pr_ExpiresAt x)))]"

definition enqueueRequest :: "(string list \<times> string) struct" where
  "enqueueRequest = [(''track_ids'', list_field text_elem (\<lambda>ts x. (ts, snd x))),
     (''position'', text_field (\<lambda>s x. (fst x, s)))]"

section \<open>Handlers\<close>

definition writePlaybackError :: "json_env \<Rightarrow> err \<Rightarrow> doc response" where
  "writePlaybackError je e =
     (if errors_Is e PlaybackErrInvalidInput then WriteError 400 ''invalid_input'' (error_text je e)
      else if errors_Is e ErrSessionNotFound then WriteError 404 ''not_found'' ''session not found''
      else if errors_Is e PlaybackErrTrackNotFound then WriteError 404 ''not_found'' ''track not found''
      else if errors_Is e ErrForbidden then WriteError 403 ''forbidden'' ''you do not have access to this session''
      else if errors_Is e ErrEmptyQueue then WriteError 409 ''empty_queue'' ''queue is empty''
      else internal_error)"

definition playback_createSession :: "json_env \<Rightarrow> 'w PlaybackService \<Rightarrow> ('w, doc) endpoint" where
  "playback_createSession je svc p r = with_body je createSessionRequest '''' r (\<lambda>deviceID.
     respond (writePlaybackError je) (CreateSession svc (current_user r) deviceID)
       (\<lambda>s. ok_json 201 (createSessionResponse s)))"

definition playback_getState :: "json_env \<Rightarrow> 'w PlaybackService \<Rightarrow> ('w, doc) endpoint" where
  "playback_getState je svc p r =
     respond (writePlaybackError je) (GetState svc (first_value p ''id'') (current_user r))
       (\<lambda>s. ok_json 200 (toStateResponse s))"

definition playback_play :: "json_env \<Rightarrow> 'w PlaybackService \<Rightarrow> ('w, doc) endpoint" where
  "playback_play je svc p r = with_body je playRequest ('''', 0) r (\<lambda>(trackID, positionMs).
     respond (writePlaybackError je) (Play svc (first_value p ''id'') (current_user r) trackID positionMs)
       (\<lambda>x. ok_json 200 (playResponse je x)))"

definition playback_pause :: "json_env \<Rightarrow> 'w PlaybackService \<Rightarrow> ('w, doc) endpoint" where
  "playback_pause je svc p r =
     respond (writePlaybackError je) (Pause svc (first_value p ''id'') (current_user r)) (\<lambda>_. NoContent)"

definition playback_seek :: "json_env \<Rightarrow> 'w PlaybackService \<Rightarrow> ('w, doc) endpoint" where
  "playback_seek je svc p r = with_body je seekRequest 0 r (\<lambda>positionMs.
     respond (writePlaybackError je) (Seek svc (first_value p ''id'') (current_user r) positionMs) (\<lambda>_. NoContent))"

definition playback_next :: "json_env \<Rightarrow> 'w PlaybackService \<Rightarrow> ('w, doc) endpoint" where
  "playback_next je svc p r =
     respond (writePlaybackError je) (Next svc (first_value p ''id'') (current_user r)) (\<lambda>x. ok_json 200 (nextResponse je x))"

definition playback_enqueue :: "json_env \<Rightarrow> 'w PlaybackService \<Rightarrow> ('w, doc) endpoint" where
  "playback_enqueue je svc p r = with_body je enqueueRequest ([], '''') r (\<lambda>(trackIDs, position).
     respond (writePlaybackError je) (Enqueue svc (first_value p ''id'') (current_user r) trackIDs position) (\<lambda>_. NoContent))"

definition playback_Mount :: "json_env \<Rightarrow> 'w PlaybackService \<Rightarrow> 'w Authenticator \<Rightarrow> 'w route list" where
  "playback_Mount je svc authr = behind (RequireAuth authr) [
     route ''POST'' ''/v1/playback/sessions'' (playback_createSession je svc),
     route ''GET'' ''/v1/playback/sessions/{id}/state'' (playback_getState je svc),
     route ''POST'' ''/v1/playback/sessions/{id}/play'' (playback_play je svc),
     route ''POST'' ''/v1/playback/sessions/{id}/pause'' (playback_pause je svc),
     route ''POST'' ''/v1/playback/sessions/{id}/seek'' (playback_seek je svc),
     route ''POST'' ''/v1/playback/sessions/{id}/next'' (playback_next je svc),
     route ''POST'' ''/v1/playback/sessions/{id}/queue'' (playback_enqueue je svc)]"

end
