(* ===== verification/Library_Api.thy ===== *)
theory Library_Api
  imports Json_Api Library_Service
begin

text \<open>
  \<^verbatim>\<open>backend/internal/library/api/handlers.go\<close>: the REST handlers of playlists and saved tracks.
\<close>

section \<open>Requests and responses\<close>

definition toPlaylistResponse :: "Playlist \<Rightarrow> doc" where
  "toPlaylistResponse p = DObj ([(''id'', DStr (ply_ID p)), (''title'', DStr (ply_Title p))]
     @ omit_text ''description'' (ply_Description p)
     @ [(''visibility'', DStr (ply_Visibility p))]
     @ omit_text ''cover_url'' (ply_CoverURL p))"

record createPlaylistRequest =
  cpr_Title :: string
  cpr_Description :: string
  cpr_Visibility :: string

definition createPlaylistRequest_fields :: "createPlaylistRequest struct" where
  "createPlaylistRequest_fields = [
     (''title'', text_field (\<lambda>s x. x\<lparr>cpr_Title := s\<rparr>)),
     (''description'', text_field (\<lambda>s x. x\<lparr>cpr_Description := s\<rparr>)),
     (''visibility'', text_field (\<lambda>s x. x\<lparr>cpr_Visibility := s\<rparr>))]"

definition no_playlist :: createPlaylistRequest where
  "no_playlist = \<lparr>cpr_Title = '''', cpr_Description = '''', cpr_Visibility = ''''\<rparr>"

definition library_time :: "json_env \<Rightarrow> time \<Rightarrow> doc" where
  "library_time je t = DStr (je_format je ''2006-01-02T15:04:05.999999999Z07:00'' t)"

definition playlistTrackResponse :: "json_env \<Rightarrow> PlaylistTrack \<Rightarrow> doc" where
  "playlistTrackResponse je t = DObj ([(''track_id'', DStr (plt_TrackID t))]
     @ omit_text ''added_by'' (plt_AddedBy t) @ [(''added_at'', library_time je (plt_AddedAt t))])"

text \<open>\<^verbatim>\<open>addTrackRequest\<close> as the pair of its fields.\<close>

definition addTrackRequest :: "(string \<times> string) struct" where
  "addTrackRequest = [(''track_id'', text_field (\<lambda>s x. (s, snd x))), (''position'', text_field (\<lambda>s x. (fst x, s)))]"

definition saveTrackRequest :: "string struct" where
  "saveTrackRequest = [(''track_id'', text_field (\<lambda>s _. s))]"

definition savedTrackResponse :: "json_env \<Rightarrow> LibraryTrack \<Rightarrow> doc" where
  "savedTrackResponse je t = DObj [(''track_id'', DStr (lit_TrackID t)), (''added_at'', library_time je (lit_AddedAt t))]"

section \<open>Handlers\<close>

definition writeLibraryError :: "json_env \<Rightarrow> err \<Rightarrow> doc response" where
  "writeLibraryError je e =
     (if errors_Is e LibraryErrInvalidInput then WriteError 400 ''invalid_input'' (error_text je e)
      else if errors_Is e ErrPlaylistNotFound then WriteError 404 ''not_found'' ''playlist not found''
      else if errors_Is e LibraryErrTrackNotFound then WriteError 404 ''not_found'' ''track not found''
      else if errors_Is e ErrTrackNotInPlaylist then WriteError 404 ''not_found'' ''track not in playlist''
      else if errors_Is e ErrNotOwner then WriteError 403 ''forbidden'' ''you do not have access to this playlist''
      else internal_error)"

definition library_createPlaylist :: "json_env \<Rightarrow> 'w LibraryService \<Rightarrow> ('w, doc) endpoint" where
  "library_createPlaylist je svc p r = with_body je createPlaylistRequest_fields no_playlist r (\<lambda>req.
     respond (writeLibraryError je)
       (CreatePlaylist svc \<lparr>cpi_OwnerID = current_user r, cpi_Title = cpr_Title req,
          cpi_Description = cpr_Description req, cpi_Visibility = cpr_Visibility req\<rparr>)
       (\<lambda>pl. ok_json 201 (toPlaylistResponse pl)))"

definition library_listPlaylists :: "json_env \<Rightarrow> 'w LibraryService \<Rightarrow> ('w, doc) endpoint" where
  "library_listPlaylists je svc p r =
     respond (writeLibraryError je) (ListPlaylists svc (current_user r))
       (\<lambda>pls. ok_json 200 (DObj [(''playlists'', DArr (map toPlaylistResponse pls))]))"

definition library_listPlaylistTracks :: "json_env \<Rightarrow> 'w LibraryService \<Rightarrow> ('w, doc) endpoint" where
  "library_listPlaylistTracks je svc p r =
     respond (writeLibraryError je) (ListPlaylistTracks svc (first_value p ''id'') (current_user r))
       (\<lambda>(pl, ts). ok_json 200 (DObj [(''playlist'', toPlaylistResponse pl),
          (''tracks'', DArr (map (playlistTrackResponse je) ts))]))"

definition library_addTrack :: "json_env \<Rightarrow> 'w LibraryService \<Rightarrow> ('w, doc) endpoint" where
  "library_addTrack je svc p r = with_body je addTrackRequest ('''', '''') r (\<lambda>(trackID, position).
     respond (writeLibraryError je) (AddTrack svc (first_value p ''id'') (current_user r) trackID position) (\<lambda>_. NoContent))"

definition library_removeTrack :: "json_env \<Rightarrow> 'w LibraryService \<Rightarrow> ('w, doc) endpoint" where
  "library_removeTrack je svc p r =
     respond (writeLibraryError je)
       (RemoveTrack svc (first_value p ''id'') (current_user r) (first_value p ''track_id'')) (\<lambda>_. NoContent)"

definition library_saveTrack :: "json_env \<Rightarrow> 'w LibraryService \<Rightarrow> ('w, doc) endpoint" where
  "library_saveTrack je svc p r = with_body je saveTrackRequest '''' r (\<lambda>trackID.
     respond (writeLibraryError je) (SaveTrack svc (current_user r) trackID) (\<lambda>_. NoContent))"

definition library_unsaveTrack :: "json_env \<Rightarrow> 'w LibraryService \<Rightarrow> ('w, doc) endpoint" where
  "library_unsaveTrack je svc p r =
     respond (writeLibraryError je) (UnsaveTrack svc (current_user r) (first_value p ''track_id'')) (\<lambda>_. NoContent)"

definition library_listSavedTracks :: "json_env \<Rightarrow> 'w LibraryService \<Rightarrow> ('w, doc) endpoint" where
  "library_listSavedTracks je svc p r = with_limit r (\<lambda>limit.
     respond (writeLibraryError je)
       (ListSavedTracks svc (current_user r) (first_value (rq_query r) ''cursor'') limit)
       (\<lambda>(items, nxt). ok_json 200 (DObj ((''tracks'', DArr (map (savedTrackResponse je) items))
          # omit_text ''next_cursor'' nxt))))"

definition library_Mount :: "json_env \<Rightarrow> 'w LibraryService \<Rightarrow> 'w Authenticator \<Rightarrow> 'w route list" where
  "library_Mount je svc authr = behind (RequireAuth authr) [
     route ''GET'' ''/v1/library/me/playlists'' (library_listPlaylists je svc),
     route ''POST'' ''/v1/library/me/playlists'' (library_createPlaylist je svc),
     route ''GET'' ''/v1/library/me/playlists/{id}/tracks'' (library_listPlaylistTracks je svc),
     route ''POST'' ''/v1/library/me/playlists/{id}/tracks'' (library_addTrack je svc),
     route ''DELETE'' ''/v1/library/me/playlists/{id}/tracks/{track_id}'' (library_removeTrack je svc),
     route ''GET'' ''/v1/library/me/saved-tracks'' (library_listSavedTracks je svc),
     route ''POST'' ''/v1/library/me/saved-tracks'' (library_saveTrack je svc),
     route ''DELETE'' ''/v1/library/me/saved-tracks/{track_id}'' (library_unsaveTrack je svc)]"

end
