(* ===== verification/Catalog_Api.thy ===== *)
theory Catalog_Api
  imports Json_Api Catalog_Service
begin

text \<open>
  \<^verbatim>\<open>backend/internal/catalog/api/handlers.go\<close>: the REST handlers of the catalog.
\<close>

section \<open>Requests and responses\<close>

definition toArtistResponse :: "Artist \<Rightarrow> doc" where
  "toArtistResponse a = DObj ([(''id'', DStr (art_ID a)), (''name'', DStr (art_Name a))]
     @ omit_text ''slug'' (art_Slug a) @ omit_text ''bio'' (art_Bio a) @ omit_text ''image_url'' (art_ImageURL a)
     @ [(''verified'', DBool (art_Verified a))])"

definition createArtistRequest :: "CreateArtistInput struct" where
  "createArtistRequest = [
     (''name'', text_field (\<lambda>s x. x\<lparr>cai_Name := s\<rparr>)),
     (''slug'', text_field (\<lambda>s x. x\<lparr>cai_Slug := s\<rparr>)),
     (''bio'', text_field (\<lambda>s x. x\<lparr>cai_Bio := s\<rparr>)),
     (''image_url'', text_field (\<lambda>s x. x\<lparr>cai_ImageURL := s\<rparr>))]"

definition no_artist :: CreateArtistInput where
  "no_artist = \<lparr>cai_Name = '''', cai_Slug = '''', cai_Bio = '''', cai_ImageURL = ''''\<rparr>"

definition trackArtistResponse :: "TrackArtist \<Rightarrow> doc" where
  "trackArtistResponse ta = DObj [(''artist_id'', DStr (ta_ArtistID ta)), (''artist_name'', DStr (ta_ArtistName ta)),
     (''role'', DStr (ta_Role ta))]"

definition audioAssetResponse :: "AudioAsset \<Rightarrow> doc" where
  "audioAssetResponse a = DObj [(''quality_tier'', DStr (aud_QualityTier a)), (''codec'', DStr (aud_Codec a)),
     (''bitrate_kbps'', DInt (aud_BitrateKbps a))]"

definition toTrackResponse :: "Track \<Rightarrow> AudioAsset list \<Rightarrow> doc" where
  "toTrackResponse t assets = DObj ([(''id'', DStr (trk_ID t)), (''title'', DStr (trk_Title t))]
     @ omit_text ''album_id'' (trk_AlbumID t)
     @ [(''duration_ms'', DInt (trk_DurationMs t)), (''explicit'', DBool (trk_Explicit t))]
     @ omit_list ''artists'' (map trackArtistResponse (trk_Artists t))
     @ omit_list ''available_bitrates'' (map audioAssetResponse assets))"

definition albumResponse :: "Album \<Rightarrow> Track list \<Rightarrow> doc" where
  "albumResponse a tracks = DObj ([(''id'', DStr (alb_ID a)), (''title'', DStr (alb_Title a))]
     @ omit_text ''primary_artist_id'' (alb_PrimaryArtistID a)
     @ [(''album_type'', DStr (alb_AlbumType a))]
     @ omit_text ''cover_url'' (alb_CoverURL a)
     @ omit_list ''tracks'' (map (\<lambda>t. toTrackResponse t []) tracks))"

definition createAlbumRequest :: "CreateAlbumInput struct" where
  "createAlbumRequest = [
     (''title'', text_field (\<lambda>s x. x\<lparr>cbi_Title := s\<rparr>)),
     (''primary_artist_id'', text_field (\<lambda>s x. x\<lparr>cbi_PrimaryArtistID := s\<rparr>)),
     (''album_type'', text_field (\<lambda>s x. x\<lparr>cbi_AlbumType := s\<rparr>)),
     (''cover_url'', text_field (\<lambda>s x. x\<lparr>cbi_CoverURL := s\<rparr>))]"

definition no_album :: CreateAlbumInput where
  "no_album = \<lparr>cbi_Title = '''', cbi_PrimaryArtistID = '''', cbi_AlbumType = '''', cbi_CoverURL = ''''\<rparr>"

text \<open>The elements of \<^verbatim>\<open>artists\<close>, already as the credits the handler makes of them.\<close>

definition createTrackArtistRequest :: "TrackArtist struct" where
  "createTrackArtistRequest = [
     (''artist_id'', text_field (\<lambda>s x. x\<lparr>ta_ArtistID := s\<rparr>)),
     (''role'', text_field (\<lambda>s x. x\<lparr>ta_Role := s\<rparr>))]"

definition no_credit :: TrackArtist where
  "no_credit = \<lparr>ta_ArtistID = '''', ta_ArtistName = '''', ta_Role = ''''\<rparr>"

definition createTrackRequest :: "CreateTrackInput struct" where
  "createTrackRequest = [
     (''title'', text_field (\<lambda>s x. x\<lparr>cti_Title := s\<rparr>)),
     (''album_id'', text_field (\<lambda>s x. x\<lparr>cti_AlbumID := s\<rparr>)),
     (''duration_ms'', int_field (\<lambda>n x. x\<lparr>cti_DurationMs := n\<rparr>)),
     (''track_number'', int_pointer (\<lambda>n x. x\<lparr>cti_TrackNumber := n\<rparr>)),
     (''isrc'', text_field (\<lambda>s x. x\<lparr>cti_ISRC := s\<rparr>)),
     (''explicit'', bool_field (\<lambda>b x. x\<lparr>cti_Explicit := b\<rparr>)),
     (''artists'', list_field (\<lambda>d. decode_struct createTrackArtistRequest d no_credit) (\<lambda>as x. x\<lparr>cti_Artists := as\<rparr>))]"

definition no_track :: CreateTrackInput where
  "no_track = \<lparr>cti_Title = '''', cti_AlbumID = '''', cti_DurationMs = 0, cti_TrackNumber = None, cti_ISRC = '''',
     cti_Explicit = False, cti_Artists = [], cti_Assets = []\<rparr>"

definition searchResponse :: "SearchOutput \<Rightarrow> doc" where
  "searchResponse out = DObj (omit_list ''tracks'' (map (\<lambda>t. toTrackResponse t []) (so_Tracks out))
     @ omit_list ''albums'' (map (\<lambda>a. albumResponse a []) (so_Albums out))
     @ omit_list ''artists'' (map toArtistResponse (so_Artists out))
     @ omit_text ''next_cursor'' (so_NextCursor out))"

section \<open>Handlers\<close>

definition writeCatalogError :: "json_env \<Rightarrow> err \<Rightarrow> doc response" where
  "writeCatalogError je e =
     (if errors_Is e CatalogErrInvalidInput then WriteError 400 ''invalid_input'' (error_text je e)
      else if errors_Is e CatalogErrTrackNotFound then WriteError 404 ''not_found'' ''track not found''
      else if errors_Is e ErrAlbumNotFound then WriteError 404 ''not_found'' ''album not found''
      else if errors_Is e ErrArtistNotFound then WriteError 404 ''not_found'' ''artist not found''
      else internal_error)"

definition catalog_createArtist :: "json_env \<Rightarrow> 'w CatalogService \<Rightarrow> ('w, doc) endpoint" where
  "catalog_createArtist je svc p r = with_body je createArtistRequest no_artist r (\<lambda>inp.
     respond (writeCatalogError je) (CreateArtist svc inp) (\<lambda>a. ok_json 201 (toArtistResponse a)))"

definition catalog_getArtist :: "json_env \<Rightarrow> 'w CatalogService \<Rightarrow> ('w, doc) endpoint" where
  "catalog_getArtist je svc p r =
     respond (writeCatalogError je) (GetArtist svc (first_value p ''id'')) (\<lambda>a. ok_json 200 (toArtistResponse a))"

definition catalog_createAlbum :: "json_env \<Rightarrow> 'w CatalogService \<Rightarrow> ('w, doc) endpoint" where
  "catalog_createAlbum je svc p r = with_body je createAlbumRequest no_album r (\<lambda>inp.
     respond (writeCatalogError je) (CreateAlbum svc inp) (\<lambda>a. ok_json 201 (albumResponse a [])))"

definition catalog_getAlbum :: "json_env \<Rightarrow> 'w CatalogService \<Rightarrow> ('w, doc) endpoint" where
  "catalog_getAlbum je svc p r =
     respond (writeCatalogError je) (GetAlbum svc (first_value p ''id'')) (\<lambda>(a, ts). ok_json 200 (albumResponse a ts))"

definition catalog_createTrack :: "json_env \<Rightarrow> 'w CatalogService \<Rightarrow> ('w, doc) endpoint" where
  "catalog_createTrack je svc p r = with_body je createTrackRequest no_track r (\<lambda>inp.
     respond (writeCatalogError je) (CreateTrack svc inp) (\<lambda>t. ok_json 201 (toTrackResponse t [])))"

definition catalog_getTrack :: "json_env \<Rightarrow> 'w CatalogService \<Rightarrow> ('w, doc) endpoint" where
  "catalog_getTrack je svc p r =
     respond (writeCatalogError je) (GetTrack svc (first_value p ''id'')) (\<lambda>(t, as). ok_json 200 (toTrackResponse t as))"

definition catalog_search :: "json_env \<Rightarrow> 'w CatalogService \<Rightarrow> ('w, doc) endpoint" where
  "catalog_search je svc p r = with_limit r (\<lambda>limit.
     respond (writeCatalogError je)
       (catalog_Search svc \<lparr>si_Query = first_value (rq_query r) ''q'', si_Type = first_value (rq_query r) ''type'',
          si_Cursor = first_value (rq_query r) ''cursor'', si_Limit = limit\<rparr>)
       (\<lambda>out. ok_json 200 (searchResponse out)))"

definition catalog_Mount ::
    "json_env \<Rightarrow> 'w CatalogService \<Rightarrow> 'w Authenticator \<Rightarrow> 'w RoleChecker \<Rightarrow> 'w route list" where
  "catalog_Mount je svc authr roles =
     [route ''GET'' ''/v1/catalog/search'' (catalog_search je svc),
      route ''GET'' ''/v1/catalog/artists/{id}'' (catalog_getArtist je svc),
      route ''GET'' ''/v1/catalog/albums/{id}'' (catalog_getAlbum je svc),
      route ''GET'' ''/v1/catalog/tracks/{id}'' (catalog_getTrack je svc)]
     @ behind (RequireAuth authr \<circ> RequireRole roles ''catalog_curator'') [
      route ''POST'' ''/v1/catalog/artists'' (catalog_createArtist je svc),
      route ''POST'' ''/v1/catalog/albums'' (catalog_createAlbum je svc),
      route ''POST'' ''/v1/catalog/tracks'' (catalog_createTrack je svc)]"

end
