(* ===== verification/Router.thy ===== *)
theory Router
  imports Api_Laws Auth_Api Presence_Api Playback_Api Library_Api Catalog_Api Core_Library
begin

text \<open>
  The router of the core process (\<^verbatim>\<open>buildRouter\<close> of \<^verbatim>\<open>cmd/server/main.go\<close>) and the process it serves:
  the services of auth and of the presence settings on the state of \<open>Core\<close>, the rate limit on
  logging in, and the routes. Which route a path belongs to is chi's business; the file server under
  \<^verbatim>\<open>/media\<close> and the middlewares of chi and cors are not in the repository.
\<close>

section \<open>The routes\<close>

definition healthz :: "('w, doc) endpoint" where
  "healthz p r w = (\<lparr>rs_status = 200, rs_header = [], rs_body = TextBody ''ok''\<rparr>, w)"

definition buildRouter ::
    "json_env \<Rightarrow> 'w AuthService \<Rightarrow> 'w CatalogService \<Rightarrow> 'w LibraryService \<Rightarrow> 'w PlaybackService \<Rightarrow>
     'w SettingsService \<Rightarrow> 'w Authenticator \<Rightarrow> (('w, doc) handler \<Rightarrow> ('w, doc) handler) \<Rightarrow> 'w route list" where
  "buildRouter je authService catalogService libraryService playbackService presenceSettings authr loginRateLimit =
     [route ''GET'' ''/healthz'' healthz]
     @ auth_Mount je authService authr loginRateLimit
     @ catalog_Mount je catalogService authr \<lparr>rc_HasRole = HasRole authService\<rparr>
     @ library_Mount je libraryService authr
     @ playback_Mount je playbackService authr
     @ presence_Mount je presenceSettings authr"

section \<open>The services of the core process\<close>

definition core_auth :: "('r, 'i, 'x) externals \<Rightarrow> deployment \<Rightarrow> ('r, 'i, 'x) core AuthService" where
  "core_auth ex cfg = (let s = server_auth ex cfg in \<lparr>
     as_users = \<lparr>ur_Create = (\<lambda>u. on_world (ur_Create (as_users s) u)),
                 ur_GetByEmail = (\<lambda>e. on_world (ur_GetByEmail (as_users s) e)),
                 ur_GetByID = (\<lambda>i. on_world (ur_GetByID (as_users s) i))\<rparr>,
     as_identities = \<lparr>ir_GetUserIDByProvider = (\<lambda>p q. on_world (ir_GetUserIDByProvider (as_identities s) p q)),
                      ir_Link = (\<lambda>x. on_world (ir_Link (as_identities s) x))\<rparr>,
     as_devices = \<lparr>dr_Upsert = (\<lambda>d. on_world (dr_Upsert (as_devices s) d))\<rparr>,
     as_refreshTokens = \<lparr>rr_Store = (\<lambda>r. on_world (rr_Store (as_refreshTokens s) r)),
                         rr_GetByHash = (\<lambda>h. on_world (rr_GetByHash (as_refreshTokens s) h)),
                         rr_Revoke = (\<lambda>i t. on_world (rr_Revoke (as_refreshTokens s) i t)),
                         rr_MarkReplaced = (\<lambda>i j t. on_world (rr_MarkReplaced (as_refreshTokens s) i j t)),
                         rr_RevokeAllForUser = (\<lambda>u t. on_world (rr_RevokeAllForUser (as_refreshTokens s) u t))\<rparr>,
     as_hasher = \<lparr>Hash = (\<lambda>p. on_world (Hash (as_hasher s) p)), hs_Verify = hs_Verify (as_hasher s)\<rparr>,
     as_signer = \<lparr>Sign = (\<lambda>u. on_world (Sign (as_signer s) u))\<rparr>,
     as_refreshGen = on_world (as_refreshGen s),
     as_oauthVerifier = StubVerifier_Verify,
     as_mfa = \<lparr>mp_EnrollURI = (\<lambda>u. on_world (mp_EnrollURI (as_mfa s) u)),
               mp_Verify = (\<lambda>u c. on_world (mp_Verify (as_mfa s) u c)),
               mp_HasVerified = (\<lambda>u. on_world (mp_HasVerified (as_mfa s) u))\<rparr>,
     as_clock = core_clock,
     as_ids = core_ids ex,
     as_refreshTTL = dp_RefreshTokenTTL cfg,
     as_hashRefreshToken = ex_sha256 ex\<rparr>)"

definition core_settings_service :: "('r, 'i, 'x) externals \<Rightarrow> deployment \<Rightarrow> ('r, 'i, 'x) core SettingsService" where
  "core_settings_service ex cfg = (let s = server_settings ex cfg in \<lparr>
     ss_settings = \<lparr>psr_Get = (\<lambda>u. on_world (psr_Get (ss_settings s) u)),
                    psr_Upsert = (\<lambda>x. on_world (psr_Upsert (ss_settings s) x))\<rparr>,
     ss_blocks = \<lparr>br_Block = (\<lambda>a b. on_world (br_Block (ss_blocks s) a b)),
                  br_Unblock = (\<lambda>a b. on_world (br_Unblock (ss_blocks s) a b)),
                  br_IsBlockedEitherWay = (\<lambda>a b. on_world (br_IsBlockedEitherWay (ss_blocks s) a b))\<rparr>,
     ss_geo = map_option (\<lambda>g. \<lparr>geo_Upsert = (\<lambda>e d. on_world (geo_Upsert g e d)),
                geo_Touch = (\<lambda>u d. on_world (geo_Touch g u d)),
                geo_Remove = (\<lambda>u. on_world (geo_Remove g u)),
                geo_Search = (\<lambda>p r u. on_world (geo_Search g p r u)),
                geo_Detail = (\<lambda>us. on_world (geo_Detail g us))\<rparr>) (ss_geo s),
     ss_mfa = \<lparr>mfa_HasVerifiedMFA = HasVerifiedMFA (core_auth ex cfg)\<rparr>,
     ss_clock = core_clock\<rparr>)"

definition core_authenticator :: "('r, 'i, 'x) externals \<Rightarrow> deployment \<Rightarrow> ('r, 'i, 'x) core Authenticator" where
  "core_authenticator ex cfg = \<lparr>au_Authenticate = (\<lambda>t. on_world (Authenticate (server_signer ex cfg) t))\<rparr>"

definition core_limiter :: "('r, 'i, 'x) externals \<Rightarrow> ('r, 'i, 'x) core RateLimiter" where
  "core_limiter ex = \<lparr>Allow = (\<lambda>k l d. on_world (Allow (world_limiter (ex_redis ex)) k l d))\<rparr>"

definition loginRateLimit ::
    "('r, 'i, 'x) externals \<Rightarrow> int \<Rightarrow> (('r, 'i, 'x) core, doc) handler \<Rightarrow> (('r, 'i, 'x) core, doc) handler" where
  "loginRateLimit ex perMinute = RateLimit (core_limiter ex) (ClientIPKey ''login'') perMinute Minute"

definition core_router ::
    "json_env \<Rightarrow> ('r, 'i, 'x) externals \<Rightarrow> deployment \<Rightarrow> media_deployment \<Rightarrow> int \<Rightarrow> ('r, 'i, 'x) core route list" where
  "core_router je ex cfg md perMinute =
     buildRouter je (core_auth ex cfg) (core_catalog ex md) (core_library ex md) (core_playback ex md)
       (core_settings_service ex cfg) (core_authenticator ex cfg) (loginRateLimit ex perMinute)"

lemmas mounts = auth_Mount_def catalog_Mount_def library_Mount_def playback_Mount_def presence_Mount_def

text \<open>The routes that take no token.\<close>

definition public_routes :: "(string \<times> string) list" where
  "public_routes = [
     (''GET'', ''/healthz''),
     (''POST'', ''/v1/auth/signup''), (''POST'', ''/v1/auth/login''), (''POST'', ''/v1/auth/refresh''),
     (''POST'', ''/v1/auth/logout''),
     (''GET'', ''/v1/catalog/search''), (''GET'', ''/v1/catalog/artists/{id}''), (''GET'', ''/v1/catalog/albums/{id}''),
     (''GET'', ''/v1/catalog/tracks/{id}'')]"

definition guarded :: "'w Authenticator \<Rightarrow> 'w route \<Rightarrow> bool" where
  "guarded authr rt \<longleftrightarrow> (\<exists>h. rt_endpoint rt = (\<lambda>p. RequireAuth authr (h p)))"

definition is_public :: "'w route \<Rightarrow> bool" where
  "is_public rt \<longleftrightarrow> (rt_method rt, rt_pattern rt) \<in> set public_routes"

lemma guarded_route [simp]:
  "guarded authr ((route m pat h)\<lparr>rt_endpoint := (\<lambda>p. RequireAuth authr (k p))\<rparr>)"
  by (auto simp: guarded_def)

lemma is_public_route [simp]: "is_public (route m pat h) \<longleftrightarrow> (m, pat) \<in> set public_routes"
  "is_public ((route m pat h)\<lparr>rt_endpoint := k\<rparr>) \<longleftrightarrow> (m, pat) \<in> set public_routes"
  by (simp_all add: is_public_def route_def)

lemma mounts_guarded:
  "\<forall>rt \<in> set (auth_Mount je svc authr limiter). is_public rt \<or> guarded authr rt"
  "\<forall>rt \<in> set (catalog_Mount je csvc authr roles). is_public rt \<or> guarded authr rt"
  "\<forall>rt \<in> set (library_Mount je lsvc authr). guarded authr rt"
  "\<forall>rt \<in> set (playback_Mount je bsvc authr). guarded authr rt"
  "\<forall>rt \<in> set (presence_Mount je psvc authr). guarded authr rt"
  by (simp_all add: mounts public_routes_def)

lemma not_public_guarded:
  assumes "rt \<in> set (buildRouter je auth catalog lib playback presence authr limiter)" and "\<not> is_public rt"
  shows "guarded authr rt"
proof -
  have "is_public (route ''GET'' ''/healthz'' healthz)" by (simp add: public_routes_def)
  with assms show ?thesis
    unfolding buildRouter_def
    by (auto simp del: is_public_route dest: bspec [OF mounts_guarded(1)] bspec [OF mounts_guarded(2)]
        bspec [OF mounts_guarded(3)] bspec [OF mounts_guarded(4)] bspec [OF mounts_guarded(5)])
qed

section \<open>Internal errors stay inside\<close>

lemma errors_opaque [simp]:
  "opaque (writeAuthError je e)" "opaque (writeCatalogError je e)" "opaque (writeLibraryError je e)"
  "opaque (writePlaybackError je e)" "opaque (presence_writeError je e)"
  by (simp_all add: writeAuthError_def writeCatalogError_def writeLibraryError_def writePlaybackError_def
      presence_writeError_def)

lemma auth_oauthLogin_if:
  "auth_oauthLogin je svc req =
     (if cr_OAuthProvider req = ''''
      then (\<lambda>w. (WriteError 400 ''invalid_request'' ''oauth_provider is required with oauth_token'', w))
      else respond (writeAuthError je)
             (LoginWithOAuth svc (cr_OAuthProvider req) (cr_OAuthToken req) (cr_DisplayName req)
               (device_toInput (cr_Device req)))
             (\<lambda>result. ok_json 200 (toAuthResponse je result)))"
  by (simp add: fun_eq_iff auth_oauthLogin_def)

lemma opaque_answer [opaque_intros]: "opaque res \<Longrightarrow> opaque_step (\<lambda>w. (res, w))"
  by (simp add: opaque_step_def)

lemma auth_opaque: "routes_opaque (auth_Mount je svc authr (RateLimit rl key limit window))"
  unfolding auth_Mount_def auth_signUp_def auth_login_def auth_oauthLogin_if auth_refresh_def auth_logout_def
    auth_logoutAll_def auth_me_def auth_mfaEnroll_def auth_mfaVerify_def
  by simp (intro conjI allI opaque_intros; simp split: prod.splits)

lemma catalog_opaque: "routes_opaque (catalog_Mount je csvc authr roles)"
  unfolding catalog_Mount_def catalog_createArtist_def catalog_getArtist_def catalog_createAlbum_def catalog_getAlbum_def
    catalog_createTrack_def catalog_getTrack_def catalog_search_def
  by simp (intro conjI allI opaque_intros; simp split: prod.splits)

lemma library_opaque: "routes_opaque (library_Mount je lsvc authr)"
  unfolding library_Mount_def library_createPlaylist_def library_listPlaylists_def library_listPlaylistTracks_def
    library_addTrack_def library_removeTrack_def library_saveTrack_def library_unsaveTrack_def library_listSavedTracks_def
  by simp (intro conjI allI opaque_intros; simp split: prod.splits)

lemma playback_opaque: "routes_opaque (playback_Mount je bsvc authr)"
  unfolding playback_Mount_def playback_createSession_def playback_getState_def playback_play_def playback_pause_def
    playback_seek_def playback_next_def playback_enqueue_def
  by simp (intro conjI allI opaque_intros; simp split: prod.splits)

lemma presence_opaque: "routes_opaque (presence_Mount je psvc authr)"
  unfolding presence_Mount_def presence_getSettings_def presence_updateSettings_def presence_grantConsent_def
    presence_revokeConsent_def presence_pause_def presence_resume_def presence_block_def presence_unblock_def
  by simp (intro conjI allI opaque_intros; simp split: prod.splits)

end
