(* ===== verification/Frames.thy ===== *)
theory Frames
  imports Router
begin

text \<open>
  What the routes of a module leave alone: when no operation a service is built from touches a part
  of the state, no route of the service does. The interpretations are the services of the core process.
\<close>

lemma keeps_case_list [keeps_intros]:
  "(xs = [] \<Longrightarrow> keeps v f) \<Longrightarrow> (\<And>y ys. xs = y # ys \<Longrightarrow> keeps v (g y ys)) \<Longrightarrow>
   keeps v (case xs of [] \<Rightarrow> f | y # ys \<Rightarrow> g y ys)"
  by (cases xs) auto

section \<open>Auth\<close>

locale auth_frame =
  fixes s :: "'w AuthService" and v :: "'w \<Rightarrow> 'v"
  assumes users: "keeps v (ur_Create (as_users s) u)" "keeps v (ur_GetByEmail (as_users s) e)" "keeps v (ur_GetByID (as_users s) i)"
    and identities: "keeps v (ir_GetUserIDByProvider (as_identities s) p q)" "keeps v (ir_Link (as_identities s) x)"
    and devices: "keeps v (dr_Upsert (as_devices s) d)"
    and tokens: "keeps v (rr_Store (as_refreshTokens s) r)" "keeps v (rr_GetByHash (as_refreshTokens s) h)"
      "keeps v (rr_Revoke (as_refreshTokens s) i t)" "keeps v (rr_MarkReplaced (as_refreshTokens s) i j t)"
      "keeps v (rr_RevokeAllForUser (as_refreshTokens s) i t)"
    and crypto: "keeps v (Hash (as_hasher s) e)" "keeps v (Sign (as_signer s) i)" "keeps v (as_refreshGen s)"
      "keeps v (as_oauthVerifier s p q)"
    and factors: "keeps v (mp_EnrollURI (as_mfa s) i)" "keeps v (mp_Verify (as_mfa s) i j)" "keeps v (mp_HasVerified (as_mfa s) i)"
    and platform: "keeps v (Now (as_clock s))" "keeps v (NewID (as_ids s))"
begin

lemmas parts = users identities devices tokens crypto factors platform

lemma issueSession: "keeps v (issueSession s u d)"
  unfolding issueSession_def upsertDevice_def issueTokens_def storeRefreshToken_def
  by (intro keeps_intros parts)

lemma accounts: "keeps v (SignUp s inp)" "keeps v (Login s login)" "keeps v (LoginWithOAuth s p t n d)"
  unfolding SignUp_def Login_def LoginWithOAuth_def by (intro keeps_intros parts issueSession)+

lemma sessions: "keeps v (Refresh s t)" "keeps v (Logout s t)" "keeps v (LogoutAll s i)"
  unfolding Refresh_def refresh_admit_def refresh_rotate_def issueTokens_def storeRefreshToken_def Logout_def LogoutAll_def
  by (intro keeps_intros parts)+

lemma profile: "keeps v (EnrollMFA s i)" "keeps v (VerifyMFA s i c)" "keeps v (HasVerifiedMFA s i)" "keeps v (HasRole s i role)"
    "keeps v (Me s i)"
  unfolding EnrollMFA_def VerifyMFA_def HasVerifiedMFA_def HasRole_def Me_def by (intro keeps_intros parts)+

lemma routes:
  assumes "\<And>t. keeps v (au_Authenticate authr t)" and "\<And>k. keeps v (Allow rl k limit window)"
  shows "routes_keep v (auth_Mount je s authr (RateLimit rl key limit window))"
  unfolding auth_Mount_def auth_signUp_def auth_login_def auth_oauthLogin_if auth_refresh_def auth_logout_def
    auth_logoutAll_def auth_me_def auth_mfaEnroll_def auth_mfaVerify_def
  by simp (intro conjI allI keeps_intros accounts sessions profile assms)

end

section \<open>Settings\<close>

locale settings_frame =
  fixes svc :: "'w SettingsService" and v :: "'w \<Rightarrow> 'v"
  assumes store: "keeps v (psr_Get (ss_settings svc) u)" "keeps v (psr_Upsert (ss_settings svc) x)"
    and blocks: "keeps v (br_Block (ss_blocks svc) a b)" "keeps v (br_Unblock (ss_blocks svc) a b)"
    and index: "ss_geo svc = Some g \<Longrightarrow> keeps v (geo_Remove g u)"
    and factor: "keeps v (mfa_HasVerifiedMFA (ss_mfa svc) u)"
    and clock: "keeps v (Now (ss_clock svc))"
begin

lemma removeFromIndex: "keeps v (removeFromIndex svc u)"
  unfolding removeFromIndex_def by (intro keeps_intros index)

lemma apply_input: "keeps v (apply_input inp x)"
  unfolding apply_input_def by (intro keeps_intros)

lemma reads: "keeps v (SettingsService_Get svc u)"
  unfolding SettingsService_Get_def by (intro keeps_intros store)

lemma changes: "keeps v (SettingsService_Update svc u inp)" "keeps v (GrantConsent svc u)" "keeps v (RevokeConsent svc u)"
    "keeps v (SetPaused svc u b)" "keeps v (SettingsService_Block svc a c)" "keeps v (SettingsService_Unblock svc a c)"
  unfolding SetPaused_def SettingsService_Update_def GrantConsent_def RevokeConsent_def SettingsService_Block_def
    SettingsService_Unblock_def
  by (intro keeps_intros store blocks factor clock removeFromIndex apply_input reads)+

lemma routes:
  assumes "\<And>t. keeps v (au_Authenticate authr t)"
  shows "routes_keep v (presence_Mount je svc authr)"
  unfolding presence_Mount_def presence_getSettings_def presence_updateSettings_def presence_grantConsent_def
    presence_revokeConsent_def presence_pause_def presence_resume_def presence_block_def presence_unblock_def
  by simp (intro conjI allI keeps_intros reads changes assms)

end

section \<open>Library\<close>

locale library_frame =
  fixes s :: "'w LibraryService" and v :: "'w \<Rightarrow> 'v"
  assumes playlists: "keeps v (plr_Create (ls_playlists s) p)" "keeps v (plr_GetByID (ls_playlists s) i)"
      "keeps v (plr_ListByOwner (ls_playlists s) i)"
    and entries: "keeps v (ptr_Add (ls_playlistTracks s) e)" "keeps v (ptr_Remove (ls_playlistTracks s) i j)"
      "keeps v (ptr_List (ls_playlistTracks s) i)" "keeps v (ptr_MaxPosition (ls_playlistTracks s) i)"
    and saved: "keeps v (ltr_Add (ls_libraryTracks s) x)" "keeps v (ltr_Remove (ls_libraryTracks s) i j)"
      "keeps v (ltr_List (ls_libraryTracks s) i c l)"
    and checker: "keeps v (lck_TrackExists (ls_tracks s) i)"
    and platform: "keeps v (Now (ls_clock s))" "keeps v (NewID (ls_ids s))"
begin

lemmas parts = playlists entries saved checker platform

lemma owned: "keeps v (getOwnedPlaylist s i u)" "keeps v (getPlaylist s i)" "keeps v (computePosition s i pos)"
  unfolding getOwnedPlaylist_def getPlaylist_def computePosition_def by (intro keeps_intros parts)+

lemma operations: "keeps v (CreatePlaylist s inp)" "keeps v (ListPlaylists s i)" "keeps v (ListPlaylistTracks s i u)"
    "keeps v (AddTrack s i u t pos)" "keeps v (RemoveTrack s i u t)" "keeps v (SaveTrack s u t)" "keeps v (UnsaveTrack s u t)"
    "keeps v (ListSavedTracks s u c l)"
  unfolding CreatePlaylist_def ListPlaylists_def ListPlaylistTracks_def AddTrack_def RemoveTrack_def SaveTrack_def
    UnsaveTrack_def ListSavedTracks_def
  by (intro keeps_intros parts owned)+

lemma routes:
  assumes "\<And>t. keeps v (au_Authenticate authr t)"
  shows "routes_keep v (library_Mount je s authr)"
  unfolding library_Mount_def library_createPlaylist_def library_listPlaylists_def library_listPlaylistTracks_def
    library_addTrack_def library_removeTrack_def library_saveTrack_def library_unsaveTrack_def library_listSavedTracks_def
  by simp (intro conjI allI keeps_intros operations assms)

end

section \<open>Playback\<close>

locale playback_frame =
  fixes s :: "'w PlaybackService" and v :: "'w \<Rightarrow> 'v"
  assumes store: "keeps v (st_Save (ps_store s) x d)" "keeps v (st_Load (ps_store s) i)" "keeps v (st_Delete (ps_store s) i)"
    and resolver: "keeps v (mr_Resolve (ps_resolver s) i)"
    and checker: "keeps v (tk_TrackExists (ps_tracks s) i)"
    and events: "keeps v (er_Record (ps_events s) e)"
    and platform: "keeps v (Now (ps_clock s))" "keeps v (NewID (ps_ids s))"
begin

lemmas parts = store resolver checker events platform

lemma check_tracks: "keeps v (check_tracks s ts)"
  by (induction ts) (auto intro!: keeps_intros parts)

lemma owned: "keeps v (getOwnedSession s i u)" "keeps v (loadTrack s i)" "keeps v (saveAndRecord s x i)"
  unfolding getOwnedSession_def loadTrack_def saveAndRecord_def by (intro keeps_intros parts)+

lemma operations: "keeps v (CreateSession s u d)" "keeps v (GetState s i u)" "keeps v (Play s i u t n)" "keeps v (Pause s i u)"
    "keeps v (Seek s i u n)" "keeps v (Next s i u)" "keeps v (Enqueue s i u ts pos)"
  unfolding CreateSession_def GetState_def Play_def Pause_def Seek_def Next_def Enqueue_def enqueue_read_def enqueue_write_def
  by (intro keeps_intros parts owned check_tracks)+

lemma routes:
  assumes "\<And>t. keeps v (au_Authenticate authr t)"
  shows "routes_keep v (playback_Mount je s authr)"
  unfolding playback_Mount_def playback_createSession_def playback_getState_def playback_play_def playback_pause_def
    playback_seek_def playback_next_def playback_enqueue_def
  by simp (intro conjI allI keeps_intros operations assms)

end

section \<open>Catalog\<close>

locale catalog_frame =
  fixes s :: "'w CatalogService" and v :: "'w \<Rightarrow> 'v"
  assumes artists: "keeps v (arr_Create (cs_artists s) a)" "keeps v (arr_GetByID (cs_artists s) i)"
      "keeps v (arr_Search (cs_artists s) q c l)"
    and albums: "keeps v (alr_Create (cs_albums s) b)" "keeps v (alr_GetByID (cs_albums s) i)"
      "keeps v (alr_Search (cs_albums s) q c l)"
    and tracks: "keeps v (trr_Create (cs_tracks s) t as)" "keeps v (trr_GetByID (cs_tracks s) i)"
      "keeps v (trr_ListByAlbum (cs_tracks s) i)" "keeps v (trr_Search (cs_tracks s) q c l)"
      "keeps v (trr_ListAudioAssets (cs_tracks s) i)"
    and platform: "keeps v (Now (cs_clock s))" "keeps v (NewID (cs_ids s))"
begin

lemmas parts = artists albums tracks platform

lemma checks: "keeps v (GetArtist s i)" "keeps v (primary_artist_exists s i)" "keeps v (album_exists s i)"
  unfolding primary_artist_exists_def GetArtist_def album_exists_def by (intro keeps_intros parts)+

lemma operations: "keeps v (CreateArtist s ain)" "keeps v (CreateAlbum s bin)" "keeps v (CreateTrack s tin)"
    "keeps v (GetAlbum s i)" "keeps v (GetTrack s i)" "keeps v (catalog_Search s look)"
  unfolding CreateArtist_def CreateAlbum_def CreateTrack_def GetAlbum_def GetTrack_def catalog_Search_def Let_def
  by (intro keeps_intros parts checks)+

lemma routes:
  assumes "\<And>t. keeps v (au_Authenticate authr t)" and "\<And>u role. keeps v (rc_HasRole roles u role)"
  shows "routes_keep v (catalog_Mount je s authr roles)"
  unfolding catalog_Mount_def catalog_createArtist_def catalog_getArtist_def catalog_createAlbum_def catalog_getAlbum_def
    catalog_createTrack_def catalog_getTrack_def catalog_search_def
  by simp (intro conjI allI keeps_intros checks operations assms)

end

end
