(* ===== verification/Core_Frames.thy ===== *)
theory Core_Frames
  imports Frames
begin

text \<open>
  The frames of the core process: what the routes of each module leave alone of the tables of the
  others.
\<close>

lemma keeps_pair: "keeps (\<lambda>w. (f w, g w)) m \<longleftrightarrow> keeps f m \<and> keeps g m"
  by (auto simp: keeps_def)

section \<open>The views\<close>

definition account_tables :: "('r, 'i, 'x) core \<Rightarrow> auth_tables \<times> mfa_tables" where
  "account_tables w = (pg_tables (w_auth (co_world w)), pg_tables (w_mfa (co_world w)))"

definition settings_tables :: "('r, 'i, 'x) core \<Rightarrow> presence_tables" where
  "settings_tables w = pg_tables (w_presence (co_world w))"

definition library_tables :: "('r, 'i, 'x) core \<Rightarrow> Playlist list \<times> PlaylistTrack list \<times> LibraryTrack list" where
  "library_tables w = (md_playlists (media w), md_entries (media w), md_saved (media w))"

named_theorems view_intros "steps that leave a view of the core alone"

lemma keeps_views [view_intros]:
  "keeps media (on_world m)" "keeps catalog_of (on_world m)" "keeps library_tables (on_world m)"
  unfolding catalog_of_def [abs_def] library_tables_def [abs_def] keeps_pair
  by (simp_all add: keeps_media_view keeps_media(1))

lemma keeps_on_media [view_intros]: "keeps settings_tables (on_media n)" "keeps account_tables (on_media n)"
  unfolding settings_tables_def [abs_def] account_tables_def [abs_def]
  by (simp_all add: on_media_def keeps_zoom_other)

lemma keeps_settings_tables [view_intros]:
  "keeps settings_tables (on_world (on_redis r))" "keeps settings_tables (on_world (on_clock c))"
  "keeps settings_tables (on_world (on_ids i))" "keeps settings_tables (on_world (on_rand x))"
  "keeps settings_tables (on_world (on_mfa f))" "keeps settings_tables (on_world (on_auth a))"
  unfolding settings_tables_def [abs_def]
  by (rule keeps_on_world, simp add: on_defs keeps_zoom_other)+

lemma keeps_account_tables [view_intros]:
  "keeps account_tables (on_world (on_redis r))" "keeps account_tables (on_world (on_clock c))"
  "keeps account_tables (on_world (on_ids i))" "keeps account_tables (on_world (on_rand x))"
  "keeps account_tables (on_world (on_presence f))"
  unfolding account_tables_def [abs_def] keeps_pair
  by (intro conjI; rule keeps_on_world, simp add: on_defs keeps_zoom_other)+

lemma keeps_clock_ids [view_intros]:
  assumes "keeps v (on_world (on_clock (Now Real_clock)))" "keeps v (on_world (on_ids (NewID (ex_uuid ex))))"
  shows "keeps v (Now core_clock)" "keeps v (NewID (core_ids ex))"
  using assms by (simp_all add: core_clock_def core_ids_def world_clock_def world_ids_def)

lemma keeps_authenticator:
  assumes "keeps v (on_world (on_clock (Now Real_clock)))"
  shows "keeps v (au_Authenticate (core_authenticator ex cfg) t)"
proof (rule keepsI)
  fix w r w'
  assume "au_Authenticate (core_authenticator ex cfg) t w = (r, w')"
  then have "w' = snd (on_world (on_clock (Now Real_clock)) w)"
    by (auto simp: core_authenticator_def Authenticate_def server_signer_def world_clock_def on_world_def zoom_def
        bindE_def call_def split: prod.splits sum.splits parse_failure.splits if_splits)
  with assms show "v w' = v w" by (simp add: keeps_def)
qed

section \<open>The modules of the core\<close>

lemma challenger_keeps:
  "keeps (\<lambda>w. pg_tables (w_presence w)) (mfa_EnrollURI (server_challenger ex) u)"
  "keeps (\<lambda>w. pg_tables (w_presence w)) (mfa_Verify (server_challenger ex) u c)"
  "keeps (\<lambda>w. pg_tables (w_presence w)) (mfa_HasVerified (server_challenger ex) u)"
  unfolding mfa_EnrollURI_def mfa_enroll_def mfa_Verify_def mfa_check_def mfa_activate_def mfa_HasVerified_def
  by (intro keeps_intros; simp add: server_challenger_def world_clock_def; (intro keeps_intros)?;
      simp add: on_defs keeps_zoom_other)+

lemma signer_keeps: "keeps (\<lambda>w. pg_tables (w_presence w)) (Sign (as_signer (server_auth ex cfg)) u)"
  unfolding server_auth_def Signer_Sign_def Let_def
  by (simp add: Signer_Sign_def, intro keeps_intros)
    (simp_all add: server_signer_def world_clock_def on_defs keeps_zoom_other keeps_intros)

lemma auth_settings_tables: "auth_frame (core_auth ex cfg) settings_tables"
proof
  fix u c
  have lift: "keeps settings_tables (on_world m)" if "keeps (\<lambda>w. pg_tables (w_presence w)) m" for m
    unfolding settings_tables_def [abs_def] by (rule keeps_on_world [OF that])
  show "keeps settings_tables (mp_EnrollURI (as_mfa (core_auth ex cfg)) u)"
    "keeps settings_tables (mp_Verify (as_mfa (core_auth ex cfg)) u c)"
    "keeps settings_tables (mp_HasVerified (as_mfa (core_auth ex cfg)) u)"
    "keeps settings_tables (Sign (as_signer (core_auth ex cfg)) u)"
    using lift [OF signer_keeps] by (simp_all add: core_auth_def Let_def, simp_all add: server_auth_def lift challenger_keeps)
qed (simp_all add: core_auth_def server_auth_def Let_def StubVerifier_Verify_def keeps_clock_ids view_intros keeps_intros)

lemma auth_media: "auth_frame (core_auth ex cfg) media"
  by unfold_locales (simp_all add: core_auth_def Let_def StubVerifier_Verify_def keeps_clock_ids view_intros keeps_intros)

lemma factor_reads_keep:
  "keeps account_tables (on_world (mfa_HasVerified (server_challenger ex) u))"
  "keeps account_tables (on_world (on_auth (ur_GetByID pg_users u)))"
proof -
  have read: "keeps pg_tables (pg_secret_Get u)" "keeps pg_tables (ur_GetByID pg_users u)" for u
    by (simp_all add: pg_secret_Get_def pg_users_def pg_user_GetByID_def select_user_def)
      (intro keeps_intros keeps_pg_read [where f = "\<lambda>t. t"], simp)+
  show "keeps account_tables (on_world (mfa_HasVerified (server_challenger ex) u))"
    unfolding account_tables_def [abs_def] keeps_pair mfa_HasVerified_def
    by (intro conjI; rule keeps_on_world, intro keeps_intros)
      (simp_all add: server_challenger_def pg_secret_repo_def on_mfa_def keeps_zoom_other keeps_zoom_same read)
  show "keeps account_tables (on_world (on_auth (ur_GetByID pg_users u)))"
    unfolding account_tables_def [abs_def] keeps_pair
    by (intro conjI; rule keeps_on_world) (simp_all add: on_auth_def keeps_zoom_other keeps_zoom_same read)
qed

lemma HasVerified_account: "keeps account_tables (HasVerifiedMFA (core_auth ex cfg) u)"
  unfolding HasVerifiedMFA_def
  by (intro keeps_intros) (simp add: core_auth_def Let_def, simp add: server_auth_def factor_reads_keep)

lemma HasRole_account: "keeps account_tables (HasRole (core_auth ex cfg) u role)"
  unfolding HasRole_def
  by (intro keeps_intros) (simp_all add: core_auth_def Let_def, simp_all add: server_auth_def factor_reads_keep)

lemma settings_beside:
  "settings_frame (core_settings_service ex cfg) account_tables" "settings_frame (core_settings_service ex cfg) media"
proof -
  note simps = core_settings_service_def Let_def server_settings_def world_settings_def world_blocks_def world_geo_def
  show "settings_frame (core_settings_service ex cfg) account_tables"
    by unfold_locales (auto simp: simps HasVerified_account keeps_clock_ids view_intros)
  show "settings_frame (core_settings_service ex cfg) media"
    by unfold_locales
      (auto simp: simps keeps_clock_ids view_intros auth_frame.profile [OF auth_media])
qed

lemma TrackExists_beside:
  "keeps account_tables (TrackExists (core_catalog ex md) i)" "keeps settings_tables (TrackExists (core_catalog ex md) i)"
  unfolding TrackExists_def GetTrack_def
  by (intro keeps_intros; simp add: core_catalog_def view_intros)+

lemma library_beside:
  "library_frame (core_library ex md) account_tables" "library_frame (core_library ex md) settings_tables"
  by unfold_locales (simp_all add: core_library_def view_intros keeps_clock_ids TrackExists_beside)

lemma catalog_beside:
  "catalog_frame (core_catalog ex md) account_tables" "catalog_frame (core_catalog ex md) settings_tables"
  by unfold_locales (simp_all add: core_catalog_def view_intros keeps_clock_ids)

lemma playback_beside:
  "playback_frame (core_playback ex md) account_tables" "playback_frame (core_playback ex md) settings_tables"
  "playback_frame (core_playback ex md) media"
proof -
  note simps = core_playback_def NoopPlayEventRecorder_def media_Resolve_def NewLocalResolver_def
  have resolve: "keeps v (Now core_clock) \<Longrightarrow> keeps v (media_Resolve (NewLocalResolver h b k core_clock) t)"
    for v :: "('r, 'i, 'x) core \<Rightarrow> 'v" and h b k t
    unfolding media_Resolve_def by (intro keeps_intros; simp add: NewLocalResolver_def)
  show "playback_frame (core_playback ex md) account_tables" "playback_frame (core_playback ex md) settings_tables"
    "playback_frame (core_playback ex md) media"
    by unfold_locales
      (simp_all add: core_playback_def NoopPlayEventRecorder_def view_intros keeps_clock_ids TrackExists_beside
        TrackExists_keeps_media resolve keeps_intros)
qed

text \<open>The statements of the library do not write the catalog, and those of the catalog nothing else.\<close>

lemma library_statements:
  "keeps (\<lambda>q. md_catalog (pg_tables q)) (pg_playlist_Create p)" "keeps (\<lambda>q. md_catalog (pg_tables q)) (pg_playlist_GetByID i)"
  "keeps (\<lambda>q. md_catalog (pg_tables q)) (pg_ListByOwner i)" "keeps (\<lambda>q. md_catalog (pg_tables q)) (pg_entry_Add e)"
  "keeps (\<lambda>q. md_catalog (pg_tables q)) (pg_entry_Remove i j)" "keeps (\<lambda>q. md_catalog (pg_tables q)) (pg_entry_List i)"
  "keeps (\<lambda>q. md_catalog (pg_tables q)) (pg_MaxPosition i)" "keeps (\<lambda>q. md_catalog (pg_tables q)) (pg_saved_Add x)"
  "keeps (\<lambda>q. md_catalog (pg_tables q)) (pg_saved_Remove i j)" "keeps (\<lambda>q. md_catalog (pg_tables q)) (pg_saved_List cc i c l)"
  unfolding pg_playlist_Create_def pg_playlist_GetByID_def pg_ListByOwner_def pg_entry_Add_def pg_entry_Remove_def
    pg_entry_List_def pg_MaxPosition_def pg_saved_Add_def pg_saved_Remove_def pg_saved_List_def
  by (intro keeps_intros keeps_pg_run [where f = md_catalog];
      simp add: insert_playlist_def insert_entry_def delete_entries_def insert_saved_def Let_def)+

lemma on_media_catalog: "keeps (\<lambda>q. md_catalog (pg_tables q)) n \<Longrightarrow> keeps catalog_of (on_media n)"
  unfolding catalog_of_def [abs_def] media_def
  by (simp add: on_media_def keeps_zoom_same [where v = "\<lambda>q. md_catalog (pg_tables q)"])

lemma library_beside_catalog: "library_frame (core_library ex md) catalog_of"
proof -
  have exists: "keeps catalog_of (TrackExists (core_catalog ex md) i)" for i
    unfolding catalog_of_def [abs_def] by (rule keeps_media_view, rule TrackExists_keeps_media)
  show ?thesis
    by unfold_locales
      (simp_all add: core_library_def pg_playlists_def pg_entries_def pg_saved_def on_media_catalog library_statements
        exists view_intros keeps_clock_ids)
qed

lemma on_catalog_library: "keeps library_tables (on_media (on_catalog m))"
proof (rule keepsI)
  fix w r and w' :: "('r, 'i, 'x) core"
  assume "on_media (on_catalog m) w = (r, w')"
  then have "media w' = (media w)\<lparr>md_catalog := catalog_of w'\<rparr>" by (rule on_catalog_media)
  then show "library_tables w' = library_tables w" by (cases "media w") (simp add: library_tables_def)
qed

lemma catalog_beside_library: "catalog_frame (core_catalog ex md) library_tables"
  by unfold_locales (simp_all add: core_catalog_def on_catalog_library view_intros keeps_clock_ids)

interpretation core_auth_frame: auth_frame "core_auth ex cfg" media
  by (rule auth_media)

interpretation core_settings_frame: settings_frame "core_settings_service ex cfg" media
  by (rule settings_beside(2))

interpretation core_library_frame: library_frame "core_library ex md" catalog_of
  by (rule library_beside_catalog)

interpretation core_catalog_frame: catalog_frame "core_catalog ex md" library_tables
  by (rule catalog_beside_library)

interpretation core_playback_frame: playback_frame "core_playback ex md" media
  by (rule playback_beside(3))

section \<open>The routes of the core\<close>

lemmas core_authenticator_keeps =
  keeps_authenticator [OF view_intros(1)] keeps_authenticator [OF view_intros(2)] keeps_authenticator [OF view_intros(3)]
  keeps_authenticator [OF keeps_settings_tables(2)] keeps_authenticator [OF keeps_account_tables(2)]

lemma core_limiter_keeps:
  "keeps media (Allow (core_limiter ex) k l d)" "keeps settings_tables (Allow (core_limiter ex) k l d)"
  by (simp_all add: core_limiter_def world_limiter_def view_intros)

lemma HasRole_library: "keeps library_tables (HasRole (core_auth ex cfg) u role)"
  "keeps settings_tables (HasRole (core_auth ex cfg) u role)" "keeps catalog_of (HasRole (core_auth ex cfg) u role)"
proof -
  show "keeps settings_tables (HasRole (core_auth ex cfg) u role)" by (rule auth_frame.profile [OF auth_settings_tables])
  note m = auth_frame.profile(4) [OF auth_media, of ex cfg u role]
  show "keeps library_tables (HasRole (core_auth ex cfg) u role)" "keeps catalog_of (HasRole (core_auth ex cfg) u role)"
    unfolding library_tables_def [abs_def] catalog_of_def [abs_def] keeps_pair by (simp_all add: keeps_media_view m)
qed

lemma core_routes:
  "routes_keep media (auth_Mount je (core_auth ex cfg) (core_authenticator ex cfg) (loginRateLimit ex n))"
  "routes_keep settings_tables (auth_Mount je (core_auth ex cfg) (core_authenticator ex cfg) (loginRateLimit ex n))"
  "routes_keep media (presence_Mount je (core_settings_service ex cfg) (core_authenticator ex cfg))"
  "routes_keep account_tables (presence_Mount je (core_settings_service ex cfg) (core_authenticator ex cfg))"
  "routes_keep catalog_of (library_Mount je (core_library ex md) (core_authenticator ex cfg))"
  "routes_keep account_tables (library_Mount je (core_library ex md) (core_authenticator ex cfg))"
  "routes_keep settings_tables (library_Mount je (core_library ex md) (core_authenticator ex cfg))"
  "routes_keep media (playback_Mount je (core_playback ex md) (core_authenticator ex cfg))"
  "routes_keep account_tables (playback_Mount je (core_playback ex md) (core_authenticator ex cfg))"
  "routes_keep settings_tables (playback_Mount je (core_playback ex md) (core_authenticator ex cfg))"
  by (simp_all add: loginRateLimit_def core_authenticator_keeps core_limiter_keeps
      auth_frame.routes [OF auth_media] auth_frame.routes [OF auth_settings_tables]
      settings_frame.routes [OF settings_beside(1)] settings_frame.routes [OF settings_beside(2)]
      library_frame.routes [OF library_beside(1)] library_frame.routes [OF library_beside(2)]
      library_frame.routes [OF library_beside_catalog]
      playback_frame.routes [OF playback_beside(1)] playback_frame.routes [OF playback_beside(2)]
      playback_frame.routes [OF playback_beside(3)])

lemma core_catalog_routes:
  "routes_keep library_tables (catalog_Mount je (core_catalog ex md) (core_authenticator ex cfg) \<lparr>rc_HasRole = HasRole (core_auth ex cfg)\<rparr>)"
  "routes_keep account_tables (catalog_Mount je (core_catalog ex md) (core_authenticator ex cfg) \<lparr>rc_HasRole = HasRole (core_auth ex cfg)\<rparr>)"
  "routes_keep settings_tables (catalog_Mount je (core_catalog ex md) (core_authenticator ex cfg) \<lparr>rc_HasRole = HasRole (core_auth ex cfg)\<rparr>)"
  by (simp_all add: core_authenticator_keeps HasRole_library HasRole_account catalog_frame.routes [OF catalog_beside_library]
      catalog_frame.routes [OF catalog_beside(1)] catalog_frame.routes [OF catalog_beside(2)])

section \<open>The authenticator of the core\<close>

lemma core_authenticator_clock:
  "au_Authenticate (core_authenticator ex cfg) t w = (x, w') \<Longrightarrow> \<exists>c. w' = w\<lparr>co_world := (co_world w)\<lparr>w_clock := c\<rparr>\<rparr>"
  by (auto simp: core_authenticator_def Authenticate_def server_signer_def world_clock_def on_world_def on_clock_def zoom_def
      bindE_def call_def split: prod.splits sum.splits parse_failure.splits if_splits)

lemma core_authenticator_sound:
  assumes "jwt_library (ex_jwt ex)" and "au_Authenticate (core_authenticator ex cfg) t w = (Inr u, w')"
  shows "\<exists>c now. jwt_encode (ex_jwt ex) c = Inr t \<and> cl_Subject c = u \<and> cl_Issuer c = dp_JWTIssuer cfg
    \<and> clock_reading (co_world w) \<le> now \<and> now < cl_ExpiresAt c"
proof -
  from assms(2) have run: "Authenticate (server_signer ex cfg) t (co_world w) = (Inr u, co_world w')"
    by (auto simp: core_authenticator_def dest: on_core)
  from jwt_library.Authenticate_sound [OF assms(1) _ run] obtain c now where
    clk: "Now (ts_clock (server_signer ex cfg)) (co_world w) = (now, co_world w')"
    and c: "jwt_encode (ex_jwt ex) c = Inr t" "cl_Subject c = u" "cl_Issuer c = dp_JWTIssuer cfg" "now < cl_ExpiresAt c"
    by (auto simp: server_signer_def)
  have "clock_reading (co_world w) \<le> now"
    using monotone_clock.Now_forward [OF world_clock_laws] clk by (auto simp: server_signer_def)
  with c show ?thesis by blast
qed

end
