(* ===== verification/Router_Claims.thy ===== *)
theory Router_Claims
  imports Core_Frames Core_Samples
begin

text \<open>
  What holds of every request to the core process, whatever route it takes, each claim with a run on
  a small core.
\<close>

section \<open>The modules of the routes\<close>

text \<open>The second part of a pattern: \<open>auth\<close> in \<open>/v1/auth/login\<close>.\<close>

definition module_of :: "'w route \<Rightarrow> string" where
  "module_of rt = takeWhile (\<lambda>c. c \<noteq> CHR ''/'') (drop 4 (rt_pattern rt))"

lemma module_of_route [simp]:
  "module_of (route m pat h) = takeWhile (\<lambda>c. c \<noteq> CHR ''/'') (drop 4 pat)"
  "module_of (rt\<lparr>rt_endpoint := k\<rparr>) = module_of rt"
  by (simp_all add: module_of_def)

lemma mounts_module:
  "\<forall>rt \<in> set (auth_Mount je svc authr limiter). module_of rt = ''auth''"
  "\<forall>rt \<in> set (catalog_Mount je csvc authr roles). module_of rt = ''catalog''"
  "\<forall>rt \<in> set (library_Mount je lsvc authr). module_of rt = ''library''"
  "\<forall>rt \<in> set (playback_Mount je bsvc authr). module_of rt = ''playback''"
  "\<forall>rt \<in> set (presence_Mount je psvc authr). module_of rt = ''presence''"
  by (simp_all add: mounts)

lemma core_router_cases:
  assumes "rt \<in> set (core_router je ex cfg md n)"
  obtains (health) "rt = route ''GET'' ''/healthz'' healthz"
  | (auth) "rt \<in> set (auth_Mount je (core_auth ex cfg) (core_authenticator ex cfg) (loginRateLimit ex n))" "module_of rt = ''auth''"
  | (catalog) "rt \<in> set (catalog_Mount je (core_catalog ex md) (core_authenticator ex cfg) \<lparr>rc_HasRole = HasRole (core_auth ex cfg)\<rparr>)"
      "module_of rt = ''catalog''"
  | (library) "rt \<in> set (library_Mount je (core_library ex md) (core_authenticator ex cfg))" "module_of rt = ''library''"
  | (playback) "rt \<in> set (playback_Mount je (core_playback ex md) (core_authenticator ex cfg))" "module_of rt = ''playback''"
  | (presence) "rt \<in> set (presence_Mount je (core_settings_service ex cfg) (core_authenticator ex cfg))"
      "module_of rt = ''presence''"
  using assms mounts_module unfolding core_router_def buildRouter_def set_append Un_iff by (metis list.set_cases empty_iff list.set(1) set_ConsD)

lemma routes_keepD:
  "routes_keep v rts \<Longrightarrow> rt \<in> set rts \<Longrightarrow> rt_endpoint rt p r w = (res, w') \<Longrightarrow> v w' = v w"
  by (auto simp: routes_keep_def dest: keepsD)

text \<open>Only the catalog's own routes change the catalog, and of those only the guarded ones.\<close>

lemma catalog_changes_by_catalog:
  assumes "rt \<in> set (core_router je ex cfg md n)" and "rt_endpoint rt p r w = (res, w')" and "catalog_of w' \<noteq> catalog_of w"
  shows "rt \<in> set (catalog_Mount je (core_catalog ex md) (core_authenticator ex cfg) \<lparr>rc_HasRole = HasRole (core_auth ex cfg)\<rparr>)"
  using assms(1)
proof (cases rule: core_router_cases)
  case health
  with assms(2,3) show ?thesis by (auto simp: healthz_def)
next
  case auth
  from routes_keepD [OF core_routes(1) auth(1) assms(2)] assms(3) show ?thesis by (simp add: catalog_of_def)
next
  case library
  from routes_keepD [OF core_routes(5) library(1) assms(2)] assms(3) show ?thesis by simp
next
  case playback
  from routes_keepD [OF core_routes(8) playback(1) assms(2)] assms(3) show ?thesis by (simp add: catalog_of_def)
next
  case presence
  from routes_keepD [OF core_routes(3) presence(1) assms(2)] assms(3) show ?thesis by (simp add: catalog_of_def)
qed

lemma attach_artists_keeps: "keeps pg_tables (attach_artists env ts)"
  by (induction ts)
    (auto simp: trackArtists_def intro!: keeps_intros keeps_pg_read [where f = "\<lambda>t. t"])

lemma catalog_statements:
  "keeps pg_tables (pg_artist_Search env q c l)" "keeps pg_tables (pg_album_Search env q c l)"
  "keeps pg_tables (pg_track_Search env q c l)" "keeps pg_tables (pg_track_ListByAlbum env i)"
  unfolding pg_artist_Search_def pg_album_Search_def pg_track_Search_def name_search_def pg_track_ListByAlbum_def
  by (intro keeps_intros attach_artists_keeps keeps_pg_read [where f = "\<lambda>t. t"]; simp)+

lemma catalog_reads_keep_catalog:
  "keeps catalog_of (GetArtist (core_catalog ex md) i)" "keeps catalog_of (GetAlbum (core_catalog ex md) i)"
  "keeps catalog_of (GetTrack (core_catalog ex md) i)" "keeps catalog_of (catalog_Search (core_catalog ex md) inp)"
  unfolding GetArtist_def GetAlbum_def GetTrack_def catalog_Search_def Let_def
  by (intro keeps_intros; simp add: core_catalog_def pg_artists_def pg_albums_def pg_tracks_def read_keeps GetByID_keeps
      catalog_reads_keep catalog_statements)+

lemma catalog_writes_guarded:
  assumes "rt \<in> set (core_router je ex cfg md n)" and "rt_endpoint rt p r w = (res, w')" and "catalog_of w' \<noteq> catalog_of w"
  shows "\<exists>h. RequireAuth (core_authenticator ex cfg)
      (RequireRole \<lparr>rc_HasRole = HasRole (core_auth ex cfg)\<rparr> RoleCatalogCurator h) r w = (res, w')"
proof -
  have reads: "keeps catalog_of (catalog_getArtist je (core_catalog ex md) p r)"
    "keeps catalog_of (catalog_getAlbum je (core_catalog ex md) p r)"
    "keeps catalog_of (catalog_getTrack je (core_catalog ex md) p r)"
    "keeps catalog_of (catalog_search je (core_catalog ex md) p r)"
    unfolding catalog_getArtist_def catalog_getAlbum_def catalog_getTrack_def catalog_search_def
    by (intro keeps_intros catalog_reads_keep_catalog)+
  from catalog_changes_by_catalog [OF assms] assms(2,3) show ?thesis
    by (auto simp: catalog_Mount_def RoleCatalogCurator_def route_def dest: keepsD [OF reads(1)] keepsD [OF reads(2)]
        keepsD [OF reads(3)] keepsD [OF reads(4)])
qed

lemma core_HasRole_row:
  assumes "HasRole (core_auth ex cfg) u role w = (Inr True, w')"
  shows "\<exists>row. (row, None) \<in> set (at_users (fst (account_tables w))) \<and> us_ID row = u \<and> us_Role row = role"
proof -
  from assms obtain row where "on_world (on_auth (ur_GetByID pg_users u)) w = (Inr row, w')" and "us_Role row = role"
    by (auto simp: HasRole_def core_auth_def server_auth_def Let_def split: sum.splits if_splits)
  then show ?thesis
    using select_user_row [of "\<lambda>x. us_ID x = u"]
    by (auto simp: pg_users_def pg_user_GetByID_def account_tables_def dest!: on_core on_part)
qed

section \<open>Tokens\<close>

text \<open>
  C5. Every route but the public ones (signing up, logging in, refreshing, logging
  out, reading the catalog, the health check) answers a request with 401 and changes nothing but the
  reading of the clock, unless the request carries a bearer token that the signer made for the
  issuer and that is inside its times.
\<close>

lemma protected_routes:
  assumes "jwt_library (ex_jwt ex)" and "rt \<in> set (core_router je ex cfg md n)"
    and "(rt_method rt, rt_pattern rt) \<notin> set public_routes" and "rt_endpoint rt p r w = (res, w')"
  shows "(rs_status res = 401 \<and> (\<exists>c. w' = w\<lparr>co_world := (co_world w)\<lparr>w_clock := c\<rparr>\<rparr>))
    \<or> (\<exists>token c now. rq_header r ''Authorization'' = Some (bearer @ token) \<and> jwt_encode (ex_jwt ex) c = Inr token
        \<and> cl_Issuer c = dp_JWTIssuer cfg \<and> clock_reading (co_world w) \<le> now \<and> now < cl_ExpiresAt c)"
proof -
  have "guarded (core_authenticator ex cfg) rt"
    using assms(2,3) unfolding core_router_def by (rule not_public_guarded [unfolded is_public_def])
  then obtain h where "RequireAuth (core_authenticator ex cfg) (h p) r w = (res, w')"
    using assms(4) by (auto simp: guarded_def)
  then show ?thesis
  proof (cases rule: RequireAuth_cases)
    case refused
    have "\<exists>c. w' = w\<lparr>co_world := (co_world w)\<lparr>w_clock := c\<rparr>\<rparr>"
      using refused(2) by (auto dest: core_authenticator_clock intro: exI [of _ "w_clock (co_world w)"])
    with refused(1) show ?thesis by simp
  next
    case (through token u w1)
    from core_authenticator_sound [OF assms(1) this(3)] this(1) show ?thesis by blast
  qed
qed

section \<open>Who changes what\<close>

text \<open>
  C34. A request to one module changes no table of another: those of accounts and
  factors, of privacy settings and blocks, of playlists and saved tracks, and of the catalog each
  change under their own routes only, playback and the health check change none of them.
\<close>

lemma modules_isolated:
  assumes "rt \<in> set (core_router je ex cfg md n)" and "rt_endpoint rt p r w = (res, w')"
  shows "(account_tables w' \<noteq> account_tables w \<longrightarrow> module_of rt = ''auth'')
    \<and> (settings_tables w' \<noteq> settings_tables w \<longrightarrow> module_of rt = ''presence'')
    \<and> (library_tables w' \<noteq> library_tables w \<longrightarrow> module_of rt = ''library'')
    \<and> (catalog_of w' \<noteq> catalog_of w \<longrightarrow> module_of rt = ''catalog'')"
  using assms(1)
proof (cases rule: core_router_cases)
  case health
  with assms(2) show ?thesis by (auto simp: healthz_def)
next
  case auth
  with routes_keepD [OF core_routes(1) auth(1) assms(2)] routes_keepD [OF core_routes(2) auth(1) assms(2)]
  show ?thesis by (simp add: library_tables_def catalog_of_def)
next
  case catalog
  with routes_keepD [OF core_catalog_routes(1) catalog(1) assms(2)] routes_keepD [OF core_catalog_routes(2) catalog(1) assms(2)]
    routes_keepD [OF core_catalog_routes(3) catalog(1) assms(2)]
  show ?thesis by simp
next
  case library
  with routes_keepD [OF core_routes(5) library(1) assms(2)] routes_keepD [OF core_routes(6) library(1) assms(2)]
    routes_keepD [OF core_routes(7) library(1) assms(2)]
  show ?thesis by simp
next
  case playback
  with routes_keepD [OF core_routes(8) playback(1) assms(2)] routes_keepD [OF core_routes(9) playback(1) assms(2)]
    routes_keepD [OF core_routes(10) playback(1) assms(2)]
  show ?thesis by (simp add: library_tables_def catalog_of_def)
next
  case presence
  with routes_keepD [OF core_routes(3) presence(1) assms(2)] routes_keepD [OF core_routes(4) presence(1) assms(2)]
  show ?thesis by (simp add: library_tables_def catalog_of_def)
qed

text \<open>
  C6. Whatever request changes the catalog carries a bearer token the
  signer made and that has not expired, and the account of its subject, as stored and not deleted when
  the request came in, has the curator's role: the role is read from the database for every request,
  it is not taken from the token.
\<close>

lemma only_curators_change_catalog:
  assumes "jwt_library (ex_jwt ex)" and "rt \<in> set (core_router je ex cfg md n)"
    and "rt_endpoint rt p r w = (res, w')" and "catalog_of w' \<noteq> catalog_of w"
  shows "\<exists>token c now row. rq_header r ''Authorization'' = Some (bearer @ token) \<and> jwt_encode (ex_jwt ex) c = Inr token
    \<and> cl_Issuer c = dp_JWTIssuer cfg \<and> clock_reading (co_world w) \<le> now \<and> now < cl_ExpiresAt c
    \<and> (row, None) \<in> set (at_users (fst (account_tables w))) \<and> us_ID row = cl_Subject c \<and> us_Role row = RoleCatalogCurator"
proof -
  obtain h where "RequireAuth (core_authenticator ex cfg)
      (RequireRole \<lparr>rc_HasRole = HasRole (core_auth ex cfg)\<rparr> RoleCatalogCurator h) r w = (res, w')"
    using catalog_writes_guarded [OF assms(2,3,4)] by blast
  then show ?thesis
  proof (cases rule: RequireAuth_cases)
    case refused
    then have "catalog_of w' = catalog_of w" by (auto dest: keepsD [OF core_authenticator_keeps(2)])
    with assms(4) show ?thesis by simp
  next
    case (through token u w1)
    from core_authenticator_sound [OF assms(1) through(3)] obtain c now where c: "jwt_encode (ex_jwt ex) c = Inr token"
      "cl_Subject c = u" "cl_Issuer c = dp_JWTIssuer cfg" "clock_reading (co_world w) \<le> now" "now < cl_ExpiresAt c" by blast
    have same: "catalog_of w1 = catalog_of w" "account_tables w1 = account_tables w"
      using keepsD [OF core_authenticator_keeps(2) through(3)] keepsD [OF core_authenticator_keeps(5) through(3)] by auto
    from through(4) show ?thesis
    proof (cases rule: RequireRole_cases)
      case refused
      then have "catalog_of w' = catalog_of w1" by (auto dest: keepsD [OF HasRole_library(3)])
      with assms(4) same show ?thesis by simp
    next
      case (through v w2)
      then have "v = u" by (simp add: WithUserID_def)
      with core_HasRole_row [OF through(2) [simplified]] same(2) c \<open>rq_header r ''Authorization'' = Some (bearer @ token)\<close>
      show ?thesis by metis
    qed
  qed
qed

text \<open>
  C35. A request that is answered with status 500 is told nothing but that: no text
  of an internal error leaves the process.
\<close>

lemma server_error_opaque:
  assumes "rt \<in> set (core_router je ex cfg md n)" and "rt_endpoint rt p r w = (res, w')" and "rs_status res = 500"
  shows "rs_body res = ErrorBody ''internal_error'' ''internal error''"
proof -
  have "routes_opaque (core_router je ex cfg md n)"
    unfolding core_router_def buildRouter_def loginRateLimit_def routes_opaque_simps
    by (simp add: auth_opaque catalog_opaque library_opaque playback_opaque presence_opaque healthz_def opaque_step_def opaque_def)
  then have "opaque_step (rt_endpoint rt p r)" using assms(1) by (simp add: routes_opaque_def)
  from opaque_stepD [OF this assms(2)] assms(3) show ?thesis by (simp add: opaque_def)
qed

section \<open>Bodies\<close>

text \<open>
  A body that names a field its request does not have, up to the case of
  letters, is answered with 400 and the handler's service is not called, whatever else the body says:
  nobody becomes a curator by signing up with a role.
\<close>

lemma unknown_field_refused:
  assumes "je_parse je (rq_body r) = Complete (DObj kvs) rest" and "length (rq_body r) \<le> maxBodyBytes"
    and "k \<in> fst ` set kvs" and "\<forall>name \<in> fst ` set tbl. \<not> EqualFold name k"
  shows "with_body je tbl zero r h w = (WriteError 400 ''invalid_request'' (je_foreign je (je_error je (rq_body r))), w)"
proof -
  have "set_fields tbl kvs x = None" for x
  proof (rule ccontr)
    assume "set_fields tbl kvs x \<noteq> None"
    then obtain y where y: "set_fields tbl kvs x = Some y" by blast
    from assms(3) obtain d where "(k, d) \<in> set kvs" by auto
    from set_fields_known [OF y this] assms(4) show False by blast
  qed
  with assms(1,2) show ?thesis by (simp add: with_body_def DecodeJSON_def Let_def decode_struct_def)
qed

section \<open>The claims at work\<close>

definition sample_je :: "doc \<Rightarrow> json_env" where
  "sample_je d = \<lparr>je_parse = (\<lambda>s. if s = '''' then Incomplete else Complete d ''''), je_error = (\<lambda>_. ''invalid''),
     je_foreign = (\<lambda>s. s), je_format = (\<lambda>_ _. '''')\<rparr>"

definition sample_call :: "(string \<rightharpoonup> string) \<Rightarrow> http_request" where
  "sample_call header = \<lparr>rq_header = header, rq_query = Map.empty, rq_Host = '''', rq_RemoteAddr = '''', rq_body = ''{}'',
     rq_user = None\<rparr>"

definition sample_token_header :: "string \<rightharpoonup> string" where
  "sample_token_header = [''Authorization'' \<mapsto> bearer @ ''0'']"

lemma sample_jwt: "jwt_library (ex_jwt sample_ex)"
  by (simp add: sample_ex_def table_library.jwt_library_axioms)

lemma sample_Itoa: "Itoa 0 = ''0''"
  by code_simp

text \<open>A route of the core's router, by its module.\<close>

definition list_playlists_route :: "json_env \<Rightarrow> (mem, Sequential, nat) core route" where
  "list_playlists_route je = (route ''GET'' ''/v1/library/me/playlists'' (library_listPlaylists je (core_library sample_ex sample_media)))
     \<lparr>rt_endpoint := (\<lambda>p. RequireAuth (core_authenticator sample_ex sample_cfg)
        (library_listPlaylists je (core_library sample_ex sample_media) p))\<rparr>"

definition create_artist_route :: "json_env \<Rightarrow> (mem, Sequential, nat) core route" where
  "create_artist_route je = (route ''POST'' ''/v1/catalog/artists'' (catalog_createArtist je (core_catalog sample_ex sample_media)))
     \<lparr>rt_endpoint := (\<lambda>p. (RequireAuth (core_authenticator sample_ex sample_cfg)
        \<circ> RequireRole \<lparr>rc_HasRole = HasRole (core_auth sample_ex sample_cfg)\<rparr> ''catalog_curator'')
          (catalog_createArtist je (core_catalog sample_ex sample_media) p))\<rparr>"

definition get_artist_route :: "json_env \<Rightarrow> (mem, Sequential, nat) core route" where
  "get_artist_route je = route ''GET'' ''/v1/catalog/artists/{id}'' (catalog_getArtist je (core_catalog sample_ex sample_media))"

lemma sample_routes:
  "list_playlists_route je \<in> set (core_router je sample_ex sample_cfg sample_media n)"
  "create_artist_route je \<in> set (core_router je sample_ex sample_cfg sample_media n)"
  "get_artist_route je \<in> set (core_router je sample_ex sample_cfg sample_media n)"
  by (simp_all add: core_router_def buildRouter_def library_Mount_def catalog_Mount_def list_playlists_route_def
      create_artist_route_def get_artist_route_def)

definition sample_curator_core :: "(mem, Sequential, nat) core" where
  "sample_curator_core = sample_core\<lparr>co_world := (co_world sample_core)\<lparr>w_auth := pg_start \<lparr>
     at_users = [(sample_user_row\<lparr>us_Role := RoleCatalogCurator\<rparr>, None)],
     user_auth_identities = [], user_devices = [], tb_refresh_tokens = [], at_uuids = 0\<rparr>\<rparr>\<rparr>"

lemma protected_routes_witness:
  "\<exists>res w'. rt_endpoint (list_playlists_route (sample_je DNull)) Map.empty (sample_call Map.empty) sample_core = (res, w')
     \<and> rs_status res = 401"
proof -
  let ?rt = "list_playlists_route (sample_je DNull)"
  obtain res w' where run: "rt_endpoint ?rt Map.empty (sample_call Map.empty) sample_core = (res, w')" by fastforce
  have "(rt_method ?rt, rt_pattern ?rt) \<notin> set public_routes"
    by (simp add: list_playlists_route_def public_routes_def)
  from protected_routes [OF sample_jwt sample_routes(1) this run] run show ?thesis
    by (auto simp: sample_call_def)
qed

lemma sample_curator_token:
  "au_Authenticate (core_authenticator sample_ex sample_cfg) ''0'' sample_curator_core = (Inr ''a'', sample_curator_core)"
  by (simp add: sample_curator_core_def core_authenticator_def Authenticate_def server_signer_def sample_core_def
      sample_core_eval sample_world_def sample_ex_def table_jwt_def sample_Itoa sample_claims_def sample_cfg_def)

lemma sample_curator_role:
  "HasRole (core_auth sample_ex sample_cfg) ''a'' ''catalog_curator'' sample_curator_core = (Inr True, sample_curator_core)"
  by (simp add: HasRole_def core_auth_def server_auth_def sample_curator_core_def sample_core_def sample_core_eval
      sample_world_def pg_users_def pg_user_GetByID_def select_user_def sample_user_row_def RoleCatalogCurator_def)

lemma sample_curator_creates:
  "\<exists>a w'. CreateArtist (core_catalog sample_ex sample_media) (no_artist\<lparr>cai_Name := ''Bob''\<rparr>) sample_curator_core = (Inr a, w')
     \<and> catalog_of w' \<noteq> catalog_of sample_curator_core"
proof -
  have trim: "TrimSpace ''Bob'' = ''Bob''" by (subst TrimSpace_visible) (auto simp: visible_ascii_def)
  show ?thesis
    by (simp add: CreateArtist_def no_artist_def trim core_catalog_def pg_artists_def pg_artist_Create_def insert_artist_def
        sample_curator_core_def sample_core_def sample_core_eval sample_world_def sample_parts sample_media_tables_def
        sample_catalog_def sample_artist_def catalog_of_def media_def)
qed

lemma sample_create_artist:
  obtains res w' where "rt_endpoint (create_artist_route (sample_je (DObj [(''name'', DStr ''Bob'')]))) Map.empty
      (sample_call sample_token_header) sample_curator_core = (res, w')"
    and "catalog_of w' \<noteq> catalog_of sample_curator_core"
proof -
  let ?je = "sample_je (DObj [(''name'', DStr ''Bob'')])"
  have body: "DecodeJSON ?je createArtistRequest no_artist (WithUserID u (sample_call h)) = Inr (no_artist\<lparr>cai_Name := ''Bob''\<rparr>)" for u h
    by (simp add: DecodeJSON_def Let_def sample_je_def sample_call_def WithUserID_def maxBodyBytes_def decode_struct_def
        field_setter_def createArtistRequest_def text_field_def EqualFold_def ToLower_def)
  have token: "rq_header (sample_call sample_token_header) ''Authorization'' = Some (bearer @ ''0'')"
    "rq_user (WithUserID u r) = Some u" for u r
    by (simp_all add: sample_call_def sample_token_header_def WithUserID_def)
  from sample_curator_creates obtain a w' where "CreateArtist (core_catalog sample_ex sample_media)
      (no_artist\<lparr>cai_Name := ''Bob''\<rparr>) sample_curator_core = (Inr a, w')"
    and new: "catalog_of w' \<noteq> catalog_of sample_curator_core" by blast
  then have "rt_endpoint (create_artist_route ?je) Map.empty (sample_call sample_token_header) sample_curator_core
      = (ok_json 201 (toArtistResponse a), w')"
    by (simp add: create_artist_route_def RequireAuth_def RequireRole_def Let_def first_value_def token HasPrefix_def
        TrimPrefix_def bearer_def sample_curator_token sample_curator_role catalog_createArtist_def with_body_def body respond_def)
  with new show thesis using that by blast
qed

lemma modules_isolated_witness:
  "\<exists>res w'. rt_endpoint (create_artist_route (sample_je (DObj [(''name'', DStr ''Bob'')]))) Map.empty
      (sample_call sample_token_header) sample_curator_core = (res, w')
     \<and> library_tables w' = library_tables sample_curator_core \<and> account_tables w' = account_tables sample_curator_core"
proof -
  obtain res w' where run: "rt_endpoint (create_artist_route (sample_je (DObj [(''name'', DStr ''Bob'')]))) Map.empty
      (sample_call sample_token_header) sample_curator_core = (res, w')" by (rule sample_create_artist)
  have "module_of (create_artist_route (sample_je (DObj [(''name'', DStr ''Bob'')]))) = ''catalog''"
    by (simp add: create_artist_route_def)
  with modules_isolated [OF sample_routes(2) run] run show ?thesis by auto
qed

lemma only_curators_change_catalog_witness:
  "\<exists>row. (row, None) \<in> set (at_users (fst (account_tables sample_curator_core))) \<and> us_Role row = RoleCatalogCurator"
proof -
  obtain res w' where run: "rt_endpoint (create_artist_route (sample_je (DObj [(''name'', DStr ''Bob'')]))) Map.empty
      (sample_call sample_token_header) sample_curator_core = (res, w')"
    and new: "catalog_of w' \<noteq> catalog_of sample_curator_core" by (rule sample_create_artist)
  from only_curators_change_catalog [OF sample_jwt sample_routes(2) run new] show ?thesis by blast
qed

definition sample_broken_core :: "(mem, Sequential, nat) core" where
  "sample_broken_core = sample_core\<lparr>co_media := (pg_start sample_media_tables)\<lparr>pg_script := [(0, Lost_before)]\<rparr>\<rparr>"

lemma server_error_opaque_witness:
  "\<exists>res w'. rt_endpoint (get_artist_route (sample_je DNull)) [''id'' \<mapsto> ''r''] (sample_call Map.empty) sample_broken_core = (res, w')
     \<and> rs_status res = 500 \<and> rs_body res = ErrorBody ''internal_error'' ''internal error''"
proof -
  let ?run = "rt_endpoint (get_artist_route (sample_je DNull)) [''id'' \<mapsto> ''r''] (sample_call Map.empty) sample_broken_core"
  have "rs_status (fst ?run) = 500"
    by (simp add: get_artist_route_def catalog_getArtist_def respond_def GetArtist_def core_catalog_def pg_artists_def
        pg_artist_GetByID_def first_value_def sample_broken_core_def sample_core_def sample_core_eval writeCatalogError_def
        internal_error_def WriteError_def)
  with server_error_opaque [OF sample_routes(3), of "sample_je DNull" "[''id'' \<mapsto> ''r'']" "sample_call Map.empty" sample_broken_core "fst ?run" "snd ?run"]
  show ?thesis by (intro exI [of _ "fst ?run"] exI [of _ "snd ?run"]) simp
qed

text \<open>Signing up with a role.\<close>

lemma unknown_field_refused_witness:
  "auth_signUp (sample_je (DObj [(''role'', DStr ''catalog_curator'')])) (core_auth sample_ex sample_cfg) Map.empty
     (sample_call Map.empty) sample_core = (WriteError 400 ''invalid_request'' ''invalid'', sample_core)"
proof -
  let ?je = "sample_je (DObj [(''role'', DStr ''catalog_curator'')])"
  have known: "\<forall>name \<in> fst ` set credentials_fields. \<not> EqualFold name ''role''"
    by (simp add: credentials_fields_def EqualFold_def ToLower_def)
  have parsed: "je_parse ?je (rq_body (sample_call Map.empty)) = Complete (DObj [(''role'', DStr ''catalog_curator'')]) ''''"
    and short: "length (rq_body (sample_call Map.empty)) \<le> maxBodyBytes"
    and named: "''role'' \<in> fst ` set [(''role'', DStr ''catalog_curator'')]"
    and message: "je_foreign ?je (je_error ?je b) = ''invalid''" for b
    by (simp_all add: sample_je_def sample_call_def maxBodyBytes_def)
  show ?thesis unfolding auth_signUp_def by (rule unknown_field_refused [OF parsed short named known, unfolded message])
qed

end
