(* ===== verification/Journey.thy ===== *)
theory Journey
  imports Feed Samples
begin

text \<open>
  The way of a user into the live feed, over both processes: a verified factor, consent, a token, the
  handshake. Each step leaves the user where the next one does not refuse.
\<close>

section \<open>Errors of the drivers\<close>

definition driver_error :: "err \<Rightarrow> bool" where
  "driver_error e \<longleftrightarrow> (\<forall>s. \<not> errors_Is e s)"

lemma driver_error_wrapped [simp]: "driver_error (Wrapped c e) \<longleftrightarrow> driver_error e"
  and driver_error_foreign [simp]: "driver_error (Foreign c)"
  by (simp_all add: driver_error_def)

lemma driver_error_not [simp]: "driver_error e \<Longrightarrow> \<not> errors_Is e s"
  by (simp add: driver_error_def)

lemma pg_run_driver_error:
  assumes "pg_run stmt p = (Inl e, p')" and "\<And>t tb d tb'. stmt t tb = (Inl d, tb') \<Longrightarrow> driver_error d"
  shows "driver_error e"
  using assms(1) by (cases rule: pg_run_InlE) (auto simp: pg_lost_def dest: assms(2))

lemma on_presence_error: "on_presence m w = (Inl e, w') \<Longrightarrow> \<exists>p. m (w_presence w) = (Inl e, p)"
  and on_mfa_error: "on_mfa k w = (Inl e, w') \<Longrightarrow> \<exists>p. k (w_mfa w) = (Inl e, p)"
  by (auto simp: on_defs zoom_def split: prod.splits)

text \<open>What may come out of the database besides \<open>not found\<close>.\<close>

lemma settings_Get_error:
  assumes "psr_Get world_settings u w = (Inl e, w')" and "\<not> errors_Is e ErrSettingsNotFound"
  shows "driver_error e"
  using assms
  by (auto simp: world_settings_def pg_settings_repo_def pg_settings_Get_def dest!: on_presence_error
      elim!: bindE_InlE dest: pg_run_driver_error split: option.splits)

lemma settings_Upsert_error:
  assumes "psr_Upsert world_settings s w = (Inl e, w')"
  shows "driver_error e"
proof -
  from assms obtain p where "pg_run (upsert_settings s) (w_presence w) = (Inl e, p)"
    by (auto simp: world_settings_def pg_settings_repo_def pg_settings_Upsert_def dest!: on_presence_error)
  then show ?thesis
    by (rule pg_run_driver_error) (auto simp: upsert_settings_def split: if_splits option.splits)
qed

lemma HasVerified_error:
  assumes "mfa_HasVerified (server_challenger ex) u w = (Inl e, w')"
  shows "driver_error e"
proof -
  have get: "driver_error d" if "on_mfa (sr_Get pg_secret_repo u) w = (Inl d, w1)" "\<not> errors_Is d ErrSecretNotFound" for d w1
    using that
    by (auto simp: pg_secret_repo_def pg_secret_Get_def dest!: on_mfa_error elim!: bindE_InlE
        dest: pg_run_driver_error split: option.splits)
  from assms show ?thesis
    by (auto simp: mfa_HasVerified_def server_challenger_def elim!: bindE_InlE split: sum.splits if_splits)
      (rule get)
qed

section \<open>Consent\<close>

text \<open>A user with a verified factor is refused consent by a failing database only.\<close>

lemma grant_after_verified:
  assumes "factor_rows w u = Some (v, Some t)" and "u \<noteq> ''''"
    and "GrantConsent (server_settings ex cfg) u w = (Inl e, w')"
  shows "driver_error e"
proof -
  have mfa: "mfa_HasVerifiedMFA (ss_mfa (server_settings ex cfg)) u = mfa_HasVerified (server_challenger ex) u"
    using assms(2) by (simp add: server_settings_def server_auth_def HasVerifiedMFA_def)
  have yes: "b" if "mfa_HasVerified (server_challenger ex) u w = (Inr b, w1)" for b w1
    using core_factors.HasVerified_iff [OF that] assms(1) by simp
  have ss: "ss_settings (server_settings ex cfg) = world_settings" by (simp add: server_settings_def)
  have get: "driver_error d" if "SettingsService_Get (server_settings ex cfg) u w1 = (Inl d, w2)" for d w1 w2
    using that assms(2)
    by (auto simp: SettingsService_Get_def ss elim!: bindE_InlE split: sum.splits if_splits)
      (rule settings_Get_error)
  show ?thesis
    using assms(2,3)
    by (auto simp: GrantConsent_def mfa ss Let_def elim!: bindE_InlE wrapE_InlE dest: HasVerified_error split: if_splits)
      (blast dest: yes, erule get, erule settings_Upsert_error)
qed

section \<open>The handshake\<close>

text \<open>A token that is accepted and a live consent on record: the handshake fails with the database only.\<close>

definition admitted :: "('w, 'c) Handler \<Rightarrow> bool \<Rightarrow> http_request \<Rightarrow> string \<Rightarrow> handshake" where
  "admitted h upgradable rq u =
     (if upgradable \<and> newOriginChecker (hd_url_host h) (hd_allowedOrigins h) rq then Upgraded u else Bad_upgrade)"

lemma feed_parts [simp]:
  "hd_nearby (presence_server_handler ex cfg fc url_host decode) = presence_server_nearby ex"
  "au_Authenticate (hd_authr (presence_server_handler ex cfg fc url_host decode)) = Authenticate (server_signer ex cfg)"
  by (simp_all add: presence_server_handler_def)

lemma handshake_admits:
  fixes w :: "('r, 'i, 'x) world"
  assumes run: "ServeHTTP_handshake (presence_server_handler ex cfg fc url_host decode) upgradable rq w = (answer, w')"
    and token: "bearerToken rq \<noteq> ''''" "Authenticate (server_signer ex cfg) (bearerToken rq) w = (Inr u, w1)"
    and consent: "\<And>t. t \<le> clock_reading w' \<Longrightarrow> HasActiveConsent (on_record (durable w) u) t"
  shows "answer = admitted (presence_server_handler ex cfg fc url_host decode) upgradable rq u
    \<or> answer = Refused_with 500 ''internal_error'' ''internal error'' \<and> pg_script (w_presence w) \<noteq> []"
proof -
  obtain now where clk: "Now (world_clock :: ('r, 'i, 'x) world Clock) w = (now, w1)"
    using token(2) by (auto simp: Authenticate_def server_signer_def split: sum.splits parse_failure.splits if_splits)
  have d1: "durable w1 = durable w" using keepsD [OF keeps_durable(3)] clk by (simp add: world_clock_def)
  have p1: "w_presence w1 = w_presence w" using clk by (auto simp: world_clock_def on_defs zoom_def split: prod.splits)
  obtain c w2 where chk: "CheckConsent (presence_server_nearby ex) u w1 = (c, w2)" by fastforce
  have w2: "w' = w2"
    using run token chk by (auto simp: ServeHTTP_handshake_def Let_def split: sum.splits if_splits)
  show ?thesis
  proof (cases c)
    case (Inr x)
    with run token chk show ?thesis
      by (auto simp: ServeHTTP_handshake_def Let_def admitted_def split: if_splits)
  next
    case (Inl e)
    have ns: "ns_settings (presence_server_nearby ex) = world_settings" by (simp add: presence_server_nearby_def)
    from chk [unfolded Inl CheckConsent_def] have "driver_error e \<and> pg_script (w_presence w) \<noteq> []"
    proof (cases rule: bindE_InlE)
      case 1
      then obtain d where get: "psr_Get world_settings u w1 = (Inl d, w2)" and d: "\<not> errors_Is d ErrSettingsNotFound"
        and e: "e = Wrapped ''presence: get settings'' d"
        by (auto simp: settingsOrDefault_def ns elim!: bindE_InlE split: sum.splits if_splits)
      have "pg_script (w_presence w) \<noteq> []"
        using get d p1
        by (auto simp: world_settings_def pg_settings_repo_def pg_settings_Get_def pg_run_def dest!: on_presence_error
            elim!: bindE_InlE split: option.splits)
      then show ?thesis using settings_Get_error [OF get d] e by simp
    next
      case (2 st w3)
      then obtain now2 where clk2: "Now (ns_clock (presence_server_nearby ex)) w3 = (now2, w2)"
        and no: "checkConsent st now2 w2 = (Inl e, w2)"
        by (auto simp: call_def checkConsent_def elim!: bindE_InlE split: prod.splits if_splits)
      have "now2 = clock_reading w2" by (rule live_feed.Now_reading [OF clk2, symmetric])
      moreover have "on_record (durable w) u = erased st"
        using live_feed.settingsOrDefault_on_record [OF 2(1)] d1 by simp
      ultimately have "HasActiveConsent st now2" using consent [of now2] w2 by simp
      with no live_feed.checkConsent_done [of st now2 w2 "()" w2] show ?thesis by simp
    qed
    with run token chk Inl show ?thesis by (auto simp: ServeHTTP_handshake_def Let_def)
  qed
qed

section \<open>The whole way\<close>

text \<open>
  C11. A user whose code was accepted, and whose factor is still that one, is
  refused consent by a failing database only; and once consent is granted, the handshake with an access
  token of the core process, before the token expires and within six months, while the consent is on
  record, upgrades the connection (if the transport and the origin allow) unless the database fails.
\<close>

lemma verified_user_reaches_feed:
  fixes w6 :: "('r, 'i, 'x) world"
  assumes jwt: "jwt_library (ex_jwt ex)"
    and verified: "VerifyMFA (server_auth ex cfg) u code w0 = (Inr True, w1)" "factor_rows w2 u = factor_rows w1 u"
    and asked: "GrantConsent (server_settings ex cfg) u w2 = (r, w3)"
    and issued: "Signer_Sign (server_signer ex cfg) u w4 = (Inr (bearerToken rq, expires), w5)" "bearerToken rq \<noteq> ''''"
    and connects: "on_record (durable w6) u = on_record (durable w3) u"
      "ServeHTTP_handshake (presence_server_handler ex cfg fc url_host decode) upgradable rq w6 = (answer, w7)"
    and times: "expires - dp_AccessTokenTTL cfg \<le> clock_reading w6" "clock_reading w7 < NumericDate expires"
      "clock_reading w7 < clock_reading w2 + ConsentValidityPeriod"
  shows "(\<forall>e. r = Inl e \<longrightarrow> driver_error e)
    \<and> (\<forall>s. r = Inr s \<longrightarrow>
         answer = admitted (presence_server_handler ex cfg fc url_host decode) upgradable rq u
         \<or> answer = Refused_with 500 ''internal_error'' ''internal error'' \<and> pg_script (w_presence w6) \<noteq> [])"
proof (intro conjI allI impI)
  from verified(1) have u: "u \<noteq> ''''" and verify: "mfa_Verify (server_challenger ex) u code w0 = (Inr True, w1)"
    by (auto simp: VerifyMFA_def server_auth_def split: if_splits)
  obtain v t where factor: "factor_rows w2 u = Some (v, Some t)"
    using core_factors.Verify_true [OF verify] verified(2) by auto
  { fix e assume "r = Inl e"
    with grant_after_verified [OF factor u] asked show "driver_error e" by blast }
  { fix s assume "r = Inr s"
    with core_settings.GrantConsent_done [of ex cfg u w2 s w3] asked
    obtain granted where "clock_reading w2 \<le> granted"
      and rec: "on_record (durable w3) u = (on_record (durable w2) u)\<lparr>ProximityConsentEnabled := True,
        ProximityConsentTS := Some granted, ProximityConsentRenewDue := Some (granted + ConsentValidityPeriod)\<rparr>"
      by (auto simp: on_record_def)
    then have consent: "HasActiveConsent (on_record (durable w6) u) q" if "q \<le> clock_reading w7" for q
      using that times(3) connects(1) by (simp add: HasActiveConsent_def)
    obtain now w where clk: "Now world_clock w6 = (now, w)" by fastforce
    note read = monotone_clock.Now_reading [OF world_clock_laws clk] monotone_clock.Now_forward [OF world_clock_laws clk]
    have auth: "Authenticate (server_signer ex cfg) (bearerToken rq) w6
        = ((if now < NumericDate expires then Inr u else Inl (Sentinel ErrExpiredToken)), w)"
      by (rule jwt_library.Authenticate_issued [OF jwt _ issued(1) u])
        (use clk read times(1) in \<open>simp_all add: server_signer_def\<close>)
    have "now < NumericDate expires"
    proof (rule ccontr)
      assume "\<not> now < NumericDate expires"
      with connects(2) auth issued(2) have "w7 = w" by (auto simp: ServeHTTP_handshake_def Let_def)
      with \<open>\<not> now < NumericDate expires\<close> read times(2) show False by simp
    qed
    with auth have "Authenticate (server_signer ex cfg) (bearerToken rq) w6 = (Inr u, w)" by simp
    from handshake_admits [OF connects(2) issued(2) this consent]
    show "answer = admitted (presence_server_handler ex cfg fc url_host decode) upgradable rq u
         \<or> answer = Refused_with 500 ''internal_error'' ''internal error'' \<and> pg_script (w_presence w6) \<noteq> []" . }
qed

section \<open>The claim at work\<close>

definition sample_feed_config :: feed_config where
  "sample_feed_config = \<lparr>fc_PresenceTTL = 90 * Second, fc_PresenceWorkers = 2, fc_PresenceIngestBuffer = 4,
     fc_PresenceUpdateRateLimit = 0, fc_PresenceUpdateRateWindow = 0, fc_CORSAllowedOrigins = []\<rparr>"

definition sample_upgrade :: http_request where
  "sample_upgrade = \<lparr>rq_header = Map.empty, rq_query = [''access_token'' \<mapsto> Itoa 0], rq_Host = '''', rq_RemoteAddr = '''',
     rq_body = '''', rq_user = None\<rparr>"

lemma sample_upgrade_facts: "bearerToken sample_upgrade = Itoa 0" "newOriginChecker (\<lambda>_. None) [] sample_upgrade"
  by (simp_all add: sample_upgrade_def bearerToken_def newOriginChecker_def first_value_def HasPrefix_def bearer_def)

lemma sample_verified: "VerifyMFA (server_auth sample_ex sample_cfg) ''a'' ''000000'' sample_world = (Inr True, sample_world)"
  by (simp add: sample_eval sample_world_def sample_ex_def VerifyMFA_def server_auth_def mfa_Verify_def mfa_check_def
      server_challenger_def pg_secret_repo_def mfa_activate_def pg_secret_Get_def)

lemma sample_signed:
  "Signer_Sign (server_signer sample_ex sample_cfg) ''a'' sample_world = (Inr (Itoa 0, 10 + 15 * Minute), sample_world)"
  by (simp add: Signer_Sign_def server_signer_def sample_eval sample_world_def sample_ex_def sample_cfg_def table_jwt_def
      sample_claims_def NumericDate_def Let_def)

lemma sample_Itoa_zero: "Itoa 0 = ''0''"
  by code_simp

lemma sample_granted:
  "\<exists>s w3 w7. GrantConsent (server_settings sample_ex sample_cfg) ''a'' sample_world = (Inr s, w3)
     \<and> ServeHTTP_handshake (presence_server_handler sample_ex sample_cfg sample_feed_config (\<lambda>_. None) (\<lambda>_. None)) True
         sample_upgrade w3 = (Upgraded ''a'', w7)
     \<and> clock_reading w3 = 10 \<and> clock_reading w7 = 10"
  unfolding GrantConsent_def server_settings_def
  apply (simp add: sample_eval sample_world_def HasVerifiedMFA_def server_auth_def mfa_HasVerified_def server_challenger_def
        pg_secret_repo_def pg_secret_Get_def SettingsService_Get_def)
  apply (simp add: sample_eval pg_settings_Upsert_def upsert_settings_def valid_settings_def IsValidVisibility_def
        IsValidRadius_def AllowedRadiiM_def IsValidRevealLevel_def Let_def)
  apply (simp add: ServeHTTP_handshake_def sample_upgrade_facts presence_server_handler_def sample_Itoa_zero Authenticate_def
        server_signer_def sample_ex_def table_jwt_def sample_claims_def CheckConsent_def sample_cfg_def
        sample_feed_config_def Let_def)
  apply (simp add: sample_eval CheckConsent_def clock_reading_def settings_of_row_def sample_upgrade_facts)
  done

lemma verified_user_reaches_feed_witness:
  "\<exists>s w3 w7. GrantConsent (server_settings sample_ex sample_cfg) ''a'' sample_world = (Inr s, w3)
     \<and> ServeHTTP_handshake (presence_server_handler sample_ex sample_cfg sample_feed_config (\<lambda>_. None) (\<lambda>_. None)) True
         sample_upgrade w3 = (Upgraded ''a'', w7)
     \<and> admitted (presence_server_handler sample_ex sample_cfg sample_feed_config (\<lambda>_. None) (\<lambda>_. None)) True
         sample_upgrade ''a'' = Upgraded ''a''"
proof -
  obtain s w3 w7 where grant: "GrantConsent (server_settings sample_ex sample_cfg) ''a'' sample_world = (Inr s, w3)"
    and hs: "ServeHTTP_handshake (presence_server_handler sample_ex sample_cfg sample_feed_config (\<lambda>_. None) (\<lambda>_. None)) True
         sample_upgrade w3 = (Upgraded ''a'', w7)"
    and clocks: "clock_reading w3 = 10" "clock_reading w7 = 10" using sample_granted by blast
  have jwt: "jwt_library (ex_jwt sample_ex)" by (simp add: sample_ex_def table_library.jwt_library_axioms)
  have token: "Signer_Sign (server_signer sample_ex sample_cfg) ''a'' sample_world
      = (Inr (bearerToken sample_upgrade, 10 + 15 * Minute), sample_world)" "bearerToken sample_upgrade \<noteq> ''''"
    by (simp_all add: sample_signed sample_upgrade_facts) (simp add: sample_Itoa_zero)
  have w: "clock_reading sample_world = 10" by (simp add: clock_reading_def sample_world_def)
  have "Upgraded ''a'' = admitted (presence_server_handler sample_ex sample_cfg sample_feed_config (\<lambda>_. None) (\<lambda>_. None)) True
         sample_upgrade ''a''"
    using verified_user_reaches_feed [OF jwt sample_verified refl grant token refl hs] clocks w
    by (simp add: NumericDate_def duration_defs sample_cfg_def ConsentValidityPeriod_def)
  with grant hs show ?thesis by metis
qed

end
