(* ===== verification/Go_Duration.thy ===== *)
theory Go_Duration
  imports Go_Strings Platform Float64 "HOL-Library.Word"
begin

text \<open>
  \<^verbatim>\<open>time.ParseDuration\<close>: terms of a decimal number and a unit, added up in 64 bits. The loop may a
  priori run for ever, so it is a partial function; that it does not is proved.
\<close>

definition unit_ns :: "string \<Rightarrow> nat option" where
  "unit_ns u =
     (if u = ''ns'' then Some 1
      else if u = ''us'' \<or> u = map char_of [0xC2, 0xB5, 0x73 :: nat] \<or> u = map char_of [0xCE, 0xBC, 0x73 :: nat] then Some (10 ^ 3)
      else if u = ''ms'' then Some (10 ^ 6)
      else if u = ''s'' then Some (10 ^ 9)
      else if u = ''m'' then Some (60 * 10 ^ 9)
      else if u = ''h'' then Some (3600 * 10 ^ 9)
      else None)"

text \<open>\<^verbatim>\<open>leadingInt\<close>: it fails beyond $2^{63}$.\<close>

definition leadingInt :: "string \<Rightarrow> (nat \<times> string) option" where
  "leadingInt s =
     (let n = digits_value (takeWhile is_digit s) in
      if n > 2 ^ 63 then None else Some (n, dropWhile is_digit s))"

text \<open>\<^verbatim>\<open>leadingFraction\<close>: digits that would overflow are skipped.\<close>

fun fraction_digits :: "string \<Rightarrow> nat \<Rightarrow> nat \<Rightarrow> bool \<Rightarrow> nat \<times> nat" where
  "fraction_digits [] x scale overflow = (x, scale)"
| "fraction_digits (c # s) x scale overflow =
     (if overflow then fraction_digits s x scale True
      else if x > (2 ^ 63 - 1) div 10 then fraction_digits s x scale True
      else let y = x * 10 + (of_char c - 48) in
        if y > 2 ^ 63 then fraction_digits s x scale True
        else fraction_digits s y (scale * 10) False)"

definition leadingFraction :: "string \<Rightarrow> nat \<times> nat \<times> string" where
  "leadingFraction s =
     (case fraction_digits (takeWhile is_digit s) 0 1 False of (x, scale) \<Rightarrow> (x, scale, dropWhile is_digit s))"

definition unit_end :: "char \<Rightarrow> bool" where
  "unit_end c \<longleftrightarrow> c = CHR ''.'' \<or> is_digit c"

text \<open>One term: its nanoseconds and what follows it. \<^verbatim>\<open>uint64(float64(f) * (float64(unit) / scale))\<close>\<close>

definition fraction_ns :: "nat \<Rightarrow> nat \<Rightarrow> nat \<Rightarrow> nat" where
  "fraction_ns f unit scale =
     (if f = 0 then 0 else nat \<lfloor>f64 (f64 (of_nat f) * f64 (of_nat unit / f64 (of_nat scale)))\<rfloor>)"

definition duration_number :: "string \<Rightarrow> (nat \<times> nat \<times> nat \<times> string) option" where
  "duration_number s =
     (if \<not> unit_end (hd s) then None
      else Option.bind (leadingInt s) (\<lambda>(v, s1).
        let pre = (length s1 \<noteq> length s) in
        if s1 \<noteq> [] \<and> hd s1 = CHR ''.''
        then (case leadingFraction (tl s1) of (f, scale, s2) \<Rightarrow>
                let post = (length s2 \<noteq> length (tl s1)) in
                if \<not> pre \<and> \<not> post then None else Some (v, f, scale, s2))
        else if \<not> pre then None else Some (v, 0, 1, s1)))"

definition duration_term :: "string \<Rightarrow> (nat \<times> string) option" where
  "duration_term s =
     Option.bind (duration_number s) (\<lambda>(v, f, scale, s2).
       let u = takeWhile (Not \<circ> unit_end) s2 in
       if u = [] then None
       else Option.bind (unit_ns u) (\<lambda>unit.
         if v > 2 ^ 63 div unit then None
         else let v1 = v * unit + fraction_ns f unit scale in
           if v1 > 2 ^ 63 then None else Some (v1, dropWhile (Not \<circ> unit_end) s2)))"

text \<open>The loop, on the sum so far. \<open>None\<close> inside is the error, \<open>None\<close> outside a loop that does not end.\<close>

partial_function (option) duration_loop :: "string \<Rightarrow> 64 word \<Rightarrow> (64 word option) option" where
  "duration_loop s d =
     (if s = [] then Some (Some d)
      else case duration_term s of
             None \<Rightarrow> Some None
           | Some (v, rest) \<Rightarrow>
               (let d1 = d + word_of_nat v in
                if unat d1 > 2 ^ 63 then Some None else duration_loop rest d1))"

definition ParseDuration :: "string \<Rightarrow> (duration option) option" where
  "ParseDuration s0 =
     (let neg = (s0 \<noteq> [] \<and> hd s0 = CHR ''-'');
          s = (if s0 \<noteq> [] \<and> (hd s0 = CHR ''-'' \<or> hd s0 = CHR ''+'') then tl s0 else s0)
      in if s = ''0'' then Some (Some 0)
         else if s = '''' then Some None
         else map_option (\<lambda>r. Option.bind r (\<lambda>d.
                if neg then Some (sint (- d))
                else if unat d > 2 ^ 63 - 1 then None else Some (sint d))) (duration_loop s 0))"

section \<open>The loop ends\<close>

text \<open>Every term takes at least the first letter of its unit away.\<close>

lemma leadingFraction_rest: "leadingFraction s = (f, scale, r) \<Longrightarrow> length r \<le> length s"
  by (auto simp: leadingFraction_def length_dropWhile_le split: prod.splits)

lemma duration_number_rest:
  assumes "duration_number s = Some (v, f, scale, r)"
  shows "length r \<le> length s"
proof -
  from assms obtain n s1 where "leadingInt s = Some (n, s1)"
    and "r = s1 \<or> (\<exists>f' scale'. leadingFraction (tl s1) = (f', scale', r))"
    by (auto simp: duration_number_def Let_def bind_eq_Some_conv split: if_splits prod.splits)
  moreover from this(1) have "length s1 \<le> length s"
    by (auto simp: leadingInt_def Let_def length_dropWhile_le split: if_splits)
  ultimately show ?thesis by (auto dest!: leadingFraction_rest)
qed

lemma duration_term_shorter:
  assumes "duration_term s = Some (v, rest)"
  shows "length rest < length s"
proof -
  from assms obtain n f scale r where number: "duration_number s = Some (n, f, scale, r)"
    and u: "takeWhile (Not \<circ> unit_end) r \<noteq> []" and rest: "rest = dropWhile (Not \<circ> unit_end) r"
    by (auto simp: duration_term_def Let_def bind_eq_Some_conv split: if_splits)
  have "length r = length (takeWhile (Not \<circ> unit_end) r) + length rest"
    unfolding rest by (metis length_append takeWhile_dropWhile_id)
  with u have "length rest < length r" by simp
  with duration_number_rest [OF number] show ?thesis by simp
qed

lemma duration_loop_ends: "\<exists>r. duration_loop s d = Some r"
proof (induction "length s" arbitrary: s d rule: less_induct)
  case less
  show ?case
  proof (cases "s = [] \<or> duration_term s = None")
    case True
    then show ?thesis by (subst duration_loop.simps) auto
  next
    case False
    then obtain v rest where t: "duration_term s = Some (v, rest)" by auto
    from less [OF duration_term_shorter [OF t]] obtain r where "duration_loop rest (d + word_of_nat v) = Some r" by blast
    with False t show ?thesis by (subst duration_loop.simps) (auto simp: Let_def)
  qed
qed

lemma ParseDuration_ends: "\<exists>r. ParseDuration s = Some r"
  using duration_loop_ends by (auto simp: ParseDuration_def Let_def)

lemma ParseDuration_range:
  assumes "ParseDuration s = Some (Some d)"
  shows "- (2 ^ 63) \<le> d \<and> d < 2 ^ 63"
proof -
  have "- (2 ^ 63) \<le> sint (x :: 64 word) \<and> sint x < 2 ^ 63" for x
    using sint_greater_eq [of x] sint_less [of x] by simp
  with assms show ?thesis
    by (auto simp: ParseDuration_def Let_def bind_eq_Some_conv split: if_splits)
qed

end
