(* ===== verification/Go_Scan.thy ===== *)
theory Go_Scan
  imports Go_Strings "HOL-Library.Word"
begin

text \<open>
  What the code uses of \<^verbatim>\<open>strings.Split\<close>, \<^verbatim>\<open>fmt.Sscanf\<close>, \<^verbatim>\<open>encoding/base64\<close> and \<^verbatim>\<open>encoding/hex\<close>.
\<close>

section \<open>Split\<close>

fun Split :: "char \<Rightarrow> string \<Rightarrow> string list" where
  "Split sep [] = [[]]"
| "Split sep (c # s) =
     (if c = sep then [] # Split sep s
      else case Split sep s of [] \<Rightarrow> [[c]] | p # ps \<Rightarrow> (c # p) # ps)"

lemma Split_nonempty [simp]: "Split sep s \<noteq> []"
  by (cases s) (auto split: list.splits)

lemma Split_free [simp]: "sep \<notin> set s \<Longrightarrow> Split sep s = [s]"
  by (induction s) auto

lemma Split_append: "sep \<notin> set s \<Longrightarrow> Split sep (s @ sep # t) = s # Split sep t"
  by (induction s) (auto split: list.splits)

section \<open>Sscanf\<close>

text \<open>
  A format of literal characters and \<^verbatim>\<open>%d\<close>, the latter for an \<^verbatim>\<open>int\<close> or an unsigned integer of so
  many bits. \<^verbatim>\<open>%d\<close> skips spaces, but not over the end of a line; input left over is not an error.
\<close>

datatype scan_verb = Literal char | ScanInt | ScanUint nat

function SkipSpace :: "string \<Rightarrow> string option" where
  "SkipSpace s =
     (if s = [] then Some []
      else if hd s = char_of (10 :: nat) then None
      else case leading_space space_encodings s of
             Some (Suc n) \<Rightarrow> SkipSpace (drop (Suc n) s)
           | _ \<Rightarrow> Some s)"
  by pat_completeness auto
termination
  by (relation "measure length") auto

declare SkipSpace.simps [simp del]

definition scan_digits :: "string \<Rightarrow> (nat \<times> string) option" where
  "scan_digits s =
     (let ds = takeWhile is_digit s in
      if ds = [] then None else Some (digits_value ds, dropWhile is_digit s))"

definition scan_int :: "string \<Rightarrow> (int \<times> string) option" where
  "scan_int s =
     (let neg = (s \<noteq> [] \<and> hd s = CHR ''-'');
          t = (if s \<noteq> [] \<and> (hd s = CHR ''-'' \<or> hd s = CHR ''+'') then tl s else s)
      in Option.bind (scan_digits t) (\<lambda>(n, rest).
         let v = (if neg then - int n else int n) in
         if - (2 ^ 63) \<le> v \<and> v < 2 ^ 63 then Some (v, rest) else None))"

definition scan_uint :: "nat \<Rightarrow> string \<Rightarrow> (int \<times> string) option" where
  "scan_uint bits s =
     Option.bind (scan_digits s) (\<lambda>(n, rest). if n < 2 ^ bits then Some (int n, rest) else None)"

fun Sscanf :: "scan_verb list \<Rightarrow> string \<Rightarrow> int list option" where
  "Sscanf [] s = Some []"
| "Sscanf (Literal c # fmt) s = (if s \<noteq> [] \<and> hd s = c then Sscanf fmt (tl s) else None)"
| "Sscanf (ScanInt # fmt) s =
     Option.bind (SkipSpace s) (\<lambda>s. Option.bind (scan_int s) (\<lambda>(v, rest). map_option ((#) v) (Sscanf fmt rest)))"
| "Sscanf (ScanUint bits # fmt) s =
     Option.bind (SkipSpace s) (\<lambda>s. Option.bind (scan_uint bits s) (\<lambda>(v, rest). map_option ((#) v) (Sscanf fmt rest)))"

text \<open>A number that was written by \<^verbatim>\<open>%d\<close> is read back, up to what follows it.\<close>

lemma digit_visible: "is_digit c \<Longrightarrow> visible_ascii c"
  by (auto simp: is_digit_def visible_ascii_def Let_def)

lemma no_space_before_digit:
  assumes "s \<noteq> []" and "is_digit (hd s)"
  shows "SkipSpace s = Some s"
proof -
  have "\<not> HasPrefix s p" if "p \<in> set space_encodings" for p
  proof
    assume "HasPrefix s p"
    with space_encodings_nonempty [OF that] assms(1) have "hd p = hd s" by (cases p; cases s) (auto simp: HasPrefix_def)
    with space_edges [OF that] digit_visible [OF assms(2)] show False by simp
  qed
  then have "leading_space space_encodings s = None" by (auto simp: leading_space_def find_None_iff)
  moreover have "hd s \<noteq> char_of (10 :: nat)" using assms(2) by (auto simp: is_digit_def)
  ultimately show ?thesis using assms(1) by (subst SkipSpace.simps) simp
qed

lemma scan_digits_written:
  assumes "rest = [] \<or> \<not> is_digit (hd rest)"
  shows "scan_digits (digits n @ rest) = Some (n, rest)"
proof -
  have all: "\<forall>c \<in> set (digits n). is_digit c" using digits_is_digit [of n] by (simp add: list_all_iff)
  then have "takeWhile is_digit (digits n @ rest) = digits n" "dropWhile is_digit (digits n @ rest) = rest"
    using assms by (cases rest; simp add: takeWhile_append2 dropWhile_append2)+
  then show ?thesis by (simp add: scan_digits_def)
qed

lemma digits_append_hd: "is_digit (hd (digits n @ rest))"
  using digits_hd [of n] by simp

lemma SkipSpace_written: "SkipSpace (digits n @ rest) = Some (digits n @ rest)"
  by (rule no_space_before_digit) (simp_all add: digits_hd)

lemma Sscanf_uint_written:
  assumes "rest = [] \<or> \<not> is_digit (hd rest)" and "n < 2 ^ bits"
  shows "Sscanf (ScanUint bits # fmt) (digits n @ rest) = map_option ((#) (int n)) (Sscanf fmt rest)"
  using assms by (simp add: SkipSpace_written scan_uint_def scan_digits_written)

lemma Sscanf_int_written:
  assumes "rest = [] \<or> \<not> is_digit (hd rest)" and "n < 2 ^ 63"
  shows "Sscanf (ScanInt # fmt) (digits n @ rest) = map_option ((#) (int n)) (Sscanf fmt rest)"
proof -
  have "hd (digits n @ rest) \<noteq> CHR ''-''" "hd (digits n @ rest) \<noteq> CHR ''+''"
    using digits_append_hd [of n rest] by (auto simp: is_digit_def)
  then have "scan_int (digits n @ rest) = Some (int n, rest)"
    using assms by (simp add: scan_int_def Let_def scan_digits_written)
  then show ?thesis by (simp add: SkipSpace_written)
qed

lemmas Sscanf_number_last =
  Sscanf_uint_written [of "[]", simplified append_Nil2] Sscanf_int_written [of "[]", simplified append_Nil2]

section \<open>Base 64 without padding\<close>

text \<open>\<^verbatim>\<open>base64.RawStdEncoding\<close>: the decoder skips line ends and does not look at the last bits of a short group.\<close>

definition b64_char :: "nat \<Rightarrow> char" where
  "b64_char n = char_of
     (if n < 26 then 65 + n else if n < 52 then 71 + n else if n < 62 then n - 4 else if n = 62 then 43 else 47)"

definition b64_value :: "char \<Rightarrow> nat option" where
  "b64_value c = (let n = of_char c :: nat in
     if 65 \<le> n \<and> n \<le> 90 then Some (n - 65)
     else if 97 \<le> n \<and> n \<le> 122 then Some (n - 71)
     else if 48 \<le> n \<and> n \<le> 57 then Some (n + 4)
     else if n = 43 then Some 62 else if n = 47 then Some 63 else None)"

fun b64_groups :: "nat list \<Rightarrow> nat list" where
  "b64_groups [] = []"
| "b64_groups [a] = [a div 4, a mod 4 * 16]"
| "b64_groups [a, b] = [a div 4, a mod 4 * 16 + b div 16, b mod 16 * 4]"
| "b64_groups (a # b # c # r) = a div 4 # (a mod 4 * 16 + b div 16) # (b mod 16 * 4 + c div 64) # (c mod 64) # b64_groups r"

fun b64_bytes :: "nat list \<Rightarrow> nat list option" where
  "b64_bytes [] = Some []"
| "b64_bytes [w] = None"
| "b64_bytes [w, x] = Some [w * 4 + x div 16]"
| "b64_bytes [w, x, y] = Some [w * 4 + x div 16, x mod 16 * 16 + y div 4]"
| "b64_bytes (w # x # y # z # r) =
     map_option (\<lambda>bs. (w * 4 + x div 16) # (x mod 16 * 16 + y div 4) # (y mod 4 * 64 + z) # bs) (b64_bytes r)"

primrec all_some :: "'a option list \<Rightarrow> 'a list option" where
  "all_some [] = Some []"
| "all_some (x # xs) = Option.bind x (\<lambda>y. map_option ((#) y) (all_some xs))"

definition b64_EncodeToString :: "string \<Rightarrow> string" where
  "b64_EncodeToString s = map b64_char (b64_groups (map of_char s))"

definition b64_DecodeString :: "string \<Rightarrow> string option" where
  "b64_DecodeString s =
     (let cs = filter (\<lambda>c. c \<noteq> char_of (10 :: nat) \<and> c \<noteq> char_of (13 :: nat)) s in
      map_option (map char_of) (Option.bind (all_some (map b64_value cs)) b64_bytes))"

lemma b64_value_char: "n < 64 \<Longrightarrow> b64_value (b64_char n) = Some n"
  by (auto simp: b64_value_def b64_char_def Let_def take_bit_eq_mod)

lemma b64_char_plain: "n < 64 \<Longrightarrow> b64_char n \<noteq> CHR ''$'' \<and> b64_char n \<noteq> char_of (10 :: nat) \<and> b64_char n \<noteq> char_of (13 :: nat)"
proof -
  assume "n < 64"
  then have "b64_value (b64_char n) = Some n" by (rule b64_value_char)
  moreover have "b64_value (CHR ''$'') = None" "b64_value (char_of (10 :: nat)) = None" "b64_value (char_of (13 :: nat)) = None"
    by (simp_all add: b64_value_def take_bit_eq_mod)
  ultimately show ?thesis by auto
qed

lemma b64_groups_range: "\<forall>b \<in> set bs. b < 256 \<Longrightarrow> \<forall>v \<in> set (b64_groups bs). v < 64"
proof (induction bs rule: b64_groups.induct)
  case (4 a b c r)
  then have "a div 4 < 64" "b div 16 < 16" "c div 64 < 4" by auto
  moreover have "a mod 4 * 16 + b div 16 < 64" "b mod 16 * 4 + c div 64 < 64"
    using calculation mod_less_divisor [of 4 a] mod_less_divisor [of 16 b] by linarith+
  ultimately show ?case using 4 by simp
next
  case (3 a b)
  then have "b div 16 < 16" by auto
  then have "a mod 4 * 16 + b div 16 < 64" using mod_less_divisor [of 4 a] by linarith
  with 3 show ?case using mod_less_divisor [of 16 b] by auto
next
  case (2 a)
  then show ?case using mod_less_divisor [of 4 a] by auto
qed simp

lemma b64_bytes_groups: "\<forall>b \<in> set bs. b < 256 \<Longrightarrow> b64_bytes (b64_groups bs) = Some bs"
proof (induction bs rule: b64_groups.induct)
  case (4 a b c r)
  then have "b div 16 < 16" "c div 64 < 4" by auto
  then have "(a mod 4 * 16 + b div 16) div 16 = a mod 4" "(a mod 4 * 16 + b div 16) mod 16 = b div 16"
    "(b mod 16 * 4 + c div 64) div 4 = b mod 16" "(b mod 16 * 4 + c div 64) mod 4 = c div 64" by auto
  with 4 show ?case by auto
next
  case (3 a b)
  then have "b div 16 < 16" by auto
  then have "(a mod 4 * 16 + b div 16) div 16 = a mod 4" "(a mod 4 * 16 + b div 16) mod 16 = b div 16" by auto
  then show ?case by auto
qed auto

lemma all_some_values: "\<forall>v \<in> set vs. v < 64 \<Longrightarrow> all_some (map (b64_value \<circ> b64_char) vs) = Some vs"
  by (induction vs) (auto simp: b64_value_char)

lemma b64_roundtrip: "b64_DecodeString (b64_EncodeToString s) = Some s"
proof -
  let ?bs = "map of_char s :: nat list"
  have "\<forall>b \<in> set ?bs. b < 256" by auto
  from b64_groups_range [OF this] b64_bytes_groups [OF this]
  have range: "\<forall>v \<in> set (b64_groups ?bs). v < 64" and bytes: "b64_bytes (b64_groups ?bs) = Some ?bs" by blast+
  have "filter (\<lambda>c. c \<noteq> char_of (10 :: nat) \<and> c \<noteq> char_of (13 :: nat)) (map b64_char (b64_groups ?bs)) = map b64_char (b64_groups ?bs)"
    using range b64_char_plain by (auto simp: filter_id_conv)
  then show ?thesis
    using all_some_values [OF range] bytes
    by (simp add: b64_DecodeString_def b64_EncodeToString_def Let_def comp_def)
qed

lemma b64_no_dollar: "CHR ''$'' \<notin> set (b64_EncodeToString s)"
proof -
  have "\<forall>b \<in> set (map of_char s :: nat list). b < 256" by auto
  from b64_groups_range [OF this] b64_char_plain show ?thesis by (auto simp: b64_EncodeToString_def) metis
qed

text \<open>\<^verbatim>\<open>base64.RawURLEncoding\<close> differs in its last two letters.\<close>

definition b64url_char :: "nat \<Rightarrow> char" where
  "b64url_char n = (if n = 62 then CHR ''-'' else if n = 63 then CHR ''_'' else b64_char n)"

definition b64url_EncodeToString :: "string \<Rightarrow> string" where
  "b64url_EncodeToString s = map b64url_char (b64_groups (map of_char s))"

section \<open>Hexadecimal\<close>

definition hex_digit :: "nat \<Rightarrow> char" where
  "hex_digit n = char_of (if n < 10 then 48 + n else 87 + n)"

definition hex_EncodeToString :: "string \<Rightarrow> string" where
  "hex_EncodeToString s = concat (map (\<lambda>c. [hex_digit (of_char c div 16), hex_digit (of_char c mod 16)]) s)"


definition hex_value :: "char \<Rightarrow> nat option" where
  "hex_value c = (let n = of_char c :: nat in
     if 48 \<le> n \<and> n \<le> 57 then Some (n - 48)
     else if 97 \<le> n \<and> n \<le> 102 then Some (n - 87)
     else if 65 \<le> n \<and> n \<le> 70 then Some (n - 55) else None)"

fun hex_DecodeString :: "string \<Rightarrow> string option" where
  "hex_DecodeString [] = Some []"
| "hex_DecodeString [c] = None"
| "hex_DecodeString (a # b # s) =
     Option.bind (hex_value a) (\<lambda>x. Option.bind (hex_value b) (\<lambda>y.
     map_option ((#) (char_of (x * 16 + y))) (hex_DecodeString s)))"

lemma hex_value_digit: "n < 16 \<Longrightarrow> hex_value (hex_digit n) = Some n"
  by (auto simp: hex_value_def hex_digit_def Let_def take_bit_eq_mod)

lemma hex_roundtrip: "hex_DecodeString (hex_EncodeToString s) = Some s"
proof (induction s)
  case (Cons c s)
  have "(of_char c :: nat) div 16 < 16" "(of_char c :: nat) mod 16 < 16"
    using less_mult_imp_div_less [of "of_char c :: nat" 16 16] by simp_all
  with Cons show ?case by (simp add: hex_EncodeToString_def hex_value_digit)
qed (simp add: hex_EncodeToString_def)

end
