(* ===== verification/Password.thy ===== *)
theory Password
  imports Go_Scan Auth_Service
begin

text \<open>
  \<^verbatim>\<open>backend/internal/auth/password/argon2.go\<close>: hashing and checking passwords. Argon2id
  (\<^verbatim>\<open>golang.org/x/crypto/argon2\<close>), HMAC-SHA256 and \<^verbatim>\<open>crypto/rand\<close> are the parameters in
  \<open>password_crypto\<close>. \<open>IDKey\<close> answers \<open>None\<close> where the library panics; a panic ends the request, the
  router's recoverer answers it, and here it is the error \<open>panicked\<close>, which is no sentinel.
\<close>

section \<open>Parameters\<close>

record Params =
  Memory :: "32 word" \<comment> \<open>KiB\<close>
  Time :: "32 word"
  Threads :: "8 word"
  SaltLen :: "32 word"
  KeyLen :: "32 word"

definition maxDerivedKeyLen :: nat where "maxDerivedKeyLen = 1024"

definition DefaultParams :: Params where
  "DefaultParams = \<lparr>Memory = 64 * 1024, Time = 3, Threads = 1, SaltLen = 16, KeyLen = 32\<rparr>"

record PasswordHasher =
  ph_params :: Params
  ph_pepper :: string

definition NewHasher :: "string \<Rightarrow> PasswordHasher" where
  "NewHasher pepper = \<lparr>ph_params = DefaultParams, ph_pepper = pepper\<rparr>"

definition NewHasherWithParams :: "Params \<Rightarrow> string \<Rightarrow> PasswordHasher" where
  "NewHasherWithParams params pepper = \<lparr>ph_params = params, ph_pepper = pepper\<rparr>"

text \<open>The password, the salt, the iterations, the memory, the threads and the length of the key.\<close>

record 'x password_crypto =
  IDKey :: "string \<Rightarrow> string \<Rightarrow> 32 word \<Rightarrow> 32 word \<Rightarrow> 8 word \<Rightarrow> 32 word \<Rightarrow> string option"
  hmac_sha256 :: "string \<Rightarrow> string \<Rightarrow> string"
  rand_Read :: "nat \<Rightarrow> ('x, string) io"

definition argon2_Version :: int where "argon2_Version = 19"

definition panicked :: err where "panicked = Foreign ''panic''"

section \<open>Hashing and checking\<close>

definition peppered :: "'x password_crypto \<Rightarrow> PasswordHasher \<Rightarrow> string \<Rightarrow> string" where
  "peppered cr h passwordPlain =
     (if ph_pepper h = '''' then passwordPlain else hmac_sha256 cr (ph_pepper h) passwordPlain)"

text \<open>\<^verbatim>\<open>$argon2id$v=%d$m=%d,t=%d,p=%d$%s$%s\<close>\<close>

definition format_hash :: "Params \<Rightarrow> string \<Rightarrow> string \<Rightarrow> string" where
  "format_hash p salt key =
     ''$argon2id$v='' @ Itoa argon2_Version
     @ ''$m='' @ Itoa (uint (Memory p)) @ '',t='' @ Itoa (uint (Time p)) @ '',p='' @ Itoa (uint (Threads p))
     @ ''$'' @ b64_EncodeToString salt @ ''$'' @ b64_EncodeToString key"

definition password_Hash :: "'x password_crypto \<Rightarrow> PasswordHasher \<Rightarrow> string \<Rightarrow> ('x, string) io" where
  "password_Hash cr h passwordPlain =
     (let p = ph_params h in
      bindE (wrapE ''password: read salt'' (rand_Read cr (unat (SaltLen p)))) (\<lambda>salt.
      case IDKey cr (peppered cr h passwordPlain) salt (Time p) (Memory p) (Threads p) (KeyLen p) of
        None \<Rightarrow> throw panicked
      | Some key \<Rightarrow> ret (format_hash p salt key)))"

definition version_format :: "scan_verb list" where
  "version_format = map Literal ''v='' @ [ScanInt]"

definition params_format :: "scan_verb list" where
  "params_format = map Literal ''m='' @ [ScanUint 32] @ map Literal '',t='' @ [ScanUint 32] @ map Literal '',p='' @ [ScanUint 8]"

definition decode_params :: "string \<Rightarrow> Params option" where
  "decode_params s =
     (case Sscanf params_format s of
        Some [m, t, p] \<Rightarrow> Some \<lparr>Memory = word_of_int m, Time = word_of_int t, Threads = word_of_int p, SaltLen = 0, KeyLen = 0\<rparr>
      | _ \<Rightarrow> None)"

definition password_decode :: "string \<Rightarrow> err + Params \<times> string \<times> string" where
  "password_decode encoded =
     (case Split (CHR ''$'') encoded of
        [_, alg, v, ps, s, k] \<Rightarrow>
          if alg \<noteq> ''argon2id'' then Inl (Sentinel ErrInvalidHash)
          else (case Sscanf version_format v of
            Some [version] \<Rightarrow>
              if version \<noteq> argon2_Version then Inl (Sentinel ErrIncompatibleVersion)
              else (case decode_params ps of
                None \<Rightarrow> Inl (Sentinel ErrInvalidHash)
              | Some p \<Rightarrow>
                  (case b64_DecodeString s of
                     None \<Rightarrow> Inl (Sentinel ErrInvalidHash)
                   | Some salt \<Rightarrow>
                       (case b64_DecodeString k of
                          None \<Rightarrow> Inl (Sentinel ErrInvalidHash)
                        | Some hash \<Rightarrow> Inr (p, salt, hash))))
          | _ \<Rightarrow> Inl (Sentinel ErrInvalidHash))
      | _ \<Rightarrow> Inl (Sentinel ErrInvalidHash))"

definition password_Verify :: "'x password_crypto \<Rightarrow> PasswordHasher \<Rightarrow> string \<Rightarrow> string \<Rightarrow> err + bool" where
  "password_Verify cr h passwordPlain encoded =
     (case password_decode encoded of
        Inl e \<Rightarrow> Inl e
      | Inr (params, salt, want) \<Rightarrow>
          if length want > maxDerivedKeyLen
          then Inl (Detailed (Sentinel ErrInvalidHash) ''stored key length %d exceeds maximum'')
          else case IDKey cr (peppered cr h passwordPlain) salt (Time params) (Memory params) (Threads params)
                      (word_of_nat (length want)) of
                 None \<Rightarrow> Inl panicked
               | Some got \<Rightarrow> Inr (got = want))"

definition password_hasher :: "'x password_crypto \<Rightarrow> PasswordHasher \<Rightarrow> 'x Hasher" where
  "password_hasher cr h = \<lparr>Hash = password_Hash cr h, hs_Verify = password_Verify cr h\<rparr>"

section \<open>A hash is read back\<close>

lemma not_digits: "\<not> is_digit (CHR '','')" "\<not> is_digit (CHR ''$'')"
  by (simp_all add: is_digit_def)

lemma digits_no_dollar: "CHR ''$'' \<notin> set (digits n)"
  using digits_is_digit [of n] not_digits(2) by (auto simp: list_all_iff)

lemma Itoa_uint: "Itoa (uint x) = digits (unat x)"
  by (simp add: Itoa_def)

lemma decode_params_written:
  "decode_params (''m='' @ digits (unat m) @ '',t='' @ digits (unat t) @ '',p='' @ digits (unat p))
     = Some \<lparr>Memory = m, Time = t, Threads = p, SaltLen = 0, KeyLen = 0\<rparr>"
  for m t :: "32 word" and p :: "8 word"
proof -
  have "unat m < 2 ^ 32" "unat t < 2 ^ 32" "unat p < 2 ^ 8"
    using unsigned_less [of m, where ?'a = nat] unsigned_less [of t, where ?'a = nat] unsigned_less [of p, where ?'a = nat]
    by simp_all
  then show ?thesis
    using not_digits
    by (simp add: decode_params_def params_format_def Sscanf_uint_written Sscanf_number_last del: Sscanf.simps(3,4))
qed

lemma Split_six:
  assumes "sep \<notin> set a" "sep \<notin> set b" "sep \<notin> set c" "sep \<notin> set d" "sep \<notin> set e" "sep \<notin> set f"
  shows "Split sep (a @ sep # b @ sep # c @ sep # d @ sep # e @ sep # f) = [a, b, c, d, e, f]"
  using assms by (simp add: Split_append)

lemma decode_format:
  "password_decode (format_hash p salt key) = Inr (\<lparr>Memory = Memory p, Time = Time p, Threads = Threads p, SaltLen = 0, KeyLen = 0\<rparr>, salt, key)"
proof -
  let ?ps = "''m='' @ digits (unat (Memory p)) @ '',t='' @ digits (unat (Time p)) @ '',p='' @ digits (unat (Threads p))"
  have "format_hash p salt key = '''' @ CHR ''$'' # ''argon2id'' @ CHR ''$'' # (''v='' @ digits 19) @ CHR ''$'' # ?ps
      @ CHR ''$'' # b64_EncodeToString salt @ CHR ''$'' # b64_EncodeToString key"
    by (simp add: format_hash_def Itoa_uint argon2_Version_def Itoa_def)
  moreover have "Split (CHR ''$'') \<dots> =
      ['''', ''argon2id'', ''v='' @ digits 19, ?ps, b64_EncodeToString salt, b64_EncodeToString key]"
    by (rule Split_six) (use digits_no_dollar b64_no_dollar in auto)
  ultimately have "Split (CHR ''$'') (format_hash p salt key) =
      ['''', ''argon2id'', ''v='' @ digits 19, ?ps, b64_EncodeToString salt, b64_EncodeToString key]"
    by simp
  moreover have "Sscanf version_format (''v='' @ digits 19) = Some [19]"
    by (simp add: version_format_def Sscanf_number_last del: Sscanf.simps(3,4))
  ultimately show ?thesis
    using decode_params_written [of "Memory p" "Time p" "Threads p"]
    by (simp add: password_decode_def argon2_Version_def b64_roundtrip)
qed

text \<open>
  What the code relies on of the library: it panics without an iteration or a thread, else it derives
  a key of the length that was asked for.
\<close>

definition argon2_ok :: "'x password_crypto \<Rightarrow> bool" where
  "argon2_ok cr \<longleftrightarrow> (\<forall>pw salt t m p n.
     (if t = 0 \<or> p = 0 then IDKey cr pw salt t m p n = None
      else n \<noteq> 0 \<longrightarrow> (\<exists>key. IDKey cr pw salt t m p n = Some key \<and> length key = unat n)))"

lemma password_Hash_done:
  assumes "password_Hash cr h pw x = (Inr enc, x')"
  obtains salt key where "IDKey cr (peppered cr h pw) salt (Time (ph_params h)) (Memory (ph_params h))
      (Threads (ph_params h)) (KeyLen (ph_params h)) = Some key"
    and "enc = format_hash (ph_params h) salt key"
  using assms by (auto simp: password_Hash_def Let_def split: option.splits)

lemma password_Verify_format:
  assumes "length key \<le> maxDerivedKeyLen"
  shows "password_Verify cr h pw (format_hash p salt key) =
    (case IDKey cr (peppered cr h pw) salt (Time p) (Memory p) (Threads p) (word_of_nat (length key)) of
       None \<Rightarrow> Inl panicked | Some got \<Rightarrow> Inr (got = key))"
  using assms by (simp add: password_Verify_def decode_format)

lemma format_hash_nonempty: "format_hash p salt key \<noteq> ''''"
  by (simp add: format_hash_def)

lemma password_decode_error:
  "password_decode enc = Inl e \<Longrightarrow> e = Sentinel ErrInvalidHash \<or> e = Sentinel ErrIncompatibleVersion"
  by (auto simp: password_decode_def split: list.splits option.splits if_splits)

section \<open>What the hasher promises\<close>

text \<open>
  C36. A hash that was made is accepted for the password it was made of, and for another
  exactly if the derived keys are the same; the pepper has to be the same, the parameters of the
  checking hasher do not matter, so that raising them leaves the stored hashes valid.
\<close>

lemma hash_verifies:
  assumes "argon2_ok cr" and "KeyLen (ph_params h) \<noteq> 0" and "unat (KeyLen (ph_params h)) \<le> maxDerivedKeyLen"
    and "password_Hash cr h pw x = (Inr enc, x')" and "ph_pepper h' = ph_pepper h"
  shows "password_Verify cr h' pw enc = Inr True
    \<and> (\<exists>derive. derive pw \<noteq> None \<and> (\<forall>q. password_Verify cr h' q enc = Inr (derive q = derive pw))
        \<and> (\<exists>salt. \<forall>q. derive q = IDKey cr (peppered cr h q) salt (Time (ph_params h)) (Memory (ph_params h))
             (Threads (ph_params h)) (KeyLen (ph_params h))))"
proof -
  from assms(4) obtain salt key where key: "IDKey cr (peppered cr h pw) salt (Time (ph_params h)) (Memory (ph_params h))
      (Threads (ph_params h)) (KeyLen (ph_params h)) = Some key" and enc: "enc = format_hash (ph_params h) salt key"
    by (rule password_Hash_done)
  let ?derive = "\<lambda>q. IDKey cr (peppered cr h q) salt (Time (ph_params h)) (Memory (ph_params h)) (Threads (ph_params h)) (KeyLen (ph_params h))"
  have live: "Time (ph_params h) \<noteq> 0 \<and> Threads (ph_params h) \<noteq> 0"
    using assms(1) key unfolding argon2_ok_def by (metis option.distinct(1))
  have some: "\<exists>k. ?derive q = Some k \<and> length k = unat (KeyLen (ph_params h))" for q
    using assms(1,2) live unfolding argon2_ok_def by metis
  then have len: "length key = unat (KeyLen (ph_params h))" using key by (metis option.inject)
  have pep: "peppered cr h' q = peppered cr h q" for q using assms(5) by (simp add: peppered_def)
  have verify: "password_Verify cr h' q enc = Inr (?derive q = ?derive pw)" for q
  proof -
    obtain k where "?derive q = Some k" using some [of q] by blast
    then show ?thesis using assms(3) key by (simp add: enc password_Verify_format len pep)
  qed
  then show ?thesis using key by (intro conjI exI [of _ ?derive] exI [of _ salt]) auto
qed

text \<open>
  Whatever text is stored for a hash, checking a password against it is answered
  yes or no, or with one of the two errors of the format; only a stored text with no iteration or no
  thread, or one with an empty key, can make the library panic.
\<close>

lemma bad_hash_refused:
  assumes "argon2_ok cr" and "password_Verify cr h pw enc = Inl e"
  shows "errors_Is e ErrInvalidHash \<or> errors_Is e ErrIncompatibleVersion
    \<or> (e = panicked \<and> (\<exists>p salt key. password_decode enc = Inr (p, salt, key) \<and> (Time p = 0 \<or> Threads p = 0 \<or> key = '''')))"
proof (cases "password_decode enc")
  case (Inl e')
  with assms(2) password_decode_error [of enc e'] show ?thesis by (auto simp: password_Verify_def)
next
  case (Inr x)
  obtain p salt key where x: "x = (p, salt, key)" by (cases x)
  show ?thesis
  proof (cases "length key > maxDerivedKeyLen")
    case True
    with assms(2) Inr x show ?thesis by (auto simp: password_Verify_def)
  next
    case False
    with assms(2) Inr x have none: "IDKey cr (peppered cr h pw) salt (Time p) (Memory p) (Threads p) (word_of_nat (length key)) = None"
      and e: "e = panicked" by (auto simp: password_Verify_def split: option.splits)
    have "(word_of_nat (length key) :: 32 word) \<noteq> 0" if "key \<noteq> ''''"
    proof
      assume "(word_of_nat (length key) :: 32 word) = 0"
      then have "length key mod 2 ^ 32 = 0" by (simp add: word_of_nat_eq_0_iff mod_eq_0_iff_dvd)
      with False that show False by (simp add: maxDerivedKeyLen_def)
    qed
    with none assms(1) have "Time p = 0 \<or> Threads p = 0 \<or> key = ''''"
      unfolding argon2_ok_def by (metis option.distinct(1))
    with Inr x e show ?thesis by blast
  qed
qed

lemma zero_iterations_text:
  "format_hash \<lparr>Memory = 8, Time = 0, Threads = 1, SaltLen = 0, KeyLen = 0\<rparr> ''salt'' ''hash''
     = ''$argon2id$v=19$m=8,t=0,p=1$c2FsdA$aGFzaA''"
proof -
  have "b64_EncodeToString ''salt'' = ''c2FsdA''" "b64_EncodeToString ''hash'' = ''aGFzaA''" by code_simp+
  moreover have "digits 19 = ''19''" "digits 8 = ''8''" "digits 0 = ''0''" "digits 1 = ''1''" by code_simp+
  ultimately show ?thesis by (simp add: format_hash_def argon2_Version_def Itoa_def)
qed

text \<open>
  A stored hash of zero iterations passes every check of the format and makes
  the library panic, instead of being refused as invalid.
\<close>

lemma zero_iterations_panic:
  assumes "argon2_ok cr"
  shows "password_Verify cr h pw ''$argon2id$v=19$m=8,t=0,p=1$c2FsdA$aGFzaA'' = Inl panicked"
proof -
  have "password_decode ''$argon2id$v=19$m=8,t=0,p=1$c2FsdA$aGFzaA''
      = Inr (\<lparr>Memory = 8, Time = 0, Threads = 1, SaltLen = 0, KeyLen = 0\<rparr>, ''salt'', ''hash'')"
    using decode_format [of "\<lparr>Memory = 8, Time = 0, Threads = 1, SaltLen = 0, KeyLen = 0\<rparr>" "''salt''" "''hash''"]
    by (simp add: zero_iterations_text)
  with assms show ?thesis by (simp add: password_Verify_def argon2_ok_def maxDerivedKeyLen_def)
qed

section \<open>The claims at work\<close>

text \<open>A derivation that writes the password and the salt out, cut or filled to the length of the key.\<close>

definition sample_crypto :: "nat password_crypto" where
  "sample_crypto = \<lparr>
     IDKey = (\<lambda>pw salt t m p n. if t = 0 \<or> p = 0 then None else Some (take (unat n) (pw @ salt @ replicate (unat n) (CHR ''.'')))),
     hmac_sha256 = (\<lambda>k m. k @ m), rand_Read = (\<lambda>n x. (Inr (replicate n (CHR ''s'')), x + 1))\<rparr>"

lemma sample_argon2: "argon2_ok sample_crypto"
  by (auto simp: argon2_ok_def sample_crypto_def min_def)

lemma hash_verifies_witness:
  "\<exists>enc x'. password_Hash sample_crypto (NewHasher ''pepper'') ''secret'' 0 = (Inr enc, x')
     \<and> password_Verify sample_crypto (NewHasherWithParams (DefaultParams\<lparr>Time := 9\<rparr>) ''pepper'') ''secret'' enc = Inr True"
proof -
  have "\<exists>enc x'. password_Hash sample_crypto (NewHasher ''pepper'') ''secret'' 0 = (Inr enc, x')"
    by (simp add: password_Hash_def NewHasher_def DefaultParams_def sample_crypto_def io_unfold Let_def)
  then obtain enc x' where run: "password_Hash sample_crypto (NewHasher ''pepper'') ''secret'' 0 = (Inr enc, x')" by blast
  have "password_Verify sample_crypto (NewHasherWithParams (DefaultParams\<lparr>Time := 9\<rparr>) ''pepper'') ''secret'' enc = Inr True"
    using hash_verifies [OF sample_argon2 _ _ run, of "NewHasherWithParams (DefaultParams\<lparr>Time := 9\<rparr>) ''pepper''"]
    by (simp add: NewHasher_def NewHasherWithParams_def DefaultParams_def maxDerivedKeyLen_def)
  with run show ?thesis by blast
qed

lemma bad_hash_refused_witness:
  "\<exists>e. password_Verify sample_crypto (NewHasher '''') ''secret'' ''$bcrypt'' = Inl e \<and> errors_Is e ErrInvalidHash"
proof -
  have "password_Verify sample_crypto (NewHasher '''') ''secret'' ''$bcrypt'' = Inl (Sentinel ErrInvalidHash)"
    by (simp add: password_Verify_def password_decode_def)
  with bad_hash_refused [OF sample_argon2 this] show ?thesis by (auto simp: panicked_def)
qed

lemma zero_iterations_panic_witness:
  "password_Verify sample_crypto (NewHasher '''') ''secret'' ''$argon2id$v=19$m=8,t=0,p=1$c2FsdA$aGFzaA'' = Inl panicked"
  by (rule zero_iterations_panic [OF sample_argon2])

end
