(* ===== verification/Startup.thy ===== *)
theory Startup
  imports Router Config Password
begin

text \<open>
  What the core process (\<^verbatim>\<open>cmd/server/main.go\<close>) makes of its loaded configuration, with the parts it
  puts in that are not behind the services: \<^verbatim>\<open>internal/auth/token\<close>'s keys and refresh tokens, and
  \<^verbatim>\<open>mfa.NoopChallenger\<close>.
\<close>

section \<open>Keys and refresh tokens\<close>

text \<open>
  Ed25519 and the JWT library under a key made from a seed, the same under a key made at random,
  SHA-256, and the library of UUIDs.
\<close>

record ('i, 'x) startup_env =
  su_crypto :: "'x password_crypto"
  su_jwt :: "string \<Rightarrow> jwt"
  su_ephemeral :: jwt
  su_sha256 :: "string \<Rightarrow> string"
  su_uuid :: "'i uuid_library"

definition SeedSize :: nat where "SeedSize = 32"

definition KeyPairFromSeed :: "('i, 'x) startup_env \<Rightarrow> string \<Rightarrow> err + jwt" where
  "KeyPairFromSeed env seed =
     (if length seed \<noteq> SeedSize then Inl (Foreign ''token: seed must be %d bytes, got %d'') else Inr (su_jwt env seed))"

definition jwtKeyPair :: "('i, 'x) startup_env \<Rightarrow> string \<Rightarrow> err + jwt" where
  "jwtKeyPair env seedHex =
     (if seedHex = '''' then Inr (su_ephemeral env)
      else case hex_DecodeString seedHex of
             None \<Rightarrow> Inl (Wrapped ''decode JWT_ED25519_SEED_HEX'' (Foreign ''encoding/hex''))
           | Some seed \<Rightarrow> KeyPairFromSeed env seed)"

definition refreshTokenBytes :: nat where "refreshTokenBytes = 32"

definition SecureRefreshGenerator_New :: "('i, 'x) startup_env \<Rightarrow> ('x, string) io" where
  "SecureRefreshGenerator_New env =
     bindE (wrapE ''token: generate refresh token'' (rand_Read (su_crypto env) refreshTokenBytes)) (\<lambda>buf.
     ret (b64url_EncodeToString buf))"

definition HashRefreshToken :: "('i, 'x) startup_env \<Rightarrow> string \<Rightarrow> string" where
  "HashRefreshToken env plaintext = hex_EncodeToString (su_sha256 env plaintext)"

section \<open>The challenger of tests\<close>

record 'w Challenger =
  ch_Enroll :: "string \<Rightarrow> ('w, string) io"
  ch_Verify :: "string \<Rightarrow> string \<Rightarrow> ('w, bool) io"

definition NoopChallenger :: "'w Challenger" where
  "NoopChallenger = \<lparr>ch_Enroll = (\<lambda>_. throw (Sentinel MfaErrNotImplemented)),
     ch_Verify = (\<lambda>_ _. throw (Sentinel MfaErrNotImplemented))\<rparr>"

section \<open>From the configuration to the routes\<close>

definition server_deployment :: "Config \<Rightarrow> deployment" where
  "server_deployment cfg = \<lparr>dp_JWTIssuer = cf_JWTIssuer cfg, dp_AccessTokenTTL = cf_AccessTokenTTL cfg,
     dp_RefreshTokenTTL = cf_RefreshTokenTTL cfg\<rparr>"

definition server_media :: "media_deployment \<Rightarrow> Config \<Rightarrow> media_deployment" where
  "server_media md cfg = md\<lparr>mx_MediaBaseURL := cf_MediaBaseURL cfg, mx_MediaSigningKey := cf_MediaSigningKey cfg\<rparr>"

definition server_externals ::
    "('i, 'x) startup_env \<Rightarrow> ('r, 'i, 'x) externals \<Rightarrow> jwt \<Rightarrow> PasswordHasher \<Rightarrow> ('r, 'i, 'x) externals" where
  "server_externals env ex j hasher = ex\<lparr>ex_jwt := j, ex_hasher := password_hasher (su_crypto env) hasher,
     ex_token := SecureRefreshGenerator_New env, ex_sha256 := HashRefreshToken env,
     ex_uuid := UUIDv7 (su_uuid env)\<rparr>"

definition server_handler ::
    "('i, 'x) startup_env \<Rightarrow> json_env \<Rightarrow> ('r, 'i, 'x) externals \<Rightarrow> media_deployment \<Rightarrow> Config \<Rightarrow> jwt \<Rightarrow> string
     \<Rightarrow> ('r, 'i, 'x) core route list" where
  "server_handler env je ex md cfg j pepper =
     core_router je (server_externals env ex j (NewHasher pepper)) (server_deployment cfg)
       (server_media md cfg) (cf_LoginRateLimitPerMinute cfg)"

section \<open>What the process is started with\<close>

text \<open>The hasher of the process accepts what it hashed, which the sign-up relies on.\<close>

lemma server_hasher_accepts_own:
  assumes "argon2_ok (su_crypto env)"
    and "Hash (ex_hasher (server_externals env ex j (NewHasher pepper))) p x = (Inr h, x')"
  shows "h \<noteq> '''' \<and> hs_Verify (ex_hasher (server_externals env ex j (NewHasher pepper))) p h = Inr True"
proof -
  from assms(2) have run: "password_Hash (su_crypto env) (NewHasher pepper) p x = (Inr h, x')"
    by (simp add: server_externals_def password_hasher_def)
  then obtain salt key where key: "IDKey (su_crypto env) (peppered (su_crypto env) (NewHasher pepper) p) salt 3 (64 * 1024) 1 32 = Some key"
    and h: "h = format_hash DefaultParams salt key"
    by (elim password_Hash_done) (simp add: NewHasher_def DefaultParams_def)
  have "length key = 32"
    using assms(1) [unfolded argon2_ok_def, THEN spec [of _ "peppered (su_crypto env) (NewHasher pepper) p"],
      THEN spec [of _ salt], THEN spec [of _ 3], THEN spec [of _ "64 * 1024"], THEN spec [of _ 1], THEN spec [of _ 32]] key
    by simp
  then show ?thesis
    using key
    by (simp add: server_externals_def password_hasher_def h password_Verify_format maxDerivedKeyLen_def format_hash_nonempty)
      (simp add: DefaultParams_def)
qed

end
