(* ===== verification/Flags.thy ===== *)
theory Flags
  imports Go_Duration Go_Strings
begin

text \<open>
  The command line of the commands: \<^verbatim>\<open>flag.Parse\<close> of Go's library under \<^verbatim>\<open>ExitOnError\<close>, for flags that
  take a value, and the values of the flags \<^verbatim>\<open>flag.Int\<close> and \<^verbatim>\<open>flag.Duration\<close>.
\<close>

section \<open>Parsing the arguments\<close>

text \<open>The flags of a command, each with what its value does to the options; \<open>None\<close> refuses the value.\<close>

type_synonym 'o flags = "(string \<times> (string \<Rightarrow> 'o \<Rightarrow> 'o option)) list"

definition split_flag :: "string \<Rightarrow> string \<times> string option" where
  "split_flag name =
     (takeWhile (\<lambda>c. c \<noteq> CHR ''='') name, if CHR ''='' \<in> set name then Some (tl (dropWhile (\<lambda>c. c \<noteq> CHR ''='') name)) else None)"

text \<open>The options and the operands, or the status the process ends with.\<close>

fun parse_flags :: "'o flags \<Rightarrow> 'o \<Rightarrow> string list \<Rightarrow> nat + 'o \<times> string list" where
  "parse_flags fs opts [] = Inr (opts, [])"
| "parse_flags fs opts (s # args) =
     (if length s < 2 \<or> hd s \<noteq> CHR ''-'' then Inr (opts, s # args)
      else if s = ''--'' then Inr (opts, args)
      else let name = (if hd (tl s) = CHR ''-'' then drop 2 s else drop 1 s) in
        if hd name = CHR ''-'' \<or> hd name = CHR ''='' then Inl 2
        else case split_flag name of (n, v) \<Rightarrow>
          (case map_of fs n of
             None \<Rightarrow> Inl (if n = ''help'' \<or> n = ''h'' then 0 else 2)
           | Some set_to \<Rightarrow>
               (case v of
                  Some x \<Rightarrow> (case set_to x opts of None \<Rightarrow> Inl 2 | Some opts' \<Rightarrow> parse_flags fs opts' args)
                | None \<Rightarrow>
                    (case args of
                       [] \<Rightarrow> Inl 2
                     | x # rest \<Rightarrow> (case set_to x opts of None \<Rightarrow> Inl 2 | Some opts' \<Rightarrow> parse_flags fs opts' rest)))))"

text \<open>What is left are operands: none of them that was looked at is a flag.\<close>

lemma parse_flags_suffix:
  "parse_flags fs opts args = Inr (opts', rest) \<Longrightarrow> \<exists>used. args = used @ rest"
proof (induction fs opts args arbitrary: opts' rest rule: parse_flags.induct)
  case (2 fs opts s args)
  let ?name = "if hd (tl s) = CHR ''-'' then drop 2 s else drop 1 s"
  obtain n v where split: "split_flag ?name = (n, v)" by fastforce
  note IH = "2.IH" [OF _ _ refl _ split [symmetric]]
  from "2.prems" consider "rest = s # args" | "rest = args"
    | set_to x o1 where "v = Some x" "map_of fs n = Some set_to" "set_to x opts = Some o1"
        "parse_flags fs o1 args = Inr (opts', rest)" "\<not> (length s < 2 \<or> hd s \<noteq> CHR ''-'')" "s \<noteq> ''--''"
        "\<not> (hd ?name = CHR ''-'' \<or> hd ?name = CHR ''='')"
    | set_to x more o1 where "v = None" "args = x # more" "map_of fs n = Some set_to" "set_to x opts = Some o1"
        "parse_flags fs o1 more = Inr (opts', rest)" "\<not> (length s < 2 \<or> hd s \<noteq> CHR ''-'')" "s \<noteq> ''--''"
        "\<not> (hd ?name = CHR ''-'' \<or> hd ?name = CHR ''='')"
    using split by (auto simp: Let_def split: if_split_asm option.splits list.splits)
  then show ?case
  proof cases
    case 3
    with IH(2) [OF 3(5,6,7,2,1,3,4)] show ?thesis by (metis append_Cons)
  next
    case 4
    with IH(1) [OF 4(6,7,8,3,1,2,4,5)] show ?thesis by (metis append_Cons)
  qed auto
qed simp

section \<open>Integers\<close>

definition lower_letter :: "char \<Rightarrow> nat" where
  "lower_letter c = or (of_char c) 0x20"

text \<open>\<^verbatim>\<open>d\<close> of \<^verbatim>\<open>ParseUint\<close>: the value of a digit or letter.\<close>

definition digit_value :: "char \<Rightarrow> nat option" where
  "digit_value c =
     (let n = of_char c; l = lower_letter c in
      if 48 \<le> n \<and> n \<le> 57 then Some (n - 48)
      else if 97 \<le> l \<and> l \<le> 122 then Some (l - 97 + 10) else None)"

definition base_prefix :: "string \<Rightarrow> nat \<times> string" where
  "base_prefix s =
     (if hd s \<noteq> CHR ''0'' then (10, s)
      else if length s \<ge> 3 \<and> lower_letter (s ! 1) = of_char (CHR ''b'') then (2, drop 2 s)
      else if length s \<ge> 3 \<and> lower_letter (s ! 1) = of_char (CHR ''o'') then (8, drop 2 s)
      else if length s \<ge> 3 \<and> lower_letter (s ! 1) = of_char (CHR ''x'') then (16, drop 2 s)
      else (8, drop 1 s))"

fun base_value :: "nat \<Rightarrow> nat \<Rightarrow> string \<Rightarrow> nat option" where
  "base_value b n [] = Some n"
| "base_value b n (c # s) =
     (if c = CHR ''_'' then base_value b n s
      else case digit_value c of
             None \<Rightarrow> None
           | Some d \<Rightarrow> if d \<ge> b then None else base_value b (n * b + d) s)"

text \<open>The last character seen: a digit or a prefix, an underscore, another one.\<close>

datatype seen = Digit | Underscore | Other

fun underscores_from :: "bool \<Rightarrow> seen \<Rightarrow> string \<Rightarrow> bool" where
  "underscores_from hex saw [] = (saw \<noteq> Underscore)"
| "underscores_from hex saw (c # s) =
     (if is_digit c \<or> hex \<and> 97 \<le> lower_letter c \<and> lower_letter c \<le> 102 then underscores_from hex Digit s
      else if c = CHR ''_'' then saw = Digit \<and> underscores_from hex Underscore s
      else saw \<noteq> Underscore \<and> underscores_from hex Other s)"

definition underscoreOK :: "string \<Rightarrow> bool" where
  "underscoreOK s0 =
     (let s = (if s0 \<noteq> [] \<and> (hd s0 = CHR ''-'' \<or> hd s0 = CHR ''+'') then tl s0 else s0) in
      if length s \<ge> 2 \<and> hd s = CHR ''0''
         \<and> lower_letter (s ! 1) \<in> set (map of_char [CHR ''b'', CHR ''o'', CHR ''x''])
      then underscores_from (lower_letter (s ! 1) = of_char (CHR ''x'')) Digit (drop 2 s)
      else underscores_from False Other s)"

text \<open>\<^verbatim>\<open>strconv.ParseInt(s, 0, 64)\<close>\<close>

definition ParseInt0 :: "string \<Rightarrow> int option" where
  "ParseInt0 s0 =
     (let neg = (s0 \<noteq> [] \<and> hd s0 = CHR ''-'');
          s = (if s0 \<noteq> [] \<and> (hd s0 = CHR ''-'' \<or> hd s0 = CHR ''+'') then tl s0 else s0)
      in if s = [] then None
         else case base_prefix s of (b, ds) \<Rightarrow>
           Option.bind (base_value b 0 ds) (\<lambda>n.
             let v = (if neg then - int n else int n) in
             if CHR ''_'' \<in> set ds \<and> \<not> underscoreOK s0 then None
             else if - (2 ^ 63) \<le> v \<and> v < 2 ^ 63 then Some v else None))"

section \<open>The flags of the library\<close>

definition string_flag :: "(string \<Rightarrow> 'o \<Rightarrow> 'o) \<Rightarrow> string \<Rightarrow> 'o \<Rightarrow> 'o option" where
  "string_flag set_to x opts = Some (set_to x opts)"

definition int_flag :: "(int \<Rightarrow> 'o \<Rightarrow> 'o) \<Rightarrow> string \<Rightarrow> 'o \<Rightarrow> 'o option" where
  "int_flag set_to x opts = map_option (\<lambda>n. set_to n opts) (ParseInt0 x)"

text \<open>\<^verbatim>\<open>ParseDuration\<close> returns for every text.\<close>

definition duration_flag :: "(duration \<Rightarrow> 'o \<Rightarrow> 'o) \<Rightarrow> string \<Rightarrow> 'o \<Rightarrow> 'o option" where
  "duration_flag set_to x opts =
     (case ParseDuration x of Some (Some d) \<Rightarrow> Some (set_to d opts) | _ \<Rightarrow> None)"

lemma parse_flags_example:
  "parse_flags [(''rate'', int_flag (\<lambda>n _. n))] 50 [''-rate=0x10'', ''--'', ''-x''] = Inr (16, [''-x''])"
  "parse_flags [(''rate'', int_flag (\<lambda>n _. n))] 50 [''--rate'', ''1_000'', ''rest''] = Inr (1000, [''rest''])"
  "parse_flags [(''rate'', int_flag (\<lambda>n _. n))] 50 [''-rate'', ''1__0''] = Inl 2"
  "parse_flags [(''rate'', int_flag (\<lambda>n _. n))] 50 [''-h''] = Inl 0"
  by code_simp+

end
