(* ===== verification/Process.thy ===== *)
theory Process
  imports Startup Feed Flags
begin

text \<open>
  The life of the processes: \<^verbatim>\<open>run\<close> and \<^verbatim>\<open>main\<close> of \<^verbatim>\<open>cmd/server\<close>, \<^verbatim>\<open>cmd/presence-server\<close> and \<^verbatim>\<open>cmd/migrate\<close>,
  with \<^verbatim>\<open>platform/dbx\<close>, \<^verbatim>\<open>platform/cache/redis.go\<close> and \<^verbatim>\<open>platform/logging\<close>. The deeds of the test
  fixture \<open>Test_Pool\<close> are among them. The state is the history of what
  the process has done to the outside; what the outside answers may depend on all of it. Log lines are
  shortened to the beginning of their message.
\<close>

section \<open>What a process does\<close>

datatype 'h deed =
    NotifySignals | StopSignals
  | NewLogger bool bool \<comment> \<open>as JSON; debug level\<close>
  | LogInfo string | LogWarn string | Print string
  | PoolNew string | PoolPing | PoolClose
  | RedisNew string string int | RedisPing | RedisClose
  | HubRun | HubShutdown string
  | Listen string 'h \<comment> \<open>\<^verbatim>\<open>go srv.ListenAndServe()\<close>\<close>
  | AwaitEnd \<comment> \<open>the signal, or what \<^verbatim>\<open>ListenAndServe\<close> returned\<close>
  | AwaitSignal
  | DeadlineAfter duration | DeadlineCancel
  | ServerShutdown
  | SqlOpen string | SqlClose
  | MigrateDriver | MigrateNew string string | MigrateUp | MigrateDown
  | ContainerRun string string string string | ContainerAddress | ContainerTerminate
  | Panics | Fatal err | Exit nat

type_synonym 'h history = "('h deed \<times> err option) list"

record 'h system =
  sy_lookup :: Lookup
  sy_args :: "string list" \<comment> \<open>\<^verbatim>\<open>os.Args[1:]\<close>\<close>
  sy_answer :: "'h history \<Rightarrow> 'h deed \<Rightarrow> err option"

text \<open>A call that returns an error, and one that returns nothing.\<close>

definition perform :: "'h system \<Rightarrow> 'h deed \<Rightarrow> ('h history, unit) io" where
  "perform sy d = (\<lambda>h. case sy_answer sy h d of
     None \<Rightarrow> (Inr (), h @ [(d, None)]) | Some e \<Rightarrow> (Inl e, h @ [(d, Some e)]))"

definition acts :: "'h deed \<Rightarrow> ('h history, unit) io" where
  "acts d = (\<lambda>h. (Inr (), h @ [(d, None)]))"

text \<open>\<^verbatim>\<open>defer d()\<close>, over the rest of the function.\<close>

definition deferring :: "'h deed \<Rightarrow> ('h history, 'a) io \<Rightarrow> ('h history, 'a) io" where
  "deferring d m = (\<lambda>h. case m h of (r, h') \<Rightarrow> (r, h' @ [(d, None)]))"

definition from_result :: "err + 'a \<Rightarrow> ('w, 'a) io" where
  "from_result r = (\<lambda>w. (r, w))"

definition panicking :: "string \<Rightarrow> ('h history, 'a) io" where
  "panicking why = (\<lambda>h. (Inl (Foreign why), h @ [(Panics, None)]))"

lemmas deed_defs = perform_def acts_def deferring_def from_result_def panicking_def

section \<open>The platform packages\<close>

definition Getenv :: "Lookup \<Rightarrow> string \<Rightarrow> string" where
  "Getenv lookup key = (case lookup key of None \<Rightarrow> '''' | Some v \<Rightarrow> v)"

definition logging_New :: "Lookup \<Rightarrow> 'h deed" where
  "logging_New lookup = NewLogger (Getenv lookup ''ENV'' = ''production'') (Getenv lookup ''LOG_LEVEL'' = ''debug'')"

definition NewPool :: "'h system \<Rightarrow> string \<Rightarrow> ('h history, unit) io" where
  "NewPool sy databaseURL =
     bindE (wrapE ''dbx: create pool'' (perform sy (PoolNew databaseURL))) (\<lambda>_.
     bindE (attempt (perform sy PoolPing)) (\<lambda>r. case r of
         Inl e \<Rightarrow> bindE (acts PoolClose) (\<lambda>_. throw (Wrapped ''dbx: ping'' e))
       | Inr _ \<Rightarrow> ret ()))"

definition cache_NewClient :: "string \<Rightarrow> string \<Rightarrow> int \<Rightarrow> ('h history, unit) io" where
  "cache_NewClient addr password db = acts (RedisNew addr password db)"

definition cache_Ping :: "'h system \<Rightarrow> ('h history, unit) io" where
  "cache_Ping sy = perform sy RedisPing"

text \<open>\<^verbatim>\<open>config.Load\<close> returns for every environment (\<open>Load_total\<close>); the last case never arises.\<close>

definition load_config :: "Lookup \<Rightarrow> err + Config" where
  "load_config lookup = (case Load lookup of Some r \<Rightarrow> r | None \<Rightarrow> Inl (Foreign ''config''))"

section \<open>The two servers\<close>

definition jwt_keys :: "('i, 'x) startup_env \<Rightarrow> string \<Rightarrow> string \<Rightarrow> ('h history, jwt) io" where
  "jwt_keys env warning seedHex =
     bindE (if seedHex = '''' then acts (LogWarn warning) else ret ()) (\<lambda>_.
     from_result (jwtKeyPair env seedHex))"

text \<open>
  \<^verbatim>\<open>ListenAndServe\<close> returns an error always; \<^verbatim>\<open>http.ErrServerClosed\<close> is not passed on, so that the process
  waits for its signal.
\<close>

definition await_end :: "'h system \<Rightarrow> ('h history, unit) io" where
  "await_end sy =
     bindE (attempt (perform sy AwaitEnd)) (\<lambda>r. case r of
         Inr _ \<Rightarrow> ret ()
       | Inl e \<Rightarrow> if errors_Is e ErrServerClosed then acts AwaitSignal else throw e)"

definition serve :: "'h system \<Rightarrow> string \<Rightarrow> 'h \<Rightarrow> duration \<Rightarrow> ('h history, unit) io \<Rightarrow> ('h history, unit) io" where
  "serve sy addr handler grace drain =
     bindE (acts (Listen addr handler)) (\<lambda>_.
     bindE (wrapE ''http server'' (await_end sy)) (\<lambda>_.
     bindE (acts (LogInfo ''shutdown signal received'')) (\<lambda>_.
     bindE (acts (DeadlineAfter grace)) (\<lambda>_. deferring DeadlineCancel (
     bindE drain (\<lambda>_.
     bindE (wrapE ''graceful shutdown'' (perform sy ServerShutdown)) (\<lambda>_.
     acts (LogInfo ''shutdown complete''))))))))"

text \<open>The part both servers begin with: signals, configuration, logger, PostgreSQL, Redis.\<close>

definition with_backends ::
    "'h system \<Rightarrow> string \<Rightarrow> (Config \<Rightarrow> ('h history, unit) io) \<Rightarrow> ('h history, unit) io" where
  "with_backends sy name body =
     bindE (acts NotifySignals) (\<lambda>_. deferring StopSignals (
     bindE (wrapE ''load config'' (from_result (load_config (sy_lookup sy)))) (\<lambda>cfg.
     bindE (acts (logging_New (sy_lookup sy))) (\<lambda>_.
     bindE (acts (LogInfo (''starting '' @ name))) (\<lambda>_.
     bindE (wrapE ''connect postgres'' (NewPool sy (cf_DatabaseURL cfg))) (\<lambda>_. deferring PoolClose (
     bindE (cache_NewClient (cf_RedisAddr cfg) (cf_RedisPassword cfg) (cf_RedisDB cfg)) (\<lambda>_. deferring RedisClose (
     bindE (wrapE ''connect redis'' (cache_Ping sy)) (\<lambda>_.
     body cfg))))))))))"

definition run_server ::
    "('i, 'x) startup_env \<Rightarrow> json_env \<Rightarrow> ('r, 'i, 'x) externals \<Rightarrow> media_deployment
     \<Rightarrow> ('r, 'i, 'x) core route list system \<Rightarrow> (('r, 'i, 'x) core route list history, unit) io" where
  "run_server env je ex md sy = with_backends sy ''smusic-core'' (\<lambda>cfg.
     bindE (wrapE ''build jwt signing key'' (jwt_keys env
       ''JWT_ED25519_SEED_HEX not set; generating an ephemeral signing key''
       (cf_JWTEd25519SeedHex cfg))) (\<lambda>j.
     bindE (wrapE ''decode PASSWORD_PEPPER_HEX'' (from_result (case hex_DecodeString (cf_PasswordPepperHex cfg) of
         None \<Rightarrow> Inl (Foreign ''encoding/hex'') | Some pepper \<Rightarrow> Inr pepper))) (\<lambda>pepper.
     bindE (if pepper = []
            then acts (LogWarn ''PASSWORD_PEPPER_HEX not set; running without a password pepper'')
            else ret ()) (\<lambda>_.
     serve sy (cf_HTTPAddr cfg) (server_handler env je ex md cfg j pepper) (15 * Second) (ret ())))))"

text \<open>What the mux of \<^verbatim>\<open>cmd/presence-server\<close> holds under a path.\<close>

datatype 'hd mux_entry = Connect 'hd | Answer int string

type_synonym ('r, 'i, 'x) mux = "(string \<times> (('r, 'i, 'x) world, sockets) Handler mux_entry) list"

definition presence_feed_config :: "Config \<Rightarrow> feed_config" where
  "presence_feed_config cfg = \<lparr>fc_PresenceTTL = cf_PresenceTTL cfg, fc_PresenceWorkers = nat (cf_PresenceWorkers cfg),
     fc_PresenceIngestBuffer = nat (cf_PresenceIngestBuffer cfg),
     fc_PresenceUpdateRateLimit = cf_PresenceUpdateRateLimit cfg,
     fc_PresenceUpdateRateWindow = cf_PresenceUpdateRateWindow cfg, fc_CORSAllowedOrigins = cf_CORSAllowedOrigins cfg\<rparr>"

definition presence_externals :: "('i, 'x) startup_env \<Rightarrow> ('r, 'i, 'x) externals \<Rightarrow> jwt \<Rightarrow> ('r, 'i, 'x) externals" where
  "presence_externals env ex j = ex\<lparr>ex_jwt := j, ex_uuid := UUIDv7 (su_uuid env)\<rparr>"

definition presence_mux ::
    "('i, 'x) startup_env \<Rightarrow> ('r, 'i, 'x) externals \<Rightarrow> (string \<Rightarrow> string option) \<Rightarrow> (string \<Rightarrow> inboundFrame option) \<Rightarrow> Config \<Rightarrow> jwt
     \<Rightarrow> ('r, 'i, 'x) mux" where
  "presence_mux env ex url_host decode cfg j =
     [(''/v1/presence/connect'', Connect (presence_server_handler (presence_externals env ex j) (server_deployment cfg)
        (presence_feed_config cfg) url_host decode)),
      (''/healthz'', Answer 200 ''ok'')]"

text \<open>The hub is drained within the deadline or not; the listener is shut down in both cases.\<close>

definition presence_drain :: "'h system \<Rightarrow> ('h history, unit) io" where
  "presence_drain sy =
     bindE (attempt (perform sy (HubShutdown ''reconnect to presence-service''))) (\<lambda>r. case r of
         Inl e \<Rightarrow> acts (LogWarn ''presence hub shutdown incomplete within deadline'')
       | Inr _ \<Rightarrow> ret ())"

text \<open>
  \<^verbatim>\<open>make(chan ingestJob, n)\<close> and \<^verbatim>\<open>wg.Add(n)\<close> in \<^verbatim>\<open>NewHubWithLimit\<close> panic on a negative number; the
  deferred calls run then as well.
\<close>

definition run_presence ::
    "('i, 'x) startup_env \<Rightarrow> ('r, 'i, 'x) externals \<Rightarrow> (string \<Rightarrow> string option) \<Rightarrow> (string \<Rightarrow> inboundFrame option)
     \<Rightarrow> ('r, 'i, 'x) mux system \<Rightarrow> (('r, 'i, 'x) mux history, unit) io" where
  "run_presence env ex url_host decode sy = with_backends sy ''presence-server'' (\<lambda>cfg.
     bindE (wrapE ''build jwt verification key'' (jwt_keys env
       ''JWT_ED25519_SEED_HEX not set; generating an ephemeral verification key''
       (cf_JWTEd25519SeedHex cfg))) (\<lambda>j.
     if cf_PresenceIngestBuffer cfg < 0 then panicking ''makechan: size out of range''
     else if cf_PresenceWorkers cfg < 0 then panicking ''sync: negative WaitGroup counter''
     else
     bindE (acts HubRun) (\<lambda>_.
     serve sy (cf_PresenceHTTPAddr cfg) (presence_mux env ex url_host decode cfg j) (30 * Second)
       (presence_drain sy))))"

text \<open>\<^verbatim>\<open>os.Exit\<close>; a panic that reaches the top ends a Go process with status 2.\<close>

definition main_of :: "('h history, unit) io \<Rightarrow> 'h history" where
  "main_of run = (case run [] of
     (Inl e, h) \<Rightarrow> if (Panics, None) \<in> set h then h @ [(Exit 2, None)] else h @ [(Fatal e, None), (Exit 1, None)]
   | (Inr _, h) \<Rightarrow> h @ [(Exit 0, None)])"

section \<open>The migrations command\<close>

text \<open>The one flag, \<^verbatim>\<open>dir\<close>.\<close>

definition flag_Parse :: "string \<Rightarrow> string list \<Rightarrow> nat + string \<times> string list" where
  "flag_Parse = parse_flags [(''dir'', string_flag (\<lambda>x _. x))]"

definition migrate_usage :: err where
  "migrate_usage = Foreign ''usage: migrate [-dir=migrations] up|down''"

definition migrate_command :: "unit system \<Rightarrow> string \<Rightarrow> string \<Rightarrow> (unit history, unit) io" where
  "migrate_command sy dir cmd =
     bindE (wrapE ''load config'' (from_result (load_config (sy_lookup sy)))) (\<lambda>cfg.
     bindE (wrapE ''open database'' (perform sy (SqlOpen (cf_DatabaseURL cfg)))) (\<lambda>_. deferring SqlClose (
     bindE (wrapE ''create migration driver'' (perform sy MigrateDriver)) (\<lambda>_.
     bindE (wrapE ''create migrate instance'' (perform sy (MigrateNew (''file://'' @ dir) ''smusic''))) (\<lambda>_.
     bindE (attempt (perform sy (if cmd = ''up'' then MigrateUp else MigrateDown))) (\<lambda>r.
     case r of
       Inl e \<Rightarrow> if errors_Is e MigrateErrNoChange then acts (Print (''migrate '' @ cmd @ '': done''))
                else throw (Wrapped (''run migration '' @ cmd) e)
     | Inr _ \<Rightarrow> acts (Print (''migrate '' @ cmd @ '': done''))))))))"

definition run_migrate :: "unit system \<Rightarrow> string \<Rightarrow> string list \<Rightarrow> (unit history, unit) io" where
  "run_migrate sy dir args =
     (if length args \<noteq> 1 \<or> (hd args \<noteq> ''up'' \<and> hd args \<noteq> ''down'') then throw migrate_usage
      else migrate_command sy dir (hd args))"

definition migrate_main :: "unit system \<Rightarrow> unit history" where
  "migrate_main sy = (case flag_Parse ''migrations'' (sy_args sy) of
     Inl status \<Rightarrow> [(Exit status, None)]
   | Inr (dir, args) \<Rightarrow> main_of (run_migrate sy dir args))"

section \<open>What is held\<close>

text \<open>
  The driver of golang-migrate takes a connection of its own out of the \<^verbatim>\<open>sql.DB\<close>, and its instance opens the
  source of the migrations. Only \<^verbatim>\<open>Close\<close> of the instance gives them back, and nothing calls it: closing the
  \<^verbatim>\<open>sql.DB\<close> leaves connections in use alone.
\<close>

datatype resource = Signals | Pool | RedisConn | Deadline | Database | Container | MigrationConn | MigrationSource

fun opens :: "'h deed \<times> err option \<Rightarrow> resource option" where
  "opens (NotifySignals, _) = Some Signals"
| "opens (PoolNew _, None) = Some Pool"
| "opens (RedisNew _ _ _, _) = Some RedisConn"
| "opens (DeadlineAfter _, _) = Some Deadline"
| "opens (SqlOpen _, None) = Some Database"
| "opens (ContainerRun _ _ _ _, None) = Some Container"
| "opens (MigrateDriver, None) = Some MigrationConn"
| "opens (MigrateNew _ _, None) = Some MigrationSource"
| "opens _ = None"

fun closes :: "'h deed \<Rightarrow> resource option" where
  "closes StopSignals = Some Signals"
| "closes PoolClose = Some Pool"
| "closes RedisClose = Some RedisConn"
| "closes DeadlineCancel = Some Deadline"
| "closes SqlClose = Some Database"
| "closes ContainerTerminate = Some Container"
| "closes _ = None"

definition unclosed :: "resource \<Rightarrow> bool" where
  "unclosed r \<longleftrightarrow> r = MigrationConn \<or> r = MigrationSource"

text \<open>
  What is held after a history, the latest first; \<open>None\<close> when something was released that was not the
  latest thing acquired and still held, of those that are ever released.
\<close>

fun give_back :: "resource \<Rightarrow> resource list \<Rightarrow> resource list option" where
  "give_back r [] = None"
| "give_back r (t # ts) =
     (if t = r then Some ts else if unclosed t then map_option ((#) t) (give_back r ts) else None)"

fun held :: "'h history \<Rightarrow> resource list \<Rightarrow> resource list option" where
  "held [] st = Some st"
| "held (x # h) st =
     (case closes (fst x) of
        Some r \<Rightarrow> Option.bind (give_back r st) (held h)
      | None \<Rightarrow> (case opens x of Some r \<Rightarrow> held h (r # st) | None \<Rightarrow> held h st))"

text \<open>What the migrations took, the latest first.\<close>

primrec left_open :: "'h history \<Rightarrow> resource list" where
  "left_open [] = []"
| "left_open (x # h) = left_open h @ (case opens x of Some r \<Rightarrow> if unclosed r then [r] else [] | None \<Rightarrow> [])"

lemma held_append: "held (h @ g) st = Option.bind (held h st) (held g)"
  by (induction h st rule: held.induct) (auto split: option.splits Option.bind_splits)

lemma left_open_append: "left_open (h @ g) = left_open g @ left_open h"
  by (induction h) simp_all

lemma left_open_unclosed: "list_all unclosed (left_open h)"
  by (induction h) (auto split: option.splits)

lemma closes_kind: "closes d = Some r \<Longrightarrow> \<not> unclosed r \<and> opens (d, x) = None"
  by (cases d) (auto simp: unclosed_def)

lemma give_back_over: "list_all unclosed l \<Longrightarrow> \<not> unclosed r \<Longrightarrow> give_back r (l @ r # st) = Some (l @ st)"
  by (induction l) auto

lemma give_back_unclosed: "give_back r st = Some st' \<Longrightarrow> \<not> unclosed r \<Longrightarrow> filter unclosed st' = filter unclosed st"
  by (induction r st arbitrary: st' rule: give_back.induct) (auto split: if_splits)

lemma held_unclosed: "held h st = Some st' \<Longrightarrow> filter unclosed st' = left_open h @ filter unclosed st"
proof (induction h st arbitrary: st' rule: held.induct)
  case (2 x h st)
  show ?case
  proof (cases "closes (fst x)")
    case None
    with 2 show ?thesis by (auto split: option.splits if_splits)
  next
    case (Some r)
    with 2(4) obtain st1 where "give_back r st = Some st1" "held h st1 = Some st'" by (auto split: Option.bind_splits)
    with 2(3) [OF Some] closes_kind [OF Some, of "snd x"] give_back_unclosed show ?thesis by auto
  qed
qed simp

text \<open>
  An operation that gives back what it takes, except for migrations where \<open>lk\<close> allows them; one that takes
  a resource if it succeeds.
\<close>

definition balanced :: "bool \<Rightarrow> ('h history, 'a) io \<Rightarrow> bool" where
  "balanced lk m \<longleftrightarrow> (\<forall>h. \<exists>t. snd (m h) = h @ t \<and> (\<forall>st. held t st = Some (left_open t @ st)) \<and> (lk \<or> left_open t = []))"

definition acquires :: "resource \<Rightarrow> ('h history, 'a) io \<Rightarrow> bool" where
  "acquires r m \<longleftrightarrow> \<not> unclosed r \<and> (\<forall>h. \<exists>t. snd (m h) = h @ t \<and> left_open t = []
     \<and> (\<forall>st. held t st = Some (case fst (m h) of Inl _ \<Rightarrow> st | Inr _ \<Rightarrow> r # st)))"

named_theorems balanced_intros "operations that release what they acquire"

lemma balancedE:
  assumes "balanced lk m" and "m h = (r, h')"
  obtains t where "h' = h @ t" and "\<And>st. held t st = Some (left_open t @ st)" and "lk \<or> left_open t = []"
  using assms unfolding balanced_def by (metis snd_conv)

lemma balancedI:
  "(\<And>h r h'. m h = (r, h') \<Longrightarrow> \<exists>t. h' = h @ t \<and> (\<forall>st. held t st = Some (left_open t @ st)) \<and> (lk \<or> left_open t = []))
   \<Longrightarrow> balanced lk m"
  unfolding balanced_def by (metis prod.collapse)

lemma balanced_history:
  assumes "balanced lk m"
  shows "held (snd (m [])) [] = Some (left_open (snd (m [])))" and "\<not> lk \<Longrightarrow> left_open (snd (m [])) = []"
  using assms [unfolded balanced_def, THEN spec [of _ "[]"]] by auto

lemma acquiresE:
  assumes "acquires r m" and "m h = (y, h')"
  obtains t where "h' = h @ t" and "left_open t = []"
    and "\<And>st. held t st = Some (case y of Inl _ \<Rightarrow> st | Inr _ \<Rightarrow> r # st)"
  using assms unfolding acquires_def by (metis fst_conv snd_conv)

lemma balanced_pure [balanced_intros]: "balanced lk (ret x)" "balanced lk (throw e)" "balanced lk (from_result r)"
  by (simp_all add: balanced_def from_result_def)

lemma balanced_bindE:
  assumes "balanced lk m" and "\<And>x. balanced lk (k x)"
  shows "balanced lk (bindE m k)"
proof (rule balancedI)
  fix h r h'
  assume "bindE m k h = (r, h')"
  then show "\<exists>t. h' = h @ t \<and> (\<forall>st. held t st = Some (left_open t @ st)) \<and> (lk \<or> left_open t = [])"
  proof (cases rule: bindE_E)
    case (failed e)
    then show ?thesis using balancedE [OF assms(1)] by metis
  next
    case (answered x h1)
    obtain t where "h1 = h @ t" "\<And>st. held t st = Some (left_open t @ st)" "lk \<or> left_open t = []"
      using balancedE [OF assms(1) answered(1)] by blast
    moreover obtain u where "h' = h1 @ u" "\<And>st. held u st = Some (left_open u @ st)" "lk \<or> left_open u = []"
      using balancedE [OF assms(2) answered(2)] by blast
    ultimately show ?thesis by (intro exI [of _ "t @ u"]) (auto simp: held_append left_open_append)
  qed
qed

lemma balanced_wrapE [balanced_intros]: "balanced lk m \<Longrightarrow> balanced lk (wrapE s m)"
  and balanced_attempt [balanced_intros]: "balanced lk m \<Longrightarrow> balanced lk (attempt m)"
  by (auto simp: balanced_def wrapE_def attempt_def split: prod.splits sum.splits) (metis snd_conv)+

lemma balanced_perform [balanced_intros]:
  "opens (d, None) = None \<Longrightarrow> closes d = None \<Longrightarrow> balanced lk (perform sy d)"
  by (cases d) (auto simp: balanced_def perform_def split: option.split)

lemma balanced_migration [balanced_intros]:
  "balanced True (perform sy MigrateDriver)" "balanced True (perform sy (MigrateNew src db))"
  by (auto simp: balanced_def perform_def unclosed_def split: option.split)

lemma balanced_acts [balanced_intros]: "opens (d, None) = None \<Longrightarrow> closes d = None \<Longrightarrow> balanced lk (acts d)"
  by (simp add: balanced_def acts_def)

lemma balanced_panicking [balanced_intros]: "balanced lk (panicking why)"
  by (simp add: balanced_def panicking_def)

lemma balanced_if [balanced_intros]: "balanced lk m \<Longrightarrow> balanced lk n \<Longrightarrow> balanced lk (if b then m else n)"
  by simp

lemma balanced_case_sum [balanced_intros]:
  "(\<And>e. balanced lk (f e)) \<Longrightarrow> (\<And>x. balanced lk (g x)) \<Longrightarrow> balanced lk (case r of Inl e \<Rightarrow> f e | Inr x \<Rightarrow> g x)"
  by (cases r) auto

text \<open>\<^verbatim>\<open>defer\<close> after an acquisition closes the bracket.\<close>

lemma balanced_bracket:
  assumes "acquires r m" and "closes c = Some r" and "\<And>x. balanced lk (k x)"
  shows "balanced lk (bindE m (\<lambda>x. deferring c (k x)))"
proof (rule balancedI)
  fix h y h'
  assume "bindE m (\<lambda>x. deferring c (k x)) h = (y, h')"
  then show "\<exists>t. h' = h @ t \<and> (\<forall>st. held t st = Some (left_open t @ st)) \<and> (lk \<or> left_open t = [])"
  proof (cases rule: bindE_E)
    case (failed e)
    from assms(1) failed(1) show ?thesis by (rule acquiresE) (use failed(2) in auto)
  next
    case (answered x h1)
    from answered(2) obtain z h2 where k: "k x h1 = (z, h2)" and h': "h' = h2 @ [(c, None)]"
      by (auto simp: deferring_def split: prod.splits)
    obtain t where t: "h1 = h @ t" "left_open t = []" "\<And>st. held t st = Some (r # st)"
      using acquiresE [OF assms(1) answered(1)] by auto
    obtain u where u: "h2 = h1 @ u" "\<And>st. held u st = Some (left_open u @ st)" "lk \<or> left_open u = []"
      using balancedE [OF assms(3) k] by blast
    have "\<not> unclosed r" "opens (c, None) = None" using closes_kind [OF assms(2)] by auto
    then show ?thesis
      using h' t u assms(2)
      by (intro exI [of _ "t @ u @ [(c, None)]"])
        (simp add: held_append left_open_append give_back_over [OF left_open_unclosed])
  qed
qed

lemma acquires_acts: "opens (d, None) = Some r \<Longrightarrow> \<not> unclosed r \<Longrightarrow> closes d = None \<Longrightarrow> acquires r (acts d)"
  by (simp add: acquires_def acts_def)

lemma acquires_perform:
  "opens (d, None) = Some r \<Longrightarrow> \<not> unclosed r \<Longrightarrow> closes d = None \<Longrightarrow> (\<And>e. opens (d, Some e) = None)
   \<Longrightarrow> acquires r (perform sy d)"
  by (auto simp: acquires_def perform_def split: option.split)

lemma acquires_wrapE: "acquires r m \<Longrightarrow> acquires r (wrapE s m)"
  unfolding acquires_def wrapE_def by (auto split: prod.splits sum.splits) (metis fst_conv snd_conv sum.case)+

lemma acquires_NewPool: "acquires Pool (NewPool sy url)"
  by (auto simp: acquires_def unclosed_def NewPool_def bindE_def wrapE_def attempt_def perform_def acts_def throw_def ret_def
      split: option.splits)

lemma balanced_await [balanced_intros]: "balanced lk (await_end sy)"
  unfolding await_end_def by (intro balanced_bracket balanced_intros balanced_bindE) simp_all

lemma balanced_serve [balanced_intros]: "balanced lk drain \<Longrightarrow> balanced lk (serve sy addr h grace drain)"
  unfolding serve_def
  by (intro balanced_bracket balanced_intros balanced_bindE) (simp_all add: acquires_acts unclosed_def)

lemma balanced_presence_drain [balanced_intros]: "balanced lk (presence_drain sy)"
  unfolding presence_drain_def by (intro balanced_bracket balanced_intros balanced_bindE) simp_all

lemma balanced_jwt_keys [balanced_intros]: "balanced lk (jwt_keys env warning seed)"
  unfolding jwt_keys_def by (intro balanced_bracket balanced_intros balanced_bindE) simp_all

lemma balanced_with_backends [balanced_intros]:
  "(\<And>cfg. balanced lk (body cfg)) \<Longrightarrow> balanced lk (with_backends sy name body)"
  unfolding with_backends_def cache_NewClient_def cache_Ping_def logging_New_def
  by (intro balanced_bracket balanced_intros balanced_bindE) (simp_all add: acquires_wrapE acquires_NewPool acquires_acts unclosed_def)

lemma run_server_balanced: "balanced False (run_server env je ex md sy)"
  unfolding run_server_def
  by (intro balanced_bracket balanced_intros balanced_bindE) simp_all

lemma run_presence_balanced: "balanced False (run_presence env ex url_host decode sy)"
  unfolding run_presence_def
  by (intro balanced_bracket balanced_intros balanced_bindE) simp_all

lemma run_migrate_balanced: "balanced True (run_migrate sy dir args)"
  unfolding run_migrate_def migrate_command_def
  by (intro balanced_bracket balanced_intros balanced_bindE) (simp_all add: acquires_wrapE acquires_perform unclosed_def)

section \<open>When a server serves\<close>

fun serving :: "'h deed \<Rightarrow> bool" where
  "serving (Listen _ _) = True"
| "serving ServerShutdown = True"
| "serving HubRun = True"
| "serving (HubShutdown _) = True"
| "serving Panics = True"
| "serving _ = False"

abbreviation quiet :: "'h history \<Rightarrow> bool" where
  "quiet h \<equiv> list_all (\<lambda>x. \<not> serving (fst x)) h"

definition ready_history :: "'h system \<Rightarrow> string \<Rightarrow> Config \<Rightarrow> 'h history" where
  "ready_history sy name cfg =
     [(NotifySignals, None), (logging_New (sy_lookup sy), None), (LogInfo (''starting '' @ name), None),
      (PoolNew (cf_DatabaseURL cfg), None), (PoolPing, None),
      (RedisNew (cf_RedisAddr cfg) (cf_RedisPassword cfg) (cf_RedisDB cfg), None), (RedisPing, None)]"

definition closing_history :: "'h history" where
  "closing_history = [(RedisClose, None), (PoolClose, None), (StopSignals, None)]"

lemma ready_history_facts [simp]:
  "held (ready_history sy name cfg) [] = Some [RedisConn, Pool, Signals]"
  "(PoolPing, None) \<in> set (ready_history sy name cfg)" "(RedisPing, None) \<in> set (ready_history sy name cfg)"
  "quiet (ready_history sy name cfg)"
  by (auto simp: ready_history_def logging_New_def)

lemma closing_history_quiet [simp]: "quiet closing_history"
  by (simp add: closing_history_def)

lemma with_backends_cases:
  assumes "with_backends sy name body [] = (r, h)"
  obtains (not_ready) e where "r = Inl e" and "quiet h"
  | (ready) cfg h' where "load_config (sy_lookup sy) = Inr cfg" and "body cfg (ready_history sy name cfg) = (r, h')"
      and "h = h' @ closing_history"
proof (cases "load_config (sy_lookup sy)")
  case (Inl e)
  with assms not_ready show ?thesis
    by (auto simp: with_backends_def bindE_def wrapE_def deed_defs)
next
  case (Inr cfg)
  note defs = with_backends_def NewPool_def cache_NewClient_def cache_Ping_def logging_New_def bindE_def wrapE_def attempt_def throw_def ret_def
    deed_defs Inr
  show ?thesis
  proof (cases "r")
    fix e assume "r = Inl e"
    with assms not_ready ready [OF Inr] show ?thesis
      by (auto simp: defs ready_history_def closing_history_def split: option.splits prod.splits)
  next
    fix u assume "r = Inr u"
    with assms not_ready ready [OF Inr] show ?thesis
      by (auto simp: defs ready_history_def closing_history_def split: option.splits prod.splits)
  qed
qed

text \<open>From the listener on: either it fails, or the signal comes and the server is shut down.\<close>

definition serving_history :: "string \<Rightarrow> 'h \<Rightarrow> err option \<Rightarrow> duration \<Rightarrow> 'h history" where
  "serving_history addr handler x grace =
     [(Listen addr handler, None), (AwaitEnd, x)] @ (if x = None then [] else [(AwaitSignal, None)])
     @ [(LogInfo ''shutdown signal received'', None), (DeadlineAfter grace, None)]"

definition shutdown_history :: "err option \<Rightarrow> 'h history" where
  "shutdown_history y =
     [(ServerShutdown, y)] @ (if y = None then [(LogInfo ''shutdown complete'', None)] else []) @ [(DeadlineCancel, None)]"

lemma serve_cases:
  assumes "serve sy addr handler grace drain h = (r, h')"
    and "drain (h @ serving_history addr handler (sy_answer sy (h @ [(Listen addr handler, None)]) AwaitEnd) grace)
           = (Inr u, g)"
  obtains (listener_failed) e where "r = Inl (Wrapped ''http server'' e)" and "\<not> errors_Is e ErrServerClosed"
      and "h' = h @ [(Listen addr handler, None), (AwaitEnd, Some e)]"
  | (stopped) y where "r = (case y of None \<Rightarrow> Inr () | Some e \<Rightarrow> Inl (Wrapped ''graceful shutdown'' e))"
      and "h' = g @ shutdown_history y"
proof -
  note defs = serve_def await_end_def bindE_def wrapE_def attempt_def throw_def ret_def deed_defs
    serving_history_def shutdown_history_def
  show thesis
  proof (cases "sy_answer sy (h @ [(Listen addr handler, None)]) AwaitEnd")
    case None
    with assms stopped show ?thesis by (auto simp: defs split: option.splits prod.splits)
  next
    case (Some e)
    show ?thesis
    proof (cases "errors_Is e ErrServerClosed")
      case True
      with Some assms stopped show ?thesis by (auto simp: defs split: option.splits prod.splits)
    next
      case False
      with Some assms listener_failed show ?thesis by (auto simp: defs)
    qed
  qed
qed

lemma jwt_keys_run:
  "jwt_keys env warning seedHex h =
     (jwtKeyPair env seedHex, h @ (if seedHex = '''' then [(LogWarn warning, None)] else []))"
  by (simp add: jwt_keys_def bindE_def deed_defs)

text \<open>The two bodies, up to the listener.\<close>

definition warnings :: "bool \<Rightarrow> string \<Rightarrow> 'h history" where
  "warnings b text = (if b then [(LogWarn text, None)] else [])"

lemma run_server_cases:
  assumes "run_server env je ex md sy [] = (r, h)"
  obtains (quiet) e where "r = Inl e" and "quiet h"
  | (serving) cfg j pepper h' t1 t2 where "load_config (sy_lookup sy) = Inr cfg"
      and "jwtKeyPair env (cf_JWTEd25519SeedHex cfg) = Inr j"
      and "hex_DecodeString (cf_PasswordPepperHex cfg) = Some pepper"
      and "serve sy (cf_HTTPAddr cfg) (server_handler env je ex md cfg j pepper) (15 * Second) (ret ())
             (ready_history sy ''smusic-core'' cfg @ warnings (cf_JWTEd25519SeedHex cfg = '''') t1
                @ warnings (pepper = []) t2) = (r, h')"
      and "h = h' @ closing_history"
  using assms unfolding run_server_def
proof (cases rule: with_backends_cases)
  case (not_ready e)
  then show ?thesis by (rule quiet)
next
  case (ready cfg h')
  note defs = bindE_def wrapE_def jwt_keys_run throw_def ret_def deed_defs
  show ?thesis
  proof (cases "jwtKeyPair env (cf_JWTEd25519SeedHex cfg)")
    case (Inl e)
    with ready(2,3) quiet show ?thesis by (auto simp: defs)
  next
    case (Inr j)
    show ?thesis
    proof (cases "hex_DecodeString (cf_PasswordPepperHex cfg)")
      case None
      with Inr ready(2,3) quiet show ?thesis by (auto simp: defs)
    next
      case (Some pepper)
      from Inr ready(2,3) Some show ?thesis
        by (intro serving [OF ready(1) Inr Some _ ready(3)]) (auto simp: defs warnings_def)
    qed
  qed
qed

lemma presence_drain_run:
  "\<exists>t x. presence_drain sy h = (Inr (), h @ (HubShutdown ''reconnect to presence-service'', x) # warnings (x \<noteq> None) t)"
  by (auto simp: presence_drain_def bindE_def attempt_def warnings_def deed_defs split: option.split)

lemma run_presence_cases:
  assumes "run_presence env ex url_host decode sy [] = (r, h)"
  obtains (quiet) e where "r = Inl e" and "quiet h"
  | (panicked) e pre where "r = Inl e" and "h = pre @ (Panics, None) # closing_history" and "quiet pre"
  | (serving) cfg j h' t where "load_config (sy_lookup sy) = Inr cfg"
      and "jwtKeyPair env (cf_JWTEd25519SeedHex cfg) = Inr j"
      and "0 \<le> cf_PresenceIngestBuffer cfg" and "0 \<le> cf_PresenceWorkers cfg"
      and "serve sy (cf_PresenceHTTPAddr cfg) (presence_mux env ex url_host decode cfg j) (30 * Second) (presence_drain sy)
             (ready_history sy ''presence-server'' cfg @ warnings (cf_JWTEd25519SeedHex cfg = '''') t
                @ [(HubRun, None)]) = (r, h')"
      and "h = h' @ closing_history"
  using assms unfolding run_presence_def
proof (cases rule: with_backends_cases)
  case (not_ready e)
  then show ?thesis by (rule quiet)
next
  case (ready cfg h')
  note defs = bindE_def wrapE_def jwt_keys_run throw_def ret_def deed_defs
  show ?thesis
  proof (cases "jwtKeyPair env (cf_JWTEd25519SeedHex cfg)")
    case (Inl e)
    with ready(2,3) quiet show ?thesis by (auto simp: defs)
  next
    case (Inr j)
    show ?thesis
    proof (cases "cf_PresenceIngestBuffer cfg < 0 \<or> cf_PresenceWorkers cfg < 0")
      case True
      let ?w = "warnings (cf_JWTEd25519SeedHex cfg = '''')
        ''JWT_ED25519_SEED_HEX not set; generating an ephemeral verification key''"
      have "\<exists>e. r = Inl e \<and> h' = (ready_history sy ''presence-server'' cfg @ ?w) @ [(Panics, None)]"
        using ready(2) Inr True by (simp add: defs warnings_def split: if_split_asm) (elim conjE, blast)+
      moreover have "quiet (ready_history sy ''presence-server'' cfg @ ?w)" by (simp add: warnings_def)
      ultimately show ?thesis using panicked ready(3) by auto
    next
      case False
      from Inr ready(2,3) False show ?thesis
        by (intro serving [OF ready(1) Inr _ _ _ ready(3)]) (auto simp: defs warnings_def)
    qed
  qed
qed

end
