(* ===== verification/Test_Pool.thy ===== *)
theory Test_Pool
  imports Process
begin

text \<open>
  \<^verbatim>\<open>platform/dbx/dbxtest\<close>: the fixture of the integration tests, a PostgreSQL container with all
  migrations applied and a pool on it. The state of a test is the history of what it has done and the
  functions it has registered with \<^verbatim>\<open>t.Cleanup\<close>, the latest first; \<^verbatim>\<open>t.Fatalf\<close> ends the test, and the
  registered functions run in any case.
\<close>

section \<open>Paths\<close>

text \<open>The elements of a path, the last first, under \<^verbatim>\<open>filepath.Clean\<close>.\<close>

fun clean_onto :: "bool \<Rightarrow> string list \<Rightarrow> string list \<Rightarrow> string list" where
  "clean_onto rooted acc [] = acc"
| "clean_onto rooted acc (e # es) =
     (if e = '''' \<or> e = ''.'' then clean_onto rooted acc es
      else if e = ''..'' then
        (if acc \<noteq> [] \<and> hd acc \<noteq> ''..'' then clean_onto rooted (tl acc) es
         else if rooted then clean_onto rooted acc es
         else clean_onto rooted (''..'' # acc) es)
      else clean_onto rooted (e # acc) es)"

fun join_slash :: "string list \<Rightarrow> string" where
  "join_slash [] = ''''"
| "join_slash [e] = e"
| "join_slash (e # es) = e @ CHR ''/'' # join_slash es"

definition filepath_Clean :: "string \<Rightarrow> string" where
  "filepath_Clean path =
     (let rooted = HasPrefix path ''/'';
          res = (if rooted then ''/'' else '''') @ join_slash (rev (clean_onto rooted [] (Split (CHR ''/'') path)))
      in if res = '''' then ''.'' else res)"

definition filepath_Dir :: "string \<Rightarrow> string" where
  "filepath_Dir path = filepath_Clean (rev (dropWhile (\<lambda>c. c \<noteq> CHR ''/'') (rev path)))"

definition filepath_Join :: "string list \<Rightarrow> string" where
  "filepath_Join elems =
     (let es = filter (\<lambda>e. e \<noteq> '''') elems in if es = [] then '''' else filepath_Clean (join_slash es))"

text \<open>The argument is the path of the source file, as \<^verbatim>\<open>runtime.Caller\<close> tells it.\<close>

definition migrationsDir :: "string \<Rightarrow> string" where
  "migrationsDir file = filepath_Join [filepath_Dir file, ''..'', ''..'', ''..'', ''..'', ''migrations'']"

section \<open>The fixture\<close>

type_synonym 'h testing = "'h history \<times> ('h history \<Rightarrow> 'h history) list"

definition in_test :: "('h history, 'a) io \<Rightarrow> ('h testing, 'a) io" where
  "in_test m = (\<lambda>s. case m (fst s) of (r, h) \<Rightarrow> (r, h, snd s))"

definition Cleanup :: "('h history \<Rightarrow> 'h history) \<Rightarrow> ('h testing, unit) io" where
  "Cleanup f = (\<lambda>s. (Inr (), fst s, f # snd s))"

definition applyMigrations :: "'h system \<Rightarrow> string \<Rightarrow> string \<Rightarrow> ('h history, unit) io" where
  "applyMigrations sy file dsn =
     bindE (wrapE ''open database'' (perform sy (SqlOpen dsn))) (\<lambda>_. deferring SqlClose (
     bindE (wrapE ''create migration driver'' (perform sy MigrateDriver)) (\<lambda>_.
     bindE (wrapE ''create migrate instance'' (perform sy (MigrateNew (''file://'' @ migrationsDir file) ''smusic_test''))) (\<lambda>_.
     bindE (attempt (perform sy MigrateUp)) (\<lambda>r.
     case r of
       Inl e \<Rightarrow> if e = Sentinel MigrateErrNoChange then ret () else throw (Wrapped ''migrate up'' e)
     | Inr _ \<Rightarrow> ret ())))))"

definition terminate_container :: "'h system \<Rightarrow> 'h history \<Rightarrow> 'h history" where
  "terminate_container sy h =
     (case perform sy ContainerTerminate h of
        (Inl e, h') \<Rightarrow> h' @ [(LogWarn ''dbxtest: terminate container'', None)] | (Inr _, h') \<Rightarrow> h')"

text \<open>\<open>dsn\<close> is the address the container tells, when it does.\<close>

definition dbxtest_NewPool :: "'h system \<Rightarrow> string \<Rightarrow> string \<Rightarrow> ('h testing, unit) io" where
  "dbxtest_NewPool sy file dsn =
     bindE (wrapE ''dbxtest: start postgres container''
       (in_test (perform sy (ContainerRun ''postgres:16-alpine'' ''smusic_test'' ''smusic'' ''smusic'')))) (\<lambda>_.
     bindE (Cleanup (terminate_container sy)) (\<lambda>_.
     bindE (wrapE ''dbxtest: connection string'' (in_test (perform sy ContainerAddress))) (\<lambda>_.
     bindE (wrapE ''dbxtest: apply migrations'' (in_test (applyMigrations sy file dsn))) (\<lambda>_.
     bindE (wrapE ''dbxtest: new pool'' (in_test (NewPool sy dsn))) (\<lambda>_.
     Cleanup (\<lambda>h. h @ [(PoolClose, None)]))))))"

text \<open>A test that takes a pool and works with it; what it registered runs at its end.\<close>

definition pool_test :: "'h system \<Rightarrow> string \<Rightarrow> string \<Rightarrow> ('h history, unit) io \<Rightarrow> 'h history" where
  "pool_test sy file dsn body =
     (case bindE (dbxtest_NewPool sy file dsn) (\<lambda>_. in_test body) ([], []) of
        (_, h, cleanups) \<Rightarrow> foldl (\<lambda>h f. f h) h cleanups)"

section \<open>What the fixture guarantees\<close>

text \<open>The migrations are the ones beside the backend's sources, wherever the repository is.\<close>

lemma migrationsDir_example:
  "migrationsDir ''/home/ci/smusic/backend/internal/platform/dbx/dbxtest/dbxtest.go'' = ''/home/ci/smusic/backend/migrations''"
  "migrationsDir ''./internal/platform/dbx/dbxtest/dbxtest.go'' = ''migrations''"
  by code_simp+

lemma applyMigrations_balanced: "balanced True (applyMigrations sy file dsn)"
  unfolding applyMigrations_def
  by (intro balanced_bracket balanced_intros balanced_bindE) (simp_all add: acquires_wrapE acquires_perform unclosed_def)

text \<open>A function that gives back a resource, from below what the migrations left open.\<close>

definition releases :: "resource \<Rightarrow> ('h history \<Rightarrow> 'h history) \<Rightarrow> bool" where
  "releases x f \<longleftrightarrow> (\<forall>g. \<exists>t. f g = g @ t \<and> (\<forall>l st. list_all unclosed l \<longrightarrow> held t (l @ x # st) = Some (l @ st)))"

lemma terminate_container_releases: "releases Container (terminate_container sy)"
  by (auto simp: releases_def terminate_container_def perform_def give_back_over unclosed_def split: option.split)

lemma close_pool_releases: "releases Pool (\<lambda>h. h @ [(PoolClose, None)])"
  by (simp add: releases_def give_back_over unclosed_def)

text \<open>Steps that hold nothing more than they register for release, but for what the migrations took.\<close>

definition releasable :: "'h history \<Rightarrow> ('h history \<Rightarrow> 'h history) list \<Rightarrow> bool" where
  "releasable h cs \<longleftrightarrow> (\<exists>st. held h [] = Some st
     \<and> (\<forall>g l. list_all unclosed l \<longrightarrow> held g [] = Some (l @ st)
          \<longrightarrow> held (foldl (\<lambda>h f. f h) g cs) [] = Some (l @ filter unclosed st)))"

lemma releasable_gives_back:
  assumes "releasable h cs"
  shows "held (foldl (\<lambda>h f. f h) h cs) [] = Some (left_open (foldl (\<lambda>h f. f h) h cs))"
proof -
  from assms obtain st where "held h [] = Some st"
    and rel: "\<And>g l. list_all unclosed l \<Longrightarrow> held g [] = Some (l @ st)
          \<Longrightarrow> held (foldl (\<lambda>h f. f h) g cs) [] = Some (l @ filter unclosed st)"
    by (auto simp: releasable_def)
  then have end_state: "held (foldl (\<lambda>h f. f h) h cs) [] = Some (filter unclosed st)" using rel [of "[]" h] by simp
  from held_unclosed [OF this] end_state show ?thesis by simp
qed

lemma releasable_start: "releasable [] []"
  by (auto simp: releasable_def)

lemma releasable_balanced:
  assumes "balanced lk m" and "m h = (r, h')" and "releasable h cs"
  shows "releasable h' cs"
proof -
  obtain t where t: "h' = h @ t" "\<And>st. held t st = Some (left_open t @ st)" using balancedE [OF assms(1,2)] by blast
  have un: "filter unclosed (left_open t) = left_open t" "list_all unclosed (left_open t)"
    using left_open_unclosed [of t] by (simp_all add: filter_id_conv list_all_iff)
  from assms(3) obtain st where st: "held h [] = Some st"
    and rel: "\<And>g l. list_all unclosed l \<Longrightarrow> held g [] = Some (l @ st)
          \<Longrightarrow> held (foldl (\<lambda>h f. f h) g cs) [] = Some (l @ filter unclosed st)"
    by (auto simp: releasable_def)
  show ?thesis
    unfolding releasable_def
    using st t un rel [of "l @ left_open t" for l] by (intro exI [of _ "left_open t @ st"]) (simp add: held_append)
qed

lemma releasable_acquire:
  assumes "acquires x m" and "m h = (Inr y, h')" and "releasable h cs" and "releases x f"
  shows "releasable h' (f # cs)"
proof -
  obtain t where h': "h' = h @ t" "\<And>st. held t st = Some (x # st)" using acquiresE [OF assms(1,2)] by auto
  from assms(3) obtain st where st: "held h [] = Some st"
    and rel: "\<And>g l. list_all unclosed l \<Longrightarrow> held g [] = Some (l @ st)
          \<Longrightarrow> held (foldl (\<lambda>h f. f h) g cs) [] = Some (l @ filter unclosed st)"
    by (auto simp: releasable_def)
  have x: "\<not> unclosed x" using assms(1) by (simp add: acquires_def)
  have "held (f g) [] = Some (l @ st)" if un: "list_all unclosed l" and hg: "held g [] = Some (l @ x # st)" for g l
  proof -
    obtain u where "f g = g @ u" "held u (l @ x # st) = Some (l @ st)"
      using assms(4) un unfolding releases_def by blast
    with hg show ?thesis by (simp add: held_append)
  qed
  with rel h' st x show ?thesis
    unfolding releasable_def by (intro exI [of _ "x # st"]) (simp add: held_append)
qed

lemma releasable_failed:
  assumes "acquires x m" and "m h = (Inl e, h')" and "releasable h cs"
  shows "releasable h' cs"
proof -
  obtain t where "h' = h @ t" "\<And>st. held t st = Some st" using acquiresE [OF assms(1,2)] by auto
  with assms(3) show ?thesis by (auto simp: releasable_def held_append)
qed

lemma in_testD: "in_test m s = (r, s') \<Longrightarrow> m (fst s) = (r, fst s') \<and> snd s' = snd s"
  by (auto simp: in_test_def split: prod.splits)

lemma Cleanup_run: "Cleanup f s = (r, s') \<Longrightarrow> r = Inr () \<and> s' = (fst s, f # snd s)"
  by (auto simp: Cleanup_def)

lemma wrapE_ends: "wrapE c m w = (r, w') \<Longrightarrow> \<exists>r'. m w = (r', w') \<and> (isl r \<longleftrightarrow> isl r')"
  by (auto simp: wrapE_def split: prod.splits sum.splits)

definition steady :: "('h testing, 'a) io \<Rightarrow> bool" where
  "steady m \<longleftrightarrow> (\<forall>s r s'. m s = (r, s') \<longrightarrow> releasable (fst s) (snd s) \<longrightarrow> releasable (fst s') (snd s'))"

lemma steady_bindE:
  assumes "steady m" and "\<And>x. steady (k x)"
  shows "steady (bindE m k)"
  unfolding steady_def
proof (intro allI impI)
  fix s r s'
  assume "bindE m k s = (r, s')" and ok: "releasable (fst s) (snd s)"
  then show "releasable (fst s') (snd s')"
  proof (cases rule: bindE_E)
    case (failed e)
    with assms(1) ok show ?thesis unfolding steady_def by blast
  next
    case (answered x s1)
    with assms(1) ok have "releasable (fst s1) (snd s1)" unfolding steady_def by blast
    with assms(2) answered(2) show ?thesis unfolding steady_def by blast
  qed
qed

lemma steady_wrapE: "steady m \<Longrightarrow> steady (wrapE c m)"
  unfolding steady_def by (metis wrapE_ends)

lemma steady_in_test: "balanced lk m \<Longrightarrow> steady (in_test m)"
  by (auto simp: steady_def dest!: in_testD intro: releasable_balanced)

lemma steady_acquire:
  assumes "acquires x m" and "releases x f" and "steady k"
  shows "steady (bindE (wrapE c (in_test m)) (\<lambda>_. bindE (Cleanup f) (\<lambda>_. k)))"
  unfolding steady_def
proof (intro allI impI)
  fix s r s'
  assume run: "bindE (wrapE c (in_test m)) (\<lambda>_. bindE (Cleanup f) (\<lambda>_. k)) s = (r, s')"
    and ok: "releasable (fst s) (snd s)"
  from run show "releasable (fst s') (snd s')"
  proof (cases rule: bindE_E)
    case (failed e)
    then obtain e' where "m (fst s) = (Inl e', fst s')" "snd s' = snd s" by (auto elim!: wrapE_InlE dest!: in_testD)
    with releasable_failed [OF assms(1)] ok show ?thesis by metis
  next
    case (answered y s1)
    then have "m (fst s) = (Inr y, fst s1)" "snd s1 = snd s" by (auto dest!: in_testD)
    with releasable_acquire [OF assms(1) _ _ assms(2)] ok have "releasable (fst s1) (f # snd s1)" by metis
    moreover from answered(2) have "k (fst s1, f # snd s1) = (r, s')" by (simp add: bindE_def Cleanup_def)
    ultimately show ?thesis using assms(3) unfolding steady_def by (metis fst_conv snd_conv)
  qed
qed

lemma steady_ret: "steady (ret x)"
  by (simp add: steady_def)

lemma dbxtest_NewPool_steady: "steady (dbxtest_NewPool sy file dsn)"
proof -
  have last: "Cleanup f = bindE (Cleanup f) (\<lambda>_. ret ())" for f :: "'a history \<Rightarrow> 'a history"
    by (rule ext) (simp add: bindE_def Cleanup_def)
  show ?thesis
    unfolding dbxtest_NewPool_def
    by (subst last [of "\<lambda>h. h @ [(PoolClose, None)]"])
      (intro steady_acquire [OF acquires_perform terminate_container_releases] steady_acquire [OF acquires_NewPool close_pool_releases]
        steady_bindE [OF steady_wrapE] steady_in_test [OF applyMigrations_balanced] steady_in_test [where lk = False]
        balanced_perform steady_ret; simp add: unclosed_def)
qed

text \<open>A test leaves neither the container nor the pool nor its database handle behind, wherever it ends; what
  the migrations took stays.\<close>

lemma pool_test_releases:
  assumes "balanced lk body"
  shows "held (pool_test sy file dsn body) [] = Some (left_open (pool_test sy file dsn body))"
proof -
  obtain r s where run: "bindE (dbxtest_NewPool sy file dsn) (\<lambda>_. in_test body) ([], []) = (r, s)" by (rule prod.exhaust)
  have "steady (bindE (dbxtest_NewPool sy file dsn) (\<lambda>_. in_test body))"
    by (intro steady_bindE dbxtest_NewPool_steady steady_in_test [OF assms])
  with run releasable_start have "releasable (fst s) (snd s)" unfolding steady_def by fastforce
  from releasable_gives_back [OF this] run show ?thesis
    by (cases s) (simp add: pool_test_def)
qed

end
