(* ===== verification/Process_Claims.thy ===== *)
theory Process_Claims
  imports Test_Pool Router_Claims
begin

text \<open>
  What holds of every run of the processes: what they acquire they release, the listener is started
  only on a working configuration and working backends, the exit status tells how they ended, and a
  token of the one process is a token of the other.
\<close>

section \<open>Resources\<close>

text \<open>
  C37. However the two servers end, whatever the outside answers, everything they acquired (the signal
  handler, the pool, the Redis client, the deadline of the shutdown) was released exactly once, in the
  reverse order. The migrations command and a test on a fresh pool, whether the test itself fails or not,
  release the database handle, the pool and the container in the same way, and leave open exactly what
  golang-migrate took: the connection of its driver and the source of the migrations.
\<close>

lemma processes_release:
  "held (snd (run_server env je ex md sy [])) [] = Some []
   \<and> held (snd (run_presence env ex2 url_host decode sy2 [])) [] = Some []
   \<and> held (snd (run_migrate sy3 dir args [])) [] = Some (left_open (snd (run_migrate sy3 dir args [])))
   \<and> held (pool_test sy4 file dsn (from_result outcome)) []
       = Some (left_open (pool_test sy4 file dsn (from_result outcome)))"
  by (simp add: balanced_history [OF run_server_balanced] balanced_history [OF run_presence_balanced]
      balanced_history(1) [OF run_migrate_balanced] pool_test_releases [OF balanced_pure(3) [where lk = False]])

section \<open>The listener\<close>

lemma warnings_facts [simp]: "held (warnings b t) st = Some st" "quiet (warnings b t)"
  by (simp_all add: warnings_def)

text \<open>
  The signal, as it is seen by the wait for the listener or by the one after the listener has been
  closed; and a shutdown that ended within its deadline and was begun after the signal.
\<close>

definition told_to_stop :: "'h deed \<times> err option \<Rightarrow> bool" where
  "told_to_stop x \<longleftrightarrow> x = (AwaitEnd, None) \<or> x = (AwaitSignal, None)"

definition stopped_in_time :: "'h history \<Rightarrow> bool" where
  "stopped_in_time h \<longleftrightarrow> (ServerShutdown, None) \<in> set (dropWhile (\<lambda>x. \<not> told_to_stop x) h)"

lemma stopped_in_timeI:
  assumes "s \<in> set g" and "told_to_stop s" and "(ServerShutdown, None) \<in> set u"
  shows "stopped_in_time (g @ u)"
  using dropWhile_append1 [OF assms(1), of "\<lambda>x. \<not> told_to_stop x" u] assms(2,3)
  by (simp add: stopped_in_time_def)

lemma stopped_in_timeD: "stopped_in_time h \<Longrightarrow> (ServerShutdown, None) \<in> set h"
  unfolding stopped_in_time_def by (auto dest: set_dropWhileD)

text \<open>The history of a server that came to listening, from the listener on.\<close>

lemma serve_history:
  assumes "serve sy addr handler grace drain h = (r, h')" and "\<And>g. drain g = (Inr (), g @ d g)"
  obtains (failed) e where "h' = h @ (Listen addr handler, None) # [(AwaitEnd, Some e)]" and "\<exists>e. r = Inl e"
  | (stopped) g mid y where "h' = h @ (Listen addr handler, None) # mid @ d g @ shutdown_history y" and "quiet mid"
      and "(\<exists>e. r = Inl e) \<longleftrightarrow> y \<noteq> None" and "\<exists>s \<in> set mid. told_to_stop s"
proof -
  let ?x = "sy_answer sy (h @ [(Listen addr handler, None)]) AwaitEnd"
  let ?g = "h @ serving_history addr handler ?x grace"
  show thesis
  proof (cases rule: serve_cases [OF assms(1), of "()" "?g @ d ?g"])
    case 1
    show ?case by (rule assms(2))
  next
    case (2 e)
    then show ?thesis by (intro failed [of e]) auto
  next
    case (3 y)
    then show ?thesis
      by (intro stopped [of "tl (serving_history addr handler ?x grace)" ?g y])
        (auto simp: serving_history_def told_to_stop_def split: option.splits)
  qed
qed

definition ready_to_serve :: "'h history \<Rightarrow> bool" where
  "ready_to_serve pre \<longleftrightarrow>
     (PoolPing, None) \<in> set pre \<and> (RedisPing, None) \<in> set pre \<and> held pre [] = Some [RedisConn, Pool, Signals]"

fun listening :: "'h deed \<times> err option \<Rightarrow> bool" where
  "listening (Listen _ _, _) = True"
| "listening _ = False"

lemma quiet_no_listener: "quiet h \<Longrightarrow> filter listening h = []"
  by (induction h) (auto elim!: listening.elims)

lemma endings_no_listener [simp]: "filter listening (shutdown_history y) = []" "filter listening closing_history = []"
  by (simp_all add: shutdown_history_def closing_history_def)

lemma listens_once:
  assumes "filter listening h = [x]" and "y \<in> set h" and "listening y"
  shows "y = x"
proof -
  from assms(2,3) have "y \<in> set (filter listening h)" by simp
  then show ?thesis by (simp add: assms(1))
qed

text \<open>
  C14. The core process listens at most once, at the configured address, and
  answers with exactly the routes built from the loaded configuration, the key of its seed and its
  pepper; by then PostgreSQL and Redis have answered, and neither has been released.
\<close>

lemma serves_only_when_ready:
  assumes "(Listen a rs, x) \<in> set (snd (run_server env je ex md sy []))"
  shows "\<exists>cfg j pepper pre post. snd (run_server env je ex md sy []) = pre @ (Listen a rs, None) # post
    \<and> filter listening (pre @ post) = [] \<and> ready_to_serve pre
    \<and> load_config (sy_lookup sy) = Inr cfg \<and> a = cf_HTTPAddr cfg
    \<and> jwtKeyPair env (cf_JWTEd25519SeedHex cfg) = Inr j
    \<and> hex_DecodeString (cf_PasswordPepperHex cfg) = Some pepper
    \<and> rs = server_handler env je ex md cfg j pepper"
proof -
  obtain r h where run: "run_server env je ex md sy [] = (r, h)" by fastforce
  then show ?thesis
  proof (cases rule: run_server_cases)
    case (quiet e)
    with assms run have "False" by (auto simp: list_all_iff)
    then show ?thesis ..
  next
    case (serving cfg j pepper h' t1 t2)
    let ?pre = "ready_history sy ''smusic-core'' cfg @ warnings (cf_JWTEd25519SeedHex cfg = '''') t1
                @ warnings (pepper = []) t2"
    have pre: "ready_to_serve ?pre" "filter listening ?pre = []"
      by (simp_all add: ready_to_serve_def held_append quiet_no_listener)
    obtain rest where h: "h = ?pre @ (Listen (cf_HTTPAddr cfg) (server_handler env je ex md cfg j pepper), None) # rest"
      and rest: "filter listening rest = []"
    proof (cases rule: serve_history [OF serving(4), of "\<lambda>_. []"])
      case 1 then show ?case by (simp add: ret_def)
    next
      case (2 e) with serving(5) that show ?thesis by auto
    next
      case (3 g mid y) with serving(5) that show ?thesis by (auto simp: quiet_no_listener)
    qed
    have "filter listening h = [(Listen (cf_HTTPAddr cfg) (server_handler env je ex md cfg j pepper), None)]"
      using pre rest by (simp add: h)
    from listens_once [OF this] assms run
    have "a = cf_HTTPAddr cfg \<and> rs = server_handler env je ex md cfg j pepper" by fastforce
    with run h pre rest serving(1,2,3) show ?thesis
      by (intro exI [of _ cfg] exI [of _ j] exI [of _ pepper] exI [of _ ?pre] exI [of _ rest]) auto
  qed
qed

section \<open>How the processes end\<close>

lemma presence_history:
  assumes "run_presence env ex url_host decode sy [] = (r, h)"
  obtains (silent) e where "r = Inl e" and "quiet h"
  | (panicked) e pre where "r = Inl e" and "h = pre @ (Panics, None) # closing_history" and "quiet pre"
  | (failed) e cfg j pre x where "r = Inl e" and "h = pre @ (Listen (cf_PresenceHTTPAddr cfg)
          (presence_mux env ex url_host decode cfg j), None) # (AwaitEnd, x) # closing_history"
      and "load_config (sy_lookup sy) = Inr cfg" and "jwtKeyPair env (cf_JWTEd25519SeedHex cfg) = Inr j"
      and "quiet (butlast pre)" and "last pre = (HubRun, None)" and "pre \<noteq> []"
  | (stopped) cfg j pre mid x w y where "(\<exists>e. r = Inl e) \<longleftrightarrow> y \<noteq> None"
      and "h = pre @ (Listen (cf_PresenceHTTPAddr cfg) (presence_mux env ex url_host decode cfg j), None) # mid
             @ (HubShutdown ''reconnect to presence-service'', x) # w @ shutdown_history y @ closing_history"
      and "load_config (sy_lookup sy) = Inr cfg" and "jwtKeyPair env (cf_JWTEd25519SeedHex cfg) = Inr j"
      and "quiet (butlast pre)" and "last pre = (HubRun, None)" and "pre \<noteq> []" and "quiet mid" and "quiet w"
      and "\<exists>s \<in> set mid. told_to_stop s"
  using assms
proof (cases rule: run_presence_cases)
  case (quiet e)
  then show ?thesis by (rule silent)
next
  case (panicked e pre)
  then show ?thesis by (rule that(2))
next
  case (serving cfg j h' t)
  define d :: "('a, 'b, 'c) mux history \<Rightarrow> ('a, 'b, 'c) mux history" where
    "d g = drop (length g) (snd (presence_drain sy g))" for g
  have d: "presence_drain sy g = (Inr (), g @ d g)"
    and dq: "\<exists>x w. d g = (HubShutdown ''reconnect to presence-service'', x) # w \<and> quiet w" for g
    using presence_drain_run [of sy g] by (auto simp: d_def intro: warnings_facts)
  from serving(5) d show ?thesis
  proof (cases rule: serve_history)
    case (failed e)
    then obtain e' where r: "r = Inl e'" by blast
    let ?pre = "ready_history sy ''presence-server'' cfg @ warnings (cf_JWTEd25519SeedHex cfg = '''') t @ [(HubRun, None)]"
    show ?thesis
      by (rule that(3) [OF r _ serving(1,2), of ?pre "Some e"]) (simp_all add: serving(6) failed(1) butlast_append)
  next
    case (stopped g mid y)
    from dq [of g] obtain x w where "d g = (HubShutdown ''reconnect to presence-service'', x) # w" "quiet w" by blast
    then show ?thesis
      by (intro that(4) [OF stopped(3) _ serving(1,2), of "ready_history sy ''presence-server'' cfg
            @ warnings (cf_JWTEd25519SeedHex cfg = '''') t @ [(HubRun, None)]" mid x w])
        (simp_all add: serving(6) stopped butlast_append)
  qed
qed

lemma quietD: "(d, x) \<in> set h \<Longrightarrow> quiet h \<Longrightarrow> \<not> serving d"
  by (auto simp: list_all_iff)

lemma quiet_serves_nothing [simp]:
  "quiet h \<Longrightarrow> (ServerShutdown, x) \<notin> set h" "quiet h \<Longrightarrow> (Panics, x) \<notin> set h"
  by (auto dest: quietD)

lemma set_last: "xs \<noteq> [] \<Longrightarrow> set xs = insert (last xs) (set (butlast xs))"
  by (cases xs rule: rev_cases) auto

lemma ret_drain: "ret () g = (Inr (), g @ [])"
  by simp

lemma server_end:
  assumes "run_server env je ex md sy [] = (r, h)"
  shows "(Panics, None) \<notin> set h \<and> ((\<exists>e. r = Inl e) \<longleftrightarrow> \<not> stopped_in_time h)"
  using assms
proof (cases rule: run_server_cases)
  case (quiet e)
  then show ?thesis by (auto simp: list_all_iff dest!: stopped_in_timeD)
next
  case (serving cfg j pepper h' t1 t2)
  let ?pre = "ready_history sy ''smusic-core'' cfg @ warnings (cf_JWTEd25519SeedHex cfg = '''') t1
                @ warnings (pepper = []) t2"
  have pre: "quiet ?pre" by simp
  have post: "(Panics, x) \<notin> set closing_history" "(ServerShutdown, x) \<notin> set closing_history" for x
    by (auto simp: closing_history_def)
  show ?thesis
  proof (cases rule: serve_history [where d = "\<lambda>_. []", OF serving(4) ret_drain])
    case (1 e)
    with serving(5) pre post show ?thesis by (auto dest!: stopped_in_timeD dest: quietD)
  next
    case (2 g mid y)
    let ?listen = "(Listen (cf_HTTPAddr cfg) (server_handler env je ex md cfg j pepper), None)"
    from 2(4) obtain s where s: "s \<in> set mid" "told_to_stop s" by blast
    have h: "h = (?pre @ ?listen # mid) @ shutdown_history y @ closing_history" using serving(5) 2(1) by simp
    have "stopped_in_time h" if "y = None"
      unfolding h by (rule stopped_in_timeI [OF _ s(2)]) (use s that in \<open>simp_all add: shutdown_history_def\<close>)
    moreover have "\<not> stopped_in_time h" if "y \<noteq> None"
      using that h pre 2(2) post by (auto simp: shutdown_history_def dest!: stopped_in_timeD dest: quietD)
    moreover have "(Panics, None) \<notin> set h"
      using h pre 2(2) post by (auto simp: shutdown_history_def dest: quietD)
    ultimately show ?thesis using 2(3) by blast
  qed
qed

lemma presence_end:
  assumes "run_presence env ex url_host decode sy [] = (r, h)"
  shows "((\<exists>e. r = Inl e) \<longleftrightarrow> \<not> stopped_in_time h)
    \<and> ((Panics, None) \<in> set h \<longrightarrow> (\<exists>e. r = Inl e))
    \<and> (\<forall>y. (ServerShutdown, y) \<in> set h \<longrightarrow> (\<exists>p q u x. h = p @ (HubShutdown ''reconnect to presence-service'', x) # q @ (ServerShutdown, y) # u))"
proof -
  have post: "(ServerShutdown, x) \<notin> set closing_history" "(Panics, x) \<notin> set closing_history" for x
    by (auto simp: closing_history_def)
  from assms show ?thesis
  proof (cases rule: presence_history)
    case (silent e)
    then show ?thesis by (auto dest!: stopped_in_timeD dest: quietD)
  next
    case (panicked e pre)
    then show ?thesis using post by (auto dest!: stopped_in_timeD dest: quietD)
  next
    case (failed e cfg j pre x)
    have "set pre = insert (HubRun, None) (set (butlast pre))"
      using set_last [OF failed(7)] failed(6) by simp
    with failed post show ?thesis by (auto dest!: stopped_in_timeD dest: quietD)
  next
    case (stopped cfg j pre mid x w y)
    have "set pre = insert (HubRun, None) (set (butlast pre))"
      using set_last [OF stopped(7)] stopped(6) by simp
    then have pre: "(ServerShutdown, z) \<notin> set pre" "(Panics, z) \<notin> set pre" for z
      using stopped(5) by (auto dest: quietD)
    have mem: "(Panics, z) \<notin> set h" "(ServerShutdown, z) \<in> set h \<longleftrightarrow> z = y" for z
      using pre post stopped(8,9) by (auto simp: stopped(2) shutdown_history_def dest: quietD)
    have "\<exists>p q u x. h = p @ (HubShutdown ''reconnect to presence-service'', x) # q @ (ServerShutdown, y) # u"
    proof (intro exI)
      show "h = (pre @ (Listen (cf_PresenceHTTPAddr cfg) (presence_mux env ex url_host decode cfg j), None) # mid)
          @ (HubShutdown ''reconnect to presence-service'', x) # w @ (ServerShutdown, y) # (tl (shutdown_history y) @ closing_history)"
        using stopped by (simp add: shutdown_history_def)
    qed
    moreover have "stopped_in_time h \<longleftrightarrow> y = None"
    proof
      assume "stopped_in_time h"
      then show "y = None" using mem(2) by (auto dest: stopped_in_timeD)
    next
      assume y: "y = None"
      from stopped(10) obtain s where s: "s \<in> set mid" "told_to_stop s" by blast
      let ?g = "pre @ (Listen (cf_PresenceHTTPAddr cfg) (presence_mux env ex url_host decode cfg j), None) # mid"
      let ?u = "(HubShutdown ''reconnect to presence-service'', x) # w @ shutdown_history y @ closing_history"
      have h: "h = ?g @ ?u" by (simp add: stopped(2))
      show "stopped_in_time h"
        unfolding h by (rule stopped_in_timeI [OF _ s(2)]) (use s y in \<open>simp_all add: shutdown_history_def\<close>)
    qed
    ultimately show ?thesis using stopped(1) by (auto simp: mem)
  qed
qed

lemma main_of_status:
  "last (main_of run) = (Exit (case fst (run []) of Inl e \<Rightarrow> if (Panics, None) \<in> set (snd (run [])) then 2 else 1
     | Inr _ \<Rightarrow> 0), None)"
  by (auto simp: main_of_def split: prod.split sum.split)

text \<open>
  C39. The core process ends with status 0 exactly if a signal to stop came and, after it, the
  server shut down within its deadline, and with 1 otherwise; so does the presence process, which
  ends with 2 if its configuration made it panic, and which tells its connections to drain before its
  listener is shut down.
\<close>

lemma exit_status_tells_shutdown:
  "last (main_of (run_server env je ex md sy))
     = (Exit (if stopped_in_time (snd (run_server env je ex md sy [])) then 0 else 1), None)
   \<and> last (main_of (run_presence env2 ex2 url_host decode sy2))
     = (Exit (if stopped_in_time (snd (run_presence env2 ex2 url_host decode sy2 [])) then 0
              else if (Panics, None) \<in> set (snd (run_presence env2 ex2 url_host decode sy2 [])) then 2 else 1), None)
   \<and> (\<forall>y. (ServerShutdown, y) \<in> set (snd (run_presence env2 ex2 url_host decode sy2 [])) \<longrightarrow>
        (\<exists>p q u x. snd (run_presence env2 ex2 url_host decode sy2 [])
           = p @ (HubShutdown ''reconnect to presence-service'', x) # q @ (ServerShutdown, y) # u))"
proof -
  obtain r h where server: "run_server env je ex md sy [] = (r, h)" by fastforce
  obtain r2 h2 where presence: "run_presence env2 ex2 url_host decode sy2 [] = (r2, h2)" by fastforce
  show ?thesis
    using server_end [OF server] presence_end [OF presence]
    by (cases r; cases r2) (auto simp: main_of_status server presence)
qed

text \<open>The command does what it is asked, and nothing when it is not asked properly.\<close>

lemma migrate_does_what_is_asked:
  assumes "(d, x) \<in> set (migrate_main sy)" and "d = MigrateUp \<or> d = MigrateDown"
  shows "\<exists>dir. flag_Parse ''migrations'' (sy_args sy) = Inr (dir, [if d = MigrateUp then ''up'' else ''down''])"
proof -
  from assms obtain dir args where parsed: "flag_Parse ''migrations'' (sy_args sy) = Inr (dir, args)"
    and mem: "(d, x) \<in> set (main_of (run_migrate sy dir args))"
    by (auto simp: migrate_main_def split: sum.splits)
  obtain r h where run: "run_migrate sy dir args [] = (r, h)" by fastforce
  from mem assms(2) have h: "(d, x) \<in> set h"
    by (auto simp: main_of_def run split: sum.splits if_splits)
  have one: "length args = 1 \<and> (hd args = ''up'' \<or> hd args = ''down'')"
    using run h by (auto simp: run_migrate_def split: if_splits)
  from run one have "migrate_command sy dir (hd args) [] = (r, h)"
    by (auto simp: run_migrate_def)
  then have "d = (if hd args = ''up'' then MigrateUp else MigrateDown)"
    using h assms(2) one
    by (auto simp: migrate_command_def bindE_def wrapE_def attempt_def deed_defs throw_def
        split: if_split_asm sum.splits option.splits prod.splits)
  with one assms(2) parsed show ?thesis by (cases args) auto
qed

section \<open>One key for two processes\<close>

lemma load_config_fields:
  assumes "load_config lookup = Inr cfg"
  shows "cf_JWTEd25519SeedHex cfg = getOr lookup ''JWT_ED25519_SEED_HEX'' ''''"
    and "cf_JWTIssuer cfg = getOr lookup ''JWT_ISSUER'' ''smusic''"
  using assms Load_total [of lookup] unfolding load_config_def Load_def
  by (auto elim!: and_then_InrE split: option.splits)

lemma getOr_setting: "getOr lookup key d = (case setting lookup key of None \<Rightarrow> d | Some v \<Rightarrow> v)"
  by (simp add: getOr_def setting_def split: option.split)

lemma presence_listens:
  assumes "run_presence env ex url_host decode sy [] = (r, h)" and "(Listen a m, x) \<in> set h"
  shows "\<exists>cfg j. load_config (sy_lookup sy) = Inr cfg \<and> jwtKeyPair env (cf_JWTEd25519SeedHex cfg) = Inr j
    \<and> m = presence_mux env ex url_host decode cfg j"
proof -
  have post: "(Listen a m, x) \<notin> set closing_history" "(Listen a m, x) \<notin> set (shutdown_history y)" for y
    by (auto simp: closing_history_def shutdown_history_def)
  from assms(1) show ?thesis
  proof (cases rule: presence_history)
    case (silent e)
    then show ?thesis using assms(2) by (auto dest: quietD)
  next
    case (panicked e pre)
    then show ?thesis using assms(2) post by (auto dest: quietD)
  next
    case (failed e cfg j pre y)
    have "m = presence_mux env ex url_host decode cfg j"
      using assms(2) post failed(5) by (auto simp: failed(2,6) set_last [OF failed(7)] dest: quietD)
    with failed show ?thesis by blast
  next
    case (stopped cfg j pre mid y w z)
    have "m = presence_mux env ex url_host decode cfg j"
      using assms(2) post stopped(5,8,9) by (auto simp: stopped(2,6) set_last [OF stopped(7)] dest: quietD)
    with stopped show ?thesis by blast
  qed
qed

text \<open>
  C13. If both processes were given the same seed and the same issuer, an access
  token that the core process issues is accepted by the handler the presence process serves, for the
  user it was issued for and until it expires, and from then on reported as expired.
\<close>

lemma core_token_opens_feed:
  fixes c :: "('r, 'i, 'x) core" and w :: "('r, 'i, 'x) world"
  assumes core: "load_config lookup = Inr cfg" "jwtKeyPair env (cf_JWTEd25519SeedHex cfg) = Inr j"
    and presence: "(Listen a m, x) \<in> set (snd (run_presence env2 ex2 url_host decode sy []))"
      "map_of m ''/v1/presence/connect'' = Some (Connect feed)"
    and agree: "setting lookup ''JWT_ED25519_SEED_HEX'' \<noteq> None"
      "setting (sy_lookup sy) ''JWT_ED25519_SEED_HEX'' = setting lookup ''JWT_ED25519_SEED_HEX''"
      "setting (sy_lookup sy) ''JWT_ISSUER'' = setting lookup ''JWT_ISSUER''"
    and ed25519: "su_jwt env2 = su_jwt env" "\<And>seed. jwt_library (su_jwt env seed)"
    and issued: "Sign (as_signer (core_auth (server_externals env ex j hasher) (server_deployment cfg))) u c
        = (Inr (t, expires), c2)" "u \<noteq> ''''"
    and later: "Now world_clock w = (now, w2)" "expires - cf_AccessTokenTTL cfg \<le> now"
  shows "fst (au_Authenticate (hd_authr feed) t w) = (if now < NumericDate expires then Inr u else Inl (Sentinel ErrExpiredToken))"
proof -
  obtain r h where run: "run_presence env2 ex2 url_host decode sy [] = (r, h)" by fastforce
  obtain cfg2 j2 where cfg2: "load_config (sy_lookup sy) = Inr cfg2"
    and j2: "jwtKeyPair env2 (cf_JWTEd25519SeedHex cfg2) = Inr j2"
    and m: "m = presence_mux env2 ex2 url_host decode cfg2 j2"
    using presence_listens [OF run, of a m x] presence(1) run by (simp, blast)
  note feed = presence(2) [unfolded m]
  have same: "cf_JWTEd25519SeedHex cfg2 = cf_JWTEd25519SeedHex cfg" "cf_JWTIssuer cfg2 = cf_JWTIssuer cfg"
    "cf_JWTEd25519SeedHex cfg \<noteq> ''''"
    using agree by (auto simp: load_config_fields [OF core(1)] load_config_fields [OF cfg2] getOr_setting setting_def
        split: option.splits if_splits)
  obtain seed where j: "j = su_jwt env seed" and jj: "j2 = j"
    using core(2) j2 same by (auto simp: jwtKeyPair_def KeyPairFromSeed_def ed25519(1) split: option.splits if_splits)
  let ?signer = "server_signer (server_externals env ex j hasher) (server_deployment cfg)"
  have parts: "ts_jwt ?signer = j" "ts_ttl ?signer = cf_AccessTokenTTL cfg" "ts_issuer ?signer = cf_JWTIssuer cfg"
    "ts_clock ?signer = world_clock"
    by (simp_all add: server_signer_def server_externals_def server_deployment_def)
  from issued(1) obtain cw cw2 where sign: "Signer_Sign ?signer u cw = (Inr (t, expires), cw2)"
    by (auto simp: core_auth_def server_auth_def on_world_def zoom_def Let_def split: prod.splits)
  have lib: "jwt_library j" using ed25519(2) j by simp
  have "Authenticate ?signer t w = ((if now < NumericDate expires then Inr u else Inl (Sentinel ErrExpiredToken)), w2)"
    by (rule jwt_library.Authenticate_issued [OF _ parts(1) sign issued(2)]) (simp_all add: parts later lib)
  moreover have "au_Authenticate (hd_authr feed) t w = Authenticate ?signer t w"
    using feed by (auto simp: presence_mux_def presence_externals_def presence_server_handler_def server_signer_def server_externals_def
        server_deployment_def Authenticate_def same jj)
  ultimately show ?thesis by simp
qed

section \<open>The claims at work\<close>

definition sample_startup_env :: "(Sequential, nat) startup_env" where
  "sample_startup_env = \<lparr>su_crypto = sample_crypto, su_jwt = (\<lambda>_. table_jwt [sample_claims]),
     su_ephemeral = table_jwt [], su_sha256 = (\<lambda>s. s),
     su_uuid = \<lparr>uuid_NewV7 = (\<lambda>s. case Sequential_NewID s of (i, s1) \<Rightarrow> (Inr i, s1)), uuid_NewString = Sequential_NewID\<rparr>\<rparr>"

definition sample_seed :: string where
  "sample_seed = hex_EncodeToString (replicate 32 (CHR ''k''))"

text \<open>The outside answers everything, and the environment has the seed only.\<close>

definition sample_system :: "'h system" where
  "sample_system = \<lparr>sy_lookup = [''JWT_ED25519_SEED_HEX'' \<mapsto> sample_seed], sy_args = [''up''], sy_answer = (\<lambda>_ _. None)\<rparr>"

lemma sample_seed_set: "sample_seed \<noteq> ''''" "hex_DecodeString sample_seed = Some (replicate 32 (CHR ''k''))"
  by (auto simp: sample_seed_def hex_roundtrip) (simp add: hex_EncodeToString_def)

lemma sample_system_answers: "sy_answer sample_system = (\<lambda>_ _. None)"
  by (simp add: sample_system_def)

lemma sample_system_settings:
  "setting (sy_lookup sample_system) key = (if key = ''JWT_ED25519_SEED_HEX'' then Some sample_seed else None)"
  by (simp add: setting_def sample_system_def sample_seed_set)

lemma sample_load:
  obtains cfg where "load_config (sy_lookup sample_system) = Inr cfg" and "cf_JWTEd25519SeedHex cfg = sample_seed"
    and "cf_JWTIssuer cfg = ''smusic''" and "cf_PasswordPepperHex cfg = ''''" and "0 \<le> cf_PresenceIngestBuffer cfg"
    and "0 \<le> cf_PresenceWorkers cfg" and "cf_AccessTokenTTL cfg = 15 * Minute" and "cf_RefreshTokenTTL cfg = 30 * 24 * Hour"
  by (simp add: load_config_def Load_def and_then_def getIntOr_def getDurationOr_def getCSVOrigins_def getOr_setting
      sample_system_settings)

lemma sample_key: "jwtKeyPair sample_startup_env sample_seed = Inr (table_jwt [sample_claims])"
  by (simp add: jwtKeyPair_def sample_seed_set KeyPairFromSeed_def SeedSize_def sample_startup_env_def)

lemmas sample_run_eval =
  with_backends_def NewPool_def cache_NewClient_def cache_Ping_def serve_def await_end_def jwt_keys_run presence_drain_def bindE_def wrapE_def
  attempt_def throw_def ret_def deed_defs

abbreviation sample_run_server :: "(err + unit) \<times> (mem, Sequential, nat) core route list history" where
  "sample_run_server \<equiv> run_server sample_startup_env (sample_je DNull) sample_ex sample_media sample_system []"

abbreviation sample_run_presence :: "(err + unit) \<times> (mem, Sequential, nat) mux history" where
  "sample_run_presence \<equiv> run_presence sample_startup_env sample_ex (\<lambda>_. None) (\<lambda>_. None) sample_system []"

lemma sample_server_runs:
  "\<exists>a rs. (Listen a rs, None) \<in> set (snd sample_run_server) \<and> stopped_in_time (snd sample_run_server)"
proof -
  obtain cfg where cfg: "load_config (sy_lookup (sample_system :: (mem, Sequential, nat) core route list system)) = Inr cfg"
    "cf_JWTEd25519SeedHex cfg = sample_seed" "cf_PasswordPepperHex cfg = ''''" by (rule sample_load)
  then show ?thesis
    by (simp add: run_server_def sample_run_eval sample_key sample_seed_set sample_system_answers stopped_in_time_def told_to_stop_def) blast
qed

lemma sample_presence_runs:
  "\<exists>a cfg. (Listen a (presence_mux sample_startup_env sample_ex (\<lambda>_. None) (\<lambda>_. None) cfg (table_jwt [sample_claims])), None) \<in> set (snd sample_run_presence)
     \<and> stopped_in_time (snd sample_run_presence)"
proof -
  obtain cfg where cfg: "load_config (sy_lookup (sample_system :: (mem, Sequential, nat) mux system)) = Inr cfg"
    "cf_JWTEd25519SeedHex cfg = sample_seed" "0 \<le> cf_PresenceIngestBuffer cfg" "0 \<le> cf_PresenceWorkers cfg"
    by (rule sample_load)
  then show ?thesis
    by (simp add: run_presence_def sample_run_eval sample_key sample_seed_set sample_system_answers stopped_in_time_def told_to_stop_def) blast
qed

lemma serves_only_when_ready_witness:
  "\<exists>a rs pre post. snd sample_run_server = pre @ (Listen a rs, None) # post \<and> ready_to_serve pre"
proof -
  obtain a rs where "(Listen a rs, None) \<in> set (snd sample_run_server)" using sample_server_runs by blast
  from serves_only_when_ready [OF this] show ?thesis by blast
qed

lemma exit_status_tells_shutdown_witness:
  "last (main_of (run_server sample_startup_env (sample_je DNull) sample_ex sample_media sample_system)) = (Exit 0, None)
   \<and> (\<exists>p q u x. snd sample_run_presence
        = p @ (HubShutdown ''reconnect to presence-service'', x) # q @ (ServerShutdown, None) # u)"
  using exit_status_tells_shutdown [of sample_startup_env "sample_je DNull" sample_ex sample_media sample_system
      sample_startup_env sample_ex "\<lambda>_. None" "\<lambda>_. None" sample_system] sample_server_runs sample_presence_runs
  by (auto dest: stopped_in_timeD)

lemma core_token_opens_feed_witness:
  "\<exists>a cfg feed. (Listen a (presence_mux sample_startup_env sample_ex (\<lambda>_. None) (\<lambda>_. None) cfg (table_jwt [sample_claims])), None)
       \<in> set (snd sample_run_presence)
     \<and> map_of (presence_mux sample_startup_env sample_ex (\<lambda>_. None) (\<lambda>_. None) cfg (table_jwt [sample_claims])) ''/v1/presence/connect'' = Some (Connect feed)
     \<and> fst (au_Authenticate (hd_authr feed) ''0'' sample_world) = Inr ''a''"
proof -
  let ?sys = "sample_system :: (mem, Sequential, nat) mux system"
  obtain cfg where cfg: "load_config (sy_lookup ?sys) = Inr cfg" "cf_JWTEd25519SeedHex cfg = sample_seed"
    "cf_JWTIssuer cfg = ''smusic''" "cf_AccessTokenTTL cfg = 15 * Minute" by (rule sample_load)
  have key: "jwtKeyPair sample_startup_env (cf_JWTEd25519SeedHex cfg) = Inr (table_jwt [sample_claims])"
    by (simp add: cfg sample_key)
  obtain a cfg2 where lst: "(Listen a (presence_mux sample_startup_env sample_ex (\<lambda>_. None) (\<lambda>_. None) cfg2 (table_jwt [sample_claims])), None)
      \<in> set (snd sample_run_presence)" using sample_presence_runs by blast
  obtain feed where feed: "map_of (presence_mux sample_startup_env sample_ex (\<lambda>_. None) (\<lambda>_. None) cfg2 (table_jwt [sample_claims]))
      ''/v1/presence/connect'' = Some (Connect feed)" by (simp add: presence_mux_def)
  have set: "setting (sy_lookup ?sys) ''JWT_ED25519_SEED_HEX'' \<noteq> None" by (simp add: sample_system_settings)
  have lib: "jwt_library (su_jwt sample_startup_env seed)" for seed
    by (simp add: sample_startup_env_def table_library.jwt_library_axioms)
  obtain c2 where sign: "Sign (as_signer (core_auth (server_externals sample_startup_env sample_ex (table_jwt [sample_claims])
       (NewHasher '''')) (server_deployment cfg))) ''a'' sample_core = (Inr (''0'', 10 + 15 * Minute), c2)"
    by (simp add: core_auth_def server_auth_def Signer_Sign_def server_signer_def server_externals_def server_deployment_def
        cfg sample_core_eval sample_core_def sample_world_def table_jwt_def sample_claims_def NumericDate_def sample_Itoa)
  have now: "\<exists>w2. Now world_clock sample_world = (10, w2)"
    by (simp add: sample_core_eval sample_world_def)
  then obtain w2 where now: "Now world_clock sample_world = (10, w2)" by blast
  have "fst (au_Authenticate (hd_authr feed) ''0'' sample_world) = Inr ''a''"
    using core_token_opens_feed [OF cfg(1) key lst feed set refl refl refl lib sign _ now]
    by (simp add: cfg NumericDate_def duration_defs)
  with lst feed show ?thesis by blast
qed

end
