(* ===== verification/Http_Client.thy ===== *)
theory Http_Client
  imports Json_Api
begin

text \<open>
  What the two load tests share: calls to a server over HTTP, their answers, and the reading of JSON
  answers by \<^verbatim>\<open>encoding/json\<close>, which here ignores the fields it does not know. The network, the
  grammar and the printing of JSON, and the parser of addresses are parameters. Log lines are left
  out.
\<close>

section \<open>Calls\<close>

record http_call =
  ca_method :: string
  ca_url :: string
  ca_header :: "string \<rightharpoonup> string"
  ca_body :: string

text \<open>
  An answer is the status and what can be read of the body. \<open>nt_NewRequest\<close> is the error with which an
  address is refused, \<open>nt_fits\<close> tells whether a number with fraction or exponent is a \<^verbatim>\<open>float64\<close>.
\<close>

record 'w net =
  nt_clock :: "'w Clock"
  nt_NewRequest :: "string \<Rightarrow> err option"
  nt_Do :: "http_call \<Rightarrow> ('w, int \<times> string) io"
  nt_parse :: "string \<Rightarrow> parsed"
  nt_render :: "doc \<Rightarrow> string" \<comment> \<open>\<^verbatim>\<open>json.Marshal\<close>\<close>
  nt_number :: "real \<Rightarrow> doc" \<comment> \<open>a \<^verbatim>\<open>float64\<close> as JSON\<close>
  nt_fits :: "string \<Rightarrow> bool"

definition json_header :: "string \<rightharpoonup> string" where
  "json_header = [''Content-Type'' \<mapsto> ''application/json'']"

definition authHeader :: "string \<Rightarrow> (string \<rightharpoonup> string)" where
  "authHeader token = [''Authorization'' \<mapsto> ''Bearer '' @ token, ''Content-Type'' \<mapsto> ''application/json'']"

definition mustJSON :: "'w net \<Rightarrow> doc \<Rightarrow> string" where
  "mustJSON net d = nt_render net d"

text \<open>\<^verbatim>\<open>http.NewRequest\<close>, then \<^verbatim>\<open>http.DefaultClient.Do\<close>\<close>

definition send_call :: "'w net \<Rightarrow> string \<Rightarrow> string \<Rightarrow> (string \<rightharpoonup> string) \<Rightarrow> string \<Rightarrow> ('w, int \<times> string) io" where
  "send_call net method url header body =
     (case nt_NewRequest net url of
        Some e \<Rightarrow> throw e
      | None \<Rightarrow> nt_Do net \<lparr>ca_method = method, ca_url = url, ca_header = header, ca_body = body\<rparr>)"

definition http_Post :: "'w net \<Rightarrow> string \<Rightarrow> string \<Rightarrow> ('w, int \<times> string) io" where
  "http_Post net url body = send_call net ''POST'' url json_header body"

section \<open>Reading answers\<close>

text \<open>A struct, of which the answer may have more fields than the client knows.\<close>

primrec set_known :: "'a struct \<Rightarrow> (string \<times> doc) list \<Rightarrow> 'a \<Rightarrow> 'a option" where
  "set_known tbl [] x = Some x"
| "set_known tbl (kv # kvs) x =
     (case field_setter tbl (fst kv) of
        None \<Rightarrow> set_known tbl kvs x
      | Some st \<Rightarrow> Option.bind (st (snd kv) x) (set_known tbl kvs))"

definition decode_known :: "'a struct \<Rightarrow> doc \<Rightarrow> 'a \<Rightarrow> 'a option" where
  "decode_known tbl d x = (case d of DNull \<Rightarrow> Some x | DObj kvs \<Rightarrow> set_known tbl kvs x | _ \<Rightarrow> None)"

text \<open>\<^verbatim>\<open>json.NewDecoder(resp.Body).Decode(&out)\<close> reads the first value.\<close>

definition json_error :: err where "json_error = Foreign ''encoding/json''"

definition Decode_first :: "'w net \<Rightarrow> (doc \<Rightarrow> 'a option) \<Rightarrow> string \<Rightarrow> err + 'a" where
  "Decode_first net f body =
     (case nt_parse net body of
        Complete d rest \<Rightarrow> (case f d of None \<Rightarrow> Inl json_error | Some x \<Rightarrow> Inr x)
      | _ \<Rightarrow> Inl json_error)"

text \<open>\<^verbatim>\<open>json.Unmarshal(data, &out)\<close> reads all of it.\<close>

definition Unmarshal :: "'w net \<Rightarrow> (doc \<Rightarrow> 'a option) \<Rightarrow> string \<Rightarrow> err + 'a" where
  "Unmarshal net f data =
     (case nt_parse net data of
        Complete d rest \<Rightarrow>
          (if list_all json_space rest then (case f d of None \<Rightarrow> Inl json_error | Some x \<Rightarrow> Inr x) else Inl json_error)
      | _ \<Rightarrow> Inl json_error)"

text \<open>Into \<^verbatim>\<open>map[string]any\<close>: every number has to be a \<^verbatim>\<open>float64\<close>, of fields given twice the last counts.\<close>

fun all_fit :: "(string \<Rightarrow> bool) \<Rightarrow> doc \<Rightarrow> bool" where
  "all_fit fits (DInt n) = (\<bar>n\<bar> < 2 ^ 1024 - 2 ^ 970)"
| "all_fit fits (DNumber s) = fits s"
| "all_fit fits (DArr ds) = (\<forall>d \<in> set ds. all_fit fits d)"
| "all_fit fits (DObj kvs) = (\<forall>kv \<in> set kvs. all_fit fits (snd kv))"
| "all_fit fits _ = True"

definition decode_map :: "'w net \<Rightarrow> doc \<Rightarrow> (string \<rightharpoonup> doc) option" where
  "decode_map net d =
     (case d of
        DNull \<Rightarrow> Some Map.empty
      | DObj kvs \<Rightarrow> if all_fit (nt_fits net) d then Some (map_of (rev kvs)) else None
      | _ \<Rightarrow> None)"

section \<open>The helpers of the load tests\<close>

definition status_error :: "int \<Rightarrow> string \<Rightarrow> err" where
  "status_error status b = Foreign (''status '' @ Itoa status @ '': '' @ b)"

definition from_sum :: "err + 'a \<Rightarrow> ('w, 'a) io" where
  "from_sum r = (case r of Inl e \<Rightarrow> throw e | Inr x \<Rightarrow> ret x)"

text \<open>\<^verbatim>\<open>postJSON\<close>: POST with a token, and one text field out of the answer.\<close>

definition text_at :: "(string \<rightharpoonup> doc) \<Rightarrow> string \<Rightarrow> string" where
  "text_at m k = (case m k of Some (DStr s) \<Rightarrow> s | _ \<Rightarrow> '''')"

definition postJSON :: "'w net \<Rightarrow> string \<Rightarrow> string \<Rightarrow> doc \<Rightarrow> string \<Rightarrow> ('w, string) io" where
  "postJSON net url token body idField =
     bindE (send_call net ''POST'' url (authHeader token) (mustJSON net body)) (\<lambda>(status, b).
     if status \<ge> 300 then throw (status_error status b)
     else bindE (from_sum (Decode_first net (decode_map net) b)) (\<lambda>m.
       if text_at m idField = '''' then throw (Foreign (''response missing field '' @ idField))
       else ret (text_at m idField)))"

text \<open>\<^verbatim>\<open>doJSON\<close>, over any method: what is made of the body of a good answer is the last argument.\<close>

definition do_call ::
    "'w net \<Rightarrow> string \<Rightarrow> string \<Rightarrow> string \<Rightarrow> string \<Rightarrow> (string \<Rightarrow> err + 'a) \<Rightarrow> ('w, 'a) io" where
  "do_call net method url token body result =
     bindE (send_call net method url (authHeader token) body) (\<lambda>(status, b).
     if status \<ge> 300 then throw (status_error status b) else from_sum (result b))"

definition doJSON :: "'w net \<Rightarrow> string \<Rightarrow> string \<Rightarrow> doc option \<Rightarrow> (string \<Rightarrow> err + 'a) \<Rightarrow> ('w, 'a) io" where
  "doJSON net url token body result =
     do_call net ''POST'' url token (case body of None \<Rightarrow> '''' | Some d \<Rightarrow> mustJSON net d) result"

definition no_result :: "string \<Rightarrow> err + unit" where "no_result b = Inr ()"

text \<open>Signing up, with the display name of the test and the text its error begins with.\<close>

definition signup_fields :: "(string \<times> string) struct" where
  "signup_fields = [(''user_id'', text_field (\<lambda>s x. (s, snd x))), (''access_token'', text_field (\<lambda>s x. (fst x, s)))]"

definition signup_body :: "string \<Rightarrow> string \<Rightarrow> doc" where
  "signup_body email name = DObj [(''display_name'', DStr name), (''email'', DStr email), (''password'', DStr ''LoadTest!2026'')]"

definition sign_up :: "'w net \<Rightarrow> string \<Rightarrow> string \<Rightarrow> string \<Rightarrow> string \<Rightarrow> ('w, string \<times> string) io" where
  "sign_up net told name baseURL email =
     bindE (http_Post net (baseURL @ ''/v1/auth/signup'') (mustJSON net (signup_body email name))) (\<lambda>(status, b).
     if status \<noteq> 201 then throw (Foreign (told @ ''status '' @ Itoa status @ '': '' @ b))
     else bindE (from_sum (Decode_first net (\<lambda>d. decode_known signup_fields d ('''', '''')) b)) (\<lambda>(userID, token).
       ret (token, userID)))"

section \<open>How a call can have ended\<close>

lemma from_sum_run: "from_sum r w = (r, w)"
  by (simp add: from_sum_def split: sum.split)

lemma send_call_done:
  assumes "send_call net method url header body w = (Inr x, w')"
  shows "nt_Do net \<lparr>ca_method = method, ca_url = url, ca_header = header, ca_body = body\<rparr> w = (Inr x, w')"
  using assms by (simp add: send_call_def split: option.splits)

lemma postJSON_done:
  assumes "postJSON net url token body idField w = (Inr i, w')"
  obtains status b m where "nt_Do net \<lparr>ca_method = ''POST'', ca_url = url, ca_header = authHeader token,
      ca_body = nt_render net body\<rparr> w = (Inr (status, b), w')"
    and "status < 300" and "Decode_first net (decode_map net) b = Inr m" and "m idField = Some (DStr i)" and "i \<noteq> ''''"
proof -
  from assms obtain status b where "send_call net ''POST'' url (authHeader token) (nt_render net body) w = (Inr (status, b), w')"
    and "status < 300" and "\<exists>m. Decode_first net (decode_map net) b = Inr m \<and> i = text_at m idField \<and> text_at m idField \<noteq> ''''"
    by (auto simp: postJSON_def mustJSON_def from_sum_run split: if_splits)
  moreover have "m idField = Some (DStr (text_at m idField))" if "text_at m idField \<noteq> ''''" for m
    using that by (auto simp: text_at_def split: option.splits doc.splits)
  ultimately show thesis using that by (metis send_call_done)
qed

lemma do_call_done:
  assumes "do_call net method url token body result w = (Inr x, w')"
  obtains status b where "nt_Do net \<lparr>ca_method = method, ca_url = url, ca_header = authHeader token, ca_body = body\<rparr> w
      = (Inr (status, b), w')" and "status < 300" and "result b = Inr x"
  using assms by (auto simp: do_call_def from_sum_run dest!: send_call_done split: if_splits)

lemma sign_up_done:
  assumes "sign_up net told name baseURL email w = (Inr (token, u), w')"
  obtains b where "nt_Do net \<lparr>ca_method = ''POST'', ca_url = baseURL @ ''/v1/auth/signup'', ca_header = json_header,
      ca_body = nt_render net (signup_body email name)\<rparr> w = (Inr (201, b), w')"
    and "Decode_first net (\<lambda>d. decode_known signup_fields d ('''', '''')) b = Inr (u, token)"
  using assms
  by (auto simp: sign_up_def http_Post_def mustJSON_def from_sum_run dest!: send_call_done split: if_splits)

text \<open>What is printed is read back.\<close>

definition prints_json :: "(doc \<Rightarrow> string) \<Rightarrow> (string \<Rightarrow> parsed) \<Rightarrow> bool" where
  "prints_json render parse \<longleftrightarrow> (\<forall>d. parse (render d) = Complete d [])"

lemma Decode_printed:
  assumes "prints_json render (nt_parse net)"
  shows "Decode_first net f (render d) = (case f d of None \<Rightarrow> Inl json_error | Some x \<Rightarrow> Inr x)"
  using assms by (simp add: Decode_first_def prints_json_def)

end
