(* ===== verification/Load_Presence.thy ===== *)
theory Load_Presence
  imports Http_Client Flags Go_Scan Float64
begin

text \<open>
  \<^verbatim>\<open>loadtest/presence\<close>: the command that brings N users into the live feed and measures how long it
  takes until one of them is shown the first one's update. The goroutines that read and those that send
  heartbeats run in an order the caller of the model gives, one tick for each of their steps; what
  comes after the first observation, or after ten seconds, does not change the result.
\<close>

section \<open>The list of sizes\<close>

text \<open>The loop of \<^verbatim>\<open>splitCSV\<close>, at index \<open>i\<close> with the beginning of the current part.\<close>

function split_from :: "string \<Rightarrow> nat \<Rightarrow> nat \<Rightarrow> string list \<Rightarrow> string list" where
  "split_from s i start acc =
     (if i > length s then acc
      else if i = length s \<or> s ! i = CHR '',''
      then split_from s (i + 1) (i + 1) (acc @ [take (i - start) (drop start s)])
      else split_from s (i + 1) start acc)"
  by pat_completeness auto
termination
  by (relation "measure (\<lambda>(s, i, _). Suc (length s) - i)") auto

declare split_from.simps [simp del]

definition splitCSV :: "string \<Rightarrow> string list" where
  "splitCSV s = split_from s 0 0 []"

definition client_counts :: "string \<Rightarrow> int list option" where
  "client_counts s =
     all_some (map (\<lambda>x. map_option hd (Sscanf [ScanInt] x)) (splitCSV s))"

section \<open>What the command uses\<close>

text \<open>
  The library of WebSockets, with a connection for each dialling, and TOTP codes. A read gives up after
  three seconds; its errors are final.
\<close>

record ('w, 'c) presence_load =
  pl_net :: "'w net"
  pl_Dial :: "string \<Rightarrow> ('w, 'c) io"
  pl_WriteJSON :: "'c \<Rightarrow> doc \<Rightarrow> ('w, unit) io"
  pl_ReadMessage :: "'c \<Rightarrow> ('w, string) io"
  pl_Close :: "'c \<Rightarrow> ('w, unit) io"
  pl_GenerateCode :: "string \<Rightarrow> time \<Rightarrow> err + string"
  pl_Sleep :: "duration \<Rightarrow> 'w \<Rightarrow> 'w"
  pl_Print :: "string \<Rightarrow> 'w \<Rightarrow> 'w"

definition pl_now :: "('w, 'c) presence_load \<Rightarrow> ('w, time) io" where
  "pl_now pl = call (Now (nt_clock (pl_net pl)))"

record 'c client =
  cl_userID :: string
  cl_token :: string
  cl_conn :: 'c

section \<open>Setting a client up\<close>

definition presence_signUp :: "('w, 'c) presence_load \<Rightarrow> string \<Rightarrow> string \<Rightarrow> ('w, string \<times> string) io" where
  "presence_signUp pl = sign_up (pl_net pl) '''' ''Presence Load Test''"

definition secret_field :: "string struct" where
  "secret_field = [(''secret'', text_field (\<lambda>s _. s))]"

definition enrollMFA :: "('w, 'c) presence_load \<Rightarrow> string \<Rightarrow> string \<Rightarrow> ('w, string) io" where
  "enrollMFA pl baseURL token =
     doJSON (pl_net pl) (baseURL @ ''/v1/auth/mfa/enroll'') token None
       (Decode_first (pl_net pl) (\<lambda>d. decode_known secret_field d ''''))"

definition code_body :: "string \<Rightarrow> doc" where
  "code_body code = DObj [(''code'', DStr code)]"

definition verifyMFA :: "('w, 'c) presence_load \<Rightarrow> string \<Rightarrow> string \<Rightarrow> string \<Rightarrow> ('w, unit) io" where
  "verifyMFA pl baseURL token code =
     doJSON (pl_net pl) (baseURL @ ''/v1/auth/mfa/verify'') token (Some (code_body code)) no_result"

definition load_grantConsent :: "('w, 'c) presence_load \<Rightarrow> string \<Rightarrow> string \<Rightarrow> ('w, unit) io" where
  "load_grantConsent pl baseURL token =
     doJSON (pl_net pl) (baseURL @ ''/v1/presence/consent'') token None no_result"

definition settings_body :: doc where
  "settings_body = DObj [(''paused'', DBool False), (''presence_visibility'', DStr ''everyone''),
     (''visibility_radius_m'', DInt 1000)]"

definition load_updateSettings :: "('w, 'c) presence_load \<Rightarrow> string \<Rightarrow> string \<Rightarrow> ('w, unit) io" where
  "load_updateSettings pl baseURL token =
     do_call (pl_net pl) ''PUT'' (baseURL @ ''/v1/presence/settings'') token (mustJSON (pl_net pl) settings_body) no_result"

definition connectWS :: "('w, 'c) presence_load \<Rightarrow> string \<Rightarrow> string \<Rightarrow> ('w, 'c) io" where
  "connectWS pl baseURL token = pl_Dial pl (baseURL @ ''/v1/presence/connect?access_token='' @ token)"

definition update_frame :: "('w, 'c) presence_load \<Rightarrow> real \<Rightarrow> real \<Rightarrow> doc" where
  "update_frame pl lat lon = DObj [(''lat'', nt_number (pl_net pl) lat), (''lon'', nt_number (pl_net pl) lon),
     (''type'', DStr ''update'')]"

definition sendUpdate :: "('w, 'c) presence_load \<Rightarrow> 'c \<Rightarrow> real \<Rightarrow> real \<Rightarrow> ('w, unit) io" where
  "sendUpdate pl conn lat lon = pl_WriteJSON pl conn (update_frame pl lat lon)"

definition setupClient :: "('w, 'c) presence_load \<Rightarrow> string \<Rightarrow> string \<Rightarrow> nat \<Rightarrow> ('w, 'c client) io" where
  "setupClient pl apiBaseURL wsBaseURL i =
     bindE (pl_now pl) (\<lambda>now.
     let email = ''presence-loadtest-'' @ Itoa now @ ''-'' @ digits i @ ''@smusic.test'' in
     bindE (wrapE ''signup'' (presence_signUp pl apiBaseURL email)) (\<lambda>(token, userID).
     bindE (wrapE ''enroll mfa'' (enrollMFA pl apiBaseURL token)) (\<lambda>secret.
     bindE (pl_now pl) (\<lambda>moment.
     bindE (wrapE ''generate totp code'' (from_sum (pl_GenerateCode pl secret moment))) (\<lambda>code.
     bindE (wrapE ''verify mfa'' (verifyMFA pl apiBaseURL token code)) (\<lambda>_.
     bindE (wrapE ''grant consent'' (load_grantConsent pl apiBaseURL token)) (\<lambda>_.
     bindE (wrapE ''update settings'' (load_updateSettings pl apiBaseURL token)) (\<lambda>_.
     bindE (wrapE ''connect ws'' (connectWS pl wsBaseURL token)) (\<lambda>conn.
     ret \<lparr>cl_userID = userID, cl_token = token, cl_conn = conn\<rparr>)))))))))"

section \<open>All clients\<close>

definition baseLat :: real where "baseLat = f64 (-23.5505)"
definition baseLon :: real where "baseLon = f64 (-46.6333)"
definition nudge :: real where "nudge = f64 0.00001"

text \<open>The clients set up so far are there for the deferred closing, also when a step fails.\<close>

primrec setup_clients ::
    "('w, 'c) presence_load \<Rightarrow> string \<Rightarrow> string \<Rightarrow> nat list \<Rightarrow> 'c client list \<Rightarrow> 'w
     \<Rightarrow> ((err + unit) \<times> 'c client list) \<times> 'w" where
  "setup_clients pl api ws [] cs w = ((Inr (), cs), w)"
| "setup_clients pl api ws (i # is) cs w =
     (case wrapE (''setup client '' @ digits i) (setupClient pl api ws i) w of
        (Inl e, w1) \<Rightarrow> ((Inl e, cs), w1)
      | (Inr c, w1) \<Rightarrow>
          (case wrapE (''initial update for client '' @ digits i) (sendUpdate pl (cl_conn c) baseLat baseLon) w1 of
             (Inl e, w2) \<Rightarrow> ((Inl e, cs @ [c]), w2)
           | (Inr _, w2) \<Rightarrow> setup_clients pl api ws is (cs @ [c]) w2))"

definition close_clients :: "('w, 'c) presence_load \<Rightarrow> 'c client list \<Rightarrow> 'w \<Rightarrow> 'w" where
  "close_clients pl cs w = foldl (\<lambda>w c. snd (pl_Close pl (cl_conn c) w)) w cs"

section \<open>The measurement\<close>

text \<open>A watcher reads once, or the goroutine of its heartbeat writes once.\<close>

datatype tick = Reads nat | Beats nat

text \<open>The watchers that have returned, and the first observation in the channel.\<close>

record race =
  ra_gone :: "nat list"
  ra_seen :: "duration option"

text \<open>The users a frame reports; a frame without a list of users reports nobody.\<close>

definition frame_users :: "string list struct" where
  "frame_users = [(''type'', text_field (\<lambda>_ x. x)),
     (''users'', list_field (\<lambda>d. decode_known [(''user_id'', text_field (\<lambda>s _. s))] d '''') (\<lambda>us _. us))]"

definition reports :: "('w, 'c) presence_load \<Rightarrow> string \<Rightarrow> string \<Rightarrow> bool" where
  "reports pl user data =
     (case Unmarshal (pl_net pl) (\<lambda>d. decode_known frame_users d []) data of
        Inl e \<Rightarrow> False | Inr users \<Rightarrow> user \<in> set users)"

definition heartbeat_frame :: doc where
  "heartbeat_frame = DObj [(''type'', DStr ''heartbeat'')]"

definition do_tick ::
    "('w, 'c) presence_load \<Rightarrow> string \<Rightarrow> 'c client list \<Rightarrow> time \<Rightarrow> tick \<Rightarrow> race \<Rightarrow> 'w \<Rightarrow> race \<times> 'w" where
  "do_tick pl user watchers start t ra w =
     (case t of
        Reads i \<Rightarrow>
          if i \<ge> length watchers \<or> i \<in> set (ra_gone ra) then (ra, w)
          else (case pl_ReadMessage pl (cl_conn (watchers ! i)) w of
                  (Inl e, w1) \<Rightarrow> (ra\<lparr>ra_gone := i # ra_gone ra\<rparr>, w1)
                | (Inr data, w1) \<Rightarrow>
                    if reports pl user data
                    then (case Now (nt_clock (pl_net pl)) w1 of (now, w2) \<Rightarrow>
                      (\<lparr>ra_gone = i # ra_gone ra,
                        ra_seen = (if ra_seen ra = None then Some (now - start) else ra_seen ra)\<rparr>, w2))
                    else (ra, w1))
      | Beats i \<Rightarrow>
          if i \<ge> length watchers then (ra, w)
          else (ra, snd (pl_WriteJSON pl (cl_conn (watchers ! i)) heartbeat_frame w)))"

primrec do_ticks ::
    "('w, 'c) presence_load \<Rightarrow> string \<Rightarrow> 'c client list \<Rightarrow> time \<Rightarrow> tick list \<Rightarrow> race \<Rightarrow> 'w \<Rightarrow> race \<times> 'w" where
  "do_ticks pl user watchers start [] ra w = (ra, w)"
| "do_ticks pl user watchers start (t # ts) ra w =
     (case do_tick pl user watchers start t ra w of (ra', w') \<Rightarrow> do_ticks pl user watchers start ts ra' w')"

text \<open>
  The goroutines run before the trigger is written and after it. The channel has room for all watchers,
  so nobody's observation is lost, and the first one is received.
\<close>

definition measure_fanout ::
    "('w, 'c) presence_load \<Rightarrow> tick list \<Rightarrow> tick list \<Rightarrow> int \<Rightarrow> 'c client list \<Rightarrow> ('w, duration) io" where
  "measure_fanout pl early late n clients =
     bindE (call (\<lambda>w. ((), pl_Sleep pl (300 * 10 ^ 6) w))) (\<lambda>_.
     let trigger = hd clients; watchers = tl clients in
     bindE (pl_now pl) (\<lambda>start.
     bindE (call (do_ticks pl (cl_userID trigger) watchers start early \<lparr>ra_gone = [], ra_seen = None\<rparr>)) (\<lambda>ra.
     bindE (wrapE ''trigger update''
       (sendUpdate pl (cl_conn trigger) (f64_add baseLat nudge) (f64_add baseLon nudge))) (\<lambda>_.
     bindE (call (do_ticks pl (cl_userID trigger) watchers start late ra)) (\<lambda>ra.
     let result = (case ra_seen ra of Some d \<Rightarrow> d | None \<Rightarrow> -1) in
     if result < 0
     then throw (Foreign (''no watcher observed the trigger client within 10s (N='' @ Itoa n @ '')''))
     else ret result)))))"

definition runOnce ::
    "('w, 'c) presence_load \<Rightarrow> tick list \<Rightarrow> tick list \<Rightarrow> string \<Rightarrow> string \<Rightarrow> int \<Rightarrow> ('w, duration) io" where
  "runOnce pl early late api ws n =
     (if n < 2 then throw (Foreign (''need at least 2 clients to measure fanout, got '' @ Itoa n))
      else (\<lambda>w. case setup_clients pl api ws [0..<nat n] [] w of
        ((r, cs), w1) \<Rightarrow>
          (case (case r of Inl e \<Rightarrow> (Inl e, w1) | Inr _ \<Rightarrow> measure_fanout pl early late n cs w1) of
             (result, w2) \<Rightarrow> (result, close_clients pl cs w2))))"

section \<open>The command\<close>

record presence_options =
  po_apiBaseURL :: string
  po_wsBaseURL :: string
  po_clients :: string

definition presence_defaults :: presence_options where
  "presence_defaults = \<lparr>po_apiBaseURL = ''http://localhost:8080'', po_wsBaseURL = ''ws://localhost:8081'',
     po_clients = ''10,50,200''\<rparr>"

definition presence_flags :: "presence_options flags" where
  "presence_flags = [
     (''api-base-url'', string_flag (\<lambda>x opt. opt\<lparr>po_apiBaseURL := x\<rparr>)),
     (''ws-base-url'', string_flag (\<lambda>x opt. opt\<lparr>po_wsBaseURL := x\<rparr>)),
     (''clients'', string_flag (\<lambda>x opt. opt\<lparr>po_clients := x\<rparr>))]"

text \<open>A size that fails is logged, and the next one follows. Each run has its own schedule.\<close>

primrec run_sizes ::
    "('w, 'c) presence_load \<Rightarrow> (int \<Rightarrow> tick list \<times> tick list) \<Rightarrow> (int \<Rightarrow> duration \<Rightarrow> string) \<Rightarrow> string \<Rightarrow> string
     \<Rightarrow> int list \<Rightarrow> 'w \<Rightarrow> 'w" where
  "run_sizes pl sched line api ws [] w = w"
| "run_sizes pl sched line api ws (n # ns) w =
     (case runOnce pl (fst (sched n)) (snd (sched n)) api ws n w of
        (Inl e, w1) \<Rightarrow> run_sizes pl sched line api ws ns w1
      | (Inr latency, w1) \<Rightarrow> run_sizes pl sched line api ws ns (pl_Print pl (line n latency) w1))"

definition presence_load_main ::
    "('w, 'c) presence_load \<Rightarrow> (int \<Rightarrow> tick list \<times> tick list) \<Rightarrow> (int \<Rightarrow> duration \<Rightarrow> string) \<Rightarrow> string list \<Rightarrow> 'w \<Rightarrow> nat \<times> 'w" where
  "presence_load_main pl sched line args w =
     (case parse_flags presence_flags presence_defaults args of
        Inl status \<Rightarrow> (status, w)
      | Inr (opt, _) \<Rightarrow>
          (case client_counts (po_clients opt) of
             None \<Rightarrow> (1, w)
           | Some ns \<Rightarrow> (0, run_sizes pl sched line (po_apiBaseURL opt) (po_wsBaseURL opt) ns w)))"

end
