(* ===== verification/Load_Laws.thy ===== *)
theory Load_Laws
  imports Load_Http Load_Presence
begin

text \<open>
  What the load tests keep to: the list of sizes is split at its commas, every connection that a run
  opens is closed, and what a run reports.
\<close>

section \<open>Splitting at commas\<close>

lemma split_from_Split:
  assumes "start \<le> i" and "i \<le> length s" and "CHR '','' \<notin> set (take (i - start) (drop start s))"
  shows "split_from s i start acc = acc @ Split (CHR '','') (drop start s)"
  using assms
proof (induction s i start acc rule: split_from.induct)
  case (1 s i start acc)
  let ?part = "take (i - start) (drop start s)"
  show ?case
  proof (cases "i = length s")
    case True
    then have "split_from s i start acc = acc @ [drop start s]"
      by (subst split_from.simps, simp, subst split_from.simps, simp)
    moreover have "CHR '','' \<notin> set (drop start s)" using 1(5) True by simp
    ultimately show ?thesis by simp
  next
    case False
    with 1(4) have i: "i < length s" by simp
    have split: "drop start s = ?part @ s ! i # drop (Suc i) s"
      using i 1(3) by (metis Cons_nth_drop_Suc append_take_drop_id drop_drop le_add_diff_inverse2)
    show ?thesis
    proof (cases "s ! i = CHR '',''")
      case True
      have "split_from s i start acc = split_from s (i + 1) (i + 1) (acc @ [?part])"
        using i True by (subst split_from.simps) simp
      also have "\<dots> = acc @ ?part # Split (CHR '','') (drop (Suc i) s)"
        using 1(1) i True by simp
      also have "?part # Split (CHR '','') (drop (Suc i) s) = Split (CHR '','') (drop start s)"
        using Split_append [OF 1(5)] split True by metis
      finally show ?thesis .
    next
      case False
      have "take (i + 1 - start) (drop start s) = ?part @ [s ! i]"
        using i 1(3) by (simp add: Suc_diff_le take_Suc_conv_app_nth)
      with 1(2) 1(3-5) i False show ?thesis by (subst split_from.simps) auto
    qed
  qed
qed

text \<open>The hand-written loop is \<^verbatim>\<open>strings.Split\<close>.\<close>

lemma splitCSV_Split: "splitCSV s = Split (CHR '','') s"
  by (simp add: splitCSV_def split_from_Split)

section \<open>Connections\<close>

text \<open>The same load test with a trail of the connections it opens and closes.\<close>

datatype 'c ws_event = Opened 'c | Closed 'c

definition lifted :: "('w \<Rightarrow> 'a \<times> 'w) \<Rightarrow> 'w \<times> 't \<Rightarrow> 'a \<times> ('w \<times> 't)" where
  "lifted = zoom fst (\<lambda>w s. (w, snd s))"

definition lifted_net :: "'w net \<Rightarrow> ('w \<times> 't) net" where
  "lifted_net net = \<lparr>nt_clock = \<lparr>Now = lifted (Now (nt_clock net))\<rparr>, nt_NewRequest = nt_NewRequest net,
     nt_Do = (\<lambda>c. lifted (nt_Do net c)), nt_parse = nt_parse net, nt_render = nt_render net,
     nt_number = nt_number net, nt_fits = nt_fits net\<rparr>"

definition traced :: "('w, 'c) presence_load \<Rightarrow> ('w \<times> 'c ws_event list, 'c) presence_load" where
  "traced pl = \<lparr>
     pl_net = lifted_net (pl_net pl),
     pl_Dial = (\<lambda>url s. case pl_Dial pl url (fst s) of
         (Inl e, w) \<Rightarrow> (Inl e, w, snd s) | (Inr c, w) \<Rightarrow> (Inr c, w, snd s @ [Opened c])),
     pl_WriteJSON = (\<lambda>c d. lifted (pl_WriteJSON pl c d)),
     pl_ReadMessage = (\<lambda>c. lifted (pl_ReadMessage pl c)),
     pl_Close = (\<lambda>c s. case pl_Close pl c (fst s) of (r, w) \<Rightarrow> (r, w, snd s @ [Closed c])),
     pl_GenerateCode = pl_GenerateCode pl,
     pl_Sleep = (\<lambda>d s. (pl_Sleep pl d (fst s), snd s)),
     pl_Print = (\<lambda>x s. (pl_Print pl x (fst s), snd s))\<rparr>"

lemma lifted_net_simps [simp]:
  "Now (nt_clock (lifted_net net)) = lifted (Now (nt_clock net))" "nt_NewRequest (lifted_net net) = nt_NewRequest net"
  "nt_Do (lifted_net net) c = lifted (nt_Do net c)" "nt_parse (lifted_net net) = nt_parse net"
  "nt_render (lifted_net net) = nt_render net" "nt_number (lifted_net net) = nt_number net"
  "mustJSON (lifted_net net) = mustJSON net" "Decode_first (lifted_net net) = Decode_first net"
  "Unmarshal (lifted_net net) = Unmarshal net"
  by (simp_all add: lifted_net_def mustJSON_def Decode_first_def Unmarshal_def fun_eq_iff)

lemma traced_simps [simp]:
  "pl_net (traced pl) = lifted_net (pl_net pl)" "pl_GenerateCode (traced pl) = pl_GenerateCode pl"
  "pl_WriteJSON (traced pl) c d = lifted (pl_WriteJSON pl c d)" "pl_ReadMessage (traced pl) c = lifted (pl_ReadMessage pl c)"
  "pl_Sleep (traced pl) n s = (pl_Sleep pl n (fst s), snd s)" "reports (traced pl) = reports pl"
  "update_frame (traced pl) = update_frame pl"
  by (simp_all add: traced_def reports_def update_frame_def fun_eq_iff)

subsection \<open>The trail does not disturb\<close>

definition follows :: "('w \<times> 't \<Rightarrow> 'a \<times> ('w \<times> 't)) \<Rightarrow> ('w \<Rightarrow> 'a \<times> 'w) \<Rightarrow> bool" where
  "follows n m \<longleftrightarrow> (\<forall>w t. map_prod id fst (n (w, t)) = m w)"

named_theorems follows_intros "the load test with its trail does what the load test does"

lemma followsD: "follows n m \<Longrightarrow> n s = (x, s') \<Longrightarrow> m (fst s) = (x, fst s')"
  by (cases s) (metis follows_def fst_conv id_apply map_prod_simp prod.collapse)

lemma followsI: "(\<And>w t x s'. n (w, t) = (x, s') \<Longrightarrow> m w = (x, fst s')) \<Longrightarrow> follows n m"
  unfolding follows_def by (metis id_apply map_prod_simp prod.collapse)

lemma follows_lifted [follows_intros]: "follows (lifted m) m"
  by (simp add: follows_def lifted_def zoom_def split: prod.split)

lemma follows_pure [follows_intros]:
  "follows (ret x) (ret x)" "follows (throw e) (throw e)" "follows (from_sum r) (from_sum r)"
  by (auto simp: follows_def from_sum_def split: sum.split)

lemma follows_bindE [follows_intros]:
  assumes "follows n m" and "\<And>x. follows (l x) (k x)"
  shows "follows (bindE n l) (bindE m k)"
proof (rule followsI)
  fix w t x s'
  assume "bindE n l (w, t) = (x, s')"
  then show "bindE m k w = (x, fst s')"
    by (cases rule: bindE_E) (auto simp: bindE_def dest!: followsD [OF assms(1)] followsD [OF assms(2)])
qed

lemma follows_step:
  assumes "follows n m"
  obtains x w' t' where "n (w, t) = (x, w', t')" and "m w = (x, w')"
  using that assms unfolding follows_def by (metis map_prod_simp id_apply fst_conv prod.collapse)

lemma follows_wrapE [follows_intros]:
  assumes "follows n m"
  shows "follows (wrapE c n) (wrapE c m)"
proof (rule followsI)
  fix w t x s'
  assume "wrapE c n (w, t) = (x, s')"
  moreover obtain y w' t' where "n (w, t) = (y, w', t')" "m w = (y, w')" using assms by (rule follows_step)
  ultimately show "wrapE c m w = (x, fst s')" by (cases y) (auto simp: wrapE_def)
qed

lemma follows_call [follows_intros]:
  assumes "follows n m"
  shows "follows (call n) (call m)"
proof (rule followsI)
  fix w t x s'
  assume "call n (w, t) = (x, s')"
  moreover obtain y w' t' where "n (w, t) = (y, w', t')" "m w = (y, w')" using assms by (rule follows_step)
  ultimately show "call m w = (x, fst s')" by (auto simp: call_def)
qed

lemma follows_if [follows_intros]: "follows n m \<Longrightarrow> follows n' m' \<Longrightarrow> follows (if b then n else n') (if b then m else m')"
  by simp

lemma follows_case_option [follows_intros]:
  "follows n m \<Longrightarrow> (\<And>x. follows (f x) (g x)) \<Longrightarrow>
   follows (case r of None \<Rightarrow> n | Some x \<Rightarrow> f x) (case r of None \<Rightarrow> m | Some x \<Rightarrow> g x)"
  by (cases r) auto

lemma follows_case_prod [follows_intros]:
  "(\<And>x y. follows (f x y) (g x y)) \<Longrightarrow> follows (case r of (x, y) \<Rightarrow> f x y) (case r of (x, y) \<Rightarrow> g x y)"
  by (cases r) auto

lemma follows_send_call [follows_intros]:
  "follows (send_call (lifted_net net) method url h b) (send_call net method url h b)"
  unfolding send_call_def by (simp only: lifted_net_simps) (intro follows_intros)

lemma follows_do_call [follows_intros]:
  "follows (do_call (lifted_net net) method url token b result) (do_call net method url token b result)"
  unfolding do_call_def by (intro follows_intros)

lemma follows_sign_up [follows_intros]:
  "follows (sign_up (lifted_net net) what name base email) (sign_up net what name base email)"
  unfolding sign_up_def http_Post_def by (simp only: lifted_net_simps) (intro follows_intros)

lemma follows_Dial [follows_intros]: "follows (pl_Dial (traced pl) url) (pl_Dial pl url)"
  by (rule followsI) (auto simp: traced_def split: prod.splits sum.splits)

lemma follows_Close: "follows (pl_Close (traced pl) c) (pl_Close pl c)"
  by (rule followsI) (auto simp: traced_def split: prod.splits)

lemma follows_setupClient [follows_intros]: "follows (setupClient (traced pl) api ws i) (setupClient pl api ws i)"
  unfolding setupClient_def pl_now_def presence_signUp_def enrollMFA_def verifyMFA_def load_grantConsent_def
    load_updateSettings_def connectWS_def doJSON_def Let_def traced_simps lifted_net_simps
  by (intro follows_intros)

lemma follows_sendUpdate [follows_intros]: "follows (sendUpdate (traced pl) c lat lon) (sendUpdate pl c lat lon)"
  unfolding sendUpdate_def traced_simps by (intro follows_intros)

lemma follows_setup_clients: "follows (setup_clients (traced pl) api ws is cs) (setup_clients pl api ws is cs)"
proof (induction "is" arbitrary: cs)
  case (Cons i "is")
  show ?case
  proof (rule followsI)
    fix w t x s'
    assume run: "setup_clients (traced pl) api ws (i # is) cs (w, t) = (x, s')"
    obtain y w1 t1 where set: "wrapE (''setup client '' @ digits i) (setupClient (traced pl) api ws i) (w, t) = (y, w1, t1)"
      "wrapE (''setup client '' @ digits i) (setupClient pl api ws i) w = (y, w1)"
      by (rule follows_step [OF follows_wrapE [OF follows_setupClient]])
    show "setup_clients pl api ws (i # is) cs w = (x, fst s')"
    proof (cases y)
      case (Inl e)
      with run set show ?thesis by (auto simp del: append.simps)
    next
      case (Inr c)
      obtain z w2 t2 where upd: "wrapE (''initial update for client '' @ digits i)
          (sendUpdate (traced pl) (cl_conn c) baseLat baseLon) (w1, t1) = (z, w2, t2)"
        "wrapE (''initial update for client '' @ digits i) (sendUpdate pl (cl_conn c) baseLat baseLon) w1 = (z, w2)"
        by (rule follows_step [OF follows_wrapE [OF follows_sendUpdate]])
      with run set Inr show ?thesis by (cases z) (auto simp del: append.simps dest: followsD [OF Cons.IH])
    qed
  qed
qed (simp add: follows_def)

lemma follows_ticks: "follows (do_ticks (traced pl) user watchers start ts ra) (do_ticks pl user watchers start ts ra)"
proof (induction ts arbitrary: ra)
  case (Cons t ts)
  have "follows (do_tick (traced pl) user watchers start t ra) (do_tick pl user watchers start t ra)"
    by (auto simp: do_tick_def lifted_def zoom_def intro!: followsI split: tick.splits prod.splits sum.splits if_splits)
  then show ?case
    by (intro followsI) (auto split: prod.splits dest!: followsD followsD [OF Cons.IH])
qed (simp add: follows_def)

lemma follows_measure: "follows (measure_fanout (traced pl) early late n cs) (measure_fanout pl early late n cs)"
  unfolding measure_fanout_def Let_def pl_now_def
  by (intro follows_intros follows_ticks) (simp_all add: follows_def lifted_def zoom_def split: prod.split)

lemma close_clients_traced:
  "close_clients (traced pl) cs (w, t) = (close_clients pl cs w, t @ map (Closed \<circ> cl_conn) cs)"
proof (induction cs arbitrary: w t)
  case (Cons c cs)
  obtain r w1 where "pl_Close pl (cl_conn c) w = (r, w1)" by fastforce
  with Cons.IH [of w1 "t @ [Closed (cl_conn c)]"] show ?case by (simp add: close_clients_def traced_def)
qed (simp add: close_clients_def)

lemma follows_runOnce: "follows (runOnce (traced pl) early late api ws n) (runOnce pl early late api ws n)"
proof (rule followsI)
  fix w t x s'
  assume run: "runOnce (traced pl) early late api ws n (w, t) = (x, s')"
  show "runOnce pl early late api ws n w = (x, fst s')"
  proof (cases "n < 2")
    case True
    with run show ?thesis by (auto simp: runOnce_def)
  next
    case False
    obtain r cs s1 where up: "setup_clients (traced pl) api ws [0..<nat n] [] (w, t) = ((r, cs), s1)" by (metis prod.exhaust)
    from followsD [OF follows_setup_clients up] have "setup_clients pl api ws [0..<nat n] [] w = ((r, cs), fst s1)" by simp
    with False run up show ?thesis
      by (cases s1) (auto simp: runOnce_def close_clients_traced split: sum.splits prod.splits dest!: followsD [OF follows_measure])
  qed
qed

subsection \<open>What the trail says\<close>

lemma keeps_lifted [keeps_intros]: "keeps snd (lifted m)"
  by (simp add: keeps_def lifted_def zoom_def split: prod.split)

lemma keeps_from_sum [keeps_intros]: "keeps v (from_sum r)"
  by (simp add: keeps_def from_sum_def split: sum.split)

lemma keeps_calls [keeps_intros]:
  "keeps snd (send_call (lifted_net net) method url h b)"
  "keeps snd (do_call (lifted_net net) method url token b result)"
  "keeps snd (sign_up (lifted_net net) what name base email)"
proof -
  show send: "keeps snd (send_call (lifted_net net) mth url h b)" for mth url h b
    unfolding send_call_def lifted_net_simps by (intro keeps_intros)
  show "keeps snd (do_call (lifted_net net) method url token b result)"
    unfolding do_call_def by (intro keeps_intros send)
  show "keeps snd (sign_up (lifted_net net) what name base email)"
    unfolding sign_up_def http_Post_def by (intro keeps_intros send)
qed

lemma keeps_sendUpdate: "keeps snd (sendUpdate (traced pl) c lat lon)"
  unfolding sendUpdate_def traced_simps by (intro keeps_intros)

text \<open>A connection is the last thing a client gets.\<close>

definition opens_last :: "('w \<times> 'c ws_event list, 'c client) io \<Rightarrow> bool" where
  "opens_last m \<longleftrightarrow> (\<forall>s r s'. m s = (r, s') \<longrightarrow>
     snd s' = snd s @ (case r of Inl e \<Rightarrow> [] | Inr c \<Rightarrow> [Opened (cl_conn c)]))"

lemma opens_last_bindE:
  assumes "keeps snd m" and "\<And>x. opens_last (k x)"
  shows "opens_last (bindE m k)"
  unfolding opens_last_def
proof (intro allI impI)
  fix s r s'
  assume "bindE m k s = (r, s')"
  then show "snd s' = snd s @ (case r of Inl e \<Rightarrow> [] | Inr c \<Rightarrow> [Opened (cl_conn c)])"
  proof (cases rule: bindE_E)
    case (failed e)
    with keepsD [OF assms(1) failed(1)] show ?thesis by simp
  next
    case (answered x s1)
    with keepsD [OF assms(1) answered(1)] assms(2) [of x] show ?thesis unfolding opens_last_def by metis
  qed
qed

lemma opens_last_case_prod: "(\<And>x y. opens_last (f x y)) \<Longrightarrow> opens_last (case p of (x, y) \<Rightarrow> f x y)"
  by (cases p) simp

lemma opens_last_connect:
  "opens_last (bindE (wrapE c (connectWS (traced pl) ws token)) (\<lambda>conn.
     ret \<lparr>cl_userID = u, cl_token = t, cl_conn = conn\<rparr>))"
  by (auto simp: opens_last_def bindE_def wrapE_def connectWS_def traced_def split: prod.splits sum.splits)

lemma setupClient_trail: "opens_last (setupClient (traced pl) api ws i)"
  unfolding setupClient_def pl_now_def presence_signUp_def enrollMFA_def verifyMFA_def load_grantConsent_def
    load_updateSettings_def doJSON_def Let_def traced_simps lifted_net_simps
  by (intro opens_last_connect opens_last_bindE opens_last_case_prod keeps_intros)

lemma setup_clients_trail:
  assumes "setup_clients (traced pl) api ws is cs s = ((r, cs'), s')"
  shows "\<exists>new. cs' = cs @ new \<and> snd s' = snd s @ map (Opened \<circ> cl_conn) new
    \<and> (length new = length is \<or> (\<exists>e. r = Inl e))"
  using assms
proof (induction "is" arbitrary: cs s)
  case (Cons i "is")
  obtain y s1 where set: "wrapE (''setup client '' @ digits i) (setupClient (traced pl) api ws i) s = (y, s1)" by (rule prod.exhaust)
  note trail = setupClient_trail [unfolded opens_last_def, rule_format, of pl api ws i s _ s1]
  show ?case
  proof (cases y)
    case (Inl e)
    with Cons.prems set trail show ?thesis by (auto simp del: append.simps elim!: wrapE_InlE)
  next
    case (Inr c)
    with set trail [of "Inr c"] have s1: "snd s1 = snd s @ [Opened (cl_conn c)]" by auto
    obtain z s2 where upd: "wrapE (''initial update for client '' @ digits i)
        (sendUpdate (traced pl) (cl_conn c) baseLat baseLon) s1 = (z, s2)" by (rule prod.exhaust)
    then have s2: "snd s2 = snd s1" by (rule keepsD [OF keeps_wrapE [OF keeps_sendUpdate]])
    show ?thesis
    proof (cases z)
      case (Inl e)
      with Cons.prems set upd Inr s1 s2 show ?thesis by (auto simp del: append.simps intro!: exI [of _ "[c]"])
    next
      case (Inr u)
      with Cons.prems set upd \<open>y = Inr c\<close> have "setup_clients (traced pl) api ws is (cs @ [c]) s2 = ((r, cs'), s')"
        by (simp del: append.simps)
      from Cons.IH [OF this] obtain new where "cs' = (cs @ [c]) @ new" "snd s' = snd s2 @ map (Opened \<circ> cl_conn) new"
        "length new = length is \<or> (\<exists>e. r = Inl e)" by blast
      with s1 s2 show ?thesis by (intro exI [of _ "c # new"]) auto
    qed
  qed
qed simp

lemma measure_trail: "keeps snd (measure_fanout (traced pl) early late n cs)"
proof -
  have tick: "keeps snd (do_tick (traced pl) user watchers start t ra)" for user watchers start t ra
    by (auto simp: do_tick_def lifted_def zoom_def intro!: keepsI split: tick.splits prod.splits sum.splits if_splits)
  have ticks: "keeps snd (do_ticks (traced pl) user watchers start ts ra)" for user watchers start ts ra
    by (induction ts arbitrary: ra) (simp_all add: keeps_def split: prod.split, metis keepsD tick snd_conv)
  show ?thesis
    unfolding measure_fanout_def pl_now_def
    by (intro keeps_intros ticks keeps_sendUpdate) (simp_all add: keeps_def keeps_lifted [unfolded keeps_def])
qed

text \<open>
  C38. A run of the presence load test, however it ends and in whatever order its goroutines work, closes
  each connection it has opened exactly once, after the last one was opened; and a run that reports a
  latency has opened one for every client.
\<close>

lemma runs_close_connections:
  "map_prod id fst (runOnce (traced pl) early late api ws n (w, [])) = runOnce pl early late api ws n w
   \<and> (\<exists>conns. snd (snd (runOnce (traced pl) early late api ws n (w, []))) = map Opened conns @ map Closed conns
        \<and> (length conns = nat n \<or> (\<exists>e. fst (runOnce pl early late api ws n w) = Inl e)))"
proof
  show same: "map_prod id fst (runOnce (traced pl) early late api ws n (w, [])) = runOnce pl early late api ws n w"
    by (rule follows_runOnce [unfolded follows_def, rule_format])
  show "\<exists>conns. snd (snd (runOnce (traced pl) early late api ws n (w, []))) = map Opened conns @ map Closed conns
      \<and> (length conns = nat n \<or> (\<exists>e. fst (runOnce pl early late api ws n w) = Inl e))"
  proof (cases "n < 2")
    case True
    then show ?thesis by (intro exI [of _ "[]"]) (simp add: runOnce_def)
  next
    case False
    obtain r cs s1 where up: "setup_clients (traced pl) api ws [0..<nat n] [] (w, []) = ((r, cs), s1)" by (metis prod.exhaust)
    from setup_clients_trail [OF up] have s1: "snd s1 = map (Opened \<circ> cl_conn) cs"
      and len: "length cs = nat n \<or> (\<exists>e. r = Inl e)" by auto
    obtain y s2 where m: "(case r of Inl e \<Rightarrow> (Inl e, s1) | Inr _ \<Rightarrow> measure_fanout (traced pl) early late n cs s1) = (y, s2)"
      by (rule prod.exhaust)
    have "snd s2 = snd s1" using m by (auto split: sum.splits dest: keepsD [OF measure_trail])
    moreover have run: "runOnce (traced pl) early late api ws n (w, []) = (y, close_clients (traced pl) cs s2)"
      using False up m by (simp add: runOnce_def)
    moreover have "(\<exists>e. y = Inl e) \<or> length cs = nat n" using len m by (auto split: sum.splits)
    moreover have "fst (runOnce pl early late api ws n w) = y" using same run by (metis fst_map_prod fst_conv id_apply)
    moreover have "snd (close_clients (traced pl) cs s2) = snd s2 @ map (Closed \<circ> cl_conn) cs"
      by (cases s2) (simp add: close_clients_traced)
    ultimately show ?thesis using s1 by (intro exI [of _ "map cl_conn cs"]) auto
  qed
qed

section \<open>What is measured\<close>

text \<open>
  C19. If a watcher reads a frame that reports the trigger before the trigger's update is written, such as
  the late answer to the watcher's own first update, then the run reports the time of that reading as
  the latency of the update, whatever happens to the update and whatever is read afterwards.
\<close>

lemma stale_frame_counts:
  assumes "Now (nt_clock (pl_net pl)) (pl_Sleep pl (300 * 10 ^ 6) w) = (start, w1)"
    and "i < length (tl cs)" and "pl_ReadMessage pl (cl_conn (tl cs ! i)) w1 = (Inr data, w2)"
    and "reports pl (cl_userID (hd cs)) data"
    and "Now (nt_clock (pl_net pl)) w2 = (now, w3)" and "start \<le> now"
    and "sendUpdate pl (cl_conn (hd cs)) (f64_add baseLat nudge) (f64_add baseLon nudge) w3 = (Inr u, w4)"
  shows "fst (measure_fanout pl [Reads i] late n cs w) = Inr (now - start)"
proof -
  have seen: "ra_seen (fst (do_ticks pl user ws s ts ra v)) = Some d" if "ra_seen ra = Some d" for user ws s ts ra v d
    using that
  proof (induction ts arbitrary: ra v)
    case (Cons t ts)
    have "ra_seen (fst (do_tick pl user ws s t ra v)) = Some d"
      using Cons.prems by (auto simp: do_tick_def split: tick.splits prod.splits sum.splits if_splits)
    with Cons.IH show ?case by (cases "do_tick pl user ws s t ra v") simp
  qed simp
  obtain ra w5 where late: "do_ticks pl (cl_userID (hd cs)) (tl cs) start late
      \<lparr>ra_gone = [i], ra_seen = Some (now - start)\<rparr> w4 = (ra, w5)" by (rule prod.exhaust)
  with seen [of "\<lparr>ra_gone = [i], ra_seen = Some (now - start)\<rparr>" "now - start"] have "ra_seen ra = Some (now - start)"
    by (metis fst_conv race.select_convs(2))
  then show ?thesis
    using assms late
    by (simp add: measure_fanout_def pl_now_def bindE_def call_def wrapE_def do_tick_def Let_def)
qed

end
