(* ===== verification/Load_Core.thy ===== *)
theory Load_Core
  imports Load_Laws Core_Frames
begin

text \<open>
  The load tests against the core process: the network that carries their calls to its routes, whose
  token a client gets when it signs up, and what the steps of setting it up leave in the database.
\<close>

section \<open>The network\<close>

text \<open>The body of an answer as it is sent; \<^verbatim>\<open>json.Encoder\<close> ends a value with a line end.\<close>

definition answer_text :: "(doc \<Rightarrow> string) \<Rightarrow> doc response \<Rightarrow> string" where
  "answer_text render res =
     (case rs_body res of
        NoBody \<Rightarrow> ''''
      | ErrorBody code message \<Rightarrow>
          render (DObj [(''error'', DObj [(''code'', DStr code), (''message'', DStr message)])]) @ line_end
      | JSONBody d \<Rightarrow> render d @ line_end
      | TextBody s \<Rightarrow> s)"

text \<open>
  A call to an address under the base goes to the route of its method and path. Paths with parameters,
  and what is not under the base, are left to \<open>other\<close>.
\<close>

definition route_at :: "'w route list \<Rightarrow> string \<Rightarrow> string \<Rightarrow> 'w route option" where
  "route_at rts method path = List.find (\<lambda>rt. rt_method rt = method \<and> rt_pattern rt = path) rts"

definition relay ::
    "(doc \<Rightarrow> string) \<Rightarrow> string \<Rightarrow> 'w route list \<Rightarrow> (http_call \<Rightarrow> ('w, int \<times> string) io) \<Rightarrow> http_call \<Rightarrow> ('w, int \<times> string) io" where
  "relay render base rts other hc =
     (case (if HasPrefix (ca_url hc) base then route_at rts (ca_method hc) (drop (length base) (ca_url hc)) else None) of
        None \<Rightarrow> other hc
      | Some rt \<Rightarrow> (\<lambda>w.
          case rt_endpoint rt Map.empty \<lparr>rq_header = ca_header hc, rq_query = Map.empty, rq_Host = '''', rq_RemoteAddr = '''',
                 rq_body = ca_body hc, rq_user = None\<rparr> w of
            (res, w') \<Rightarrow> (Inr (rs_status res, answer_text render res), w')))"

lemma relay_route:
  assumes "route_at rts method path = Some rt"
  shows "relay render base rts other \<lparr>ca_method = method, ca_url = base @ path, ca_header = h, ca_body = b\<rparr> w
    = (case rt_endpoint rt Map.empty \<lparr>rq_header = h, rq_query = Map.empty, rq_Host = '''', rq_RemoteAddr = '''', rq_body = b, rq_user = None\<rparr> w of
        (res, w') \<Rightarrow> (Inr (rs_status res, answer_text render res), w'))"
  using assms by (simp add: relay_def)

section \<open>Routes of the core\<close>

lemma route_simps:
  "rt_method (rt\<lparr>rt_endpoint := h\<rparr>) = rt_method rt" "rt_pattern (rt\<lparr>rt_endpoint := h\<rparr>) = rt_pattern rt"
  "rt_endpoint (rt\<lparr>rt_endpoint := h\<rparr>) = h"
  by (simp_all add: route_def)

lemma route_at_append:
  "route_at (as @ bs) m p = (case route_at as m p of None \<Rightarrow> route_at bs m p | Some rt \<Rightarrow> Some rt)"
  by (induction as) (simp_all add: route_at_def)

lemma consent_route:
  "\<exists>rt. route_at (core_router je ex cfg md n) ''POST'' ''/v1/presence/consent'' = Some rt
    \<and> rt_endpoint rt = (\<lambda>p. RequireAuth (core_authenticator ex cfg) (presence_grantConsent je (core_settings_service ex cfg) p))"
  unfolding core_router_def buildRouter_def
  by (simp add: route_at_append mounts, simp add: route_at_def)

lemma signup_route:
  "\<exists>rt. route_at (core_router je ex cfg md n) ''POST'' ''/v1/auth/signup'' = Some rt
    \<and> rt_endpoint rt = (\<lambda>p. loginRateLimit ex n (auth_signUp je (core_auth ex cfg) p))"
  unfolding core_router_def buildRouter_def
  by (simp add: route_at_append mounts, simp add: route_at_def)

lemma settings_route:
  "\<exists>rt. route_at (core_router je ex cfg md n) ''PUT'' ''/v1/presence/settings'' = Some rt
    \<and> rt_endpoint rt = (\<lambda>p. RequireAuth (core_authenticator ex cfg) (presence_updateSettings je (core_settings_service ex cfg) p))"
  unfolding core_router_def buildRouter_def
  by (simp add: route_at_append mounts, simp add: route_at_def)

section \<open>The settings of the core process\<close>

definition core_record :: "('r, 'i, 'x) core \<Rightarrow> pview" where
  "core_record w = durable (co_world w)"

definition core_reading :: "('r, 'i, 'x) core \<Rightarrow> time" where
  "core_reading w = clock_reading (co_world w)"

lemma keeps_core_views:
  "keeps durable m \<Longrightarrow> keeps core_record (on_world m)" "keeps clock_reading m \<Longrightarrow> keeps core_reading (on_world m)"
  unfolding core_record_def [abs_def] core_reading_def [abs_def] by (rule keeps_on_world, assumption)+

lemma on_world_pure: "on_world (throw e) = throw e"
  by (simp add: on_world_def zoom_def fun_eq_iff)

lemma core_MFA_on_world: "HasVerifiedMFA (core_auth ex cfg) u = on_world (HasVerifiedMFA (server_auth ex cfg) u)"
  by (cases "u = ''''") (simp_all add: HasVerifiedMFA_def core_auth_def Let_def on_world_pure)

lemma core_settings_repository:
  "settings_repository \<lparr>psr_Get = (\<lambda>u. on_world (psr_Get world_settings u)), psr_Upsert = (\<lambda>x. on_world (psr_Upsert world_settings x))\<rparr>
     core_record"
proof -
  note laws = settings_repository.Get_row [OF world_settings_laws] settings_repository.Get_absent [OF world_settings_laws]
    settings_repository.Upsert_done [OF world_settings_laws] settings_repository.Upsert_failed [OF world_settings_laws]
  show ?thesis
    by unfold_locales
      (simp_all add: keeps_core_views settings_repository.Get_keeps [OF world_settings_laws],
       auto simp: core_record_def dest!: on_core(1) dest: laws)
qed

lemma core_block_repository:
  "block_repository \<lparr>br_Block = (\<lambda>a b. on_world (br_Block world_blocks a b)),
      br_Unblock = (\<lambda>a b. on_world (br_Unblock world_blocks a b)),
      br_IsBlockedEitherWay = (\<lambda>a b. on_world (br_IsBlockedEitherWay world_blocks a b))\<rparr> core_record"
proof -
  note laws = block_repository.IsBlocked_iff [OF world_blocks_laws] block_repository.Block_done [OF world_blocks_laws]
    block_repository.Unblock_done [OF world_blocks_laws]
  show ?thesis
    by unfold_locales
      (simp_all add: keeps_core_views block_repository.IsBlocked_keeps [OF world_blocks_laws],
       auto simp: core_record_def dest!: on_core(1) dest: laws)
qed

lemma core_clock_laws: "monotone_clock core_clock core_reading"
  using monotone_clock.Now_reading [OF world_clock_laws] monotone_clock.Now_forward [OF world_clock_laws]
  by unfold_locales (auto simp: core_clock_def core_reading_def dest!: on_core(1))

interpretation core_process_settings: settings_service "core_settings_service ex cfg" core_record core_reading
  by (intro settings_service.intro settings_service_axioms.intro)
    (auto simp: core_settings_service_def server_settings_def core_settings_repository core_block_repository core_clock_laws
      core_MFA_on_world keeps_core_views HasVerifiedMFA_keeps HasVerifiedMFA_clock world_settings_clock,
     auto simp: world_geo_def core_clock_def world_clock_def keeps_durable keeps_core_views)

section \<open>Setting a client up\<close>

context jwt_library
begin

text \<open>A token that is accepted twice has the same claims both times, whichever reading was earlier.\<close>

lemma parse_unique:
  assumes "jwt_parse j t iss now = Inr c" and "jwt_parse j t iss now' = Inr c'"
  shows "c = c'"
proof -
  have later: "a = b" if "jwt_parse j t iss n = Inr a" "jwt_parse j t iss m = Inr b" "n \<le> m" for a b n m
  proof -
    from parse_sound [OF that(1)] have a: "jwt_encode j a = Inr t" "cl_Issuer a = iss" "cl_NotBefore a \<le> m"
      using that(3) by auto
    with parse_complete [OF a(1,3)] parse_expired [OF a(1,3)] that(2) show ?thesis
      by (cases "m < cl_ExpiresAt a") auto
  qed
  show ?thesis using later [OF assms] later [OF assms(2,1)] by (cases "now \<le> now'") auto
qed

text \<open>Nor can a token mean anybody but the user it was made for.\<close>

lemma token_subject:
  assumes "jwt_parse j t iss now = Inr c" and "Second \<le> ttl"
    and "jwt_encode j \<lparr>cl_Subject = u, cl_Issuer = iss, cl_IssuedAt = NumericDate issued, cl_NotBefore = NumericDate issued,
      cl_ExpiresAt = NumericDate (issued + ttl)\<rparr> = Inr t"
  shows "cl_Subject c = u"
proof -
  have "NumericDate issued < NumericDate (issued + ttl)"
  proof -
    have "issued div Second + 1 = (issued + Second) div Second" by (simp add: Second_def)
    also have "\<dots> \<le> (issued + ttl) div Second" using assms(2) by (intro zdiv_mono1) (simp_all add: Second_def)
    finally show ?thesis by (simp add: NumericDate_def Second_def)
  qed
  with parse_complete [OF assms(3), of "NumericDate issued"] have "jwt_parse j t iss (NumericDate issued)
      = Inr \<lparr>cl_Subject = u, cl_Issuer = iss, cl_IssuedAt = NumericDate issued, cl_NotBefore = NumericDate issued,
          cl_ExpiresAt = NumericDate (issued + ttl)\<rparr>" by simp
  from parse_unique [OF assms(1) this] show ?thesis by simp
qed

end

lemma core_Authenticate:
  assumes "au_Authenticate (core_authenticator ex cfg) t w = (Inr u, w')"
  shows "\<exists>c. jwt_parse (ex_jwt ex) t (dp_JWTIssuer cfg) (core_reading w') = Inr c \<and> cl_Subject c = u \<and> core_record w' = core_record w"
proof -
  from assms have run: "Authenticate (server_signer ex cfg) t (co_world w) = (Inr u, co_world w')"
    by (auto simp: core_authenticator_def dest: on_core)
  have "durable v' = durable v \<and> clock_reading v' = x" if "Now world_clock v = (x, v')" for x and v v' :: "('a, 'b, 'c) world"
    using keepsD [OF keeps_durable(3)] that monotone_clock.Now_reading [OF world_clock_laws that] by (auto simp: world_clock_def)
  with run show ?thesis
    by (auto simp: Authenticate_def server_signer_def core_record_def core_reading_def
        split: sum.splits parse_failure.splits if_splits)
qed

text \<open>A call with a token that is answered well has been let in, and the handler has done its work.\<close>

lemma call_let_in:
  assumes "do_call net method (base @ path) token body result w = (Inr x, w')"
    and "nt_Do net = relay render base rts other" and "route_at rts method path = Some rt"
    and "rt_endpoint rt = (\<lambda>p. RequireAuth authr (h p))"
  obtains u w1 res where "au_Authenticate authr token w = (Inr u, w1)"
    and "h Map.empty (WithUserID u \<lparr>rq_header = authHeader token, rq_query = Map.empty, rq_Host = '''', rq_RemoteAddr = '''',
           rq_body = body, rq_user = None\<rparr>) w1 = (res, w')" and "rs_status res < 300"
proof -
  let ?rq = "\<lparr>rq_header = authHeader token, rq_query = Map.empty, rq_Host = '''', rq_RemoteAddr = '''', rq_body = body, rq_user = None\<rparr>"
  from assms(1) obtain status b where "nt_Do net \<lparr>ca_method = method, ca_url = base @ path, ca_header = authHeader token, ca_body = body\<rparr> w
      = (Inr (status, b), w')" and "status < 300" by (rule do_call_done)
  then obtain res where run: "RequireAuth authr (h Map.empty) ?rq w = (res, w')" and ok: "rs_status res < 300"
    using assms(2,4) by (auto simp: relay_route [OF assms(3)] split: prod.splits)
  from run show thesis
  proof (cases rule: RequireAuth_cases)
    case refused
    with ok show thesis by simp
  next
    case (through t u w1)
    then have "t = token" by (simp add: authHeader_def bearer_def)
    with through ok that show thesis by blast
  qed
qed

lemma presence_errors_status: "rs_status (presence_writeError je e) \<ge> 400"
  by (simp add: presence_writeError_def WriteError_def internal_error_def)

lemma respond_good:
  assumes "respond (presence_writeError je) m good w = (res, w')" and "rs_status res < 300"
  obtains x where "m w = (Inr x, w')"
proof (cases "m w")
  case (Pair r w1)
  show thesis
  proof (cases r)
    case (Inl e)
    with assms Pair presence_errors_status [of je e] show thesis by (auto simp: respond_def)
  next
    case (Inr x)
    with assms Pair that show thesis by (auto simp: respond_def)
  qed
qed

text \<open>The input the server makes of the body.\<close>

definition load_input :: UpdateSettingsInput where
  "load_input = \<lparr>in_PresenceVisibility = Some VisibilityEveryone, in_PresenceShareTrack = None,
     in_VisibilityRadiusM = Some 1000, in_RevealLevel = None, in_Paused = Some False\<rparr>"

lemma settings_fields:
  "EqualFold x x" "\<not> EqualFold ''presence_visibility'' ''paused''" "\<not> EqualFold ''presence_share_track'' ''paused''"
  "\<not> EqualFold ''visibility_radius_m'' ''paused''" "\<not> EqualFold ''reveal_level'' ''paused''"
  "\<not> EqualFold ''presence_visibility'' ''visibility_radius_m''" "\<not> EqualFold ''presence_share_track'' ''visibility_radius_m''"
  by (simp add: EqualFold_def, code_simp+)

lemma settings_body_decoded:
  assumes "je_parse je s = Complete settings_body ''''" and "length s \<le> maxBodyBytes" and "rq_body rq = s"
  shows "DecodeJSON je updateSettingsRequest no_changes rq = Inr load_input"
  using assms
  by (simp add: DecodeJSON_def decode_struct_def settings_body_def updateSettingsRequest_def field_setter_def settings_fields
      no_changes_def load_input_def text_pointer_def int_pointer_def bool_pointer_def in_int64_def VisibilityEveryone_def)

lemma setupClient_steps:
  assumes "setupClient pl base ws i w = (Inr c, w')"
  obtains email w0 v1 w1 w2 w3 where "presence_signUp pl base email w0 = (Inr (cl_token c, cl_userID c), v1)"
    and "load_grantConsent pl base (cl_token c) w1 = (Inr (), w2)"
    and "load_updateSettings pl base (cl_token c) w2 = (Inr (), w3)"
    and "connectWS pl ws (cl_token c) w3 = (Inr (cl_conn c), w')"
  using assms that by (auto simp: setupClient_def Let_def)

text \<open>
  The client reads the identifier and the token the server has printed: the two fields of
  \<^verbatim>\<open>signUp\<close>'s answer come out of \<^verbatim>\<open>encoding/json\<close> as they went in.
\<close>

definition reads_account :: "json_env \<Rightarrow> (doc \<Rightarrow> string) \<Rightarrow> 'w net \<Rightarrow> bool" where
  "reads_account je render net \<longleftrightarrow> (\<forall>res.
     Decode_first net (\<lambda>d. decode_known signup_fields d ('''', '''')) (answer_text render (ok_json 201 (toAuthResponse je res)))
       = Inr (ar_UserID res, ar_AccessToken res))"

lemma auth_errors_status: "rs_status (writeAuthError je e) \<noteq> 201"
  by (simp add: writeAuthError_def WriteError_def internal_error_def)

lemma auth_signUp_created:
  assumes "auth_signUp je svc p rq w = (res, w')" and "rs_status res = 201"
  obtains inp r where "SignUp svc inp w = (Inr r, w')" and "res = ok_json 201 (toAuthResponse je r)"
proof -
  from assms obtain req where run: "(if cr_OAuthToken req \<noteq> '''' then auth_oauthLogin je svc req
      else respond (writeAuthError je) (SignUp svc \<lparr>su_Email = cr_Email req, su_Password = cr_Password req,
             su_DisplayName = cr_DisplayName req, su_Device = device_toInput (cr_Device req)\<rparr>)
            (\<lambda>r. ok_json 201 (toAuthResponse je r))) w = (res, w')"
    by (auto simp: auth_signUp_def with_body_def WriteError_def split: sum.splits)
  show thesis
  proof (cases "cr_OAuthToken req = ''''")
    case True
    with run assms(2) auth_errors_status [of je] that show thesis
      by (auto simp: respond_def split: prod.splits sum.splits)
  next
    case False
    with run assms(2) auth_errors_status [of je] show thesis
      by (auto simp: auth_oauthLogin_def respond_def ok_json_def WriteJSON_def WriteError_def split: prod.splits sum.splits if_splits)
  qed
qed

lemma signup_call_done:
  assumes "presence_signUp pl base email w = (Inr (token, u), w')"
    and "nt_Do (pl_net pl) = relay render base (core_router je ex cfg md n) other"
    and "reads_account je render (pl_net pl)"
  obtains inp r w1 where "SignUp (core_auth ex cfg) inp w1 = (Inr r, w')" and "ar_UserID r = u" and "ar_AccessToken r = token"
proof -
  obtain rt where rt: "route_at (core_router je ex cfg md n) ''POST'' ''/v1/auth/signup'' = Some rt"
    "rt_endpoint rt = (\<lambda>p. loginRateLimit ex n (auth_signUp je (core_auth ex cfg) p))" using signup_route by blast
  obtain b where sent: "nt_Do (pl_net pl) \<lparr>ca_method = ''POST'', ca_url = base @ ''/v1/auth/signup'', ca_header = json_header,
      ca_body = nt_render (pl_net pl) (signup_body email ''Presence Load Test'')\<rparr> w = (Inr (201, b), w')"
    and fields: "Decode_first (pl_net pl) (\<lambda>d. decode_known signup_fields d ('''', '''')) b = Inr (u, token)"
    using assms(1) unfolding presence_signUp_def by (rule sign_up_done)
  from sent assms(2) rt obtain rq res where run: "loginRateLimit ex n (auth_signUp je (core_auth ex cfg) Map.empty) rq w = (res, w')"
    and res: "rs_status res = 201" "b = answer_text render res"
    by (auto simp: relay_route [OF rt(1)] split: prod.splits)
  from run res(1) obtain w1 where "auth_signUp je (core_auth ex cfg) Map.empty rq w1 = (res, w')"
    by (auto simp: loginRateLimit_def RateLimit_def WriteError_def split: prod.splits sum.splits if_splits)
  then obtain inp r where up: "SignUp (core_auth ex cfg) inp w1 = (Inr r, w')" "res = ok_json 201 (toAuthResponse je r)"
    using res(1) by (rule auth_signUp_created)
  with res(2) fields assms(3) have "ar_UserID r = u \<and> ar_AccessToken r = token" by (simp add: reads_account_def)
  with up(1) that show thesis by blast
qed

text \<open>What the token of a new account says.\<close>

lemma SignUp_token:
  assumes "SignUp (core_auth ex cfg) inp w = (Inr r, w')"
  obtains issued where "jwt_encode (ex_jwt ex) \<lparr>cl_Subject = ar_UserID r, cl_Issuer = dp_JWTIssuer cfg, cl_IssuedAt = NumericDate issued,
      cl_NotBefore = NumericDate issued, cl_ExpiresAt = NumericDate (issued + dp_AccessTokenTTL cfg)\<rparr> = Inr (ar_AccessToken r)"
proof -
  from assms obtain u d w1 where "issueSession (core_auth ex cfg) u d w1 = (Inr r, w')"
    by (auto simp: SignUp_def Let_def split: if_splits sum.splits)
  then obtain t x w2 w3 where "Sign (as_signer (core_auth ex cfg)) u w2 = (Inr (t, x), w3)"
    and r: "ar_AccessToken r = t" "ar_UserID r = u"
    by (auto simp: issueSession_def issueTokens_def Let_def)
  then have "Signer_Sign (server_signer ex cfg) u (co_world w2) = (Inr (t, x), co_world w3)"
    by (auto simp: core_auth_def Let_def server_auth_def dest: on_core)
  with r that show thesis by (auto simp: Signer_Sign_def server_signer_def Let_def split: sum.splits)
qed

lemma consent_call_done:
  assumes "load_grantConsent pl base token w = (Inr (), w')"
    and "nt_Do (pl_net pl) = relay render base (core_router je ex cfg md n) other"
  obtains u c now granted where "jwt_parse (ex_jwt ex) token (dp_JWTIssuer cfg) now = Inr c" and "cl_Subject c = u"
    and "now \<le> granted"
    and "core_record w' = (core_record w)\<lparr>pv_settings := (pv_settings (core_record w))(u \<mapsto>
      (on_record (core_record w) u)\<lparr>ProximityConsentEnabled := True, ProximityConsentTS := Some granted,
        ProximityConsentRenewDue := Some (granted + ConsentValidityPeriod)\<rparr>)\<rparr>"
proof -
  obtain rt where rt: "route_at (core_router je ex cfg md n) ''POST'' ''/v1/presence/consent'' = Some rt"
    "rt_endpoint rt = (\<lambda>p. RequireAuth (core_authenticator ex cfg) (presence_grantConsent je (core_settings_service ex cfg) p))"
    using consent_route by blast
  from assms(1) have call: "do_call (pl_net pl) ''POST'' (base @ ''/v1/presence/consent'') token '''' no_result w = (Inr (), w')"
    by (simp add: load_grantConsent_def doJSON_def)
  obtain u w1 res where auth: "au_Authenticate (core_authenticator ex cfg) token w = (Inr u, w1)"
    and run: "presence_grantConsent je (core_settings_service ex cfg) Map.empty (WithUserID u \<lparr>rq_header = authHeader token,
      rq_query = Map.empty, rq_Host = '''', rq_RemoteAddr = '''', rq_body = '''', rq_user = None\<rparr>) w1 = (res, w')"
    and ok: "rs_status res < 300"
    by (rule call_let_in [OF call assms(2) rt])
  from run ok obtain s where "GrantConsent (core_settings_service ex cfg) u w1 = (Inr s, w')"
    unfolding presence_grantConsent_def by (elim respond_good) (simp_all add: current_user_def WithUserID_def)
  from core_process_settings.GrantConsent_done [OF this] core_Authenticate [OF auth] that show thesis by metis
qed

lemma settings_call_done:
  assumes "load_updateSettings pl base token w = (Inr (), w')"
    and "nt_Do (pl_net pl) = relay render base (core_router je ex cfg md n) other"
    and "je_parse je (nt_render (pl_net pl) settings_body) = Complete settings_body ''''"
    and "length (nt_render (pl_net pl) settings_body) \<le> maxBodyBytes"
  obtains u c now where "jwt_parse (ex_jwt ex) token (dp_JWTIssuer cfg) now = Inr c" and "cl_Subject c = u"
    and "core_record w' = (core_record w)\<lparr>pv_settings := (pv_settings (core_record w))(u \<mapsto>
      merged load_input (on_record (core_record w) u))\<rparr>"
proof -
  let ?body = "nt_render (pl_net pl) settings_body"
  obtain rt where rt: "route_at (core_router je ex cfg md n) ''PUT'' ''/v1/presence/settings'' = Some rt"
    "rt_endpoint rt = (\<lambda>p. RequireAuth (core_authenticator ex cfg) (presence_updateSettings je (core_settings_service ex cfg) p))"
    using settings_route by blast
  from assms(1) have call: "do_call (pl_net pl) ''PUT'' (base @ ''/v1/presence/settings'') token ?body no_result w = (Inr (), w')"
    by (simp add: load_updateSettings_def mustJSON_def)
  obtain u w1 res where auth: "au_Authenticate (core_authenticator ex cfg) token w = (Inr u, w1)"
    and run: "presence_updateSettings je (core_settings_service ex cfg) Map.empty (WithUserID u \<lparr>rq_header = authHeader token,
      rq_query = Map.empty, rq_Host = '''', rq_RemoteAddr = '''', rq_body = ?body, rq_user = None\<rparr>) w1 = (res, w')"
    and ok: "rs_status res < 300"
    by (rule call_let_in [OF call assms(2) rt])
  have "DecodeJSON je updateSettingsRequest no_changes (WithUserID u \<lparr>rq_header = authHeader token,
      rq_query = Map.empty, rq_Host = '''', rq_RemoteAddr = '''', rq_body = ?body, rq_user = None\<rparr>) = Inr load_input"
    by (rule settings_body_decoded [OF assms(3,4)]) (simp add: WithUserID_def)
  with run ok obtain s where "SettingsService_Update (core_settings_service ex cfg) u load_input w1 = (Inr s, w')"
    unfolding presence_updateSettings_def
    by (simp add: with_body_def, elim respond_good) (simp_all add: current_user_def WithUserID_def)
  from core_process_settings.Update_done [OF this] core_Authenticate [OF auth] that show thesis by metis
qed

text \<open>
  C12. Every client that the presence load test has set up against the core process is a user as the
  measurement needs it: the token it holds was made by the core's signer for the identifier it holds,
  and on record that user consents, the consent being live from when the token was issued until six
  months later at the least, is visible to everyone within a kilometre and is not paused.
\<close>

lemma setup_makes_visible:
  fixes pl :: "(('r, 'i, 'x) core, 'c) presence_load"
  assumes "jwt_library (ex_jwt ex)" and "Second \<le> dp_AccessTokenTTL cfg"
    and "nt_Do (pl_net pl) = relay render base (core_router je ex cfg md n) other"
    and "reads_account je render (pl_net pl)"
    and "je_parse je (nt_render (pl_net pl) settings_body) = Complete settings_body ''''"
    and "length (nt_render (pl_net pl) settings_body) \<le> maxBodyBytes"
    and "\<And>url. keeps core_record (pl_Dial pl url)"
    and "setupClient pl base ws i w = (Inr c, w')"
  shows "\<exists>cl s. jwt_encode (ex_jwt ex) cl = Inr (cl_token c) \<and> cl_Issuer cl = dp_JWTIssuer cfg \<and> cl_Subject cl = cl_userID c
    \<and> s = on_record (core_record w') (cl_userID c)
    \<and> (\<forall>q < cl_NotBefore cl + ConsentValidityPeriod. HasActiveConsent s q)
    \<and> map_option (\<lambda>granted. granted + ConsentValidityPeriod) (ProximityConsentTS s) = ProximityConsentRenewDue s
    \<and> PresenceVisibility s = VisibilityEveryone \<and> VisibilityRadiusM s = 1000 \<and> \<not> Paused s"
proof -
  obtain email w0 v1 w1 w2 w3 where up: "presence_signUp pl base email w0 = (Inr (cl_token c, cl_userID c), v1)"
    and grant: "load_grantConsent pl base (cl_token c) w1 = (Inr (), w2)"
    and update: "load_updateSettings pl base (cl_token c) w2 = (Inr (), w3)"
    and dial: "connectWS pl ws (cl_token c) w3 = (Inr (cl_conn c), w')"
    using assms(8) by (rule setupClient_steps)
  obtain u cl now granted where cl: "jwt_parse (ex_jwt ex) (cl_token c) (dp_JWTIssuer cfg) now = Inr cl" "cl_Subject cl = u"
    and late: "now \<le> granted"
    and rec2: "core_record w2 = (core_record w1)\<lparr>pv_settings := (pv_settings (core_record w1))(u \<mapsto>
      (on_record (core_record w1) u)\<lparr>ProximityConsentEnabled := True, ProximityConsentTS := Some granted,
        ProximityConsentRenewDue := Some (granted + ConsentValidityPeriod)\<rparr>)\<rparr>"
    using grant assms(3) by (rule consent_call_done)
  obtain u' cl' now' where cl': "jwt_parse (ex_jwt ex) (cl_token c) (dp_JWTIssuer cfg) now' = Inr cl'" "cl_Subject cl' = u'"
    and rec3: "core_record w3 = (core_record w2)\<lparr>pv_settings := (pv_settings (core_record w2))(u' \<mapsto>
      merged load_input (on_record (core_record w2) u'))\<rparr>"
    using update assms(3,5,6) by (rule settings_call_done)
  have "u' = u" using jwt_library.parse_unique [OF assms(1) cl(1) cl'(1)] cl(2) cl'(2) by simp
  moreover have "u = cl_userID c"
    using up assms(3,4) by (rule signup_call_done) (metis jwt_library.token_subject assms(1,2) cl SignUp_token)
  moreover have "core_record w' = core_record w3"
    using dial keepsD [OF assms(7)] by (auto simp: connectWS_def)
  moreover note jwt_library.parse_sound [OF assms(1) cl(1)] late
  ultimately show ?thesis
    using rec2 rec3 cl(2)
    by (intro exI [of _ cl] exI [of _ "on_record (core_record w') u"])
      (simp add: on_record_def merged_def load_input_def field_or_def HasActiveConsent_def)
qed

end
