(* ===== verification/Load_Claims.thy ===== *)
theory Load_Claims
  imports Load_Core Auth_Claims Core_Samples
begin

text \<open>
  The claims on the load tests at work: a network and a printer of JSON for the documents that occur,
  and a run of the set-up against a small core.
\<close>

section \<open>A client and a server\<close>

definition load_email :: string where
  "load_email = ''presence-loadtest-'' @ Itoa 7 @ ''-'' @ digits 0 @ ''@smusic.test''"

text \<open>Documents as short texts; the strings of an account are quoted character by character.\<close>

definition quoted :: "string \<Rightarrow> string" where
  "quoted x = concat (map (\<lambda>c. [CHR ''.'', c]) x) @ '' ''"

fun unquote :: "string \<Rightarrow> string \<times> string" where
  "unquote (c # d # r) = (if c = CHR ''.'' then (case unquote r of (x, z) \<Rightarrow> (d # x, z)) else ([], d # r))"
| "unquote _ = ([], [])"

lemma unquote_quoted: "rest \<noteq> [] \<Longrightarrow> unquote (quoted x @ rest) = (x, rest)"
proof (induction x)
  case Nil
  then show ?case by (cases rest) (simp_all add: quoted_def)
qed (simp add: quoted_def)

definition toy_render :: "doc \<Rightarrow> string" where
  "toy_render d =
     (case d of
        DObj ((k, DStr x) # (l, DStr y) # rest) \<Rightarrow>
          if k = ''user_id'' then ''a'' @ quoted x @ quoted y else if k = ''secret'' then ''e'' @ x else ''u''
      | DObj [(k, DStr x)] \<Rightarrow> ''c'' @ x
      | _ \<Rightarrow> ''s'')"

definition toy_parse :: "string \<Rightarrow> parsed" where
  "toy_parse s =
     (let word = (\<lambda>s. takeWhile (\<lambda>c. c \<noteq> CHR 0x0A) s) in
      case s of
        [] \<Rightarrow> Incomplete
      | c # t \<Rightarrow>
          if c = CHR ''a'' then (case unquote t of (x, r) \<Rightarrow>
            Complete (DObj [(''user_id'', DStr x), (''access_token'', DStr (fst (unquote r)))]) '''')
          else if c = CHR ''e'' then Complete (DObj [(''secret'', DStr (word t))]) ''''
          else if c = CHR ''c'' then Complete (code_body (word t)) ''''
          else if c = CHR ''u'' then Complete (signup_body load_email ''Presence Load Test'') ''''
          else Complete settings_body '''')"

definition toy_json :: json_env where
  "toy_json = \<lparr>je_parse = toy_parse, je_error = (\<lambda>_. ''invalid''), je_foreign = (\<lambda>s. s), je_format = (\<lambda>_ _. '''')\<rparr>"

definition load_ex :: "(mem, Sequential, nat) externals" where
  "load_ex = sample_ex\<lparr>ex_jwt := table_jwt [sample_claims\<lparr>cl_Subject := ''id-1''\<rparr>]\<rparr>"

definition load_redis :: mem where
  "load_redis = \<lparr>contents = \<lparr>rs_kv = Map.empty, rs_geo = (\<lambda>_. []), rs_now = 0\<rparr>, script = []\<rparr>"

definition load_core :: "(mem, Sequential, nat) core" where
  "load_core = \<lparr>co_world = sample_world\<lparr>
       w_presence := pg_start (sample_tables\<lparr>tb_users := (tb_users sample_tables)
         (''id-1'' \<mapsto> \<lparr>display_name = '''', avatar_url = None, deleted_at = None\<rparr>)\<rparr>),
       w_mfa := pg_start \<lparr>mt_users = {''id-1''}, user_mfa_totp = Map.empty\<rparr>,
       w_redis := load_redis\<rparr>,
     co_media = pg_start sample_media_tables\<rparr>"

definition load_pl :: "((mem, Sequential, nat) core, unit) presence_load" where
  "load_pl = \<lparr>
     pl_net = \<lparr>nt_clock = \<lparr>Now = (\<lambda>w. (7, w))\<rparr>, nt_NewRequest = (\<lambda>_. None),
        nt_Do = relay toy_render ''api'' (core_router toy_json load_ex sample_cfg sample_media 10) (\<lambda>_. throw (Foreign ''down'')),
        nt_parse = toy_parse, nt_render = toy_render, nt_number = (\<lambda>_. DNumber ''0''), nt_fits = (\<lambda>_. True)\<rparr>,
     pl_Dial = (\<lambda>_. ret ()), pl_WriteJSON = (\<lambda>_ _. ret ()), pl_ReadMessage = (\<lambda>_. throw (Foreign ''deadline'')),
     pl_Close = (\<lambda>_. ret ()), pl_GenerateCode = (\<lambda>_ _. Inr ''000000''), pl_Sleep = (\<lambda>_ w. w), pl_Print = (\<lambda>_ w. w)\<rparr>"

lemma toy_texts:
  "toy_render settings_body = ''s''" "toy_render (code_body x) = ''c'' @ x" "toy_render (signup_body x y) = ''u''"
  "toy_parse ''s'' = Complete settings_body ''''" "toy_parse ''u'' = Complete (signup_body load_email ''Presence Load Test'') ''''"
  "toy_parse ''c000000'' = Complete (code_body ''000000'') ''''"
  by (simp_all add: toy_render_def settings_body_def code_body_def signup_body_def toy_parse_def)

lemma load_email_plain: "normalizeEmail load_email = load_email"
proof -
  have "ToLower load_email = load_email" unfolding load_email_def by code_simp
  moreover have "TrimSpace load_email = load_email"
    by (rule TrimSpace_visible; unfold load_email_def; code_simp)
  ultimately show ?thesis by (simp add: normalizeEmail_def)
qed

section \<open>The steps\<close>

definition load_state ::
    "auth_tables \<Rightarrow> mfa_tables \<Rightarrow> presence_tables \<Rightarrow> mem \<Rightarrow> Sequential \<Rightarrow> nat \<Rightarrow> (mem, Sequential, nat) core" where
  "load_state a m p r i x = load_core\<lparr>co_world := (co_world load_core)\<lparr>w_auth := pg_start a, w_mfa := pg_start m,
     w_presence := pg_start p, w_redis := r, w_ids := i, w_rand := x\<rparr>\<rparr>"

abbreviation load_rts where
  "load_rts \<equiv> core_router toy_json load_ex sample_cfg sample_media 10"

lemma load_routes:
  "\<exists>rt. route_at load_rts ''POST'' ''/v1/auth/signup'' = Some rt
     \<and> rt_endpoint rt = (\<lambda>p. loginRateLimit load_ex 10 (auth_signUp toy_json (core_auth load_ex sample_cfg) p))"
  "\<exists>rt. route_at load_rts ''POST'' ''/v1/auth/mfa/enroll'' = Some rt
     \<and> rt_endpoint rt = (\<lambda>p. RequireAuth (core_authenticator load_ex sample_cfg) (auth_mfaEnroll toy_json (core_auth load_ex sample_cfg) p))"
  "\<exists>rt. route_at load_rts ''POST'' ''/v1/auth/mfa/verify'' = Some rt
     \<and> rt_endpoint rt = (\<lambda>p. RequireAuth (core_authenticator load_ex sample_cfg) (auth_mfaVerify toy_json (core_auth load_ex sample_cfg) p))"
  unfolding core_router_def buildRouter_def
  by (simp_all add: route_at_append mounts) (simp_all add: route_at_def)

lemma line_end_char: "line_end = [CHR 0x0A]"
  unfolding line_end_def by code_simp

lemma load_texts: "Itoa 0 = ''0''" "Itoa 1 = ''1''" "Itoa 2 = ''2''" "TrimSpace ''Presence Load Test'' = ''Presence Load Test''"
  "load_email \<noteq> []"
  by (code_simp, code_simp, code_simp, rule TrimSpace_visible, simp, code_simp, code_simp, unfold load_email_def, simp)

lemma credentials_decoded:
  "rq_body rq = ''u'' \<Longrightarrow> DecodeJSON toy_json credentials_fields no_credentials rq
     = Inr (no_credentials\<lparr>cr_Email := load_email, cr_Password := ''LoadTest!2026'', cr_DisplayName := ''Presence Load Test''\<rparr>)"
proof -
  have names: "\<not> EqualFold ''email'' ''display_name''" "\<not> EqualFold ''password'' ''display_name''" "\<not> EqualFold ''email'' ''password''"
    "EqualFold x x" for x
    by (code_simp, code_simp, code_simp, simp add: EqualFold_def)
  assume "rq_body rq = ''u''"
  then show ?thesis
    by (simp add: DecodeJSON_def toy_json_def toy_texts maxBodyBytes_def signup_body_def decode_struct_def credentials_fields_def
        field_setter_def names text_field_def no_credentials_def)
qed

definition factors_of :: "totp_row option \<Rightarrow> mfa_tables" where
  "factors_of f = \<lparr>mt_users = {''id-1''}, user_mfa_totp = (case f of None \<Rightarrow> Map.empty | Some row \<Rightarrow> [''id-1'' \<mapsto> row])\<rparr>"

definition load_tables :: presence_tables where
  "load_tables = sample_tables\<lparr>tb_users := (tb_users sample_tables)
     (''id-1'' \<mapsto> \<lparr>display_name = '''', avatar_url = None, deleted_at = None\<rparr>)\<rparr>"

definition no_accounts :: auth_tables where
  "no_accounts = \<lparr>at_users = [], user_auth_identities = [], user_devices = [], tb_refresh_tokens = [], at_uuids = 0\<rparr>"

lemma load_start: "load_core = load_state no_accounts (factors_of None) load_tables load_redis (NewSequential ''id'') 0"
  by (simp add: load_state_def load_core_def no_accounts_def factors_of_def load_tables_def sample_world_def)

lemmas load_eval = core_auth_def load_core_def load_ex_def on_world_def Let_def sample_user_eval load_state_def
    load_texts core_clock_def core_ids_def

lemma load_limit:
  "\<exists>r. Allow (core_limiter load_ex) k 10 Minute (load_state a m p load_redis i x) = (Inr (True, 0), load_state a m p r i x)"
  by (simp add: core_limiter_def on_world_def load_state_def load_core_def load_ex_def world_limiter_def RedisRateLimiter_def
      sample_index load_redis_def sample_world_def duration_defs)

lemma load_signup:
  "\<exists>a i x res row. SignUp (core_auth load_ex sample_cfg) \<lparr>su_Email = load_email, su_Password = ''LoadTest!2026'',
       su_DisplayName = ''Presence Load Test'', su_Device = None\<rparr> (load_state no_accounts m p r (NewSequential ''id'') 0)
         = (Inr res, load_state a m p r i x)
     \<and> ar_UserID res = ''id-1'' \<and> ar_AccessToken res = ''0'' \<and> at_users a = [(row, None)] \<and> us_ID row = ''id-1''"
  by (simp add: SignUp_def load_email_plain load_eval no_accounts_def)

lemma load_token:
  "au_Authenticate (core_authenticator load_ex sample_cfg) ''0'' (load_state a m p r i x) = (Inr ''id-1'', load_state a m p r i x)"
  by (simp add: core_authenticator_def Authenticate_def load_eval)

lemma load_enroll:
  assumes "at_users a = [(row, None)]" and "us_ID row = ''id-1''"
  shows "EnrollMFA (core_auth load_ex sample_cfg) ''id-1'' (load_state a (factors_of None) p r i x)
    = (Inr (''seed'', ''uri''), load_state a (factors_of (Some \<lparr>totp_secret = ''seed'', totp_verified_at = None\<rparr>)) p r i x)"
  using assms
  by (simp add: EnrollMFA_def load_eval mfa_EnrollURI_def mfa_enroll_def server_challenger_def pg_user_GetByID_def
      pg_secret_repo_def pg_secret_Upsert_def upsert_totp_def factors_of_def)

lemma load_verify:
  "VerifyMFA (core_auth load_ex sample_cfg) ''id-1'' ''000000''
     (load_state a (factors_of (Some \<lparr>totp_secret = ''seed'', totp_verified_at = None\<rparr>)) p r i x)
    = (Inr True, load_state a (factors_of (Some \<lparr>totp_secret = ''seed'', totp_verified_at = Some 10\<rparr>)) p r i x)"
  by (simp add: VerifyMFA_def load_eval mfa_Verify_def mfa_check_def mfa_activate_def server_challenger_def
      pg_secret_repo_def pg_secret_Get_def pg_secret_MarkVerified_def mark_totp_def factors_of_def)

lemma load_settings:
  "\<exists>s p1 s' p2. GrantConsent (core_settings_service load_ex sample_cfg) ''id-1''
       (load_state a (factors_of (Some \<lparr>totp_secret = ''seed'', totp_verified_at = Some 10\<rparr>)) load_tables r i x)
         = (Inr s, load_state a (factors_of (Some \<lparr>totp_secret = ''seed'', totp_verified_at = Some 10\<rparr>)) p1 r i x)
     \<and> SettingsService_Update (core_settings_service load_ex sample_cfg) ''id-1'' load_input
       (load_state a (factors_of (Some \<lparr>totp_secret = ''seed'', totp_verified_at = Some 10\<rparr>)) p1 r i x)
         = (Inr s', load_state a (factors_of (Some \<lparr>totp_secret = ''seed'', totp_verified_at = Some 10\<rparr>)) p2 r i x)"
  apply (simp add: GrantConsent_def core_settings_service_def server_settings_def core_MFA_on_world HasVerifiedMFA_def
      load_eval mfa_HasVerified_def server_challenger_def pg_secret_repo_def pg_secret_Get_def factors_of_def
      SettingsService_Get_def world_settings_def pg_settings_repo_def pg_settings_Get_def row_settings_def load_tables_def
      sample_tables_def)
  apply (simp add: pg_settings_Upsert_def upsert_settings_def sample_auth_eval DefaultPrivacySettings_def valid_settings_def IsValidVisibility_def
      IsValidRadius_def AllowedRadiiM_def IsValidRevealLevel_def visibility_defs reveal_defs)
  apply (simp add: SettingsService_Update_def SettingsService_Get_def apply_input_def load_input_def sample_auth_eval row_settings_def
      pg_settings_Upsert_def upsert_settings_def valid_settings_def IsValidVisibility_def
      IsValidRadius_def AllowedRadiiM_def IsValidRevealLevel_def visibility_defs reveal_defs settings_of_row_def)
  apply (simp add: DefaultRadiusM_def)
  done

text \<open>What the network makes of the calls.\<close>

abbreviation request_of :: "(string \<rightharpoonup> string) \<Rightarrow> string \<Rightarrow> http_request" where
  "request_of h b \<equiv> \<lparr>rq_header = h, rq_query = Map.empty, rq_Host = '''', rq_RemoteAddr = '''', rq_body = b, rq_user = None\<rparr>"

lemma load_send:
  assumes "route_at load_rts method path = Some rt"
  shows "send_call (pl_net load_pl) method (''api'' @ path) h b w
    = (case rt_endpoint rt Map.empty (request_of h b) w of (res, w') \<Rightarrow> (Inr (rs_status res, answer_text toy_render res), w'))"
  using relay_route [OF assms, where base = "''api''" and render = toy_render]
  by (simp add: send_call_def load_pl_def)

lemma load_authorized:
  "RequireAuth (core_authenticator load_ex sample_cfg) h (request_of (authHeader ''0'') b) (load_state a m p r i x)
    = h (WithUserID ''id-1'' (request_of (authHeader ''0'') b)) (load_state a m p r i x)"
  by (simp add: RequireAuth_def authHeader_def first_value_def bearer_def HasPrefix_def TrimPrefix_def load_token)

lemma load_user: "current_user (WithUserID u rq) = u" "rq_body (WithUserID u rq) = rq_body rq"
  by (simp_all add: current_user_def WithUserID_def)

lemma load_answers:
  "toy_parse (answer_text toy_render (ok_json 201 (toAuthResponse toy_json res)))
     = Complete (DObj [(''user_id'', DStr (ar_UserID res)), (''access_token'', DStr (ar_AccessToken res))]) ''''"
proof -
  have "unquote (quoted x @ quoted y @ line_end) = (x, quoted y @ line_end)" "unquote (quoted y @ line_end) = (y, line_end)" for x y
    by (rule unquote_quoted, simp add: quoted_def, rule unquote_quoted, simp add: line_end_char)
  then show ?thesis
    by (simp add: answer_text_def ok_json_def WriteJSON_def toAuthResponse_def toy_render_def toy_parse_def)
qed

lemma load_account_fields:
  "decode_known signup_fields (DObj [(''user_id'', DStr u), (''access_token'', DStr t)]) ('''', '''') = Some (u, t)"
proof -
  have "\<not> EqualFold ''user_id'' ''access_token''" "EqualFold x x" for x by (code_simp, simp add: EqualFold_def)
  then show ?thesis by (simp add: decode_known_def signup_fields_def field_setter_def text_field_def)
qed

lemma load_net: "nt_parse (pl_net load_pl) = toy_parse" "mustJSON (pl_net load_pl) = toy_render"
  by (simp_all add: load_pl_def mustJSON_def fun_eq_iff)

lemma load_sign_up:
  "\<exists>a i x r row. presence_signUp load_pl ''api'' load_email load_core
      = (Inr (''0'', ''id-1''), load_state a (factors_of None) load_tables r i x)
    \<and> at_users a = [(row, None)] \<and> us_ID row = ''id-1''"
proof -
  obtain rt where rt: "route_at load_rts ''POST'' ''/v1/auth/signup'' = Some rt"
    "rt_endpoint rt = (\<lambda>p. loginRateLimit load_ex 10 (auth_signUp toy_json (core_auth load_ex sample_cfg) p))"
    using load_routes(1) by blast
  let ?rq = "request_of json_header ''u''"
  obtain r where lim: "Allow (core_limiter load_ex) (ClientIPKey ''login'' ?rq) 10 Minute load_core
      = (Inr (True, 0), load_state no_accounts (factors_of None) load_tables r (NewSequential ''id'') 0)"
    using load_limit unfolding load_start by blast
  obtain a i x res row where up: "SignUp (core_auth load_ex sample_cfg) \<lparr>su_Email = load_email, su_Password = ''LoadTest!2026'',
       su_DisplayName = ''Presence Load Test'', su_Device = None\<rparr>
         (load_state no_accounts (factors_of None) load_tables r (NewSequential ''id'') 0)
       = (Inr res, load_state a (factors_of None) load_tables r i x)"
    and res: "ar_UserID res = ''id-1''" "ar_AccessToken res = ''0''" "at_users a = [(row, None)]" "us_ID row = ''id-1''"
    using load_signup by blast
  have "rt_endpoint rt Map.empty ?rq load_core = (ok_json 201 (toAuthResponse toy_json res), load_state a (factors_of None) load_tables r i x)"
    using lim up
    by (simp add: rt(2) loginRateLimit_def RateLimit_def auth_signUp_def with_body_def credentials_decoded [unfolded no_credentials_def, simplified]
        no_credentials_def device_toInput_def respond_def)
  then have "presence_signUp load_pl ''api'' load_email load_core = (Inr (''0'', ''id-1''), load_state a (factors_of None) load_tables r i x)"
    using load_answers [of res] load_account_fields res(1,2)
    by (simp add: presence_signUp_def sign_up_def http_Post_def bindE_def load_send [OF rt(1), simplified] load_net toy_texts
        from_sum_run Decode_first_def) (simp add: ok_json_def WriteJSON_def)
  with res(3,4) show ?thesis by blast
qed

abbreviation enrolled :: "time option \<Rightarrow> mfa_tables" where
  "enrolled t \<equiv> factors_of (Some \<lparr>totp_secret = ''seed'', totp_verified_at = t\<rparr>)"

lemma load_enroll_call:
  assumes "at_users a = [(row, None)]" and "us_ID row = ''id-1''"
  shows "enrollMFA load_pl ''api'' ''0'' (load_state a (factors_of None) p r i x) = (Inr ''seed'', load_state a (enrolled None) p r i x)"
proof -
  obtain rt where rt: "route_at load_rts ''POST'' ''/v1/auth/mfa/enroll'' = Some rt"
    "rt_endpoint rt = (\<lambda>p. RequireAuth (core_authenticator load_ex sample_cfg) (auth_mfaEnroll toy_json (core_auth load_ex sample_cfg) p))"
    using load_routes(2) by blast
  have "EqualFold y y" for y by (simp add: EqualFold_def)
  then show ?thesis
    using load_enroll [OF assms]
    by (simp add: load_net enrollMFA_def doJSON_def do_call_def bindE_def load_send [OF rt(1), simplified] rt(2) load_authorized
        auth_mfaEnroll_def respond_def load_user ok_json_def WriteJSON_def answer_text_def toy_render_def toy_parse_def
        line_end_char from_sum_run Decode_first_def decode_known_def secret_field_def field_setter_def text_field_def)
qed

lemma load_verify_call:
  "verifyMFA load_pl ''api'' ''0'' ''000000'' (load_state a (enrolled None) p r i x) = (Inr (), load_state a (enrolled (Some 10)) p r i x)"
proof -
  obtain rt where rt: "route_at load_rts ''POST'' ''/v1/auth/mfa/verify'' = Some rt"
    "rt_endpoint rt = (\<lambda>p. RequireAuth (core_authenticator load_ex sample_cfg) (auth_mfaVerify toy_json (core_auth load_ex sample_cfg) p))"
    using load_routes(3) by blast
  have fold: "EqualFold y y" for y by (simp add: EqualFold_def)
  have "DecodeJSON toy_json mfaVerifyRequest '''' rq = Inr ''000000''" if "rq_body rq = ''c000000''" for rq
    using that
    by (simp add: DecodeJSON_def toy_json_def toy_texts maxBodyBytes_def code_body_def decode_struct_def mfaVerifyRequest_def
        one_text_def field_setter_def fold text_field_def)
  moreover have "mustJSON (pl_net load_pl) (code_body ''000000'') = ''c000000''" by (simp add: load_net toy_texts)
  ultimately show ?thesis
    using load_verify [of a p r i x]
    by (simp add: verifyMFA_def doJSON_def do_call_def bindE_def load_send [OF rt(1), simplified] rt(2) load_authorized
        auth_mfaVerify_def with_body_def respond_def load_user NoContent_def from_sum_run no_result_def)
qed

lemma load_settings_calls:
  "\<exists>p1 p2. load_grantConsent load_pl ''api'' ''0'' (load_state a (enrolled (Some 10)) load_tables r i x)
       = (Inr (), load_state a (enrolled (Some 10)) p1 r i x)
     \<and> load_updateSettings load_pl ''api'' ''0'' (load_state a (enrolled (Some 10)) p1 r i x)
       = (Inr (), load_state a (enrolled (Some 10)) p2 r i x)"
proof -
  obtain s p1 s' p2 where grant: "GrantConsent (core_settings_service load_ex sample_cfg) ''id-1''
       (load_state a (enrolled (Some 10)) load_tables r i x) = (Inr s, load_state a (enrolled (Some 10)) p1 r i x)"
    and update: "SettingsService_Update (core_settings_service load_ex sample_cfg) ''id-1'' load_input
       (load_state a (enrolled (Some 10)) p1 r i x) = (Inr s', load_state a (enrolled (Some 10)) p2 r i x)"
    using load_settings [of a r i x] by blast
  obtain rt where rt: "route_at load_rts ''POST'' ''/v1/presence/consent'' = Some rt"
    "rt_endpoint rt = (\<lambda>p. RequireAuth (core_authenticator load_ex sample_cfg) (presence_grantConsent toy_json (core_settings_service load_ex sample_cfg) p))"
    using consent_route [of toy_json load_ex sample_cfg sample_media 10] by blast
  obtain rt2 where rt2: "route_at load_rts ''PUT'' ''/v1/presence/settings'' = Some rt2"
    "rt_endpoint rt2 = (\<lambda>p. RequireAuth (core_authenticator load_ex sample_cfg) (presence_updateSettings toy_json (core_settings_service load_ex sample_cfg) p))"
    using settings_route [of toy_json load_ex sample_cfg sample_media 10] by blast
  have decoded: "DecodeJSON toy_json updateSettingsRequest no_changes rq = Inr load_input" if "rq_body rq = ''s''" for rq
    using that by (intro settings_body_decoded [of _ "''s''"]) (simp_all add: toy_json_def toy_texts maxBodyBytes_def)
  have body: "mustJSON (pl_net load_pl) settings_body = ''s''" by (simp add: load_net toy_texts)
  note calls = doJSON_def do_call_def bindE_def load_authorized respond_def load_user ok_json_def WriteJSON_def from_sum_run no_result_def
  show ?thesis
    using grant update
    by (intro exI [of _ p1] exI [of _ p2] conjI)
      (simp_all add: load_grantConsent_def load_updateSettings_def calls load_send [OF rt(1), simplified] rt(2)
        load_send [OF rt2(1), simplified] rt2(2) presence_grantConsent_def presence_updateSettings_def with_body_def decoded body)
qed

lemma load_setup:
  "\<exists>w'. setupClient load_pl ''api'' ''ws'' 0 load_core
     = (Inr \<lparr>cl_userID = ''id-1'', cl_token = ''0'', cl_conn = ()\<rparr>, w')"
proof -
  obtain a i x r row where up: "presence_signUp load_pl ''api'' load_email load_core
      = (Inr (''0'', ''id-1''), load_state a (factors_of None) load_tables r i x)"
    and row: "at_users a = [(row, None)]" "us_ID row = ''id-1''" using load_sign_up by blast
  obtain p1 p2 where calls: "load_grantConsent load_pl ''api'' ''0'' (load_state a (enrolled (Some 10)) load_tables r i x)
       = (Inr (), load_state a (enrolled (Some 10)) p1 r i x)"
    "load_updateSettings load_pl ''api'' ''0'' (load_state a (enrolled (Some 10)) p1 r i x)
       = (Inr (), load_state a (enrolled (Some 10)) p2 r i x)" using load_settings_calls by blast
  have now: "pl_now load_pl w = (Inr 7, w)" "connectWS load_pl u t w = (Inr (), w)" "pl_GenerateCode load_pl k m = Inr ''000000''" for w u t k m
    by (simp_all add: pl_now_def call_def connectWS_def load_pl_def)
  show ?thesis
    using up [unfolded load_email_def] calls load_enroll_call [OF row] load_verify_call
    by (simp add: setupClient_def now bindE_def wrapE_def from_sum_run Let_def)
qed

lemma setup_makes_visible_witness:
  "\<exists>w' s. setupClient load_pl ''api'' ''ws'' 0 load_core = (Inr \<lparr>cl_userID = ''id-1'', cl_token = ''0'', cl_conn = ()\<rparr>, w')
     \<and> s = on_record (core_record w') ''id-1'' \<and> HasActiveConsent s 10
     \<and> PresenceVisibility s = VisibilityEveryone \<and> \<not> Paused s"
proof -
  obtain w' where run: "setupClient load_pl ''api'' ''ws'' 0 load_core
      = (Inr \<lparr>cl_userID = ''id-1'', cl_token = ''0'', cl_conn = ()\<rparr>, w')" using load_setup by blast
  have jwt: "jwt_library (ex_jwt load_ex)" by (simp add: load_ex_def table_library.jwt_library_axioms)
  have ttl: "Second \<le> dp_AccessTokenTTL sample_cfg" by (simp add: sample_cfg_def duration_defs)
  have net: "nt_Do (pl_net load_pl) = relay toy_render ''api'' load_rts (\<lambda>_. throw (Foreign ''down''))" by (simp add: load_pl_def)
  have reads: "reads_account toy_json toy_render (pl_net load_pl)"
    by (simp add: reads_account_def Decode_first_def load_net load_answers load_account_fields)
  have json: "je_parse toy_json (nt_render (pl_net load_pl) settings_body) = Complete settings_body ''''"
    "length (nt_render (pl_net load_pl) settings_body) \<le> maxBodyBytes"
    by (simp_all add: load_pl_def toy_json_def toy_texts maxBodyBytes_def)
  have dial: "keeps core_record (pl_Dial load_pl url)" for url by (simp add: load_pl_def keeps_ret)
  have valid: "0 \<le> cl_NotBefore cl" if "jwt_encode (ex_jwt load_ex) cl = Inr ''0''" for cl
    using that by (auto simp: load_ex_def table_jwt_def sample_claims_def split: if_splits option.splits)
  from setup_makes_visible [OF jwt ttl net reads json dial run] obtain cl s where
    cl: "jwt_encode (ex_jwt load_ex) cl = Inr ''0''" "\<forall>q < cl_NotBefore cl + ConsentValidityPeriod. HasActiveConsent s q"
    and s: "s = on_record (core_record w') ''id-1''" "PresenceVisibility s = VisibilityEveryone" "\<not> Paused s" by auto
  have "10 < cl_NotBefore cl + ConsentValidityPeriod" using valid [OF cl(1)] by (simp add: ConsentValidityPeriod_def duration_defs)
  with cl(2) have "HasActiveConsent s 10" by blast
  with run s show ?thesis by blast
qed

section \<open>A late answer\<close>

text \<open>Two clients, a server that has answered the first updates and then stands still.\<close>

definition stale_pl :: "(string list, unit) presence_load" where
  "stale_pl = \<lparr>
     pl_net = \<lparr>nt_clock = \<lparr>Now = (\<lambda>w. (7, w))\<rparr>, nt_NewRequest = (\<lambda>_. None), nt_Do = (\<lambda>_. throw (Foreign ''down'')),
        nt_parse = (\<lambda>_. Complete (DObj [(''type'', DStr ''nearby_update''), (''users'', DArr [DObj [(''user_id'', DStr ''a'')]])]) ''''),
        nt_render = (\<lambda>_. ''''), nt_number = (\<lambda>_. DNumber ''0''), nt_fits = (\<lambda>_. True)\<rparr>,
     pl_Dial = (\<lambda>_. ret ()), pl_WriteJSON = (\<lambda>_ _. ret ()),
     pl_ReadMessage = (\<lambda>_ w. case w of [] \<Rightarrow> (Inl (Foreign ''deadline''), w) | s # rest \<Rightarrow> (Inr s, rest)),
     pl_Close = (\<lambda>_. ret ()), pl_GenerateCode = (\<lambda>_ _. Inr ''''), pl_Sleep = (\<lambda>_ w. w), pl_Print = (\<lambda>_ w. w)\<rparr>"

lemma stale_frame_counts_witness:
  "fst (measure_fanout stale_pl [Reads 0] [] 2
     [\<lparr>cl_userID = ''a'', cl_token = '''', cl_conn = ()\<rparr>, \<lparr>cl_userID = ''b'', cl_token = '''', cl_conn = ()\<rparr>] [''frame'']) = Inr 0"
proof -
  have fold: "\<not> EqualFold ''type'' ''users''" "EqualFold x x" for x by (code_simp, simp add: EqualFold_def)
  have rep: "reports stale_pl ''a'' s" for s
    by (simp add: reports_def Unmarshal_def stale_pl_def decode_known_def frame_users_def field_setter_def fold text_field_def list_field_def)
  show ?thesis
    using stale_frame_counts [of stale_pl "[''frame'']" 7 "[''frame'']" 0
        "[\<lparr>cl_userID = ''a'', cl_token = '''', cl_conn = ()\<rparr>, \<lparr>cl_userID = ''b'', cl_token = '''', cl_conn = ()\<rparr>]"
        "''frame''" "[]" 7 "[]" "()" "[]" "[]" 2]
    by (simp add: rep) (simp add: stale_pl_def sendUpdate_def)
qed

end
