(* ===== verification/Spec2Isabelle.thy ===== *)
theory Spec2Isabelle
  imports Presence_Claims Auth_Claims Core_Claims Router_Claims Journey Process_Claims Load_Claims
begin

text \<open>
  Verification development of the smusic backend (Go, \<^verbatim>\<open>src/backend\<close>).

  \<^bold>\<open>The program.\<close> Two processes share PostgreSQL and Redis. The core process (\<^verbatim>\<open>cmd/server\<close>) serves
  accounts and sessions, a catalog, playlists and saved tracks, playback sessions, and the privacy
  settings of the presence feature over REST. The presence process (\<^verbatim>\<open>cmd/presence-server\<close>) keeps a
  WebSocket per user: a frame with a position updates a live index and is answered with the users
  nearby that may be shown. Consent is granted and revoked in the one process and obeyed in the other.

  \<^bold>\<open>Shape of the model.\<close> An operation that returns \<^verbatim>\<open>(T, error)\<close> is a function from a state to a sum
  of an error and a result, and the state after (\<open>('w, 'a) io\<close> of \<open>Prelude\<close>); \<open>bindE\<close> is
  \<^verbatim>\<open>if err != nil { return ..., err }\<close>. An error is a value (\<open>err\<close>): a sentinel, a wrapped or detailed
  one, or one of a library; \<open>errors_Is\<close> is \<^verbatim>\<open>errors.Is\<close>. A Go interface is a record of operations, a
  struct a record, and an implementation a definition of such a record. What a client relies on of an
  interface is a locale; the provider's theory interprets it on its own definitions.

  \<^bold>\<open>Foundations.\<close>
  \<^item> \<open>Prelude\<close>: errors, operations, the frame predicates \<open>keeps\<close> and \<open>moves\<close> with their rule collections.
  \<^item> \<open>Go_Strings\<close>, \<open>Go_Scan\<close>, \<open>Go_Duration\<close>, \<open>Float64\<close>, \<open>Flags\<close>: what the code uses of \<^verbatim>\<open>strings\<close>, \<^verbatim>\<open>strconv\<close>,
    \<^verbatim>\<open>fmt.Sscanf\<close>, \<^verbatim>\<open>base64\<close>, \<^verbatim>\<open>hex\<close>, \<^verbatim>\<open>time.ParseDuration\<close>, float64 arithmetic and \<^verbatim>\<open>flag\<close>.
  \<^item> \<open>Platform\<close>: \<^verbatim>\<open>platform/clock\<close>, \<^verbatim>\<open>platform/idgen\<close>, the rate limiter's interface.
  \<^item> \<open>Postgres\<close>, \<open>Redis\<close>: the two servers, as documented, with delays and lost answers.
  \<^item> \<open>Paging\<close>: keyset pagination and what a client that follows the cursors sees.

  \<^bold>\<open>Presence.\<close>
  \<^item> \<open>Geo\<close>: \<^verbatim>\<open>presence/bucket.go\<close> (distance, buckets, jitter).
  \<^item> \<open>Presence_Domain\<close>: \<^verbatim>\<open>domain.go\<close>, \<^verbatim>\<open>repo.go\<close>, \<^verbatim>\<open>geo.go\<close>, \<^verbatim>\<open>ratelimit.go\<close> with the contracts of the repositories.
  \<^item> \<open>Settings_Service\<close>, \<open>Nearby_Service\<close>: the two services; the lemmas say what they store and whom they show.
  \<^item> \<open>Rate_Limiter\<close>: \<^verbatim>\<open>platform/cache/ratelimiter.go\<close>; \<open>Geo_Index\<close>: \<^verbatim>\<open>presence/redisstore\<close>.
  \<^item> \<open>Presence_Postgres\<close>: \<^verbatim>\<open>presence/postgres\<close>.
  \<^item> \<open>Hub\<close>: \<^verbatim>\<open>hub.go\<close> as a run of events, with workers that take jobs and finish them in any order; \<open>Ws_Conn\<close>, \<open>Ws_Handler\<close>: \<^verbatim>\<open>presence/ws\<close>, a connection with its
    writer as a step relation, the handshake and the read loop.

  \<^bold>\<open>Auth.\<close> \<open>Auth_Service\<close>, \<open>Auth_Postgres\<close>, \<open>Mfa\<close>, \<open>Token\<close>, \<open>Password\<close>: the packages under \<^verbatim>\<open>auth\<close>.

  \<^bold>\<open>Catalog, library, playback.\<close> \<open>Catalog_Service\<close>, \<open>Catalog_Postgres\<close>, \<open>Catalog_Laws\<close>;
  \<open>Library_Service\<close>, \<open>Library_Postgres\<close>, \<open>Library_Laws\<close>; \<open>Playback_Service\<close>, \<open>Playback_Store\<close>,
  \<open>Player\<close> (a request as its read, look-up, write and record, the interleavings of these parts, and the
  session as one player that executes commands).

  \<^bold>\<open>HTTP.\<close> \<open>Middleware\<close>: \<^verbatim>\<open>platform/middleware\<close> and the writers of \<^verbatim>\<open>platform/httpx\<close>; \<open>Json_Api\<close>: its
  \<^verbatim>\<open>DecodeJSON\<close> and the shape of a handler; \<open>Auth_Api\<close>, \<open>Presence_Api\<close>, \<open>Playback_Api\<close>, \<open>Library_Api\<close>,
  \<open>Catalog_Api\<close>: the packages \<^verbatim>\<open>api\<close>; \<open>Api_Laws\<close>, \<open>Frames\<close>: what handlers and whole modules leave alone.

  \<^bold>\<open>The processes.\<close> \<open>World\<close> wires auth, settings and the query engine on the state the processes share;
  \<open>Core\<close> and \<open>Core_Library\<close> add the media modules; \<open>Feed\<close> is the hub and the handler of the presence
  process; \<open>Router\<close> is \<^verbatim>\<open>buildRouter\<close>; \<open>Core_Frames\<close> instantiates the frames. \<open>Config\<close>, \<open>Startup\<close> and
  \<open>Process\<close> go from the environment to the exit status: \<^verbatim>\<open>run\<close> and \<^verbatim>\<open>main\<close> of the two servers and of
  \<^verbatim>\<open>cmd/migrate\<close>, with \<^verbatim>\<open>platform/dbx\<close>, \<^verbatim>\<open>platform/cache/redis.go\<close> and \<^verbatim>\<open>platform/logging\<close>, over the history of
  what a process did to the outside. \<open>Samples\<close> and \<open>Core_Samples\<close> are small worlds on which every
  property is run.

  \<^bold>\<open>Tools.\<close> \<open>Test_Pool\<close>: \<^verbatim>\<open>platform/dbx/dbxtest\<close>, the container and the pool of an integration test, on the
  same histories as the processes. \<open>Http_Client\<close>: the calls and the reading of answers that the load tests
  share; \<open>Load_Http\<close>: \<^verbatim>\<open>loadtest/http\<close>; \<open>Load_Presence\<close>: \<^verbatim>\<open>loadtest/presence\<close>, its goroutines running in an
  order that is an argument. \<open>Load_Laws\<close> shows what a run opens, closes and measures, by running it beside a
  copy of itself that keeps a trail; \<open>Load_Core\<close> joins the client to the routes of the core process and
  follows a client's set-up into the stored settings; \<open>Load_Claims\<close> executes one.

  \<^bold>\<open>Properties\<close> stand in \<open>Presence_Claims\<close> (who is shown to whom, consent, audit, the feed),
  \<open>Auth_Claims\<close> (accounts, sessions, factors), \<open>Core_Claims\<close> (playback, catalog, library),
  \<open>Router_Claims\<close> (what holds on every route), \<open>Journey\<close> (from a verified factor to the feed, over both
  processes), \<open>Process_Claims\<close> (resources, listening, ending, one key for two processes), and, where they concern one component, in its theory
  (\<open>Hub\<close>, \<open>Ws_Conn\<close>, \<open>Password\<close>, \<open>Config\<close>, \<open>Load_Laws\<close>, \<open>Load_Core\<close>).

  \<^bold>\<open>Parameters.\<close> Redis and PostgreSQL, the JWT, OTP and Argon2 libraries, Ed25519, SHA-256, HMAC,
  \<^verbatim>\<open>crypto/rand\<close>, UUIDv7, gorilla/websocket, \<^verbatim>\<open>url.Parse\<close>, the grammar of JSON, chi's path matching, the
  collation and \<^verbatim>\<open>pg_trgm\<close> similarity of the database, the encoding of cursors, the formatting of times; for the tools the
  network, vegeta, testcontainers and golang-migrate.
  What the properties need of them is a hypothesis, which their witnesses discharge on a concrete instance.

  \<^bold>\<open>Conventions and limits.\<close>
  \<^item> A Go string is its bytes; case is folded on ASCII letters only. Texts from a request are valid UTF-8,
    and an identifier is the canonical text of a UUID where it reaches the database.
  \<^item> Time is an integer of nanoseconds; \<^verbatim>\<open>timestamptz\<close>'s microseconds are not modelled. Numbers have the range of their Go type where
    it matters (bodies, durations, Argon2 parameters, positions); positions of playlist entries are float64.
  \<^item> Distances and angles are reals.
  \<^item> Tables are lists and maps with the constraints of the migrations. The tables \<open>tb_users\<close>, \<open>at_users\<close>,
    \<open>md_users\<close> are projections of one table, kept apart because no module writes another's.
    The \<^verbatim>\<open>CHECK\<close>s are written out with the values of the migrations and proved to be the services' own
    rules. Rows that compare equal under an \<^verbatim>\<open>ORDER BY\<close> come in storage order; \<open>playlist_order\<close> is stated
    over every order the SQL allows (\<open>listed\<close>).
  \<^item> A statement is atomic, a service call is a sequence of statements, and properties about races
    interleave the parts of a call explicitly (\<open>refresh_admit\<close>, \<open>enqueue_read\<close>, \<open>next_part\<close> of a playback
    request). A worker of the hub takes a job in one step and has processed it in a later one, other workers
    and connections acting in between; what the job does to the stores is one sequence at that moment. A
    queue of capacity zero refuses what is offered to it unless a free worker takes it over (\<open>Ev_hand\<close>).
  \<^item> \<open>walk_pages\<close> has fuel; \<open>search_sees_all\<close> and \<open>saved_track_listed_once\<close> ask for more fuel than there are
    rows, which is enough because every page but the last is not empty.
    \<open>duration_loop\<close> is a partial function, and \<open>Load_returns\<close> shows that it ends.
  \<^item> nil and an empty queue are one list. An error's text keeps \<^verbatim>\<open>%q\<close> and \<^verbatim>\<open>%d\<close> unformatted.
  \<^item> In a body, field names are compared up to ASCII case, and a repeated list field replaces the list.
    In stored documents names are compared exactly.
  \<^item> A malformed identifier in a path, which PostgreSQL refuses as an error of its own, is one that is not on
    record; the email of an account is folded like every other text.
  \<^item> In \<open>Load_Core\<close> a request reaches the route whose path it names; paths with parameters, which the presence
    load test does not call, are left to an argument. Log lines of the load tests are left out.
  \<^item> A panic of the Argon2 library is an error value of its own; a send on the hub's closed queue is a step of its run.
  \<^item> A process is the sequence of its main goroutine: the hub's pool and the listener are started by a deed, and
    what they do is in \<open>Hub\<close>, \<open>Ws_Handler\<close> and \<open>Router\<close>. What golang-migrate takes, the connection of its
    driver and the source of the migrations, is never given back by the code and counts as left open.

  \<^bold>\<open>Not modelled.\<close> The file server under \<^verbatim>\<open>/media\<close> and the middlewares of chi and cors, which are libraries.
\<close>

end
